(* ===== verification/Prelude.thy ===== *)
theory Prelude
  imports Main
begin

text \<open>
  What every component of the development shares: the fact collections, fallible results as
  sums, the state-passing actions that model Rust methods taking \<open>&mut self\<close> and returning a
  \<open>Result\<close>, a weakest-precondition calculus for them, and the list operations that model
  the \<open>Vec\<close> and iterator calls of the source.
\<close>

named_theorems wp_simps "equations that push the weakest precondition through an action"
named_theorems wf_intros "introduction rules for the well-formedness invariant"
named_theorems run_intros "rules that take an action apart to reach the states it can end in"
named_theorems vec_simps "facts about the list operations that model Vec calls"

section \<open>Fallible results\<close>

text \<open>A Rust \<open>Result<T, E>\<close> is a value of \<open>'e + 'a\<close>; the \<open>?\<close> operator is \<open>bindE\<close>.\<close>

fun bindE :: "'e + 'a \<Rightarrow> ('a \<Rightarrow> 'e + 'b) \<Rightarrow> 'e + 'b" where
  "bindE (Inl e) f = Inl e"
| "bindE (Inr x) f = f x"

definition ok_or :: "'a option \<Rightarrow> 'e \<Rightarrow> 'e + 'a" where
  "ok_or r e = (case r of None \<Rightarrow> Inl e | Some x \<Rightarrow> Inr x)"

fun map_err :: "('e \<Rightarrow> 'f) \<Rightarrow> 'e + 'a \<Rightarrow> 'f + 'a" where
  "map_err g (Inl e) = Inl (g e)"
| "map_err g (Inr x) = Inr x"

text \<open>A \<open>for\<close> loop whose body may leave the function with \<open>?\<close>.\<close>

fun fold_res :: "('a \<Rightarrow> 'b \<Rightarrow> 'e + 'b) \<Rightarrow> 'a list \<Rightarrow> 'b \<Rightarrow> 'e + 'b" where
  "fold_res f [] acc = Inr acc"
| "fold_res f (x # xs) acc = bindE (f x acc) (fold_res f xs)"

lemma bindE_Inr_iff: "bindE r f = Inr y \<longleftrightarrow> (\<exists>x. r = Inr x \<and> f x = Inr y)"
  by (cases r) auto

lemma bindE_Inl_iff: "bindE r f = Inl e \<longleftrightarrow> r = Inl e \<or> (\<exists>x. r = Inr x \<and> f x = Inl e)"
  by (cases r) auto

lemma ok_or_simps [simp]:
  "ok_or None e = Inl e" "ok_or (Some x) e = Inr x"
  by (simp_all add: ok_or_def)

lemma ok_or_Inr_iff [simp]: "ok_or r e = Inr x \<longleftrightarrow> r = Some x"
  by (cases r) auto

lemma ok_or_Inl_iff [simp]: "ok_or r e = Inl e' \<longleftrightarrow> r = None \<and> e' = e"
  by (cases r) auto

lemma map_err_Inr_iff [simp]: "map_err g r = Inr x \<longleftrightarrow> r = Inr x"
  by (cases r) auto

lemma map_err_Inl_iff [simp]: "map_err g r = Inl e \<longleftrightarrow> (\<exists>e'. r = Inl e' \<and> e = g e')"
  by (cases r) auto

lemma fold_res_append: "fold_res f (xs @ ys) acc = bindE (fold_res f xs acc) (fold_res f ys)"
proof (induction xs arbitrary: acc)
  case (Cons x xs)
  show ?case by (cases "f x acc") (simp_all add: Cons.IH)
qed simp

lemma fold_res_total:
  assumes "\<And>x acc. x \<in> set xs \<Longrightarrow> f x acc = Inr (g x acc)"
  shows "fold_res f xs acc = Inr (fold g xs acc)"
  using assms by (induction xs arbitrary: acc) auto

lemma fold_res_invariant:
  assumes "fold_res f xs acc = Inr r" "P acc"
    and "\<And>x a b. x \<in> set xs \<Longrightarrow> P a \<Longrightarrow> f x a = Inr b \<Longrightarrow> P b"
  shows "P r"
  using assms by (induction xs arbitrary: acc) (auto simp: bindE_Inr_iff)

section \<open>State-passing actions\<close>

text \<open>
  A method that mutates the state and may fail is a function from the state to its result and
  the state it leaves behind. An error does not undo the mutations made before it, as in Rust.
\<close>

type_synonym ('s, 'e, 'a) act = "'s \<Rightarrow> ('e + 'a) \<times> 's"

definition ret :: "'a \<Rightarrow> ('s, 'e, 'a) act" where
  "ret x = (\<lambda>s. (Inr x, s))"

definition throw :: "'e \<Rightarrow> ('s, 'e, 'a) act" where
  "throw e = (\<lambda>s. (Inl e, s))"

definition bindA :: "('s, 'e, 'a) act \<Rightarrow> ('a \<Rightarrow> ('s, 'e, 'b) act) \<Rightarrow> ('s, 'e, 'b) act" where
  "bindA m f = (\<lambda>s. case m s of (Inl e, t) \<Rightarrow> (Inl e, t) | (Inr x, t) \<Rightarrow> f x t)"

definition thenA :: "('s, 'e, unit) act \<Rightarrow> ('s, 'e, 'b) act \<Rightarrow> ('s, 'e, 'b) act" where
  "thenA m k = bindA m (\<lambda>_. k)"

text \<open>\<open>gets\<close> reads the state, \<open>tryA\<close> runs a fallible reader (a \<open>&self\<close> method), \<open>modify\<close> writes.\<close>

definition gets :: "('s \<Rightarrow> 'a) \<Rightarrow> ('s, 'e, 'a) act" where
  "gets f = (\<lambda>s. (Inr (f s), s))"

definition tryA :: "('s \<Rightarrow> 'e + 'a) \<Rightarrow> ('s, 'e, 'a) act" where
  "tryA f = (\<lambda>s. (f s, s))"

definition modify :: "('s \<Rightarrow> 's) \<Rightarrow> ('s, 'e, unit) act" where
  "modify f = (\<lambda>s. (Inr (), f s))"

text \<open>An infallible method that returns a value and the new state, such as an id allocator.\<close>

definition stateA :: "('s \<Rightarrow> 'a \<times> 's) \<Rightarrow> ('s, 'e, 'a) act" where
  "stateA f = (\<lambda>s. (Inr (fst (f s)), snd (f s)))"

lemmas act_defs = ret_def throw_def bindA_def thenA_def gets_def tryA_def modify_def stateA_def

section \<open>Weakest preconditions\<close>

text \<open>
  \<open>wp m Q E s\<close>: running \<open>m\<close> from \<open>s\<close> ends in a state that satisfies \<open>Q\<close> with the result when
  it returns, and \<open>E\<close> with the error when it fails.
\<close>

definition wp :: "('s, 'e, 'a) act \<Rightarrow> ('a \<Rightarrow> 's \<Rightarrow> bool) \<Rightarrow> ('e \<Rightarrow> 's \<Rightarrow> bool) \<Rightarrow> 's \<Rightarrow> bool" where
  "wp m Q E s = (case m s of (Inl e, t) \<Rightarrow> E e t | (Inr x, t) \<Rightarrow> Q x t)"

lemma wp_ret [wp_simps]: "wp (ret x) Q E s = Q x s"
  by (simp add: wp_def ret_def)

lemma wp_throw [wp_simps]: "wp (throw e) Q E s = E e s"
  by (simp add: wp_def throw_def)

lemma wp_bindA [wp_simps]: "wp (bindA m f) Q E s = wp m (\<lambda>x. wp (f x) Q E) E s"
  by (simp add: wp_def bindA_def split: prod.splits sum.splits)

lemma wp_thenA [wp_simps]: "wp (thenA m k) Q E s = wp m (\<lambda>_. wp k Q E) E s"
  by (simp add: thenA_def wp_bindA)

lemma wp_gets [wp_simps]: "wp (gets f) Q E s = Q (f s) s"
  by (simp add: wp_def gets_def)

lemma wp_modify [wp_simps]: "wp (modify f) Q E s = Q () (f s)"
  by (simp add: wp_def modify_def)

lemma wp_stateA [wp_simps]: "wp (stateA f) Q E s = (case f s of (x, t) \<Rightarrow> Q x t)"
  by (simp add: wp_def stateA_def split: prod.splits)

lemma wp_tryA [wp_simps]: "wp (tryA f) Q E s = (case f s of Inl e \<Rightarrow> E e s | Inr x \<Rightarrow> Q x s)"
  by (simp add: wp_def tryA_def)

lemma wp_if [wp_simps]: "wp (if b then m1 else m2) Q E s = (if b then wp m1 Q E s else wp m2 Q E s)"
  by simp

lemma wp_case_option [wp_simps]:
  "wp (case r of None \<Rightarrow> m1 | Some x \<Rightarrow> m2 x) Q E s =
     (case r of None \<Rightarrow> wp m1 Q E s | Some x \<Rightarrow> wp (m2 x) Q E s)"
  by (cases r) simp_all

lemma wp_Let [wp_simps]: "wp (Let x m) Q E s = (let y = x in wp (m y) Q E s)"
  by (simp add: Let_def)

lemma wp_case_prod [wp_simps]:
  "wp (case p of (x, y) \<Rightarrow> m x y) Q E s = (case p of (x, y) \<Rightarrow> wp (m x y) Q E s)"
  by (cases p) simp

lemma wp_mono:
  assumes "wp m Q E s" "\<And>x t. Q x t \<Longrightarrow> Q' x t" "\<And>e t. E e t \<Longrightarrow> E' e t"
  shows "wp m Q' E' s"
  using assms by (auto simp: wp_def split: prod.splits sum.splits)

lemma wp_tryI:
  assumes "\<And>e. f s = Inl e \<Longrightarrow> E e s" "\<And>x. f s = Inr x \<Longrightarrow> Q x s"
  shows "wp (tryA f) Q E s"
  using assms by (simp add: wp_tryA split: sum.splits)

lemma wp_snd: "wp m (\<lambda>_. P) (\<lambda>_. P) s \<longleftrightarrow> P (snd (m s))"
  by (auto simp: wp_def split: prod.splits sum.splits)

lemma wp_Inr: "m s = (Inr x, t) \<Longrightarrow> wp m Q E s = Q x t"
  by (simp add: wp_def)

lemma wp_Inl: "m s = (Inl e, t) \<Longrightarrow> wp m Q E s = E e t"
  by (simp add: wp_def)

section \<open>The state an action ends in\<close>

text \<open>The predicate holds of the state after \<open>m\<close>, whether it returned or failed.\<close>

definition ends :: "('s \<Rightarrow> bool) \<Rightarrow> ('s, 'e, 'a) act \<Rightarrow> 's \<Rightarrow> bool" where
  "ends P m s \<longleftrightarrow> P (snd (m s))"

lemma ends_try [run_intros]:
  "P s \<Longrightarrow> (\<And>x. f s = Inr x \<Longrightarrow> ends P (k x) s) \<Longrightarrow> ends P (bindA (tryA f) k) s"
  by (auto simp: ends_def act_defs split: sum.splits)

lemma ends_gets [run_intros]: "ends P (k (f s)) s \<Longrightarrow> ends P (bindA (gets f) k) s"
  by (simp add: ends_def act_defs)

lemma ends_modify_then [run_intros]: "ends P k (f s) \<Longrightarrow> ends P (thenA (modify f) k) s"
  by (simp add: ends_def act_defs)

lemma ends_modify [run_intros]: "P (f s) \<Longrightarrow> ends P (modify f) s"
  by (simp add: ends_def act_defs)

lemma ends_ret [run_intros]: "P s \<Longrightarrow> ends P (ret x) s"
  by (simp add: ends_def act_defs)

lemma ends_throw [run_intros]: "P s \<Longrightarrow> ends P (throw e) s"
  by (simp add: ends_def act_defs)

lemma ends_ret_then [run_intros]: "ends P k s \<Longrightarrow> ends P (thenA (ret ()) k) s"
  by (simp add: ends_def act_defs)

lemma ends_if [run_intros]:
  "(b \<Longrightarrow> ends P m s) \<Longrightarrow> (\<not> b \<Longrightarrow> ends P k s) \<Longrightarrow> ends P (if b then m else k) s"
  by simp

lemma ends_if_then [run_intros]:
  "(b \<Longrightarrow> ends P (thenA m k) s) \<Longrightarrow> (\<not> b \<Longrightarrow> ends P (thenA m' k) s) \<Longrightarrow>
   ends P (thenA (if b then m else m') k) s"
  by simp

lemma ends_option [run_intros]:
  "(r = None \<Longrightarrow> ends P m s) \<Longrightarrow> (\<And>x. r = Some x \<Longrightarrow> ends P (k x) s) \<Longrightarrow>
   ends P (case r of None \<Rightarrow> m | Some x \<Rightarrow> k x) s"
  by (cases r) simp_all

lemma ends_prod [run_intros]:
  "(\<And>x y. p = (x, y) \<Longrightarrow> ends P (m x y) s) \<Longrightarrow> ends P (case p of (x, y) \<Rightarrow> m x y) s"
  by (cases p) simp

text \<open>A step of which the final state is known to satisfy the predicate.\<close>

lemma ends_bind: "ends P m s \<Longrightarrow> (\<And>x t. P t \<Longrightarrow> ends P (k x) t) \<Longrightarrow> ends P (bindA m k) s"
  by (cases "m s") (auto simp: ends_def act_defs split: sum.splits)

lemma ends_then: "ends P m s \<Longrightarrow> (\<And>t. P t \<Longrightarrow> ends P k t) \<Longrightarrow> ends P (thenA m k) s"
  by (cases "m s") (auto simp: ends_def act_defs split: sum.splits)

text \<open>A step whose outcome is known.\<close>

lemma ends_bind_run: "m s = (Inr x, t) \<Longrightarrow> ends P (k x) t \<Longrightarrow> ends P (bindA m k) s"
  by (simp add: ends_def act_defs)

lemma ends_then_run: "m s = (Inr (), t) \<Longrightarrow> ends P k t \<Longrightarrow> ends P (thenA m k) s"
  by (simp add: ends_def act_defs)

section \<open>Vec and iterator operations\<close>

definition first :: "'a list \<Rightarrow> 'a option" where
  "first xs = (case xs of [] \<Rightarrow> None | x # _ \<Rightarrow> Some x)"

definition last_opt :: "'a list \<Rightarrow> 'a option" where
  "last_opt xs = (if xs = [] then None else Some (last xs))"

text \<open>\<open>slice.get(i)\<close>: reading out of range is \<open>None\<close>.\<close>

definition vec_get :: "'a list \<Rightarrow> nat \<Rightarrow> 'a option" where
  "vec_get xs i = (if i < length xs then Some (xs ! i) else None)"

text \<open>\<open>iter().position(p)\<close>.\<close>

fun position :: "('a \<Rightarrow> bool) \<Rightarrow> 'a list \<Rightarrow> nat option" where
  "position p [] = None"
| "position p (x # xs) = (if p x then Some 0 else map_option Suc (position p xs))"

text \<open>\<open>Vec::insert(i, x)\<close> for \<open>i <= len\<close>.\<close>

definition insert_at :: "nat \<Rightarrow> 'a \<Rightarrow> 'a list \<Rightarrow> 'a list" where
  "insert_at i x xs = take i xs @ x # drop i xs"

definition swap_at :: "nat \<Rightarrow> nat \<Rightarrow> 'a list \<Rightarrow> 'a list" where
  "swap_at i j xs = xs[i := xs ! j, j := xs ! i]"

fun find_map :: "('a \<Rightarrow> 'b option) \<Rightarrow> 'a list \<Rightarrow> 'b option" where
  "find_map f [] = None"
| "find_map f (x # xs) = (case f x of None \<Rightarrow> find_map f xs | Some y \<Rightarrow> Some y)"

text \<open>\<open>Option::or\<close> and \<open>Option::filter\<close>.\<close>

definition or_opt :: "'a option \<Rightarrow> 'a option \<Rightarrow> 'a option" where
  "or_opt r q = (case r of None \<Rightarrow> q | Some x \<Rightarrow> Some x)"

definition filter_opt :: "('a \<Rightarrow> bool) \<Rightarrow> 'a option \<Rightarrow> 'a option" where
  "filter_opt p r = (case r of None \<Rightarrow> None | Some x \<Rightarrow> if p x then Some x else None)"

lemma first_simps [simp]: "first [] = None" "first (x # xs) = Some x"
  by (simp_all add: first_def)

lemma first_Some_in: "first xs = Some x \<Longrightarrow> x \<in> set xs"
  by (cases xs) auto

lemma first_None_iff [simp]: "first xs = None \<longleftrightarrow> xs = []"
  by (cases xs) auto

lemma last_opt_simps [simp]: "last_opt [] = None" "last_opt (xs @ [x]) = Some x"
  by (simp_all add: last_opt_def)

lemma last_opt_Some_in: "last_opt xs = Some x \<Longrightarrow> x \<in> set xs"
  by (auto simp: last_opt_def split: if_splits)

lemma last_opt_None_iff [simp]: "last_opt xs = None \<longleftrightarrow> xs = []"
  by (simp add: last_opt_def)

lemma or_opt_simps [simp]: "or_opt None q = q" "or_opt (Some x) q = Some x"
  by (simp_all add: or_opt_def)

lemma filter_opt_Some_iff [simp]: "filter_opt p r = Some x \<longleftrightarrow> r = Some x \<and> p x"
  by (auto simp: filter_opt_def split: option.splits)

lemma filter_opt_None [simp]: "filter_opt p None = None"
  by (simp add: filter_opt_def)

lemma position_Some_iff:
  "position p xs = Some i \<longleftrightarrow> i < length xs \<and> p (xs ! i) \<and> (\<forall>j<i. \<not> p (xs ! j))"
proof (induction xs arbitrary: i)
  case (Cons x xs)
  show ?case by (cases i) (auto simp: Cons.IH less_Suc_eq_0_disj nth_Cons')
qed simp

lemma position_None_iff: "position p xs = None \<longleftrightarrow> (\<forall>x \<in> set xs. \<not> p x)"
  by (induction xs) auto

lemma position_less: "position p xs = Some i \<Longrightarrow> i < length xs"
  by (simp add: position_Some_iff)

lemma insert_at_split:
  obtains ys zs where "xs = ys @ zs" "insert_at i x xs = ys @ x # zs"
  using that [of "take i xs" "drop i xs"] by (simp add: insert_at_def)

lemma set_insert_at [vec_simps, simp]: "set (insert_at i x xs) = insert x (set xs)"
  by (rule insert_at_split [of xs i x]) auto

lemma distinct_insert_at [vec_simps, simp]:
  "distinct (insert_at i x xs) \<longleftrightarrow> x \<notin> set xs \<and> distinct xs"
  by (rule insert_at_split [of xs i x]) auto

lemma length_insert_at [vec_simps, simp]: "length (insert_at i x xs) = Suc (length xs)"
  by (simp add: insert_at_def)

lemma insert_at_not_Nil [simp]: "insert_at i x xs \<noteq> []"
  by (simp add: insert_at_def)

lemma filter_insert_at [vec_simps]:
  "\<not> p x \<Longrightarrow> filter p (insert_at i x xs) = filter p xs"
  by (rule insert_at_split [of xs i x]) auto

lemma length_swap_at [simp]: "length (swap_at i j xs) = length xs"
  by (simp add: swap_at_def)

lemma set_swap_at: "i < length xs \<Longrightarrow> j < length xs \<Longrightarrow> set (swap_at i j xs) = set xs"
  unfolding swap_at_def by (rule set_swap)

lemma distinct_swap_at: "i < length xs \<Longrightarrow> j < length xs \<Longrightarrow> distinct (swap_at i j xs) = distinct xs"
  unfolding swap_at_def by (rule distinct_swap)

lemma find_map_Some: "find_map f xs = Some y \<Longrightarrow> \<exists>x \<in> set xs. f x = Some y"
  by (induction xs) (auto split: option.splits)

end
