(* ===== verification/Ord_Map.thy ===== *)
theory Ord_Map
  imports Prelude
begin

text \<open>
  The source keeps its tables in \<open>std::collections::BTreeMap\<close>. The interface below is what the
  source relies on: lookups after insertion and removal, and iteration in ascending key order.
  The provider is a list of bindings sorted by key, so that every operation evaluates.
\<close>

section \<open>The interface\<close>

locale ordered_map =
  fixes lookup :: "'m \<Rightarrow> 'k::linorder \<Rightarrow> 'v option"
    and insert_key :: "'k \<Rightarrow> 'v \<Rightarrow> 'm \<Rightarrow> 'm"
    and remove_key :: "'k \<Rightarrow> 'm \<Rightarrow> 'm"
    and key_list :: "'m \<Rightarrow> 'k list"
    and ok :: "'m \<Rightarrow> bool"
  assumes lookup_insert: "lookup (insert_key k v m) = (lookup m)(k := Some v)"
    and lookup_remove: "lookup (remove_key k m) = (lookup m)(k := None)"
    and key_list_set: "set (key_list m) = dom (lookup m)"
    and ok_insert: "ok m \<Longrightarrow> ok (insert_key k v m)"
    and ok_remove: "ok m \<Longrightarrow> ok (remove_key k m)"
    and ok_sorted: "ok m \<Longrightarrow> sorted_wrt (<) (key_list m)"
begin

lemma lookup_insert_same: "lookup (insert_key k v m) k = Some v"
  by (simp add: lookup_insert)

lemma lookup_insert_other: "k' \<noteq> k \<Longrightarrow> lookup (insert_key k v m) k' = lookup m k'"
  by (simp add: lookup_insert)

lemma remove_absent: "lookup m k = None \<Longrightarrow> lookup (remove_key k m) = lookup m"
  by (auto simp: lookup_remove)

lemma keys_insert: "set (key_list (insert_key k v m)) = insert k (set (key_list m))"
  by (simp add: key_list_set lookup_insert)

lemma keys_remove: "set (key_list (remove_key k m)) = set (key_list m) - {k}"
  by (simp add: key_list_set lookup_remove)

lemma keys_distinct: "ok m \<Longrightarrow> distinct (key_list m)"
  using ok_sorted [of m] by (simp add: strict_sorted_iff)

text \<open>The first key of an iteration is the least one: what \<open>keys().next()\<close> returns.\<close>

lemma first_key_least:
  assumes "ok m" "first (key_list m) = Some k"
  shows "k \<in> dom (lookup m) \<and> (\<forall>k' \<in> dom (lookup m). k \<le> k')"
proof -
  obtain ks where ks: "key_list m = k # ks"
    using assms(2) by (cases "key_list m") auto
  have "sorted_wrt (<) (k # ks)" using ok_sorted [OF assms(1)] ks by simp
  then have "\<forall>k' \<in> set (key_list m). k \<le> k'" using ks by auto
  moreover have "k \<in> set (key_list m)" using ks by simp
  ultimately show ?thesis by (simp add: key_list_set)
qed

end

section \<open>Sorted binding lists\<close>

type_synonym ('k, 'v) bmap = "('k \<times> 'v) list"

fun bm_get :: "('k, 'v) bmap \<Rightarrow> 'k \<Rightarrow> 'v option" where
  "bm_get [] k = None"
| "bm_get ((a, v) # m) k = (if a = k then Some v else bm_get m k)"

fun bm_put :: "'k::linorder \<Rightarrow> 'v \<Rightarrow> ('k, 'v) bmap \<Rightarrow> ('k, 'v) bmap" where
  "bm_put k v [] = [(k, v)]"
| "bm_put k v ((a, w) # m) =
     (if k < a then (k, v) # (a, w) # m else if k = a then (k, v) # m else (a, w) # bm_put k v m)"

definition bm_del :: "'k \<Rightarrow> ('k, 'v) bmap \<Rightarrow> ('k, 'v) bmap" where
  "bm_del k m = filter (\<lambda>(a, _). a \<noteq> k) m"

definition bm_keys :: "('k, 'v) bmap \<Rightarrow> 'k list" where
  "bm_keys m = map fst m"

definition bm_values :: "('k, 'v) bmap \<Rightarrow> 'v list" where
  "bm_values m = map snd m"

definition bm_has :: "('k, 'v) bmap \<Rightarrow> 'k \<Rightarrow> bool" where
  "bm_has m k \<longleftrightarrow> bm_get m k \<noteq> None"

text \<open>\<open>if let Some(v) = m.get_mut(k) { *v = f(v) }\<close>.\<close>

fun bm_adj :: "'k \<Rightarrow> ('v \<Rightarrow> 'v) \<Rightarrow> ('k, 'v) bmap \<Rightarrow> ('k, 'v) bmap" where
  "bm_adj k f [] = []"
| "bm_adj k f ((a, v) # m) = (if a = k then (a, f v) # m else (a, v) # bm_adj k f m)"

definition bm_ok :: "('k::linorder, 'v) bmap \<Rightarrow> bool" where
  "bm_ok m \<longleftrightarrow> sorted_wrt (<) (bm_keys m)"

lemma bm_get_put: "bm_get (bm_put k v m) = (bm_get m)(k := Some v)"
  by (induction k v m rule: bm_put.induct) (auto simp: fun_eq_iff)

lemma bm_get_del: "bm_get (bm_del k m) = (bm_get m)(k := None)"
  by (induction m) (auto simp: fun_eq_iff bm_del_def)

lemma bm_get_adj [simp]: "bm_get (bm_adj k f m) = (bm_get m)(k := map_option f (bm_get m k))"
  by (induction k f m rule: bm_adj.induct) (auto simp: fun_eq_iff)

lemma bm_keys_set: "set (bm_keys m) = dom (bm_get m)"
  by (induction m) (auto simp: bm_keys_def dom_def)

lemma bm_put_keys_set: "fst ` set (bm_put k v m) = insert k (fst ` set m)"
  by (induction k v m rule: bm_put.induct) auto

lemma bm_ok_put: "bm_ok m \<Longrightarrow> bm_ok (bm_put k v m)"
  by (induction k v m rule: bm_put.induct) (fastforce simp: bm_ok_def bm_keys_def bm_put_keys_set)+

lemma bm_ok_del: "bm_ok m \<Longrightarrow> bm_ok (bm_del k m)"
  by (simp add: bm_ok_def bm_keys_def bm_del_def sorted_wrt_map sorted_wrt_filter)

lemma bm_keys_adj [simp]: "bm_keys (bm_adj k f m) = bm_keys m"
  by (induction k f m rule: bm_adj.induct) (simp_all add: bm_keys_def)

lemma bm_ok_adj [simp]: "bm_ok (bm_adj k f m) = bm_ok m"
  by (simp add: bm_ok_def)

lemma bm_values_set: "bm_ok m \<Longrightarrow> set (bm_values m) = ran (bm_get m)"
proof (induction m)
  case (Cons p m)
  obtain a v where p: "p = (a, v)" by (cases p)
  have "a \<notin> dom (bm_get m)" using Cons.prems p
    by (auto simp: bm_ok_def bm_keys_def simp flip: bm_keys_set)
  then have "bm_get m a = None" by auto
  moreover have "bm_get ((a, v) # m) = (bm_get m)(a := Some v)" by auto
  ultimately have "ran (bm_get ((a, v) # m)) = insert v (ran (bm_get m))"
    by (simp only: ran_map_upd)
  moreover have "bm_ok m" using Cons.prems p by (simp add: bm_ok_def bm_keys_def)
  ultimately show ?case using Cons.IH p by (simp add: bm_values_def del: bm_get.simps)
qed (simp add: bm_values_def ran_def)

interpretation bm: ordered_map bm_get bm_put bm_del bm_keys bm_ok
  by unfold_locales
    (simp_all add: bm_get_put bm_get_del bm_keys_set bm_ok_put bm_ok_del, simp add: bm_ok_def)

declare bm.lookup_insert [simp] bm.lookup_remove [simp]

lemma bm_ok_Nil [simp]: "bm_ok []"
  by (simp add: bm_ok_def bm_keys_def)

lemma bm_has_simps [simp]:
  "bm_has (bm_put k v m) k' \<longleftrightarrow> k' = k \<or> bm_has m k'"
  "bm_has (bm_del k m) k' \<longleftrightarrow> k' \<noteq> k \<and> bm_has m k'"
  "bm_has (bm_adj k f m) k' = bm_has m k'"
  by (auto simp: bm_has_def)

end
