(* ===== verification/Machine_Int.thy ===== *)
theory Machine_Int
  imports Prelude "HOL-Library.Word" "HOL-Library.Code_Target_Nat"
begin

text \<open>
  The machine integers of the source. A \<open>u32\<close> is a \<open>nat\<close> below \<open>2 ^ 32\<close>, an \<open>i32\<close> an \<open>int\<close>
  between \<open>- 2 ^ 31\<close> and \<open>2 ^ 31 - 1\<close>; every operation writes out what the width does: the
  saturating ones clamp, plain \<open>+\<close> and \<open>as\<close> casts wrap through a 32-bit word (the release build;
  a debug build panics on \<open>+\<close> where these wrap). Subtraction on \<open>nat\<close> is \<open>saturating_sub\<close>.
\<close>

named_theorems i32_simps "evaluation of i32 and u32 operations whose result is in range"

definition i32_max :: int where "i32_max = 2147483647"

definition i32_min :: int where "i32_min = -2147483648"

definition u32_max :: nat where "u32_max = 4294967295"

definition u64_max :: nat where "u64_max = 18446744073709551615"

definition is_i32 :: "int \<Rightarrow> bool" where
  "is_i32 x \<longleftrightarrow> i32_min \<le> x \<and> x \<le> i32_max"

definition is_u32 :: "nat \<Rightarrow> bool" where
  "is_u32 n \<longleftrightarrow> n \<le> u32_max"

definition wrap_i32 :: "int \<Rightarrow> int" where
  "wrap_i32 x = sint (word_of_int x :: 32 word)"

definition wrap_u32 :: "nat \<Rightarrow> nat" where
  "wrap_u32 n = unat (word_of_nat n :: 32 word)"

text \<open>\<open>x as i32\<close> of a \<open>u32\<close> and \<open>x as u32\<close> of an \<open>i32\<close>.\<close>

definition u32_as_i32 :: "nat \<Rightarrow> int" where
  "u32_as_i32 n = wrap_i32 (int n)"

definition i32_as_u32 :: "int \<Rightarrow> nat" where
  "i32_as_u32 x = unat (word_of_int x :: 32 word)"

definition sat_i32 :: "int \<Rightarrow> int" where
  "sat_i32 x = max i32_min (min i32_max x)"

definition i32_sat_add :: "int \<Rightarrow> int \<Rightarrow> int" where
  "i32_sat_add a b = sat_i32 (a + b)"

definition i32_sat_sub :: "int \<Rightarrow> int \<Rightarrow> int" where
  "i32_sat_sub a b = sat_i32 (a - b)"

definition i32_sat_mul :: "int \<Rightarrow> int \<Rightarrow> int" where
  "i32_sat_mul a b = sat_i32 (a * b)"

text \<open>Division of an \<open>i32\<close> by two truncates towards zero.\<close>

definition i32_half :: "int \<Rightarrow> int" where
  "i32_half x = (if 0 \<le> x then x div 2 else - ((- x) div 2))"

definition u32_sat_add :: "nat \<Rightarrow> nat \<Rightarrow> nat" where
  "u32_sat_add a b = min u32_max (a + b)"

definition u32_sat_mul :: "nat \<Rightarrow> nat \<Rightarrow> nat" where
  "u32_sat_mul a b = min u32_max (a * b)"

definition u32_checked_mul :: "nat \<Rightarrow> nat \<Rightarrow> nat option" where
  "u32_checked_mul a b = (if a * b \<le> u32_max then Some (a * b) else None)"

definition u64_sat_add :: "nat \<Rightarrow> nat \<Rightarrow> nat" where
  "u64_sat_add a b = min u64_max (a + b)"

text \<open>The idiom \<open>x.min(i32::MAX as u32) as i32\<close>.\<close>

definition u32_clip_i32 :: "nat \<Rightarrow> int" where
  "u32_clip_i32 n = int (min n 2147483647)"

text \<open>\<open>Ord::clamp\<close>, which panics (\<open>None\<close>) when the bounds are the wrong way round.\<close>

definition clamp :: "'a::linorder \<Rightarrow> 'a \<Rightarrow> 'a \<Rightarrow> 'a option" where
  "clamp lo hi x = (if lo \<le> hi then Some (if x < lo then lo else if hi < x then hi else x) else None)"

text \<open>The same where the caller's bounds are ordered by construction.\<close>

definition clamp_in :: "'a::linorder \<Rightarrow> 'a \<Rightarrow> 'a \<Rightarrow> 'a" where
  "clamp_in lo hi x = (if x < lo then lo else if hi < x then hi else x)"

section \<open>Facts\<close>

lemma wrap_i32_range: "is_i32 (wrap_i32 x)"
  using sint_range_size [of "word_of_int x :: 32 word"]
  by (simp add: is_i32_def i32_min_def i32_max_def wrap_i32_def word_size)

lemma wrap_i32_id [i32_simps]: "is_i32 x \<Longrightarrow> wrap_i32 x = x"
  unfolding wrap_i32_def is_i32_def i32_min_def i32_max_def
  by (simp add: signed_of_int signed_take_bit_int_eq_self)

lemma u32_as_i32_id [i32_simps]: "n \<le> 2147483647 \<Longrightarrow> u32_as_i32 n = int n"
  by (simp add: u32_as_i32_def wrap_i32_id is_i32_def i32_min_def i32_max_def)

lemma i32_as_u32_id [i32_simps]: "0 \<le> x \<Longrightarrow> x \<le> 4294967295 \<Longrightarrow> i32_as_u32 x = nat x"
  unfolding i32_as_u32_def by (simp add: unat_eq_nat_uint uint_word_of_int_eq take_bit_int_eq_self)

lemma i32_as_u32_range: "is_u32 (i32_as_u32 x)"
  using unsigned_less [of "word_of_int x :: 32 word", where ?'a = nat]
  by (simp add: is_u32_def u32_max_def i32_as_u32_def)

lemma wrap_u32_id [i32_simps]: "is_u32 n \<Longrightarrow> wrap_u32 n = n"
  unfolding wrap_u32_def is_u32_def u32_max_def
  by (simp add: unat_of_nat take_bit_nat_eq_self)

lemma sat_i32_range [simp]: "is_i32 (sat_i32 x)"
  by (simp add: sat_i32_def is_i32_def i32_min_def i32_max_def)

lemma sat_i32_id [i32_simps]: "is_i32 x \<Longrightarrow> sat_i32 x = x"
  by (simp add: sat_i32_def is_i32_def)

lemma sat_i32_mono: "x \<le> y \<Longrightarrow> sat_i32 x \<le> sat_i32 y"
  by (auto simp: sat_i32_def)

lemma u32_clip_i32_range: "0 \<le> u32_clip_i32 n \<and> u32_clip_i32 n \<le> i32_max"
  by (simp add: u32_clip_i32_def i32_max_def)

lemma u32_clip_i32_id [i32_simps]: "n \<le> 2147483647 \<Longrightarrow> u32_clip_i32 n = int n"
  by (simp add: u32_clip_i32_def)

lemma u32_sat_add_id [i32_simps]: "a + b \<le> u32_max \<Longrightarrow> u32_sat_add a b = a + b"
  by (simp add: u32_sat_add_def)

lemma clamp_in_range: "lo \<le> hi \<Longrightarrow> lo \<le> clamp_in lo hi x \<and> clamp_in lo hi x \<le> hi"
  by (auto simp: clamp_in_def)

lemma clamp_Some_iff: "clamp lo hi x = Some y \<longleftrightarrow> lo \<le> hi \<and> y = clamp_in lo hi x"
  by (auto simp: clamp_def clamp_in_def)

lemma clamp_in_id [simp]: "lo \<le> x \<Longrightarrow> x \<le> hi \<Longrightarrow> clamp_in lo hi x = x"
  by (auto simp: clamp_in_def)

section \<open>Rounded quotients\<close>

text \<open>
  The floating-point quotients the source compares: a non-negative number is a mantissa and a
  binary exponent, and every operation rounds to the nearest value of the given precision, ties to the even
  mantissa. The source only multiplies and divides machine integers, so neither subnormal numbers nor overflow occur.
\<close>

type_synonym float = "nat \<times> int"

fun bit_length :: "nat \<Rightarrow> nat" where
  "bit_length n = (if n = 0 then 0 else Suc (bit_length (n div 2)))"

declare bit_length.simps [simp del]

text \<open>The natural number nearest to a quotient.\<close>

definition round_even :: "nat \<Rightarrow> nat \<Rightarrow> nat" where
  "round_even a b =
     (let q = a div b; r = a mod b
      in if 2 * r < b \<or> (2 * r = b \<and> even q) then q else q + 1)"

definition fl_scaled :: "int \<Rightarrow> nat \<Rightarrow> nat \<Rightarrow> nat \<times> nat" where
  "fl_scaled e a b = (a * 2 ^ nat (- e), b * 2 ^ nat e)"

text \<open>The value of precision \<open>p\<close> nearest to \<open>a / b\<close>: the exponent puts the quotient between \<open>2 ^ (p - 1)\<close> and \<open>2 ^ p\<close>.\<close>

definition fl_round :: "nat \<Rightarrow> nat \<Rightarrow> nat \<Rightarrow> float" where
  "fl_round p a b =
     (if a = 0 then (0, 0)
      else let e0 = int (bit_length a) - int (bit_length b) - int p;
               (n0, d0) = fl_scaled e0 a b;
               e = (if d0 * 2 ^ p \<le> n0 then e0 + 1 else e0);
               (n, d) = fl_scaled e a b
           in (round_even n d, e))"

definition fl_of_nat :: "nat \<Rightarrow> nat \<Rightarrow> float" where
  "fl_of_nat p n = fl_round p n 1"

fun fl_div :: "nat \<Rightarrow> float \<Rightarrow> float \<Rightarrow> float" where
  "fl_div p (m1, e1) (m2, e2) = fl_round p (m1 * 2 ^ nat (e1 - e2)) (m2 * 2 ^ nat (e2 - e1))"

fun fl_mul :: "nat \<Rightarrow> float \<Rightarrow> float \<Rightarrow> float" where
  "fl_mul p (m1, e1) (m2, e2) = fl_round p (m1 * m2 * 2 ^ nat (e1 + e2)) (2 ^ nat (- (e1 + e2)))"

fun fl_le :: "float \<Rightarrow> float \<Rightarrow> bool" where
  "fl_le (m1, e1) (m2, e2) \<longleftrightarrow> m1 * 2 ^ nat (e1 - e2) \<le> m2 * 2 ^ nat (e2 - e1)"

text \<open>\<open>f64\<close> has 53 bits of precision, \<open>f32\<close> has 24; a decimal literal is its nearest value.\<close>

abbreviation f64_ratio :: "nat \<Rightarrow> nat \<Rightarrow> float" where
  "f64_ratio a b \<equiv> fl_div 53 (fl_of_nat 53 a) (fl_of_nat 53 b)"

abbreviation f32_ratio :: "nat \<Rightarrow> nat \<Rightarrow> float" where
  "f32_ratio a b \<equiv> fl_div 24 (fl_of_nat 24 a) (fl_of_nat 24 b)"

section \<open>Facts\<close>

lemma bit_length_bounds: "0 < n \<Longrightarrow> 2 ^ (bit_length n - 1) \<le> n \<and> n < 2 ^ bit_length n \<and> 0 < bit_length n"
proof (induction n rule: bit_length.induct)
  case (1 n)
  show ?case
  proof (cases "n div 2 = 0")
    case True
    then have "n = 1" using 1(2) by simp
    then show ?thesis by (simp add: bit_length.simps [of "Suc 0"] bit_length.simps [of 0])
  next
    case False
    then have IH: "2 ^ (bit_length (n div 2) - 1) \<le> n div 2" "n div 2 < 2 ^ bit_length (n div 2)"
      "0 < bit_length (n div 2)"
      using 1 by simp_all
    have n: "bit_length n = Suc (bit_length (n div 2))" using 1(2) by (simp add: bit_length.simps [of n])
    obtain k where k: "bit_length (n div 2) = Suc k" using IH(3) by (cases "bit_length (n div 2)") auto
    have "2 * (n div 2) \<le> n" "n < 2 * (n div 2) + 2" by simp_all
    moreover have "2 ^ k \<le> n div 2" "n div 2 < 2 * 2 ^ k" using IH k by simp_all
    ultimately show ?thesis using n k by simp
  qed
qed

text \<open>A quotient that is a natural number below the precision is exact.\<close>

lemma round_even_exact: "0 < b \<Longrightarrow> round_even (q * b) b = q"
  by (simp add: round_even_def)

lemma round_even_mono_floor: "a div b \<le> round_even a b \<and> round_even a b \<le> a div b + 1"
  by (simp add: round_even_def Let_def)

end
