(* ===== verification/Domain_Ids.thy ===== *)
theory Domain_Ids
  imports Ord_Map Machine_Int
begin

text \<open>
  Identifiers (\<open>crates/domain/src/ids.rs\<close>) and geometry (\<open>crates/domain/src/geometry.rs\<close>). Each
  \<open>define_id!\<close> newtype is a datatype of its own, ordered by its number as the derived \<open>Ord\<close> is,
  which fixes the iteration order of the tables keyed by it. The numbers are \<open>u64\<close> counters
  that start at 1 and only grow; they are unbounded here, so the wrap after \<open>2 ^ 64\<close> allocations is left out.
\<close>

section \<open>Identifiers\<close>

datatype monitor_id = MonitorId nat

datatype workspace_set_id = WorkspaceSetId nat

datatype workspace_id = WorkspaceId nat

datatype column_id = ColumnId nat

datatype window_id = WindowId nat

datatype correlation_id = CorrelationId nat

primrec raw_monitor_id :: "monitor_id \<Rightarrow> nat" where
  "raw_monitor_id (MonitorId n) = n"

primrec raw_workspace_set_id :: "workspace_set_id \<Rightarrow> nat" where
  "raw_workspace_set_id (WorkspaceSetId n) = n"

primrec raw_workspace_id :: "workspace_id \<Rightarrow> nat" where
  "raw_workspace_id (WorkspaceId n) = n"

primrec raw_column_id :: "column_id \<Rightarrow> nat" where
  "raw_column_id (ColumnId n) = n"

primrec raw_window_id :: "window_id \<Rightarrow> nat" where
  "raw_window_id (WindowId n) = n"

primrec raw_correlation_id :: "correlation_id \<Rightarrow> nat" where
  "raw_correlation_id (CorrelationId n) = n"

instantiation monitor_id :: linorder
begin

definition less_eq_monitor_id :: "monitor_id \<Rightarrow> monitor_id \<Rightarrow> bool" where
  "x \<le> y \<longleftrightarrow> raw_monitor_id x \<le> raw_monitor_id y"

definition less_monitor_id :: "monitor_id \<Rightarrow> monitor_id \<Rightarrow> bool" where
  "x < y \<longleftrightarrow> raw_monitor_id x < raw_monitor_id y"

instance
proof
  fix x y :: monitor_id
  show "x \<le> y \<Longrightarrow> y \<le> x \<Longrightarrow> x = y"
    by (cases x; cases y) (simp add: less_eq_monitor_id_def)
qed (auto simp: less_eq_monitor_id_def less_monitor_id_def)

end

instantiation workspace_set_id :: linorder
begin

definition less_eq_workspace_set_id :: "workspace_set_id \<Rightarrow> workspace_set_id \<Rightarrow> bool" where
  "x \<le> y \<longleftrightarrow> raw_workspace_set_id x \<le> raw_workspace_set_id y"

definition less_workspace_set_id :: "workspace_set_id \<Rightarrow> workspace_set_id \<Rightarrow> bool" where
  "x < y \<longleftrightarrow> raw_workspace_set_id x < raw_workspace_set_id y"

instance
proof
  fix x y :: workspace_set_id
  show "x \<le> y \<Longrightarrow> y \<le> x \<Longrightarrow> x = y"
    by (cases x; cases y) (simp add: less_eq_workspace_set_id_def)
qed (auto simp: less_eq_workspace_set_id_def less_workspace_set_id_def)

end

instantiation workspace_id :: linorder
begin

definition less_eq_workspace_id :: "workspace_id \<Rightarrow> workspace_id \<Rightarrow> bool" where
  "x \<le> y \<longleftrightarrow> raw_workspace_id x \<le> raw_workspace_id y"

definition less_workspace_id :: "workspace_id \<Rightarrow> workspace_id \<Rightarrow> bool" where
  "x < y \<longleftrightarrow> raw_workspace_id x < raw_workspace_id y"

instance
proof
  fix x y :: workspace_id
  show "x \<le> y \<Longrightarrow> y \<le> x \<Longrightarrow> x = y"
    by (cases x; cases y) (simp add: less_eq_workspace_id_def)
qed (auto simp: less_eq_workspace_id_def less_workspace_id_def)

end

instantiation column_id :: linorder
begin

definition less_eq_column_id :: "column_id \<Rightarrow> column_id \<Rightarrow> bool" where
  "x \<le> y \<longleftrightarrow> raw_column_id x \<le> raw_column_id y"

definition less_column_id :: "column_id \<Rightarrow> column_id \<Rightarrow> bool" where
  "x < y \<longleftrightarrow> raw_column_id x < raw_column_id y"

instance
proof
  fix x y :: column_id
  show "x \<le> y \<Longrightarrow> y \<le> x \<Longrightarrow> x = y"
    by (cases x; cases y) (simp add: less_eq_column_id_def)
qed (auto simp: less_eq_column_id_def less_column_id_def)

end

instantiation window_id :: linorder
begin

definition less_eq_window_id :: "window_id \<Rightarrow> window_id \<Rightarrow> bool" where
  "x \<le> y \<longleftrightarrow> raw_window_id x \<le> raw_window_id y"

definition less_window_id :: "window_id \<Rightarrow> window_id \<Rightarrow> bool" where
  "x < y \<longleftrightarrow> raw_window_id x < raw_window_id y"

instance
proof
  fix x y :: window_id
  show "x \<le> y \<Longrightarrow> y \<le> x \<Longrightarrow> x = y"
    by (cases x; cases y) (simp add: less_eq_window_id_def)
qed (auto simp: less_eq_window_id_def less_window_id_def)

end

instantiation correlation_id :: linorder
begin

definition less_eq_correlation_id :: "correlation_id \<Rightarrow> correlation_id \<Rightarrow> bool" where
  "x \<le> y \<longleftrightarrow> raw_correlation_id x \<le> raw_correlation_id y"

definition less_correlation_id :: "correlation_id \<Rightarrow> correlation_id \<Rightarrow> bool" where
  "x < y \<longleftrightarrow> raw_correlation_id x < raw_correlation_id y"

instance
proof
  fix x y :: correlation_id
  show "x \<le> y \<Longrightarrow> y \<le> x \<Longrightarrow> x = y"
    by (cases x; cases y) (simp add: less_eq_correlation_id_def)
qed (auto simp: less_eq_correlation_id_def less_correlation_id_def)

end
lemma id_eq_iff [simp]:
  "raw_monitor_id a = raw_monitor_id b \<longleftrightarrow> a = b"
  "raw_workspace_set_id c = raw_workspace_set_id d \<longleftrightarrow> c = d"
  "raw_workspace_id e = raw_workspace_id f \<longleftrightarrow> e = f"
  "raw_column_id g = raw_column_id h \<longleftrightarrow> g = h"
  "raw_window_id i = raw_window_id j \<longleftrightarrow> i = j"
  subgoal by (cases a; cases b) simp
  subgoal by (cases c; cases d) simp
  subgoal by (cases e; cases f) simp
  subgoal by (cases g; cases h) simp
  subgoal by (cases i; cases j) simp
  done

lemmas id_order_defs =
  less_eq_monitor_id_def less_monitor_id_def
  less_eq_workspace_set_id_def less_workspace_set_id_def
  less_eq_workspace_id_def less_workspace_id_def
  less_eq_column_id_def less_column_id_def
  less_eq_window_id_def less_window_id_def

section \<open>Geometry\<close>

record point =
  point_x :: int
  point_y :: int

record size_px =
  sz_width :: nat
  sz_height :: nat

record rect =
  rect_x :: int
  rect_y :: int
  rect_width :: nat
  rect_height :: nat

definition point_new :: "int \<Rightarrow> int \<Rightarrow> point" where
  "point_new x y = \<lparr>point_x = x, point_y = y\<rparr>"

definition size_new :: "nat \<Rightarrow> nat \<Rightarrow> size_px" where
  "size_new w h = \<lparr>sz_width = w, sz_height = h\<rparr>"

definition rect_new :: "int \<Rightarrow> int \<Rightarrow> nat \<Rightarrow> nat \<Rightarrow> rect" where
  "rect_new x y w h = \<lparr>rect_x = x, rect_y = y, rect_width = w, rect_height = h\<rparr>"

definition rect_from_parts :: "point \<Rightarrow> size_px \<Rightarrow> rect" where
  "rect_from_parts origin sz =
     rect_new (point_x origin) (point_y origin) (sz_width sz) (sz_height sz)"

definition rect_with_x :: "rect \<Rightarrow> int \<Rightarrow> rect" where
  "rect_with_x r x = r\<lparr>rect_x := x\<rparr>"

definition rect_with_y :: "rect \<Rightarrow> int \<Rightarrow> rect" where
  "rect_with_y r y = r\<lparr>rect_y := y\<rparr>"

text \<open>\<open>Rect::default()\<close>: all zero.\<close>

definition rect_default :: rect where
  "rect_default = rect_new 0 0 0 0"

lemma rect_new_sel [simp]:
  "rect_x (rect_new x y w h) = x" "rect_y (rect_new x y w h) = y"
  "rect_width (rect_new x y w h) = w" "rect_height (rect_new x y w h) = h"
  by (simp_all add: rect_new_def)

text \<open>A rectangle whose fields fit their machine types.\<close>

definition rect_ok :: "rect \<Rightarrow> bool" where
  "rect_ok r \<longleftrightarrow> is_i32 (rect_x r) \<and> is_i32 (rect_y r) \<and> is_u32 (rect_width r) \<and> is_u32 (rect_height r)"

end
