(* ===== verification/Domain_Model.thy ===== *)
theory Domain_Model
  imports Domain_Ids
begin

text \<open>
  The data types of \<open>crates/domain/src/model.rs\<close>: enums as datatypes with the source's variants
  (renamed where two enums share a variant name), structs as records with a prefix for the
  struct, \<open>Default\<close> implementations as \<open>_default\<close> constants, \<open>as_str\<close> and \<open>parse\<close> as functions.
\<close>

section \<open>Modes\<close>

datatype runtime_mode = WmOnly | ExtendedShell | SafeMode

fun runtime_mode_as_str :: "runtime_mode \<Rightarrow> string" where
  "runtime_mode_as_str WmOnly = ''wm-only''"
| "runtime_mode_as_str ExtendedShell = ''extended-shell''"
| "runtime_mode_as_str SafeMode = ''safe-mode''"

definition runtime_mode_parse :: "string \<Rightarrow> runtime_mode option" where
  "runtime_mode_parse v =
     (if v = ''wm-only'' then Some WmOnly
      else if v = ''extended-shell'' then Some ExtendedShell
      else if v = ''safe-mode'' then Some SafeMode
      else None)"

datatype bind_control_mode = Coexistence | ManagedShell | DeepOverride

fun bind_control_mode_as_str :: "bind_control_mode \<Rightarrow> string" where
  "bind_control_mode_as_str Coexistence = ''coexistence''"
| "bind_control_mode_as_str ManagedShell = ''managed-shell''"
| "bind_control_mode_as_str DeepOverride = ''deep-override''"

definition bind_control_mode_parse :: "string \<Rightarrow> bind_control_mode option" where
  "bind_control_mode_parse v =
     (if v = ''coexistence'' then Some Coexistence
      else if v = ''managed-shell'' then Some ManagedShell
      else if v = ''deep-override'' then Some DeepOverride
      else None)"

datatype topology_role = Primary | Secondary

datatype strip_layout_mode = Columns

datatype column_mode = NormalColumn | Tabbed | MaximizedColumn | CustomWidth

fun column_mode_as_str :: "column_mode \<Rightarrow> string" where
  "column_mode_as_str NormalColumn = ''normal''"
| "column_mode_as_str Tabbed = ''tabbed''"
| "column_mode_as_str MaximizedColumn = ''maximized-column''"
| "column_mode_as_str CustomWidth = ''custom-width''"

definition all_column_modes :: "column_mode list" where
  "all_column_modes = [NormalColumn, Tabbed, MaximizedColumn, CustomWidth]"

datatype width_semantics = Fixed nat | MonitorFraction nat nat | Full

definition width_semantics_default :: width_semantics where
  "width_semantics_default = MonitorFraction 1 2"

text \<open>The product of two \<open>u32\<close> fits the \<open>u64\<close> it is computed in; the quotient is cast back.\<close>

fun width_resolve :: "width_semantics \<Rightarrow> nat \<Rightarrow> nat" where
  "width_resolve (Fixed w) monitor_width = max w 1"
| "width_resolve (MonitorFraction numerator denominator) monitor_width =
     max (if denominator = 0 then max monitor_width 1
          else wrap_u32 ((monitor_width * numerator) div denominator)) 1"
| "width_resolve Full monitor_width = max monitor_width 1"

datatype resize_edge = LeftEdge | RightEdge

datatype maximized_state = NotMaximized | Maximized

datatype window_classification = Application | Utility | Overlay

datatype window_layer = Tiled | Floating | Fullscreen

datatype focus_origin = ReducerDefault | UserCommand | PlatformObservation

section \<open>Monitors, workspaces, columns and windows\<close>

record monitor =
  mon_id :: monitor_id
  mon_platform_binding :: "string option"
  mon_work_area_rect :: rect
  mon_dpi :: nat
  mon_topology_role :: topology_role
  mon_workspace_set_id :: workspace_set_id
  mon_is_primary_hint :: bool

record workspace_set =
  wset_id :: workspace_set_id
  wset_monitor_id :: monitor_id
  wset_ordered :: "workspace_id list"
  wset_active :: workspace_id
  wset_last_non_empty :: "workspace_id option"

record scrolling_strip =
  strip_columns :: "column_id list"
  strip_scroll_offset :: int
  strip_visible_region :: rect
  strip_mode :: strip_layout_mode

record floating_layer =
  fl_workspace_id :: workspace_id
  fl_windows :: "window_id list"
  fl_z_hints :: "(window_id, nat) bmap"

record workspace =
  wsp_id :: workspace_id
  wsp_monitor_id :: monitor_id
  wsp_vertical_index :: nat
  wsp_remembered_window :: "window_id option"
  wsp_remembered_column :: "column_id option"
  wsp_strip :: scrolling_strip
  wsp_floating :: floating_layer
  wsp_name :: "string option"
  wsp_is_ephemeral_empty_tail :: bool

definition workspace_empty :: "workspace_id \<Rightarrow> monitor_id \<Rightarrow> nat \<Rightarrow> rect \<Rightarrow> workspace" where
  "workspace_empty i m index visible =
     \<lparr>wsp_id = i, wsp_monitor_id = m, wsp_vertical_index = index,
      wsp_remembered_window = None, wsp_remembered_column = None,
      wsp_strip = \<lparr>strip_columns = [], strip_scroll_offset = 0,
                   strip_visible_region = visible, strip_mode = Columns\<rparr>,
      wsp_floating = \<lparr>fl_workspace_id = i, fl_windows = [], fl_z_hints = []\<rparr>,
      wsp_name = None, wsp_is_ephemeral_empty_tail = True\<rparr>"

record column =
  col_id :: column_id
  col_mode :: column_mode
  col_windows :: "window_id list"
  col_active :: "window_id option"
  col_width :: width_semantics
  col_maximized :: maximized_state
  col_tab_selection :: "window_id option"

definition column_new ::
    "column_id \<Rightarrow> column_mode \<Rightarrow> width_semantics \<Rightarrow> window_id list \<Rightarrow> column" where
  "column_new i m width ids =
     \<lparr>col_id = i, col_mode = m, col_windows = ids, col_active = first ids, col_width = width,
      col_maximized = NotMaximized, col_tab_selection = first ids\<rparr>"

record restore_target =
  rt_workspace_id :: workspace_id
  rt_column_id :: "column_id option"
  rt_column_index :: "nat option"
  rt_layer :: window_layer

record window_node =
  win_id :: window_id
  win_hwnd :: "nat option"
  win_classification :: window_classification
  win_layer :: window_layer
  win_workspace_id :: workspace_id
  win_column_id :: "column_id option"
  win_is_managed :: bool
  win_is_floating :: bool
  win_is_fullscreen :: bool
  win_restore_target :: "restore_target option"
  win_last_known_rect :: rect
  win_desired_size :: size_px

section \<open>Focus, overview, capture, configuration and diagnostics\<close>

record focus_state =
  focus_monitor :: "monitor_id option"
  focus_active_workspaces :: "(monitor_id, workspace_id) bmap"
  focus_window :: "window_id option"
  focus_column :: "column_id option"
  focus_origin_of :: focus_origin

definition focus_state_default :: focus_state where
  "focus_state_default =
     \<lparr>focus_monitor = None, focus_active_workspaces = [], focus_window = None,
      focus_column = None, focus_origin_of = ReducerDefault\<rparr>"

record overview_state =
  ov_is_open :: bool
  ov_monitor_id :: "monitor_id option"
  ov_selection :: "workspace_id option"
  ov_drag_payload :: "string option"
  ov_projection_version :: nat

definition overview_state_default :: overview_state where
  "overview_state_default =
     \<lparr>ov_is_open = False, ov_monitor_id = None, ov_selection = None, ov_drag_payload = None,
      ov_projection_version = 0\<rparr>"

record capture_policy =
  cap_window_overrides :: "(window_id, bool) bmap"
  cap_workspace_overrides :: "(workspace_id, bool) bmap"
  cap_built_in_exclusions :: "string list"
  cap_affinity_targets :: "window_id list"

definition capture_policy_default :: capture_policy where
  "capture_policy_default =
     \<lparr>cap_window_overrides = [], cap_workspace_overrides = [],
      cap_built_in_exclusions = [''task-switcher'', ''lock-screen''], cap_affinity_targets = []\<rparr>"

record edge_insets =
  ins_left :: nat
  ins_top :: nat
  ins_right :: nat
  ins_bottom :: nat

definition edge_insets_all :: "nat \<Rightarrow> edge_insets" where
  "edge_insets_all v = \<lparr>ins_left = v, ins_top = v, ins_right = v, ins_bottom = v\<rparr>"

definition edge_insets_horizontal :: "edge_insets \<Rightarrow> nat" where
  "edge_insets_horizontal i = u32_sat_add (ins_left i) (ins_right i)"

definition edge_insets_vertical :: "edge_insets \<Rightarrow> nat" where
  "edge_insets_vertical i = u32_sat_add (ins_top i) (ins_bottom i)"

definition edge_insets_default :: edge_insets where
  "edge_insets_default = edge_insets_all 16"

record layout_spacing =
  sp_outer_padding :: edge_insets
  sp_column_gap :: nat
  sp_window_gap :: nat
  sp_floating_margin :: nat

definition layout_spacing_default :: layout_spacing where
  "layout_spacing_default =
     \<lparr>sp_outer_padding = edge_insets_default, sp_column_gap = 12, sp_window_gap = 12,
      sp_floating_margin = 16\<rparr>"

record config_projection =
  cfg_version :: nat
  cfg_live_reload_enabled :: bool
  cfg_rollback_supported :: bool
  cfg_source_path :: string
  cfg_bind_control_mode :: bind_control_mode
  cfg_strip_scroll_step :: nat
  cfg_default_column_mode :: column_mode
  cfg_default_column_width :: width_semantics
  cfg_layout_spacing :: layout_spacing
  cfg_managed_monitor_bindings :: "string list"
  cfg_active_rule_count :: nat

definition config_projection_default :: config_projection where
  "config_projection_default =
     \<lparr>cfg_version = 0, cfg_live_reload_enabled = True, cfg_rollback_supported = True,
      cfg_source_path = ''config/flowtile.kdl'', cfg_bind_control_mode = Coexistence,
      cfg_strip_scroll_step = 240, cfg_default_column_mode = NormalColumn,
      cfg_default_column_width = width_semantics_default,
      cfg_layout_spacing = layout_spacing_default, cfg_managed_monitor_bindings = [],
      cfg_active_rule_count = 0\<rparr>"

text \<open>
  \<open>str::trim\<close> and \<open>eq_ignore_ascii_case\<close> on the device names the bindings hold. A string is its
  UTF-8 bytes; only the ASCII white space is trimmed here.
\<close>

definition is_space :: "char \<Rightarrow> bool" where
  "is_space c \<longleftrightarrow> (let n = of_char c :: nat in n = 32 \<or> (9 \<le> n \<and> n \<le> 13))"

definition str_trim :: "string \<Rightarrow> string" where
  "str_trim v = rev (dropWhile is_space (rev (dropWhile is_space v)))"

definition ascii_lower :: "char \<Rightarrow> char" where
  "ascii_lower c = (let n = of_char c :: nat in if 65 \<le> n \<and> n \<le> 90 then char_of (n + 32) else c)"

definition eq_ignore_ascii_case :: "string \<Rightarrow> string \<Rightarrow> bool" where
  "eq_ignore_ascii_case a b \<longleftrightarrow> map ascii_lower a = map ascii_lower b"

definition manages_monitor_binding :: "config_projection \<Rightarrow> string option \<Rightarrow> bool" where
  "manages_monitor_binding cfg binding =
     (if cfg_managed_monitor_bindings cfg = [] then True
      else case filter_opt (\<lambda>b. b \<noteq> []) (map_option str_trim binding) of
        None \<Rightarrow> False
      | Some b \<Rightarrow> list_ex (\<lambda>candidate. eq_ignore_ascii_case candidate b) (cfg_managed_monitor_bindings cfg))"

definition version_line :: string where
  "version_line = ''v.0.0.23''"

record diagnostics_summary =
  diag_last_label :: "string option"
  diag_total_records :: nat
  diag_last_state_version :: nat
  diag_version_line :: string

definition diagnostics_summary_default :: diagnostics_summary where
  "diagnostics_summary_default =
     \<lparr>diag_last_label = None, diag_total_records = 0, diag_last_state_version = 0,
      diag_version_line = version_line\<rparr>"

record width_resize_session =
  wrs_workspace_id :: workspace_id
  wrs_column_id :: column_id
  wrs_window_id :: window_id
  wrs_anchor_edge :: resize_edge
  wrs_anchor_x :: int
  wrs_current_pointer_x :: int
  wrs_initial_column_rect :: rect
  wrs_initial_width :: nat
  wrs_target_width :: nat
  wrs_clamped_preview_rect :: rect

record layout_state =
  lay_columns :: "(column_id, column) bmap"
  lay_width_resize_session :: "width_resize_session option"

definition layout_state_default :: layout_state where
  "layout_state_default = \<lparr>lay_columns = [], lay_width_resize_session = None\<rparr>"

section \<open>Facts\<close>

lemma runtime_mode_roundtrip [simp]: "runtime_mode_parse (runtime_mode_as_str m) = Some m"
  by (cases m) (simp_all add: runtime_mode_parse_def)

lemma bind_control_mode_roundtrip [simp]:
  "bind_control_mode_parse (bind_control_mode_as_str m) = Some m"
  by (cases m) (simp_all add: bind_control_mode_parse_def)

lemma all_column_modes_complete: "m \<in> set all_column_modes"
  by (cases m) (simp_all add: all_column_modes_def)

lemma width_resolve_pos: "1 \<le> width_resolve w n"
  by (cases w) auto

lemma column_new_sel [simp]:
  "col_id (column_new i m w ids) = i" "col_mode (column_new i m w ids) = m"
  "col_windows (column_new i m w ids) = ids" "col_active (column_new i m w ids) = first ids"
  "col_width (column_new i m w ids) = w" "col_maximized (column_new i m w ids) = NotMaximized"
  "col_tab_selection (column_new i m w ids) = first ids"
  by (simp_all add: column_new_def)

lemma workspace_empty_sel [simp]:
  "wsp_id (workspace_empty i m n r) = i" "wsp_monitor_id (workspace_empty i m n r) = m"
  "wsp_vertical_index (workspace_empty i m n r) = n"
  "wsp_remembered_window (workspace_empty i m n r) = None"
  "wsp_remembered_column (workspace_empty i m n r) = None"
  "strip_columns (wsp_strip (workspace_empty i m n r)) = []"
  "strip_scroll_offset (wsp_strip (workspace_empty i m n r)) = 0"
  "fl_windows (wsp_floating (workspace_empty i m n r)) = []"
  "wsp_name (workspace_empty i m n r) = None"
  "wsp_is_ephemeral_empty_tail (workspace_empty i m n r) = True"
  by (simp_all add: workspace_empty_def)

end
