(* ===== verification/Domain_Events.thy ===== *)
theory Domain_Events
  imports Domain_Model
begin

text \<open>
  Domain events (\<open>crates/domain/src/events.rs\<close>): event names with their wire labels, the payload
  structs (datatypes with one constructor and selectors), the payload enum, the event record and
  the constructor functions the adapters and the command paths use. \<open>DomainEventName::X\<close> is
  \<open>EvtX\<close>, \<open>DomainEventPayload::X\<close> is \<open>X\<close>.
\<close>

section \<open>Names, categories and sources\<close>

datatype event_category =
  PlatformDerived | UserInputDerived | ConfigRulesDerived | IpcDerived | SystemRecovery

datatype event_source = WindowsAdapter | InputCommand | ConfigRules | IpcClient | WmCore

datatype domain_event_name =
    EvtWindowDiscovered
  | EvtWindowDestroyed
  | EvtWindowShown
  | EvtWindowHidden
  | EvtWindowLocationChanged
  | EvtWindowFocusObserved
  | EvtMonitorTopologyChanged
  | EvtSystemSuspend
  | EvtSystemResume
  | EvtExplorerRestartObserved
  | EvtCmdFocusNext
  | EvtCmdFocusPrev
  | EvtCmdFocusWorkspaceUp
  | EvtCmdFocusWorkspaceDown
  | EvtCmdScrollStripLeft
  | EvtCmdScrollStripRight
  | EvtCmdMoveWorkspaceUp
  | EvtCmdMoveWorkspaceDown
  | EvtCmdMoveWorkspaceToMonitorNext
  | EvtCmdMoveWorkspaceToMonitorPrevious
  | EvtCmdMoveColumnToWorkspaceUp
  | EvtCmdMoveColumnToWorkspaceDown
  | EvtCmdMoveColumnToWorkspaceTarget
  | EvtCmdMoveWindow
  | EvtCmdToggleFloating
  | EvtCmdToggleTabbed
  | EvtCmdToggleMaximized
  | EvtCmdToggleFullscreen
  | EvtCmdOpenOverview
  | EvtCmdCloseOverview
  | EvtCmdToggleOverview
  | EvtCmdBeginColumnWidthResize
  | EvtCmdUpdateColumnWidthPreview
  | EvtCmdCommitColumnWidth
  | EvtCmdCancelColumnWidthResize
  | EvtCmdCycleColumnWidth
  | EvtCmdEmergencyUnwind
  | EvtConfigReloadRequested
  | EvtConfigReloadSucceeded
  | EvtConfigReloadFailed
  | EvtRulesUpdated
  | EvtIpcCommandReceived
  | EvtIpcSnapshotRequested
  | EvtIpcClientConnected
  | EvtIpcClientDisconnected
  | EvtReconcileRequested
  | EvtFullScanRequested
  | EvtDesyncDetected
  | EvtUiHostCrashed
  | EvtCaptureModuleCrashed

fun event_name_as_str :: "domain_event_name \<Rightarrow> string" where
  "event_name_as_str EvtWindowDiscovered = ''EVT-WINDOW-DISCOVERED''"
| "event_name_as_str EvtWindowDestroyed = ''EVT-WINDOW-DESTROYED''"
| "event_name_as_str EvtWindowShown = ''EVT-WINDOW-SHOWN''"
| "event_name_as_str EvtWindowHidden = ''EVT-WINDOW-HIDDEN''"
| "event_name_as_str EvtWindowLocationChanged = ''EVT-WINDOW-LOCATION-CHANGED''"
| "event_name_as_str EvtWindowFocusObserved = ''EVT-WINDOW-FOCUS-OBSERVED''"
| "event_name_as_str EvtMonitorTopologyChanged = ''EVT-MONITOR-TOPOLOGY-CHANGED''"
| "event_name_as_str EvtSystemSuspend = ''EVT-SYSTEM-SUSPEND''"
| "event_name_as_str EvtSystemResume = ''EVT-SYSTEM-RESUME''"
| "event_name_as_str EvtExplorerRestartObserved = ''EVT-EXPLORER-RESTART-OBSERVED''"
| "event_name_as_str EvtCmdFocusNext = ''EVT-CMD-FOCUS-NEXT''"
| "event_name_as_str EvtCmdFocusPrev = ''EVT-CMD-FOCUS-PREV''"
| "event_name_as_str EvtCmdFocusWorkspaceUp = ''EVT-CMD-FOCUS-WORKSPACE-UP''"
| "event_name_as_str EvtCmdFocusWorkspaceDown = ''EVT-CMD-FOCUS-WORKSPACE-DOWN''"
| "event_name_as_str EvtCmdScrollStripLeft = ''EVT-CMD-SCROLL-STRIP-LEFT''"
| "event_name_as_str EvtCmdScrollStripRight = ''EVT-CMD-SCROLL-STRIP-RIGHT''"
| "event_name_as_str EvtCmdMoveWorkspaceUp = ''EVT-CMD-MOVE-WORKSPACE-UP''"
| "event_name_as_str EvtCmdMoveWorkspaceDown = ''EVT-CMD-MOVE-WORKSPACE-DOWN''"
| "event_name_as_str EvtCmdMoveWorkspaceToMonitorNext = ''EVT-CMD-MOVE-WORKSPACE-TO-MONITOR-NEXT''"
| "event_name_as_str EvtCmdMoveWorkspaceToMonitorPrevious = ''EVT-CMD-MOVE-WORKSPACE-TO-MONITOR-PREVIOUS''"
| "event_name_as_str EvtCmdMoveColumnToWorkspaceUp = ''EVT-CMD-MOVE-COLUMN-TO-WORKSPACE-UP''"
| "event_name_as_str EvtCmdMoveColumnToWorkspaceDown = ''EVT-CMD-MOVE-COLUMN-TO-WORKSPACE-DOWN''"
| "event_name_as_str EvtCmdMoveColumnToWorkspaceTarget = ''EVT-CMD-MOVE-COLUMN-TO-WORKSPACE-TARGET''"
| "event_name_as_str EvtCmdMoveWindow = ''EVT-CMD-MOVE-WINDOW''"
| "event_name_as_str EvtCmdToggleFloating = ''EVT-CMD-TOGGLE-FLOATING''"
| "event_name_as_str EvtCmdToggleTabbed = ''EVT-CMD-TOGGLE-TABBED''"
| "event_name_as_str EvtCmdToggleMaximized = ''EVT-CMD-TOGGLE-MAXIMIZED''"
| "event_name_as_str EvtCmdToggleFullscreen = ''EVT-CMD-TOGGLE-FULLSCREEN''"
| "event_name_as_str EvtCmdOpenOverview = ''EVT-CMD-OPEN-OVERVIEW''"
| "event_name_as_str EvtCmdCloseOverview = ''EVT-CMD-CLOSE-OVERVIEW''"
| "event_name_as_str EvtCmdToggleOverview = ''EVT-CMD-TOGGLE-OVERVIEW''"
| "event_name_as_str EvtCmdBeginColumnWidthResize = ''EVT-CMD-BEGIN-COLUMN-WIDTH-RESIZE''"
| "event_name_as_str EvtCmdUpdateColumnWidthPreview = ''EVT-CMD-UPDATE-COLUMN-WIDTH-PREVIEW''"
| "event_name_as_str EvtCmdCommitColumnWidth = ''EVT-CMD-COMMIT-COLUMN-WIDTH''"
| "event_name_as_str EvtCmdCancelColumnWidthResize = ''EVT-CMD-CANCEL-COLUMN-WIDTH-RESIZE''"
| "event_name_as_str EvtCmdCycleColumnWidth = ''EVT-CMD-CYCLE-COLUMN-WIDTH''"
| "event_name_as_str EvtCmdEmergencyUnwind = ''EVT-CMD-EMERGENCY-UNWIND''"
| "event_name_as_str EvtConfigReloadRequested = ''EVT-CONFIG-RELOAD-REQUESTED''"
| "event_name_as_str EvtConfigReloadSucceeded = ''EVT-CONFIG-RELOAD-SUCCEEDED''"
| "event_name_as_str EvtConfigReloadFailed = ''EVT-CONFIG-RELOAD-FAILED''"
| "event_name_as_str EvtRulesUpdated = ''EVT-RULES-UPDATED''"
| "event_name_as_str EvtIpcCommandReceived = ''EVT-IPC-COMMAND-RECEIVED''"
| "event_name_as_str EvtIpcSnapshotRequested = ''EVT-IPC-SNAPSHOT-REQUESTED''"
| "event_name_as_str EvtIpcClientConnected = ''EVT-IPC-CLIENT-CONNECTED''"
| "event_name_as_str EvtIpcClientDisconnected = ''EVT-IPC-CLIENT-DISCONNECTED''"
| "event_name_as_str EvtReconcileRequested = ''EVT-RECONCILE-REQUESTED''"
| "event_name_as_str EvtFullScanRequested = ''EVT-FULL-SCAN-REQUESTED''"
| "event_name_as_str EvtDesyncDetected = ''EVT-DESYNC-DETECTED''"
| "event_name_as_str EvtUiHostCrashed = ''EVT-UI-HOST-CRASHED''"
| "event_name_as_str EvtCaptureModuleCrashed = ''EVT-CAPTURE-MODULE-CRASHED''"

section \<open>Payloads\<close>

datatype focus_behavior = FollowNewWindow | PreserveCurrentFocus

datatype window_placement =
    AppendToFocusedColumn
  | NewColumnAfterFocus column_mode width_semantics
  | NewColumnBeforeFocus column_mode width_semantics
  | AppendToWorkspaceEnd column_mode width_semantics

definition window_placement_default :: window_placement where
  "window_placement_default = NewColumnAfterFocus NormalColumn width_semantics_default"

datatype navigation_scope = WorkspaceStrip | ColumnTabs

datatype window_discovered_payload = WindowDiscoveredPayload
  (wdp_monitor_id: monitor_id) (wdp_hwnd: nat) (wdp_classification: window_classification)
  (wdp_desired_size: size_px) (wdp_last_known_rect: rect) (wdp_placement: window_placement)
  (wdp_focus_behavior: focus_behavior) (wdp_layer: window_layer) (wdp_managed: bool)

datatype window_destroyed_payload = WindowDestroyedPayload (wxp_window_id: window_id)

datatype window_focus_observed_payload = WindowFocusObservedPayload
  (wfp_monitor_id: monitor_id) (wfp_window_id: window_id) (wfp_focus_origin: focus_origin)

datatype focus_command_payload = FocusCommandPayload (fcp_scope: navigation_scope)

datatype strip_scroll_payload = StripScrollPayload (ssp_scope: navigation_scope) (ssp_step: nat)

datatype window_command_payload = WindowCommandPayload (wcp_window_id: "window_id option")

datatype workspace_command_payload = WorkspaceCommandPayload (kcp_monitor_id: "monitor_id option")

datatype move_column_payload = MoveColumnToWorkspaceTargetPayload
  (mcp_source_column_id: column_id) (mcp_target_workspace_id: workspace_id)
  (mcp_insert_after_column_id: "column_id option")

datatype overview_command_payload = OverviewCommandPayload (ocp_monitor_id: "monitor_id option")

datatype column_width_resize_payload = ColumnWidthResizePayload
  (crp_edge: resize_edge) (crp_pointer_x: int)

datatype column_width_pointer_payload = ColumnWidthPointerPayload (cpp_pointer_x: int)

datatype config_reload_requested_payload = ConfigReloadRequestedPayload
  (rrp_source: event_source) (rrp_path: "string option")

datatype config_reload_succeeded_payload = ConfigReloadSucceededPayload
  (rsp_config_generation: nat) (rsp_changed_sections: "string list") (rsp_projection: config_projection)

datatype config_reload_failed_payload = ConfigReloadFailedPayload
  (rfp_error_code: string) (rfp_human_message: string)

datatype rules_updated_payload = RulesUpdatedPayload
  (rup_rule_set_version: nat) (rup_changed_rules: "string list") (rup_active_rule_count: nat)

datatype domain_event_payload =
    WindowDiscovered window_discovered_payload
  | WindowDestroyed window_destroyed_payload
  | WindowFocusObserved window_focus_observed_payload
  | CmdFocusNext focus_command_payload
  | CmdFocusPrev focus_command_payload
  | CmdFocusWorkspaceUp workspace_command_payload
  | CmdFocusWorkspaceDown workspace_command_payload
  | CmdScrollStripLeft strip_scroll_payload
  | CmdScrollStripRight strip_scroll_payload
  | CmdMoveWorkspaceUp workspace_command_payload
  | CmdMoveWorkspaceDown workspace_command_payload
  | CmdMoveWorkspaceToMonitorNext workspace_command_payload
  | CmdMoveWorkspaceToMonitorPrevious workspace_command_payload
  | CmdMoveColumnToWorkspaceUp workspace_command_payload
  | CmdMoveColumnToWorkspaceDown workspace_command_payload
  | CmdMoveColumnToWorkspaceTarget move_column_payload
  | CmdToggleFloating window_command_payload
  | CmdToggleTabbed window_command_payload
  | CmdToggleMaximized window_command_payload
  | CmdToggleFullscreen window_command_payload
  | CmdOpenOverview overview_command_payload
  | CmdCloseOverview overview_command_payload
  | CmdToggleOverview overview_command_payload
  | CmdBeginColumnWidthResize column_width_resize_payload
  | CmdUpdateColumnWidthPreview column_width_pointer_payload
  | CmdCommitColumnWidth column_width_pointer_payload
  | CmdCancelColumnWidthResize
  | CmdCycleColumnWidth
  | ConfigReloadRequested config_reload_requested_payload
  | ConfigReloadSucceeded config_reload_succeeded_payload
  | ConfigReloadFailed config_reload_failed_payload
  | RulesUpdated rules_updated_payload
  | ReconcileRequested
  | FullScanRequested

record domain_event =
  ev_id :: domain_event_name
  ev_kind :: event_category
  ev_timestamp :: nat
  ev_source :: event_source
  ev_correlation_id :: correlation_id
  ev_payload :: domain_event_payload
  ev_state_version_at_enqueue :: "nat option"

section \<open>Constructors\<close>

definition event_new ::
    "domain_event_name \<Rightarrow> event_category \<Rightarrow> event_source \<Rightarrow> correlation_id \<Rightarrow> domain_event_payload \<Rightarrow>
     domain_event" where
  "event_new name kind source correlation payload =
     \<lparr>ev_id = name, ev_kind = kind, ev_timestamp = 0, ev_source = source,
      ev_correlation_id = correlation, ev_payload = payload, ev_state_version_at_enqueue = None\<rparr>"

definition window_discovered_with ::
    "correlation_id \<Rightarrow> monitor_id \<Rightarrow> nat \<Rightarrow> size_px \<Rightarrow> rect \<Rightarrow> window_placement \<Rightarrow> focus_behavior \<Rightarrow>
     domain_event" where
  "window_discovered_with correlation m hwnd desired_size last_known_rect placement behavior =
     event_new EvtWindowDiscovered PlatformDerived WindowsAdapter correlation
       (WindowDiscovered (WindowDiscoveredPayload m hwnd Application desired_size last_known_rect
          placement behavior Tiled True))"

definition window_discovered ::
    "correlation_id \<Rightarrow> monitor_id \<Rightarrow> nat \<Rightarrow> size_px \<Rightarrow> rect \<Rightarrow> domain_event" where
  "window_discovered correlation m hwnd desired_size last_known_rect =
     window_discovered_with correlation m hwnd desired_size last_known_rect
       window_placement_default FollowNewWindow"

definition window_destroyed :: "correlation_id \<Rightarrow> window_id \<Rightarrow> domain_event" where
  "window_destroyed correlation w =
     event_new EvtWindowDestroyed PlatformDerived WindowsAdapter correlation
       (WindowDestroyed (WindowDestroyedPayload w))"

definition window_focus_observed :: "correlation_id \<Rightarrow> monitor_id \<Rightarrow> window_id \<Rightarrow> domain_event" where
  "window_focus_observed correlation m w =
     event_new EvtWindowFocusObserved PlatformDerived WindowsAdapter correlation
       (WindowFocusObserved (WindowFocusObservedPayload m w PlatformObservation))"

definition cmd_focus_next :: "correlation_id \<Rightarrow> navigation_scope \<Rightarrow> domain_event" where
  "cmd_focus_next correlation scope =
     event_new EvtCmdFocusNext UserInputDerived InputCommand correlation
       (CmdFocusNext (FocusCommandPayload scope))"

definition cmd_focus_prev :: "correlation_id \<Rightarrow> navigation_scope \<Rightarrow> domain_event" where
  "cmd_focus_prev correlation scope =
     event_new EvtCmdFocusPrev UserInputDerived InputCommand correlation
       (CmdFocusPrev (FocusCommandPayload scope))"

definition cmd_focus_workspace_up :: "correlation_id \<Rightarrow> monitor_id option \<Rightarrow> domain_event" where
  "cmd_focus_workspace_up correlation m =
     event_new EvtCmdFocusWorkspaceUp UserInputDerived InputCommand correlation
       (CmdFocusWorkspaceUp (WorkspaceCommandPayload m))"

definition cmd_focus_workspace_down :: "correlation_id \<Rightarrow> monitor_id option \<Rightarrow> domain_event" where
  "cmd_focus_workspace_down correlation m =
     event_new EvtCmdFocusWorkspaceDown UserInputDerived InputCommand correlation
       (CmdFocusWorkspaceDown (WorkspaceCommandPayload m))"

definition cmd_scroll_strip_left :: "correlation_id \<Rightarrow> navigation_scope \<Rightarrow> nat \<Rightarrow> domain_event" where
  "cmd_scroll_strip_left correlation scope step =
     event_new EvtCmdScrollStripLeft UserInputDerived InputCommand correlation
       (CmdScrollStripLeft (StripScrollPayload scope step))"

definition cmd_scroll_strip_right :: "correlation_id \<Rightarrow> navigation_scope \<Rightarrow> nat \<Rightarrow> domain_event" where
  "cmd_scroll_strip_right correlation scope step =
     event_new EvtCmdScrollStripRight UserInputDerived InputCommand correlation
       (CmdScrollStripRight (StripScrollPayload scope step))"

definition cmd_move_workspace_up :: "correlation_id \<Rightarrow> monitor_id option \<Rightarrow> domain_event" where
  "cmd_move_workspace_up correlation m =
     event_new EvtCmdMoveWorkspaceUp UserInputDerived InputCommand correlation
       (CmdMoveWorkspaceUp (WorkspaceCommandPayload m))"

definition cmd_move_workspace_down :: "correlation_id \<Rightarrow> monitor_id option \<Rightarrow> domain_event" where
  "cmd_move_workspace_down correlation m =
     event_new EvtCmdMoveWorkspaceDown UserInputDerived InputCommand correlation
       (CmdMoveWorkspaceDown (WorkspaceCommandPayload m))"

definition cmd_move_workspace_to_monitor_next :: "correlation_id \<Rightarrow> monitor_id option \<Rightarrow> domain_event" where
  "cmd_move_workspace_to_monitor_next correlation m =
     event_new EvtCmdMoveWorkspaceToMonitorNext UserInputDerived InputCommand correlation
       (CmdMoveWorkspaceToMonitorNext (WorkspaceCommandPayload m))"

definition cmd_move_workspace_to_monitor_previous :: "correlation_id \<Rightarrow> monitor_id option \<Rightarrow> domain_event" where
  "cmd_move_workspace_to_monitor_previous correlation m =
     event_new EvtCmdMoveWorkspaceToMonitorPrevious UserInputDerived InputCommand correlation
       (CmdMoveWorkspaceToMonitorPrevious (WorkspaceCommandPayload m))"

definition cmd_move_column_to_workspace_up :: "correlation_id \<Rightarrow> monitor_id option \<Rightarrow> domain_event" where
  "cmd_move_column_to_workspace_up correlation m =
     event_new EvtCmdMoveColumnToWorkspaceUp UserInputDerived InputCommand correlation
       (CmdMoveColumnToWorkspaceUp (WorkspaceCommandPayload m))"

definition cmd_move_column_to_workspace_down :: "correlation_id \<Rightarrow> monitor_id option \<Rightarrow> domain_event" where
  "cmd_move_column_to_workspace_down correlation m =
     event_new EvtCmdMoveColumnToWorkspaceDown UserInputDerived InputCommand correlation
       (CmdMoveColumnToWorkspaceDown (WorkspaceCommandPayload m))"

definition cmd_move_column_to_workspace_target :: "correlation_id \<Rightarrow> column_id \<Rightarrow> workspace_id \<Rightarrow> column_id option \<Rightarrow> domain_event" where
  "cmd_move_column_to_workspace_target correlation source_column target insert_after =
     event_new EvtCmdMoveColumnToWorkspaceTarget UserInputDerived InputCommand correlation
       (CmdMoveColumnToWorkspaceTarget (MoveColumnToWorkspaceTargetPayload source_column target insert_after))"

definition cmd_toggle_floating :: "correlation_id \<Rightarrow> window_id option \<Rightarrow> domain_event" where
  "cmd_toggle_floating correlation w =
     event_new EvtCmdToggleFloating UserInputDerived InputCommand correlation
       (CmdToggleFloating (WindowCommandPayload w))"

definition cmd_toggle_tabbed :: "correlation_id \<Rightarrow> window_id option \<Rightarrow> domain_event" where
  "cmd_toggle_tabbed correlation w =
     event_new EvtCmdToggleTabbed UserInputDerived InputCommand correlation
       (CmdToggleTabbed (WindowCommandPayload w))"

definition cmd_toggle_maximized :: "correlation_id \<Rightarrow> window_id option \<Rightarrow> domain_event" where
  "cmd_toggle_maximized correlation w =
     event_new EvtCmdToggleMaximized UserInputDerived InputCommand correlation
       (CmdToggleMaximized (WindowCommandPayload w))"

definition cmd_toggle_fullscreen :: "correlation_id \<Rightarrow> window_id option \<Rightarrow> domain_event" where
  "cmd_toggle_fullscreen correlation w =
     event_new EvtCmdToggleFullscreen UserInputDerived InputCommand correlation
       (CmdToggleFullscreen (WindowCommandPayload w))"

definition cmd_open_overview :: "correlation_id \<Rightarrow> monitor_id option \<Rightarrow> domain_event" where
  "cmd_open_overview correlation m =
     event_new EvtCmdOpenOverview UserInputDerived InputCommand correlation
       (CmdOpenOverview (OverviewCommandPayload m))"

definition cmd_close_overview :: "correlation_id \<Rightarrow> monitor_id option \<Rightarrow> domain_event" where
  "cmd_close_overview correlation m =
     event_new EvtCmdCloseOverview UserInputDerived InputCommand correlation
       (CmdCloseOverview (OverviewCommandPayload m))"

definition cmd_toggle_overview :: "correlation_id \<Rightarrow> monitor_id option \<Rightarrow> domain_event" where
  "cmd_toggle_overview correlation m =
     event_new EvtCmdToggleOverview UserInputDerived InputCommand correlation
       (CmdToggleOverview (OverviewCommandPayload m))"

definition cmd_begin_column_width_resize :: "correlation_id \<Rightarrow> resize_edge \<Rightarrow> int \<Rightarrow> domain_event" where
  "cmd_begin_column_width_resize correlation edge pointer_x =
     event_new EvtCmdBeginColumnWidthResize UserInputDerived InputCommand correlation
       (CmdBeginColumnWidthResize (ColumnWidthResizePayload edge pointer_x))"

definition cmd_update_column_width_preview :: "correlation_id \<Rightarrow> int \<Rightarrow> domain_event" where
  "cmd_update_column_width_preview correlation pointer_x =
     event_new EvtCmdUpdateColumnWidthPreview UserInputDerived InputCommand correlation
       (CmdUpdateColumnWidthPreview (ColumnWidthPointerPayload pointer_x))"

definition cmd_commit_column_width :: "correlation_id \<Rightarrow> int \<Rightarrow> domain_event" where
  "cmd_commit_column_width correlation pointer_x =
     event_new EvtCmdCommitColumnWidth UserInputDerived InputCommand correlation
       (CmdCommitColumnWidth (ColumnWidthPointerPayload pointer_x))"

definition cmd_cancel_column_width_resize :: "correlation_id \<Rightarrow> domain_event" where
  "cmd_cancel_column_width_resize correlation =
     event_new EvtCmdCancelColumnWidthResize UserInputDerived InputCommand correlation
       CmdCancelColumnWidthResize"

definition cmd_cycle_column_width :: "correlation_id \<Rightarrow> domain_event" where
  "cmd_cycle_column_width correlation =
     event_new EvtCmdCycleColumnWidth UserInputDerived InputCommand correlation
       CmdCycleColumnWidth"

definition config_reload_requested :: "correlation_id \<Rightarrow> event_source \<Rightarrow> string option \<Rightarrow> domain_event" where
  "config_reload_requested correlation source path =
     event_new EvtConfigReloadRequested ConfigRulesDerived source correlation
       (ConfigReloadRequested (ConfigReloadRequestedPayload source path))"

definition config_reload_succeeded :: "correlation_id \<Rightarrow> nat \<Rightarrow> string list \<Rightarrow> config_projection \<Rightarrow> domain_event" where
  "config_reload_succeeded correlation config_generation changed_sections projection =
     event_new EvtConfigReloadSucceeded ConfigRulesDerived ConfigRules correlation
       (ConfigReloadSucceeded (ConfigReloadSucceededPayload config_generation changed_sections projection))"

definition config_reload_failed :: "correlation_id \<Rightarrow> string \<Rightarrow> string \<Rightarrow> domain_event" where
  "config_reload_failed correlation error_code human_message =
     event_new EvtConfigReloadFailed ConfigRulesDerived ConfigRules correlation
       (ConfigReloadFailed (ConfigReloadFailedPayload error_code human_message))"

definition rules_updated :: "correlation_id \<Rightarrow> nat \<Rightarrow> string list \<Rightarrow> nat \<Rightarrow> domain_event" where
  "rules_updated correlation rule_set_version changed_rules active_rule_count =
     event_new EvtRulesUpdated ConfigRulesDerived ConfigRules correlation
       (RulesUpdated (RulesUpdatedPayload rule_set_version changed_rules active_rule_count))"

section \<open>Facts\<close>

text \<open>The name a payload is announced under.\<close>

fun payload_name :: "domain_event_payload \<Rightarrow> domain_event_name" where
  "payload_name (WindowDiscovered p) = EvtWindowDiscovered"
| "payload_name (WindowDestroyed p) = EvtWindowDestroyed"
| "payload_name (WindowFocusObserved p) = EvtWindowFocusObserved"
| "payload_name (CmdFocusNext p) = EvtCmdFocusNext"
| "payload_name (CmdFocusPrev p) = EvtCmdFocusPrev"
| "payload_name (CmdFocusWorkspaceUp p) = EvtCmdFocusWorkspaceUp"
| "payload_name (CmdFocusWorkspaceDown p) = EvtCmdFocusWorkspaceDown"
| "payload_name (CmdScrollStripLeft p) = EvtCmdScrollStripLeft"
| "payload_name (CmdScrollStripRight p) = EvtCmdScrollStripRight"
| "payload_name (CmdMoveWorkspaceUp p) = EvtCmdMoveWorkspaceUp"
| "payload_name (CmdMoveWorkspaceDown p) = EvtCmdMoveWorkspaceDown"
| "payload_name (CmdMoveWorkspaceToMonitorNext p) = EvtCmdMoveWorkspaceToMonitorNext"
| "payload_name (CmdMoveWorkspaceToMonitorPrevious p) = EvtCmdMoveWorkspaceToMonitorPrevious"
| "payload_name (CmdMoveColumnToWorkspaceUp p) = EvtCmdMoveColumnToWorkspaceUp"
| "payload_name (CmdMoveColumnToWorkspaceDown p) = EvtCmdMoveColumnToWorkspaceDown"
| "payload_name (CmdMoveColumnToWorkspaceTarget p) = EvtCmdMoveColumnToWorkspaceTarget"
| "payload_name (CmdToggleFloating p) = EvtCmdToggleFloating"
| "payload_name (CmdToggleTabbed p) = EvtCmdToggleTabbed"
| "payload_name (CmdToggleMaximized p) = EvtCmdToggleMaximized"
| "payload_name (CmdToggleFullscreen p) = EvtCmdToggleFullscreen"
| "payload_name (CmdOpenOverview p) = EvtCmdOpenOverview"
| "payload_name (CmdCloseOverview p) = EvtCmdCloseOverview"
| "payload_name (CmdToggleOverview p) = EvtCmdToggleOverview"
| "payload_name (CmdBeginColumnWidthResize p) = EvtCmdBeginColumnWidthResize"
| "payload_name (CmdUpdateColumnWidthPreview p) = EvtCmdUpdateColumnWidthPreview"
| "payload_name (CmdCommitColumnWidth p) = EvtCmdCommitColumnWidth"
| "payload_name CmdCancelColumnWidthResize = EvtCmdCancelColumnWidthResize"
| "payload_name CmdCycleColumnWidth = EvtCmdCycleColumnWidth"
| "payload_name (ConfigReloadRequested p) = EvtConfigReloadRequested"
| "payload_name (ConfigReloadSucceeded p) = EvtConfigReloadSucceeded"
| "payload_name (ConfigReloadFailed p) = EvtConfigReloadFailed"
| "payload_name (RulesUpdated p) = EvtRulesUpdated"
| "payload_name ReconcileRequested = EvtReconcileRequested"
| "payload_name FullScanRequested = EvtFullScanRequested"

lemmas event_constructor_defs =
  window_discovered_with_def
  window_discovered_def
  window_destroyed_def
  window_focus_observed_def
  cmd_focus_next_def
  cmd_focus_prev_def
  cmd_focus_workspace_up_def
  cmd_focus_workspace_down_def
  cmd_scroll_strip_left_def
  cmd_scroll_strip_right_def
  cmd_move_workspace_up_def
  cmd_move_workspace_down_def
  cmd_move_workspace_to_monitor_next_def
  cmd_move_workspace_to_monitor_previous_def
  cmd_move_column_to_workspace_up_def
  cmd_move_column_to_workspace_down_def
  cmd_move_column_to_workspace_target_def
  cmd_toggle_floating_def
  cmd_toggle_tabbed_def
  cmd_toggle_maximized_def
  cmd_toggle_fullscreen_def
  cmd_open_overview_def
  cmd_close_overview_def
  cmd_toggle_overview_def
  cmd_begin_column_width_resize_def
  cmd_update_column_width_preview_def
  cmd_commit_column_width_def
  cmd_cancel_column_width_resize_def
  cmd_cycle_column_width_def
  config_reload_requested_def
  config_reload_succeeded_def
  config_reload_failed_def
  rules_updated_def

lemma event_new_sel [simp]:
  "ev_id (event_new n k src c p) = n" "ev_payload (event_new n k src c p) = p"
  "ev_correlation_id (event_new n k src c p) = c" "ev_source (event_new n k src c p) = src"
  "ev_kind (event_new n k src c p) = k"
  by (simp_all add: event_new_def)

end
