(* ===== verification/Domain_State.thy ===== *)
theory Domain_State
  imports Domain_Model "HOL-Library.Product_Lexorder"
begin

text \<open>
  \<open>WmState\<close> and its methods (\<open>crates/domain/src/model.rs\<close>): the whole state of the window
  manager, the id allocators, \<open>add_monitor\<close>, the emptiness test of a workspace and
  \<open>normalize_workspace_set\<close>, which keeps the workspace stack of a monitor in shape. The
  normalisation is split at the source's own steps: seed, retain, collapse, tail, renumber, commit.
\<close>

section \<open>State\<close>

record runtime_state =
  rs_state_version :: nat
  rs_boot_mode :: runtime_mode
  rs_last_reconcile_at :: "nat option"
  rs_last_full_scan_at :: "nat option"
  rs_degraded_flags :: "string list"
  rs_next_monitor_id :: nat
  rs_next_workspace_set_id :: nat
  rs_next_workspace_id :: nat
  rs_next_column_id :: nat
  rs_next_window_id :: nat

definition runtime_state_new :: "runtime_mode \<Rightarrow> runtime_state" where
  "runtime_state_new boot_mode =
     \<lparr>rs_state_version = 0, rs_boot_mode = boot_mode, rs_last_reconcile_at = None,
      rs_last_full_scan_at = None, rs_degraded_flags = [], rs_next_monitor_id = 1,
      rs_next_workspace_set_id = 1, rs_next_workspace_id = 1, rs_next_column_id = 1,
      rs_next_window_id = 1\<rparr>"

record wm_state =
  runtime :: runtime_state
  monitors :: "(monitor_id, monitor) bmap"
  workspace_sets :: "(workspace_set_id, workspace_set) bmap"
  workspaces :: "(workspace_id, workspace) bmap"
  windows :: "(window_id, window_node) bmap"
  focus :: focus_state
  layout :: layout_state
  overview :: overview_state
  capture :: capture_policy
  config :: config_projection
  diagnostics :: diagnostics_summary

definition wm_state_new :: "runtime_mode \<Rightarrow> wm_state" where
  "wm_state_new m =
     \<lparr>runtime = runtime_state_new m, monitors = [], workspace_sets = [], workspaces = [],
      windows = [], focus = focus_state_default, layout = layout_state_default,
      overview = overview_state_default, capture = capture_policy_default,
      config = config_projection_default, diagnostics = diagnostics_summary_default\<rparr>"

record bootstrap_profile =
  bp_runtime_mode :: runtime_mode
  bp_state_version :: nat
  bp_version_line :: string

definition bootstrap_profile_from_state :: "runtime_mode \<Rightarrow> nat \<Rightarrow> bootstrap_profile" where
  "bootstrap_profile_from_state m v =
     \<lparr>bp_runtime_mode = m, bp_state_version = v, bp_version_line = version_line\<rparr>"

definition bootstrap_profile :: "wm_state \<Rightarrow> bootstrap_profile" where
  "bootstrap_profile s = bootstrap_profile_from_state (rs_boot_mode (runtime s)) (rs_state_version (runtime s))"

definition bump_state_version :: "wm_state \<Rightarrow> nat \<times> wm_state" where
  "bump_state_version s =
     (let v = rs_state_version (runtime s) + 1
      in (v, s\<lparr>runtime := (runtime s)\<lparr>rs_state_version := v\<rparr>\<rparr>))"

text \<open>Writing through \<open>get_mut\<close>: nothing happens when the key is absent.\<close>

definition upd_workspace :: "workspace_id \<Rightarrow> (workspace \<Rightarrow> workspace) \<Rightarrow> wm_state \<Rightarrow> wm_state" where
  "upd_workspace w f s = s\<lparr>workspaces := bm_adj w f (workspaces s)\<rparr>"

definition upd_set :: "workspace_set_id \<Rightarrow> (workspace_set \<Rightarrow> workspace_set) \<Rightarrow> wm_state \<Rightarrow> wm_state" where
  "upd_set i f s = s\<lparr>workspace_sets := bm_adj i f (workspace_sets s)\<rparr>"

definition upd_window :: "window_id \<Rightarrow> (window_node \<Rightarrow> window_node) \<Rightarrow> wm_state \<Rightarrow> wm_state" where
  "upd_window w f s = s\<lparr>windows := bm_adj w f (windows s)\<rparr>"

definition upd_column :: "column_id \<Rightarrow> (column \<Rightarrow> column) \<Rightarrow> wm_state \<Rightarrow> wm_state" where
  "upd_column c f s = s\<lparr>layout := (layout s)\<lparr>lay_columns := bm_adj c f (lay_columns (layout s))\<rparr>\<rparr>"

definition upd_focus :: "(focus_state \<Rightarrow> focus_state) \<Rightarrow> wm_state \<Rightarrow> wm_state" where
  "upd_focus f s = s\<lparr>focus := f (focus s)\<rparr>"

definition put_workspace :: "workspace \<Rightarrow> wm_state \<Rightarrow> wm_state" where
  "put_workspace w s = s\<lparr>workspaces := bm_put (wsp_id w) w (workspaces s)\<rparr>"

definition del_workspace :: "workspace_id \<Rightarrow> wm_state \<Rightarrow> wm_state" where
  "del_workspace w s = s\<lparr>workspaces := bm_del w (workspaces s)\<rparr>"

definition set_active_on_monitor :: "monitor_id \<Rightarrow> workspace_id \<Rightarrow> wm_state \<Rightarrow> wm_state" where
  "set_active_on_monitor m w =
     upd_focus (\<lambda>f. f\<lparr>focus_active_workspaces := bm_put m w (focus_active_workspaces f)\<rparr>)"

lemmas state_writer_defs = upd_workspace_def upd_set_def upd_window_def upd_column_def upd_focus_def
  put_workspace_def del_workspace_def set_active_on_monitor_def

abbreviation get_workspace :: "wm_state \<Rightarrow> workspace_id \<Rightarrow> workspace option" where
  "get_workspace s \<equiv> bm_get (workspaces s)"

abbreviation get_set :: "wm_state \<Rightarrow> workspace_set_id \<Rightarrow> workspace_set option" where
  "get_set s \<equiv> bm_get (workspace_sets s)"

abbreviation get_window :: "wm_state \<Rightarrow> window_id \<Rightarrow> window_node option" where
  "get_window s \<equiv> bm_get (windows s)"

abbreviation get_column :: "wm_state \<Rightarrow> column_id \<Rightarrow> column option" where
  "get_column s \<equiv> bm_get (lay_columns (layout s))"

abbreviation get_monitor :: "wm_state \<Rightarrow> monitor_id \<Rightarrow> monitor option" where
  "get_monitor s \<equiv> bm_get (monitors s)"

section \<open>Identifier allocation\<close>

definition allocate_monitor_id :: "wm_state \<Rightarrow> monitor_id \<times> wm_state" where
  "allocate_monitor_id s =
     (let n = rs_next_monitor_id (runtime s)
      in (MonitorId n, s\<lparr>runtime := (runtime s)\<lparr>rs_next_monitor_id := n + 1\<rparr>\<rparr>))"

definition allocate_workspace_set_id :: "wm_state \<Rightarrow> workspace_set_id \<times> wm_state" where
  "allocate_workspace_set_id s =
     (let n = rs_next_workspace_set_id (runtime s)
      in (WorkspaceSetId n, s\<lparr>runtime := (runtime s)\<lparr>rs_next_workspace_set_id := n + 1\<rparr>\<rparr>))"

definition allocate_workspace_id :: "wm_state \<Rightarrow> workspace_id \<times> wm_state" where
  "allocate_workspace_id s =
     (let n = rs_next_workspace_id (runtime s)
      in (WorkspaceId n, s\<lparr>runtime := (runtime s)\<lparr>rs_next_workspace_id := n + 1\<rparr>\<rparr>))"

definition allocate_column_id :: "wm_state \<Rightarrow> column_id \<times> wm_state" where
  "allocate_column_id s =
     (let n = rs_next_column_id (runtime s)
      in (ColumnId n, s\<lparr>runtime := (runtime s)\<lparr>rs_next_column_id := n + 1\<rparr>\<rparr>))"

definition allocate_window_id :: "wm_state \<Rightarrow> window_id \<times> wm_state" where
  "allocate_window_id s =
     (let n = rs_next_window_id (runtime s)
      in (WindowId n, s\<lparr>runtime := (runtime s)\<lparr>rs_next_window_id := n + 1\<rparr>\<rparr>))"

section \<open>Readers\<close>

definition workspace_set_id_for_monitor :: "wm_state \<Rightarrow> monitor_id \<Rightarrow> workspace_set_id option" where
  "workspace_set_id_for_monitor s m = map_option mon_workspace_set_id (get_monitor s m)"

definition active_workspace_id_for_monitor :: "wm_state \<Rightarrow> monitor_id \<Rightarrow> workspace_id option" where
  "active_workspace_id_for_monitor s m =
     or_opt (bm_get (focus_active_workspaces (focus s)) m)
       (Option.bind (workspace_set_id_for_monitor s m)
         (\<lambda>i. map_option wset_active (get_set s i)))"

definition is_workspace_empty :: "wm_state \<Rightarrow> workspace_id \<Rightarrow> bool" where
  "is_workspace_empty s w =
     (case get_workspace s w of
        None \<Rightarrow> True
      | Some ws \<Rightarrow>
          if fl_windows (wsp_floating ws) \<noteq> [] then False
          else list_all
            (\<lambda>c. case get_column s c of None \<Rightarrow> True | Some col \<Rightarrow> col_windows col = [])
            (strip_columns (wsp_strip ws)))"

definition navigation_key :: "wm_state \<Rightarrow> monitor_id \<Rightarrow> int \<times> int \<times> nat" where
  "navigation_key s m =
     (case get_monitor s m of
        None \<Rightarrow> (i32_max, i32_max, u64_max)
      | Some mon \<Rightarrow> (rect_x (mon_work_area_rect mon), rect_y (mon_work_area_rect mon), raw_monitor_id m))"

definition monitor_ids_in_navigation_order :: "wm_state \<Rightarrow> monitor_id list" where
  "monitor_ids_in_navigation_order s = sort_key (navigation_key s) (bm_keys (monitors s))"

section \<open>Normalising the workspace stack of a monitor\<close>

text \<open>An empty stack gets one fresh workspace.\<close>

definition norm_seed ::
    "monitor_id \<Rightarrow> rect \<Rightarrow> workspace_id list \<Rightarrow> wm_state \<Rightarrow> workspace_id list \<times> wm_state" where
  "norm_seed m visible ids s =
     (if ids = [] then
        (let (w, t) = allocate_workspace_id s
         in ([w], put_workspace (workspace_empty w m 0 visible) t))
      else (ids, s))"

text \<open>\<open>retain\<close>: unnamed empty workspaces other than the active one and the tail are dropped.\<close>

fun norm_retain ::
    "workspace_id option \<Rightarrow> workspace_id option \<Rightarrow> workspace_id list \<Rightarrow> wm_state \<Rightarrow>
     workspace_id list \<times> wm_state" where
  "norm_retain active tl_id [] s = ([], s)"
| "norm_retain active tl_id (w # ws) s =
     (if is_workspace_empty s w \<and> Some w \<noteq> active \<and> Some w \<noteq> tl_id \<and>
         (case get_workspace s w of None \<Rightarrow> False | Some x \<Rightarrow> wsp_name x = None)
      then norm_retain active tl_id ws (del_workspace w s)
      else (let (r, t) = norm_retain active tl_id ws s in (w # r, t)))"

text \<open>Trailing runs of empty workspaces collapse to one.\<close>

function norm_collapse ::
    "workspace_id list \<Rightarrow> wm_state \<Rightarrow> workspace_id list \<times> wm_state" where
  "norm_collapse ids s =
     (if 1 < length ids \<and> is_workspace_empty s (last ids) \<and> is_workspace_empty s (last (butlast ids))
      then norm_collapse (butlast ids) (del_workspace (last ids) s)
      else (ids, s))"
  by pat_completeness auto
termination
  by (relation "measure (\<lambda>(ids, s). length ids)") auto

text \<open>A non-empty last workspace gets a fresh empty one after it.\<close>

definition norm_tail ::
    "monitor_id \<Rightarrow> rect \<Rightarrow> workspace_id list \<Rightarrow> wm_state \<Rightarrow> workspace_id list \<times> wm_state" where
  "norm_tail m visible ids s =
     (case last_opt ids of
        None \<Rightarrow> (ids, s)
      | Some w \<Rightarrow>
          if is_workspace_empty s w then (ids, s)
          else (let (n, t) = allocate_workspace_id s
                in (ids @ [n], put_workspace (workspace_empty n m (length ids) visible) t)))"

definition norm_refresh ::
    "monitor_id \<Rightarrow> rect \<Rightarrow> workspace_id option \<Rightarrow> nat \<Rightarrow> workspace_id \<Rightarrow> bool \<Rightarrow> workspace \<Rightarrow> workspace" where
  "norm_refresh m visible last_id index w is_empty ws =
     ws\<lparr>wsp_monitor_id := m, wsp_vertical_index := index,
        wsp_strip := (wsp_strip ws)\<lparr>strip_visible_region := visible\<rparr>,
        wsp_floating := (wsp_floating ws)\<lparr>fl_workspace_id := w\<rparr>,
        wsp_is_ephemeral_empty_tail := (Some w = last_id \<and> is_empty)\<rparr>"

text \<open>The \<open>for (index, workspace_id) in ordered.enumerate()\<close> loop.\<close>

fun norm_renumber ::
    "monitor_id \<Rightarrow> rect \<Rightarrow> workspace_id option \<Rightarrow> nat \<Rightarrow> workspace_id list \<Rightarrow> wm_state \<Rightarrow> wm_state" where
  "norm_renumber m visible last_id index [] s = s"
| "norm_renumber m visible last_id index (w # ws) s =
     norm_renumber m visible last_id (Suc index) ws
       (upd_workspace w (norm_refresh m visible last_id index w (is_workspace_empty s w)) s)"

text \<open>The active workspace falls back to the first one; the index is in range because the stack is not empty.\<close>

definition norm_commit ::
    "workspace_set_id \<Rightarrow> monitor_id \<Rightarrow> workspace_id option \<Rightarrow> workspace_id list \<Rightarrow> wm_state \<Rightarrow> wm_state" where
  "norm_commit i m last_non_empty ids s =
     (let active = (case filter_opt (\<lambda>w. w \<in> set ids) (map_option wset_active (get_set s i)) of
                      Some w \<Rightarrow> w | None \<Rightarrow> ids ! 0)
      in set_active_on_monitor m active
           (upd_set i (\<lambda>x. x\<lparr>wset_ordered := ids, wset_active := active,
                              wset_last_non_empty := last_non_empty\<rparr>) s))"

definition normalize_workspace_set :: "workspace_set_id \<Rightarrow> wm_state \<Rightarrow> wm_state" where
  "normalize_workspace_set i s =
     (case get_set s i of
        None \<Rightarrow> s
      | Some x \<Rightarrow>
          let m = wset_monitor_id x;
              visible = (case get_monitor s m of None \<Rightarrow> rect_default | Some mon \<Rightarrow> mon_work_area_rect mon);
              active = Some (wset_active x);
              (ids1, s1) = norm_seed m visible (wset_ordered x) s;
              (ids2, s2) = norm_retain active (last_opt ids1) ids1 s1;
              (ids3, s3) = norm_collapse ids2 s2;
              (ids4, s4) = norm_tail m visible ids3 s3;
              last_non_empty = find (\<lambda>w. \<not> is_workspace_empty s4 w) (rev ids4);
              s5 = norm_renumber m visible (last_opt ids4) 0 ids4 s4
          in norm_commit i m last_non_empty ids4 s5)"

definition ensure_tail_workspace :: "monitor_id \<Rightarrow> wm_state \<Rightarrow> workspace_id option \<times> wm_state" where
  "ensure_tail_workspace m s =
     (case workspace_set_id_for_monitor s m of
        None \<Rightarrow> (None, s)
      | Some i \<Rightarrow>
          let t = normalize_workspace_set i s
          in (Option.bind (get_set t i) (\<lambda>x. last_opt (wset_ordered x)), t))"

section \<open>Adding a monitor\<close>

fun nat_to_dec :: "nat \<Rightarrow> string" where
  "nat_to_dec n =
     (if n < 10 then [char_of (48 + n)] else nat_to_dec (n div 10) @ [char_of (48 + n mod 10)])"

declare nat_to_dec.simps [simp del]

definition add_monitor :: "rect \<Rightarrow> nat \<Rightarrow> bool \<Rightarrow> wm_state \<Rightarrow> monitor_id \<times> wm_state" where
  "add_monitor work_area dpi primary s =
     (let (m, s1) = allocate_monitor_id s;
          (i, s2) = allocate_workspace_set_id s1;
          (w, s3) = allocate_workspace_id s2;
          mon = \<lparr>mon_id = m,
                 mon_platform_binding = Some (''monitor-'' @ nat_to_dec (raw_monitor_id m)),
                 mon_work_area_rect = work_area, mon_dpi = dpi,
                 mon_topology_role = (if primary then Primary else Secondary),
                 mon_workspace_set_id = i, mon_is_primary_hint = primary\<rparr>;
          wset = \<lparr>wset_id = i, wset_monitor_id = m, wset_ordered = [w], wset_active = w,
                  wset_last_non_empty = None\<rparr>;
          s4 = s3\<lparr>monitors := bm_put m mon (monitors s3)\<rparr>;
          s5 = put_workspace (workspace_empty w m 0 work_area) s4;
          s6 = s5\<lparr>workspace_sets := bm_put i wset (workspace_sets s5)\<rparr>;
          s7 = set_active_on_monitor m w s6;
          s8 = (if focus_monitor (focus s7) = None
                then upd_focus (\<lambda>f. f\<lparr>focus_monitor := Some m\<rparr>) s7 else s7)
      in (m, normalize_workspace_set i s8))"

declare norm_collapse.simps [simp del]

end
