(* ===== verification/Diagnostics.thy ===== *)
theory Diagnostics
  imports Domain_State
begin

text \<open>
  \<open>crates/diagnostics/src/lib.rs\<close>: the diagnostic records the reducer emits, and the performance
  metric. The metric's counters are \<open>AtomicU64\<close> cells updated with relaxed read-modify-write
  operations; one metric is a record of \<open>u64\<close> values and each operation is one atomic step on it.
\<close>

section \<open>Diagnostic records\<close>

definition channels :: "string list" where
  "channels = [''structured-logs'', ''state-dumps'', ''health-reporting'', ''watchdog-signals'']"

record diagnostics_bootstrap =
  db_channels :: "string list"
  db_supports_state_dump :: bool

definition diagnostics_bootstrap :: diagnostics_bootstrap where
  "diagnostics_bootstrap = \<lparr>db_channels = channels, db_supports_state_dump = True\<rparr>"

datatype diagnostic_level = Info | Warning | ErrorLevel

datatype diagnostic_stage = EventTransition | LayoutRecompute | Validation

record diagnostic_record =
  dr_level :: diagnostic_level
  dr_stage :: diagnostic_stage
  dr_message :: string
  dr_state_version :: "nat option"
  dr_correlation_id :: "correlation_id option"

definition transition_applied :: "nat \<Rightarrow> correlation_id \<Rightarrow> string \<Rightarrow> diagnostic_record" where
  "transition_applied version correlation label =
     \<lparr>dr_level = Info, dr_stage = EventTransition,
      dr_message = ''applied transition for '' @ label,
      dr_state_version = Some version, dr_correlation_id = Some correlation\<rparr>"

definition layout_recomputed ::
    "nat \<Rightarrow> correlation_id \<Rightarrow> workspace_id \<Rightarrow> nat \<Rightarrow> diagnostic_record" where
  "layout_recomputed version correlation w count =
     \<lparr>dr_level = Info, dr_stage = LayoutRecompute,
      dr_message = ''recomputed workspace '' @ nat_to_dec (raw_workspace_id w) @ '' with '' @
        nat_to_dec count @ '' projected windows'',
      dr_state_version = Some version, dr_correlation_id = Some correlation\<rparr>"

definition validation_error :: "string \<Rightarrow> diagnostic_record" where
  "validation_error message =
     \<lparr>dr_level = ErrorLevel, dr_stage = Validation, dr_message = message,
      dr_state_version = None, dr_correlation_id = None\<rparr>"

section \<open>Performance metrics\<close>

record perf_metric =
  pm_samples :: nat
  pm_total_duration_us :: nat
  pm_max_duration_us :: nat
  pm_last_duration_us :: nat
  pm_error_count :: nat
  pm_skip_count :: nat

definition perf_metric_new :: perf_metric where
  "perf_metric_new =
     \<lparr>pm_samples = 0, pm_total_duration_us = 0, pm_max_duration_us = 0, pm_last_duration_us = 0,
      pm_error_count = 0, pm_skip_count = 0\<rparr>"

text \<open>A \<open>Duration\<close> as its microseconds, a \<open>u128\<close>.\<close>

definition duration_to_micros :: "nat \<Rightarrow> nat" where
  "duration_to_micros micros = min micros u64_max"

definition average_duration_us :: "nat \<Rightarrow> nat \<Rightarrow> nat" where
  "average_duration_us total_us samples = (if samples = 0 then 0 else total_us div samples)"

definition record_duration :: "nat \<Rightarrow> perf_metric \<Rightarrow> perf_metric" where
  "record_duration micros p =
     (let d = duration_to_micros micros
      in p\<lparr>pm_samples := u64_sat_add (pm_samples p) 1,
           pm_total_duration_us := u64_sat_add (pm_total_duration_us p) d,
           pm_last_duration_us := d,
           pm_max_duration_us := max (pm_max_duration_us p) d\<rparr>)"

definition record_error :: "perf_metric \<Rightarrow> perf_metric" where
  "record_error p = p\<lparr>pm_error_count := u64_sat_add (pm_error_count p) 1\<rparr>"

definition record_skip :: "perf_metric \<Rightarrow> perf_metric" where
  "record_skip p = p\<lparr>pm_skip_count := u64_sat_add (pm_skip_count p) 1\<rparr>"

record perf_metric_snapshot =
  ps_metric :: string
  ps_samples :: nat
  ps_total_duration_us :: nat
  ps_average_duration_us :: nat
  ps_max_duration_us :: nat
  ps_last_duration_us :: nat
  ps_error_count :: nat
  ps_skip_count :: nat

definition perf_snapshot :: "string \<Rightarrow> perf_metric \<Rightarrow> perf_metric_snapshot" where
  "perf_snapshot name p =
     \<lparr>ps_metric = name, ps_samples = pm_samples p, ps_total_duration_us = pm_total_duration_us p,
      ps_average_duration_us = average_duration_us (pm_total_duration_us p) (pm_samples p),
      ps_max_duration_us = pm_max_duration_us p, ps_last_duration_us = pm_last_duration_us p,
      ps_error_count = pm_error_count p, ps_skip_count = pm_skip_count p\<rparr>"

text \<open>A run of durations, errors and skips against a fresh metric.\<close>

datatype perf_event = PerfDuration nat | PerfError | PerfSkip

fun perf_step :: "perf_metric \<Rightarrow> perf_event \<Rightarrow> perf_metric" where
  "perf_step p (PerfDuration d) = record_duration d p"
| "perf_step p PerfError = record_error p"
| "perf_step p PerfSkip = record_skip p"

text \<open>
  What a metric that has not saturated says: the durations lie below the maximum, so the
  average does too.
\<close>

definition perf_ok :: "perf_metric \<Rightarrow> bool" where
  "perf_ok p \<longleftrightarrow>
     pm_last_duration_us p \<le> pm_max_duration_us p \<and>
     (pm_samples p < u64_max \<longrightarrow> pm_total_duration_us p \<le> pm_samples p * pm_max_duration_us p)"

lemma perf_ok_new: "perf_ok perf_metric_new"
  by (simp add: perf_ok_def perf_metric_new_def)

lemma record_duration_ok:
  assumes "perf_ok p"
  shows "perf_ok (record_duration micros p)"
proof -
  let ?d = "duration_to_micros micros"
  let ?m = "max (pm_max_duration_us p) ?d"
  have "u64_sat_add (pm_total_duration_us p) ?d \<le> u64_sat_add (pm_samples p) 1 * ?m"
    if "u64_sat_add (pm_samples p) 1 < u64_max"
  proof -
    from that have n: "pm_samples p + 1 < u64_max" "u64_sat_add (pm_samples p) 1 = pm_samples p + 1"
      by (auto simp: u64_sat_add_def)
    have "u64_sat_add (pm_total_duration_us p) ?d \<le> pm_total_duration_us p + ?d"
      by (simp add: u64_sat_add_def)
    also have "\<dots> \<le> pm_samples p * pm_max_duration_us p + ?d"
      using assms n by (simp add: perf_ok_def)
    also have "\<dots> \<le> pm_samples p * ?m + ?m"
      by (intro add_mono mult_le_mono) simp_all
    finally show ?thesis using n by simp
  qed
  then show ?thesis by (simp add: perf_ok_def record_duration_def Let_def)
qed

lemma perf_step_ok: "perf_ok p \<Longrightarrow> perf_ok (perf_step p e)"
  by (cases e) (simp_all add: record_duration_ok, simp_all add: perf_ok_def record_error_def record_skip_def)

lemma perf_run_ok: "perf_ok p \<Longrightarrow> perf_ok (foldl perf_step p es)"
  by (induction es arbitrary: p) (simp_all add: perf_step_ok)

end
