(* ===== verification/Layout_Engine.thy ===== *)
theory Layout_Engine
  imports Domain_State
begin

text \<open>
  The layout engine (\<open>crates/layout-engine/src/lib.rs\<close>): from the state and a workspace to the
  rectangles of its windows. \<open>recompute_workspace\<close> is one function in the source; here its
  loops are definitions of their own, named after what they compute, and composed in its order.
\<close>

section \<open>Types\<close>

datatype layout_error =
  WorkspaceMissing workspace_id | MonitorMissing | ColumnMissing | WindowMissing window_id

record window_geometry =
  geo_window_id :: window_id
  geo_rect :: rect
  geo_layer :: window_layer

record workspace_projection =
  proj_workspace_id :: workspace_id
  proj_viewport :: rect
  proj_scroll_offset :: int
  proj_content_width :: nat
  proj_focused_window_id :: "window_id option"
  proj_window_geometries :: "window_geometry list"

section \<open>Insets and viewports\<close>

definition inset_rect :: "rect \<Rightarrow> edge_insets \<Rightarrow> rect" where
  "inset_rect r insets =
     (let clamped_left = min (ins_left insets) (rect_width r - 1);
          remaining_width = rect_width r - clamped_left;
          clamped_right = min (ins_right insets) (remaining_width - 1);
          clamped_top = min (ins_top insets) (rect_height r - 1);
          remaining_height = rect_height r - clamped_top;
          clamped_bottom = min (ins_bottom insets) (remaining_height - 1)
      in rect_new
           (i32_sat_add (rect_x r) (u32_clip_i32 clamped_left))
           (i32_sat_add (rect_y r) (u32_clip_i32 clamped_top))
           (max (rect_width r - clamped_left - clamped_right) 1)
           (max (rect_height r - clamped_top - clamped_bottom) 1))"

definition inset_uniform_rect :: "rect \<Rightarrow> nat \<Rightarrow> rect" where
  "inset_uniform_rect r margin = inset_rect r (edge_insets_all margin)"

definition padded_tiled_viewport :: "rect \<Rightarrow> config_projection \<Rightarrow> rect" where
  "padded_tiled_viewport work_area cfg =
     inset_rect work_area (sp_outer_padding (cfg_layout_spacing cfg))"

definition default_floating_rect :: "rect \<Rightarrow> size_px \<Rightarrow> config_projection \<Rightarrow> rect" where
  "default_floating_rect work_area desired cfg =
     (let available = inset_uniform_rect work_area (sp_floating_margin (cfg_layout_spacing cfg))
      in rect_new (rect_x available) (rect_y available)
           (min (max (sz_width desired) 1) (rect_width available))
           (min (max (sz_height desired) 1) (rect_height available)))"

section \<open>Widths and the origin of the strip\<close>

definition resolve_width :: "column \<Rightarrow> nat \<Rightarrow> nat" where
  "resolve_width col viewport_width =
     (if col_maximized col = Maximized \<or> col_mode col = MaximizedColumn
      then max viewport_width 1
      else width_resolve (col_width col) viewport_width)"

text \<open>The saturating sum of the column widths and the gaps between them.\<close>

definition content_width_step ::
    "wm_state \<Rightarrow> nat \<Rightarrow> nat \<Rightarrow> nat \<times> column_id \<Rightarrow> nat \<Rightarrow> layout_error + nat" where
  "content_width_step s viewport_width gap = (\<lambda>(index, c) acc.
     bindE (ok_or (get_column s c) ColumnMissing) (\<lambda>col.
       Inr (u32_sat_add (u32_sat_add acc (resolve_width col viewport_width))
              (if index = 0 then 0 else gap))))"

definition content_width_of ::
    "wm_state \<Rightarrow> nat \<Rightarrow> nat \<Rightarrow> column_id list \<Rightarrow> layout_error + nat" where
  "content_width_of s viewport_width gap cols =
     fold_res (content_width_step s viewport_width gap) (List.enumerate 0 cols) 0"

definition strip_origin_x ::
    "int \<Rightarrow> nat \<Rightarrow> nat \<Rightarrow> column_id list \<Rightarrow> column_id option \<Rightarrow> int \<Rightarrow> int" where
  "strip_origin_x viewport_x viewport_width content_width cols focused scroll =
     (if viewport_width \<le> content_width \<or> cols = [] then i32_sat_sub viewport_x scroll
      else
        let slack = u32_clip_i32 (viewport_width - content_width)
        in if length cols = 1 then i32_sat_add viewport_x (i32_half slack)
           else if focused = last_opt cols then i32_sat_add viewport_x slack
           else i32_sat_sub viewport_x scroll)"

definition gap_total :: "nat \<Rightarrow> nat \<Rightarrow> nat" where
  "gap_total item_count gap =
     (case (if item_count - 1 \<le> u32_max then u32_checked_mul (item_count - 1) gap else None) of
        Some product \<Rightarrow> product
      | None \<Rightarrow> u32_max)"

section \<open>The windows of one column\<close>

text \<open>The source sums the heights in a \<open>u32\<close>; windows missing from the table are skipped there.\<close>

definition desired_height :: "window_node \<Rightarrow> nat" where
  "desired_height w = max (sz_height (win_desired_size w)) 1"

definition desired_height_total :: "wm_state \<Rightarrow> window_id list \<Rightarrow> nat" where
  "desired_height_total s ids =
     max (wrap_u32 (sum_list (map desired_height (List.map_filter (get_window s) ids)))) 1"

record stack_state =
  st_y_cursor :: int
  st_remaining_height :: nat
  st_geometries :: "window_geometry list"

text \<open>The height of one window of a stacked column: its share, or for the last one what is left.\<close>

definition stacked_height :: "nat \<Rightarrow> nat \<Rightarrow> bool \<Rightarrow> nat \<Rightarrow> window_node \<Rightarrow> nat" where
  "stacked_height tiled_height height_sum is_last remaining w =
     max (if is_last then max remaining 1
          else wrap_u32 ((tiled_height * desired_height w) div height_sum)) 1"

definition stack_window ::
    "wm_state \<Rightarrow> int \<Rightarrow> nat \<Rightarrow> nat \<Rightarrow> nat \<Rightarrow> nat \<Rightarrow> nat \<Rightarrow> nat \<times> window_id \<Rightarrow> stack_state \<Rightarrow>
     layout_error + stack_state" where
  "stack_window s x width gap tiled_height height_sum last_index = (\<lambda>(index, w) st.
     bindE (ok_or (get_window s w) (WindowMissing w)) (\<lambda>win.
       let height = stacked_height tiled_height height_sum (index = last_index) (st_remaining_height st) win;
           geometry = \<lparr>geo_window_id = w,
                       geo_rect = rect_new x (st_y_cursor st) width height,
                       geo_layer = win_layer win\<rparr>;
           y1 = wrap_i32 (st_y_cursor st + u32_as_i32 height);
           y2 = (if index = last_index then y1 else wrap_i32 (y1 + u32_clip_i32 gap))
       in Inr \<lparr>st_y_cursor = y2, st_remaining_height = st_remaining_height st - height,
               st_geometries = st_geometries st @ [geometry]\<rparr>))"

definition stacked_geometries ::
    "wm_state \<Rightarrow> rect \<Rightarrow> layout_spacing \<Rightarrow> int \<Rightarrow> nat \<Rightarrow> window_id list \<Rightarrow>
     layout_error + window_geometry list" where
  "stacked_geometries s viewport spacing x width ids =
     (if ids = [] then Inr []
      else
        let height_sum = desired_height_total s ids;
            tiled_height = max (rect_height viewport - gap_total (length ids) (sp_window_gap spacing)) 1;
            start = \<lparr>st_y_cursor = rect_y viewport, st_remaining_height = tiled_height,
                     st_geometries = []\<rparr>
        in bindE (fold_res (stack_window s x width (sp_window_gap spacing) tiled_height height_sum (length ids - 1))
                    (List.enumerate 0 ids) start)
             (\<lambda>st. Inr (st_geometries st)))"

definition tabbed_geometries ::
    "wm_state \<Rightarrow> rect \<Rightarrow> int \<Rightarrow> nat \<Rightarrow> column \<Rightarrow> layout_error + window_geometry list" where
  "tabbed_geometries s viewport x width col =
     (case or_opt (col_tab_selection col) (first (col_windows col)) of
        None \<Rightarrow> Inr []
      | Some w \<Rightarrow>
          bindE (ok_or (get_window s w) (WindowMissing w)) (\<lambda>win.
            Inr [\<lparr>geo_window_id = w,
                  geo_rect = rect_new x (rect_y viewport) width (rect_height viewport),
                  geo_layer = win_layer win\<rparr>]))"

definition column_geometries ::
    "wm_state \<Rightarrow> rect \<Rightarrow> layout_spacing \<Rightarrow> int \<Rightarrow> nat \<Rightarrow> column \<Rightarrow> layout_error + window_geometry list" where
  "column_geometries s viewport spacing x width col =
     (if col_mode col = Tabbed then tabbed_geometries s viewport x width col
      else stacked_geometries s viewport spacing x width (col_windows col))"

section \<open>The strip and the floating layer\<close>

text \<open>One turn of the loop over the columns: the cursor and the geometries so far.\<close>

definition place_column ::
    "wm_state \<Rightarrow> rect \<Rightarrow> layout_spacing \<Rightarrow> nat \<Rightarrow> nat \<times> column_id \<Rightarrow> int \<times> window_geometry list \<Rightarrow>
     layout_error + int \<times> window_geometry list" where
  "place_column s viewport spacing last_index = (\<lambda>(index, c) (x, geometries).
     bindE (ok_or (get_column s c) ColumnMissing) (\<lambda>col.
       let width = resolve_width col (rect_width viewport)
       in bindE (column_geometries s viewport spacing x width col) (\<lambda>placed.
            let x1 = wrap_i32 (x + u32_as_i32 width);
                x2 = (if index = last_index then x1
                      else wrap_i32 (x1 + u32_clip_i32 (sp_column_gap spacing)))
            in Inr (x2, geometries @ placed))))"

definition floating_rect :: "wm_state \<Rightarrow> rect \<Rightarrow> window_node \<Rightarrow> rect" where
  "floating_rect s work_area w =
     (if win_layer w = Fullscreen \<or> win_is_fullscreen w then work_area
      else if 0 < rect_width (win_last_known_rect w) \<and> 0 < rect_height (win_last_known_rect w)
      then win_last_known_rect w
      else default_floating_rect work_area (win_desired_size w) (config s))"

definition place_floating ::
    "wm_state \<Rightarrow> rect \<Rightarrow> window_id \<Rightarrow> window_geometry list \<Rightarrow> layout_error + window_geometry list" where
  "place_floating s work_area w geometries =
     bindE (ok_or (get_window s w) (WindowMissing w)) (\<lambda>win.
       Inr (geometries @ [\<lparr>geo_window_id = w, geo_rect = floating_rect s work_area win,
                           geo_layer = win_layer win\<rparr>]))"

definition focused_in_workspace :: "wm_state \<Rightarrow> workspace_id \<Rightarrow> window_id option" where
  "focused_in_workspace s w =
     filter_opt (\<lambda>i. case get_window s i of None \<Rightarrow> False | Some win \<Rightarrow> win_workspace_id win = w)
       (focus_window (focus s))"

definition recompute_workspace :: "wm_state \<Rightarrow> workspace_id \<Rightarrow> layout_error + workspace_projection" where
  "recompute_workspace s w =
     bindE (ok_or (get_workspace s w) (WorkspaceMissing w)) (\<lambda>ws.
     bindE (ok_or (get_monitor s (wsp_monitor_id ws)) MonitorMissing) (\<lambda>mon.
     let viewport = padded_tiled_viewport (mon_work_area_rect mon) (config s);
         spacing = cfg_layout_spacing (config s);
         cols = strip_columns (wsp_strip ws);
         scroll = strip_scroll_offset (wsp_strip ws)
     in bindE (content_width_of s (rect_width viewport) (sp_column_gap spacing) cols) (\<lambda>content_width.
     let x0 = strip_origin_x (rect_x viewport) (rect_width viewport) content_width cols
                (focus_column (focus s)) scroll
     in bindE (fold_res (place_column s viewport spacing (length cols - 1)) (List.enumerate 0 cols) (x0, []))
          (\<lambda>(_, tiled).
     bindE (fold_res (place_floating s (mon_work_area_rect mon)) (fl_windows (wsp_floating ws)) tiled)
          (\<lambda>geometries.
     Inr \<lparr>proj_workspace_id = w, proj_viewport = viewport, proj_scroll_offset = scroll,
          proj_content_width = content_width, proj_focused_window_id = focused_in_workspace s w,
          proj_window_geometries = geometries\<rparr>)))))"

end
