(* ===== verification/Store_Core.thy ===== *)
theory Store_Core
  imports Domain_Events Diagnostics Layout_Engine
begin

text \<open>
  The helpers of the reducer (\<open>crates/wm-core/src/state_store.rs\<close>, private methods of
  \<open>StateStore\<close>). A \<open>&self\<close> method that returns a \<open>Result\<close> is a function from the state to
  \<open>failure + 'a\<close>; a \<open>&mut self\<close> one is an action, which also returns the state it leaves,
  changed or not, when it fails. \<open>Failed\<close> carries the source's \<open>CoreError\<close>, \<open>Panicked\<close> is a
  panic of the source.
\<close>

section \<open>Errors and results\<close>

datatype core_error =
    UnknownMonitor monitor_id
  | UnknownWorkspace workspace_id
  | UnknownColumn column_id
  | UnknownWindow window_id
  | NoActiveWorkspace monitor_id
  | InvalidEvent string
  | LayoutFailed layout_error

datatype failure = Failed core_error | Panicked

type_synonym 'a action = "(wm_state, failure, 'a) act"

record transition_result =
  tr_state_version :: nat
  tr_affected_workspace_id :: "workspace_id option"
  tr_layout_projection :: "workspace_projection option"
  tr_diagnostics :: "diagnostic_record list"

record new_column_request =
  ncr_anchor_column_id :: "column_id option"
  ncr_insert_index_override :: "nat option"
  ncr_before_anchor :: bool
  ncr_mode :: column_mode
  ncr_width_semantics :: width_semantics
  ncr_preserve_focus_position :: bool

definition find_workspace :: "wm_state \<Rightarrow> workspace_id \<Rightarrow> failure + workspace" where
  "find_workspace s w = ok_or (get_workspace s w) (Failed (UnknownWorkspace w))"

definition find_column :: "wm_state \<Rightarrow> column_id \<Rightarrow> failure + column" where
  "find_column s c = ok_or (get_column s c) (Failed (UnknownColumn c))"

definition find_window :: "wm_state \<Rightarrow> window_id \<Rightarrow> failure + window_node" where
  "find_window s w = ok_or (get_window s w) (Failed (UnknownWindow w))"

definition find_monitor :: "wm_state \<Rightarrow> monitor_id \<Rightarrow> failure + monitor" where
  "find_monitor s m = ok_or (get_monitor s m) (Failed (UnknownMonitor m))"

definition workspace_monitor :: "wm_state \<Rightarrow> workspace_id \<Rightarrow> failure + monitor_id" where
  "workspace_monitor s w = bindE (find_workspace s w) (\<lambda>ws. Inr (wsp_monitor_id ws))"

definition layout_of :: "wm_state \<Rightarrow> workspace_id \<Rightarrow> failure + workspace_projection" where
  "layout_of s w = map_err (\<lambda>e. Failed (LayoutFailed e)) (recompute_workspace s w)"

section \<open>Focus queries\<close>

definition focused_window_in_workspace :: "wm_state \<Rightarrow> workspace_id \<Rightarrow> window_id option" where
  "focused_window_in_workspace s w =
     filter_opt (\<lambda>i. case get_window s i of None \<Rightarrow> False | Some win \<Rightarrow> win_workspace_id win = w)
       (focus_window (focus s))"

definition focused_column_in_workspace :: "wm_state \<Rightarrow> workspace_id \<Rightarrow> column_id option" where
  "focused_column_in_workspace s w =
     (case focus_column (focus s) of
        None \<Rightarrow> None
      | Some c \<Rightarrow>
          case get_workspace s w of
            None \<Rightarrow> None
          | Some ws \<Rightarrow> if c \<in> set (strip_columns (wsp_strip ws)) then Some c else None)"

definition window_is_fullscreen :: "window_node \<Rightarrow> bool" where
  "window_is_fullscreen w \<longleftrightarrow> win_layer w = Fullscreen \<or> win_is_fullscreen w"

definition discovery_anchor_column_in_workspace :: "wm_state \<Rightarrow> workspace_id \<Rightarrow> column_id option" where
  "discovery_anchor_column_in_workspace s w =
     (case focused_column_in_workspace s w of
        Some c \<Rightarrow> Some c
      | None \<Rightarrow>
          Option.bind (focused_window_in_workspace s w) (\<lambda>i.
          Option.bind (get_window s i) (\<lambda>win.
            if \<not> window_is_fullscreen win then None
            else Option.bind (win_restore_target win) (\<lambda>target.
              if rt_workspace_id target \<noteq> w then None
              else Option.bind (rt_column_id target) (\<lambda>c.
                Option.bind (get_workspace s w) (\<lambda>ws.
                  if c \<in> set (strip_columns (wsp_strip ws)) then Some c else None))))))"

definition fullscreen_restore_index_in_workspace :: "wm_state \<Rightarrow> workspace_id \<Rightarrow> nat option" where
  "fullscreen_restore_index_in_workspace s w =
     Option.bind (focused_window_in_workspace s w) (\<lambda>i.
     Option.bind (get_window s i) (\<lambda>win.
       if \<not> window_is_fullscreen win then None
       else Option.bind (win_restore_target win) (\<lambda>target.
         if rt_workspace_id target = w then rt_column_index target else None)))"

definition column_index_in_workspace ::
    "wm_state \<Rightarrow> workspace_id \<Rightarrow> column_id option \<Rightarrow> nat option" where
  "column_index_in_workspace s w c =
     Option.bind c (\<lambda>i.
     Option.bind (get_workspace s w) (\<lambda>ws.
       position (\<lambda>candidate. candidate = i) (strip_columns (wsp_strip ws))))"

definition column_active_window :: "column \<Rightarrow> window_id option" where
  "column_active_window col =
     (if col_mode col = Tabbed
      then or_opt (or_opt (col_tab_selection col) (col_active col)) (first (col_windows col))
      else or_opt (col_active col) (first (col_windows col)))"

definition column_workspace_id :: "wm_state \<Rightarrow> column_id \<Rightarrow> failure + workspace_id" where
  "column_workspace_id s c =
     bindE (find_column s c) (\<lambda>col.
     bindE (ok_or (first (col_windows col))
              (Failed (InvalidEvent ''column workspace lookup requires a non-empty column''))) (\<lambda>w.
     bindE (find_window s w) (\<lambda>win. Inr (win_workspace_id win))))"

definition navigation_sequence_for_workspace ::
    "wm_state \<Rightarrow> workspace_id \<Rightarrow> failure + (window_id \<times> column_id option) list" where
  "navigation_sequence_for_workspace s w =
     bindE (find_workspace s w) (\<lambda>ws.
     bindE (fold_res (\<lambda>c acc. bindE (find_column s c) (\<lambda>col.
              Inr (case column_active_window col of
                     None \<Rightarrow> acc | Some i \<Rightarrow> acc @ [(i, Some c)])))
              (strip_columns (wsp_strip ws)) []) (\<lambda>sequence.
     Inr (if sequence = [] then map (\<lambda>i. (i, None)) (fl_windows (wsp_floating ws)) else sequence)))"

section \<open>Scroll bounds\<close>

definition workspace_tiled_viewport :: "wm_state \<Rightarrow> workspace_id \<Rightarrow> failure + rect" where
  "workspace_tiled_viewport s w =
     bindE (find_workspace s w) (\<lambda>ws.
     bindE (find_monitor s (wsp_monitor_id ws)) (\<lambda>mon.
     Inr (padded_tiled_viewport (mon_work_area_rect mon) (config s))))"

definition resolve_column_width :: "column \<Rightarrow> nat \<Rightarrow> nat" where
  "resolve_column_width col monitor_width =
     (if col_maximized col = Maximized \<or> col_mode col = MaximizedColumn
      then max monitor_width 1
      else width_resolve (col_width col) monitor_width)"

definition workspace_content_width :: "wm_state \<Rightarrow> workspace_id \<Rightarrow> failure + int" where
  "workspace_content_width s w =
     bindE (find_workspace s w) (\<lambda>ws.
     bindE (workspace_tiled_viewport s w) (\<lambda>viewport.
     fold_res (\<lambda>(index, c) acc.
         bindE (find_column s c) (\<lambda>col.
           let acc1 = i32_sat_add acc (u32_clip_i32 (resolve_column_width col (rect_width viewport)))
           in Inr (if 0 < index
                   then i32_sat_add acc1 (u32_clip_i32 (sp_column_gap (cfg_layout_spacing (config s))))
                   else acc1)))
       (List.enumerate 0 (strip_columns (wsp_strip ws))) 0))"

text \<open>Both operands of the difference are between 0 and \<open>i32::MAX\<close>, so it cannot overflow.\<close>

definition max_scroll_offset :: "wm_state \<Rightarrow> workspace_id \<Rightarrow> failure + int" where
  "max_scroll_offset s w =
     bindE (workspace_tiled_viewport s w) (\<lambda>viewport.
     bindE (workspace_content_width s w) (\<lambda>content.
     Inr (max (content - u32_clip_i32 (rect_width viewport)) 0)))"

definition set_scroll_offset :: "workspace_id \<Rightarrow> int \<Rightarrow> wm_state \<Rightarrow> wm_state" where
  "set_scroll_offset w x =
     upd_workspace w (\<lambda>ws. ws\<lparr>wsp_strip := (wsp_strip ws)\<lparr>strip_scroll_offset := x\<rparr>\<rparr>)"

definition apply_scroll_delta :: "workspace_id \<Rightarrow> int \<Rightarrow> unit action" where
  "apply_scroll_delta w delta =
     bindA (tryA (\<lambda>s. max_scroll_offset s w)) (\<lambda>max_scroll.
     bindA (tryA (\<lambda>s. find_workspace s w)) (\<lambda>ws.
     modify (set_scroll_offset w
       (clamp_in 0 max_scroll (i32_sat_add (strip_scroll_offset (wsp_strip ws)) delta)))))"

definition clamp_scroll_offset :: "workspace_id \<Rightarrow> unit action" where
  "clamp_scroll_offset w =
     bindA (tryA (\<lambda>s. max_scroll_offset s w)) (\<lambda>max_scroll.
     bindA (tryA (\<lambda>s. find_workspace s w)) (\<lambda>ws.
     modify (set_scroll_offset w (clamp_in 0 max_scroll (strip_scroll_offset (wsp_strip ws))))))"

section \<open>Bringing a column into view\<close>

definition geometry_in_column :: "wm_state \<Rightarrow> column_id \<Rightarrow> window_geometry \<Rightarrow> bool" where
  "geometry_in_column s c g =
     (case get_window s (geo_window_id g) of
        None \<Rightarrow> False | Some win \<Rightarrow> win_column_id win = Some c)"

definition extend_bounds :: "(int \<times> int) option \<Rightarrow> window_geometry \<Rightarrow> (int \<times> int) option" where
  "extend_bounds acc g =
     (let l = rect_x (geo_rect g);
          r = i32_sat_add (rect_x (geo_rect g)) (u32_clip_i32 (rect_width (geo_rect g)))
      in Some (case acc of None \<Rightarrow> (l, r) | Some (cl, cr) \<Rightarrow> (min cl l, max cr r)))"

definition column_bounds :: "wm_state \<Rightarrow> column_id \<Rightarrow> window_geometry list \<Rightarrow> (int \<times> int) option" where
  "column_bounds s c gs = foldl extend_bounds None (filter (geometry_in_column s c) gs)"

text \<open>The scroll offset the source asks for, before the last clamp.\<close>

definition desired_scroll_offset :: "rect \<Rightarrow> int \<Rightarrow> int \<Rightarrow> bool \<Rightarrow> int \<times> int \<Rightarrow> int" where
  "desired_scroll_offset viewport scroll max_scroll is_single = (\<lambda>(column_left, column_right).
     let viewport_width = u32_clip_i32 (rect_width viewport);
         viewport_left = rect_x viewport;
         viewport_right = i32_sat_add (rect_x viewport) viewport_width;
         column_width = i32_sat_sub column_right column_left
     in if column_width < viewport_width \<and> is_single
        then clamp_in 0 max_scroll
               (i32_sat_sub (i32_sat_add column_left (i32_half column_width)) (i32_half viewport_width))
        else if column_left < viewport_left
        then i32_sat_add scroll (i32_sat_sub column_left viewport_left)
        else if viewport_right < column_right
        then i32_sat_add scroll (i32_sat_sub column_right viewport_right)
        else scroll)"

definition reveal_column_in_workspace :: "workspace_id \<Rightarrow> column_id \<Rightarrow> unit action" where
  "reveal_column_in_workspace w target =
     bindA (tryA (\<lambda>s. layout_of s w)) (\<lambda>projection.
     bindA (tryA (\<lambda>s. find_workspace s w)) (\<lambda>ws.
     bindA (gets (\<lambda>s. column_bounds s target (proj_window_geometries projection))) (\<lambda>bounds.
     case bounds of
       None \<Rightarrow> ret ()
     | Some b \<Rightarrow>
         bindA (tryA (\<lambda>s. max_scroll_offset s w)) (\<lambda>max_scroll.
         let scroll = strip_scroll_offset (wsp_strip ws);
             desired = clamp_in 0 max_scroll
               (desired_scroll_offset (proj_viewport projection) scroll max_scroll
                  (length (strip_columns (wsp_strip ws)) = 1) b)
         in apply_scroll_delta w (i32_sat_sub desired scroll)))))"

section \<open>Writers\<close>

text \<open>Always \<open>Ok(())\<close> in the source.\<close>

definition focus_column_on_window :: "window_id \<Rightarrow> column \<Rightarrow> column" where
  "focus_column_on_window w col =
     (let c1 = col\<lparr>col_active := Some w\<rparr>
      in if col_mode col = Tabbed then c1\<lparr>col_tab_selection := Some w\<rparr> else c1)"

definition set_active_of_monitor :: "monitor_id \<Rightarrow> workspace_id \<Rightarrow> wm_state \<Rightarrow> wm_state" where
  "set_active_of_monitor m w s =
     (let s1 = set_active_on_monitor m w s
      in case workspace_set_id_for_monitor s1 m of
           None \<Rightarrow> s1
         | Some i \<Rightarrow> upd_set i (\<lambda>x. x\<lparr>wset_active := w\<rparr>) s1)"

definition set_focus_to_window ::
    "monitor_id \<Rightarrow> workspace_id \<Rightarrow> window_id \<Rightarrow> column_id option \<Rightarrow> focus_origin \<Rightarrow> wm_state \<Rightarrow> wm_state" where
  "set_focus_to_window m w i c origin s =
     (let s1 = upd_focus (\<lambda>f. f\<lparr>focus_monitor := Some m, focus_window := Some i, focus_column := c,
                                focus_origin_of := origin\<rparr>) s;
          s2 = set_active_of_monitor m w s1;
          s3 = (case c of None \<Rightarrow> s2 | Some x \<Rightarrow> upd_column x (focus_column_on_window i) s2)
      in upd_workspace w (\<lambda>ws. ws\<lparr>wsp_remembered_window := Some i, wsp_remembered_column := c\<rparr>) s3)"

definition insert_column_index :: "new_column_request \<Rightarrow> column_id list \<Rightarrow> nat" where
  "insert_column_index request cols =
     (case or_opt (map_option (\<lambda>index. min index (length cols)) (ncr_insert_index_override request))
             (Option.bind (ncr_anchor_column_id request) (\<lambda>anchor.
                map_option (\<lambda>index. if ncr_before_anchor request then index else index + 1)
                  (position (\<lambda>c. c = anchor) cols))) of
        Some index \<Rightarrow> index
      | None \<Rightarrow> if ncr_before_anchor request then 0 else length cols)"

definition place_new_column ::
    "new_column_request \<Rightarrow> column_id \<Rightarrow> nat \<Rightarrow> nat \<Rightarrow> workspace \<Rightarrow> workspace" where
  "place_new_column request c viewport_width column_gap ws =
     (let strip = wsp_strip ws;
          strip1 = strip\<lparr>strip_columns :=
                     insert_at (insert_column_index request (strip_columns strip)) c (strip_columns strip)\<rparr>;
          strip2 = (if ncr_preserve_focus_position request \<and> ncr_before_anchor request
                       \<and> ncr_anchor_column_id request \<noteq> None
                    then strip1\<lparr>strip_scroll_offset :=
                           i32_sat_add
                             (i32_sat_add (strip_scroll_offset strip1)
                                (u32_clip_i32 (width_resolve (ncr_width_semantics request) viewport_width)))
                             (u32_clip_i32 column_gap)\<rparr>
                    else strip1)
      in ws\<lparr>wsp_strip := strip2\<rparr>)"

definition insert_new_column ::
    "workspace_id \<Rightarrow> window_id \<Rightarrow> new_column_request \<Rightarrow> column_id action" where
  "insert_new_column w i request =
     bindA (stateA allocate_column_id) (\<lambda>c.
     thenA (modify (\<lambda>s. s\<lparr>layout := (layout s)\<lparr>lay_columns :=
        bm_put c (column_new c (ncr_mode request) (ncr_width_semantics request) [i])
          (lay_columns (layout s))\<rparr>\<rparr>))
     (bindA (tryA (\<lambda>s. workspace_tiled_viewport s w)) (\<lambda>viewport.
      bindA (tryA (\<lambda>s. find_workspace s w)) (\<lambda>_.
      thenA (modify (\<lambda>s. upd_workspace w
               (place_new_column request c (rect_width viewport)
                  (sp_column_gap (cfg_layout_spacing (config s)))) s))
      (ret c)))))"

definition push_floating :: "window_id \<Rightarrow> workspace \<Rightarrow> workspace" where
  "push_floating i ws =
     (let fl = wsp_floating ws;
          ids = (if i \<in> set (fl_windows fl) then fl_windows fl else fl_windows fl @ [i])
      in ws\<lparr>wsp_floating := fl\<lparr>fl_windows := ids,
                               fl_z_hints := bm_put i (wrap_u32 (length ids)) (fl_z_hints fl)\<rparr>\<rparr>)"

definition push_window_to_floating_layer :: "workspace_id \<Rightarrow> window_id \<Rightarrow> unit action" where
  "push_window_to_floating_layer w i =
     bindA (tryA (\<lambda>s. find_workspace s w)) (\<lambda>_. modify (upd_workspace w (push_floating i)))"

definition detach_from_column :: "window_id \<Rightarrow> column \<Rightarrow> column" where
  "detach_from_column i col =
     (let c1 = col\<lparr>col_windows := filter (\<lambda>x. x \<noteq> i) (col_windows col)\<rparr>;
          c2 = (if col_tab_selection c1 = Some i
                then c1\<lparr>col_tab_selection := first (col_windows c1)\<rparr> else c1)
      in if col_active c2 = Some i
         then c2\<lparr>col_active := or_opt (col_tab_selection c2) (first (col_windows c2))\<rparr> else c2)"

definition detach_from_floating :: "window_id \<Rightarrow> workspace \<Rightarrow> workspace" where
  "detach_from_floating i ws =
     ws\<lparr>wsp_floating := (wsp_floating ws)\<lparr>
          fl_windows := filter (\<lambda>x. x \<noteq> i) (fl_windows (wsp_floating ws)),
          fl_z_hints := bm_del i (fl_z_hints (wsp_floating ws))\<rparr>\<rparr>"

definition remove_from_strip :: "column_id \<Rightarrow> workspace \<Rightarrow> workspace" where
  "remove_from_strip c ws =
     ws\<lparr>wsp_strip := (wsp_strip ws)\<lparr>strip_columns := filter (\<lambda>x. x \<noteq> c) (strip_columns (wsp_strip ws))\<rparr>\<rparr>"

definition del_column :: "column_id \<Rightarrow> wm_state \<Rightarrow> wm_state" where
  "del_column c s = s\<lparr>layout := (layout s)\<lparr>lay_columns := bm_del c (lay_columns (layout s))\<rparr>\<rparr>"

definition column_is_drained :: "wm_state \<Rightarrow> column_id \<Rightarrow> bool" where
  "column_is_drained s c = (case get_column s c of None \<Rightarrow> False | Some col \<Rightarrow> col_windows col = [])"

definition detach_window_membership :: "window_id \<Rightarrow> unit action" where
  "detach_window_membership i =
     bindA (tryA (\<lambda>s. find_window s i)) (\<lambda>win.
     case win_column_id win of
       Some c \<Rightarrow>
         thenA (modify (upd_column c (detach_from_column i)))
         (bindA (gets (\<lambda>s. column_is_drained s c)) (\<lambda>drained.
          if drained
          then thenA (modify (del_column c))
               (bindA (tryA (\<lambda>s. find_workspace s (win_workspace_id win))) (\<lambda>_.
                modify (upd_workspace (win_workspace_id win) (remove_from_strip c))))
          else ret ()))
     | None \<Rightarrow>
         bindA (tryA (\<lambda>s. find_workspace s (win_workspace_id win))) (\<lambda>_.
         modify (upd_workspace (win_workspace_id win) (detach_from_floating i))))"

text \<open>Pushing a window into an existing column, as restoring and discovering do.\<close>

definition adopt_window :: "window_id \<Rightarrow> column \<Rightarrow> column" where
  "adopt_window i col =
     (let c1 = (if col_active col = None then col\<lparr>col_active := Some i\<rparr> else col)
      in if col_mode col = Tabbed then c1\<lparr>col_tab_selection := Some i\<rparr> else c1)"

definition append_window :: "window_id \<Rightarrow> column \<Rightarrow> column" where
  "append_window i col = adopt_window i (col\<lparr>col_windows := col_windows col @ [i]\<rparr>)"

definition restore_to_column :: "window_id \<Rightarrow> column \<Rightarrow> column" where
  "restore_to_column i col =
     adopt_window i (if i \<in> set (col_windows col) then col
                     else col\<lparr>col_windows := col_windows col @ [i]\<rparr>)"

definition strip_contains :: "wm_state \<Rightarrow> workspace_id \<Rightarrow> column_id \<Rightarrow> bool" where
  "strip_contains s w c =
     (case get_workspace s w of None \<Rightarrow> False | Some ws \<Rightarrow> c \<in> set (strip_columns (wsp_strip ws)))"

definition restore_in_new_column ::
    "window_id \<Rightarrow> restore_target \<Rightarrow> column_mode \<Rightarrow> width_semantics \<Rightarrow> column_id option action" where
  "restore_in_new_column i target fallback_mode fallback_width =
     bindA (insert_new_column (rt_workspace_id target) i
              \<lparr>ncr_anchor_column_id = None, ncr_insert_index_override = rt_column_index target,
               ncr_before_anchor = False, ncr_mode = fallback_mode,
               ncr_width_semantics = fallback_width, ncr_preserve_focus_position = False\<rparr>)
       (\<lambda>c. ret (Some c))"

definition restore_window_to_target ::
    "window_id \<Rightarrow> restore_target \<Rightarrow> column_mode \<Rightarrow> width_semantics \<Rightarrow> column_id option action" where
  "restore_window_to_target i target fallback_mode fallback_width =
     (if rt_layer target = Floating
      then thenA (push_window_to_floating_layer (rt_workspace_id target) i) (ret None)
      else case rt_column_id target of
        None \<Rightarrow> restore_in_new_column i target fallback_mode fallback_width
      | Some c \<Rightarrow>
          bindA (gets (\<lambda>s. strip_contains s (rt_workspace_id target) c)) (\<lambda>contains.
          if contains
          then bindA (tryA (\<lambda>s. find_column s c)) (\<lambda>_.
               thenA (modify (upd_column c (restore_to_column i))) (ret (Some c)))
          else restore_in_new_column i target fallback_mode fallback_width))"

section \<open>Tab cycling and the focus after a window is gone\<close>

definition cycled_tab_index :: "bool \<Rightarrow> nat \<Rightarrow> nat \<Rightarrow> nat" where
  "cycled_tab_index forward count index =
     (if forward then (index + 1) mod count else if index = 0 then count - 1 else index - 1)"

definition try_cycle_tabbed_focus :: "workspace_id \<Rightarrow> column_id \<Rightarrow> bool \<Rightarrow> bool action" where
  "try_cycle_tabbed_focus w c forward =
     bindA (tryA (\<lambda>s. find_column s c)) (\<lambda>col.
     if col_mode col \<noteq> Tabbed \<or> length (col_windows col) < 2 then ret False
     else
       bindA (tryA (\<lambda>s. ok_or (or_opt (or_opt (or_opt (col_tab_selection col) (col_active col))
                                  (focused_window_in_workspace s w)) (first (col_windows col)))
                (Failed (InvalidEvent ''tabbed column is missing a selected window'')))) (\<lambda>current.
       let current_index = (case position (\<lambda>x. x = current) (col_windows col) of None \<Rightarrow> 0 | Some n \<Rightarrow> n);
           i = col_windows col ! cycled_tab_index forward (length (col_windows col)) current_index
       in bindA (tryA (\<lambda>s. workspace_monitor s w)) (\<lambda>m.
          bindA (tryA (\<lambda>s. find_column s c)) (\<lambda>_.
          thenA (modify (upd_column c (\<lambda>x. x\<lparr>col_tab_selection := Some i\<rparr>)))
          (thenA (modify (set_focus_to_window m w i (Some c) UserCommand))
          (thenA (reveal_column_in_workspace w c) (ret True)))))))"

definition next_focus_after_destroy ::
    "wm_state \<Rightarrow> workspace \<Rightarrow> column_id option \<Rightarrow> (window_id \<times> column_id option) option" where
  "next_focus_after_destroy s ws preferred =
     or_opt
       (or_opt
          (Option.bind preferred (\<lambda>c. Option.bind (get_column s c) (\<lambda>col.
             map_option (\<lambda>i. (i, Some c)) (column_active_window col))))
          (find_map
             (\<lambda>c. if Some c = preferred then None
                   else Option.bind (get_column s c) (\<lambda>col.
                     map_option (\<lambda>i. (i, Some c)) (column_active_window col)))
             (strip_columns (wsp_strip ws))))
       (map_option (\<lambda>i. (i, None)) (first (fl_windows (wsp_floating ws))))"

definition clear_window_focus :: "monitor_id \<Rightarrow> wm_state \<Rightarrow> wm_state" where
  "clear_window_focus m =
     upd_focus (\<lambda>f. f\<lparr>focus_monitor := Some m, focus_origin_of := ReducerDefault,
                      focus_window := None, focus_column := None\<rparr>)"

definition retarget_focus_after_destroy :: "workspace_id \<Rightarrow> column_id option \<Rightarrow> unit action" where
  "retarget_focus_after_destroy w preferred =
     bindA (tryA (\<lambda>s. find_workspace s w)) (\<lambda>ws.
     bindA (gets (\<lambda>s. next_focus_after_destroy s ws preferred)) (\<lambda>next_focus.
     case next_focus of
       Some p \<Rightarrow>
         thenA (modify (set_focus_to_window (wsp_monitor_id ws) w (fst p) (snd p) ReducerDefault))
         (case snd p of None \<Rightarrow> ret () | Some c \<Rightarrow> reveal_column_in_workspace w c)
     | None \<Rightarrow> modify (clear_window_focus (wsp_monitor_id ws))))"

end
