(* ===== verification/Store_Windows.thy ===== *)
theory Store_Windows
  imports Store_Core
begin

text \<open>
  The handlers for window life cycle, focus observation, focus navigation and configuration
  (\<open>crates/wm-core/src/state_store.rs\<close>), and the overview handlers
  (\<open>state_store/overview.rs\<close>). The context of a command, which monitor or workspace it is
  about, is from \<open>state_store/workspace.rs\<close>.
\<close>

section \<open>Which monitor, workspace and window a command is about\<close>

definition has_explicit_managed_monitor_set :: "wm_state \<Rightarrow> bool" where
  "has_explicit_managed_monitor_set s \<longleftrightarrow> cfg_managed_monitor_bindings (config s) \<noteq> []"

definition monitor_is_managed :: "wm_state \<Rightarrow> monitor_id \<Rightarrow> bool" where
  "monitor_is_managed s m =
     (case get_monitor s m of
        None \<Rightarrow> False
      | Some mon \<Rightarrow> manages_monitor_binding (config s) (mon_platform_binding mon))"

definition managed_monitor_ids_in_navigation_order :: "wm_state \<Rightarrow> monitor_id list" where
  "managed_monitor_ids_in_navigation_order s =
     filter (monitor_is_managed s) (monitor_ids_in_navigation_order s)"

definition first_managed_monitor_id :: "wm_state \<Rightarrow> monitor_id option" where
  "first_managed_monitor_id s = first (managed_monitor_ids_in_navigation_order s)"

definition command_monitor_id :: "wm_state \<Rightarrow> monitor_id option \<Rightarrow> failure + monitor_id" where
  "command_monitor_id s requested =
     bindE
       (case requested of
          Some m \<Rightarrow> Inr m
        | None \<Rightarrow>
            if has_explicit_managed_monitor_set s
            then ok_or (or_opt (filter_opt (monitor_is_managed s) (focus_monitor (focus s)))
                          (first_managed_monitor_id s))
                   (Failed (InvalidEvent ''workspace command requires at least one managed monitor''))
            else ok_or (or_opt (focus_monitor (focus s)) (first (bm_keys (monitors s))))
                   (Failed (InvalidEvent ''workspace command requires a monitor context'')))
       (\<lambda>m. if bm_has (monitors s) m then Inr m else Inl (Failed (UnknownMonitor m)))"

definition adjacent_monitor_id :: "wm_state \<Rightarrow> monitor_id \<Rightarrow> bool \<Rightarrow> monitor_id option" where
  "adjacent_monitor_id s source forward =
     (let ids = (if has_explicit_managed_monitor_set s
                 then managed_monitor_ids_in_navigation_order s
                 else monitor_ids_in_navigation_order s)
      in Option.bind (position (\<lambda>m. m = source) ids) (\<lambda>index.
           vec_get ids (if forward then min (index + 1) (length ids - 1) else index - 1)))"

definition active_workspace_id_for_commands :: "wm_state \<Rightarrow> failure + workspace_id" where
  "active_workspace_id_for_commands s =
     (let by_window = Option.bind (focus_window (focus s)) (\<lambda>i. Option.bind (get_window s i) (\<lambda>win.
            if win_is_managed win then Some (win_workspace_id win) else None));
          by_managed_focus = Option.bind (filter_opt (monitor_is_managed s) (focus_monitor (focus s)))
            (active_workspace_id_for_monitor s);
          by_first_managed = Option.bind (first_managed_monitor_id s) (active_workspace_id_for_monitor s);
          by_focus = Option.bind (focus_monitor (focus s)) (active_workspace_id_for_monitor s);
          explicit = has_explicit_managed_monitor_set s
      in ok_or
           (or_opt by_window
             (or_opt (if explicit then or_opt by_managed_focus by_first_managed else None)
               (or_opt by_focus
                 (map_option wset_active (first (bm_values (workspace_sets s)))))))
           (Failed (InvalidEvent ''no active workspace is available for command handling'')))"

definition command_window_id :: "wm_state \<Rightarrow> window_id option \<Rightarrow> failure + window_id" where
  "command_window_id s requested =
     ok_or (or_opt requested (focus_window (focus s)))
       (Failed (InvalidEvent ''command requires a target window''))"

section \<open>Overview\<close>

definition sync_overview_selection :: "monitor_id \<Rightarrow> wm_state \<Rightarrow> wm_state" where
  "sync_overview_selection m s =
     (if \<not> ov_is_open (overview s) \<or> ov_monitor_id (overview s) \<noteq> Some m then s
      else s\<lparr>overview := (overview s)\<lparr>ov_selection := active_workspace_id_for_monitor s m,
               ov_projection_version := u64_sat_add (ov_projection_version (overview s)) 1\<rparr>\<rparr>)"

definition open_overview :: "monitor_id \<Rightarrow> workspace_id \<Rightarrow> overview_state \<Rightarrow> overview_state" where
  "open_overview m w ov =
     (let changed = (\<not> ov_is_open ov \<or> ov_monitor_id ov \<noteq> Some m \<or> ov_selection ov \<noteq> Some w
                     \<or> ov_drag_payload ov \<noteq> None);
          ov1 = ov\<lparr>ov_is_open := True, ov_monitor_id := Some m, ov_selection := Some w,
                   ov_drag_payload := None\<rparr>
      in if changed
         then ov1\<lparr>ov_projection_version := u64_sat_add (ov_projection_version ov) 1\<rparr> else ov1)"

definition open_overview_for_monitor :: "monitor_id \<Rightarrow> unit action" where
  "open_overview_for_monitor m =
     bindA (tryA (\<lambda>s. ok_or (active_workspace_id_for_monitor s m) (Failed (NoActiveWorkspace m)))) (\<lambda>w.
     modify (\<lambda>s. s\<lparr>overview := open_overview m w (overview s)\<rparr>))"

definition close_overview :: "wm_state \<Rightarrow> wm_state" where
  "close_overview s =
     (let ov = overview s;
          changed = (ov_is_open ov \<or> ov_monitor_id ov \<noteq> None \<or> ov_selection ov \<noteq> None
                     \<or> ov_drag_payload ov \<noteq> None);
          ov1 = ov\<lparr>ov_is_open := False, ov_monitor_id := None, ov_selection := None,
                   ov_drag_payload := None\<rparr>
      in s\<lparr>overview := (if changed
             then ov1\<lparr>ov_projection_version := u64_sat_add (ov_projection_version ov) 1\<rparr> else ov1)\<rparr>)"

definition handle_open_overview :: "overview_command_payload \<Rightarrow> workspace_id option action" where
  "handle_open_overview payload =
     bindA (tryA (\<lambda>s. command_monitor_id s (ocp_monitor_id payload))) (\<lambda>m.
     thenA (open_overview_for_monitor m) (ret None))"

definition handle_close_overview :: "overview_command_payload \<Rightarrow> workspace_id option action" where
  "handle_close_overview payload = thenA (modify close_overview) (ret None)"

definition handle_toggle_overview :: "overview_command_payload \<Rightarrow> workspace_id option action" where
  "handle_toggle_overview payload =
     bindA (tryA (\<lambda>s. command_monitor_id s (ocp_monitor_id payload))) (\<lambda>m.
     bindA (gets overview) (\<lambda>ov.
     thenA (if ov_is_open ov \<and> ov_monitor_id ov = Some m
            then modify close_overview else open_overview_for_monitor m)
       (ret None)))"

section \<open>A window appears\<close>

text \<open>The column a discovered tiled window goes to, by its placement.\<close>

definition place_discovered_window ::
    "workspace_id \<Rightarrow> window_id \<Rightarrow> window_placement \<Rightarrow> column_id option \<Rightarrow> column_id option \<Rightarrow>
     nat option \<Rightarrow> bool \<Rightarrow> column_id action" where
  "place_discovered_window w i placement focused_column anchor restore_index preserve =
     (let index_override = (if anchor = None then restore_index else None)
      in case placement of
        AppendToFocusedColumn \<Rightarrow>
          (case focused_column of
             Some c \<Rightarrow>
               bindA (tryA (\<lambda>s. find_column s c)) (\<lambda>_.
               thenA (modify (upd_column c (append_window i))) (ret c))
           | None \<Rightarrow>
               insert_new_column w i
                 \<lparr>ncr_anchor_column_id = None, ncr_insert_index_override = None,
                  ncr_before_anchor = False, ncr_mode = NormalColumn,
                  ncr_width_semantics = width_semantics_default, ncr_preserve_focus_position = False\<rparr>)
      | NewColumnAfterFocus m width \<Rightarrow>
          insert_new_column w i
            \<lparr>ncr_anchor_column_id = anchor, ncr_insert_index_override = index_override,
             ncr_before_anchor = False, ncr_mode = m, ncr_width_semantics = width,
             ncr_preserve_focus_position = False\<rparr>
      | NewColumnBeforeFocus m width \<Rightarrow>
          insert_new_column w i
            \<lparr>ncr_anchor_column_id = anchor, ncr_insert_index_override = index_override,
             ncr_before_anchor = True, ncr_mode = m, ncr_width_semantics = width,
             ncr_preserve_focus_position = preserve\<rparr>
      | AppendToWorkspaceEnd m width \<Rightarrow>
          insert_new_column w i
            \<lparr>ncr_anchor_column_id = None, ncr_insert_index_override = None,
             ncr_before_anchor = False, ncr_mode = m, ncr_width_semantics = width,
             ncr_preserve_focus_position = False\<rparr>)"

definition target_discovered_window ::
    "window_discovered_payload \<Rightarrow> workspace_id \<Rightarrow> window_id \<Rightarrow> column_id option \<Rightarrow> column_id option \<Rightarrow>
     nat option \<Rightarrow> bool \<Rightarrow> column_id option action" where
  "target_discovered_window payload w i focused_column anchor restore_index preserve =
     (if \<not> wdp_managed payload then ret None
      else if wdp_layer payload \<noteq> Tiled
      then thenA (push_window_to_floating_layer w i) (ret None)
      else bindA (place_discovered_window w i (wdp_placement payload) focused_column anchor
                    restore_index preserve) (\<lambda>c. ret (Some c)))"

definition discovered_node ::
    "window_discovered_payload \<Rightarrow> workspace_id \<Rightarrow> window_id \<Rightarrow> column_id option \<Rightarrow> window_node" where
  "discovered_node payload w i c =
     \<lparr>win_id = i, win_hwnd = Some (wdp_hwnd payload),
      win_classification = wdp_classification payload, win_layer = wdp_layer payload,
      win_workspace_id = w, win_column_id = c, win_is_managed = wdp_managed payload,
      win_is_floating = (wdp_layer payload = Floating),
      win_is_fullscreen = (wdp_layer payload = Fullscreen), win_restore_target = None,
      win_last_known_rect = wdp_last_known_rect payload,
      win_desired_size = wdp_desired_size payload\<rparr>"

definition put_window :: "window_node \<Rightarrow> wm_state \<Rightarrow> wm_state" where
  "put_window win s = s\<lparr>windows := bm_put (win_id win) win (windows s)\<rparr>"

definition preserves_current_focus :: "wm_state \<Rightarrow> focus_behavior \<Rightarrow> workspace_id \<Rightarrow> bool" where
  "preserves_current_focus s behavior w \<longleftrightarrow>
     behavior = PreserveCurrentFocus \<and>
     (case focused_window_in_workspace s w of
        None \<Rightarrow> False
      | Some i \<Rightarrow> (case get_window s i of None \<Rightarrow> True | Some win \<Rightarrow> \<not> window_is_fullscreen win))"

definition finish_discovery ::
    "monitor_id \<Rightarrow> workspace_id \<Rightarrow> window_id \<Rightarrow> column_id option \<Rightarrow> bool \<Rightarrow> workspace_id option action" where
  "finish_discovery m w i c preserve =
     thenA (if preserve then ret () else modify (set_focus_to_window m w i c ReducerDefault))
     (thenA (modify (\<lambda>s. snd (ensure_tail_workspace m s)))
     (thenA
       (if preserve then ret ()
        else thenA (clamp_scroll_offset w)
               (case c of None \<Rightarrow> ret () | Some x \<Rightarrow> reveal_column_in_workspace w x))
       (ret (Some w))))"

definition handle_window_discovered :: "window_discovered_payload \<Rightarrow> workspace_id option action" where
  "handle_window_discovered payload =
     (let m = wdp_monitor_id payload in
     bindA (tryA (\<lambda>s. if bm_has (monitors s) m then Inr () else Inl (Failed (UnknownMonitor m)))) (\<lambda>_.
     bindA (tryA (\<lambda>s. ok_or (active_workspace_id_for_monitor s m) (Failed (NoActiveWorkspace m)))) (\<lambda>w.
     bindA (gets (\<lambda>s. preserves_current_focus s (wdp_focus_behavior payload) w)) (\<lambda>preserve.
     bindA (gets (\<lambda>s. focused_column_in_workspace s w)) (\<lambda>focused_column.
     bindA (gets (\<lambda>s. discovery_anchor_column_in_workspace s w)) (\<lambda>anchor.
     bindA (gets (\<lambda>s. fullscreen_restore_index_in_workspace s w)) (\<lambda>restore_index.
     bindA (stateA allocate_window_id) (\<lambda>i.
     bindA (target_discovered_window payload w i focused_column anchor restore_index preserve) (\<lambda>c.
     thenA (modify (put_window (discovered_node payload w i c)))
     (thenA (modify (set_active_of_monitor m w))
     (if \<not> wdp_managed payload
      then thenA (modify (\<lambda>s. snd (ensure_tail_workspace m s))) (ret None)
      else finish_discovery m w i c preserve)))))))))))"

section \<open>A window goes away\<close>

definition forget_window :: "window_id \<Rightarrow> column_id option \<Rightarrow> workspace \<Rightarrow> workspace" where
  "forget_window i c ws =
     (let ws1 = (if wsp_remembered_window ws = Some i then ws\<lparr>wsp_remembered_window := None\<rparr> else ws)
      in if wsp_remembered_column ws1 = c
            \<and> \<not> (case c of None \<Rightarrow> False | Some x \<Rightarrow> x \<in> set (strip_columns (wsp_strip ws1)))
         then ws1\<lparr>wsp_remembered_column := None\<rparr> else ws1)"

definition del_window :: "window_id \<Rightarrow> wm_state \<Rightarrow> wm_state" where
  "del_window i s = s\<lparr>windows := bm_del i (windows s)\<rparr>"

definition handle_window_destroyed :: "window_destroyed_payload \<Rightarrow> workspace_id option action" where
  "handle_window_destroyed payload =
     (let i = wxp_window_id payload in
     bindA (tryA (\<lambda>s. find_window s i)) (\<lambda>win.
     let w = win_workspace_id win in
     bindA (tryA (\<lambda>s. workspace_monitor s w)) (\<lambda>m.
     thenA (detach_window_membership i)
     (thenA (modify (del_window i))
     (thenA (modify (upd_workspace w (forget_window i (win_column_id win))))
     (bindA (gets (\<lambda>s. focus_window (focus s) = Some i)) (\<lambda>was_focused.
     thenA (if was_focused then retarget_focus_after_destroy w (win_column_id win) else ret ())
     (thenA (modify (\<lambda>s. snd (ensure_tail_workspace m s)))
     (thenA (clamp_scroll_offset w) (ret (Some w)))))))))))"

section \<open>Focus\<close>

definition reveal_option :: "workspace_id \<Rightarrow> column_id option \<Rightarrow> unit action" where
  "reveal_option w c = (case c of None \<Rightarrow> ret () | Some x \<Rightarrow> reveal_column_in_workspace w x)"

definition handle_window_focus_observed ::
    "window_focus_observed_payload \<Rightarrow> workspace_id option action" where
  "handle_window_focus_observed payload =
     (let m = wfp_monitor_id payload; i = wfp_window_id payload in
     bindA (tryA (\<lambda>s. if bm_has (monitors s) m then Inr () else Inl (Failed (UnknownMonitor m)))) (\<lambda>_.
     bindA (tryA (\<lambda>s. find_window s i)) (\<lambda>win.
     let w = win_workspace_id win in
     bindA (tryA (\<lambda>s. find_workspace s w)) (\<lambda>ws.
     if wsp_monitor_id ws \<noteq> m
     then throw (Failed (InvalidEvent ''focused window monitor does not match workspace monitor''))
     else
       thenA (modify (set_focus_to_window m w i (win_column_id win) (wfp_focus_origin payload)))
       (thenA (reveal_option w (win_column_id win)) (ret (Some w)))))))"

definition next_navigation_index ::
    "bool \<Rightarrow> (window_id \<times> column_id option) list \<Rightarrow> window_id option \<Rightarrow> nat" where
  "next_navigation_index forward sequence focused =
     (case focused of
        Some i \<Rightarrow>
          (let index = (case position (\<lambda>p. fst p = i) sequence of None \<Rightarrow> 0 | Some n \<Rightarrow> n)
           in if forward then min (index + 1) (length sequence - 1) else index - 1)
      | None \<Rightarrow> if forward then 0 else length sequence - 1)"

definition navigate_strip :: "workspace_id \<Rightarrow> bool \<Rightarrow> workspace_id option action" where
  "navigate_strip w forward =
     bindA (tryA (\<lambda>s. navigation_sequence_for_workspace s w)) (\<lambda>sequence.
     if sequence = [] then ret (Some w)
     else
       bindA (gets (\<lambda>s. next_navigation_index forward sequence (focused_window_in_workspace s w))) (\<lambda>n.
       let (i, c) = sequence ! n in
       bindA (tryA (\<lambda>s. workspace_monitor s w)) (\<lambda>m.
       thenA (modify (set_focus_to_window m w i c UserCommand))
       (thenA (reveal_option w c) (ret (Some w))))))"

definition handle_focus_navigation :: "bool \<Rightarrow> focus_command_payload \<Rightarrow> workspace_id option action" where
  "handle_focus_navigation forward payload =
     bindA (tryA active_workspace_id_for_commands) (\<lambda>w.
     bindA (gets (\<lambda>s. focused_column_in_workspace s w)) (\<lambda>focused_column.
     bindA (case focused_column of
              None \<Rightarrow> ret False
            | Some c \<Rightarrow> if fcp_scope payload = ColumnTabs
                        then try_cycle_tabbed_focus w c forward else ret False) (\<lambda>cycled.
     if cycled then ret (Some w) else navigate_strip w forward)))"

section \<open>Configuration\<close>

definition handle_config_reload_succeeded ::
    "config_reload_succeeded_payload \<Rightarrow> workspace_id option action" where
  "handle_config_reload_succeeded payload =
     thenA (modify (\<lambda>s. s\<lparr>config := rsp_projection payload\<rparr>)) (ret None)"

definition handle_rules_updated :: "rules_updated_payload \<Rightarrow> workspace_id option action" where
  "handle_rules_updated payload =
     thenA (modify (\<lambda>s. s\<lparr>config := (config s)\<lparr>cfg_active_rule_count := rup_active_rule_count payload\<rparr>\<rparr>))
       (ret None)"

end
