(* ===== verification/Store_Workspaces.thy ===== *)
theory Store_Workspaces
  imports Store_Windows
begin

text \<open>
  Workspace commands (\<open>crates/wm-core/src/state_store/workspace.rs\<close>): focusing and moving
  workspaces on a monitor and between monitors, and moving a column to another workspace.
\<close>

section \<open>Activating a workspace\<close>

definition remembered_window_target ::
    "wm_state \<Rightarrow> workspace_id \<Rightarrow> workspace \<Rightarrow> (window_id \<times> column_id option) option" where
  "remembered_window_target s w ws =
     Option.bind (wsp_remembered_window ws) (\<lambda>i.
     Option.bind (get_window s i) (\<lambda>win.
       if win_workspace_id win = w
       then Some (i, filter_opt (\<lambda>c. c \<in> set (strip_columns (wsp_strip ws))) (win_column_id win))
       else None))"

definition remembered_column_target ::
    "wm_state \<Rightarrow> workspace \<Rightarrow> (window_id \<times> column_id option) option" where
  "remembered_column_target s ws =
     Option.bind (wsp_remembered_column ws) (\<lambda>c.
       if c \<in> set (strip_columns (wsp_strip ws))
       then Option.bind (get_column s c) (\<lambda>col.
              map_option (\<lambda>i. (i, Some c)) (column_active_window col))
       else None)"

text \<open>The loop over the strip: the first column with a window, or the first missing column.\<close>

fun strip_target ::
    "wm_state \<Rightarrow> column_id list \<Rightarrow> failure + (window_id \<times> column_id option) option" where
  "strip_target s [] = Inr None"
| "strip_target s (c # cs) =
     bindE (find_column s c) (\<lambda>col.
       case column_active_window col of
         Some i \<Rightarrow> Inr (Some (i, Some c))
       | None \<Rightarrow> strip_target s cs)"

definition workspace_focus_target ::
    "wm_state \<Rightarrow> workspace_id \<Rightarrow> failure + (window_id \<times> column_id option) option" where
  "workspace_focus_target s w =
     bindE (find_workspace s w) (\<lambda>ws.
       case or_opt (remembered_window_target s w ws) (remembered_column_target s ws) of
         Some p \<Rightarrow> Inr (Some p)
       | None \<Rightarrow>
           bindE (strip_target s (strip_columns (wsp_strip ws))) (\<lambda>r.
             Inr (or_opt r (map_option (\<lambda>i. (i, None)) (first (fl_windows (wsp_floating ws)))))))"

definition drop_window_focus :: "monitor_id \<Rightarrow> focus_origin \<Rightarrow> wm_state \<Rightarrow> wm_state" where
  "drop_window_focus m origin =
     upd_focus (\<lambda>f. f\<lparr>focus_monitor := Some m, focus_window := None, focus_column := None,
                      focus_origin_of := origin\<rparr>)"

definition set_active_workspace_without_focus ::
    "monitor_id \<Rightarrow> workspace_id \<Rightarrow> focus_origin \<Rightarrow> unit action" where
  "set_active_workspace_without_focus m w origin =
     bindA (tryA (\<lambda>s. find_workspace s w)) (\<lambda>_.
     modify (\<lambda>s. set_active_of_monitor m w (drop_window_focus m origin s)))"

definition activate_workspace :: "monitor_id \<Rightarrow> workspace_id \<Rightarrow> focus_origin \<Rightarrow> unit action" where
  "activate_workspace m w origin =
     bindA (tryA (\<lambda>s. workspace_focus_target s w)) (\<lambda>target.
     thenA
       (case target of
          Some (i, c) \<Rightarrow>
            thenA (modify (set_focus_to_window m w i c origin))
              (case c of None \<Rightarrow> clamp_scroll_offset w | Some x \<Rightarrow> reveal_column_in_workspace w x)
        | None \<Rightarrow>
            thenA (set_active_workspace_without_focus m w origin) (clamp_scroll_offset w))
       (modify (sync_overview_selection m)))"

section \<open>Focusing a neighbour workspace\<close>

definition set_of_monitor :: "wm_state \<Rightarrow> monitor_id \<Rightarrow> failure + workspace_set_id" where
  "set_of_monitor s m = ok_or (workspace_set_id_for_monitor s m) (Failed (UnknownMonitor m))"

definition active_of_monitor :: "wm_state \<Rightarrow> monitor_id \<Rightarrow> failure + workspace_id" where
  "active_of_monitor s m = ok_or (active_workspace_id_for_monitor s m) (Failed (NoActiveWorkspace m))"

definition ordered_of_set :: "wm_state \<Rightarrow> monitor_id \<Rightarrow> workspace_set_id \<Rightarrow> failure + workspace_id list" where
  "ordered_of_set s m i = ok_or (map_option wset_ordered (get_set s i)) (Failed (UnknownMonitor m))"

definition index_of_workspace :: "workspace_id \<Rightarrow> workspace_id list \<Rightarrow> failure + nat" where
  "index_of_workspace w ids = ok_or (position (\<lambda>x. x = w) ids) (Failed (UnknownWorkspace w))"

definition neighbour_index :: "bool \<Rightarrow> nat \<Rightarrow> nat \<Rightarrow> nat" where
  "neighbour_index forward count index = (if forward then min (index + 1) (count - 1) else index - 1)"

definition handle_focus_workspace :: "bool \<Rightarrow> workspace_command_payload \<Rightarrow> workspace_id option action" where
  "handle_focus_workspace forward payload =
     bindA (tryA (\<lambda>s. command_monitor_id s (kcp_monitor_id payload))) (\<lambda>m.
     bindA (tryA (\<lambda>s. set_of_monitor s m)) (\<lambda>i.
     thenA (modify (normalize_workspace_set i))
     (bindA (tryA (\<lambda>s. ordered_of_set s m i)) (\<lambda>ids.
      bindA (tryA (\<lambda>s. active_of_monitor s m)) (\<lambda>active.
      bindA (tryA (\<lambda>_. index_of_workspace active ids)) (\<lambda>index.
      let target = ids ! neighbour_index forward (length ids) index
      in if target = active then ret (Some active)
         else
           thenA (activate_workspace m target UserCommand)
           (thenA (modify (normalize_workspace_set i)) (ret (Some target)))))))))"

section \<open>Reordering the workspaces of a monitor\<close>

definition handle_move_workspace_within_monitor ::
    "bool \<Rightarrow> workspace_command_payload \<Rightarrow> workspace_id option action" where
  "handle_move_workspace_within_monitor forward payload =
     bindA (tryA (\<lambda>s. command_monitor_id s (kcp_monitor_id payload))) (\<lambda>m.
     bindA (tryA (\<lambda>s. set_of_monitor s m)) (\<lambda>i.
     thenA (modify (normalize_workspace_set i))
     (bindA (tryA (\<lambda>s. active_of_monitor s m)) (\<lambda>active.
      bindA (tryA (\<lambda>s. ordered_of_set s m i)) (\<lambda>ids.
      bindA (tryA (\<lambda>_. index_of_workspace active ids)) (\<lambda>index.
      let target = neighbour_index forward (length ids) index
      in if target = index then ret (Some active)
         else
           thenA (modify (upd_set i (\<lambda>x. x\<lparr>wset_ordered := swap_at index target (wset_ordered x),
                                            wset_active := active\<rparr>)))
           (thenA (modify (normalize_workspace_set i))
           (thenA (modify (sync_overview_selection m)) (ret (Some active))))))))))"

section \<open>Moving a workspace to another monitor\<close>

definition is_tail_workspace :: "wm_state \<Rightarrow> workspace_id \<Rightarrow> bool" where
  "is_tail_workspace s w =
     (case get_workspace s w of None \<Rightarrow> False | Some ws \<Rightarrow> wsp_is_ephemeral_empty_tail ws)"

definition insert_before_tail :: "wm_state \<Rightarrow> workspace_id list \<Rightarrow> nat" where
  "insert_before_tail s ids =
     (case position (is_tail_workspace s) ids of Some n \<Rightarrow> n | None \<Rightarrow> length ids)"

definition require_set :: "wm_state \<Rightarrow> monitor_id \<Rightarrow> workspace_set_id \<Rightarrow> failure + unit" where
  "require_set s m i = (if bm_has (workspace_sets s) i then Inr () else Inl (Failed (UnknownMonitor m)))"

definition transfer_workspace ::
    "monitor_id \<Rightarrow> monitor_id \<Rightarrow> workspace_set_id \<Rightarrow> workspace_set_id \<Rightarrow> workspace_id \<Rightarrow> unit action" where
  "transfer_workspace source_monitor target_monitor source_set target_set w =
     bindA (tryA (\<lambda>s. require_set s source_monitor source_set)) (\<lambda>_.
     thenA (modify (upd_set source_set (\<lambda>x. x\<lparr>wset_ordered := filter (\<lambda>y. y \<noteq> w) (wset_ordered x)\<rparr>)))
     (bindA (tryA (\<lambda>s. ordered_of_set s target_monitor target_set)) (\<lambda>ids.
      bindA (gets (\<lambda>s. insert_before_tail s ids)) (\<lambda>index.
      bindA (tryA (\<lambda>s. require_set s target_monitor target_set)) (\<lambda>_.
      thenA (modify (upd_set target_set (\<lambda>x. x\<lparr>wset_ordered := insert_at index w (wset_ordered x),
                                                wset_active := w\<rparr>)))
      (modify (upd_workspace w (\<lambda>ws. ws\<lparr>wsp_monitor_id := target_monitor\<rparr>))))))))"

definition handle_move_workspace_to_adjacent_monitor ::
    "bool \<Rightarrow> workspace_command_payload \<Rightarrow> workspace_id option action" where
  "handle_move_workspace_to_adjacent_monitor forward payload =
     bindA (tryA (\<lambda>s. command_monitor_id s (kcp_monitor_id payload))) (\<lambda>source.
     bindA (gets (\<lambda>s. case adjacent_monitor_id s source forward of Some m \<Rightarrow> m | None \<Rightarrow> source)) (\<lambda>target.
     if target = source
     then bindA (tryA (\<lambda>s. active_of_monitor s source)) (\<lambda>w. ret (Some w))
     else
       bindA (tryA (\<lambda>s. active_of_monitor s source)) (\<lambda>w.
       bindA (tryA (\<lambda>s. set_of_monitor s source)) (\<lambda>source_set.
       bindA (tryA (\<lambda>s. set_of_monitor s target)) (\<lambda>target_set.
       thenA (modify (normalize_workspace_set source_set))
       (thenA (modify (normalize_workspace_set target_set))
       (thenA (transfer_workspace source target source_set target_set w)
       (thenA (modify (normalize_workspace_set source_set))
       (thenA (modify (normalize_workspace_set target_set))
       (thenA (activate_workspace target w UserCommand)
       (thenA (modify (sync_overview_selection source))
        (ret (Some w))))))))))))) "

section \<open>Moving a column\<close>

definition lift_column_from :: "column_id \<Rightarrow> window_id list \<Rightarrow> workspace \<Rightarrow> workspace" where
  "lift_column_from c moved ws =
     (let ws1 = remove_from_strip c ws;
          ws2 = (if wsp_remembered_column ws1 = Some c then ws1\<lparr>wsp_remembered_column := None\<rparr> else ws1)
      in if (case wsp_remembered_window ws2 of None \<Rightarrow> False | Some i \<Rightarrow> i \<in> set moved)
         then ws2\<lparr>wsp_remembered_window := None\<rparr> else ws2)"

definition drop_column_into ::
    "column_id \<Rightarrow> column_id option \<Rightarrow> window_id \<Rightarrow> workspace \<Rightarrow> workspace" where
  "drop_column_into c after focus_window_id ws =
     (let ws1 = remove_from_strip c ws;
          cols = strip_columns (wsp_strip ws1);
          index = min (case Option.bind after (\<lambda>anchor. map_option (\<lambda>n. n + 1) (position (\<lambda>x. x = anchor) cols)) of
                         Some n \<Rightarrow> n | None \<Rightarrow> length cols) (length cols)
      in ws1\<lparr>wsp_strip := (wsp_strip ws1)\<lparr>strip_columns := insert_at index c cols\<rparr>,
             wsp_remembered_column := Some c, wsp_remembered_window := Some focus_window_id\<rparr>)"

definition rehome_window :: "workspace_id \<Rightarrow> column_id \<Rightarrow> window_node \<Rightarrow> window_node" where
  "rehome_window w c win = win\<lparr>win_workspace_id := w, win_column_id := Some c\<rparr>"

definition rehome_windows :: "workspace_id \<Rightarrow> column_id \<Rightarrow> window_id list \<Rightarrow> wm_state \<Rightarrow> wm_state" where
  "rehome_windows w c ids s = fold (\<lambda>i. upd_window i (rehome_window w c)) ids s"

definition check_anchor :: "wm_state \<Rightarrow> workspace_id \<Rightarrow> column_id option \<Rightarrow> failure + unit" where
  "check_anchor s target after =
     (case after of
        None \<Rightarrow> Inr ()
      | Some anchor \<Rightarrow>
          bindE (column_workspace_id s anchor) (\<lambda>w.
            if w \<noteq> target
            then Inl (Failed (InvalidEvent ''move column target anchor must belong to the target workspace''))
            else Inr ()))"

definition relocate_column ::
    "column_id \<Rightarrow> window_id list \<Rightarrow> window_id \<Rightarrow> workspace_id \<Rightarrow> workspace_id \<Rightarrow> column_id option \<Rightarrow>
     unit action" where
  "relocate_column c moved focus_window_id source target after =
     bindA (tryA (\<lambda>s. find_workspace s source)) (\<lambda>_.
     thenA (modify (upd_workspace source (lift_column_from c moved)))
     (bindA (tryA (\<lambda>s. find_workspace s target)) (\<lambda>_.
      thenA (modify (upd_workspace target (drop_column_into c after focus_window_id)))
      (modify (rehome_windows target c moved)))))"

definition move_column_to_workspace_target_internal ::
    "column_id \<Rightarrow> workspace_id \<Rightarrow> column_id option \<Rightarrow> workspace_id option action" where
  "move_column_to_workspace_target_internal c target after =
     bindA (tryA (\<lambda>s. find_column s c)) (\<lambda>col.
     let moved = col_windows col in
     bindA (tryA (\<lambda>_. ok_or (first moved)
        (Failed (InvalidEvent ''move column target requires a non-empty managed tiled column'')))) (\<lambda>source_window.
     bindA (tryA (\<lambda>s. column_workspace_id s c)) (\<lambda>source.
     bindA (tryA (\<lambda>s. workspace_monitor s source)) (\<lambda>source_monitor.
     bindA (tryA (\<lambda>s. workspace_monitor s target)) (\<lambda>target_monitor.
     bindA (tryA (\<lambda>s. set_of_monitor s source_monitor)) (\<lambda>source_set.
     bindA (tryA (\<lambda>s. set_of_monitor s target_monitor)) (\<lambda>target_set.
     if source = target \<and> after = Some c then ret (Some target)
     else
       bindA (tryA (\<lambda>s. check_anchor s target after)) (\<lambda>_.
       let focus_window_id = (case column_active_window col of Some i \<Rightarrow> i | None \<Rightarrow> source_window) in
       thenA (relocate_column c moved focus_window_id source target after)
       (thenA (activate_workspace target_monitor target UserCommand)
       (thenA (modify (normalize_workspace_set source_set))
       (thenA
         (if target_set \<noteq> source_set
          then thenA (modify (normalize_workspace_set target_set))
                 (modify (sync_overview_selection source_monitor))
          else ret ())
         (ret (Some target)))))))))))))"

definition movable_column :: "window_node \<Rightarrow> failure + column_id" where
  "movable_column win =
     bindE (ok_or (win_column_id win)
              (Failed (InvalidEvent ''move column to workspace requires an active managed tiled column''))) (\<lambda>c.
     if win_layer win \<noteq> Tiled \<or> win_is_floating win \<or> win_is_fullscreen win
     then Inl (Failed (InvalidEvent ''move column to workspace requires an active managed tiled window''))
     else Inr c)"

definition handle_move_column_to_workspace ::
    "bool \<Rightarrow> workspace_command_payload \<Rightarrow> workspace_id option action" where
  "handle_move_column_to_workspace forward payload =
     bindA (tryA (\<lambda>s. command_monitor_id s (kcp_monitor_id payload))) (\<lambda>m.
     bindA (tryA (\<lambda>s. active_of_monitor s m)) (\<lambda>source.
     bindA (tryA (\<lambda>s. ok_or (focused_window_in_workspace s source)
        (Failed (InvalidEvent ''move column to workspace requires an active managed tiled window'')))) (\<lambda>i.
     bindA (tryA (\<lambda>s. find_window s i)) (\<lambda>win.
     bindA (tryA (\<lambda>_. movable_column win)) (\<lambda>c.
     bindA (tryA (\<lambda>s. set_of_monitor s m)) (\<lambda>set_id.
     thenA (modify (normalize_workspace_set set_id))
     (bindA (tryA (\<lambda>s. ordered_of_set s m set_id)) (\<lambda>ids.
      bindA (tryA (\<lambda>_. index_of_workspace source ids)) (\<lambda>index.
      let target = ids ! neighbour_index forward (length ids) index
      in if target = source then ret (Some source)
         else move_column_to_workspace_target_internal c target None)))))))))"

definition handle_move_column_to_workspace_target :: "move_column_payload \<Rightarrow> workspace_id option action" where
  "handle_move_column_to_workspace_target payload =
     move_column_to_workspace_target_internal (mcp_source_column_id payload)
       (mcp_target_workspace_id payload) (mcp_insert_after_column_id payload)"

end
