(* ===== verification/Store_Width.thy ===== *)
theory Store_Width
  imports Store_Workspaces
begin

text \<open>
  Interactive column widths (\<open>crates/wm-core/src/state_store/width_resize.rs\<close>): the resize
  session (begin, preview, commit, cancel) and the cycling of a column through preset widths.
\<close>

definition active_tiled_width_target :: "wm_state \<Rightarrow> failure + workspace_id \<times> window_id \<times> column_id" where
  "active_tiled_width_target s =
     bindE (active_workspace_id_for_commands s) (\<lambda>w.
     bindE (ok_or (focused_window_in_workspace s w)
              (Failed (InvalidEvent ''width command requires an active tiled window''))) (\<lambda>i.
     bindE (find_window s i) (\<lambda>win.
     bindE (ok_or (win_column_id win)
              (Failed (InvalidEvent ''width command requires an active tiled column''))) (\<lambda>c.
     if win_layer win \<noteq> Tiled \<or> win_is_floating win \<or> win_is_fullscreen win
     then Inl (Failed (InvalidEvent ''width command requires an active managed tiled window''))
     else Inr (w, i, c)))))"

definition width_bounds :: "rect \<Rightarrow> nat \<times> nat" where
  "width_bounds viewport =
     (let max_width = max (rect_width viewport) 1 in (max (max_width div 6) 1, max_width))"

definition column_target_width_bounds :: "wm_state \<Rightarrow> column_id \<Rightarrow> workspace_id \<Rightarrow> failure + nat \<times> nat" where
  "column_target_width_bounds s c w =
     bindE (workspace_tiled_viewport s w) (\<lambda>viewport.
     bindE (find_column s c) (\<lambda>_. Inr (width_bounds viewport)))"

record resize_metrics =
  rm_target_width :: nat
  rm_preview_rect :: rect
  rm_anchor_x :: int
  rm_pointer_x :: int

definition compute_width_resize_metrics ::
    "resize_edge \<Rightarrow> rect \<Rightarrow> nat \<Rightarrow> rect \<Rightarrow> int \<Rightarrow> failure + resize_metrics" where
  "compute_width_resize_metrics edge initial_rect initial_width viewport pointer_x =
     (let (min_width, max_width) = width_bounds viewport;
          initial_left = rect_x initial_rect;
          initial_right = i32_sat_add (rect_x initial_rect) (u32_as_i32 (rect_width initial_rect));
          (min_pointer, max_pointer, anchor) =
            (case edge of
               RightEdge \<Rightarrow> (i32_sat_add initial_left (u32_as_i32 min_width),
                             i32_sat_add initial_left (u32_as_i32 max_width), initial_right)
             | LeftEdge \<Rightarrow> (i32_sat_sub initial_right (u32_as_i32 max_width),
                            i32_sat_sub initial_right (u32_as_i32 min_width), initial_left));
          viewport_left = rect_x viewport;
          viewport_right = i32_sat_add (rect_x viewport) (u32_as_i32 (rect_width viewport))
      in bindE (ok_or (clamp min_pointer max_pointer pointer_x) Panicked) (\<lambda>p1.
         bindE (ok_or (clamp viewport_left viewport_right p1) Panicked) (\<lambda>pointer.
         let target_width = clamp_in min_width max_width
               (case edge of
                  RightEdge \<Rightarrow> i32_as_u32 (i32_sat_sub pointer initial_left)
                | LeftEdge \<Rightarrow> i32_as_u32 (i32_sat_sub initial_right pointer));
             preview_left = min anchor pointer;
             preview_right = max anchor pointer;
             preview_width = max (i32_as_u32 (i32_sat_sub preview_right preview_left)) 1
         in Inr \<lparr>rm_target_width = target_width,
                 rm_preview_rect = rect_new preview_left (rect_y viewport) preview_width
                   (max (min (rect_height initial_rect) (rect_height viewport)) 1),
                 rm_anchor_x = anchor, rm_pointer_x = pointer\<rparr>)))"

definition geometry_of_window :: "window_id \<Rightarrow> window_geometry list \<Rightarrow> rect option" where
  "geometry_of_window i gs = map_option geo_rect (find (\<lambda>g. geo_window_id g = i) gs)"

definition set_resize_session :: "width_resize_session option \<Rightarrow> wm_state \<Rightarrow> wm_state" where
  "set_resize_session r s = s\<lparr>layout := (layout s)\<lparr>lay_width_resize_session := r\<rparr>\<rparr>"

definition handle_begin_column_width_resize ::
    "column_width_resize_payload \<Rightarrow> workspace_id option action" where
  "handle_begin_column_width_resize payload =
     bindA (tryA active_tiled_width_target) (\<lambda>(w, i, c).
     bindA (tryA (\<lambda>s. layout_of s w)) (\<lambda>projection.
     bindA (tryA (\<lambda>_. ok_or (geometry_of_window i (proj_window_geometries projection))
        (Failed (InvalidEvent ''active tiled window is missing from layout projection'')))) (\<lambda>column_rect.
     bindA (tryA (\<lambda>s. workspace_tiled_viewport s w)) (\<lambda>viewport.
     bindA (tryA (\<lambda>s. column_target_width_bounds s c w)) (\<lambda>bounds.
     bindA (tryA (\<lambda>_. compute_width_resize_metrics (crp_edge payload) column_rect (snd bounds) viewport
                        (crp_pointer_x payload))) (\<lambda>metrics.
     thenA (modify (set_resize_session (Some
       \<lparr>wrs_workspace_id = w, wrs_column_id = c, wrs_window_id = i,
        wrs_anchor_edge = crp_edge payload, wrs_anchor_x = rm_anchor_x metrics,
        wrs_current_pointer_x = rm_pointer_x metrics, wrs_initial_column_rect = column_rect,
        wrs_initial_width = snd bounds, wrs_target_width = rm_target_width metrics,
        wrs_clamped_preview_rect = rm_preview_rect metrics\<rparr>)))
     (ret (Some w))))))))"

definition session_metrics :: "wm_state \<Rightarrow> width_resize_session \<Rightarrow> int \<Rightarrow> failure + resize_metrics" where
  "session_metrics s session pointer_x =
     bindE (workspace_tiled_viewport s (wrs_workspace_id session)) (\<lambda>viewport.
       compute_width_resize_metrics (wrs_anchor_edge session) (wrs_initial_column_rect session)
         (wrs_initial_width session) viewport pointer_x)"

definition handle_update_column_width_preview ::
    "column_width_pointer_payload \<Rightarrow> workspace_id option action" where
  "handle_update_column_width_preview payload =
     bindA (gets (\<lambda>s. lay_width_resize_session (layout s))) (\<lambda>r.
     case r of
       None \<Rightarrow> ret None
     | Some session \<Rightarrow>
         bindA (tryA (\<lambda>s. session_metrics s session (cpp_pointer_x payload))) (\<lambda>metrics.
         thenA (modify (set_resize_session (Some (session
           \<lparr>wrs_anchor_x := rm_anchor_x metrics, wrs_current_pointer_x := rm_pointer_x metrics,
            wrs_target_width := rm_target_width metrics,
            wrs_clamped_preview_rect := rm_preview_rect metrics\<rparr>))))
         (ret (Some (wrs_workspace_id session)))))"

definition fix_column_width :: "nat \<Rightarrow> column \<Rightarrow> column" where
  "fix_column_width width col =
     (let c1 = col\<lparr>col_width := Fixed width, col_maximized := NotMaximized\<rparr>
      in if col_mode c1 = MaximizedColumn then c1\<lparr>col_mode := NormalColumn\<rparr> else c1)"

definition handle_commit_column_width :: "column_width_pointer_payload \<Rightarrow> workspace_id option action" where
  "handle_commit_column_width payload =
     bindA (gets (\<lambda>s. lay_width_resize_session (layout s))) (\<lambda>r.
     case r of
       None \<Rightarrow> ret None
     | Some session \<Rightarrow>
         bindA (tryA (\<lambda>s. session_metrics s session (cpp_pointer_x payload))) (\<lambda>metrics.
         bindA (tryA (\<lambda>s. find_column s (wrs_column_id session))) (\<lambda>_.
         thenA (modify (upd_column (wrs_column_id session) (fix_column_width (rm_target_width metrics))))
         (thenA (modify (set_resize_session None))
         (thenA (clamp_scroll_offset (wrs_workspace_id session))
         (thenA (reveal_column_in_workspace (wrs_workspace_id session) (wrs_column_id session))
          (ret (Some (wrs_workspace_id session)))))))))"

definition handle_cancel_column_width_resize :: "workspace_id option action" where
  "handle_cancel_column_width_resize =
     bindA (gets (\<lambda>s. map_option wrs_workspace_id (lay_width_resize_session (layout s)))) (\<lambda>w.
     thenA (modify (set_resize_session None)) (ret w))"

text \<open>The preset widths: a third, a half, two thirds and all of the viewport, within the bounds.\<close>

definition cycle_steps :: "nat \<Rightarrow> nat \<Rightarrow> nat list" where
  "cycle_steps min_width max_width =
     remdups_adj (sort (map (\<lambda>width. max (clamp_in min_width max_width width) 1)
       [max_width div 3, max_width div 2, u32_sat_mul max_width 2 div 3, max_width]))"

definition next_cycled_column_width :: "nat \<Rightarrow> nat \<Rightarrow> nat \<Rightarrow> failure + nat" where
  "next_cycled_column_width current min_width max_width =
     (if max_width < min_width then Inl Panicked
      else let steps = cycle_steps min_width max_width
           in Inr (case find (\<lambda>width. current < width) steps of
                     Some width \<Rightarrow> width | None \<Rightarrow> steps ! 0))"

definition handle_cycle_column_width :: "workspace_id option action" where
  "handle_cycle_column_width =
     bindA (tryA active_tiled_width_target) (\<lambda>(w, i, c).
     bindA (tryA (\<lambda>s. workspace_tiled_viewport s w)) (\<lambda>viewport.
     bindA (tryA (\<lambda>s. column_target_width_bounds s c w)) (\<lambda>(min_width, max_width).
     bindA (tryA (\<lambda>s. find_column s c)) (\<lambda>col.
     bindA (tryA (\<lambda>_. next_cycled_column_width (resolve_column_width col (rect_width viewport))
                        min_width max_width)) (\<lambda>next_width.
     thenA (modify (upd_column c (fix_column_width next_width)))
     (thenA (clamp_scroll_offset w)
     (thenA (reveal_column_in_workspace w c) (ret (Some w)))))))))"

end
