(* ===== verification/Store_Modes.thy ===== *)
theory Store_Modes
  imports Store_Width
begin

text \<open>
  Strip scrolling and the window mode commands
  (\<open>crates/wm-core/src/state_store/window_modes.rs\<close>): floating, tabbed, maximized, fullscreen.
\<close>

definition handle_strip_scroll :: "int \<Rightarrow> strip_scroll_payload \<Rightarrow> workspace_id option action" where
  "handle_strip_scroll direction payload =
     bindA (tryA active_workspace_id_for_commands) (\<lambda>w.
     bindA (gets (\<lambda>s. u32_clip_i32
        (if ssp_step payload = 0 then cfg_strip_scroll_step (config s) else ssp_step payload))) (\<lambda>step.
     thenA (apply_scroll_delta w (i32_sat_mul direction step)) (ret (Some w))))"

definition restore_target_of ::
    "wm_state \<Rightarrow> window_node \<Rightarrow> restore_target" where
  "restore_target_of s win =
     (case win_restore_target win of
        Some target \<Rightarrow> target
      | None \<Rightarrow>
          \<lparr>rt_workspace_id = win_workspace_id win,
           rt_column_id = focused_column_in_workspace s (win_workspace_id win),
           rt_column_index = column_index_in_workspace s (win_workspace_id win) (win_column_id win),
           rt_layer = Tiled\<rparr>)"

definition current_placement :: "wm_state \<Rightarrow> window_node \<Rightarrow> restore_target" where
  "current_placement s win =
     \<lparr>rt_workspace_id = win_workspace_id win, rt_column_id = win_column_id win,
      rt_column_index = column_index_in_workspace s (win_workspace_id win) (win_column_id win),
      rt_layer = win_layer win\<rparr>"

text \<open>Both toggles restore alike, but for the floating flag they leave on the window.\<close>

definition settle_restored ::
    "window_layer \<Rightarrow> column_id option \<Rightarrow> bool \<Rightarrow> window_node \<Rightarrow> window_node" where
  "settle_restored layer c floating win =
     win\<lparr>win_layer := layer, win_column_id := c, win_is_floating := floating,
         win_is_fullscreen := False, win_restore_target := None\<rparr>"

definition settle_raised ::
    "window_layer \<Rightarrow> restore_target \<Rightarrow> window_node \<Rightarrow> window_node" where
  "settle_raised layer target win =
     win\<lparr>win_layer := layer, win_column_id := None, win_is_floating := (layer = Floating),
         win_is_fullscreen := (layer = Fullscreen), win_restore_target := Some target\<rparr>"

definition restore_raised_window ::
    "monitor_id \<Rightarrow> window_id \<Rightarrow> window_node \<Rightarrow> (window_layer \<Rightarrow> bool) \<Rightarrow> unit action" where
  "restore_raised_window m i win floating_flag =
     (let w = win_workspace_id win in
     bindA (gets (\<lambda>s. restore_target_of s win)) (\<lambda>target.
     thenA (detach_window_membership i)
     (bindA (gets config) (\<lambda>cfg.
      bindA (restore_window_to_target i target (cfg_default_column_mode cfg) (cfg_default_column_width cfg)) (\<lambda>c.
      bindA (tryA (\<lambda>s. find_window s i)) (\<lambda>_.
      thenA (modify (upd_window i (settle_restored (rt_layer target) c (floating_flag (rt_layer target)))))
      (thenA (modify (set_focus_to_window m w i c UserCommand))
      (reveal_option w c))))))))"

definition raise_window ::
    "monitor_id \<Rightarrow> window_id \<Rightarrow> window_node \<Rightarrow> window_layer \<Rightarrow> unit action" where
  "raise_window m i win layer =
     (let w = win_workspace_id win in
     bindA (gets (\<lambda>s. current_placement s win)) (\<lambda>target.
     thenA (detach_window_membership i)
     (thenA (push_window_to_floating_layer w i)
     (bindA (tryA (\<lambda>s. find_window s i)) (\<lambda>_.
      thenA (modify (upd_window i (settle_raised layer target)))
      (modify (set_focus_to_window m w i None UserCommand)))))))"

definition handle_toggle_floating :: "window_command_payload \<Rightarrow> workspace_id option action" where
  "handle_toggle_floating payload =
     bindA (tryA (\<lambda>s. command_window_id s (wcp_window_id payload))) (\<lambda>i.
     bindA (tryA (\<lambda>s. find_window s i)) (\<lambda>win.
     let w = win_workspace_id win in
     bindA (tryA (\<lambda>s. workspace_monitor s w)) (\<lambda>m.
     thenA
       (if win_layer win = Floating
        then restore_raised_window m i win (\<lambda>_. False)
        else raise_window m i win Floating)
       (thenA (clamp_scroll_offset w) (ret (Some w))))))"

definition handle_toggle_fullscreen :: "window_command_payload \<Rightarrow> workspace_id option action" where
  "handle_toggle_fullscreen payload =
     bindA (tryA (\<lambda>s. command_window_id s (wcp_window_id payload))) (\<lambda>i.
     bindA (tryA (\<lambda>s. find_window s i)) (\<lambda>win.
     let w = win_workspace_id win in
     bindA (tryA (\<lambda>s. workspace_monitor s w)) (\<lambda>m.
     thenA
       (if win_layer win = Fullscreen
        then restore_raised_window m i win (\<lambda>layer. layer = Floating)
        else raise_window m i win Fullscreen)
       (thenA (clamp_scroll_offset w) (ret (Some w))))))"

definition toggle_tabbed :: "window_id \<Rightarrow> column \<Rightarrow> column" where
  "toggle_tabbed i col =
     (let c1 = (if col_mode col = Tabbed
                then col\<lparr>col_mode := NormalColumn, col_tab_selection := first (col_windows col)\<rparr>
                else col\<lparr>col_mode := Tabbed, col_tab_selection := Some i\<rparr>)
      in c1\<lparr>col_active := Some i\<rparr>)"

definition toggle_maximized :: "column \<Rightarrow> column" where
  "toggle_maximized col =
     col\<lparr>col_maximized := (case col_maximized col of NotMaximized \<Rightarrow> Maximized | Maximized \<Rightarrow> NotMaximized)\<rparr>"

definition handle_column_toggle ::
    "(window_id \<Rightarrow> column \<Rightarrow> column) \<Rightarrow> window_command_payload \<Rightarrow> workspace_id option action" where
  "handle_column_toggle f payload =
     bindA (tryA (\<lambda>s. command_window_id s (wcp_window_id payload))) (\<lambda>i.
     bindA (tryA (\<lambda>s. find_window s i)) (\<lambda>win.
     case win_column_id win of
       None \<Rightarrow> ret (Some (win_workspace_id win))
     | Some c \<Rightarrow>
         bindA (tryA (\<lambda>s. find_column s c)) (\<lambda>_.
         thenA (modify (upd_column c (f i)))
         (thenA (reveal_column_in_workspace (win_workspace_id win) c)
          (ret (Some (win_workspace_id win)))))))"

definition handle_toggle_tabbed :: "window_command_payload \<Rightarrow> workspace_id option action" where
  "handle_toggle_tabbed = handle_column_toggle toggle_tabbed"

definition handle_toggle_maximized :: "window_command_payload \<Rightarrow> workspace_id option action" where
  "handle_toggle_maximized = handle_column_toggle (\<lambda>_. toggle_maximized)"

end
