(* ===== verification/Store_Dispatch.thy ===== *)
theory Store_Dispatch
  imports Store_Modes
begin

text \<open>
  \<open>StateStore::dispatch\<close> (\<open>crates/wm-core/src/state_store.rs\<close>): route an event to its handler,
  bump the state version, recompute the layout of the affected workspace and account for the
  diagnostics. When the handler or the layout fails, the state keeps what was written so far.
\<close>

definition apply_event :: "domain_event \<Rightarrow> workspace_id option action" where
  "apply_event e =
     (case ev_payload e of
        WindowDiscovered p \<Rightarrow> handle_window_discovered p
      | WindowDestroyed p \<Rightarrow> handle_window_destroyed p
      | WindowFocusObserved p \<Rightarrow> handle_window_focus_observed p
      | CmdFocusNext p \<Rightarrow> handle_focus_navigation True p
      | CmdFocusPrev p \<Rightarrow> handle_focus_navigation False p
      | CmdFocusWorkspaceUp p \<Rightarrow> handle_focus_workspace False p
      | CmdFocusWorkspaceDown p \<Rightarrow> handle_focus_workspace True p
      | CmdScrollStripLeft p \<Rightarrow> handle_strip_scroll (-1) p
      | CmdScrollStripRight p \<Rightarrow> handle_strip_scroll 1 p
      | CmdMoveWorkspaceUp p \<Rightarrow> handle_move_workspace_within_monitor False p
      | CmdMoveWorkspaceDown p \<Rightarrow> handle_move_workspace_within_monitor True p
      | CmdMoveWorkspaceToMonitorNext p \<Rightarrow> handle_move_workspace_to_adjacent_monitor True p
      | CmdMoveWorkspaceToMonitorPrevious p \<Rightarrow> handle_move_workspace_to_adjacent_monitor False p
      | CmdMoveColumnToWorkspaceUp p \<Rightarrow> handle_move_column_to_workspace False p
      | CmdMoveColumnToWorkspaceDown p \<Rightarrow> handle_move_column_to_workspace True p
      | CmdMoveColumnToWorkspaceTarget p \<Rightarrow> handle_move_column_to_workspace_target p
      | CmdToggleFloating p \<Rightarrow> handle_toggle_floating p
      | CmdToggleTabbed p \<Rightarrow> handle_toggle_tabbed p
      | CmdToggleMaximized p \<Rightarrow> handle_toggle_maximized p
      | CmdToggleFullscreen p \<Rightarrow> handle_toggle_fullscreen p
      | CmdOpenOverview p \<Rightarrow> handle_open_overview p
      | CmdCloseOverview p \<Rightarrow> handle_close_overview p
      | CmdToggleOverview p \<Rightarrow> handle_toggle_overview p
      | CmdBeginColumnWidthResize p \<Rightarrow> handle_begin_column_width_resize p
      | CmdUpdateColumnWidthPreview p \<Rightarrow> handle_update_column_width_preview p
      | CmdCommitColumnWidth p \<Rightarrow> handle_commit_column_width p
      | CmdCancelColumnWidthResize \<Rightarrow> handle_cancel_column_width_resize
      | CmdCycleColumnWidth \<Rightarrow> handle_cycle_column_width
      | ConfigReloadRequested _ \<Rightarrow> ret None
      | ConfigReloadSucceeded p \<Rightarrow> handle_config_reload_succeeded p
      | ConfigReloadFailed _ \<Rightarrow> ret None
      | RulesUpdated p \<Rightarrow> handle_rules_updated p
      | ReconcileRequested \<Rightarrow> ret None
      | FullScanRequested \<Rightarrow> ret None)"

definition record_transition :: "string \<Rightarrow> nat \<Rightarrow> nat \<Rightarrow> wm_state \<Rightarrow> wm_state" where
  "record_transition label count version s =
     s\<lparr>diagnostics := (diagnostics s)\<lparr>
         diag_total_records := diag_total_records (diagnostics s) + count,
         diag_last_label := Some label, diag_last_state_version := version\<rparr>\<rparr>"

definition layout_diagnostics ::
    "nat \<Rightarrow> correlation_id \<Rightarrow> workspace_id option \<Rightarrow> workspace_projection option \<Rightarrow> diagnostic_record list" where
  "layout_diagnostics version correlation affected projection =
     (case (affected, projection) of
        (Some w, Some p) \<Rightarrow> [layout_recomputed version correlation w (length (proj_window_geometries p))]
      | _ \<Rightarrow> [])"

definition dispatch :: "domain_event \<Rightarrow> transition_result action" where
  "dispatch e =
     bindA (apply_event e) (\<lambda>affected.
     bindA (stateA bump_state_version) (\<lambda>version.
     bindA (case affected of
              None \<Rightarrow> ret None
            | Some w \<Rightarrow> bindA (tryA (\<lambda>s. layout_of s w)) (\<lambda>p. ret (Some p))) (\<lambda>projection.
     let label = event_name_as_str (ev_id e);
         diags = transition_applied version (ev_correlation_id e) label
                 # layout_diagnostics version (ev_correlation_id e) affected projection
     in thenA (modify (record_transition label (length diags) version))
        (ret \<lparr>tr_state_version = version, tr_affected_workspace_id = affected,
              tr_layout_projection = projection, tr_diagnostics = diags\<rparr>))))"

text \<open>A caller that goes on after an error sees the state the failed dispatch left behind.\<close>

definition dispatch_state :: "wm_state \<Rightarrow> domain_event \<Rightarrow> wm_state" where
  "dispatch_state s e = snd (dispatch e s)"

definition run_events :: "wm_state \<Rightarrow> domain_event list \<Rightarrow> wm_state" where
  "run_events = foldl dispatch_state"

end
