(* ===== verification/Store_Views.thy ===== *)
theory Store_Views
  imports Store_Dispatch
begin

text \<open>
  The views of the state that its well-formedness is stated over: who is where, and nothing
  else. Each view is a function of one table; the lemmas say which writer of the reducer
  changes which view, so that scroll offsets, remembered focus, widths, flags and rectangles
  drop out of every later proof.
\<close>

named_theorems view_simps "effect of the writers on the views"

section \<open>Views\<close>

definition monitor_view :: "wm_state \<Rightarrow> monitor_id \<Rightarrow> workspace_set_id option" where
  "monitor_view s m = map_option mon_workspace_set_id (get_monitor s m)"

definition set_view :: "wm_state \<Rightarrow> workspace_set_id \<Rightarrow> (monitor_id \<times> workspace_id list \<times> workspace_id) option" where
  "set_view s i = map_option (\<lambda>x. (wset_monitor_id x, wset_ordered x, wset_active x)) (get_set s i)"

definition active_view :: "wm_state \<Rightarrow> monitor_id \<Rightarrow> workspace_id option" where
  "active_view s = bm_get (focus_active_workspaces (focus s))"

definition home_view :: "wm_state \<Rightarrow> workspace_id \<Rightarrow> monitor_id option" where
  "home_view s w = map_option wsp_monitor_id (get_workspace s w)"

definition strip_view :: "wm_state \<Rightarrow> workspace_id \<Rightarrow> column_id list option" where
  "strip_view s w = map_option (\<lambda>ws. strip_columns (wsp_strip ws)) (get_workspace s w)"

definition float_view :: "wm_state \<Rightarrow> workspace_id \<Rightarrow> window_id list option" where
  "float_view s w = map_option (\<lambda>ws. fl_windows (wsp_floating ws)) (get_workspace s w)"

definition column_view ::
    "wm_state \<Rightarrow> column_id \<Rightarrow> (window_id list \<times> window_id option \<times> window_id option) option" where
  "column_view s c = map_option (\<lambda>col. (col_windows col, col_active col, col_tab_selection col)) (get_column s c)"

text \<open>Workspace, column and management flag of a window.\<close>

definition window_view :: "wm_state \<Rightarrow> window_id \<Rightarrow> (workspace_id \<times> column_id option \<times> bool) option" where
  "window_view s i = map_option (\<lambda>win. (win_workspace_id win, win_column_id win, win_is_managed win)) (get_window s i)"

text \<open>A window with a place to return to is raised out of its column and stays on its workspace.\<close>

definition restore_view :: "wm_state \<Rightarrow> window_id \<Rightarrow> bool" where
  "restore_view s i =
     (case get_window s i of
        None \<Rightarrow> True
      | Some win \<Rightarrow> (case win_restore_target win of
            None \<Rightarrow> True
          | Some target \<Rightarrow> rt_workspace_id target = win_workspace_id win \<and> win_column_id win = None))"

definition focus_view :: "wm_state \<Rightarrow> monitor_id option \<times> window_id option \<times> column_id option" where
  "focus_view s = (focus_monitor (focus s), focus_window (focus s), focus_column (focus s))"

text \<open>Identifiers in use stay below the counters.\<close>

definition counters_ok :: "wm_state \<Rightarrow> bool" where
  "counters_ok s \<longleftrightarrow>
     (\<forall>w. bm_has (workspaces s) w \<longrightarrow> raw_workspace_id w < rs_next_workspace_id (runtime s)) \<and>
     (\<forall>c. bm_has (lay_columns (layout s)) c \<longrightarrow> raw_column_id c < rs_next_column_id (runtime s)) \<and>
     (\<forall>i. bm_has (windows s) i \<longrightarrow> raw_window_id i < rs_next_window_id (runtime s)) \<and>
     (\<forall>m. bm_has (monitors s) m \<longrightarrow> raw_monitor_id m < rs_next_monitor_id (runtime s)) \<and>
     (\<forall>i. bm_has (workspace_sets s) i \<longrightarrow> raw_workspace_set_id i < rs_next_workspace_set_id (runtime s))"

text \<open>
  Tables are sorted by key and every entry knows its own key. No operation names a workspace,
  and scroll offsets are never negative.
\<close>

definition workspace_entry_ok :: "workspace_id \<Rightarrow> workspace \<Rightarrow> bool" where
  "workspace_entry_ok w ws \<longleftrightarrow>
     wsp_id ws = w \<and> wsp_name ws = None \<and>
     0 \<le> strip_scroll_offset (wsp_strip ws) \<and> strip_scroll_offset (wsp_strip ws) \<le> i32_max"

definition tables_ok :: "wm_state \<Rightarrow> bool" where
  "tables_ok s \<longleftrightarrow>
     bm_ok (monitors s) \<and> bm_ok (workspace_sets s) \<and> bm_ok (workspaces s) \<and> bm_ok (windows s) \<and>
     bm_ok (lay_columns (layout s)) \<and>
     (\<forall>w ws. get_workspace s w = Some ws \<longrightarrow> workspace_entry_ok w ws) \<and>
     (\<forall>i win. get_window s i = Some win \<longrightarrow> win_id win = i)"

lemmas view_defs = monitor_view_def set_view_def active_view_def home_view_def strip_view_def
  float_view_def column_view_def window_view_def restore_view_def focus_view_def

section \<open>Views that a writer leaves alone\<close>

lemma views_upd_focus [view_simps, simp]:
  "monitor_view (upd_focus f s) = monitor_view s" "set_view (upd_focus f s) = set_view s"
  "home_view (upd_focus f s) = home_view s" "strip_view (upd_focus f s) = strip_view s"
  "float_view (upd_focus f s) = float_view s" "column_view (upd_focus f s) = column_view s"
  "window_view (upd_focus f s) = window_view s" "restore_view (upd_focus f s) = restore_view s"
  "counters_ok (upd_focus f s) = counters_ok s" "tables_ok (upd_focus f s) = tables_ok s"
  by (simp_all add: fun_eq_iff view_defs upd_focus_def counters_ok_def tables_ok_def)

lemma focus_view_upd_focus [view_simps]:
  "focus_view (upd_focus f s) =
     (focus_monitor (f (focus s)), focus_window (f (focus s)), focus_column (f (focus s)))"
  "active_view (upd_focus f s) = bm_get (focus_active_workspaces (f (focus s)))"
  by (simp_all add: view_defs upd_focus_def)

lemma views_upd_set [view_simps, simp]:
  "monitor_view (upd_set i f s) = monitor_view s" "active_view (upd_set i f s) = active_view s"
  "home_view (upd_set i f s) = home_view s" "strip_view (upd_set i f s) = strip_view s"
  "float_view (upd_set i f s) = float_view s" "column_view (upd_set i f s) = column_view s"
  "window_view (upd_set i f s) = window_view s" "restore_view (upd_set i f s) = restore_view s"
  "focus_view (upd_set i f s) = focus_view s"
  "counters_ok (upd_set i f s) = counters_ok s" "tables_ok (upd_set i f s) = tables_ok s"
  by (simp_all add: fun_eq_iff view_defs upd_set_def counters_ok_def tables_ok_def)

lemma set_view_upd_set [view_simps]:
  "set_view (upd_set i f s) =
     (set_view s)(i := map_option (\<lambda>x. (wset_monitor_id (f x), wset_ordered (f x), wset_active (f x))) (get_set s i))"
  by (simp add: fun_eq_iff view_defs upd_set_def option.map_comp o_def)

lemma views_upd_window [view_simps, simp]:
  "monitor_view (upd_window i f s) = monitor_view s" "set_view (upd_window i f s) = set_view s"
  "active_view (upd_window i f s) = active_view s" "focus_view (upd_window i f s) = focus_view s"
  "home_view (upd_window i f s) = home_view s" "strip_view (upd_window i f s) = strip_view s"
  "float_view (upd_window i f s) = float_view s" "column_view (upd_window i f s) = column_view s"
  "counters_ok (upd_window i f s) = counters_ok s"
  by (simp_all add: fun_eq_iff view_defs upd_window_def counters_ok_def)

lemma views_upd_column [view_simps, simp]:
  "monitor_view (upd_column c f s) = monitor_view s" "set_view (upd_column c f s) = set_view s"
  "active_view (upd_column c f s) = active_view s" "focus_view (upd_column c f s) = focus_view s"
  "home_view (upd_column c f s) = home_view s" "strip_view (upd_column c f s) = strip_view s"
  "float_view (upd_column c f s) = float_view s" "window_view (upd_column c f s) = window_view s"
  "restore_view (upd_column c f s) = restore_view s"
  "counters_ok (upd_column c f s) = counters_ok s" "tables_ok (upd_column c f s) = tables_ok s"
  by (simp_all add: fun_eq_iff view_defs upd_column_def counters_ok_def tables_ok_def)

lemma views_upd_workspace [view_simps, simp]:
  "monitor_view (upd_workspace w f s) = monitor_view s" "set_view (upd_workspace w f s) = set_view s"
  "active_view (upd_workspace w f s) = active_view s" "focus_view (upd_workspace w f s) = focus_view s"
  "column_view (upd_workspace w f s) = column_view s" "window_view (upd_workspace w f s) = window_view s"
  "restore_view (upd_workspace w f s) = restore_view s"
  "counters_ok (upd_workspace w f s) = counters_ok s"
  by (simp_all add: fun_eq_iff view_defs upd_workspace_def counters_ok_def)

lemma views_del_workspace [view_simps, simp]:
  "monitor_view (del_workspace w s) = monitor_view s" "set_view (del_workspace w s) = set_view s"
  "active_view (del_workspace w s) = active_view s" "focus_view (del_workspace w s) = focus_view s"
  "column_view (del_workspace w s) = column_view s" "window_view (del_workspace w s) = window_view s"
  "restore_view (del_workspace w s) = restore_view s"
  by (simp_all add: fun_eq_iff view_defs del_workspace_def)

lemma views_put_workspace [view_simps, simp]:
  "monitor_view (put_workspace x s) = monitor_view s" "set_view (put_workspace x s) = set_view s"
  "active_view (put_workspace x s) = active_view s" "focus_view (put_workspace x s) = focus_view s"
  "column_view (put_workspace x s) = column_view s" "window_view (put_workspace x s) = window_view s"
  "restore_view (put_workspace x s) = restore_view s"
  by (simp_all add: fun_eq_iff view_defs put_workspace_def)

section \<open>Views that a writer changes\<close>

lemma home_view_changes [view_simps]:
  "home_view (upd_workspace w f s) = (home_view s)(w := map_option (\<lambda>x. wsp_monitor_id (f x)) (get_workspace s w))"
  "home_view (del_workspace w s) = (home_view s)(w := None)"
  "home_view (put_workspace x s) = (home_view s)(wsp_id x := Some (wsp_monitor_id x))"
  by (simp_all add: fun_eq_iff view_defs state_writer_defs option.map_comp o_def)

lemma strip_view_changes [view_simps]:
  "strip_view (upd_workspace w f s) =
     (strip_view s)(w := map_option (\<lambda>x. strip_columns (wsp_strip (f x))) (get_workspace s w))"
  "strip_view (del_workspace w s) = (strip_view s)(w := None)"
  "strip_view (put_workspace x s) = (strip_view s)(wsp_id x := Some (strip_columns (wsp_strip x)))"
  by (simp_all add: fun_eq_iff view_defs state_writer_defs option.map_comp o_def)

lemma float_view_changes [view_simps]:
  "float_view (upd_workspace w f s) =
     (float_view s)(w := map_option (\<lambda>x. fl_windows (wsp_floating (f x))) (get_workspace s w))"
  "float_view (del_workspace w s) = (float_view s)(w := None)"
  "float_view (put_workspace x s) = (float_view s)(wsp_id x := Some (fl_windows (wsp_floating x)))"
  by (simp_all add: fun_eq_iff view_defs state_writer_defs option.map_comp o_def)

lemma column_view_changes [view_simps]:
  "column_view (upd_column c f s) =
     (column_view s)(c := map_option (\<lambda>x. (col_windows (f x), col_active (f x), col_tab_selection (f x))) (get_column s c))"
  "column_view (del_column c s) = (column_view s)(c := None)"
  by (simp_all add: fun_eq_iff view_defs state_writer_defs del_column_def option.map_comp o_def)

lemma window_view_changes [view_simps]:
  "window_view (upd_window i f s) =
     (window_view s)(i := map_option (\<lambda>x. (win_workspace_id (f x), win_column_id (f x), win_is_managed (f x))) (get_window s i))"
  "window_view (del_window i s) = (window_view s)(i := None)"
  "window_view (put_window win s) =
     (window_view s)(win_id win := Some (win_workspace_id win, win_column_id win, win_is_managed win))"
  by (simp_all add: fun_eq_iff view_defs state_writer_defs del_window_def put_window_def option.map_comp o_def)

text \<open>A write through \<open>get_mut\<close> that keeps a field keeps its view.\<close>

lemma view_upd_same [view_simps]:
  "(\<And>x. wsp_monitor_id (f x) = wsp_monitor_id x) \<Longrightarrow> home_view (upd_workspace w f s) = home_view s"
  "(\<And>x. strip_columns (wsp_strip (f x)) = strip_columns (wsp_strip x)) \<Longrightarrow>
     strip_view (upd_workspace w f s) = strip_view s"
  "(\<And>x. fl_windows (wsp_floating (f x)) = fl_windows (wsp_floating x)) \<Longrightarrow>
     float_view (upd_workspace w f s) = float_view s"
  by (auto simp: fun_eq_iff home_view_def strip_view_def float_view_def upd_workspace_def
      option.map_comp o_def split: if_splits)

lemma tables_ok_upd_workspace:
  assumes "tables_ok s" "\<And>ws. get_workspace s w = Some ws \<Longrightarrow> workspace_entry_ok w ws \<Longrightarrow> workspace_entry_ok w (f ws)"
  shows "tables_ok (upd_workspace w f s)"
  using assms by (auto simp: tables_ok_def upd_workspace_def split: if_splits)

lemma view_column_same [view_simps]:
  "(\<And>x. (col_windows (g x), col_active (g x), col_tab_selection (g x)) =
          (col_windows x, col_active x, col_tab_selection x)) \<Longrightarrow>
     column_view (upd_column c g s) = column_view s"
  by (auto simp: fun_eq_iff column_view_def upd_column_def option.map_comp o_def)

lemma views_del_column [view_simps, simp]:
  "monitor_view (del_column c s) = monitor_view s" "set_view (del_column c s) = set_view s"
  "active_view (del_column c s) = active_view s" "focus_view (del_column c s) = focus_view s"
  "home_view (del_column c s) = home_view s" "strip_view (del_column c s) = strip_view s"
  "float_view (del_column c s) = float_view s" "window_view (del_column c s) = window_view s"
  "restore_view (del_column c s) = restore_view s"
  by (simp_all add: fun_eq_iff view_defs del_column_def)

lemma views_windows [view_simps, simp]:
  "monitor_view (del_window i s) = monitor_view s" "set_view (del_window i s) = set_view s"
  "active_view (del_window i s) = active_view s" "focus_view (del_window i s) = focus_view s"
  "home_view (del_window i s) = home_view s" "strip_view (del_window i s) = strip_view s"
  "float_view (del_window i s) = float_view s" "column_view (del_window i s) = column_view s"
  "monitor_view (put_window x s) = monitor_view s" "set_view (put_window x s) = set_view s"
  "active_view (put_window x s) = active_view s" "focus_view (put_window x s) = focus_view s"
  "home_view (put_window x s) = home_view s" "strip_view (put_window x s) = strip_view s"
  "float_view (put_window x s) = float_view s" "column_view (put_window x s) = column_view s"
  by (simp_all add: fun_eq_iff view_defs del_window_def put_window_def)

section \<open>Scroll offsets change no view\<close>

lemma views_scroll [view_simps, simp]:
  "home_view (set_scroll_offset w x s) = home_view s"
  "strip_view (set_scroll_offset w x s) = strip_view s"
  "float_view (set_scroll_offset w x s) = float_view s"
  "monitor_view (set_scroll_offset w x s) = monitor_view s" "set_view (set_scroll_offset w x s) = set_view s"
  "active_view (set_scroll_offset w x s) = active_view s" "focus_view (set_scroll_offset w x s) = focus_view s"
  "column_view (set_scroll_offset w x s) = column_view s" "window_view (set_scroll_offset w x s) = window_view s"
  "restore_view (set_scroll_offset w x s) = restore_view s"
  "counters_ok (set_scroll_offset w x s) = counters_ok s"
  by (simp_all add: set_scroll_offset_def view_upd_same)

text \<open>What the scrolling actions leave behind: the state as it was, or one scroll offset rewritten.\<close>

definition scrolled :: "wm_state \<Rightarrow> wm_state \<Rightarrow> bool" where
  "scrolled s t \<longleftrightarrow> t = s \<or> (\<exists>w x. 0 \<le> x \<and> x \<le> i32_max \<and> t = set_scroll_offset w x s)"

lemma scrolled_refl [simp]: "scrolled s s"
  by (simp add: scrolled_def)

lemma scrolled_set: "0 \<le> x \<Longrightarrow> x \<le> i32_max \<Longrightarrow> scrolled s (set_scroll_offset w x s)"
  by (auto simp: scrolled_def)

lemma sat_add_clip_range:
  "0 \<le> a \<Longrightarrow> 0 \<le> i32_sat_add a (u32_clip_i32 k) \<and> i32_sat_add a (u32_clip_i32 k) \<le> i32_max"
  using u32_clip_i32_range [of k]
  by (auto simp: i32_sat_add_def sat_i32_def i32_min_def i32_max_def)

lemma workspace_content_width_range:
  assumes "workspace_content_width s w = Inr n"
  shows "0 \<le> n \<and> n \<le> i32_max"
proof -
  obtain ws :: workspace and viewport :: rect where fold:
    "fold_res (\<lambda>(index, c) acc. bindE (find_column s c) (\<lambda>col.
         let acc1 = i32_sat_add acc (u32_clip_i32 (resolve_column_width col (rect_width viewport)))
         in Inr (if 0 < index
                 then i32_sat_add acc1 (u32_clip_i32 (sp_column_gap (cfg_layout_spacing (config s))))
                 else acc1)))
       (List.enumerate 0 (strip_columns (wsp_strip ws))) 0 = Inr n"
    using assms unfolding workspace_content_width_def bindE_Inr_iff by (elim exE conjE) (rule that)
  show ?thesis
  proof (rule fold_res_invariant [OF fold, where P = "\<lambda>a. 0 \<le> a \<and> a \<le> i32_max"])
    fix p a b
    assume a: "0 \<le> a \<and> a \<le> i32_max"
      and step: "(case p of (index, c) \<Rightarrow> \<lambda>acc. bindE (find_column s c) (\<lambda>col.
         let acc1 = i32_sat_add acc (u32_clip_i32 (resolve_column_width col (rect_width viewport)))
         in Inr (if 0 < index
                 then i32_sat_add acc1 (u32_clip_i32 (sp_column_gap (cfg_layout_spacing (config s))))
                 else acc1))) a = Inr b"
    then show "0 \<le> b \<and> b \<le> i32_max"
      using sat_add_clip_range by (auto simp: bindE_Inr_iff Let_def split: prod.splits if_splits)
  qed (simp add: i32_max_def)
qed

lemma max_scroll_offset_range:
  assumes "max_scroll_offset s w = Inr n"
  shows "0 \<le> n \<and> n \<le> i32_max"
proof -
  obtain viewport :: rect and content where
    "workspace_tiled_viewport s w = Inr viewport" "workspace_content_width s w = Inr content"
    "n = max (content - u32_clip_i32 (rect_width viewport)) 0"
    using assms unfolding max_scroll_offset_def bindE_Inr_iff by auto
  then show ?thesis
    using workspace_content_width_range [of s w content] u32_clip_i32_range [of "rect_width viewport"]
    by linarith
qed

lemma clamp_scroll_range:
  assumes "max_scroll_offset s w = Inr n"
  shows "0 \<le> clamp_in 0 n x \<and> clamp_in 0 n x \<le> i32_max"
  using max_scroll_offset_range [OF assms] clamp_in_range [of 0 n x] by linarith

lemma apply_scroll_delta_scrolled: "scrolled s (snd (apply_scroll_delta w d s))"
  by (auto simp: apply_scroll_delta_def act_defs split: sum.splits intro!: scrolled_set dest: clamp_scroll_range)

lemma clamp_scroll_offset_scrolled: "scrolled s (snd (clamp_scroll_offset w s))"
  by (auto simp: clamp_scroll_offset_def act_defs split: sum.splits intro!: scrolled_set dest: clamp_scroll_range)

lemma reveal_column_scrolled: "scrolled s (snd (reveal_column_in_workspace w c s))"
proof -
  have leaf: "wp (apply_scroll_delta w d) (\<lambda>_ t. scrolled s t) (\<lambda>_ t. scrolled s t) s" for d
    by (simp add: wp_snd apply_scroll_delta_scrolled)
  have "wp (reveal_column_in_workspace w c) (\<lambda>_ t. scrolled s t) (\<lambda>_ t. scrolled s t) s"
    unfolding reveal_column_in_workspace_def
    by (simp add: wp_simps leaf Let_def split: sum.splits option.splits)
  then show ?thesis by (simp add: wp_snd)
qed

lemma reveal_option_scrolled: "scrolled s (snd (reveal_option w c s))"
  by (cases c) (simp_all add: reveal_option_def ret_def reveal_column_scrolled)

lemma tables_ok_scroll:
  "tables_ok s \<Longrightarrow> 0 \<le> x \<Longrightarrow> x \<le> i32_max \<Longrightarrow> tables_ok (set_scroll_offset w x s)"
  unfolding set_scroll_offset_def
  by (rule tables_ok_upd_workspace) (auto simp: workspace_entry_ok_def)

lemma scrolled_windows [simp]: "scrolled s t \<Longrightarrow> windows t = windows s"
  by (auto simp: scrolled_def set_scroll_offset_def upd_workspace_def)

end
