(* ===== verification/Membership.thy ===== *)
theory Membership
  imports Domain_Ids
begin

text \<open>
  Who is where, over four finite views of the state: the columns of each workspace's strip, the
  floating windows of each workspace, the windows and selections of each column, and the
  placement recorded in each window. \<open>mem_ok\<close> says that they agree; one lemma per way of moving
  a window or a column says that the move keeps them in agreement. Windows in flight, taken out
  of their place and not yet put into a new one, are the last argument.
\<close>

type_synonym strip_map = "workspace_id \<Rightarrow> column_id list option"
type_synonym float_map = "workspace_id \<Rightarrow> window_id list option"
type_synonym column_map = "column_id \<Rightarrow> (window_id list \<times> window_id option \<times> window_id option) option"
type_synonym window_map = "window_id \<Rightarrow> (workspace_id \<times> column_id option \<times> bool) option"

section \<open>The invariant\<close>

definition located :: "window_map \<Rightarrow> window_id \<Rightarrow> workspace_id \<Rightarrow> column_id option \<Rightarrow> bool" where
  "located N i w c \<longleftrightarrow> (\<exists>mg. N i = Some (w, c, mg))"

definition column_has :: "column_map \<Rightarrow> column_id \<Rightarrow> window_id \<Rightarrow> bool" where
  "column_has C c i \<longleftrightarrow> (\<exists>ids a t. C c = Some (ids, a, t) \<and> i \<in> set ids)"

definition floats :: "float_map \<Rightarrow> workspace_id \<Rightarrow> window_id \<Rightarrow> bool" where
  "floats F w i \<longleftrightarrow> (\<exists>ids. F w = Some ids \<and> i \<in> set ids)"

definition in_strip :: "strip_map \<Rightarrow> workspace_id \<Rightarrow> column_id \<Rightarrow> bool" where
  "in_strip S w c \<longleftrightarrow> (\<exists>cs. S w = Some cs \<and> c \<in> set cs)"

text \<open>Every strip lists existing columns once, and their windows know workspace and column.\<close>

definition strips_ok :: "strip_map \<Rightarrow> column_map \<Rightarrow> window_map \<Rightarrow> bool" where
  "strips_ok S C N \<longleftrightarrow>
     (\<forall>w cs. S w = Some cs \<longrightarrow> distinct cs) \<and>
     (\<forall>w c. in_strip S w c \<longrightarrow> C c \<noteq> None \<and> (\<forall>i. column_has C c i \<longrightarrow> located N i w (Some c)))"

text \<open>Every column holds windows, each once, selects one of its own and is on some strip.\<close>

definition columns_ok :: "strip_map \<Rightarrow> column_map \<Rightarrow> bool" where
  "columns_ok S C \<longleftrightarrow>
     (\<forall>c ids a t. C c = Some (ids, a, t) \<longrightarrow>
        ids \<noteq> [] \<and> distinct ids \<and> set_option a \<subseteq> set ids \<and> set_option t \<subseteq> set ids \<and>
        (\<exists>w. in_strip S w c))"

definition floats_ok :: "float_map \<Rightarrow> window_map \<Rightarrow> bool" where
  "floats_ok F N \<longleftrightarrow>
     (\<forall>w ids. F w = Some ids \<longrightarrow> distinct ids) \<and>
     (\<forall>w i. floats F w i \<longrightarrow> located N i w None)"

text \<open>Every window is where it says it is, unless it is in flight.\<close>

definition windows_ok :: "float_map \<Rightarrow> column_map \<Rightarrow> window_map \<Rightarrow> window_id set \<Rightarrow> bool" where
  "windows_ok F C N X \<longleftrightarrow>
     (\<forall>i w c. located N i w (Some c) \<and> i \<notin> X \<longrightarrow> column_has C c i) \<and>
     (\<forall>i w. N i = Some (w, None, True) \<and> i \<notin> X \<longrightarrow> floats F w i) \<and>
     (\<forall>i \<in> X. (\<forall>c. \<not> column_has C c i) \<and> (\<forall>w. \<not> floats F w i))"

definition mem_ok :: "strip_map \<Rightarrow> float_map \<Rightarrow> column_map \<Rightarrow> window_map \<Rightarrow> window_id set \<Rightarrow> bool" where
  "mem_ok S F C N X \<longleftrightarrow> strips_ok S C N \<and> columns_ok S C \<and> floats_ok F N \<and> windows_ok F C N X"

lemmas mem_defs = mem_ok_def strips_ok_def columns_ok_def floats_ok_def windows_ok_def
  located_def column_has_def floats_def in_strip_def

lemma mem_ok_empty: "mem_ok (\<lambda>_. None) (\<lambda>_. None) (\<lambda>_. None) (\<lambda>_. None) {}"
  by (simp add: mem_defs)

section \<open>Reading the invariant\<close>

lemma located_unique: "located N i w c \<Longrightarrow> located N i w' c' \<Longrightarrow> w = w' \<and> c = c'"
  by (auto simp: located_def)

lemma mem_column_located:
  assumes "mem_ok S F C N X" "in_strip S w c" "column_has C c i"
  shows "located N i w (Some c)"
  using assms unfolding mem_ok_def strips_ok_def by blast

lemma mem_strip_column:
  assumes "mem_ok S F C N X" "in_strip S w c"
  obtains ids a t where "C c = Some (ids, a, t)"
  using assms unfolding mem_ok_def strips_ok_def by (metis option.exhaust prod_cases3)

lemma mem_column:
  assumes "mem_ok S F C N X" "C c = Some (ids, a, t)"
  shows "ids \<noteq> [] \<and> distinct ids \<and> set_option a \<subseteq> set ids \<and> set_option t \<subseteq> set ids \<and> (\<exists>w. in_strip S w c)"
  using assms unfolding mem_ok_def columns_ok_def by metis

lemma mem_float_located:
  assumes "mem_ok S F C N X" "floats F w i"
  shows "located N i w None"
  using assms unfolding mem_ok_def floats_ok_def by blast

lemma mem_window_column:
  assumes "mem_ok S F C N X" "located N i w (Some c)" "i \<notin> X"
  shows "column_has C c i"
  using assms unfolding mem_ok_def windows_ok_def by blast

lemma mem_window_in_strip:
  assumes ok: "mem_ok S F C N X" and at: "located N i w (Some c)" and X: "i \<notin> X"
  shows "in_strip S w c"
proof -
  obtain ids a t where ids: "C c = Some (ids, a, t)" "i \<in> set ids"
    using mem_window_column [OF ok at X] by (auto simp: column_has_def)
  obtain w' where w': "in_strip S w' c" using mem_column [OF ok ids(1)] by blast
  have "located N i w' (Some c)"
    using mem_column_located [OF ok w'] ids by (auto simp: column_has_def)
  then have "w' = w" using at by (auto simp: located_def)
  with w' show ?thesis by simp
qed

lemma mem_strip_unique:
  assumes ok: "mem_ok S F C N X" and "in_strip S w c" "in_strip S w' c"
  shows "w = w'"
proof -
  obtain ids a t where ids: "C c = Some (ids, a, t)" by (rule mem_strip_column [OF assms(1,2)])
  then obtain i where "column_has C c i"
    using mem_column [OF ok ids] by (cases ids) (auto simp: column_has_def)
  from mem_column_located [OF ok assms(2) this] mem_column_located [OF ok assms(3) this]
  show ?thesis by (blast dest: located_unique)
qed

lemma mem_column_unique:
  assumes ok: "mem_ok S F C N X" and "column_has C c i" "column_has C c' i"
  shows "c = c'"
proof -
  have at: "\<exists>w. located N i w (Some d)" if "column_has C d i" for d
    using that ok mem_column [OF ok] mem_column_located [OF ok]
    by (metis column_has_def)
  from at [OF assms(2)] at [OF assms(3)] show ?thesis by (blast dest: located_unique)
qed

text \<open>A window in flight or unknown is nowhere.\<close>

lemma mem_nowhere:
  assumes ok: "mem_ok S F C N X" and i: "i \<in> X \<or> N i = None"
  shows "\<not> column_has C c i \<and> \<not> floats F w i"
proof -
  have "\<exists>w. located N i w (Some c)" if "column_has C c i"
    using that ok mem_column [OF ok] mem_column_located [OF ok] by (metis column_has_def)
  moreover have "located N i w None" if "floats F w i" using mem_float_located [OF ok that] .
  moreover have "\<not> column_has C c i \<and> \<not> floats F w i" if "i \<in> X"
    using that ok by (simp add: mem_ok_def windows_ok_def)
  ultimately show ?thesis using i by (auto simp: located_def)
qed

section \<open>Updates\<close>

lemma column_has_upd [simp]:
  "column_has (C(c := Some (ids, a, t))) d i \<longleftrightarrow> (if d = c then i \<in> set ids else column_has C d i)"
  "column_has (C(c := None)) d i \<longleftrightarrow> d \<noteq> c \<and> column_has C d i"
  by (auto simp: column_has_def)

lemma in_strip_upd [simp]:
  "in_strip (S(w := Some cs)) v c \<longleftrightarrow> (if v = w then c \<in> set cs else in_strip S v c)"
  "in_strip (S(w := None)) v c \<longleftrightarrow> v \<noteq> w \<and> in_strip S v c"
  by (auto simp: in_strip_def)

lemma floats_upd [simp]:
  "floats (F(w := Some ids)) v i \<longleftrightarrow> (if v = w then i \<in> set ids else floats F v i)"
  "floats (F(w := None)) v i \<longleftrightarrow> v \<noteq> w \<and> floats F v i"
  by (auto simp: floats_def)

lemma located_upd [simp]:
  "located (N(i := Some (w, c, mg))) j v d \<longleftrightarrow> (if j = i then v = w \<and> d = c else located N j v d)"
  "located (N(i := None)) j v d \<longleftrightarrow> j \<noteq> i \<and> located N j v d"
  by (auto simp: located_def)

lemma column_hasI: "C c = Some (ids, a, t) \<Longrightarrow> column_has C c i \<longleftrightarrow> i \<in> set ids"
  by (simp add: column_has_def)

lemma in_stripI: "S w = Some cs \<Longrightarrow> in_strip S w c \<longleftrightarrow> c \<in> set cs"
  by (simp add: in_strip_def)

lemma floatsI: "F w = Some ids \<Longrightarrow> floats F w i \<longleftrightarrow> i \<in> set ids"
  by (simp add: floats_def)

text \<open>The parts of the invariant, one fact each, to discharge a goal \<open>mem_ok\<close> piecewise.\<close>

lemma mem_okI:
  assumes "\<And>w cs. S w = Some cs \<Longrightarrow> distinct cs"
    and "\<And>w c. in_strip S w c \<Longrightarrow> C c \<noteq> None"
    and "\<And>w c i. in_strip S w c \<Longrightarrow> column_has C c i \<Longrightarrow> located N i w (Some c)"
    and "\<And>c ids a t. C c = Some (ids, a, t) \<Longrightarrow>
       ids \<noteq> [] \<and> distinct ids \<and> set_option a \<subseteq> set ids \<and> set_option t \<subseteq> set ids"
    and "\<And>c ids a t. C c = Some (ids, a, t) \<Longrightarrow> \<exists>w. in_strip S w c"
    and "\<And>w ids. F w = Some ids \<Longrightarrow> distinct ids"
    and "\<And>w i. floats F w i \<Longrightarrow> located N i w None"
    and "\<And>i w c. located N i w (Some c) \<Longrightarrow> i \<notin> X \<Longrightarrow> column_has C c i"
    and "\<And>i w. N i = Some (w, None, True) \<Longrightarrow> i \<notin> X \<Longrightarrow> floats F w i"
    and "\<And>i c. i \<in> X \<Longrightarrow> \<not> column_has C c i"
    and "\<And>i w. i \<in> X \<Longrightarrow> \<not> floats F w i"
  shows "mem_ok S F C N X"
  unfolding mem_ok_def strips_ok_def columns_ok_def floats_ok_def windows_ok_def
  by (intro conjI allI impI ballI; (elim conjE)?; use assms in metis)

lemma mem_okD:
  assumes "mem_ok S F C N X"
  shows "\<And>w cs. S w = Some cs \<Longrightarrow> distinct cs"
    and "\<And>w c. in_strip S w c \<Longrightarrow> C c \<noteq> None"
    and "\<And>w c i. in_strip S w c \<Longrightarrow> column_has C c i \<Longrightarrow> located N i w (Some c)"
    and "\<And>c ids a t. C c = Some (ids, a, t) \<Longrightarrow>
       ids \<noteq> [] \<and> distinct ids \<and> set_option a \<subseteq> set ids \<and> set_option t \<subseteq> set ids"
    and "\<And>c ids a t. C c = Some (ids, a, t) \<Longrightarrow> \<exists>w. in_strip S w c"
    and "\<And>w ids. F w = Some ids \<Longrightarrow> distinct ids"
    and "\<And>w i. floats F w i \<Longrightarrow> located N i w None"
    and "\<And>i w c. located N i w (Some c) \<Longrightarrow> i \<notin> X \<Longrightarrow> column_has C c i"
    and "\<And>i w. N i = Some (w, None, True) \<Longrightarrow> i \<notin> X \<Longrightarrow> floats F w i"
    and "\<And>i c. i \<in> X \<Longrightarrow> \<not> column_has C c i"
    and "\<And>i w. i \<in> X \<Longrightarrow> \<not> floats F w i"
  using assms unfolding mem_ok_def strips_ok_def columns_ok_def floats_ok_def windows_ok_def
  by blast+

section \<open>Landing a window\<close>

lemma mem_land_float:
  assumes ok: "mem_ok S F C N X" and i: "i \<in> X \<or> N i = None" and F: "F w = Some ids"
  shows "mem_ok S (F(w := Some (if i \<in> set ids then ids else ids @ [i]))) C (N(i := Some (w, None, mg))) (X - {i})"
proof -
  have no: "\<not> column_has C c i" "\<not> floats F v i" for c v
    using mem_nowhere [OF ok i] by auto
  note D = mem_okD [OF ok]
  have ids: "distinct ids" "i \<notin> set ids" "\<And>j. j \<in> set ids \<Longrightarrow> located N j w None"
    using D(6) [OF F] no(2) [of w] D(7) [of w] by (auto simp: floatsI [of F w, OF F])
  have fl: "floats (F(w := Some (ids @ [i]))) v j \<longleftrightarrow> floats F v j \<or> v = w \<and> j = i" for v j
    by (auto simp: floatsI [of F w, OF F])
  show ?thesis
    unfolding if_not_P [OF ids(2)]
    apply (rule mem_okI)
              apply (use D(1) in blast)
             apply (use D(2) in blast)
            apply (use D(3) no in \<open>auto\<close>) [1]
           apply (use D(4) in blast)
          apply (use D(5) in blast)
         apply (use D(6) ids in \<open>auto split: if_splits\<close>) [1]
        apply (use D(7) no fl in \<open>auto\<close>) [1]
       apply (use D(8) in \<open>auto split: if_splits\<close>) [1]
      apply (use D(9) fl in \<open>auto split: if_splits\<close>) [1]
     apply (use D(10) in blast)
    apply (use D(11) fl in blast)
    done
qed

lemma mem_land_column:
  assumes ok: "mem_ok S F C N X" and i: "i \<in> X \<or> N i = None" and c: "in_strip S w c"
    and C: "C c = Some (ids, a, t)"
    and sel: "set_option a' \<subseteq> insert i (set ids)" "set_option t' \<subseteq> insert i (set ids)"
  shows "mem_ok S F (C(c := Some (ids @ [i], a', t'))) (N(i := Some (w, Some c, mg))) (X - {i})"
proof -
  have no: "\<not> column_has C c i" "\<not> floats F v i" for c v
    using mem_nowhere [OF ok i] by auto
  note D = mem_okD [OF ok]
  have ids: "distinct ids" "i \<notin> set ids"
    using D(4) [OF C] no(1) [of c] by (auto simp: column_hasI [of C, OF C])
  have has: "column_has (C(c := Some (ids @ [i], a', t'))) d j \<longleftrightarrow> column_has C d j \<or> d = c \<and> j = i" for d j
    by (auto simp: column_hasI [of C, OF C])
  have w: "v = w" if "in_strip S v c" for v using mem_strip_unique [OF ok that c] .
  show ?thesis
    apply (rule mem_okI)
              apply (use D(1) in blast)
             apply (use D(2) in \<open>auto\<close>) [1]
            apply (use D(3) no has w in \<open>auto\<close>) [1]
           apply (use D(4) ids sel in \<open>auto split: if_splits\<close>) [1]
          apply (use D(5) c in \<open>metis fun_upd_apply\<close>)
         apply (use D(6) in blast)
        apply (use D(7) no in \<open>auto\<close>) [1]
       apply (use D(8) has in \<open>auto split: if_splits\<close>) [1]
      apply (use D(9) in \<open>auto split: if_splits\<close>) [1]
     apply (use D(10) has in blast)
    apply (use D(11) in blast)
    done
qed

lemma mem_land_new_column:
  assumes ok: "mem_ok S F C N X" and i: "i \<in> X \<or> N i = None" and S: "S w = Some cs"
    and C: "C c = None"
  shows "mem_ok (S(w := Some (insert_at n c cs))) F (C(c := Some ([i], Some i, Some i)))
           (N(i := Some (w, Some c, mg))) (X - {i})"
proof -
  have no: "\<not> column_has C c i" "\<not> floats F v i" for c v
    using mem_nowhere [OF ok i] by auto
  note D = mem_okD [OF ok]
  have fresh: "\<not> in_strip S v c" for v using D(2) C by blast
  have nc: "\<not> column_has C c j" for j using C by (simp add: column_has_def)
  have has: "column_has (C(c := Some ([i], Some i, Some i))) d j \<longleftrightarrow> column_has C d j \<or> d = c \<and> j = i" for d j
    using nc by auto
  have ins: "in_strip (S(w := Some (insert_at n c cs))) v d \<longleftrightarrow> in_strip S v d \<or> v = w \<and> d = c" for v d
    by (auto simp: in_stripI [of S, OF S])
  have cs: "distinct (insert_at n c cs)" using D(1) [OF S] fresh [of w] by (simp add: in_stripI [of S, OF S])
  show ?thesis
    apply (rule mem_okI)
              apply (use D(1) cs in \<open>auto split: if_splits simp del: distinct_insert_at\<close>) [1]
             apply (use D(2) ins in \<open>auto\<close>) [1]
            subgoal for v d j
              using D(3) [of v d j] no(1) [of d] nc fresh [of v] has [of d j] ins [of v d]
              by (cases "d = c"; cases "j = i") (simp_all del: column_has_upd in_strip_upd)
           apply (use D(4) in \<open>auto split: if_splits\<close>) [1]
          subgoal for d
            using D(5) [of d] ins by (cases "d = c") (auto simp del: in_strip_upd)
         apply (use D(6) in blast)
        apply (use D(7) no in \<open>auto\<close>) [1]
       apply (use D(8) has in \<open>auto split: if_splits\<close>) [1]
      apply (use D(9) in \<open>auto split: if_splits\<close>) [1]
     apply (use D(10) has in blast)
    apply (use D(11) in blast)
    done
qed

section \<open>Taking a window out of its place\<close>

lemma mem_lift_float:
  assumes ok: "mem_ok S F C N {}" and i: "located N i w None" and F: "F w = Some ids"
  shows "mem_ok S (F(w := Some (filter (\<lambda>x. x \<noteq> i) ids))) C N {i}"
proof -
  note D = mem_okD [OF ok]
  have fl: "floats (F(w := Some (filter (\<lambda>x. x \<noteq> i) ids))) v j \<longleftrightarrow> floats F v j \<and> (j \<noteq> i \<or> v \<noteq> w)" for v j
    by (auto simp: floatsI [of F w, OF F])
  have w: "v = w" if "floats F v i" for v using located_unique [OF D(7) [OF that] i] by simp
  have no: "\<not> column_has C c i" for c
  proof
    assume *: "column_has C c i"
    then obtain v where "in_strip S v c" using D(5) by (metis column_has_def)
    from located_unique [OF D(3) [OF this *] i] show False by simp
  qed
  show ?thesis
    apply (rule mem_okI)
              apply (use D(1) in blast)
             apply (use D(2) in blast)
            apply (use D(3) in blast)
           apply (use D(4) in blast)
          apply (use D(5) in blast)
         apply (use D(6) F in \<open>auto split: if_splits\<close>) [1]
        apply (use D(7) fl in \<open>auto\<close>) [1]
       apply (use D(8) in blast)
      apply (use D(9) fl in blast)
     apply (use no in blast)
    apply (use fl w in blast)
    done
qed

lemma mem_lift_column:
  assumes ok: "mem_ok S F C N {}" and i: "located N i w (Some c)" and C: "C c = Some (ids, a, t)"
    and ne: "filter (\<lambda>x. x \<noteq> i) ids \<noteq> []"
    and sel: "set_option a' \<subseteq> set ids - {i}" "set_option t' \<subseteq> set ids - {i}"
  shows "mem_ok S F (C(c := Some (filter (\<lambda>x. x \<noteq> i) ids, a', t'))) N {i}"
proof -
  note D = mem_okD [OF ok]
  have has: "column_has (C(c := Some (filter (\<lambda>x. x \<noteq> i) ids, a', t'))) d j
      \<longleftrightarrow> column_has C d j \<and> (j \<noteq> i \<or> d \<noteq> c)" for d j
    by (auto simp: column_hasI [of C, OF C])
  have c: "d = c" if "column_has C d i" for d
    using mem_column_unique [OF ok that D(8) [OF i]] by simp
  have no: "\<not> floats F v i" for v using D(7) i by (blast dest: located_unique)
  show ?thesis
    apply (rule mem_okI)
              apply (use D(1) in blast)
             apply (use D(2) in \<open>auto\<close>) [1]
            apply (use D(3) has in blast)
           apply (use D(4) C ne sel in \<open>auto split: if_splits\<close>) [1]
          apply (use D(5) C in \<open>metis fun_upd_apply\<close>)
         apply (use D(6) in blast)
        apply (use D(7) in blast)
       apply (use D(8) has in blast)
      apply (use D(9) in blast)
     apply (use c has in blast)
    apply (use no in blast)
    done
qed

lemma mem_lift_last:
  assumes ok: "mem_ok S F C N {}" and i: "located N i w (Some c)" and C: "C c = Some (ids, a, t)"
    and last: "filter (\<lambda>x. x \<noteq> i) ids = []" and S: "S w = Some cs"
  shows "mem_ok (S(w := Some (filter (\<lambda>x. x \<noteq> c) cs))) F (C(c := None)) N {i}"
proof -
  note D = mem_okD [OF ok]
  have only: "j = i" if "column_has C c j" for j
    using that last by (auto simp: column_hasI [of C, OF C] filter_empty_conv)
  have c: "d = c" if "column_has C d i" for d
    using mem_column_unique [OF ok that D(8) [OF i]] by simp
  have no: "\<not> floats F v i" for v using D(7) i by (blast dest: located_unique)
  have here: "v = w" if "in_strip S v c" for v
    using mem_strip_unique [OF ok that mem_window_in_strip [OF ok i]] by simp
  have ins: "in_strip (S(w := Some (filter (\<lambda>x. x \<noteq> c) cs))) v d \<longleftrightarrow> in_strip S v d \<and> d \<noteq> c" for v d
    using here by (auto simp: in_stripI [of S, OF S])
  show ?thesis
    apply (rule mem_okI)
              apply (use D(1) S in \<open>auto split: if_splits\<close>) [1]
             apply (use D(2) ins in \<open>auto\<close>) [1]
            apply (use D(3) ins in \<open>auto\<close>) [1]
           apply (use D(4) in \<open>auto split: if_splits\<close>) [1]
          apply (use D(5) ins in \<open>metis fun_upd_apply option.distinct(1)\<close>)
         apply (use D(6) in blast)
        apply (use D(7) in blast)
       apply (use D(8) only in \<open>auto\<close>) [1]
      apply (use D(9) in blast)
     apply (use c in \<open>auto\<close>) [1]
    apply (use no in blast)
    done
qed

section \<open>Selections, windows and workspaces\<close>

lemma mem_select:
  assumes ok: "mem_ok S F C N X" and C: "C c = Some (ids, a, t)"
    and sel: "set_option a' \<subseteq> set ids" "set_option t' \<subseteq> set ids"
  shows "mem_ok S F (C(c := Some (ids, a', t'))) N X"
proof -
  note D = mem_okD [OF ok]
  have has: "column_has (C(c := Some (ids, a', t'))) d j = column_has C d j" for d j
    by (simp add: column_hasI [of C, OF C])
  show ?thesis
    apply (rule mem_okI)
              apply (use D(1) in blast)
             apply (use D(2) in \<open>auto\<close>) [1]
            apply (use D(3) has in blast)
           apply (use D(4) C sel in \<open>auto split: if_splits\<close>) [1]
          apply (use D(5) C in \<open>metis fun_upd_apply\<close>)
         apply (use D(6) in blast)
        apply (use D(7) in blast)
       apply (use D(8) has in blast)
      apply (use D(9) in blast)
     apply (use D(10) has in blast)
    apply (use D(11) in blast)
    done
qed

text \<open>A window in flight is dropped from the table; a window nobody manages is entered.\<close>

lemma mem_forget:
  assumes ok: "mem_ok S F C N {i}"
  shows "mem_ok S F C (N(i := None)) {}"
proof -
  have no: "\<not> column_has C c i" "\<not> floats F v i" for c v
    using mem_nowhere [OF ok, of i] by auto
  note D = mem_okD [OF ok]
  show ?thesis
    apply (rule mem_okI)
              apply (use D(1) in blast)
             apply (use D(2) in blast)
            apply (use D(3) no in \<open>auto\<close>) [1]
           apply (use D(4) in blast)
          apply (use D(5) in blast)
         apply (use D(6) in blast)
        apply (use D(7) no in \<open>auto\<close>) [1]
       apply (use D(8) in \<open>auto\<close>) [1]
      apply (use D(9) in \<open>auto split: if_splits\<close>) [1]
     apply blast
    apply blast
    done
qed

lemma mem_put_unmanaged:
  assumes ok: "mem_ok S F C N {}" and i: "N i = None"
  shows "mem_ok S F C (N(i := Some (w, None, False))) {}"
proof -
  have no: "\<not> column_has C c i" "\<not> floats F v i" for c v
    using mem_nowhere [OF ok, of i] i by auto
  note D = mem_okD [OF ok]
  show ?thesis
    apply (rule mem_okI)
              apply (use D(1) in blast)
             apply (use D(2) in blast)
            apply (use D(3) no in \<open>auto\<close>) [1]
           apply (use D(4) in blast)
          apply (use D(5) in blast)
         apply (use D(6) in blast)
        apply (use D(7) no in \<open>auto\<close>) [1]
       apply (use D(8) in \<open>auto split: if_splits\<close>) [1]
      apply (use D(9) in \<open>auto split: if_splits\<close>) [1]
     apply blast
    apply blast
    done
qed

lemma mem_add_workspace:
  assumes ok: "mem_ok S F C N X" and S: "S w = None" and F: "F w = None"
  shows "mem_ok (S(w := Some [])) (F(w := Some [])) C N X"
proof -
  note D = mem_okD [OF ok]
  have ins: "in_strip (S(w := Some [])) v d = in_strip S v d" for v d
    using S by (auto simp: in_strip_def)
  have fl: "floats (F(w := Some [])) v d = floats F v d" for v d
    using F by (auto simp: floats_def)
  show ?thesis
    apply (rule mem_okI)
              apply (use D(1) in \<open>auto split: if_splits\<close>) [1]
             apply (use D(2) ins in blast)
            apply (use D(3) ins in blast)
           apply (use D(4) in blast)
          apply (use D(5) ins in metis)
         apply (use D(6) in \<open>auto split: if_splits\<close>) [1]
        apply (use D(7) fl in blast)
       apply (use D(8) in blast)
      apply (use D(9) fl in blast)
     apply (use D(10) in blast)
    apply (use D(11) fl in blast)
    done
qed

lemma mem_del_workspace:
  assumes ok: "mem_ok S F C N X" and S: "\<And>c. \<not> in_strip S w c" and F: "\<And>i. \<not> floats F w i"
  shows "mem_ok (S(w := None)) (F(w := None)) C N X"
proof -
  note D = mem_okD [OF ok]
  have ins: "in_strip (S(w := None)) v d = in_strip S v d" for v d
    using S by auto
  have fl: "floats (F(w := None)) v d = floats F v d" for v d
    using F by auto
  show ?thesis
    apply (rule mem_okI)
              apply (use D(1) in \<open>auto split: if_splits\<close>) [1]
             apply (use D(2) ins in blast)
            apply (use D(3) ins in blast)
           apply (use D(4) in blast)
          apply (use D(5) ins in metis)
         apply (use D(6) in \<open>auto split: if_splits\<close>) [1]
        apply (use D(7) fl in blast)
       apply (use D(8) in blast)
      apply (use D(9) fl in blast)
     apply (use D(10) in blast)
    apply (use D(11) fl in blast)
    done
qed

section \<open>Moving a column\<close>

definition rehomed :: "window_map \<Rightarrow> workspace_id \<Rightarrow> column_id \<Rightarrow> window_id list \<Rightarrow> window_map" where
  "rehomed N w c ids =
     (\<lambda>j. if j \<in> set ids then map_option (\<lambda>x. (w, Some c, snd (snd x))) (N j) else N j)"

lemma rehomed_simps [simp]: "rehomed N w c [] = N"
  "rehomed (rehomed N w c [j]) w c ids = rehomed N w c (j # ids)"
  by (auto simp: rehomed_def fun_eq_iff option.map_comp o_def)

lemma located_rehomed:
  "located (rehomed N w c ids) j v d \<longleftrightarrow>
     (if j \<in> set ids then N j \<noteq> None \<and> v = w \<and> d = Some c else located N j v d)"
  by (auto simp: rehomed_def located_def)

lemma mem_relocate:
  assumes ok: "mem_ok S F C N {}" and v: "in_strip S v c" and C: "C c = Some (ids, a, t)"
    and S: "S v = Some cs" and T: "(S(v := Some (filter (\<lambda>x. x \<noteq> c) cs))) w = Some ds"
  shows "mem_ok (S(v := Some (filter (\<lambda>x. x \<noteq> c) cs), w := Some (insert_at n c (filter (\<lambda>x. x \<noteq> c) ds))))
           F C (rehomed N w c ids) {}"
    (is "mem_ok ?S F C ?N {}")
proof -
  note D = mem_okD [OF ok]
  have here: "u = v" if "in_strip S u c" for u using mem_strip_unique [OF ok that v] .
  have ds: "distinct ds" "\<And>d. d \<in> set ds \<Longrightarrow> d \<noteq> c \<and> in_strip S w d" "\<And>d. d \<noteq> c \<Longrightarrow> in_strip S w d \<Longrightarrow> d \<in> set ds"
    using T D(1) here S by (auto simp: in_stripI [of S, OF S] in_strip_def split: if_splits)
  have ins: "in_strip ?S u d \<longleftrightarrow> (if d = c then u = w else in_strip S u d)" for u d
    using ds here S by (auto simp: in_stripI [of S, OF S])
  have at: "located N j v (Some c)" if "j \<in> set ids" for j
    using D(3) [OF v] that by (simp add: column_hasI [of C, OF C])
  have ex: "N j \<noteq> None" if "j \<in> set ids" for j using at [OF that] by (auto simp: located_def)
  have has: "column_has C c j \<longleftrightarrow> j \<in> set ids" for j by (rule column_hasI [of C, OF C])
  have other: "j \<notin> set ids" if "column_has C d j" "d \<noteq> c" for d j
    using mem_column_unique [OF ok that(1), of c] that(2) has by blast
  have float: "j \<notin> set ids" if "floats F u j" for u j
    using at [of j] D(7) [OF that] located_unique by blast
  show ?thesis
    apply (rule mem_okI)
              subgoal for u xs using D(1) ds(1) ds(2) [of c] S by (auto split: if_splits)
             subgoal for u d
               using D(2) [of u d] C ins [of u d] by (auto split: if_splits simp del: in_strip_upd)
            subgoal for u d j
              using D(3) [of u d j] ins [of u d] has [of j] ex [of j] other [of d j]
              by (auto simp: located_rehomed split: if_splits simp del: in_strip_upd)
           apply (use D(4) in blast)
          apply (use D(5) ins in metis)
         apply (use D(6) in blast)
        apply (use D(7) float in \<open>auto simp: located_rehomed\<close>) [1]
       apply (use D(8) has in \<open>auto simp: located_rehomed split: if_splits\<close>) [1]
      apply (use D(9) in \<open>auto simp: rehomed_def split: if_splits\<close>) [1]
     apply blast
    apply blast
    done
qed

section \<open>Monitors and their stacks\<close>

text \<open>
  Which workspaces a monitor stacks, over four views of the state: the workspace set of each
  monitor; the monitor, order and active workspace of each set; the monitor each workspace names
  as its home; the active workspace the focus state records for each monitor. \<open>top_ok\<close> says that
  they agree. Sets in \<open>J\<close> are being edited: their active workspace may be stale until
  the normalisation commits.
\<close>

type_synonym monitor_map = "monitor_id \<Rightarrow> workspace_set_id option"
type_synonym set_map = "workspace_set_id \<Rightarrow> (monitor_id \<times> workspace_id list \<times> workspace_id) option"
type_synonym home_map = "workspace_id \<Rightarrow> monitor_id option"
type_synonym active_map = "monitor_id \<Rightarrow> workspace_id option"

definition top_ok ::
    "monitor_map \<Rightarrow> set_map \<Rightarrow> home_map \<Rightarrow> active_map \<Rightarrow> workspace_set_id set \<Rightarrow> bool" where
  "top_ok V T H A J \<longleftrightarrow>
     (\<forall>m i. V m = Some i \<longrightarrow> (\<exists>ids a. T i = Some (m, ids, a))) \<and>
     (\<forall>i m ids a. T i = Some (m, ids, a) \<longrightarrow>
        V m = Some i \<and> distinct ids \<and> (\<forall>w \<in> set ids. H w = Some m) \<and>
        (i \<notin> J \<longrightarrow> a \<in> set ids \<and> A m = Some a)) \<and>
     (\<forall>w m. H w = Some m \<longrightarrow> (\<exists>i ids a. T i = Some (m, ids, a) \<and> w \<in> set ids))"

lemma top_okI:
  assumes "\<And>m i. V m = Some i \<Longrightarrow> \<exists>ids a. T i = Some (m, ids, a)"
    and "\<And>i m ids a. T i = Some (m, ids, a) \<Longrightarrow> V m = Some i"
    and "\<And>i m ids a. T i = Some (m, ids, a) \<Longrightarrow> distinct ids"
    and "\<And>i m ids a w. T i = Some (m, ids, a) \<Longrightarrow> w \<in> set ids \<Longrightarrow> H w = Some m"
    and "\<And>i m ids a. T i = Some (m, ids, a) \<Longrightarrow> i \<notin> J \<Longrightarrow> a \<in> set ids \<and> A m = Some a"
    and "\<And>w m. H w = Some m \<Longrightarrow> \<exists>i ids a. T i = Some (m, ids, a) \<and> w \<in> set ids"
  shows "top_ok V T H A J"
  unfolding top_ok_def using assms by blast

lemma top_okD:
  assumes "top_ok V T H A J"
  shows "\<And>m i. V m = Some i \<Longrightarrow> \<exists>ids a. T i = Some (m, ids, a)"
    and "\<And>i m ids a. T i = Some (m, ids, a) \<Longrightarrow> V m = Some i"
    and "\<And>i m ids a. T i = Some (m, ids, a) \<Longrightarrow> distinct ids"
    and "\<And>i m ids a w. T i = Some (m, ids, a) \<Longrightarrow> w \<in> set ids \<Longrightarrow> H w = Some m"
    and "\<And>i m ids a. T i = Some (m, ids, a) \<Longrightarrow> i \<notin> J \<Longrightarrow> a \<in> set ids \<and> A m = Some a"
    and "\<And>w m. H w = Some m \<Longrightarrow> \<exists>i ids a. T i = Some (m, ids, a) \<and> w \<in> set ids"
  using assms unfolding top_ok_def by blast+

lemma top_ok_empty: "top_ok (\<lambda>_. None) (\<lambda>_. None) (\<lambda>_. None) A J"
  by (simp add: top_ok_def)

lemma top_ok_mono: "top_ok V T H A J \<Longrightarrow> J \<subseteq> J' \<Longrightarrow> top_ok V T H A J'"
  unfolding top_ok_def by blast

section \<open>Reading the invariant\<close>

lemma top_home:
  assumes ok: "top_ok V T H A J" and w: "H w = Some m"
  obtains i ids a where "V m = Some i" "T i = Some (m, ids, a)" "w \<in> set ids"
  using top_okD(6) [OF ok w] top_okD(2) [OF ok] by blast

lemma top_monitor_set:
  assumes ok: "top_ok V T H A J" and m: "V m = Some i"
  obtains ids a where "T i = Some (m, ids, a)"
  using top_okD(1) [OF ok m] by blast

lemma top_active:
  assumes ok: "top_ok V T H A J" and m: "V m = Some i" and J: "i \<notin> J"
  obtains ids a where "T i = Some (m, ids, a)" "a \<in> set ids" "A m = Some a" "H a = Some m"
  using top_okD(1) [OF ok m] top_okD(4,5) [OF ok] J by metis

lemma top_set_of_monitor:
  assumes ok: "top_ok V T H A J" and "T i = Some (m, ids, a)" "T j = Some (m, ids', a')"
  shows "i = j"
  using top_okD(2) [OF ok assms(2)] top_okD(2) [OF ok assms(3)] by simp

section \<open>Edits of the stack of one monitor\<close>

lemma top_activate:
  assumes ok: "top_ok V T H A J" and T: "T i = Some (m, ids, a)" and w: "w \<in> set ids"
  shows "top_ok V (T(i := Some (m, ids, w))) H (A(m := Some w)) (J - {i})"
proof -
  note D = top_okD [OF ok]
  have other: "n \<noteq> m" if "T j = Some (n, ids', a')" "j \<noteq> i" for j n ids' a'
    using top_set_of_monitor [OF ok T] that by blast
  show ?thesis
    apply (rule top_okI)
         apply (use D(1) T in \<open>force split: if_splits\<close>) [1]
        apply (use D(2) T in \<open>auto split: if_splits\<close>) [1]
       apply (use D(3) T in \<open>auto split: if_splits\<close>) [1]
      apply (use D(4) T in \<open>auto split: if_splits\<close>) [1]
     apply (use D(5) w other in \<open>force split: if_splits\<close>) [1]
    subgoal for v n using D(6) [of v n] T by (metis fun_upd_apply option.inject prod.inject)
    done
qed

text \<open>A new workspace at the end, or a removed one, leaves the set's active workspace in doubt.\<close>

lemma top_append:
  assumes ok: "top_ok V T H A J" and T: "T i = Some (m, ids, a)" and w: "H w = None"
  shows "top_ok V (T(i := Some (m, ids @ [w], a))) (H(w := Some m)) A (insert i J)"
proof -
  note D = top_okD [OF ok]
  have fresh: "w \<notin> set ids'" if "T j = Some (n, ids', a')" for j n ids' a'
    using D(4) [OF that] w by auto
  show ?thesis
    apply (rule top_okI)
         apply (use D(1) T in \<open>force split: if_splits\<close>) [1]
        apply (use D(2) T in \<open>auto split: if_splits\<close>) [1]
       apply (use D(3) T fresh in \<open>auto split: if_splits\<close>) [1]
      apply (use D(4) T fresh in \<open>auto split: if_splits\<close>) [1]
     apply (use D(5) in \<open>auto split: if_splits\<close>) [1]
    subgoal for v n
      using D(6) [of v n] T by (cases "v = w") (auto split: if_splits, metis option.inject prod.inject)
    done
qed

lemma top_remove:
  assumes ok: "top_ok V T H A J" and T: "T i = Some (m, xs @ w # ys, a)"
  shows "top_ok V (T(i := Some (m, xs @ ys, a))) (H(w := None)) A (insert i J)"
proof -
  note D = top_okD [OF ok]
  have dist: "distinct (xs @ w # ys)" using D(3) [OF T] .
  have home: "H w = Some m" using D(4) [OF T] by simp
  have other: "w \<notin> set ids'" if "T j = Some (n, ids', a')" "j \<noteq> i" for j n ids' a'
  proof
    assume "w \<in> set ids'"
    then have "n = m" using D(4) [OF that(1)] home by simp
    then show False using top_set_of_monitor [OF ok T] that by blast
  qed
  show ?thesis
    apply (rule top_okI)
         apply (use D(1) T in \<open>force split: if_splits\<close>) [1]
        apply (use D(2) T in \<open>auto split: if_splits\<close>) [1]
       apply (use D(3) dist in \<open>auto split: if_splits\<close>) [1]
      subgoal for j n ids' a' v
        using D(4) [of j n ids' a' v] D(4) [OF T, of v] dist other by (auto split: if_splits)
     apply (use D(5) in \<open>auto split: if_splits\<close>) [1]
    subgoal for v n
      using D(6) [of v n] T by (auto split: if_splits, metis Un_iff insert_iff list.simps(15) option.inject prod.inject set_append)
    done
qed

lemma top_permute:
  assumes ok: "top_ok V T H A J" and T: "T i = Some (m, ids, a)"
    and p: "set ids' = set ids" "distinct ids'"
  shows "top_ok V (T(i := Some (m, ids', a))) H A J"
proof -
  note D = top_okD [OF ok]
  show ?thesis
    apply (rule top_okI)
         apply (use D(1) T in \<open>force split: if_splits\<close>) [1]
        apply (use D(2) T in \<open>auto split: if_splits\<close>) [1]
       apply (use D(3) p in \<open>auto split: if_splits\<close>) [1]
      apply (use D(4) T p in \<open>auto split: if_splits\<close>) [1]
     apply (use D(5) T p in \<open>auto split: if_splits\<close>) [1]
    subgoal for v n using D(6) [of v n] T p by (metis fun_upd_apply option.inject prod.inject)
    done
qed

section \<open>Moving a workspace between two stacks, and a new monitor\<close>

lemma top_transfer:
  assumes ok: "top_ok V T H A J" and T: "T i = Some (m, ids, a)" and T': "T i' = Some (m', ids', a')"
    and ne: "i \<noteq> i'" and w: "w \<in> set ids"
  shows "top_ok V (T(i := Some (m, filter (\<lambda>x. x \<noteq> w) ids, a), i' := Some (m', insert_at n w ids', w)))
           (H(w := Some m')) A (insert i (insert i' J))"
proof -
  note D = top_okD [OF ok]
  have home: "H w = Some m" using D(4) [OF T w] .
  have mm: "m' \<noteq> m" using D(2) [OF T] D(2) [OF T'] ne by auto
  have other: "w \<notin> set xs" if "T j = Some (n, xs, b)" "j \<noteq> i" for j n xs b
  proof
    assume "w \<in> set xs"
    then have "n = m" using D(4) [OF that(1)] home by simp
    then show False using top_set_of_monitor [OF ok T] that by blast
  qed
  show ?thesis
    apply (rule top_okI)
         apply (use D(1) T T' ne in \<open>force split: if_splits\<close>) [1]
        apply (use D(2) T T' in \<open>auto split: if_splits\<close>) [1]
       apply (use D(3) T T' ne other [OF T'] in \<open>auto split: if_splits\<close>) [1]
      subgoal for j n xs b v
        using D(4) [of j n xs b v] D(4) [OF T, of v] D(4) [OF T', of v] other by (auto split: if_splits)
     apply (use D(5) in \<open>auto split: if_splits\<close>) [1]
    subgoal for v p
    proof (cases "v = w")
      case False
      assume "(H(w := Some m')) v = Some p"
      with False obtain j xs b where "T j = Some (p, xs, b)" "v \<in> set xs" using D(6) by fastforce
      then show ?thesis using False T T' ne
        by (cases "j = i'"; cases "j = i"; fastforce)
    qed (use mm in \<open>auto\<close>)
    done
qed

lemma top_new_monitor:
  assumes ok: "top_ok V T H A J" and "V m = None" "T i = None" "H w = None"
  shows "top_ok (V(m := Some i)) (T(i := Some (m, [w], w))) (H(w := Some m)) (A(m := Some w)) J"
proof -
  note D = top_okD [OF ok]
  have fresh: "n \<noteq> m \<and> w \<notin> set ids" if "T j = Some (n, ids, a)" for j n ids a
    using D(2) [OF that] D(4) [OF that] assms(2,4) by auto
  show ?thesis
    apply (rule top_okI)
         apply (use D(1) assms(3) in \<open>force split: if_splits\<close>) [1]
        apply (use D(2) fresh in \<open>auto split: if_splits\<close>) [1]
       apply (use D(3) in \<open>auto split: if_splits\<close>) [1]
      apply (use D(4) fresh in \<open>auto split: if_splits\<close>) [1]
     apply (use D(5) fresh in \<open>auto split: if_splits\<close>) [1]
    subgoal for v n
      using D(6) [of v n] assms(3) by (auto split: if_splits, metis option.distinct(1))
    done
qed

end
