(* ===== verification/Store_Invariant.thy ===== *)
theory Store_Invariant
  imports Store_Views Membership
begin

text \<open>
  The invariant of the reducer. \<open>core\<close> says that windows, columns, workspaces and monitors agree
  on who is where; \<open>focus_ok\<close> that the focused window is on the active workspace of the focused
  monitor; \<open>wf\<close> is both. The lemmas are about the writers that several handlers share:
  scrolling, activating a workspace, focusing a window.
\<close>

definition core :: "workspace_set_id set \<Rightarrow> wm_state \<Rightarrow> bool" where
  "core J s \<longleftrightarrow>
     mem_ok (strip_view s) (float_view s) (column_view s) (window_view s) {} \<and>
     top_ok (monitor_view s) (set_view s) (home_view s) (active_view s) J \<and>
     (\<forall>i. restore_view s i) \<and> counters_ok s \<and> tables_ok s"

definition focus_ok :: "wm_state \<Rightarrow> bool" where
  "focus_ok s \<longleftrightarrow>
     (case focus_view s of (fm, fw, fc) \<Rightarrow>
        (\<forall>m. fm = Some m \<longrightarrow> monitor_view s m \<noteq> None) \<and>
        (case fw of
           None \<Rightarrow> fc = None
         | Some i \<Rightarrow> (\<exists>w m. located (window_view s) i w fc \<and> fm = Some m \<and> active_view s m = Some w)))"

definition wf :: "wm_state \<Rightarrow> bool" where
  "wf s \<longleftrightarrow> core {} s \<and> focus_ok s"

lemma coreI:
  assumes "mem_ok (strip_view s) (float_view s) (column_view s) (window_view s) {}"
    and "top_ok (monitor_view s) (set_view s) (home_view s) (active_view s) J"
    and "\<And>i. restore_view s i" "counters_ok s" "tables_ok s"
  shows "core J s"
  using assms by (simp add: core_def)

lemma coreD:
  assumes "core J s"
  shows "mem_ok (strip_view s) (float_view s) (column_view s) (window_view s) {}"
    and "top_ok (monitor_view s) (set_view s) (home_view s) (active_view s) J"
    and "restore_view s i" "counters_ok s" "tables_ok s"
  using assms by (simp_all add: core_def)

lemma wfD: "wf s \<Longrightarrow> core {} s" "wf s \<Longrightarrow> focus_ok s"
  by (simp_all add: wf_def)

lemma wfI: "core {} s \<Longrightarrow> focus_ok s \<Longrightarrow> wf s"
  by (simp add: wf_def)

lemma core_mono: "core J s \<Longrightarrow> J \<subseteq> J' \<Longrightarrow> core J' s"
  by (auto simp: core_def intro: top_ok_mono)

lemma focus_ok_cong:
  assumes "focus_view t = focus_view s" "monitor_view t = monitor_view s"
    "window_view t = window_view s" "active_view t = active_view s"
  shows "focus_ok t = focus_ok s"
  by (simp only: focus_ok_def assms)

lemma focus_okI_window:
  assumes "focus_view s = (Some m, Some i, c)" "monitor_view s m \<noteq> None"
    "located (window_view s) i w c" "active_view s m = Some w"
  shows "focus_ok s"
  using assms by (auto simp: focus_ok_def)

lemma focus_okI_none:
  assumes "focus_view s = (Some m, None, None)" "monitor_view s m \<noteq> None"
  shows "focus_ok s"
  using assms by (auto simp: focus_ok_def)

lemma focus_okD_window:
  assumes "focus_ok s" "focus_window (focus s) = Some i"
  obtains w m where "located (window_view s) i w (focus_column (focus s))"
    "focus_monitor (focus s) = Some m" "active_view s m = Some w" "monitor_view s m \<noteq> None"
  using assms by (auto simp: focus_ok_def focus_view_def)

lemma focus_okD_none:
  "focus_ok s \<Longrightarrow> focus_window (focus s) = None \<Longrightarrow> focus_column (focus s) = None"
  by (auto simp: focus_ok_def focus_view_def split: prod.splits)

section \<open>The views agree on what exists\<close>

lemma view_domains:
  "home_view s w = None \<longleftrightarrow> get_workspace s w = None"
  "strip_view s w = None \<longleftrightarrow> get_workspace s w = None"
  "float_view s w = None \<longleftrightarrow> get_workspace s w = None"
  "column_view s c = None \<longleftrightarrow> get_column s c = None"
  "window_view s i = None \<longleftrightarrow> get_window s i = None"
  "monitor_view s m = None \<longleftrightarrow> get_monitor s m = None"
  "set_view s j = None \<longleftrightarrow> get_set s j = None"
  by (simp_all add: view_defs)

lemma view_values:
  "get_workspace s w = Some ws \<Longrightarrow> home_view s w = Some (wsp_monitor_id ws)"
  "get_workspace s w = Some ws \<Longrightarrow> strip_view s w = Some (strip_columns (wsp_strip ws))"
  "get_workspace s w = Some ws \<Longrightarrow> float_view s w = Some (fl_windows (wsp_floating ws))"
  "get_column s c = Some col \<Longrightarrow> column_view s c = Some (col_windows col, col_active col, col_tab_selection col)"
  "get_window s i = Some win \<Longrightarrow> window_view s i = Some (win_workspace_id win, win_column_id win, win_is_managed win)"
  "get_monitor s m = Some mon \<Longrightarrow> monitor_view s m = Some (mon_workspace_set_id mon)"
  "get_set s j = Some x \<Longrightarrow> set_view s j = Some (wset_monitor_id x, wset_ordered x, wset_active x)"
  by (simp_all add: view_defs)

lemma home_monitor_exists:
  assumes "core J s" "home_view s w = Some m"
  obtains mon where "get_monitor s m = Some mon"
  using top_home [OF coreD(2) [OF assms(1)] assms(2)]
  by (metis option.exhaust option.distinct(1) view_domains(6))

lemma active_reader:
  "active_workspace_id_for_monitor s m =
     or_opt (active_view s m)
       (Option.bind (monitor_view s m) (\<lambda>i. map_option (\<lambda>(_, _, a). a) (set_view s i)))"
  by (simp add: active_workspace_id_for_monitor_def workspace_set_id_for_monitor_def view_defs
      option.map_comp o_def)

lemma active_of_ok:
  assumes "core J s" "monitor_view s m = Some i" "i \<notin> J"
  obtains a ids where "active_workspace_id_for_monitor s m = Some a" "set_view s i = Some (m, ids, a)"
    "a \<in> set ids" "home_view s a = Some m" "active_view s m = Some a"
  using top_active [OF coreD(2) [OF assms(1)] assms(2,3)]
  by (metis active_reader or_opt_simps(2))

lemma viewport_ok:
  assumes "core J s" "home_view s w = Some m"
  obtains v where "workspace_tiled_viewport s w = Inr v"
proof -
  obtain ws where ws: "get_workspace s w = Some ws" "wsp_monitor_id ws = m"
    using assms(2) by (auto simp: home_view_def)
  moreover obtain mon where "get_monitor s m = Some mon" using home_monitor_exists [OF assms] .
  ultimately show ?thesis
    by (intro that) (simp add: workspace_tiled_viewport_def find_workspace_def find_monitor_def)
qed

section \<open>Scrolling\<close>

lemma core_scrolled: "scrolled s t \<Longrightarrow> core J s \<Longrightarrow> core J t"
  by (auto simp: scrolled_def core_def tables_ok_scroll)

lemma focus_ok_scrolled: "scrolled s t \<Longrightarrow> focus_ok t = focus_ok s"
  by (rule focus_ok_cong) (auto simp: scrolled_def)

lemma wf_scrolled: "scrolled s t \<Longrightarrow> wf s \<Longrightarrow> wf t"
  by (simp add: wf_def core_scrolled focus_ok_scrolled)

lemma wf_apply_scroll_delta: "wf s \<Longrightarrow> ends wf (apply_scroll_delta w d) s"
  unfolding ends_def by (rule wf_scrolled [OF apply_scroll_delta_scrolled])

lemma wf_clamp_scroll_offset: "wf s \<Longrightarrow> ends wf (clamp_scroll_offset w) s"
  unfolding ends_def by (rule wf_scrolled [OF clamp_scroll_offset_scrolled])

lemma wf_reveal_column: "wf s \<Longrightarrow> ends wf (reveal_column_in_workspace w c) s"
  unfolding ends_def by (rule wf_scrolled [OF reveal_column_scrolled])

lemma wf_reveal_option: "wf s \<Longrightarrow> ends wf (reveal_option w c) s"
  unfolding ends_def by (rule wf_scrolled [OF reveal_option_scrolled])

section \<open>Activating a workspace\<close>

lemma set_active_views [view_simps]:
  "monitor_view (set_active_of_monitor m w s) = monitor_view s"
  "home_view (set_active_of_monitor m w s) = home_view s"
  "strip_view (set_active_of_monitor m w s) = strip_view s"
  "float_view (set_active_of_monitor m w s) = float_view s"
  "column_view (set_active_of_monitor m w s) = column_view s"
  "window_view (set_active_of_monitor m w s) = window_view s"
  "restore_view (set_active_of_monitor m w s) = restore_view s"
  "focus_view (set_active_of_monitor m w s) = focus_view s"
  "counters_ok (set_active_of_monitor m w s) = counters_ok s"
  "tables_ok (set_active_of_monitor m w s) = tables_ok s"
  "active_view (set_active_of_monitor m w s) = (active_view s)(m := Some w)"
  by (simp_all add: set_active_of_monitor_def set_active_on_monitor_def view_simps
      workspace_set_id_for_monitor_def Let_def split: option.splits)
    (simp_all add: focus_view_def upd_focus_def upd_set_def active_view_def)

lemma set_view_set_active:
  assumes "monitor_view s m = Some i" "set_view s i = Some (n, ids, a)"
  shows "set_view (set_active_of_monitor m w s) = (set_view s)(i := Some (n, ids, w))"
  using assms
  by (auto simp: set_active_of_monitor_def set_active_on_monitor_def workspace_set_id_for_monitor_def
      fun_eq_iff set_view_def upd_focus_def upd_set_def Let_def monitor_view_def)

lemma core_set_active:
  assumes ok: "core J s" and home: "home_view s w = Some m" and set: "monitor_view s m = Some i"
  shows "core (J - {i}) (set_active_of_monitor m w s)"
proof -
  note top = coreD(2) [OF ok]
  obtain j ids a where j: "monitor_view s m = Some j" "set_view s j = Some (m, ids, a)" "w \<in> set ids"
    using top_home [OF top home] .
  then have [simp]: "j = i" using set by simp
  show ?thesis
    using top_activate [OF top j(2,3)] coreD [OF ok] set_view_set_active [OF j(1,2)]
    by (intro coreI) (simp_all add: view_simps)
qed

section \<open>Focusing a window\<close>

definition focus_column_of :: "column_id option \<Rightarrow> window_id \<Rightarrow> wm_state \<Rightarrow> wm_state" where
  "focus_column_of c i s = (case c of None \<Rightarrow> s | Some x \<Rightarrow> upd_column x (focus_column_on_window i) s)"

lemma focus_column_of_views [view_simps]:
  "monitor_view (focus_column_of c i s) = monitor_view s" "set_view (focus_column_of c i s) = set_view s"
  "active_view (focus_column_of c i s) = active_view s" "focus_view (focus_column_of c i s) = focus_view s"
  "home_view (focus_column_of c i s) = home_view s" "strip_view (focus_column_of c i s) = strip_view s"
  "float_view (focus_column_of c i s) = float_view s" "window_view (focus_column_of c i s) = window_view s"
  "restore_view (focus_column_of c i s) = restore_view s"
  "counters_ok (focus_column_of c i s) = counters_ok s" "tables_ok (focus_column_of c i s) = tables_ok s"
  by (simp_all add: focus_column_of_def split: option.splits)

lemma core_focus_column:
  assumes ok: "core J s" and at: "located (window_view s) i w c"
  shows "core J (focus_column_of c i s)"
proof (cases c)
  case (Some x)
  note mem = coreD(1) [OF ok]
  have has: "column_has (column_view s) x i" using mem_window_column [OF mem] at Some by simp
  then obtain col where col: "get_column s x = Some col" "i \<in> set (col_windows col)"
    by (auto simp: column_has_def column_view_def)
  note cv = view_values(4) [OF col(1)]
  have "column_view (focus_column_of c i s) = (column_view s)(x := Some (col_windows col, Some i,
          if col_mode col = Tabbed then Some i else col_tab_selection col))"
    using col Some
    by (simp add: focus_column_of_def column_view_changes focus_column_on_window_def Let_def)
  moreover have "set_option (col_tab_selection col) \<subseteq> set (col_windows col)"
    using mem_column [OF mem cv] by simp
  ultimately have "mem_ok (strip_view s) (float_view s) (column_view (focus_column_of c i s)) (window_view s) {}"
    using mem_select [OF mem cv, of "Some i" "if col_mode col = Tabbed then Some i else col_tab_selection col"]
      col by simp
  then show ?thesis using coreD [OF ok] by (intro coreI) (simp_all add: view_simps)
qed (simp add: focus_column_of_def ok)

lemma core_upd_focus:
  assumes "core J s" "focus_active_workspaces (f (focus s)) = focus_active_workspaces (focus s)"
  shows "core J (upd_focus f s)"
proof -
  have "active_view (upd_focus f s) = active_view s"
    by (simp only: focus_view_upd_focus assms) (simp add: active_view_def)
  then show ?thesis using coreD [OF assms(1)] by (intro coreI) simp_all
qed

definition remember_focus :: "window_id \<Rightarrow> column_id option \<Rightarrow> workspace \<Rightarrow> workspace" where
  "remember_focus i c ws = ws\<lparr>wsp_remembered_window := Some i, wsp_remembered_column := c\<rparr>"

lemma core_upd_workspace_same:
  assumes ok: "core J s"
    and f: "\<And>x. wsp_monitor_id (f x) = wsp_monitor_id x" "\<And>x. strip_columns (wsp_strip (f x)) = strip_columns (wsp_strip x)"
      "\<And>x. fl_windows (wsp_floating (f x)) = fl_windows (wsp_floating x)"
      "\<And>x. workspace_entry_ok w x \<Longrightarrow> workspace_entry_ok w (f x)"
  shows "core J (upd_workspace w f s)"
  using coreD [OF ok] f(4) tables_ok_upd_workspace [of s w f]
  by (intro coreI) (simp_all add: view_upd_same f(1-3))

lemma focus_ok_upd_workspace [simp]: "focus_ok (upd_workspace w f s) = focus_ok s"
  by (rule focus_ok_cong) simp_all

lemma set_focus_steps:
  "set_focus_to_window m w i c origin s =
     upd_workspace w (remember_focus i c)
       (focus_column_of c i
         (set_active_of_monitor m w
           (upd_focus (\<lambda>f. f\<lparr>focus_monitor := Some m, focus_window := Some i, focus_column := c,
                             focus_origin_of := origin\<rparr>) s)))"
  by (simp add: set_focus_to_window_def focus_column_of_def remember_focus_def [abs_def] Let_def)

lemma wf_set_focus:
  assumes ok: "core J s" and home: "home_view s w = Some m" and at: "located (window_view s) i w c"
    and J: "\<And>j. monitor_view s m = Some j \<Longrightarrow> J \<subseteq> {j}"
  shows "wf (set_focus_to_window m w i c origin s)"
proof -
  let ?s1 = "upd_focus (\<lambda>f. f\<lparr>focus_monitor := Some m, focus_window := Some i, focus_column := c,
                             focus_origin_of := origin\<rparr>) s"
  let ?s2 = "set_active_of_monitor m w ?s1"
  obtain j where j: "monitor_view s m = Some j" using top_home [OF coreD(2) [OF ok] home] .
  have "core J ?s1" using ok by (rule core_upd_focus) simp
  then have "core {} ?s2"
    using core_set_active [of J ?s1 w m j] home j Diff_eq_empty_iff [THEN iffD2, OF J [OF j]] by simp
  then have "core {} (focus_column_of c i ?s2)"
    by (rule core_focus_column [where w = w]) (use at in \<open>simp add: view_simps\<close>)
  then have core: "core {} (set_focus_to_window m w i c origin s)"
    unfolding set_focus_steps
    by (rule core_upd_workspace_same) (simp_all add: remember_focus_def workspace_entry_ok_def)
  have "focus_ok (set_focus_to_window m w i c origin s)"
    unfolding set_focus_steps focus_ok_upd_workspace
    by (rule focus_okI_window [where m = m and i = i and c = c and w = w])
      (use j at in \<open>simp_all add: view_simps\<close>)
  with core show ?thesis by (rule wfI)
qed

lemma wf_drop_focus:
  assumes ok: "core {} s" and home: "home_view s w = Some m"
  shows "wf (set_active_of_monitor m w (drop_window_focus m origin s))"
proof -
  obtain j where j: "monitor_view s m = Some j" using top_home [OF coreD(2) [OF ok] home] .
  let ?s1 = "drop_window_focus m origin s"
  have "core {} ?s1" unfolding drop_window_focus_def using ok by (rule core_upd_focus) simp
  moreover have "home_view ?s1 w = Some m" "monitor_view ?s1 m = Some j"
    using home j by (simp_all add: drop_window_focus_def)
  ultimately have "core {} (set_active_of_monitor m w ?s1)"
    using core_set_active [of "{}" ?s1 w m j] by simp
  moreover have "focus_ok (set_active_of_monitor m w ?s1)"
    by (rule focus_okI_none [where m = m])
      (use j in \<open>simp_all add: view_simps drop_window_focus_def\<close>)
  ultimately show ?thesis by (rule wfI)
qed

lemma wf_clear_focus:
  assumes ok: "wf s" and m: "monitor_view s m \<noteq> None"
  shows "wf (clear_window_focus m s)"
  unfolding clear_window_focus_def
  by (rule wfI, rule core_upd_focus [OF wfD(1) [OF ok]], simp,
      rule focus_okI_none [where m = m]) (use m in \<open>simp_all add: view_simps\<close>)

end
