(* ===== verification/Store_Normalise.thy ===== *)
theory Store_Normalise
  imports Store_Invariant
begin

text \<open>
  What \<open>normalize_workspace_set\<close> promises: it keeps the invariant, keeps the active workspace,
  and leaves a stack whose last workspace is the only trailing empty one. The steps of the
  normalisation work on a list of ids beside the state, so the invariant of a step is the one of
  the state with that list in place of the stored order (\<open>stack_core\<close>).
\<close>

section \<open>Emptiness over the views\<close>

definition vacant :: "wm_state \<Rightarrow> workspace_id \<Rightarrow> bool" where
  "vacant s w \<longleftrightarrow> (\<forall>c. \<not> in_strip (strip_view s) w c) \<and> (\<forall>i. \<not> floats (float_view s) w i)"

lemma empty_iff_vacant:
  assumes mem: "mem_ok (strip_view s) (float_view s) (column_view s) (window_view s) {}"
  shows "is_workspace_empty s w = vacant s w"
proof (cases "get_workspace s w")
  case None
  then show ?thesis by (simp add: is_workspace_empty_def vacant_def in_strip_def floats_def view_defs)
next
  case (Some ws)
  have col: "get_column s c \<noteq> None \<and> (\<forall>col. get_column s c = Some col \<longrightarrow> col_windows col \<noteq> [])"
    if "c \<in> set (strip_columns (wsp_strip ws))" for c
  proof -
    have "in_strip (strip_view s) w c" using that Some by (simp add: in_strip_def strip_view_def)
    from mem_strip_column [OF mem this] obtain ids a t where *: "column_view s c = Some (ids, a, t)" .
    with mem_column [OF mem *] show ?thesis by (auto simp: column_view_def)
  qed
  have "list_all (\<lambda>c. case get_column s c of None \<Rightarrow> True | Some col \<Rightarrow> col_windows col = [])
          (strip_columns (wsp_strip ws)) \<longleftrightarrow> strip_columns (wsp_strip ws) = []"
    using col by (cases "strip_columns (wsp_strip ws)") (force split: option.splits)+
  then show ?thesis using Some
    by (auto simp: is_workspace_empty_def vacant_def in_strip_def floats_def strip_view_def float_view_def)
qed

lemma vacant_del_other: "v \<noteq> w \<Longrightarrow> vacant (del_workspace w s) v = vacant s v"
  by (simp add: vacant_def strip_view_changes float_view_changes)

lemma vacant_put_other: "v \<noteq> wsp_id x \<Longrightarrow> vacant (put_workspace x s) v = vacant s v"
  by (simp add: vacant_def strip_view_changes float_view_changes)

section \<open>The invariant of a normalisation step\<close>

definition stack_core ::
    "workspace_set_id set \<Rightarrow> workspace_set_id \<Rightarrow> monitor_id \<Rightarrow> workspace_id list \<Rightarrow> workspace_id \<Rightarrow>
     wm_state \<Rightarrow> bool" where
  "stack_core J i m ids a s \<longleftrightarrow>
     mem_ok (strip_view s) (float_view s) (column_view s) (window_view s) {} \<and>
     top_ok (monitor_view s) ((set_view s)(i := Some (m, ids, a))) (home_view s) (active_view s) (insert i J) \<and>
     (\<forall>x. restore_view s x) \<and> counters_ok s \<and> tables_ok s"

lemma stack_coreI:
  assumes "mem_ok (strip_view s) (float_view s) (column_view s) (window_view s) {}"
    "top_ok (monitor_view s) ((set_view s)(i := Some (m, ids, a))) (home_view s) (active_view s) (insert i J)"
    "\<And>x. restore_view s x" "counters_ok s" "tables_ok s"
  shows "stack_core J i m ids a s"
  using assms by (simp add: stack_core_def)

lemma stack_coreD:
  assumes "stack_core J i m ids a s"
  shows "mem_ok (strip_view s) (float_view s) (column_view s) (window_view s) {}"
    "top_ok (monitor_view s) ((set_view s)(i := Some (m, ids, a))) (home_view s) (active_view s) (insert i J)"
    "restore_view s x" "counters_ok s" "tables_ok s"
  using assms by (simp_all add: stack_core_def)

lemma stack_core_start:
  assumes "core J s" "set_view s i = Some (m, ids, a)"
  shows "stack_core J i m ids a s"
  using coreD [OF assms(1)] assms(2) top_ok_mono [OF coreD(2) [OF assms(1)] subset_insertI [of J i]]
  by (intro stack_coreI) (simp_all add: fun_upd_idem)

lemma stack_core_empty_iff: "stack_core J i m ids a s \<Longrightarrow> is_workspace_empty s w = vacant s w"
  by (rule empty_iff_vacant) (rule stack_coreD)

lemma stack_core_distinct: "stack_core J i m ids a s \<Longrightarrow> distinct ids"
  using top_okD(3) [OF stack_coreD(2)] by (metis fun_upd_same)

lemma stack_core_home: "stack_core J i m ids a s \<Longrightarrow> w \<in> set ids \<Longrightarrow> home_view s w = Some m"
  using top_okD(4) [OF stack_coreD(2)] by (metis fun_upd_same)

lemma stack_core_unnamed:
  assumes "stack_core J i m ids a s" "get_workspace s w = Some ws"
  shows "wsp_name ws = None"
  using stack_coreD(5) [OF assms(1)] assms(2) by (auto simp: tables_ok_def workspace_entry_ok_def)

lemma allocate_workspace_views [view_simps, simp]:
  "monitor_view (snd (allocate_workspace_id s)) = monitor_view s"
  "set_view (snd (allocate_workspace_id s)) = set_view s"
  "active_view (snd (allocate_workspace_id s)) = active_view s"
  "focus_view (snd (allocate_workspace_id s)) = focus_view s"
  "home_view (snd (allocate_workspace_id s)) = home_view s"
  "strip_view (snd (allocate_workspace_id s)) = strip_view s"
  "float_view (snd (allocate_workspace_id s)) = float_view s"
  "column_view (snd (allocate_workspace_id s)) = column_view s"
  "window_view (snd (allocate_workspace_id s)) = window_view s"
  "restore_view (snd (allocate_workspace_id s)) = restore_view s"
  by (simp_all add: fun_eq_iff view_defs allocate_workspace_id_def Let_def)

lemma fresh_workspace: "counters_ok s \<Longrightarrow> get_workspace s (fst (allocate_workspace_id s)) = None"
  by (auto simp: counters_ok_def bm_has_def allocate_workspace_id_def Let_def)

lemma counters_add_workspace:
  assumes "counters_ok s" "wsp_id x = fst (allocate_workspace_id s)"
  shows "counters_ok (put_workspace x (snd (allocate_workspace_id s)))"
  using assms by (auto simp: counters_ok_def put_workspace_def allocate_workspace_id_def Let_def less_SucI)

lemma tables_add_workspace:
  assumes "tables_ok s" "workspace_entry_ok (wsp_id x) x"
  shows "tables_ok (put_workspace x (snd (allocate_workspace_id s)))"
  using assms
  by (auto simp: tables_ok_def put_workspace_def allocate_workspace_id_def Let_def bm.ok_insert split: if_splits)

lemma stack_core_add:
  assumes ok: "stack_core J i m ids a s"
  shows "stack_core J i m (ids @ [fst (allocate_workspace_id s)]) a
           (put_workspace (workspace_empty (fst (allocate_workspace_id s)) m n v) (snd (allocate_workspace_id s)))"
    (is "stack_core J i m (ids @ [?w]) a ?t")
proof -
  note D = stack_coreD [OF ok]
  have fresh: "home_view s ?w = None" "strip_view s ?w = None" "float_view s ?w = None"
    using fresh_workspace [OF D(4)] by (simp_all add: view_defs)
  have top: "top_ok (monitor_view s) (((set_view s)(i := Some (m, ids, a)))(i := Some (m, ids @ [?w], a)))
      ((home_view s)(?w := Some m)) (active_view s) (insert i (insert i J))"
    by (rule top_append [OF D(2)]) (simp_all add: fresh)
  show ?thesis
    using D(3) top mem_add_workspace [OF D(1) fresh(2,3)]
      counters_add_workspace [OF D(4), of "workspace_empty ?w m n v"]
      tables_add_workspace [OF D(5), of "workspace_empty ?w m n v"]
    by (intro stack_coreI)
      (simp_all add: home_view_changes strip_view_changes float_view_changes workspace_entry_ok_def i32_max_def)
qed

lemma stack_core_remove:
  assumes ok: "stack_core J i m (xs @ w # ys) a s" and empty: "vacant s w"
  shows "stack_core J i m (xs @ ys) a (del_workspace w s)"
proof -
  note D = stack_coreD [OF ok]
  have top: "top_ok (monitor_view s) (((set_view s)(i := Some (m, xs @ w # ys, a)))(i := Some (m, xs @ ys, a)))
      ((home_view s)(w := None)) (active_view s) (insert i (insert i J))"
    by (rule top_remove [OF D(2)]) simp
  have "counters_ok (del_workspace w s)" "tables_ok (del_workspace w s)"
    using D(4,5) by (auto simp: counters_ok_def tables_ok_def del_workspace_def bm.ok_remove split: if_splits)
  then show ?thesis
    using D(3) top mem_del_workspace [OF D(1), of w] empty
    by (intro stack_coreI) (simp_all add: home_view_changes strip_view_changes float_view_changes vacant_def)
qed

section \<open>What every step leaves alone\<close>

definition norm_frame :: "wm_state \<Rightarrow> wm_state \<Rightarrow> bool" where
  "norm_frame s t \<longleftrightarrow>
     window_view t = window_view s \<and> column_view t = column_view s \<and> monitor_view t = monitor_view s \<and>
     focus_view t = focus_view s \<and> active_view t = active_view s \<and> set_view t = set_view s"

lemma norm_frame_refl [simp]: "norm_frame s s"
  by (simp add: norm_frame_def)

lemma norm_frame_trans: "norm_frame s t \<Longrightarrow> norm_frame t u \<Longrightarrow> norm_frame s u"
  by (simp add: norm_frame_def)

lemma norm_frame_del [simp]: "norm_frame s (del_workspace w t) = norm_frame s t"
  by (simp add: norm_frame_def)

lemma norm_frame_add [simp]: "norm_frame s (put_workspace x (snd (allocate_workspace_id t))) = norm_frame s t"
  by (simp add: norm_frame_def)

lemma norm_frame_upd [simp]: "norm_frame s (upd_workspace w f t) = norm_frame s t"
  by (simp add: norm_frame_def)

lemma vacant_del: "vacant s w \<Longrightarrow> vacant (del_workspace w s) = vacant s"
  by (rule ext) (auto simp: vacant_def strip_view_changes float_view_changes)

lemma vacant_add:
  assumes "home_view s w = None"
  shows "vacant (put_workspace (workspace_empty w m n v) (snd (allocate_workspace_id s))) = vacant s"
  using assms
  by (intro ext) (auto simp: vacant_def strip_view_changes float_view_changes in_strip_def floats_def view_defs)

section \<open>The steps\<close>

lemma norm_retain_spec:
  assumes "stack_core J i m (pre @ ws) a s" "norm_retain (Some a) tl_id ws s = (r, t)"
  shows "stack_core J i m (pre @ r) a t \<and> r = filter (\<lambda>w. \<not> vacant s w \<or> w = a \<or> Some w = tl_id) ws \<and>
    vacant t = vacant s \<and> norm_frame s t"
  using assms
proof (induction ws arbitrary: pre s r t)
  case (Cons w ws)
  have empty: "is_workspace_empty s w = vacant s w" by (rule stack_core_empty_iff [OF Cons.prems(1)])
  have "home_view s w = Some m" by (rule stack_core_home [OF Cons.prems(1)]) simp
  then have name: "case get_workspace s w of None \<Rightarrow> False | Some x \<Rightarrow> wsp_name x = None"
    using stack_core_unnamed [OF Cons.prems(1)] by (auto simp: home_view_def split: option.splits)
  show ?case
  proof (cases "vacant s w \<and> w \<noteq> a \<and> Some w \<noteq> tl_id")
    case True
    then have run: "norm_retain (Some a) tl_id ws (del_workspace w s) = (r, t)"
      using Cons.prems(2) empty name by auto
    have "stack_core J i m (pre @ ws) a (del_workspace w s)"
      by (rule stack_core_remove [OF Cons.prems(1)]) (use True in simp)
    from Cons.IH [OF this run] have IH: "stack_core J i m (pre @ r) a t"
      "r = filter (\<lambda>w. \<not> vacant s w \<or> w = a \<or> Some w = tl_id) ws" "vacant t = vacant s"
      "norm_frame (del_workspace w s) t"
      unfolding vacant_del [OF True [THEN conjunct1]] by blast+
    have "norm_frame s t" using IH(4) by (simp add: norm_frame_def)
    with IH(1-3) True show ?thesis by simp
  next
    case False
    then obtain r' where run: "norm_retain (Some a) tl_id ws s = (r', t)" and r: "r = w # r'"
      using Cons.prems(2) empty name by (auto split: prod.splits)
    have "stack_core J i m ((pre @ [w]) @ ws) a s" using Cons.prems(1) by simp
    from Cons.IH [OF this run] False r show ?thesis by auto
  qed
qed simp

lemma norm_collapse_spec:
  assumes "stack_core J i m ids a s" "norm_collapse ids s = (r, t)" "ids \<noteq> []"
    "\<forall>w \<in> set (butlast ids). w = a \<or> \<not> vacant s w"
  shows "stack_core J i m r a t \<and> vacant t = vacant s \<and> norm_frame s t \<and> r \<noteq> [] \<and> (a \<in> set ids \<longrightarrow> a \<in> set r) \<and>
    (\<exists>ys. ids = r @ ys \<and> (\<forall>w \<in> set ys. vacant s w)) \<and>
    (1 < length r \<longrightarrow> \<not> (vacant s (last r) \<and> vacant s (last (butlast r))))"
  using assms
proof (induction ids s arbitrary: r t rule: norm_collapse.induct)
  case (1 ids s)
  note empty = stack_core_empty_iff [OF 1(2)]
  show ?case
  proof (cases "1 < length ids \<and> vacant s (last ids) \<and> vacant s (last (butlast ids))")
    case True
    then have b: "butlast ids \<noteq> []" "ids = butlast ids @ [last ids]"
      by (auto simp: append_butlast_last_id simp flip: length_greater_0_conv)
    have mem: "last (butlast ids) \<in> set (butlast ids)" using b(1) by simp
    have prev: "last (butlast ids) = a" using 1(5) mem True by blast
    let ?s = "del_workspace (last ids) s"
    have vac: "vacant ?s = vacant s" using True by (simp add: vacant_del)
    have run: "norm_collapse (butlast ids) ?s = (r, t)"
      using 1(3) True empty by (subst (asm) norm_collapse.simps) simp
    have st: "stack_core J i m (butlast ids) a ?s"
      using stack_core_remove [of J i m "butlast ids" "last ids" "[]" a s] 1(2) b(2) True by simp
    have sub: "\<forall>w \<in> set (butlast (butlast ids)). w = a \<or> \<not> vacant ?s w"
      using 1(5) vac by (metis in_set_butlastD)
    have IH: "stack_core J i m r a t \<and> vacant t = vacant ?s \<and> norm_frame ?s t \<and> r \<noteq> [] \<and> (a \<in> set (butlast ids) \<longrightarrow> a \<in> set r) \<and>
      (\<exists>ys. butlast ids = r @ ys \<and> (\<forall>w \<in> set ys. vacant ?s w)) \<and>
      (1 < length r \<longrightarrow> \<not> (vacant ?s (last r) \<and> vacant ?s (last (butlast r))))"
      by (rule 1(1)) (use True empty run st b prev mem sub in auto)
    then obtain ys where "butlast ids = r @ ys" "\<forall>w \<in> set ys. vacant s w" using vac by auto
    then have "ids = r @ (ys @ [last ids]) \<and> (\<forall>w \<in> set (ys @ [last ids]). vacant s w)"
      using b(2) True by (metis append.assoc Un_iff empty_iff insert_iff list.set(1,2) set_append)
    then have ext: "\<exists>ys. ids = r @ ys \<and> (\<forall>w \<in> set ys. vacant s w)" by blast
    have "norm_frame s t" using IH by (simp add: norm_frame_def)
    with ext IH vac prev mem show ?thesis by auto
  next
    case False
    then have "r = ids" "t = s"
      using 1(3) empty by (auto simp: norm_collapse.simps [of ids s])
    with 1 False show ?thesis by auto
  qed
qed

lemma norm_tail_spec:
  assumes ok: "stack_core J i m ids a s" and run: "norm_tail m v ids s = (r, t)" and ne: "ids \<noteq> []"
  shows "stack_core J i m r a t \<and> norm_frame s t \<and> vacant t (last r) \<and>
    (if vacant s (last ids) then r = ids else r = ids @ [last r] \<and> last r \<notin> set ids) \<and>
    vacant t = vacant s"
proof -
  have last: "last_opt ids = Some (last ids)" using ne by (simp add: last_opt_def)
  note empty = stack_core_empty_iff [OF ok]
  show ?thesis
  proof (cases "vacant s (last ids)")
    case True
    then show ?thesis using run last empty ok by (auto simp: norm_tail_def)
  next
    case False
    let ?w = "fst (allocate_workspace_id s)"
    have r: "r = ids @ [?w]"
      "t = put_workspace (workspace_empty ?w m (length ids) v) (snd (allocate_workspace_id s))"
      using False run last empty by (auto simp: norm_tail_def Let_def split: prod.splits)
    have fresh: "home_view s ?w = None"
      using fresh_workspace [OF stack_coreD(4) [OF ok]] by (simp add: view_defs)
    then have new: "?w \<notin> set ids" using stack_core_home [OF ok] by fastforce
    have vac: "vacant t = vacant s"
      unfolding r(2) by (rule vacant_add [OF fresh])
    have "vacant t ?w"
      by (simp add: r(2) vacant_def strip_view_changes float_view_changes)
    then show ?thesis
      using False stack_core_add [OF ok, of "length ids" v] new vac unfolding r
      by (metis last_snoc norm_frame_add norm_frame_refl)
  qed
qed

lemma norm_seed_spec:
  assumes ok: "stack_core J i m ids a s" and run: "norm_seed m v ids s = (r, t)"
  shows "stack_core J i m r a t \<and> norm_frame s t \<and> vacant t = vacant s \<and> r \<noteq> [] \<and>
    (if ids = [] then \<forall>w \<in> set r. vacant s w else r = ids)"
proof (cases "ids = []")
  case True
  let ?w = "fst (allocate_workspace_id s)"
  have r: "r = [] @ [?w]"
    "t = put_workspace (workspace_empty ?w m 0 v) (snd (allocate_workspace_id s))"
    using run True by (auto simp: norm_seed_def Let_def split: prod.splits)
  have fresh: "home_view s ?w = None"
    using fresh_workspace [OF stack_coreD(4) [OF ok]] by (simp add: view_defs)
  then have "vacant s ?w" by (simp add: vacant_def in_strip_def floats_def view_defs)
  then show ?thesis
    using stack_core_add [OF ok, of 0 v] True vacant_add [OF fresh] unfolding r by auto
qed (use assms in \<open>auto simp: norm_seed_def\<close>)

lemma norm_renumber_spec:
  assumes "stack_core J i m ids a s" "set ws \<subseteq> set ids"
  shows "stack_core J i m ids a (norm_renumber m v last_id n ws s) \<and>
    vacant (norm_renumber m v last_id n ws s) = vacant s \<and>
    norm_frame s (norm_renumber m v last_id n ws s)"
  using assms
proof (induction ws arbitrary: n s)
  case (Cons w ws)
  let ?f = "norm_refresh m v last_id n w (is_workspace_empty s w)"
  let ?t = "upd_workspace w ?f s"
  note D = stack_coreD [OF Cons.prems(1)]
  have home: "home_view s w = Some m" by (rule stack_core_home [OF Cons.prems(1)]) (use Cons.prems(2) in simp)
  have views: "strip_view ?t = strip_view s" "float_view ?t = float_view s"
    by (simp_all add: view_upd_same norm_refresh_def)
  have hv: "home_view ?t = home_view s"
    using home by (auto simp: home_view_changes norm_refresh_def home_view_def fun_eq_iff)
  have tab: "tables_ok ?t"
    by (rule tables_ok_upd_workspace [OF D(5)]) (simp add: workspace_entry_ok_def norm_refresh_def)
  have "stack_core J i m ids a ?t"
    using D tab by (intro stack_coreI) (simp_all add: views hv)
  moreover have "vacant ?t = vacant s" by (intro ext) (simp add: vacant_def views)
  moreover have "norm_frame s u" if "norm_frame ?t u" for u
    by (rule norm_frame_trans [OF _ that]) simp
  ultimately show ?case
    using Cons.IH [of ?t "Suc n"] Cons.prems(2) by simp
qed simp

lemma norm_commit_views:
  assumes set: "set_view s i = Some (m, ids0, a)" and a': "a' = (if a \<in> set ids then a else ids ! 0)"
  shows "set_view (norm_commit i m l ids s) = (set_view s)(i := Some (m, ids, a'))"
    and "active_view (norm_commit i m l ids s) = (active_view s)(m := Some a')"
    and "focus_view (norm_commit i m l ids s) = focus_view s"
    and "monitor_view (norm_commit i m l ids s) = monitor_view s"
    and "home_view (norm_commit i m l ids s) = home_view s"
    and "strip_view (norm_commit i m l ids s) = strip_view s"
    and "float_view (norm_commit i m l ids s) = float_view s"
    and "column_view (norm_commit i m l ids s) = column_view s"
    and "window_view (norm_commit i m l ids s) = window_view s"
    and "restore_view (norm_commit i m l ids s) = restore_view s"
    and "counters_ok (norm_commit i m l ids s) = counters_ok s"
    and "tables_ok (norm_commit i m l ids s) = tables_ok s"
proof -
  obtain x where x: "get_set s i = Some x" "wset_monitor_id x = m" "wset_active x = a"
    using set by (auto simp: set_view_def)
  have act: "(case filter_opt (\<lambda>w. w \<in> set ids) (map_option wset_active (get_set s i)) of
      Some w \<Rightarrow> w | None \<Rightarrow> ids ! 0) = a'"
    using x a' by (simp add: filter_opt_def)
  have commit: "norm_commit i m l ids s = set_active_on_monitor m a'
      (upd_set i (\<lambda>x. x\<lparr>wset_ordered := ids, wset_active := a', wset_last_non_empty := l\<rparr>) s)"
    by (simp only: norm_commit_def act Let_def)
  show "set_view (norm_commit i m l ids s) = (set_view s)(i := Some (m, ids, a'))"
    "active_view (norm_commit i m l ids s) = (active_view s)(m := Some a')"
    using x by (simp_all add: commit set_active_on_monitor_def set_view_upd_set focus_view_upd_focus)
      (simp add: active_view_def upd_set_def)
  show "focus_view (norm_commit i m l ids s) = focus_view s"
    "monitor_view (norm_commit i m l ids s) = monitor_view s"
    "home_view (norm_commit i m l ids s) = home_view s"
    "strip_view (norm_commit i m l ids s) = strip_view s"
    "float_view (norm_commit i m l ids s) = float_view s"
    "column_view (norm_commit i m l ids s) = column_view s"
    "window_view (norm_commit i m l ids s) = window_view s"
    "restore_view (norm_commit i m l ids s) = restore_view s"
    "counters_ok (norm_commit i m l ids s) = counters_ok s"
    "tables_ok (norm_commit i m l ids s) = tables_ok s"
    by (simp_all add: commit set_active_on_monitor_def)
      (simp add: focus_view_def upd_focus_def upd_set_def)
qed

lemma core_commit:
  assumes ok: "stack_core J i m ids a s" and set: "set_view s i = Some (m, ids0, a)" and ne: "ids \<noteq> []"
  shows "core (J - {i}) (norm_commit i m l ids s)"
proof -
  let ?a = "if a \<in> set ids then a else ids ! 0"
  note D = stack_coreD [OF ok]
  have "top_ok (monitor_view s) (((set_view s)(i := Some (m, ids, a)))(i := Some (m, ids, ?a)))
      (home_view s) ((active_view s)(m := Some ?a)) (insert i J - {i})"
    by (rule top_activate [OF D(2)]) (use ne in auto)
  moreover have "insert i J - {i} = J - {i}" by auto
  ultimately show ?thesis
    using D norm_commit_views [OF set refl] by (intro coreI) simp_all
qed

section \<open>The whole normalisation\<close>

text \<open>A tidy stack ends in its only trailing empty workspace; no other one is empty but the active.\<close>

definition tidy :: "wm_state \<Rightarrow> workspace_id list \<Rightarrow> workspace_id \<Rightarrow> bool" where
  "tidy s ids a \<longleftrightarrow>
     ids \<noteq> [] \<and> distinct ids \<and> is_workspace_empty s (last ids) \<and>
     (\<forall>w \<in> set (butlast ids). w = a \<or> \<not> is_workspace_empty s w) \<and>
     (1 < length ids \<longrightarrow> \<not> is_workspace_empty s (last (butlast ids)))"

lemma normalize_steps:
  assumes set: "set_view s i = Some (m, ids0, a)" and ok: "core J s"
  obtains ids t l where
    "normalize_workspace_set i s = norm_commit i m l ids t"
    "stack_core J i m ids a t" "norm_frame s t" "vacant t = vacant s" "ids \<noteq> []"
    "a \<in> set ids0 \<longrightarrow> a \<in> set ids"
    "filter (\<lambda>w. \<not> vacant s w) ids = filter (\<lambda>w. \<not> vacant s w) ids0"
    "vacant s (last ids)" "\<forall>w \<in> set (butlast ids). w = a \<or> \<not> vacant s w"
    "1 < length ids \<longrightarrow> \<not> vacant s (last (butlast ids))"
proof -
  obtain x where x: "get_set s i = Some x" "wset_monitor_id x = m" "wset_ordered x = ids0" "wset_active x = a"
    using set by (auto simp: set_view_def)
  define v where "v = (case get_monitor s m of None \<Rightarrow> rect_default | Some mon \<Rightarrow> mon_work_area_rect mon)"
  obtain ids1 s1 where seed: "norm_seed m v ids0 s = (ids1, s1)" by fastforce
  obtain ids2 s2 where retain: "norm_retain (Some a) (last_opt ids1) ids1 s1 = (ids2, s2)" by fastforce
  obtain ids3 s3 where collapse: "norm_collapse ids2 s2 = (ids3, s3)" by fastforce
  obtain ids4 s4 where tail: "norm_tail m v ids3 s3 = (ids4, s4)" by fastforce
  define l where "l = find (\<lambda>w. \<not> is_workspace_empty s4 w) (rev ids4)"
  define t where "t = norm_renumber m v (last_opt ids4) 0 ids4 s4"
  have run: "normalize_workspace_set i s = norm_commit i m l ids4 t"
    using x seed retain collapse tail by (simp add: normalize_workspace_set_def v_def l_def t_def)
  have st0: "stack_core J i m ids0 a s" by (rule stack_core_start [OF ok set])
  have st1: "stack_core J i m ids1 a s1" "norm_frame s s1" "vacant s1 = vacant s" "ids1 \<noteq> []"
    "if ids0 = [] then \<forall>w \<in> set ids1. vacant s w else ids1 = ids0"
    using norm_seed_spec [OF st0 seed] by blast+
  have "stack_core J i m ([] @ ids1) a s1" using st1(1) by simp
  from norm_retain_spec [OF this retain]
  have st2: "stack_core J i m ids2 a s2" "norm_frame s1 s2" "vacant s2 = vacant s"
    and ids2: "ids2 = filter (\<lambda>w. \<not> vacant s w \<or> w = a \<or> Some w = last_opt ids1) ids1"
    unfolding st1(3) append_Nil by blast+
  have d1: "distinct ids1" by (rule stack_core_distinct [OF st1(1)])
  obtain pre z where pz: "ids1 = pre @ [z]" using st1(4) by (cases ids1 rule: rev_cases) auto
  have ids2': "ids2 = filter (\<lambda>w. \<not> vacant s w \<or> w = a) pre @ [z]"
    using d1 unfolding ids2 pz by (auto intro!: filter_cong)
  have ne2: "ids2 \<noteq> []" "\<forall>w \<in> set (butlast ids2). w = a \<or> \<not> vacant s w"
    by (auto simp: ids2')
  from norm_collapse_spec [OF st2(1) collapse ne2(1)] ne2(2)
  obtain ys where st3: "stack_core J i m ids3 a s3" "norm_frame s2 s3" "vacant s3 = vacant s" "ids3 \<noteq> []"
    "a \<in> set ids2 \<longrightarrow> a \<in> set ids3" "ids2 = ids3 @ ys" "\<forall>w \<in> set ys. vacant s w"
    "1 < length ids3 \<longrightarrow> \<not> (vacant s (last ids3) \<and> vacant s (last (butlast ids3)))"
    unfolding st2(3) by blast
  from norm_tail_spec [OF st3(1) tail st3(4)]
  have st4: "stack_core J i m ids4 a s4" "norm_frame s3 s4" "vacant s4 = vacant s" "vacant s (last ids4)"
    "if vacant s (last ids3) then ids4 = ids3 else ids4 = ids3 @ [last ids4] \<and> last ids4 \<notin> set ids3"
    unfolding st3(3) by (auto simp: st3(3))
  from norm_renumber_spec [OF st4(1) subset_refl, of v "last_opt ids4" 0]
  have st5: "stack_core J i m ids4 a t" "norm_frame s4 t" "vacant t = vacant s"
    unfolding t_def st4(3) by simp_all
  have frame: "norm_frame s t"
    using st1(2) st2(2) st3(2) st4(2) st5(2) by (meson norm_frame_trans)
  have but3: "\<forall>w \<in> set (butlast ids3). w = a \<or> \<not> vacant s w"
    using ne2(2) st3(4) by (auto simp: st3(6) butlast_append split: if_splits dest: in_set_butlastD)
  have filt: "filter (\<lambda>w. \<not> vacant s w) ids4 = filter (\<lambda>w. \<not> vacant s w) ids0"
  proof -
    have "filter (\<lambda>w. \<not> vacant s w) ids4 = filter (\<lambda>w. \<not> vacant s w) ids3"
      using st4(4,5) by (metis append_Nil2 filter.simps filter_append)
    also have "\<dots> = filter (\<lambda>w. \<not> vacant s w) ids2"
      using st3(7) by (simp add: st3(6))
    also have "\<dots> = filter (\<lambda>w. \<not> vacant s w) ids1"
      unfolding ids2 filter_filter by (rule filter_cong) auto
    also have "\<dots> = filter (\<lambda>w. \<not> vacant s w) ids0"
      using st1(5) by (auto split: if_splits simp: filter_empty_conv)
    finally show ?thesis .
  qed
  have act: "a \<in> set ids0 \<longrightarrow> a \<in> set ids4"
  proof
    assume "a \<in> set ids0"
    then have "a \<in> set ids2" using st1(5) by (auto simp: ids2 split: if_splits)
    then show "a \<in> set ids4" using st3(5) st4(5) by (metis Un_iff set_append)
  qed
  have but4: "\<forall>w \<in> set (butlast ids4). w = a \<or> \<not> vacant s w"
  proof (cases "vacant s (last ids3)")
    case True
    then show ?thesis using st4(5) but3 by simp
  next
    case False
    then have "butlast ids4 = ids3" using st4(5) by (metis butlast_snoc)
    moreover have "w \<in> set (butlast ids3) \<or> w = last ids3" if "w \<in> set ids3" for w
      using that st3(4) by (metis append_butlast_last_id in_set_conv_decomp_first set_ConsD
          Un_iff set_append empty_iff empty_set)
    ultimately show ?thesis using but3 False by auto
  qed
  have two: "1 < length ids4 \<longrightarrow> \<not> vacant s (last (butlast ids4))"
  proof (cases "vacant s (last ids3)")
    case True
    then show ?thesis using st4(5) st3(8) by simp
  next
    case False
    then show ?thesis using st4(5) by (metis butlast_snoc)
  qed
  have "ids4 \<noteq> []" using st3(4) st4(5) by (auto split: if_splits)
  from that [OF run st5(1) frame st5(3) this act filt st4(4) but4 two] show ?thesis .
qed

lemma vacant_cong: "strip_view t = strip_view s \<Longrightarrow> float_view t = float_view s \<Longrightarrow> vacant t = vacant s"
  by (rule ext) (simp add: vacant_def)

lemma normalize_spec:
  assumes ok: "core J s" and set: "set_view s i = Some (m, ids0, a)"
  obtains ids a' where
    "core (J - {i}) (normalize_workspace_set i s)"
    "set_view (normalize_workspace_set i s) = (set_view s)(i := Some (m, ids, a'))"
    "active_view (normalize_workspace_set i s) = (active_view s)(m := Some a')"
    "a \<in> set ids0 \<Longrightarrow> a' = a" "a' \<in> set ids"
    "tidy (normalize_workspace_set i s) ids a"
    "filter (\<lambda>w. \<not> is_workspace_empty s w) ids = filter (\<lambda>w. \<not> is_workspace_empty s w) ids0"
    "\<And>w. is_workspace_empty (normalize_workspace_set i s) w = is_workspace_empty s w"
    "focus_view (normalize_workspace_set i s) = focus_view s"
    "monitor_view (normalize_workspace_set i s) = monitor_view s"
    "window_view (normalize_workspace_set i s) = window_view s"
    "column_view (normalize_workspace_set i s) = column_view s"
proof -
  obtain ids t l where run: "normalize_workspace_set i s = norm_commit i m l ids t"
    and t: "stack_core J i m ids a t" "norm_frame s t" "vacant t = vacant s" "ids \<noteq> []"
    and act: "a \<in> set ids0 \<longrightarrow> a \<in> set ids"
    and filt: "filter (\<lambda>w. \<not> vacant s w) ids = filter (\<lambda>w. \<not> vacant s w) ids0"
    and last: "vacant s (last ids)" "\<forall>w \<in> set (butlast ids). w = a \<or> \<not> vacant s w"
      "1 < length ids \<longrightarrow> \<not> vacant s (last (butlast ids))"
    using normalize_steps [OF set ok] .
  have fr: "set_view t = set_view s" "active_view t = active_view s" "focus_view t = focus_view s"
    "monitor_view t = monitor_view s" "window_view t = window_view s" "column_view t = column_view s"
    using t(2) by (simp_all add: norm_frame_def)
  have set': "set_view t i = Some (m, ids0, a)" using set fr(1) by simp
  let ?a = "if a \<in> set ids then a else ids ! 0"
  note V = norm_commit_views [OF set' refl, where ids = ids and l = l]
  have core: "core (J - {i}) (norm_commit i m l ids t)" by (rule core_commit [OF t(1) set' t(4)])
  have vac: "vacant (norm_commit i m l ids t) = vacant s"
    using vacant_cong [OF V(6,7)] t(3) by simp
  have empty: "is_workspace_empty (norm_commit i m l ids t) w = vacant s w" for w
    using empty_iff_vacant [OF coreD(1) [OF core]] vac by simp
  have empty0: "is_workspace_empty s w = vacant s w" for w
    using empty_iff_vacant [OF coreD(1) [OF ok]] .
  show ?thesis
  proof (rule that [of ids ?a], unfold run)
    show "core (J - {i}) (norm_commit i m l ids t)" by (rule core)
    show "tidy (norm_commit i m l ids t) ids a"
      using t(4) last stack_core_distinct [OF t(1)] by (simp add: tidy_def empty)
    show "?a \<in> set ids" using t(4) by auto
  qed (use V fr act filt empty empty0 in auto)
qed

text \<open>Normalising a set that is not being edited changes no view the focus depends on.\<close>

lemma wf_normalize:
  assumes ok: "wf s"
  shows "wf (normalize_workspace_set i s) \<and> active_view (normalize_workspace_set i s) = active_view s \<and>
    window_view (normalize_workspace_set i s) = window_view s \<and>
    column_view (normalize_workspace_set i s) = column_view s \<and>
    monitor_view (normalize_workspace_set i s) = monitor_view s \<and>
    focus_view (normalize_workspace_set i s) = focus_view s"
proof (cases "set_view s i")
  case None
  then show ?thesis using ok by (simp add: normalize_workspace_set_def set_view_def)
next
  case (Some p)
  then obtain m ids0 a where set: "set_view s i = Some (m, ids0, a)" by (cases p) auto
  note D = top_okD [OF coreD(2) [OF wfD(1) [OF ok]]]
  have a: "a \<in> set ids0" "active_view s m = Some a" using D(5) [OF set] by auto
  show ?thesis
  proof (rule normalize_spec [OF wfD(1) [OF ok] set])
    fix ids a'
    assume *: "core ({} - {i}) (normalize_workspace_set i s)"
      "active_view (normalize_workspace_set i s) = (active_view s)(m := Some a')"
      "a \<in> set ids0 \<Longrightarrow> a' = a"
      "focus_view (normalize_workspace_set i s) = focus_view s"
      "monitor_view (normalize_workspace_set i s) = monitor_view s"
      "window_view (normalize_workspace_set i s) = window_view s"
      "column_view (normalize_workspace_set i s) = column_view s"
    have act: "active_view (normalize_workspace_set i s) = active_view s"
      using * a by (simp add: fun_upd_idem)
    have "focus_ok (normalize_workspace_set i s)"
      using focus_ok_cong [OF *(4,5,6) act] wfD(2) [OF ok] by simp
    then show ?thesis using * act by (simp add: wf_def)
  qed
qed

lemma ensure_tail_state:
  "snd (ensure_tail_workspace m s) =
     (case monitor_view s m of None \<Rightarrow> s | Some i \<Rightarrow> normalize_workspace_set i s)"
  by (simp add: ensure_tail_workspace_def workspace_set_id_for_monitor_def monitor_view_def Let_def
      split: option.splits)

lemma wf_ensure_tail: "wf s \<Longrightarrow> wf (snd (ensure_tail_workspace m s))"
  using wf_normalize by (auto simp: ensure_tail_state split: option.splits)

end
