(* ===== verification/Store_Moves.thy ===== *)
theory Store_Moves
  imports Store_Normalise
begin

text \<open>
  Windows on the move. Restoring, raising and discovering a window all take the same steps: the
  window is loose (in no column and no floating layer), its new place is written, which leaves it
  poised, and then its own entry is written, which brings the invariant back.
\<close>

section \<open>Loose and poised windows\<close>

definition sound :: "wm_state \<Rightarrow> bool" where
  "sound s \<longleftrightarrow> top_ok (monitor_view s) (set_view s) (home_view s) (active_view s) {} \<and>
     (\<forall>i. restore_view s i) \<and> counters_ok s \<and> tables_ok s"

definition loose :: "window_id \<Rightarrow> wm_state \<Rightarrow> bool" where
  "loose i s \<longleftrightarrow> sound s \<and>
     (\<exists>X. X \<subseteq> {i} \<and> (i \<in> X \<or> window_view s i = None) \<and>
       mem_ok (strip_view s) (float_view s) (column_view s) (window_view s) X)"

definition poised :: "window_id \<Rightarrow> workspace_id \<Rightarrow> column_id option \<Rightarrow> bool \<Rightarrow> wm_state \<Rightarrow> bool" where
  "poised i w c mg s \<longleftrightarrow> sound s \<and>
     mem_ok (strip_view s) (float_view s) (column_view s) ((window_view s)(i := Some (w, c, mg))) {}"

text \<open>What placing a window leaves alone.\<close>

definition move_frame :: "wm_state \<Rightarrow> wm_state \<Rightarrow> bool" where
  "move_frame s t \<longleftrightarrow>
     home_view t = home_view s \<and> monitor_view t = monitor_view s \<and> set_view t = set_view s \<and>
     active_view t = active_view s \<and> focus_view t = focus_view s \<and> windows t = windows s \<and>
     rs_next_window_id (runtime t) = rs_next_window_id (runtime s)"

lemma core_sound: "core {} s \<longleftrightarrow> sound s \<and> mem_ok (strip_view s) (float_view s) (column_view s) (window_view s) {}"
  by (auto simp: core_def sound_def)

lemma move_frame_refl [simp]: "move_frame s s"
  by (simp add: move_frame_def)

lemma move_frame_trans: "move_frame s t \<Longrightarrow> move_frame t u \<Longrightarrow> move_frame s u"
  by (simp add: move_frame_def)

lemma move_frame_window_view: "move_frame s t \<Longrightarrow> window_view t = window_view s"
  by (simp add: move_frame_def window_view_def fun_eq_iff)

lemma move_frame_restore_view: "move_frame s t \<Longrightarrow> restore_view t = restore_view s"
  by (simp add: move_frame_def restore_view_def fun_eq_iff)

lemma loose_fresh: "core {} s \<Longrightarrow> window_view s i = None \<Longrightarrow> loose i s"
  unfolding loose_def core_sound by blast

lemma looseE:
  assumes "loose i s"
  obtains X where "X - {i} = {}" "i \<in> X \<or> window_view s i = None"
    "mem_ok (strip_view s) (float_view s) (column_view s) (window_view s) X"
  using assms unfolding loose_def by blast

lemma move_frame_sound:
  assumes "move_frame s t" "sound s" "counters_ok t" "tables_ok t"
  shows "sound t"
  using assms move_frame_restore_view [OF assms(1)] by (simp add: sound_def move_frame_def)

section \<open>Writing the entry of a window\<close>

lemma poised_upd_window:
  assumes p: "poised i w c mg s" and win: "get_window s i = Some win" and f: "win_id (f win) = win_id win"
    "win_workspace_id (f win) = w" "win_column_id (f win) = c" "win_is_managed (f win) = mg"
    "case win_restore_target (f win) of None \<Rightarrow> True | Some target \<Rightarrow> rt_workspace_id target = w \<and> c = None"
  shows "core {} (upd_window i f s)"
proof -
  have wv: "window_view (upd_window i f s) = (window_view s)(i := Some (w, c, mg))"
    using win f by (simp add: window_view_changes)
  have rv: "restore_view (upd_window i f s) j" for j
    using p f win by (auto simp: poised_def sound_def restore_view_def upd_window_def split: option.splits)
  have "tables_ok (upd_window i f s)"
    using p f(1) win by (auto simp: poised_def sound_def tables_ok_def upd_window_def split: if_splits)
  with p wv rv show ?thesis by (simp add: core_def poised_def sound_def)
qed

lemma poised_put_window:
  assumes p: "poised i w c mg s" and node: "win_id node = i" "win_workspace_id node = w"
    "win_column_id node = c" "win_is_managed node = mg" "win_restore_target node = None"
    and i: "raw_window_id i < rs_next_window_id (runtime s)"
  shows "core {} (put_window node s)"
proof -
  have wv: "window_view (put_window node s) = (window_view s)(i := Some (w, c, mg))"
    using node by (simp add: window_view_changes)
  have rv: "restore_view (put_window node s) j" for j
    using p node by (auto simp: poised_def sound_def restore_view_def put_window_def split: option.splits)
  have "tables_ok (put_window node s)" "counters_ok (put_window node s)"
    using p node i by (auto simp: poised_def sound_def tables_ok_def counters_ok_def put_window_def bm.ok_insert
        split: if_splits)
  with p wv rv show ?thesis by (simp add: core_def poised_def sound_def)
qed

section \<open>Placing a loose window\<close>

lemma push_floating_views:
  assumes ws: "get_workspace s w = Some ws"
  defines "ids \<equiv> fl_windows (wsp_floating ws)"
  shows "float_view (upd_workspace w (push_floating i) s) =
      (float_view s)(w := Some (if i \<in> set ids then ids else ids @ [i]))"
    and "strip_view (upd_workspace w (push_floating i) s) = strip_view s"
    and "home_view (upd_workspace w (push_floating i) s) = home_view s"
  using ws by (simp_all add: ids_def float_view_changes view_upd_same push_floating_def Let_def)

lemma poised_push_floating:
  assumes l: "loose i s" and w: "get_workspace s w = Some ws"
  shows "poised i w None mg (upd_workspace w (push_floating i) s)"
    and "move_frame s (upd_workspace w (push_floating i) s)"
proof -
  let ?t = "upd_workspace w (push_floating i) s"
  note V = push_floating_views [OF w, of i]
  show frame: "move_frame s ?t" using V by (simp add: move_frame_def) (simp add: upd_workspace_def)
  obtain X where X: "X - {i} = {}" "i \<in> X \<or> window_view s i = None"
    "mem_ok (strip_view s) (float_view s) (column_view s) (window_view s) X" using looseE [OF l] .
  have snd: "sound s" using l by (simp add: loose_def)
  have "tables_ok ?t"
    by (rule tables_ok_upd_workspace)
      (use snd in \<open>auto simp: sound_def workspace_entry_ok_def push_floating_def Let_def\<close>)
  then have "sound ?t" using move_frame_sound [OF frame snd] snd by (simp add: sound_def)
  moreover have "mem_ok (strip_view ?t) (float_view ?t) (column_view ?t) ((window_view ?t)(i := Some (w, None, mg))) {}"
    using mem_land_float [OF X(3,2) view_values(3) [OF w], of mg] V X(1) by simp
  ultimately show "poised i w None mg ?t" by (simp add: poised_def)
qed

text \<open>Both ways of pushing a window into an existing column append it when it is loose.\<close>

lemma append_window_fields:
  "col_windows (append_window i col) = col_windows col @ [i]"
  "col_active (append_window i col) = (if col_active col = None then Some i else col_active col)"
  "col_tab_selection (append_window i col) = (if col_mode col = Tabbed then Some i else col_tab_selection col)"
  by (simp_all add: append_window_def adopt_window_def Let_def)

lemma restore_is_append: "i \<notin> set (col_windows col) \<Longrightarrow> restore_to_column i col = append_window i col"
  by (simp add: restore_to_column_def append_window_def)

lemma poised_append:
  assumes l: "loose i s" and w: "in_strip (strip_view s) w c" and col: "get_column s c = Some col"
    and f: "f col = append_window i col"
  shows "poised i w (Some c) mg (upd_column c f s)" and "move_frame s (upd_column c f s)"
proof -
  let ?t = "upd_column c f s"
  show frame: "move_frame s ?t" by (simp add: move_frame_def) (simp add: upd_column_def)
  obtain X where X: "X - {i} = {}" "i \<in> X \<or> window_view s i = None"
    "mem_ok (strip_view s) (float_view s) (column_view s) (window_view s) X" using looseE [OF l] .
  have snd: "sound s" using l by (simp add: loose_def)
  then have "sound ?t" using move_frame_sound [OF frame] by (simp add: sound_def)
  moreover have "column_view ?t = (column_view s)(c := Some (col_windows col @ [i],
      if col_active col = None then Some i else col_active col,
      if col_mode col = Tabbed then Some i else col_tab_selection col))"
    using col f by (simp add: column_view_changes append_window_fields)
  moreover have "set_option (if col_active col = None then Some i else col_active col) \<subseteq> insert i (set (col_windows col))"
    "set_option (if col_mode col = Tabbed then Some i else col_tab_selection col) \<subseteq> insert i (set (col_windows col))"
    using mem_column [OF X(3) view_values(4) [OF col]] by auto
  ultimately show "poised i w (Some c) mg ?t"
    using mem_land_column [OF X(3,2) w view_values(4) [OF col],
        of "if col_active col = None then Some i else col_active col"
           "if col_mode col = Tabbed then Some i else col_tab_selection col" mg] X(1)
    by (simp add: poised_def)
qed

text \<open>A new column gets a fresh id, and the viewport lookup before it is placed cannot fail.\<close>

lemma place_new_column_fields:
  "wsp_monitor_id (place_new_column r c v g ws) = wsp_monitor_id ws"
  "fl_windows (wsp_floating (place_new_column r c v g ws)) = fl_windows (wsp_floating ws)"
  "strip_columns (wsp_strip (place_new_column r c v g ws)) =
     insert_at (insert_column_index r (strip_columns (wsp_strip ws))) c (strip_columns (wsp_strip ws))"
  by (simp_all add: place_new_column_def Let_def)

lemma place_new_column_entry: "workspace_entry_ok w ws \<Longrightarrow> workspace_entry_ok w (place_new_column r c v g ws)"
  using sat_add_clip_range
  by (simp add: workspace_entry_ok_def place_new_column_def Let_def)

lemma insert_new_column_poised:
  assumes l: "loose i s" and home: "home_view s w = Some m"
  obtains c t where "insert_new_column w i request s = (Inr c, t)"
    "\<And>mg. poised i w (Some c) mg t" "move_frame s t" "config t = config s"
proof -
  define c where "c = ColumnId (rs_next_column_id (runtime s))"
  define s1 where "s1 = s\<lparr>runtime := (runtime s)\<lparr>rs_next_column_id := rs_next_column_id (runtime s) + 1\<rparr>,
      layout := (layout s)\<lparr>lay_columns := bm_put c (column_new c (ncr_mode request)
          (ncr_width_semantics request) [i]) (lay_columns (layout s))\<rparr>\<rparr>"
  have snd: "sound s" using l by (simp add: loose_def)
  obtain X where X: "X - {i} = {}" "i \<in> X \<or> window_view s i = None"
    "mem_ok (strip_view s) (float_view s) (column_view s) (window_view s) X" using looseE [OF l] .
  obtain ws where ws: "get_workspace s w = Some ws" "wsp_monitor_id ws = m"
    using home by (auto simp: home_view_def)
  obtain mon where mon: "get_monitor s m = Some mon"
    using top_home [of "monitor_view s" "set_view s" "home_view s" "active_view s" "{}" w m] snd home
    by (auto simp: sound_def monitor_view_def)
  define vp where "vp = padded_tiled_viewport (mon_work_area_rect mon) (config s)"
  define t where "t = upd_workspace w (place_new_column request c (rect_width vp)
      (sp_column_gap (cfg_layout_spacing (config s)))) s1"
  have run: "insert_new_column w i request s = (Inr c, t)"
    using ws mon
    by (simp add: insert_new_column_def act_defs allocate_column_id_def workspace_tiled_viewport_def
        find_workspace_def find_monitor_def t_def s1_def vp_def c_def Let_def)
  have V1: "home_view s1 = home_view s" "strip_view s1 = strip_view s" "float_view s1 = float_view s"
    "monitor_view s1 = monitor_view s" "set_view s1 = set_view s" "active_view s1 = active_view s"
    "focus_view s1 = focus_view s" "windows s1 = windows s"
    "column_view s1 = (column_view s)(c := Some ([i], Some i, Some i))"
    by (simp_all add: s1_def view_defs fun_eq_iff)
  have frame: "move_frame s t"
    unfolding move_frame_def t_def
    by (simp add: view_upd_same place_new_column_fields V1)
      (simp add: upd_workspace_def s1_def)
  have fresh: "column_view s c = None"
    using snd by (auto simp: sound_def counters_ok_def column_view_def c_def bm_has_def)
  have "counters_ok s1" using snd
    by (auto simp: sound_def counters_ok_def s1_def c_def less_SucI)
  moreover have "tables_ok s1" using snd by (auto simp: sound_def tables_ok_def s1_def bm.ok_insert)
  ultimately have "counters_ok t" "tables_ok t"
    unfolding t_def by (simp_all add: tables_ok_upd_workspace place_new_column_entry)
  then have snd': "sound t" by (rule move_frame_sound [OF frame snd])
  let ?n = "insert_column_index request (strip_columns (wsp_strip ws))"
  have V: "strip_view t = (strip_view s)(w := Some (insert_at ?n c (strip_columns (wsp_strip ws))))"
    "float_view t = float_view s" "column_view t = (column_view s)(c := Some ([i], Some i, Some i))"
    "window_view t = window_view s"
    using ws V1 move_frame_window_view [OF frame] unfolding t_def
    by (simp_all add: strip_view_changes view_upd_same place_new_column_fields)
      (simp add: s1_def place_new_column_fields)
  have "poised i w (Some c) mg t" for mg
    using mem_land_new_column [OF X(3,2) view_values(2) [OF ws(1)] fresh, of ?n mg] X(1) snd' V
    by (simp add: poised_def)
  moreover have "config t = config s" by (simp add: t_def s1_def upd_workspace_def)
  ultimately show ?thesis using that run frame by blast
qed

section \<open>Taking a window out of its place\<close>

lemma detach_from_column_fields:
  defines "left ids i \<equiv> filter (\<lambda>x. x \<noteq> i) ids"
  defines "tab col i \<equiv> (if col_tab_selection col = Some i then first (left (col_windows col) i) else col_tab_selection col)"
  shows "col_windows (detach_from_column i col) = left (col_windows col) i"
    and "col_tab_selection (detach_from_column i col) = tab col i"
    and "col_active (detach_from_column i col) =
      (if col_active col = Some i then or_opt (tab col i) (first (left (col_windows col) i)) else col_active col)"
  by (simp_all add: detach_from_column_def Let_def left_def tab_def)

lemma detach_selections:
  assumes "set_option (col_active col) \<subseteq> set (col_windows col)"
    "set_option (col_tab_selection col) \<subseteq> set (col_windows col)"
  shows "set_option (col_active (detach_from_column i col)) \<subseteq> set (col_windows col) - {i}"
    and "set_option (col_tab_selection (detach_from_column i col)) \<subseteq> set (col_windows col) - {i}"
  using assms unfolding detach_from_column_fields
  by (auto simp: or_opt_def dest!: first_Some_in split: if_splits option.splits)

lemma detach_window_spec:
  assumes ok: "core {} s" and win: "get_window s i = Some win"
    and ws: "get_workspace s (win_workspace_id win) = Some ws"
  obtains t where "detach_window_membership i s = (Inr (), t)" "loose i t" "move_frame s t"
    "config t = config s" "\<And>v c. in_strip (strip_view t) v c \<Longrightarrow> in_strip (strip_view s) v c"
proof -
  note mem = coreD(1) [OF ok]
  have snd: "sound s" using ok by (simp add: core_sound)
  let ?w = "win_workspace_id win"
  have at: "located (window_view s) i ?w (win_column_id win)"
    using view_values(5) [OF win] by (simp add: located_def)
  show ?thesis
  proof (cases "win_column_id win")
    case None
    let ?t = "upd_workspace ?w (detach_from_floating i) s"
    have run: "detach_window_membership i s = (Inr (), ?t)"
      using None win ws by (simp add: detach_window_membership_def act_defs find_window_def find_workspace_def)
    have V: "home_view ?t = home_view s" "strip_view ?t = strip_view s"
      "float_view ?t = (float_view s)(?w := Some (filter (\<lambda>x. x \<noteq> i) (fl_windows (wsp_floating ws))))"
      using ws by (simp_all add: view_upd_same float_view_changes detach_from_floating_def)
    have frame: "move_frame s ?t" using V by (simp add: move_frame_def) (simp add: upd_workspace_def)
    have "tables_ok ?t"
      by (rule tables_ok_upd_workspace)
        (use snd in \<open>auto simp: sound_def workspace_entry_ok_def detach_from_floating_def\<close>)
    then have "sound ?t" using move_frame_sound [OF frame snd] snd by (simp add: sound_def)
    moreover have "mem_ok (strip_view ?t) (float_view ?t) (column_view ?t) (window_view ?t) {i}"
      using mem_lift_float [OF mem _ view_values(3) [OF ws], of i] at None V by simp
    ultimately have "loose i ?t" unfolding loose_def by blast
    then show ?thesis using that run frame V by (auto simp: upd_workspace_def)
  next
    case (Some c)
    have has: "column_has (column_view s) c i" using mem_window_column [OF mem] at Some by simp
    then obtain col where col: "get_column s c = Some col" by (auto simp: column_has_def column_view_def)
    note cv = view_values(4) [OF col]
    have sel: "set_option (col_active (detach_from_column i col)) \<subseteq> set (col_windows col) - {i}"
      "set_option (col_tab_selection (detach_from_column i col)) \<subseteq> set (col_windows col) - {i}"
      using detach_selections mem_column [OF mem cv] by blast+
    let ?left = "filter (\<lambda>x. x \<noteq> i) (col_windows col)"
    let ?s1 = "upd_column c (detach_from_column i) s"
    have drained: "column_is_drained ?s1 c \<longleftrightarrow> ?left = []"
      using col by (simp add: column_is_drained_def upd_column_def detach_from_column_fields)
    show ?thesis
    proof (cases "?left = []")
      case False
      have run: "detach_window_membership i s = (Inr (), ?s1)"
        using Some win ws drained False
        by (simp add: detach_window_membership_def act_defs find_window_def)
      have frame: "move_frame s ?s1" by (simp add: move_frame_def) (simp add: upd_column_def)
      have "column_view ?s1 = (column_view s)(c := Some (?left, col_active (detach_from_column i col),
          col_tab_selection (detach_from_column i col)))"
        using col by (simp add: column_view_changes detach_from_column_fields(1))
      then have "mem_ok (strip_view ?s1) (float_view ?s1) (column_view ?s1) (window_view ?s1) {i}"
        using mem_lift_column [OF mem _ cv False sel, of ?w] at Some by simp
      moreover have "sound ?s1" using move_frame_sound [OF frame snd] snd by (simp add: sound_def)
      ultimately have "loose i ?s1" unfolding loose_def by blast
      moreover have "config ?s1 = config s" by (simp add: upd_column_def)
      ultimately show ?thesis using that run frame by simp
    next
      case True
      let ?t = "upd_workspace ?w (remove_from_strip c) (del_column c ?s1)"
      have ws': "get_workspace (del_column c ?s1) ?w = Some ws"
        using ws by (simp add: del_column_def upd_column_def)
      have run: "detach_window_membership i s = (Inr (), ?t)"
        using Some win ws ws' drained True
        by (simp add: detach_window_membership_def act_defs find_window_def find_workspace_def)
      have V: "home_view ?t = home_view s" "float_view ?t = float_view s"
        "strip_view ?t = (strip_view s)(?w := Some (filter (\<lambda>x. x \<noteq> c) (strip_columns (wsp_strip ws))))"
        "column_view ?t = (column_view s)(c := None)"
        using ws' by (simp_all add: view_upd_same strip_view_changes column_view_changes remove_from_strip_def)
      have frame: "move_frame s ?t" using V
        by (simp add: move_frame_def) (simp add: upd_workspace_def del_column_def upd_column_def)
      have "tables_ok (del_column c ?s1)" "counters_ok ?t"
        using snd by (auto simp: sound_def tables_ok_def counters_ok_def del_column_def upd_column_def bm.ok_remove
            upd_workspace_def)
      then have "tables_ok ?t"
        by (intro tables_ok_upd_workspace) (auto simp: workspace_entry_ok_def remove_from_strip_def)
      then have "sound ?t" using move_frame_sound [OF frame snd] \<open>counters_ok ?t\<close> by simp
      moreover have "mem_ok (strip_view ?t) (float_view ?t) (column_view ?t) (window_view ?t) {i}"
        using mem_lift_last [OF mem _ cv True view_values(2) [OF ws]] at Some V by simp
      ultimately have l: "loose i ?t" unfolding loose_def by blast
      have "in_strip (strip_view s) v d" if "in_strip (strip_view ?t) v d" for v d
        using that ws unfolding V by (auto simp: in_strip_def strip_view_def split: if_splits)
      then show ?thesis using that run frame l by (simp add: upd_workspace_def del_column_def upd_column_def)
    qed
  qed
qed

section \<open>Restoring a window\<close>

lemma loose_strip_column:
  assumes "loose i s" "in_strip (strip_view s) w c"
  obtains col where "get_column s c = Some col" "i \<notin> set (col_windows col)"
proof -
  obtain X where X: "i \<in> X \<or> window_view s i = None"
    "mem_ok (strip_view s) (float_view s) (column_view s) (window_view s) X"
    using looseE [OF assms(1)] .
  obtain ids a t where "column_view s c = Some (ids, a, t)" using mem_strip_column [OF X(2) assms(2)] .
  moreover have "\<not> column_has (column_view s) c i" using mem_nowhere [OF X(2,1)] by blast
  ultimately show ?thesis using that by (auto simp: column_view_def column_has_def)
qed

lemma restore_window_poised:
  assumes l: "loose i s" and home: "home_view s (rt_workspace_id target) = Some m"
  obtains c t where "restore_window_to_target i target mode width s = (Inr c, t)"
    "\<And>mg. poised i (rt_workspace_id target) c mg t" "move_frame s t"
proof -
  let ?w = "rt_workspace_id target"
  obtain ws where ws: "get_workspace s ?w = Some ws" using home by (auto simp: home_view_def)
  note result = that
  have new: ?thesis if fallback: "restore_window_to_target i target mode width s = restore_in_new_column i target mode width s"
  proof -
    let ?r = "\<lparr>ncr_anchor_column_id = None, ncr_insert_index_override = rt_column_index target,
               ncr_before_anchor = False, ncr_mode = mode,
               ncr_width_semantics = width, ncr_preserve_focus_position = False\<rparr>"
    obtain c t where "insert_new_column ?w i ?r s = (Inr c, t)" "\<And>mg. poised i ?w (Some c) mg t" "move_frame s t"
      "config t = config s"
      using insert_new_column_poised [OF l home, of ?r] by blast
    moreover from this(1) have "restore_in_new_column i target mode width s = (Inr (Some c), t)"
      by (simp add: restore_in_new_column_def act_defs)
    ultimately show ?thesis using result [of "Some c" t] fallback by simp
  qed
  show ?thesis
  proof (cases "rt_layer target = Floating")
    case True
    then have "restore_window_to_target i target mode width s
        = (Inr None, upd_workspace ?w (push_floating i) s)"
      using ws by (simp add: restore_window_to_target_def push_window_to_floating_layer_def act_defs find_workspace_def)
    then show ?thesis using that poised_push_floating [OF l ws] by blast
  next
    case False
    show ?thesis
    proof (cases "\<exists>c. rt_column_id target = Some c \<and> strip_contains s ?w c")
      case True
      then obtain c where c: "rt_column_id target = Some c" "strip_contains s ?w c" by blast
      then have ins: "in_strip (strip_view s) ?w c"
        using ws by (simp add: strip_contains_def in_strip_def strip_view_def)
      obtain col where col: "get_column s c = Some col" "i \<notin> set (col_windows col)"
        using loose_strip_column [OF l ins] .
      have "restore_window_to_target i target mode width s = (Inr (Some c), upd_column c (restore_to_column i) s)"
        using False c col by (simp add: restore_window_to_target_def act_defs find_column_def)
      then show ?thesis
        using that poised_append [OF l ins col(1), of "restore_to_column i"] restore_is_append [OF col(2)]
        by blast
    next
      case none: False
      show ?thesis
        by (rule new) (use False none in \<open>auto simp: restore_window_to_target_def act_defs split: option.splits\<close>)
    qed
  qed
qed

text \<open>The focus the handlers set once the window's entry is written.\<close>

lemma wf_settle_and_focus:
  assumes p: "poised i w c mg s" and home: "home_view s w = Some m" and win: "get_window s i = Some win"
    and f: "win_id (f win) = win_id win" "win_workspace_id (f win) = w" "win_column_id (f win) = c"
      "win_is_managed (f win) = mg"
      "case win_restore_target (f win) of None \<Rightarrow> True | Some target \<Rightarrow> rt_workspace_id target = w \<and> c = None"
  shows "wf (set_focus_to_window m w i c origin (upd_window i f s))"
proof (rule wf_set_focus)
  show "core {} (upd_window i f s)" by (rule poised_upd_window [OF p win]) (rule f)+
  show "located (window_view (upd_window i f s)) i w c"
    using win f by (simp add: window_view_changes located_def)
qed (use home in simp_all)

lemma restore_target_workspace:
  assumes "core J s" "get_window s i = Some win"
  shows "rt_workspace_id (restore_target_of s win) = win_workspace_id win"
  using coreD(3) [OF assms(1), of i] assms(2)
  by (simp add: restore_view_def restore_target_of_def split: option.splits)

lemma wf_restore_raised:
  assumes ok: "wf s" and win: "get_window s i = Some win"
    and home: "home_view s (win_workspace_id win) = Some m"
  shows "ends wf (restore_raised_window m i win ff) s"
proof -
  let ?w = "win_workspace_id win"
  let ?target = "restore_target_of s win"
  have w: "rt_workspace_id ?target = ?w" by (rule restore_target_workspace [OF wfD(1) [OF ok] win])
  obtain ws where ws: "get_workspace s ?w = Some ws" using home by (auto simp: home_view_def)
  obtain t1 where t1: "detach_window_membership i s = (Inr (), t1)" "loose i t1" "move_frame s t1"
    using detach_window_spec [OF wfD(1) [OF ok] win ws] by metis
  have home1: "home_view t1 (rt_workspace_id ?target) = Some m"
    using home t1(3) w by (simp add: move_frame_def)
  obtain c t2 where t2: "restore_window_to_target i ?target (cfg_default_column_mode (config t1))
      (cfg_default_column_width (config t1)) t1 = (Inr c, t2)"
    "\<And>mg. poised i ?w c mg t2" "move_frame t1 t2"
    using restore_window_poised [OF t1(2) home1] w by metis
  have win2: "get_window t2 i = Some win" "home_view t2 ?w = Some m"
    using win home t1(3) t2(3) by (simp_all add: move_frame_def)
  let ?f = "settle_restored (rt_layer ?target) c (ff (rt_layer ?target))"
  have "wf (set_focus_to_window m ?w i c UserCommand (upd_window i ?f t2))"
    by (rule wf_settle_and_focus [OF t2(2) win2(2,1)]) (simp_all add: settle_restored_def)
  then have "ends wf (reveal_option ?w c) (set_focus_to_window m ?w i c UserCommand (upd_window i ?f t2))"
    by (rule wf_reveal_option)
  then show ?thesis
    using t1(1) t2(1) win2(1) by (simp add: ends_def restore_raised_window_def act_defs find_window_def Let_def)
qed

lemma wf_raise_window:
  assumes ok: "wf s" and win: "get_window s i = Some win"
    and home: "home_view s (win_workspace_id win) = Some m"
  shows "ends wf (raise_window m i win layer) s"
proof -
  let ?w = "win_workspace_id win"
  obtain ws where ws: "get_workspace s ?w = Some ws" using home by (auto simp: home_view_def)
  obtain t1 where t1: "detach_window_membership i s = (Inr (), t1)" "loose i t1" "move_frame s t1"
    using detach_window_spec [OF wfD(1) [OF ok] win ws] by metis
  obtain ws1 where ws1: "get_workspace t1 ?w = Some ws1"
    using home t1(3) by (metis (no_types) move_frame_def home_view_def option.collapse option.map_disc_iff option.distinct(1))
  let ?t2 = "upd_workspace ?w (push_floating i) t1"
  note p = poised_push_floating [OF t1(2) ws1]
  have win2: "get_window ?t2 i = Some win" "home_view ?t2 ?w = Some m"
    using win home t1(3) p(2) by (simp_all add: move_frame_def)
  let ?f = "settle_raised layer (current_placement s win)"
  have "wf (set_focus_to_window m ?w i None UserCommand (upd_window i ?f ?t2))"
    by (rule wf_settle_and_focus [OF p(1) win2(2,1)]) (simp_all add: settle_raised_def current_placement_def)
  then show ?thesis
    using t1(1) ws1 win2(1)
    by (simp add: ends_def raise_window_def push_window_to_floating_layer_def act_defs find_window_def find_workspace_def Let_def)
qed

end
