(* ===== verification/Store_Preserve.thy ===== *)
theory Store_Preserve
  imports Store_Moves
begin

text \<open>
  Every handler keeps the invariant, on its successful and on its failing paths. The order of
  the sections is that of the handlers in the source.
\<close>

section \<open>Fields the invariant does not read\<close>

lemma wf_cong:
  assumes "monitors t = monitors s" "workspace_sets t = workspace_sets s" "workspaces t = workspaces s"
    "windows t = windows s" "focus t = focus s" "lay_columns (layout t) = lay_columns (layout s)"
    "rs_next_workspace_id (runtime t) = rs_next_workspace_id (runtime s)"
    "rs_next_column_id (runtime t) = rs_next_column_id (runtime s)"
    "rs_next_window_id (runtime t) = rs_next_window_id (runtime s)"
    "rs_next_monitor_id (runtime t) = rs_next_monitor_id (runtime s)"
    "rs_next_workspace_set_id (runtime t) = rs_next_workspace_set_id (runtime s)"
  shows "wf t = wf s"
proof -
  have "monitor_view t = monitor_view s" "set_view t = set_view s" "active_view t = active_view s"
    "home_view t = home_view s" "strip_view t = strip_view s" "float_view t = float_view s"
    "column_view t = column_view s" "window_view t = window_view s" "restore_view t = restore_view s"
    "focus_view t = focus_view s" "counters_ok t = counters_ok s" "tables_ok t = tables_ok s"
    using assms by (simp_all add: fun_eq_iff view_defs counters_ok_def tables_ok_def)
  note views = this
  have "focus_ok t = focus_ok s" by (rule focus_ok_cong) (rule views)+
  with views show ?thesis by (simp add: wf_def core_def)
qed

lemma wf_other_fields [simp]:
  "wf (s\<lparr>overview := ov\<rparr>) = wf s" "wf (s\<lparr>config := cfg\<rparr>) = wf s" "wf (s\<lparr>diagnostics := d\<rparr>) = wf s"
  "wf (set_resize_session r s) = wf s" "wf (snd (bump_state_version s)) = wf s"
  by (rule wf_cong, simp_all add: set_resize_session_def bump_state_version_def Let_def)+

lemma wf_sync_overview [simp]: "wf (sync_overview_selection m s) = wf s"
  by (simp add: sync_overview_selection_def)

lemma wf_close_overview [simp]: "wf (close_overview s) = wf s"
  by (simp add: close_overview_def Let_def)

lemma wf_upd_column_same:
  assumes "\<And>x. (col_windows (g x), col_active (g x), col_tab_selection (g x)) =
      (col_windows x, col_active x, col_tab_selection x)"
  shows "wf (upd_column c g s) = wf s"
proof -
  have "focus_ok (upd_column c g s) = focus_ok s" by (rule focus_ok_cong) simp_all
  then show ?thesis by (simp add: wf_def core_def view_column_same [OF assms])
qed

text \<open>A workspace that a reader found has a home in the views.\<close>

lemma home_of: "find_workspace s w = Inr ws \<Longrightarrow> home_view s w = Some (wsp_monitor_id ws)"
  by (simp add: find_workspace_def home_view_def)

lemma home_of_monitor: "workspace_monitor s w = Inr m \<longleftrightarrow> home_view s w = Some m"
  by (auto simp: workspace_monitor_def find_workspace_def home_view_def bindE_Inr_iff)

lemma wf_home_monitor: "wf s \<Longrightarrow> home_view s w = Some m \<Longrightarrow> monitor_view s m \<noteq> None"
  using top_home [OF coreD(2) [OF wfD(1)]] by blast

section \<open>Overview and configuration\<close>

lemma wf_open_overview_for_monitor: "wf s \<Longrightarrow> ends wf (open_overview_for_monitor m) s"
  unfolding open_overview_for_monitor_def by (intro run_intros) simp_all

lemma wf_handle_open_overview: "wf s \<Longrightarrow> ends wf (handle_open_overview p) s"
  unfolding handle_open_overview_def
  by (intro run_intros ends_then wf_open_overview_for_monitor)

lemma wf_handle_close_overview: "wf s \<Longrightarrow> ends wf (handle_close_overview p) s"
  unfolding handle_close_overview_def by (intro run_intros) simp

lemma wf_handle_toggle_overview: "wf s \<Longrightarrow> ends wf (handle_toggle_overview p) s"
  unfolding handle_toggle_overview_def
  by (intro run_intros ends_then  wf_open_overview_for_monitor) simp_all

lemma wf_handle_config: "wf s \<Longrightarrow> ends wf (handle_config_reload_succeeded p) s"
  unfolding handle_config_reload_succeeded_def by (intro run_intros) simp

lemma wf_handle_rules: "wf s \<Longrightarrow> ends wf (handle_rules_updated p) s"
  unfolding handle_rules_updated_def by (intro run_intros) simp

section \<open>Focus\<close>

lemma wf_handle_window_focus_observed: "wf s \<Longrightarrow> ends wf (handle_window_focus_observed p) s"
  unfolding handle_window_focus_observed_def Let_def
proof (intro run_intros, goal_cases)
  case (5 u win ws)
  have "home_view s (win_workspace_id win) = Some (wfp_monitor_id p)"
    using home_of [OF 5(4)] 5(5) by simp
  moreover have "located (window_view s) (wfp_window_id p) (win_workspace_id win) (win_column_id win)"
    using 5(3) by (auto simp: find_window_def located_def view_values)
  ultimately show ?case
    using wf_set_focus [OF wfD(1) [OF 5(1)]] by (intro ends_then wf_reveal_option run_intros) blast+
qed (assumption)+

lemma column_active_window_in:
  assumes "core J s" "get_column s c = Some col" "column_active_window col = Some i"
  shows "i \<in> set (col_windows col)"
  using mem_column [OF coreD(1) [OF assms(1)] view_values(4) [OF assms(2)]] assms(3)
  by (auto simp: column_active_window_def or_opt_def split: if_splits option.splits dest: first_Some_in)

lemma strip_target_located:
  assumes ok: "core J s" and ws: "get_workspace s w = Some ws"
    and c: "c \<in> set (strip_columns (wsp_strip ws))" and col: "get_column s c = Some col"
    and i: "i \<in> set (col_windows col)"
  shows "located (window_view s) i w (Some c)"
proof (rule mem_column_located [OF coreD(1) [OF ok]])
  show "in_strip (strip_view s) w c" using ws c by (simp add: in_strip_def strip_view_def)
  show "column_has (column_view s) c i" using view_values(4) [OF col] i by (simp add: column_has_def)
qed

lemma float_target_located:
  assumes ok: "core J s" and ws: "get_workspace s w = Some ws" and i: "i \<in> set (fl_windows (wsp_floating ws))"
  shows "located (window_view s) i w None"
  by (rule mem_float_located [OF coreD(1) [OF ok]]) (use view_values(3) [OF ws] i in \<open>simp add: floats_def\<close>)

lemma strip_column_found:
  assumes ok: "core J s" and ws: "get_workspace s w = Some ws" and c: "c \<in> set (strip_columns (wsp_strip ws))"
  obtains col where "get_column s c = Some col" "col_windows col \<noteq> []"
proof -
  have "in_strip (strip_view s) w c" using ws c by (simp add: in_strip_def strip_view_def)
  from mem_strip_column [OF coreD(1) [OF ok] this] obtain ids a t where *: "column_view s c = Some (ids, a, t)" .
  with mem_column [OF coreD(1) [OF ok] *] that show ?thesis by (auto simp: column_view_def)
qed

lemma column_active_window_some: "col_windows col \<noteq> [] \<Longrightarrow> \<exists>i. column_active_window col = Some i"
  by (cases "col_windows col") (auto simp: column_active_window_def or_opt_def split: option.splits)

section \<open>Activating a workspace\<close>

definition target_located :: "wm_state \<Rightarrow> workspace_id \<Rightarrow> (window_id \<times> column_id option) option \<Rightarrow> bool" where
  "target_located s w r \<longleftrightarrow> (case r of None \<Rightarrow> True | Some p \<Rightarrow> located (window_view s) (fst p) w (snd p))"

lemma remembered_window_located:
  assumes ok: "core J s" and ws: "get_workspace s w = Some ws"
  shows "target_located s w (remembered_window_target s w ws)"
proof (cases "remembered_window_target s w ws")
  case (Some p)
  then obtain i win where win: "get_window s i = Some win" "win_workspace_id win = w"
    and p: "p = (i, filter_opt (\<lambda>c. c \<in> set (strip_columns (wsp_strip ws))) (win_column_id win))"
    by (auto simp: remembered_window_target_def bind_eq_Some_conv split: if_splits)
  have at: "located (window_view s) i w (win_column_id win)"
    using view_values(5) [OF win(1)] win(2) by (simp add: located_def)
  have "c \<in> set (strip_columns (wsp_strip ws))" if "win_column_id win = Some c" for c
    using mem_window_in_strip [OF coreD(1) [OF ok], of i w c] at that view_values(2) [OF ws]
    by (simp add: in_strip_def)
  then have "filter_opt (\<lambda>c. c \<in> set (strip_columns (wsp_strip ws))) (win_column_id win) = win_column_id win"
    by (auto simp: filter_opt_def split: option.splits)
  then show ?thesis using Some p at by (simp add: target_located_def)
qed (simp add: target_located_def)

lemma remembered_column_located:
  assumes ok: "core J s" and ws: "get_workspace s w = Some ws"
  shows "target_located s w (remembered_column_target s ws)"
  using strip_target_located [OF ok ws] column_active_window_in [OF ok]
  by (auto simp: target_located_def remembered_column_target_def bind_eq_Some_conv split: option.splits if_splits)

lemma strip_target_ok:
  assumes ok: "core J s" and ws: "get_workspace s w = Some ws" and cs: "set cs \<subseteq> set (strip_columns (wsp_strip ws))"
  shows "\<exists>r. strip_target s cs = Inr r \<and> target_located s w r"
  using cs
proof (induction cs)
  case (Cons c cs)
  then obtain col where col: "get_column s c = Some col" "col_windows col \<noteq> []"
    using strip_column_found [OF ok ws, of c] by auto
  then obtain i where i: "column_active_window col = Some i" using column_active_window_some by blast
  then have "i \<in> set (col_windows col)" using column_active_window_in [OF ok col(1)] by simp
  then show ?case
    using strip_target_located [OF ok ws _ col(1)] Cons.prems col(1) i
    by (auto simp: find_column_def target_located_def)
qed (simp add: target_located_def)

lemma target_located_or: "target_located s w a \<Longrightarrow> target_located s w b \<Longrightarrow> target_located s w (or_opt a b)"
  by (cases a) simp_all

lemma workspace_focus_target_ok:
  assumes ok: "core J s" and home: "home_view s w = Some m"
  obtains r where "workspace_focus_target s w = Inr r" "target_located s w r"
proof -
  obtain ws where ws: "get_workspace s w = Some ws" using home by (auto simp: home_view_def)
  obtain r where r: "strip_target s (strip_columns (wsp_strip ws)) = Inr r" "target_located s w r"
    using strip_target_ok [OF ok ws subset_refl] by blast
  let ?fl = "map_option (\<lambda>i. (i, None)) (first (fl_windows (wsp_floating ws)))"
  have "target_located s w ?fl"
    using float_target_located [OF ok ws] first_Some_in
    by (fastforce simp: target_located_def split: option.splits)
  then have "target_located s w
      (or_opt (or_opt (remembered_window_target s w ws) (remembered_column_target s ws)) (or_opt r ?fl))"
    using r(2) remembered_window_located [OF ok ws] remembered_column_located [OF ok ws]
    by (intro target_located_or)
  moreover have "workspace_focus_target s w = Inr
      (or_opt (or_opt (remembered_window_target s w ws) (remembered_column_target s ws)) (or_opt r ?fl))"
    using ws r(1) by (simp add: workspace_focus_target_def find_workspace_def or_opt_def split: option.splits)
  ultimately show ?thesis by (rule that [rotated])
qed

text \<open>Activation brings the focus back into agreement whatever it was before.\<close>

lemma wf_activate_workspace:
  assumes ok: "core {} s" and home: "home_view s w = Some m"
  shows "ends wf (activate_workspace m w origin) s"
proof -
  obtain r where r: "workspace_focus_target s w = Inr r" "target_located s w r"
    using workspace_focus_target_ok [OF ok home] .
  have found: "find_workspace s w = Inr (the (get_workspace s w))"
    using home by (auto simp: home_view_def find_workspace_def)
  have "ends wf (case r of
          Some (i, c) \<Rightarrow>
            thenA (modify (set_focus_to_window m w i c origin))
              (case c of None \<Rightarrow> clamp_scroll_offset w | Some x \<Rightarrow> reveal_column_in_workspace w x)
        | None \<Rightarrow> thenA (set_active_workspace_without_focus m w origin) (clamp_scroll_offset w)) s"
  proof (cases r)
    case None
    have "set_active_workspace_without_focus m w origin s =
        (Inr (), set_active_of_monitor m w (drop_window_focus m origin s))"
      by (simp add: set_active_workspace_without_focus_def act_defs found)
    then show ?thesis
      using None wf_drop_focus [OF ok home]
      by (simp add: ends_then_run wf_clamp_scroll_offset)
  next
    case (Some p)
    then have "wf (set_focus_to_window m w (fst p) (snd p) origin s)"
      using wf_set_focus [OF ok home] r(2) by (simp add: target_located_def)
    then show ?thesis using Some
      by (cases p) (auto intro!: run_intros wf_clamp_scroll_offset wf_reveal_column split: option.splits)
  qed
  then have "ends wf (thenA (case r of
          Some (i, c) \<Rightarrow>
            thenA (modify (set_focus_to_window m w i c origin))
              (case c of None \<Rightarrow> clamp_scroll_offset w | Some x \<Rightarrow> reveal_column_in_workspace w x)
        | None \<Rightarrow> thenA (set_active_workspace_without_focus m w origin) (clamp_scroll_offset w))
      (modify (sync_overview_selection m))) s"
    by (rule ends_then) (auto intro!: run_intros)
  then show ?thesis unfolding activate_workspace_def
    by (rule ends_bind_run [rotated]) (simp add: tryA_def r(1))
qed

section \<open>Navigation along the strip and between tabs\<close>

lemma navigation_fold_located:
  assumes ok: "core J s" and ws: "get_workspace s w = Some ws" and cs: "set cs \<subseteq> set (strip_columns (wsp_strip ws))"
    and run: "fold_res (\<lambda>c acc. bindE (find_column s c) (\<lambda>col.
              Inr (case column_active_window col of None \<Rightarrow> acc | Some i \<Rightarrow> acc @ [(i, Some c)]))) cs acc = Inr r"
    and acc: "\<forall>p \<in> set acc. located (window_view s) (fst p) w (snd p)"
  shows "\<forall>p \<in> set r. located (window_view s) (fst p) w (snd p)"
  using run
proof (rule fold_res_invariant [where P = "\<lambda>acc. \<forall>p \<in> set acc. located (window_view s) (fst p) w (snd p)"])
  fix c a b
  assume c: "c \<in> set cs" and a: "\<forall>p \<in> set a. located (window_view s) (fst p) w (snd p)"
    and step: "bindE (find_column s c) (\<lambda>col.
        Inr (case column_active_window col of None \<Rightarrow> a | Some i \<Rightarrow> a @ [(i, Some c)])) = Inr b"
  have "\<forall>p \<in> set b. p \<in> set a \<or> (\<exists>i. p = (i, Some c) \<and> located (window_view s) i w (Some c))"
    using step c strip_target_located [OF ok ws] column_active_window_in [OF ok] cs
    by (auto simp: bindE_Inr_iff find_column_def subset_iff split: option.splits)
  then show "\<forall>p \<in> set b. located (window_view s) (fst p) w (snd p)" using a by auto
qed (rule acc)

lemma navigation_sequence_located:
  assumes ok: "core J s" and run: "navigation_sequence_for_workspace s w = Inr q"
  shows "\<forall>p \<in> set q. located (window_view s) (fst p) w (snd p)"
proof -
  obtain ws where ws: "get_workspace s w = Some ws"
    using run by (auto simp: navigation_sequence_for_workspace_def find_workspace_def bindE_Inr_iff)
  obtain r where r: "fold_res (\<lambda>c acc. bindE (find_column s c) (\<lambda>col.
              Inr (case column_active_window col of None \<Rightarrow> acc | Some i \<Rightarrow> acc @ [(i, Some c)])))
              (strip_columns (wsp_strip ws)) [] = Inr r"
    "q = (if r = [] then map (\<lambda>i. (i, None)) (fl_windows (wsp_floating ws)) else r)"
    using run ws by (auto simp: navigation_sequence_for_workspace_def find_workspace_def bindE_Inr_iff)
  show ?thesis
    using navigation_fold_located [OF ok ws subset_refl r(1)] float_target_located [OF ok ws] r(2) by auto
qed

lemma next_navigation_index_less: "q \<noteq> [] \<Longrightarrow> next_navigation_index forward q f < length q"
  by (cases q) (auto simp: next_navigation_index_def Let_def dest: position_less split: option.splits)

lemma wf_navigate_strip: "wf s \<Longrightarrow> ends wf (navigate_strip w forward) s"
  unfolding navigate_strip_def Let_def
proof (intro run_intros, goal_cases)
  case (4 q i c m)
  have "located (window_view s) i w c"
    using navigation_sequence_located [OF wfD(1) [OF 4(1)] 4(2)] next_navigation_index_less [OF 4(3)] 4(4)
    by (metis fst_conv nth_mem snd_conv)
  then show ?case
    using wf_set_focus [OF wfD(1) [OF 4(1)]] 4(5)
    by (intro ends_then wf_reveal_option run_intros) (auto simp: home_of_monitor)
qed (assumption)+

lemma wf_upd_column_select:
  assumes ok: "wf s" and col: "get_column s c = Some col" and f: "col_windows (f col) = col_windows col"
    and sel: "set_option (col_active (f col)) \<subseteq> set (col_windows col)"
      "set_option (col_tab_selection (f col)) \<subseteq> set (col_windows col)"
  shows "wf (upd_column c f s)"
proof (rule wfI)
  note D = coreD [OF wfD(1) [OF ok]]
  have "column_view (upd_column c f s) =
      (column_view s)(c := Some (col_windows col, col_active (f col), col_tab_selection (f col)))"
    using col f by (simp add: column_view_changes)
  then show "core {} (upd_column c f s)"
    using D mem_select [OF D(1) view_values(4) [OF col] sel] by (intro coreI) simp_all
  have "focus_ok (upd_column c f s) = focus_ok s" by (rule focus_ok_cong) simp_all
  then show "focus_ok (upd_column c f s)" using wfD(2) [OF ok] by simp
qed

lemma focused_column_in_strip:
  "focused_column_in_workspace s w = Some c \<Longrightarrow> in_strip (strip_view s) w c"
  by (auto simp: focused_column_in_workspace_def in_strip_def strip_view_def split: option.splits if_splits)

lemma cycled_tab_index_less: "2 \<le> n \<Longrightarrow> i < n \<Longrightarrow> cycled_tab_index forward n i < n"
  by (auto simp: cycled_tab_index_def)

lemma position_or_0_less:
  "xs \<noteq> [] \<Longrightarrow> (case position p xs of None \<Rightarrow> 0 | Some n \<Rightarrow> n) < length xs"
  by (auto split: option.splits dest: position_less)

lemma wf_try_cycle_tabbed_focus:
  assumes "wf s" "in_strip (strip_view s) w c"
  shows "ends wf (try_cycle_tabbed_focus w c forward) s"
  unfolding try_cycle_tabbed_focus_def Let_def
proof (intro run_intros, goal_cases)
  case (6 col current m col')
  let ?i = "col_windows col ! cycled_tab_index forward (length (col_windows col))
      (case position (\<lambda>x. x = current) (col_windows col) of None \<Rightarrow> 0 | Some n \<Rightarrow> n)"
  have col: "get_column s c = Some col" using 6(1) by (simp add: find_column_def)
  have two: "2 \<le> length (col_windows col)" using 6(2) by simp
  then have i: "?i \<in> set (col_windows col)"
    by (intro nth_mem cycled_tab_index_less position_or_0_less) auto
  let ?s1 = "upd_column c (\<lambda>x. x\<lparr>col_tab_selection := Some ?i\<rparr>) s"
  have "wf ?s1"
    by (rule wf_upd_column_select [OF assms(1) col])
      (use i mem_column [OF coreD(1) [OF wfD(1) [OF assms(1)]] view_values(4) [OF col]] in auto)
  moreover have "located (window_view ?s1) ?i w (Some c)"
    using mem_column_located [OF coreD(1) [OF wfD(1) [OF assms(1)]] assms(2)] view_values(4) [OF col] i
    by (simp add: column_has_def)
  moreover have "home_view ?s1 w = Some m" using 6(4) by (simp add: home_of_monitor)
  ultimately show ?case
    using wf_set_focus [OF wfD(1)] by (intro ends_then wf_reveal_column run_intros) blast+
qed (rule assms)+

lemma wf_handle_focus_navigation: "wf s \<Longrightarrow> ends wf (handle_focus_navigation forward p) s"
  unfolding handle_focus_navigation_def
proof (intro run_intros, goal_cases)
  case (2 w)
  have "ends wf (case focused_column_in_workspace s w of
              None \<Rightarrow> ret False
            | Some c \<Rightarrow> if fcp_scope p = ColumnTabs then try_cycle_tabbed_focus w c forward else ret False) s"
    using 2(1) by (intro run_intros wf_try_cycle_tabbed_focus focused_column_in_strip)
  then show ?case by (rule ends_bind) (intro run_intros wf_navigate_strip)
qed

section \<open>Scrolling, widths and column modes\<close>

lemma wf_handle_strip_scroll: "wf s \<Longrightarrow> ends wf (handle_strip_scroll d p) s"
  unfolding handle_strip_scroll_def by (intro run_intros ends_then wf_apply_scroll_delta)

lemma wf_fix_column_width [simp]: "wf (upd_column c (fix_column_width n) s) = wf s"
  by (rule wf_upd_column_same) (simp add: fix_column_width_def Let_def)

lemma wf_handle_begin_resize: "wf s \<Longrightarrow> ends wf (handle_begin_column_width_resize p) s"
  unfolding handle_begin_column_width_resize_def by (intro run_intros) simp_all

lemma wf_handle_update_preview: "wf s \<Longrightarrow> ends wf (handle_update_column_width_preview p) s"
  unfolding handle_update_column_width_preview_def by (intro run_intros) simp_all

lemma wf_handle_commit: "wf s \<Longrightarrow> ends wf (handle_commit_column_width p) s"
  unfolding handle_commit_column_width_def
  by (intro run_intros ends_then wf_clamp_scroll_offset wf_reveal_column) simp_all

lemma wf_handle_cancel: "wf s \<Longrightarrow> ends wf handle_cancel_column_width_resize s"
  unfolding handle_cancel_column_width_resize_def by (intro run_intros) simp

lemma wf_handle_cycle: "wf s \<Longrightarrow> ends wf handle_cycle_column_width s"
  unfolding handle_cycle_column_width_def
  by (intro run_intros ends_then wf_clamp_scroll_offset wf_reveal_column) simp_all

lemma wf_toggle_maximized [simp]: "wf (upd_column c toggle_maximized s) = wf s"
  by (rule wf_upd_column_same) (simp add: toggle_maximized_def)

lemma wf_toggle_tabbed:
  assumes ok: "wf s" and win: "find_window s i = Inr win" "win_column_id win = Some c"
    and found: "find_column s c = Inr col"
  shows "wf (upd_column c (toggle_tabbed i) s)"
proof -
  have col: "get_column s c = Some col" using found by (simp add: find_column_def)
  have "located (window_view s) i (win_workspace_id win) (Some c)"
    using win by (auto simp: find_window_def located_def view_values)
  then have "i \<in> set (col_windows col)"
    using mem_window_column [OF coreD(1) [OF wfD(1) [OF ok]]] view_values(4) [OF col]
    by (fastforce simp: column_has_def)
  moreover have "toggle_tabbed i col = col
      \<lparr>col_mode := (if col_mode col = Tabbed then NormalColumn else Tabbed),
       col_tab_selection := (if col_mode col = Tabbed then first (col_windows col) else Some i),
       col_active := Some i\<rparr>"
    by (simp add: toggle_tabbed_def Let_def)
  ultimately show ?thesis
    by (intro wf_upd_column_select [OF ok col]) (auto dest: first_Some_in)
qed

lemma wf_handle_toggle_maximized: "wf s \<Longrightarrow> ends wf (handle_toggle_maximized p) s"
  unfolding handle_toggle_maximized_def handle_column_toggle_def
  by (intro run_intros ends_then wf_reveal_column) simp_all

lemma wf_handle_toggle_tabbed: "wf s \<Longrightarrow> ends wf (handle_toggle_tabbed p) s"
  unfolding handle_toggle_tabbed_def handle_column_toggle_def
  by (intro run_intros ends_then wf_reveal_column wf_toggle_tabbed)

lemma wf_handle_toggle_floating: "wf s \<Longrightarrow> ends wf (handle_toggle_floating p) s"
  unfolding handle_toggle_floating_def Let_def
  by (intro run_intros ends_then wf_clamp_scroll_offset wf_restore_raised wf_raise_window)
    (simp_all add: find_window_def home_of_monitor)

lemma wf_handle_toggle_fullscreen: "wf s \<Longrightarrow> ends wf (handle_toggle_fullscreen p) s"
  unfolding handle_toggle_fullscreen_def Let_def
  by (intro run_intros ends_then wf_clamp_scroll_offset wf_restore_raised wf_raise_window)
    (simp_all add: find_window_def home_of_monitor)

end
