(* ===== verification/Store_Preserve_Windows.thy ===== *)
theory Store_Preserve_Windows
  imports Store_Preserve
begin

text \<open>Windows that appear and go away keep the invariant.\<close>

section \<open>A window appears\<close>

text \<open>What the discovered window's own placement needs of the state it starts from.\<close>

lemma allocate_window_views [view_simps, simp]:
  "monitor_view (snd (allocate_window_id s)) = monitor_view s"
  "set_view (snd (allocate_window_id s)) = set_view s"
  "active_view (snd (allocate_window_id s)) = active_view s"
  "focus_view (snd (allocate_window_id s)) = focus_view s"
  "home_view (snd (allocate_window_id s)) = home_view s"
  "strip_view (snd (allocate_window_id s)) = strip_view s"
  "float_view (snd (allocate_window_id s)) = float_view s"
  "column_view (snd (allocate_window_id s)) = column_view s"
  "window_view (snd (allocate_window_id s)) = window_view s"
  "restore_view (snd (allocate_window_id s)) = restore_view s"
  "tables_ok (snd (allocate_window_id s)) = tables_ok s"
  by (simp_all add: fun_eq_iff view_defs allocate_window_id_def Let_def tables_ok_def)

lemma wf_allocate_window:
  assumes "wf s"
  shows "wf (snd (allocate_window_id s))"
    and "window_view s (fst (allocate_window_id s)) = None"
    and "raw_window_id (fst (allocate_window_id s)) < rs_next_window_id (runtime (snd (allocate_window_id s)))"
proof -
  have c: "counters_ok s" using assms by (simp add: wf_def core_def)
  then have "counters_ok (snd (allocate_window_id s))"
    by (auto simp: counters_ok_def allocate_window_id_def Let_def less_SucI)
  moreover have "focus_ok (snd (allocate_window_id s)) = focus_ok s" by (rule focus_ok_cong) simp_all
  ultimately show "wf (snd (allocate_window_id s))" using assms by (simp add: wf_def core_def)
  show "window_view s (fst (allocate_window_id s)) = None"
    using c by (auto simp: counters_ok_def bm_has_def window_view_def allocate_window_id_def Let_def)
qed (simp add: allocate_window_id_def Let_def)

definition column_in_strip :: "wm_state \<Rightarrow> workspace_id \<Rightarrow> column_id option \<Rightarrow> bool" where
  "column_in_strip s w c \<longleftrightarrow> (case c of None \<Rightarrow> True | Some x \<Rightarrow> in_strip (strip_view s) w x)"

lemma target_discovered_poised:
  assumes ok: "wf s" and fresh: "window_view s i = None" and home: "home_view s w = Some m"
    and c: "column_in_strip s w focused_column"
  obtains c t where "target_discovered_window payload w i focused_column anchor restore_index preserve s = (Inr c, t)"
    "poised i w c (wdp_managed payload) t" "move_frame s t"
proof -
  have l: "loose i s" by (rule loose_fresh [OF wfD(1) [OF ok] fresh])
  obtain ws where ws: "get_workspace s w = Some ws" using home by (auto simp: home_view_def)
  note result = that
  consider "\<not> wdp_managed payload" | "wdp_managed payload" "wdp_layer payload \<noteq> Tiled"
    | "wdp_managed payload" "wdp_layer payload = Tiled" by blast
  then show ?thesis
  proof cases
    case 1
    have "poised i w None False s"
      using ok mem_put_unmanaged [OF coreD(1) [OF wfD(1) [OF ok]] fresh]
      by (simp add: poised_def wf_def core_sound)
    then show ?thesis using 1 that by (simp add: target_discovered_window_def act_defs)
  next
    case 2
    then show ?thesis
      using ws that poised_push_floating [OF l ws]
      by (simp add: target_discovered_window_def push_window_to_floating_layer_def act_defs find_workspace_def)
  next
    case 3
    have new: ?thesis if place: "place_discovered_window w i (wdp_placement payload) focused_column anchor restore_index preserve s
        = insert_new_column w i request s" for request
    proof -
      obtain c t where "insert_new_column w i request s = (Inr c, t)" "\<And>mg. poised i w (Some c) mg t" "move_frame s t"
        using insert_new_column_poised [OF l home, of request] by blast
      then show ?thesis
        using result [of "Some c" t] place 3 by (simp add: target_discovered_window_def act_defs)
    qed
    show ?thesis
    proof (cases "wdp_placement payload")
      case AppendToFocusedColumn
      show ?thesis
      proof (cases focused_column)
        case None
        then show ?thesis using new AppendToFocusedColumn by (simp add: place_discovered_window_def Let_def)
      next
        case (Some x)
        then have ins: "in_strip (strip_view s) w x" using c by (simp add: column_in_strip_def)
        obtain col where col: "get_column s x = Some col" using loose_strip_column [OF l ins] .
        have "target_discovered_window payload w i focused_column anchor restore_index preserve s
            = (Inr (Some x), upd_column x (append_window i) s)"
          using 3 AppendToFocusedColumn Some col
          by (simp add: target_discovered_window_def place_discovered_window_def act_defs find_column_def Let_def)
        then show ?thesis
          using that poised_append [OF l ins col, of "append_window i"] 3 by simp
      qed
    qed (rule new, simp add: place_discovered_window_def Let_def)+
  qed
qed

lemma focus_ok_new_window:
  assumes "focus_ok s" "window_view s i = None" "focus_view t = focus_view s" "monitor_view t = monitor_view s"
    "active_view t = active_view s" "window_view t = (window_view s)(i := Some x)"
  shows "focus_ok t"
proof -
  have "located (window_view t) j w c" if "located (window_view s) j w c" for j w c
    using that assms(2,6) by (auto simp: located_def)
  then show ?thesis using assms(1)
    unfolding focus_ok_def assms(3,4,5) by (fastforce split: prod.splits option.splits)
qed

lemma wf_set_active_again:
  assumes ok: "wf s" and home: "home_view s w = Some m" and act: "active_view s m = Some w"
  shows "wf (set_active_of_monitor m w s)"
proof -
  obtain j where j: "monitor_view s m = Some j" using top_home [OF coreD(2) [OF wfD(1) [OF ok]] home] .
  have "core {} (set_active_of_monitor m w s)"
    using core_set_active [OF wfD(1) [OF ok] home j] by simp
  moreover have "focus_ok (set_active_of_monitor m w s) = focus_ok s"
    by (rule focus_ok_cong) (simp_all add: view_simps act fun_upd_idem)
  ultimately show ?thesis using wfD(2) [OF ok] by (simp add: wf_def)
qed

lemma active_of_wf:
  assumes "wf s" "monitor_view s m \<noteq> None" "active_workspace_id_for_monitor s m = Some w"
  shows "home_view s w = Some m \<and> active_view s m = Some w"
  using assms active_of_ok [OF wfD(1) [OF assms(1)], of m] by (metis empty_iff option.exhaust option.inject)

lemma wf_finish_discovery:
  assumes ok: "wf s" and home: "home_view s w = Some m" and at: "located (window_view s) i w c"
  shows "ends wf (finish_discovery m w i c preserve) s"
  unfolding finish_discovery_def
  using assms wf_set_focus [OF wfD(1) [OF ok] home at]
  by (intro run_intros ends_then wf_clamp_scroll_offset wf_reveal_column wf_ensure_tail) (simp_all add: wf_ensure_tail)

lemma wf_handle_window_discovered:
  assumes ok: "wf s"
  shows "ends wf (handle_window_discovered p) s"
  unfolding handle_window_discovered_def Let_def
proof (intro run_intros, goal_cases)
  case (3 u w)
  let ?m = "wdp_monitor_id p"
  let ?preserve = "preserves_current_focus s (wdp_focus_behavior p) w"
  let ?i = "fst (allocate_window_id s)" and ?s1 = "snd (allocate_window_id s)"
  have "monitor_view s ?m \<noteq> None" using 3(1) by (auto simp: monitor_view_def bm_has_def split: if_splits)
  moreover have "active_workspace_id_for_monitor s ?m = Some w" using 3(2) by simp
  ultimately have home: "home_view s w = Some ?m" and act: "active_view s ?m = Some w"
    using active_of_wf [OF ok] by auto
  note s1 = wf_allocate_window [OF ok]
  have fresh: "window_view ?s1 ?i = None" using s1(2) by simp
  have c: "column_in_strip ?s1 w (focused_column_in_workspace s w)"
    by (auto simp: column_in_strip_def dest: focused_column_in_strip split: option.splits)
  obtain c t where t: "target_discovered_window p w ?i (focused_column_in_workspace s w)
        (discovery_anchor_column_in_workspace s w) (fullscreen_restore_index_in_workspace s w) ?preserve ?s1 = (Inr c, t)"
      "poised ?i w c (wdp_managed p) t" "move_frame ?s1 t"
    by (rule target_discovered_poised [OF s1(1) fresh _ c, of ?m p]) (use home in auto)
  let ?t1 = "put_window (discovered_node p w ?i c) t"
  have F: "home_view t = home_view s" "monitor_view t = monitor_view s" "active_view t = active_view s"
    "focus_view t = focus_view s"
    using t(3) unfolding move_frame_def allocate_window_views by blast+
  have V: "home_view ?t1 = home_view s" "monitor_view ?t1 = monitor_view s" "active_view ?t1 = active_view s"
    "focus_view ?t1 = focus_view s" "window_view ?t1 = (window_view s)(?i := Some (w, c, wdp_managed p))"
    using move_frame_window_view [OF t(3)]
    by (simp_all add: F window_view_changes discovered_node_def)
  have "core {} ?t1"
    by (rule poised_put_window [OF t(2)])
      (use s1(3) t(3) in \<open>simp_all add: discovered_node_def move_frame_def\<close>)
  moreover have "focus_ok ?t1"
    by (rule focus_ok_new_window [OF wfD(2) [OF ok] s1(2)]) (simp_all only: V)
  ultimately have "wf ?t1" by (rule wfI)
  then have wf2: "wf (set_active_of_monitor ?m w ?t1)"
    by (rule wf_set_active_again) (simp_all only: V home act)
  have at: "located (window_view (set_active_of_monitor ?m w ?t1)) ?i w c"
    by (simp only: set_active_views V) (simp add: located_def)
  have "ends wf (if \<not> wdp_managed p
      then thenA (modify (\<lambda>s. snd (ensure_tail_workspace ?m s))) (ret None)
      else finish_discovery ?m w ?i c ?preserve) (set_active_of_monitor ?m w ?t1)"
    using wf2 wf_ensure_tail [OF wf2] at
    by (intro run_intros wf_finish_discovery) (simp_all only: set_active_views V home)
  then show ?case
    using t(1) by (simp add: ends_def act_defs)
qed (rule ok)+

section \<open>A window goes away\<close>

lemma forget_window_same:
  "wsp_monitor_id (forget_window i c ws) = wsp_monitor_id ws"
  "wsp_strip (forget_window i c ws) = wsp_strip ws"
  "wsp_floating (forget_window i c ws) = wsp_floating ws"
  "wsp_id (forget_window i c ws) = wsp_id ws" "wsp_name (forget_window i c ws) = wsp_name ws"
  by (simp_all add: forget_window_def Let_def)

lemma core_del_window:
  assumes l: "loose i s" and win: "window_view s i \<noteq> None"
  shows "core {} (del_window i s)"
proof -
  obtain X where X: "X - {i} = {}" "i \<in> X \<or> window_view s i = None"
    "mem_ok (strip_view s) (float_view s) (column_view s) (window_view s) X" using looseE [OF l] .
  have "X = {i}" using X(1,2) win by auto
  then have mem: "mem_ok (strip_view s) (float_view s) (column_view s) (window_view s) {i}" using X(3) by simp
  have "restore_view (del_window i s) j" "counters_ok (del_window i s)" "tables_ok (del_window i s)" for j
    using l by (auto simp: loose_def sound_def restore_view_def counters_ok_def tables_ok_def del_window_def
        bm.ok_remove split: option.splits if_splits)
  then show ?thesis
    using mem_forget [OF mem] l
    by (intro coreI) (simp_all add: window_view_changes loose_def sound_def)
qed

lemma wf_retarget:
  assumes core: "core {} s" and ws: "get_workspace s w = Some ws" and c: "column_in_strip s w c \<or> (\<forall>x. c = Some x \<longrightarrow> get_column s x = None)"
  shows "ends wf (retarget_focus_after_destroy w c) s"
proof -
  let ?m = "wsp_monitor_id ws"
  have home: "home_view s w = Some ?m" by (rule view_values(1) [OF ws])
  have tgt: "target_located s w (next_focus_after_destroy s ws c)"
    unfolding next_focus_after_destroy_def
  proof (intro target_located_or)
    show "target_located s w (Option.bind c (\<lambda>c. Option.bind (get_column s c) (\<lambda>col.
             map_option (\<lambda>i. (i, Some c)) (column_active_window col))))"
      using c strip_target_located [OF core ws] column_active_window_in [OF core] view_values(2) [OF ws]
      by (auto simp: target_located_def bind_eq_Some_conv column_in_strip_def in_strip_def split: option.splits)
    show "target_located s w (find_map
             (\<lambda>d. if Some d = c then None
                   else Option.bind (get_column s d) (\<lambda>col. map_option (\<lambda>i. (i, Some d)) (column_active_window col)))
             (strip_columns (wsp_strip ws)))"
      using strip_target_located [OF core ws] column_active_window_in [OF core]
      by (fastforce simp: target_located_def bind_eq_Some_conv split: option.splits if_splits dest!: find_map_Some)
    show "target_located s w (map_option (\<lambda>i. (i, None)) (first (fl_windows (wsp_floating ws))))"
      using float_target_located [OF core ws] first_Some_in
      by (fastforce simp: target_located_def split: option.splits)
  qed
  have none: "wf (clear_window_focus ?m s)"
  proof (rule wfI)
    show "core {} (clear_window_focus ?m s)"
      unfolding clear_window_focus_def by (rule core_upd_focus [OF core]) simp
    have "monitor_view s ?m \<noteq> None" using top_home [OF coreD(2) [OF core] home] by blast
    then show "focus_ok (clear_window_focus ?m s)"
      by (intro focus_okI_none [where m = ?m]) (simp_all add: clear_window_focus_def view_simps)
  qed
  have "ends wf (case next_focus_after_destroy s ws c of
       Some p \<Rightarrow>
         thenA (modify (set_focus_to_window (wsp_monitor_id ws) w (fst p) (snd p) ReducerDefault))
         (case snd p of None \<Rightarrow> ret () | Some c \<Rightarrow> reveal_column_in_workspace w c)
     | None \<Rightarrow> modify (clear_window_focus (wsp_monitor_id ws))) s"
    using tgt none wf_set_focus [OF core home]
    by (intro run_intros wf_reveal_column) (auto simp: target_located_def split: option.splits)
  then show ?thesis
    using ws by (simp add: retarget_focus_after_destroy_def ends_def act_defs find_workspace_def)
qed

lemma focus_ok_del_window:
  assumes "focus_ok s" "focus_window (focus s) \<noteq> Some i" "focus_view t = focus_view s"
    "monitor_view t = monitor_view s" "active_view t = active_view s" "window_view t = (window_view s)(i := None)"
  shows "focus_ok t"
proof -
  have "located (window_view t) j w c" if "located (window_view s) j w c" "j \<noteq> i" for j w c
    using that assms(6) by (auto simp: located_def)
  then show ?thesis using assms(1,2)
    unfolding focus_ok_def assms(3,4,5) by (fastforce simp: focus_view_def split: prod.splits option.splits)
qed

lemma wf_handle_window_destroyed:
  assumes ok: "wf s"
  shows "ends wf (handle_window_destroyed p) s"
  unfolding handle_window_destroyed_def Let_def
proof (intro ends_try [of wf], goal_cases)
  case (3 win m)
  let ?i = "wxp_window_id p" and ?w = "win_workspace_id win" and ?c = "win_column_id win"
  have win: "get_window s ?i = Some win" using 3(1) by (simp add: find_window_def)
  have home: "home_view s ?w = Some m" using 3(2) by (simp add: home_of_monitor)
  obtain ws where ws: "get_workspace s ?w = Some ws" using home by (auto simp: home_view_def)
  obtain t where t: "detach_window_membership ?i s = (Inr (), t)" "loose ?i t" "move_frame s t"
    and sub: "\<And>v d. in_strip (strip_view t) v d \<Longrightarrow> in_strip (strip_view s) v d"
    using detach_window_spec [OF wfD(1) [OF ok] win ws] by metis
  have F: "home_view t = home_view s" "monitor_view t = monitor_view s" "active_view t = active_view s"
    "focus_view t = focus_view s" "window_view t = window_view s"
    using t(3) move_frame_window_view [OF t(3)] unfolding move_frame_def by blast+
  let ?t1 = "del_window ?i t"
  let ?t2 = "upd_workspace ?w (forget_window ?i ?c) ?t1"
  have "core {} ?t1" by (rule core_del_window [OF t(2)]) (use win in \<open>simp add: F view_domains\<close>)
  then have core: "core {} ?t2"
    by (rule core_upd_workspace_same) (simp_all add: forget_window_same workspace_entry_ok_def)
  have home2: "home_view ?t2 ?w = Some m"
    using home F(1) by (simp add: view_upd_same forget_window_same)
  then obtain ws2 where ws2: "get_workspace ?t2 ?w = Some ws2" by (auto simp: home_view_def)
  have c: "column_in_strip ?t2 ?w ?c \<or> (\<forall>x. ?c = Some x \<longrightarrow> get_column ?t2 x = None)"
  proof (cases ?c)
    case (Some x)
    show ?thesis
    proof (cases "get_column ?t2 x = None")
      case False
      then obtain col where col: "column_view ?t2 x = Some col" by (auto simp: view_domains [symmetric])
      then obtain v where v: "in_strip (strip_view ?t2) v x"
        using mem_column [OF coreD(1) [OF core]] by (cases col) blast
      moreover have "strip_view ?t2 = strip_view t" by (simp add: view_upd_same forget_window_same)
      ultimately have "in_strip (strip_view s) v x" using sub by simp
      moreover have "in_strip (strip_view s) ?w x"
        using mem_window_in_strip [OF coreD(1) [OF wfD(1) [OF ok]], of ?i ?w x] view_values(5) [OF win] Some
        by (simp add: located_def)
      ultimately have "v = ?w" using mem_strip_unique [OF coreD(1) [OF wfD(1) [OF ok]]] by blast
      then show ?thesis using v Some by (simp add: column_in_strip_def)
    qed (use Some in simp)
  qed simp
  have V: "focus_view ?t2 = focus_view s" "monitor_view ?t2 = monitor_view s" "active_view ?t2 = active_view s"
    "window_view ?t2 = (window_view s)(?i := None)"
    by (simp_all add: F window_view_changes)
  have "ends wf (thenA (if focus_window (focus ?t2) = Some ?i then retarget_focus_after_destroy ?w ?c else ret ())
      (thenA (modify (\<lambda>s. snd (ensure_tail_workspace m s)))
      (thenA (clamp_scroll_offset ?w) (ret (Some ?w))))) ?t2"
  proof (rule ends_then)
    have "wf ?t2" if "focus_window (focus ?t2) \<noteq> Some ?i"
    proof (rule wfI [OF core])
      have "focus_window (focus s) \<noteq> Some ?i" using that V(1) by (simp add: focus_view_def)
      from focus_ok_del_window [OF wfD(2) [OF ok] this V] show "focus_ok ?t2" .
    qed
    then show "ends wf (if focus_window (focus ?t2) = Some ?i then retarget_focus_after_destroy ?w ?c else ret ()) ?t2"
      using wf_retarget [OF core ws2 c] by (intro run_intros)
  qed (intro run_intros ends_then wf_clamp_scroll_offset wf_ensure_tail)
  then show ?case
    using t(1) by (simp add: ends_def act_defs)
qed (rule ok)+

end
