(* ===== verification/Store_Preserve_Workspaces.thy ===== *)
theory Store_Preserve_Workspaces
  imports Store_Preserve
begin

text \<open>Workspace and column moves keep the invariant.\<close>

section \<open>The members of a monitor's stack\<close>

lemma set_of_monitor_view: "set_of_monitor s m = Inr i \<longleftrightarrow> monitor_view s m = Some i"
  by (simp add: set_of_monitor_def workspace_set_id_for_monitor_def monitor_view_def)

lemma ordered_of_set_view:
  "ordered_of_set s m i = Inr ids \<longleftrightarrow> (\<exists>n a. set_view s i = Some (n, ids, a))"
  by (auto simp: ordered_of_set_def set_view_def)

lemma stack_member_home:
  assumes "core J s" "monitor_view s m = Some i" "ordered_of_set s m i = Inr ids" "w \<in> set ids"
  shows "home_view s w = Some m"
proof -
  note D = top_okD [OF coreD(2) [OF assms(1)]]
  obtain n a where "set_view s i = Some (n, ids, a)" using assms(3) by (auto simp: ordered_of_set_view)
  moreover from this have "n = m" using D(1) [OF assms(2)] by auto
  ultimately show ?thesis using D(4) assms(4) by blast
qed

lemma index_of_workspace_less: "index_of_workspace w ids = Inr n \<Longrightarrow> n < length ids \<and> ids ! n = w"
  by (auto simp: index_of_workspace_def position_Some_iff)

lemma neighbour_index_less: "n < k \<Longrightarrow> neighbour_index forward k n < k"
  by (auto simp: neighbour_index_def)

section \<open>Focusing a neighbour workspace\<close>

lemma wf_handle_focus_workspace:
  assumes ok: "wf s"
  shows "ends wf (handle_focus_workspace forward p) s"
  unfolding handle_focus_workspace_def Let_def
proof (intro run_intros ends_then, goal_cases)
  case (7 m i ids active index)
  let ?t = "normalize_workspace_set i s"
  note N = wf_normalize [OF ok, of i]
  have "ids ! neighbour_index forward (length ids) index \<in> set ids"
    using index_of_workspace_less [OF 7(5)] by (intro nth_mem neighbour_index_less) blast
  moreover have "monitor_view ?t m = Some i" using 7(2) N by (simp add: set_of_monitor_view)
  ultimately show ?case
    using wf_activate_workspace stack_member_home [OF wfD(1) _ 7(3)] N wfD(1) by blast
qed (use wf_normalize ok in blast)+

section \<open>Reordering the workspaces of a monitor\<close>

lemma wf_reorder_set:
  assumes ok: "wf s" and set: "set_view s i = Some (m, ids, a)"
    and f: "\<And>x. wset_monitor_id (f x) = wset_monitor_id x" "\<And>x. wset_ordered (f x) = g (wset_ordered x)"
      "\<And>x. wset_active (f x) = a"
    and g: "set (g ids) = set ids" "distinct (g ids)"
  shows "wf (upd_set i f s)"
proof (rule wfI)
  note D = coreD [OF wfD(1) [OF ok]]
  have "set_view (upd_set i f s) = (set_view s)(i := Some (m, g ids, a))"
    using set f by (auto simp: set_view_upd_set set_view_def)
  then show "core {} (upd_set i f s)"
    using D top_permute [OF D(2) set g] by (intro coreI) simp_all
  have "focus_ok (upd_set i f s) = focus_ok s" by (rule focus_ok_cong) simp_all
  then show "focus_ok (upd_set i f s)" using wfD(2) [OF ok] by simp
qed

lemma active_of_monitor_view:
  assumes "wf s" "monitor_view s m = Some i" "active_of_monitor s m = Inr a"
  obtains ids where "set_view s i = Some (m, ids, a)" "a \<in> set ids" "home_view s a = Some m" "active_view s m = Some a"
proof (rule active_of_ok [OF wfD(1) [OF assms(1)] assms(2)])
  fix b ids
  assume "active_workspace_id_for_monitor s m = Some b" "set_view s i = Some (m, ids, b)" "b \<in> set ids"
    "home_view s b = Some m" "active_view s m = Some b"
  then show thesis using that [of ids] assms(3) by (simp add: active_of_monitor_def)
qed simp

lemma wf_handle_move_workspace_within:
  assumes ok: "wf s"
  shows "ends wf (handle_move_workspace_within_monitor forward p) s"
  unfolding handle_move_workspace_within_monitor_def Let_def
proof (intro run_intros ends_then, goal_cases)
  case (7 m i active ids index)
  let ?t = "normalize_workspace_set i s"
  note N = wf_normalize [OF ok, of i]
  then have t: "wf ?t" "monitor_view ?t m = Some i" using 7(2) by (simp_all add: set_of_monitor_view)
  obtain ids' where set: "set_view ?t i = Some (m, ids', active)" using active_of_monitor_view [OF t 7(3)] .
  then have [simp]: "ids' = ids" using 7(4) by (auto simp: ordered_of_set_view)
  let ?n = "neighbour_index forward (length ids) index"
  have less: "index < length ids" using index_of_workspace_less [OF 7(5)] by blast
  then have less': "?n < length ids" by (rule neighbour_index_less)
  have d: "distinct ids" using top_okD(3) [OF coreD(2) [OF wfD(1) [OF t(1)]] set] by simp
  have "wf (upd_set i (\<lambda>x. x\<lparr>wset_ordered := swap_at index ?n (wset_ordered x), wset_active := active\<rparr>) ?t)"
    by (rule wf_reorder_set [OF t(1) set, where g = "swap_at index ?n"])
      (use less less' d in \<open>simp_all add: set_swap_at distinct_swap_at\<close>)
  then show ?case using wf_normalize by simp
qed (use wf_normalize ok in blast)+

section \<open>Moving a workspace to another monitor\<close>

lemma transfer_workspace_core:
  assumes ok: "core {} s" and S: "set_view s i = Some (m, ids, a)" and T: "set_view s j = Some (n, ids', b)"
    and ne: "i \<noteq> j" and w: "w \<in> set ids"
  obtains t k where "transfer_workspace m n i j w s = (Inr (), t)" "core {i, j} t"
    "set_view t = (set_view s)(i := Some (m, filter (\<lambda>x. x \<noteq> w) ids, a), j := Some (n, insert_at k w ids', w))"
    "monitor_view t = monitor_view s"
proof -
  note D = coreD [OF ok]
  obtain xi where xi: "get_set s i = Some xi" "wset_monitor_id xi = m" "wset_ordered xi = ids" "wset_active xi = a"
    using S by (auto simp: set_view_def)
  obtain xj where xj: "get_set s j = Some xj" "wset_monitor_id xj = n" "wset_ordered xj = ids'"
    using T by (auto simp: set_view_def)
  let ?s1 = "upd_set i (\<lambda>x. x\<lparr>wset_ordered := filter (\<lambda>y. y \<noteq> w) (wset_ordered x)\<rparr>) s"
  have xj1: "get_set ?s1 j = Some xj" using xj ne by (simp add: upd_set_def)
  let ?k = "insert_before_tail ?s1 ids'"
  let ?s2 = "upd_set j (\<lambda>x. x\<lparr>wset_ordered := insert_at ?k w (wset_ordered x), wset_active := w\<rparr>) ?s1"
  let ?t = "upd_workspace w (\<lambda>ws. ws\<lparr>wsp_monitor_id := n\<rparr>) ?s2"
  have run: "transfer_workspace m n i j w s = (Inr (), ?t)"
    using xi xj xj1
    by (simp add: transfer_workspace_def act_defs require_set_def ordered_of_set_def bm_has_def)
  have sets: "set_view ?t = (set_view s)(i := Some (m, filter (\<lambda>x. x \<noteq> w) ids, a),
      j := Some (n, insert_at ?k w ids', w))"
    using xi xj xj1 by (simp add: set_view_upd_set)
  obtain ws where ws: "get_workspace s w = Some ws"
    using top_okD(4) [OF D(2) S w] by (auto simp: home_view_def)
  have "home_view ?t = (home_view s)(w := Some n)"
    using ws by (simp add: home_view_changes) (simp add: upd_set_def)
  moreover have "strip_view ?t = strip_view s" "float_view ?t = float_view s"
    by (simp_all add: view_upd_same)
  moreover have "tables_ok ?t"
    by (rule tables_ok_upd_workspace) (use D(5) in \<open>simp_all add: workspace_entry_ok_def\<close>)
  ultimately have "core {i, j} ?t"
    using D top_transfer [OF D(2) S T ne w, of ?k] sets by (intro coreI) simp_all
  then show ?thesis using that run sets by simp
qed

lemma wf_handle_move_workspace_adjacent:
  assumes ok: "wf s"
  shows "ends wf (handle_move_workspace_to_adjacent_monitor forward p) s"
  unfolding handle_move_workspace_to_adjacent_monitor_def
proof (intro run_intros, goal_cases)
  case (7 m w i j)
  let ?n = "case adjacent_monitor_id s m forward of Some n \<Rightarrow> n | None \<Rightarrow> m"
  let ?t1 = "normalize_workspace_set i s"
  let ?t2 = "normalize_workspace_set j ?t1"
  note N1 = wf_normalize [OF ok, of i]
  then have N2: "wf ?t2 \<and> active_view ?t2 = active_view s \<and> monitor_view ?t2 = monitor_view s"
    using wf_normalize [of ?t1 j] by simp
  have V: "monitor_view ?t2 m = Some i" "monitor_view ?t2 ?n = Some j"
    using 7 N2 by (simp_all add: set_of_monitor_view)
  have act: "active_view ?t2 m = Some w"
    using active_of_monitor_view [OF ok _ 7(3), of i] 7(4) N2 by (auto simp: set_of_monitor_view)
  have core2: "core {} ?t2" using N2 by (simp add: wfD)
  note D = top_okD [OF coreD(2) [OF core2]]
  obtain ids where S: "set_view ?t2 i = Some (m, ids, w)" "w \<in> set ids"
    using D(1) [OF V(1)] D(5) act by fastforce
  obtain ids' b where T: "set_view ?t2 j = Some (?n, ids', b)"
    using D(1) [OF V(2)] by auto
  have ne: "i \<noteq> j" using S T 7(2) by auto
  obtain t3 k where t3: "transfer_workspace m ?n i j w ?t2 = (Inr (), t3)" "core {i, j} t3"
    "set_view t3 = (set_view ?t2)(i := Some (m, filter (\<lambda>x. x \<noteq> w) ids, w), j := Some (?n, insert_at k w ids', w))"
    using transfer_workspace_core [OF core2 S(1) T ne S(2)] by metis
  let ?t4 = "normalize_workspace_set i t3"
  have Si: "set_view t3 i = Some (m, filter (\<lambda>x. x \<noteq> w) ids, w)" using t3(3) ne by simp
  have t4: "core {j} ?t4 \<and> set_view ?t4 j = Some (?n, insert_at k w ids', w)"
  proof (rule normalize_spec [OF t3(2) Si])
    fix xs c
    assume *: "core ({i, j} - {i}) ?t4" "set_view ?t4 = (set_view t3)(i := Some (m, xs, c))"
    have "{i, j} - {i} = {j}" using ne by auto
    then show ?thesis using * t3(3) ne by simp
  qed
  let ?t5 = "normalize_workspace_set j ?t4"
  have "core {} ?t5 \<and> home_view ?t5 w = Some ?n"
  proof (rule normalize_spec [OF t4 [THEN conjunct1] t4 [THEN conjunct2]])
    fix xs c
    assume *: "core ({j} - {j}) ?t5" "set_view ?t5 = (set_view ?t4)(j := Some (?n, xs, c))"
      "w \<in> set (insert_at k w ids') \<Longrightarrow> c = w" "c \<in> set xs"
    then have c: "core {} ?t5" "c = w" "set_view ?t5 j = Some (?n, xs, c)" by simp_all
    then show ?thesis using top_okD(4) [OF coreD(2) [OF c(1)] c(3) *(4)] by simp
  qed
  then have "ends wf (activate_workspace ?n w UserCommand) ?t5"
    by (intro wf_activate_workspace) simp_all
  then have "ends wf (thenA (activate_workspace ?n w UserCommand)
       (thenA (modify (sync_overview_selection m)) (ret (Some w)))) ?t5"
    by (rule ends_then) (intro run_intros, simp)
  then show ?case
    using t3(1) by (simp add: ends_def act_defs)
qed (rule ok)+

section \<open>Moving a column\<close>

lemma rehome_windows_simps:
  "rehome_windows w c [] s = s"
  "rehome_windows w c (i # ids) s = rehome_windows w c ids (upd_window i (rehome_window w c) s)"
  by (simp_all add: rehome_windows_def)

lemma window_view_rehome_windows:
  "window_view (rehome_windows w c ids s) = rehomed (window_view s) w c ids"
proof (induction ids arbitrary: s)
  case (Cons i ids)
  have "window_view (upd_window i (rehome_window w c) s) = rehomed (window_view s) w c [i]"
    by (auto simp: fun_eq_iff window_view_changes rehomed_def rehome_window_def window_view_def option.map_comp o_def)
  then show ?case by (simp only: rehome_windows_simps Cons.IH rehomed_simps)
qed (simp add: rehome_windows_simps)

lemma rehome_windows_views:
  "monitor_view (rehome_windows w c ids s) = monitor_view s \<and> set_view (rehome_windows w c ids s) = set_view s \<and>
   active_view (rehome_windows w c ids s) = active_view s \<and> focus_view (rehome_windows w c ids s) = focus_view s \<and>
   home_view (rehome_windows w c ids s) = home_view s \<and> strip_view (rehome_windows w c ids s) = strip_view s \<and>
   float_view (rehome_windows w c ids s) = float_view s \<and> column_view (rehome_windows w c ids s) = column_view s \<and>
   counters_ok (rehome_windows w c ids s) = counters_ok s"
  by (induction ids arbitrary: s) (simp_all add: rehome_windows_simps)

lemma rehome_tables:
  assumes "tables_ok s" "\<And>j. restore_view s j" "\<And>i. i \<in> set ids \<Longrightarrow> \<exists>v. located (window_view s) i v (Some c)"
  shows "tables_ok (rehome_windows w c ids s) \<and> restore_view (rehome_windows w c ids s) j"
  using assms
proof (induction ids arbitrary: s)
  case (Cons i ids)
  let ?t = "upd_window i (rehome_window w c) s"
  have tab: "tables_ok ?t"
    using Cons.prems(1) by (auto simp: tables_ok_def upd_window_def rehome_window_def split: if_splits)
  obtain win where win: "get_window s i = Some win" "win_column_id win = Some c"
    using Cons.prems(3) [of i] by (auto simp: located_def window_view_def)
  then have "win_restore_target win = None"
    using Cons.prems(2) [of i] by (auto simp: restore_view_def split: option.splits)
  then have res: "restore_view ?t k" for k
    using Cons.prems(2) [of k] win by (auto simp: restore_view_def upd_window_def rehome_window_def split: option.splits)
  have at: "\<exists>v. located (window_view ?t) k v (Some c)" if "k \<in> set ids" for k
    using Cons.prems(3) [of k] Cons.prems(3) [of i] that win
    by (auto simp: located_def window_view_changes rehome_window_def)
  show ?case unfolding rehome_windows_simps by (rule Cons.IH [OF tab res at])
qed (simp add: rehome_windows_simps)

text \<open>The strip edits of a moved column.\<close>

lemma lift_column_same:
  "wsp_monitor_id (lift_column_from c ids ws) = wsp_monitor_id ws"
  "strip_columns (wsp_strip (lift_column_from c ids ws)) = filter (\<lambda>x. x \<noteq> c) (strip_columns (wsp_strip ws))"
  "wsp_floating (lift_column_from c ids ws) = wsp_floating ws"
  "workspace_entry_ok w ws \<Longrightarrow> workspace_entry_ok w (lift_column_from c ids ws)"
  by (simp_all add: lift_column_from_def remove_from_strip_def Let_def workspace_entry_ok_def)

lemma drop_column_same:
  "wsp_monitor_id (drop_column_into c after f ws) = wsp_monitor_id ws"
  "\<exists>n. strip_columns (wsp_strip (drop_column_into c after f ws)) =
     insert_at n c (filter (\<lambda>x. x \<noteq> c) (strip_columns (wsp_strip ws)))"
  "wsp_floating (drop_column_into c after f ws) = wsp_floating ws"
  "workspace_entry_ok w ws \<Longrightarrow> workspace_entry_ok w (drop_column_into c after f ws)"
  by (auto simp: drop_column_into_def remove_from_strip_def Let_def workspace_entry_ok_def)

lemma relocate_column_core:
  assumes ok: "core {} s" and col: "get_column s c = Some col" and S: "in_strip (strip_view s) v c"
    and target: "home_view s w = Some m"
  obtains t where "relocate_column c (col_windows col) f v w after s = (Inr (), t)" "core {} t"
    "home_view t = home_view s" "monitor_view t = monitor_view s"
proof -
  note D = coreD [OF ok]
  obtain vs where vs: "get_workspace s v = Some vs"
    using S by (auto simp: in_strip_def strip_view_def)
  let ?s1 = "upd_workspace v (lift_column_from c (col_windows col)) s"
  obtain ws where ws: "get_workspace s w = Some ws" using target by (auto simp: home_view_def)
  obtain ws1 where ws1: "get_workspace ?s1 w = Some ws1"
    using ws vs by (cases "w = v") (auto simp: upd_workspace_def)
  let ?s2 = "upd_workspace w (drop_column_into c after f) ?s1"
  let ?t = "rehome_windows w c (col_windows col) ?s2"
  have run: "relocate_column c (col_windows col) f v w after s = (Inr (), ?t)"
    using vs ws1 by (simp add: relocate_column_def act_defs find_workspace_def)
  obtain n where n: "strip_columns (wsp_strip (drop_column_into c after f ws1)) =
     insert_at n c (filter (\<lambda>x. x \<noteq> c) (strip_columns (wsp_strip ws1)))"
    using drop_column_same(2) by blast
  let ?cs = "strip_columns (wsp_strip vs)"
  have strip1: "strip_view ?s1 = (strip_view s)(v := Some (filter (\<lambda>x. x \<noteq> c) ?cs))"
    using vs by (simp add: strip_view_changes lift_column_same)
  have strip2: "strip_view ?s2 = (strip_view s)(v := Some (filter (\<lambda>x. x \<noteq> c) ?cs),
      w := Some (insert_at n c (filter (\<lambda>x. x \<noteq> c) (strip_columns (wsp_strip ws1)))))"
    using ws1 n strip1 by (simp add: strip_view_changes(1) [of w])
  have T: "((strip_view s)(v := Some (filter (\<lambda>x. x \<noteq> c) ?cs))) w = Some (strip_columns (wsp_strip ws1))"
    using view_values(2) [OF ws1] strip1 by simp
  have same: "home_view ?s2 = home_view s" "float_view ?s2 = float_view s"
    by (simp_all add: view_upd_same lift_column_same drop_column_same)
  note R = rehome_windows_views [of w c "col_windows col" ?s2]
  have at: "\<exists>u. located (window_view ?s2) i u (Some c)" if "i \<in> set (col_windows col)" for i
    using mem_column_located [OF D(1) S] view_values(4) [OF col] that by (auto simp: column_has_def)
  have tab: "tables_ok ?s2"
    by (intro tables_ok_upd_workspace lift_column_same drop_column_same D(5))
  have "tables_ok ?t \<and> restore_view ?t j" for j
    by (rule rehome_tables [OF tab]) (use D(3) at in auto)
  moreover have "mem_ok (strip_view ?t) (float_view ?t) (column_view ?t) (window_view ?t) {}"
    using mem_relocate [OF D(1) S view_values(4) [OF col] view_values(2) [OF vs] T, of n] R same strip2
    by (simp add: window_view_rehome_windows)
  ultimately have "core {} ?t"
    using D R same by (intro coreI) simp_all
  then show ?thesis using that run R same by simp
qed

lemma column_workspace_in_strip:
  assumes ok: "core {} s" and run: "column_workspace_id s c = Inr w"
  shows "in_strip (strip_view s) w c"
proof -
  obtain col i win where col: "get_column s c = Some col" "first (col_windows col) = Some i"
    and win: "get_window s i = Some win" "win_workspace_id win = w"
    using run unfolding column_workspace_id_def bindE_Inr_iff find_column_def find_window_def by auto
  have has: "column_has (column_view s) c i"
    using view_values(4) [OF col(1)] first_Some_in [OF col(2)] by (simp add: column_has_def)
  obtain v where v: "in_strip (strip_view s) v c"
    using mem_column [OF coreD(1) [OF ok] view_values(4) [OF col(1)]] by blast
  have "located (window_view s) i v (Some c)" by (rule mem_column_located [OF coreD(1) [OF ok] v has])
  then have "v = w" using win by (auto simp: located_def window_view_def)
  then show ?thesis using v by simp
qed

lemma wf_move_column_internal:
  assumes ok: "wf s"
  shows "ends wf (move_column_to_workspace_target_internal c target after) s"
  unfolding move_column_to_workspace_target_internal_def Let_def
proof (intro run_intros, goal_cases)
  case (10 col first_window source m n i j u)
  let ?f = "case column_active_window col of None \<Rightarrow> first_window | Some i \<Rightarrow> i"
  have col: "get_column s c = Some col" using 10(1) by (simp add: find_column_def)
  have S: "in_strip (strip_view s) source c" by (rule column_workspace_in_strip [OF wfD(1) [OF ok] 10(3)])
  have home: "home_view s target = Some n" using 10(5) by (simp add: home_of_monitor)
  obtain t where t: "relocate_column c (col_windows col) ?f source target after s = (Inr (), t)" "core {} t"
    "home_view t = home_view s"
    using relocate_column_core [OF wfD(1) [OF ok] col S home, of ?f after] by blast
  have "ends wf (activate_workspace n target UserCommand) t"
    by (rule wf_activate_workspace [OF t(2)]) (use home t(3) in simp)
  then have "ends wf (thenA (activate_workspace n target UserCommand)
       (thenA (modify (normalize_workspace_set i))
       (thenA (if j \<noteq> i then thenA (modify (normalize_workspace_set j)) (modify (sync_overview_selection m)) else ret ())
         (ret (Some target))))) t"
    by (rule ends_then) (intro run_intros ends_then, simp_all add: wf_normalize)
  then show ?case using t(1) by (simp only: ends_def thenA_def bindA_def) simp
qed (rule ok)+

lemma wf_handle_move_column:
  assumes ok: "wf s"
  shows "ends wf (handle_move_column_to_workspace forward p) s"
  unfolding handle_move_column_to_workspace_def Let_def
  by (intro run_intros wf_move_column_internal) (use ok wf_normalize in blast)+

lemma wf_handle_move_column_target: "wf s \<Longrightarrow> ends wf (handle_move_column_to_workspace_target p) s"
  unfolding handle_move_column_to_workspace_target_def by (rule wf_move_column_internal)

end
