(* ===== verification/Store_Reachable.thy ===== *)
theory Store_Reachable
  imports Store_Preserve_Windows Store_Preserve_Workspaces
begin

text \<open>
  Runs of the store: monitors are added, events are dispatched, and a caller goes on after an
  error with the state the failed dispatch left. The general fact that an invariant of every
  step holds in every reachable state is proved once, in a locale, and used through its
  interpretation on the store.
\<close>

section \<open>Machines and their invariants\<close>

locale machine =
  fixes start :: "'s \<Rightarrow> bool" and step :: "'i \<Rightarrow> 's \<Rightarrow> 's" and inv :: "'s \<Rightarrow> bool"
  assumes start_inv: "start s \<Longrightarrow> inv s"
    and step_inv: "inv s \<Longrightarrow> inv (step i s)"
begin

lemma run_inv: "inv s \<Longrightarrow> inv (fold step is s)"
  by (induction "is" arbitrary: s) (simp_all add: step_inv)

lemma reached_inv: "start s \<Longrightarrow> inv (fold step is s)"
  by (rule run_inv) (rule start_inv)

end

section \<open>Dispatch\<close>

lemma wf_apply_event: "wf s \<Longrightarrow> ends wf (apply_event e) s"
  unfolding apply_event_def
  by (cases "ev_payload e")
    (auto intro: wf_handle_window_discovered wf_handle_window_destroyed wf_handle_window_focus_observed
      wf_handle_focus_navigation wf_handle_focus_workspace wf_handle_strip_scroll
      wf_handle_move_workspace_within wf_handle_move_workspace_adjacent wf_handle_move_column
      wf_handle_move_column_target wf_handle_toggle_floating wf_handle_toggle_tabbed
      wf_handle_toggle_maximized wf_handle_toggle_fullscreen wf_handle_open_overview
      wf_handle_close_overview wf_handle_toggle_overview wf_handle_begin_resize wf_handle_update_preview
      wf_handle_commit wf_handle_cancel wf_handle_cycle wf_handle_config wf_handle_rules ends_ret)

lemma ends_stateA: "P (snd (f s)) \<Longrightarrow> (\<And>x t. f s = (x, t) \<Longrightarrow> ends P (k x) t) \<Longrightarrow> ends P (bindA (stateA f) k) s"
  by (cases "f s") (simp add: ends_def act_defs)

lemma wf_bump: "wf s \<Longrightarrow> bump_state_version s = (v, t) \<Longrightarrow> wf t"
  using wf_other_fields(5) [of s] by simp

lemma wf_record_transition [simp]: "wf (record_transition l c v s) = wf s"
  by (simp add: record_transition_def)

lemma wf_dispatch: "wf s \<Longrightarrow> ends wf (dispatch e) s"
  unfolding dispatch_def Let_def
proof (rule ends_bind, erule wf_apply_event, goal_cases)
  case (1 affected t)
  show ?case
  proof (rule ends_stateA)
    fix v u
    assume "bump_state_version t = (v, u)"
    then have u: "wf u" using wf_bump 1 by blast
    then have "ends wf (case affected of None \<Rightarrow> ret None
        | Some w \<Rightarrow> bindA (tryA (\<lambda>s. layout_of s w)) (\<lambda>p. ret (Some p))) u"
      by (intro run_intros)
    then show "ends wf (bindA (case affected of None \<Rightarrow> ret None
        | Some w \<Rightarrow> bindA (tryA (\<lambda>s. layout_of s w)) (\<lambda>p. ret (Some p))) (\<lambda>projection.
        thenA (modify (record_transition (event_name_as_str (ev_id e))
            (length (transition_applied v (ev_correlation_id e) (event_name_as_str (ev_id e))
              # layout_diagnostics v (ev_correlation_id e) affected projection)) v))
          (ret \<lparr>tr_state_version = v, tr_affected_workspace_id = affected, tr_layout_projection = projection,
            tr_diagnostics = transition_applied v (ev_correlation_id e) (event_name_as_str (ev_id e))
              # layout_diagnostics v (ev_correlation_id e) affected projection\<rparr>))) u"
      by (rule ends_bind) (intro run_intros, simp)
  qed (use 1 in simp)
qed

lemma wf_dispatch_state: "wf s \<Longrightarrow> wf (dispatch_state s e)"
  using wf_dispatch by (simp add: ends_def dispatch_state_def)

section \<open>Adding monitors\<close>

lemma wf_start: "wf (wm_state_new m)"
proof (rule wfI)
  let ?s = "wm_state_new m"
  have "strip_view ?s = (\<lambda>_. None)" "float_view ?s = (\<lambda>_. None)" "column_view ?s = (\<lambda>_. None)"
    "window_view ?s = (\<lambda>_. None)" "monitor_view ?s = (\<lambda>_. None)" "set_view ?s = (\<lambda>_. None)"
    "home_view ?s = (\<lambda>_. None)" "restore_view ?s = (\<lambda>_. True)" "counters_ok ?s" "tables_ok ?s"
    by (simp_all add: fun_eq_iff view_defs wm_state_new_def layout_state_default_def counters_ok_def
        tables_ok_def bm_has_def)
  then show "core {} ?s"
    using mem_ok_empty top_ok_empty by (intro coreI) simp_all
  show "focus_ok ?s"
    by (simp add: focus_ok_def focus_view_def wm_state_new_def focus_state_default_def)
qed

text \<open>The state of \<open>add_monitor\<close> before its final normalisation.\<close>

definition monitor_entry :: "wm_state \<Rightarrow> rect \<Rightarrow> nat \<Rightarrow> bool \<Rightarrow> monitor" where
  "monitor_entry s work_area dpi primary =
     \<lparr>mon_id = MonitorId (rs_next_monitor_id (runtime s)),
      mon_platform_binding = Some (''monitor-'' @ nat_to_dec (rs_next_monitor_id (runtime s))),
      mon_work_area_rect = work_area, mon_dpi = dpi,
      mon_topology_role = (if primary then Primary else Secondary),
      mon_workspace_set_id = WorkspaceSetId (rs_next_workspace_set_id (runtime s)),
      mon_is_primary_hint = primary\<rparr>"

definition bump_counters :: "wm_state \<Rightarrow> wm_state" where
  "bump_counters s = s\<lparr>runtime := (runtime s)\<lparr>rs_next_monitor_id := rs_next_monitor_id (runtime s) + 1,
      rs_next_workspace_set_id := rs_next_workspace_set_id (runtime s) + 1,
      rs_next_workspace_id := rs_next_workspace_id (runtime s) + 1\<rparr>\<rparr>"

definition enter_monitor ::
    "monitor \<Rightarrow> monitor_id \<Rightarrow> workspace_set_id \<Rightarrow> workspace_id \<Rightarrow> wm_state \<Rightarrow> wm_state" where
  "enter_monitor mon m i w s = s
     \<lparr>monitors := bm_put m mon (monitors s),
      workspaces := bm_put w (workspace_empty w m 0 (mon_work_area_rect mon)) (workspaces s),
      workspace_sets := bm_put i \<lparr>wset_id = i, wset_monitor_id = m, wset_ordered = [w],
        wset_active = w, wset_last_non_empty = None\<rparr> (workspace_sets s),
      focus := (focus s)\<lparr>focus_active_workspaces := bm_put m w (focus_active_workspaces (focus s)),
        focus_monitor := (if focus_monitor (focus s) = None then Some m else focus_monitor (focus s))\<rparr>\<rparr>"

definition seeded :: "rect \<Rightarrow> nat \<Rightarrow> bool \<Rightarrow> wm_state \<Rightarrow> wm_state" where
  "seeded work_area dpi primary s =
     enter_monitor (monitor_entry s work_area dpi primary) (MonitorId (rs_next_monitor_id (runtime s)))
       (WorkspaceSetId (rs_next_workspace_set_id (runtime s))) (WorkspaceId (rs_next_workspace_id (runtime s)))
       (bump_counters s)"

lemma allocate_three:
  "(case allocate_monitor_id s of (m, s1) \<Rightarrow> case allocate_workspace_set_id s1 of (i, s2) \<Rightarrow>
      case allocate_workspace_id s2 of (w, s3) \<Rightarrow> f m i w s3) =
   f (MonitorId (rs_next_monitor_id (runtime s))) (WorkspaceSetId (rs_next_workspace_set_id (runtime s)))
     (WorkspaceId (rs_next_workspace_id (runtime s))) (bump_counters s)"
  by (simp add: allocate_monitor_id_def allocate_workspace_set_id_def allocate_workspace_id_def bump_counters_def Let_def)

lemma enter_monitor_steps:
  "(let s4 = s\<lparr>monitors := bm_put m mon (monitors s)\<rparr>;
        s5 = put_workspace (workspace_empty w m 0 (mon_work_area_rect mon)) s4;
        s6 = s5\<lparr>workspace_sets := bm_put i \<lparr>wset_id = i, wset_monitor_id = m, wset_ordered = [w],
               wset_active = w, wset_last_non_empty = None\<rparr> (workspace_sets s5)\<rparr>;
        s7 = set_active_on_monitor m w s6
    in if focus_monitor (focus s7) = None then upd_focus (\<lambda>f. f\<lparr>focus_monitor := Some m\<rparr>) s7 else s7) =
   enter_monitor mon m i w s"
  by (simp add: enter_monitor_def put_workspace_def set_active_on_monitor_def upd_focus_def Let_def)

lemma add_monitor_seeded:
  "add_monitor work_area dpi primary s =
     (MonitorId (rs_next_monitor_id (runtime s)),
      normalize_workspace_set (WorkspaceSetId (rs_next_workspace_set_id (runtime s))) (seeded work_area dpi primary s))"
  unfolding add_monitor_def Let_def allocate_three seeded_def enter_monitor_steps [symmetric]
  by (simp add: monitor_entry_def)

lemma wf_seeded:
  assumes ok: "wf s"
  shows "wf (seeded work_area dpi primary s)"
proof -
  define m where "m = MonitorId (rs_next_monitor_id (runtime s))"
  define i where "i = WorkspaceSetId (rs_next_workspace_set_id (runtime s))"
  define w where "w = WorkspaceId (rs_next_workspace_id (runtime s))"
  let ?t = "seeded work_area dpi primary s"
  note D = coreD [OF wfD(1) [OF ok]]
  have fresh: "monitor_view s m = None" "set_view s i = None" "home_view s w = None"
    "strip_view s w = None" "float_view s w = None"
    using D(4) by (auto simp: counters_ok_def bm_has_def view_defs m_def i_def w_def)
  have V: "monitor_view ?t = (monitor_view s)(m := Some i)" "set_view ?t = (set_view s)(i := Some (m, [w], w))"
    "home_view ?t = (home_view s)(w := Some m)" "active_view ?t = (active_view s)(m := Some w)"
    "strip_view ?t = (strip_view s)(w := Some [])" "float_view ?t = (float_view s)(w := Some [])"
    "column_view ?t = column_view s" "window_view ?t = window_view s" "restore_view ?t = restore_view s"
    by (simp_all add: fun_eq_iff view_defs seeded_def enter_monitor_def bump_counters_def monitor_entry_def m_def i_def w_def)
  have "counters_ok ?t"
    using D(4) by (auto simp: counters_ok_def seeded_def enter_monitor_def bump_counters_def less_SucI)
  moreover have "tables_ok ?t"
    using D(5) by (auto simp: tables_ok_def seeded_def enter_monitor_def bump_counters_def bm.ok_insert workspace_entry_ok_def i32_max_def
        split: if_splits)
  ultimately have core: "core {} ?t"
    using D V top_new_monitor [OF D(2) fresh(1-3)] mem_add_workspace [OF D(1) fresh(4,5)]
    by (intro coreI) simp_all
  have "focus_ok ?t"
  proof (cases "focus_window (focus s)")
    case None
    have F: "focus_column (focus s) = None" by (rule focus_okD_none [OF wfD(2) [OF ok] None])
    show ?thesis
      using wfD(2) [OF ok] None F V(1)
      by (auto simp: focus_ok_def focus_view_def seeded_def enter_monitor_def bump_counters_def m_def)
  next
    case (Some j)
    obtain v n where v: "located (window_view s) j v (focus_column (focus s))"
      "focus_monitor (focus s) = Some n" "active_view s n = Some v" "monitor_view s n \<noteq> None"
      using focus_okD_window [OF wfD(2) [OF ok] Some] .
    have "n \<noteq> m" using v(4) fresh(1) by auto
    then show ?thesis
      using v Some V by (intro focus_okI_window [where m = n and i = j and w = v])
        (auto simp: focus_view_def seeded_def enter_monitor_def bump_counters_def)
  qed
  with core show ?thesis by (rule wfI)
qed

lemma wf_add_monitor: "wf s \<Longrightarrow> wf (snd (add_monitor work_area dpi primary s))"
  unfolding add_monitor_seeded using wf_normalize wf_seeded by simp

section \<open>Runs\<close>

datatype store_input = AddMonitor rect nat bool | Dispatch domain_event

fun store_step :: "store_input \<Rightarrow> wm_state \<Rightarrow> wm_state" where
  "store_step (AddMonitor work_area dpi primary) s = snd (add_monitor work_area dpi primary s)"
| "store_step (Dispatch e) s = dispatch_state s e"

definition store_start :: "wm_state \<Rightarrow> bool" where
  "store_start s \<longleftrightarrow> (\<exists>m. s = wm_state_new m)"

interpretation store: machine store_start store_step wf
proof
  show "store_start s \<Longrightarrow> wf s" for s by (auto simp: store_start_def wf_start)
  show "wf s \<Longrightarrow> wf (store_step i s)" for s i
    by (cases i) (simp_all add: wf_add_monitor wf_dispatch_state)
qed

inductive reachable :: "wm_state \<Rightarrow> bool" where
  reach_start: "reachable (wm_state_new m)"
| reach_step: "reachable s \<Longrightarrow> reachable (store_step i s)"

lemma wf_reachable: "reachable s \<Longrightarrow> wf s"
  by (induction rule: reachable.induct) (simp_all add: wf_start store.step_inv)

end
