(* ===== verification/Evaluation.thy ===== *)
theory Evaluation
  imports Store_Reachable
begin

text \<open>
  Running the reducer on concrete states. An action is unfolded only where it is applied to a
  state, and the congruence rules keep continuations folded until their argument is known, so the
  simplifier runs a dispatch the way the program does. The sample states below are the ones the
  properties are instantiated with.
\<close>

section \<open>Rules\<close>

definition bind_result :: "('e + 'a) \<times> 's \<Rightarrow> ('a \<Rightarrow> ('s, 'e, 'b) act) \<Rightarrow> ('e + 'b) \<times> 's" where
  "bind_result r f = (case r of (Inl e, t) \<Rightarrow> (Inl e, t) | (Inr x, t) \<Rightarrow> f x t)"

lemma eager:
  "bindA m f s = bind_result (m s) f"
  "thenA m' k s = bind_result (m' s) (\<lambda>_. k)"
  "bind_result (Inl e, t) f = (Inl e, t)"
  "bind_result (Inr x, t) f = f x t"
  "ret x s = (Inr x, s)" "throw e s = (Inl e, s)"
  "gets g s = (Inr (g s), s)" "tryA h s = (h s, s)" "modify u s = (Inr (), u s)"
  "stateA st s = (Inr (fst (st s)), snd (st s))"
  by (simp_all add: act_defs bind_result_def)

lemma eager_congs:
  "s = s' \<Longrightarrow> bindA m f s = bindA m f s'"
  "s = s' \<Longrightarrow> thenA m' k s = thenA m' k s'"
  "r = r' \<Longrightarrow> bind_result r f = bind_result r' f"
  "s = s' \<Longrightarrow> gets g s = gets g s'"
  "s = s' \<Longrightarrow> tryA h s = tryA h s'"
  "s = s' \<Longrightarrow> modify u s = modify u s'"
  "s = s' \<Longrightarrow> stateA st s = stateA st s'"
  by simp_all
lemma fold_res_weak: "xs = xs' \<Longrightarrow> a = a' \<Longrightarrow> fold_res f xs a = fold_res f xs' a'" by simp
lemma bindE_weak: "x = x' \<Longrightarrow> bindE x f = bindE x' f" by simp

lemmas run_actions =
  fun_cong [OF apply_scroll_delta_def] fun_cong [OF clamp_scroll_offset_def]
  fun_cong [OF reveal_column_in_workspace_def] fun_cong [OF insert_new_column_def]
  fun_cong [OF push_window_to_floating_layer_def] fun_cong [OF detach_window_membership_def]
  fun_cong [OF restore_in_new_column_def] fun_cong [OF restore_window_to_target_def]
  fun_cong [OF try_cycle_tabbed_focus_def] fun_cong [OF retarget_focus_after_destroy_def]
  fun_cong [OF open_overview_for_monitor_def] fun_cong [OF handle_open_overview_def]
  fun_cong [OF handle_close_overview_def] fun_cong [OF handle_toggle_overview_def]
  fun_cong [OF place_discovered_window_def] fun_cong [OF target_discovered_window_def]
  fun_cong [OF finish_discovery_def] fun_cong [OF handle_window_discovered_def]
  fun_cong [OF handle_window_destroyed_def] fun_cong [OF reveal_option_def]
  fun_cong [OF handle_window_focus_observed_def] fun_cong [OF navigate_strip_def]
  fun_cong [OF handle_focus_navigation_def] fun_cong [OF handle_config_reload_succeeded_def]
  fun_cong [OF handle_rules_updated_def] fun_cong [OF set_active_workspace_without_focus_def]
  fun_cong [OF activate_workspace_def] fun_cong [OF handle_focus_workspace_def]
  fun_cong [OF handle_move_workspace_within_monitor_def] fun_cong [OF transfer_workspace_def]
  fun_cong [OF handle_move_workspace_to_adjacent_monitor_def] fun_cong [OF relocate_column_def]
  fun_cong [OF move_column_to_workspace_target_internal_def]
  fun_cong [OF handle_move_column_to_workspace_def]
  fun_cong [OF handle_move_column_to_workspace_target_def]
  fun_cong [OF handle_begin_column_width_resize_def]
  fun_cong [OF handle_update_column_width_preview_def]
  fun_cong [OF handle_commit_column_width_def] fun_cong [OF handle_cancel_column_width_resize_def]
  fun_cong [OF handle_cycle_column_width_def] fun_cong [OF handle_strip_scroll_def]
  fun_cong [OF restore_raised_window_def] fun_cong [OF raise_window_def]
  fun_cong [OF handle_toggle_floating_def] fun_cong [OF handle_toggle_fullscreen_def]
  fun_cong [OF handle_column_toggle_def] fun_cong [OF handle_toggle_tabbed_def]
  fun_cong [OF handle_toggle_maximized_def] fun_cong [OF apply_event_def]
  fun_cong [OF dispatch_def]

lemmas run_reads =
  first_def last_opt_def vec_get_def insert_at_def swap_at_def or_opt_def filter_opt_def
  i32_max_def i32_min_def u32_max_def u64_max_def is_i32_def is_u32_def sat_i32_def
  i32_sat_add_def i32_sat_sub_def i32_sat_mul_def i32_half_def u32_sat_add_def u32_sat_mul_def
  u32_checked_mul_def u64_sat_add_def u32_clip_i32_def clamp_def clamp_in_def bm_del_def
  bm_keys_def bm_values_def bm_has_def bm_ok_def less_eq_monitor_id_def less_monitor_id_def
  less_eq_workspace_set_id_def less_workspace_set_id_def less_eq_workspace_id_def
  less_workspace_id_def less_eq_column_id_def less_column_id_def less_eq_window_id_def
  less_window_id_def less_eq_correlation_id_def less_correlation_id_def point_new_def size_new_def
  rect_new_def rect_from_parts_def rect_with_x_def rect_with_y_def rect_default_def rect_ok_def
  runtime_mode_parse_def bind_control_mode_parse_def all_column_modes_def
  width_semantics_default_def workspace_empty_def column_new_def focus_state_default_def
  overview_state_default_def capture_policy_default_def edge_insets_all_def
  edge_insets_horizontal_def edge_insets_vertical_def edge_insets_default_def
  layout_spacing_default_def config_projection_default_def is_space_def str_trim_def
  ascii_lower_def eq_ignore_ascii_case_def manages_monitor_binding_def version_line_def
  diagnostics_summary_default_def layout_state_default_def runtime_state_new_def wm_state_new_def
  bootstrap_profile_from_state_def bootstrap_profile_def bump_state_version_def upd_workspace_def
  upd_set_def upd_window_def upd_column_def upd_focus_def put_workspace_def del_workspace_def
  set_active_on_monitor_def allocate_monitor_id_def allocate_workspace_set_id_def
  allocate_workspace_id_def allocate_column_id_def allocate_window_id_def
  workspace_set_id_for_monitor_def active_workspace_id_for_monitor_def is_workspace_empty_def
  navigation_key_def monitor_ids_in_navigation_order_def norm_seed_def norm_tail_def
  norm_refresh_def norm_commit_def normalize_workspace_set_def ensure_tail_workspace_def
  add_monitor_def window_placement_default_def event_new_def window_discovered_with_def
  window_discovered_def window_destroyed_def window_focus_observed_def cmd_focus_next_def
  cmd_focus_prev_def cmd_focus_workspace_up_def cmd_focus_workspace_down_def
  cmd_scroll_strip_left_def cmd_scroll_strip_right_def cmd_move_workspace_up_def
  cmd_move_workspace_down_def cmd_move_workspace_to_monitor_next_def
  cmd_move_workspace_to_monitor_previous_def cmd_move_column_to_workspace_up_def
  cmd_move_column_to_workspace_down_def cmd_move_column_to_workspace_target_def
  cmd_toggle_floating_def cmd_toggle_tabbed_def cmd_toggle_maximized_def cmd_toggle_fullscreen_def
  cmd_open_overview_def cmd_close_overview_def cmd_toggle_overview_def
  cmd_begin_column_width_resize_def cmd_update_column_width_preview_def
  cmd_commit_column_width_def cmd_cancel_column_width_resize_def cmd_cycle_column_width_def
  config_reload_requested_def config_reload_succeeded_def config_reload_failed_def
  rules_updated_def inset_rect_def inset_uniform_rect_def padded_tiled_viewport_def
  default_floating_rect_def resolve_width_def content_width_step_def content_width_of_def
  strip_origin_x_def gap_total_def desired_height_def desired_height_total_def stacked_height_def
  stack_window_def stacked_geometries_def tabbed_geometries_def column_geometries_def
  place_column_def floating_rect_def place_floating_def focused_in_workspace_def
  recompute_workspace_def channels_def diagnostics_bootstrap_def transition_applied_def
  layout_recomputed_def validation_error_def perf_metric_new_def duration_to_micros_def
  average_duration_us_def record_duration_def record_error_def record_skip_def perf_snapshot_def
  perf_ok_def find_workspace_def find_column_def find_window_def find_monitor_def
  workspace_monitor_def layout_of_def focused_window_in_workspace_def
  focused_column_in_workspace_def window_is_fullscreen_def
  discovery_anchor_column_in_workspace_def fullscreen_restore_index_in_workspace_def
  column_index_in_workspace_def column_active_window_def column_workspace_id_def
  navigation_sequence_for_workspace_def workspace_tiled_viewport_def resolve_column_width_def
  workspace_content_width_def max_scroll_offset_def set_scroll_offset_def geometry_in_column_def
  extend_bounds_def column_bounds_def desired_scroll_offset_def focus_column_on_window_def
  set_active_of_monitor_def set_focus_to_window_def insert_column_index_def place_new_column_def
  push_floating_def detach_from_column_def detach_from_floating_def remove_from_strip_def
  del_column_def column_is_drained_def adopt_window_def append_window_def restore_to_column_def
  strip_contains_def cycled_tab_index_def next_focus_after_destroy_def clear_window_focus_def
  has_explicit_managed_monitor_set_def monitor_is_managed_def
  managed_monitor_ids_in_navigation_order_def first_managed_monitor_id_def command_monitor_id_def
  adjacent_monitor_id_def active_workspace_id_for_commands_def command_window_id_def
  sync_overview_selection_def open_overview_def close_overview_def discovered_node_def
  put_window_def preserves_current_focus_def forget_window_def del_window_def
  next_navigation_index_def remembered_window_target_def remembered_column_target_def
  workspace_focus_target_def drop_window_focus_def set_of_monitor_def active_of_monitor_def
  ordered_of_set_def index_of_workspace_def neighbour_index_def is_tail_workspace_def
  insert_before_tail_def require_set_def lift_column_from_def drop_column_into_def
  rehome_window_def rehome_windows_def check_anchor_def movable_column_def
  active_tiled_width_target_def width_bounds_def column_target_width_bounds_def
  compute_width_resize_metrics_def geometry_of_window_def set_resize_session_def
  session_metrics_def fix_column_width_def cycle_steps_def next_cycled_column_width_def
  restore_target_of_def current_placement_def settle_restored_def settle_raised_def
  toggle_tabbed_def toggle_maximized_def record_transition_def layout_diagnostics_def
  dispatch_state_def run_events_def

lemmas evaluate = eager run_actions run_reads i32_simps Let_def norm_collapse.simps nat_to_dec.simps

lemmas evaluate_congs = let_weak_cong eager_congs fold_res_weak bindE_weak

section \<open>Sample states\<close>

text \<open>One monitor with a work area of 1200 by 800 pixels, and windows on it.\<close>

definition desk :: wm_state where
  "desk = snd (add_monitor (rect_new 0 0 1200 800) 96 True (wm_state_new WmOnly))"

definition opened :: "nat \<Rightarrow> domain_event" where
  "opened h = window_discovered (CorrelationId h) (MonitorId 1) h (size_new 400 800) (rect_new 0 0 400 800)"

definition closed :: "nat \<Rightarrow> domain_event" where
  "closed n = window_destroyed (CorrelationId 9) (WindowId n)"

definition desk_one :: wm_state where
  "desk_one = dispatch_state desk (opened 1)"

definition desk_two :: wm_state where
  "desk_two = dispatch_state desk_one (opened 2)"

section \<open>The sample states in full\<close>

lemma desk_eq:
  "desk =
      \<lparr>runtime = \<lparr>rs_state_version = 0, rs_boot_mode = WmOnly, rs_last_reconcile_at =
      None, rs_last_full_scan_at = None, rs_degraded_flags = [], rs_next_monitor_id = 2,
      rs_next_workspace_set_id = 2, rs_next_workspace_id = 2, rs_next_column_id = 1, rs_next_window_id
      = 1\<rparr>, monitors = [(MonitorId 1, \<lparr>mon_id = MonitorId 1, mon_platform_binding = Some
      ''monitor-1'', mon_work_area_rect = \<lparr>rect_x = 0, rect_y = 0, rect_width = 1200, rect_height =
      800\<rparr>, mon_dpi = 96, mon_topology_role = Primary, mon_workspace_set_id = WorkspaceSetId 1,
      mon_is_primary_hint = True\<rparr>)], workspace_sets = [(WorkspaceSetId 1, \<lparr>wset_id =
      WorkspaceSetId 1, wset_monitor_id = MonitorId 1, wset_ordered = [WorkspaceId 1], wset_active =
      WorkspaceId 1, wset_last_non_empty = None\<rparr>)], workspaces = [(WorkspaceId 1, \<lparr>wsp_id
      = WorkspaceId 1, wsp_monitor_id = MonitorId 1, wsp_vertical_index = 0, wsp_remembered_window =
      None, wsp_remembered_column = None, wsp_strip = \<lparr>strip_columns = [], strip_scroll_offset =
      0, strip_visible_region = \<lparr>rect_x = 0, rect_y = 0, rect_width = 1200, rect_height =
      800\<rparr>, strip_mode = Columns\<rparr>, wsp_floating = \<lparr>fl_workspace_id = WorkspaceId
      1, fl_windows = [], fl_z_hints = []\<rparr>, wsp_name = None, wsp_is_ephemeral_empty_tail =
      True\<rparr>)], windows = [], focus = \<lparr>focus_monitor = Some (MonitorId 1),
      focus_active_workspaces = [(MonitorId 1, WorkspaceId 1)], focus_window = None, focus_column =
      None, focus_origin_of = ReducerDefault\<rparr>, layout = \<lparr>lay_columns = [],
      lay_width_resize_session = None\<rparr>, overview = \<lparr>ov_is_open = False, ov_monitor_id =
      None, ov_selection = None, ov_drag_payload = None, ov_projection_version = 0\<rparr>, capture =
      \<lparr>cap_window_overrides = [], cap_workspace_overrides = [], cap_built_in_exclusions =
      [''task-switcher'', ''lock-screen''], cap_affinity_targets = []\<rparr>, config =
      \<lparr>cfg_version = 0, cfg_live_reload_enabled = True, cfg_rollback_supported = True,
      cfg_source_path = ''config/flowtile.kdl'', cfg_bind_control_mode = Coexistence,
      cfg_strip_scroll_step = 240, cfg_default_column_mode = NormalColumn, cfg_default_column_width =
      MonitorFraction 1 2, cfg_layout_spacing = \<lparr>sp_outer_padding = \<lparr>ins_left = 16,
      ins_top = 16, ins_right = 16, ins_bottom = 16\<rparr>, sp_column_gap = 12, sp_window_gap = 12,
      sp_floating_margin = 16\<rparr>, cfg_managed_monitor_bindings = [], cfg_active_rule_count =
      0\<rparr>, diagnostics = \<lparr>diag_last_label = None, diag_total_records = 0,
      diag_last_state_version = 0, diag_version_line = ''v.0.0.23''\<rparr>\<rparr>"
  by (simp add: desk_def evaluate char_of_def cong: evaluate_congs del: One_nat_def)
    (simp add: bit_iff_odd)

lemma desk_one_eq:
  "desk_one =
      \<lparr>runtime = \<lparr>rs_state_version = 1, rs_boot_mode = WmOnly, rs_last_reconcile_at =
      None, rs_last_full_scan_at = None, rs_degraded_flags = [], rs_next_monitor_id = 2,
      rs_next_workspace_set_id = 2, rs_next_workspace_id = 3, rs_next_column_id = 2, rs_next_window_id
      = 2\<rparr>, monitors = [(MonitorId 1, \<lparr>mon_id = MonitorId 1, mon_platform_binding = Some
      ''monitor-1'', mon_work_area_rect = \<lparr>rect_x = 0, rect_y = 0, rect_width = 1200, rect_height =
      800\<rparr>, mon_dpi = 96, mon_topology_role = Primary, mon_workspace_set_id = WorkspaceSetId 1,
      mon_is_primary_hint = True\<rparr>)], workspace_sets = [(WorkspaceSetId 1, \<lparr>wset_id =
      WorkspaceSetId 1, wset_monitor_id = MonitorId 1, wset_ordered = [WorkspaceId 1, WorkspaceId 2],
      wset_active = WorkspaceId 1, wset_last_non_empty = Some (WorkspaceId 1)\<rparr>)], workspaces =
      [(WorkspaceId 1, \<lparr>wsp_id = WorkspaceId 1, wsp_monitor_id = MonitorId 1, wsp_vertical_index
      = 0, wsp_remembered_window = Some (WindowId 1), wsp_remembered_column = Some (ColumnId 1),
      wsp_strip = \<lparr>strip_columns = [ColumnId 1], strip_scroll_offset = 0, strip_visible_region =
      \<lparr>rect_x = 0, rect_y = 0, rect_width = 1200, rect_height = 800\<rparr>, strip_mode =
      Columns\<rparr>, wsp_floating = \<lparr>fl_workspace_id = WorkspaceId 1, fl_windows = [],
      fl_z_hints = []\<rparr>, wsp_name = None, wsp_is_ephemeral_empty_tail = False\<rparr>),
      (WorkspaceId 2, \<lparr>wsp_id = WorkspaceId 2, wsp_monitor_id = MonitorId 1, wsp_vertical_index
      = Suc 0, wsp_remembered_window = None, wsp_remembered_column = None, wsp_strip =
      \<lparr>strip_columns = [], strip_scroll_offset = 0, strip_visible_region = \<lparr>rect_x = 0,
      rect_y = 0, rect_width = 1200, rect_height = 800\<rparr>, strip_mode = Columns\<rparr>,
      wsp_floating = \<lparr>fl_workspace_id = WorkspaceId 2, fl_windows = [], fl_z_hints = []\<rparr>,
      wsp_name = None, wsp_is_ephemeral_empty_tail = True\<rparr>)], windows = [(WindowId 1,
      \<lparr>win_id = WindowId 1, win_hwnd = Some 1, win_classification = Application, win_layer =
      Tiled, win_workspace_id = WorkspaceId 1, win_column_id = Some (ColumnId 1), win_is_managed =
      True, win_is_floating = False, win_is_fullscreen = False, win_restore_target = None,
      win_last_known_rect = \<lparr>rect_x = 0, rect_y = 0, rect_width = 400, rect_height =
      800\<rparr>, win_desired_size = \<lparr>sz_width = 400, sz_height = 800\<rparr>\<rparr>)], focus
      = \<lparr>focus_monitor = Some (MonitorId 1), focus_active_workspaces = [(MonitorId 1,
      WorkspaceId 1)], focus_window = Some (WindowId 1), focus_column = Some (ColumnId 1),
      focus_origin_of = ReducerDefault\<rparr>, layout = \<lparr>lay_columns = [(ColumnId 1,
      \<lparr>col_id = ColumnId 1, col_mode = NormalColumn, col_windows = [WindowId 1], col_active =
      Some (WindowId 1), col_width = MonitorFraction 1 2, col_maximized = NotMaximized,
      col_tab_selection = Some (WindowId 1)\<rparr>)], lay_width_resize_session = None\<rparr>,
      overview = \<lparr>ov_is_open = False, ov_monitor_id = None, ov_selection = None, ov_drag_payload
      = None, ov_projection_version = 0\<rparr>, capture = \<lparr>cap_window_overrides = [],
      cap_workspace_overrides = [], cap_built_in_exclusions = [''task-switcher'', ''lock-screen''],
      cap_affinity_targets = []\<rparr>, config = \<lparr>cfg_version = 0, cfg_live_reload_enabled =
      True, cfg_rollback_supported = True, cfg_source_path = ''config/flowtile.kdl'',
      cfg_bind_control_mode = Coexistence, cfg_strip_scroll_step = 240, cfg_default_column_mode =
      NormalColumn, cfg_default_column_width = MonitorFraction 1 2, cfg_layout_spacing =
      \<lparr>sp_outer_padding = \<lparr>ins_left = 16, ins_top = 16, ins_right = 16, ins_bottom =
      16\<rparr>, sp_column_gap = 12, sp_window_gap = 12, sp_floating_margin = 16\<rparr>,
      cfg_managed_monitor_bindings = [], cfg_active_rule_count = 0\<rparr>, diagnostics =
      \<lparr>diag_last_label = Some ''EVT-WINDOW-DISCOVERED'', diag_total_records = Suc (Suc 0),
      diag_last_state_version = 1, diag_version_line = ''v.0.0.23''\<rparr>\<rparr>"
  by (simp add: desk_one_def opened_def desk_eq evaluate cong: evaluate_congs del: One_nat_def)

lemma desk_two_eq:
  "desk_two =
      \<lparr>runtime = \<lparr>rs_state_version = 2, rs_boot_mode = WmOnly, rs_last_reconcile_at =
      None, rs_last_full_scan_at = None, rs_degraded_flags = [], rs_next_monitor_id = 2,
      rs_next_workspace_set_id = 2, rs_next_workspace_id = 3, rs_next_column_id = 3, rs_next_window_id
      = 3\<rparr>, monitors = [(MonitorId 1, \<lparr>mon_id = MonitorId 1, mon_platform_binding = Some
      ''monitor-1'', mon_work_area_rect = \<lparr>rect_x = 0, rect_y = 0, rect_width = 1200, rect_height =
      800\<rparr>, mon_dpi = 96, mon_topology_role = Primary, mon_workspace_set_id = WorkspaceSetId 1,
      mon_is_primary_hint = True\<rparr>)], workspace_sets = [(WorkspaceSetId 1, \<lparr>wset_id =
      WorkspaceSetId 1, wset_monitor_id = MonitorId 1, wset_ordered = [WorkspaceId 1, WorkspaceId 2],
      wset_active = WorkspaceId 1, wset_last_non_empty = Some (WorkspaceId 1)\<rparr>)], workspaces =
      [(WorkspaceId 1, \<lparr>wsp_id = WorkspaceId 1, wsp_monitor_id = MonitorId 1, wsp_vertical_index
      = 0, wsp_remembered_window = Some (WindowId 2), wsp_remembered_column = Some (ColumnId 2),
      wsp_strip = \<lparr>strip_columns = [ColumnId 1, ColumnId 2], strip_scroll_offset = 12,
      strip_visible_region = \<lparr>rect_x = 0, rect_y = 0, rect_width = 1200, rect_height =
      800\<rparr>, strip_mode = Columns\<rparr>, wsp_floating = \<lparr>fl_workspace_id = WorkspaceId
      1, fl_windows = [], fl_z_hints = []\<rparr>, wsp_name = None, wsp_is_ephemeral_empty_tail =
      False\<rparr>), (WorkspaceId 2, \<lparr>wsp_id = WorkspaceId 2, wsp_monitor_id = MonitorId 1,
      wsp_vertical_index = Suc 0, wsp_remembered_window = None, wsp_remembered_column = None, wsp_strip
      = \<lparr>strip_columns = [], strip_scroll_offset = 0, strip_visible_region = \<lparr>rect_x = 0,
      rect_y = 0, rect_width = 1200, rect_height = 800\<rparr>, strip_mode = Columns\<rparr>,
      wsp_floating = \<lparr>fl_workspace_id = WorkspaceId 2, fl_windows = [], fl_z_hints = []\<rparr>,
      wsp_name = None, wsp_is_ephemeral_empty_tail = True\<rparr>)], windows = [(WindowId 1,
      \<lparr>win_id = WindowId 1, win_hwnd = Some 1, win_classification = Application, win_layer =
      Tiled, win_workspace_id = WorkspaceId 1, win_column_id = Some (ColumnId 1), win_is_managed =
      True, win_is_floating = False, win_is_fullscreen = False, win_restore_target = None,
      win_last_known_rect = \<lparr>rect_x = 0, rect_y = 0, rect_width = 400, rect_height =
      800\<rparr>, win_desired_size = \<lparr>sz_width = 400, sz_height = 800\<rparr>\<rparr>),
      (WindowId 2, \<lparr>win_id = WindowId 2, win_hwnd = Some 2, win_classification = Application,
      win_layer = Tiled, win_workspace_id = WorkspaceId 1, win_column_id = Some (ColumnId 2),
      win_is_managed = True, win_is_floating = False, win_is_fullscreen = False, win_restore_target =
      None, win_last_known_rect = \<lparr>rect_x = 0, rect_y = 0, rect_width = 400, rect_height =
      800\<rparr>, win_desired_size = \<lparr>sz_width = 400, sz_height = 800\<rparr>\<rparr>)], focus
      = \<lparr>focus_monitor = Some (MonitorId 1), focus_active_workspaces = [(MonitorId 1,
      WorkspaceId 1)], focus_window = Some (WindowId 2), focus_column = Some (ColumnId 2),
      focus_origin_of = ReducerDefault\<rparr>, layout = \<lparr>lay_columns = [(ColumnId 1,
      \<lparr>col_id = ColumnId 1, col_mode = NormalColumn, col_windows = [WindowId 1], col_active =
      Some (WindowId 1), col_width = MonitorFraction 1 2, col_maximized = NotMaximized,
      col_tab_selection = Some (WindowId 1)\<rparr>), (ColumnId 2, \<lparr>col_id = ColumnId 2,
      col_mode = NormalColumn, col_windows = [WindowId 2], col_active = Some (WindowId 2), col_width =
      MonitorFraction 1 2, col_maximized = NotMaximized, col_tab_selection = Some (WindowId
      2)\<rparr>)], lay_width_resize_session = None\<rparr>, overview = \<lparr>ov_is_open = False,
      ov_monitor_id = None, ov_selection = None, ov_drag_payload = None, ov_projection_version =
      0\<rparr>, capture = \<lparr>cap_window_overrides = [], cap_workspace_overrides = [],
      cap_built_in_exclusions = [''task-switcher'', ''lock-screen''], cap_affinity_targets =
      []\<rparr>, config = \<lparr>cfg_version = 0, cfg_live_reload_enabled = True,
      cfg_rollback_supported = True, cfg_source_path = ''config/flowtile.kdl'', cfg_bind_control_mode =
      Coexistence, cfg_strip_scroll_step = 240, cfg_default_column_mode = NormalColumn,
      cfg_default_column_width = MonitorFraction 1 2, cfg_layout_spacing = \<lparr>sp_outer_padding =
      \<lparr>ins_left = 16, ins_top = 16, ins_right = 16, ins_bottom = 16\<rparr>, sp_column_gap = 12,
      sp_window_gap = 12, sp_floating_margin = 16\<rparr>, cfg_managed_monitor_bindings = [],
      cfg_active_rule_count = 0\<rparr>, diagnostics = \<lparr>diag_last_label = Some
      ''EVT-WINDOW-DISCOVERED'', diag_total_records = Suc (Suc (Suc (Suc 0))), diag_last_state_version
      = 2, diag_version_line = ''v.0.0.23''\<rparr>\<rparr>"
  by (simp add: desk_two_def opened_def desk_one_eq evaluate cong: evaluate_congs del: One_nat_def)

lemma desk_reachable: "reachable desk"
  using reach_step [OF reach_start, of "AddMonitor (rect_new 0 0 1200 800) 96 True"] by (simp add: desk_def)

lemma dispatch_reachable: "reachable s \<Longrightarrow> reachable (dispatch_state s e)"
  using reach_step [of s "Dispatch e"] by simp

lemma sample_reachable: "reachable desk" "reachable desk_one" "reachable desk_two"
  by (simp_all add: desk_reachable desk_one_def desk_two_def dispatch_reachable)

lemmas sample_wf = sample_reachable [THEN wf_reachable]

lemmas sample_eqs = desk_eq desk_one_eq desk_two_eq

end
