(* ===== verification/Layout_Facts.thy ===== *)
theory Layout_Facts
  imports Store_Invariant
begin

text \<open>
  What the layout engine promises: it succeeds on every workspace of a well-formed state, it
  gives each displayed window exactly one rectangle, and the rectangles of a column partition
  the height of the viewport. The arithmetic facts are about the engine's own functions and
  name the ranges in which no operation saturates or wraps.
\<close>

section \<open>The layout succeeds\<close>

lemma fold_res_succeeds:
  assumes "\<And>x a. x \<in> set xs \<Longrightarrow> \<exists>b. f x a = Inr b"
  shows "\<exists>b. fold_res f xs a = Inr b"
  using assms
proof (induction xs arbitrary: a)
  case (Cons x xs)
  obtain b where "f x a = Inr b" using Cons.prems [of x a] by auto
  then show ?case using Cons by auto
qed simp

lemma enumerate_member: "p \<in> set (List.enumerate n xs) \<Longrightarrow> snd p \<in> set xs"
  by (induction xs arbitrary: n) auto

lemma stack_window_succeeds:
  "get_window s (snd p) \<noteq> None \<Longrightarrow> \<exists>st'. stack_window s x width gap tiled hs k p st = Inr st'"
  by (cases p) (auto simp: stack_window_def Let_def)

lemma stacked_geometries_succeeds:
  assumes "\<And>i. i \<in> set ids \<Longrightarrow> get_window s i \<noteq> None"
  shows "\<exists>gs. stacked_geometries s viewport spacing x width ids = Inr gs"
proof (cases "ids = []")
  case False
  let ?hs = "desired_height_total s ids"
  let ?tiled = "max (rect_height viewport - gap_total (length ids) (sp_window_gap spacing)) 1"
  let ?f = "stack_window s x width (sp_window_gap spacing) ?tiled ?hs (length ids - 1)"
  have "\<exists>st. fold_res ?f (List.enumerate 0 ids)
      \<lparr>st_y_cursor = rect_y viewport, st_remaining_height = ?tiled, st_geometries = []\<rparr> = Inr st"
    by (rule fold_res_succeeds) (rule stack_window_succeeds, rule assms, erule enumerate_member)
  then show ?thesis using False by (auto simp: stacked_geometries_def Let_def)
qed (simp add: stacked_geometries_def)

lemma core_window_exists: "core J s \<Longrightarrow> located (window_view s) i w c \<Longrightarrow> get_window s i \<noteq> None"
  by (auto simp: located_def window_view_def)

lemma column_geometries_succeeds:
  assumes ok: "core J s" and col: "get_column s c = Some col"
  shows "\<exists>gs. column_geometries s viewport spacing x width col = Inr gs"
proof -
  note mem = coreD(1) [OF ok]
  note C = mem_column [OF mem view_values(4) [OF col]]
  obtain w where w: "in_strip (strip_view s) w c" using C by blast
  have ex: "get_window s i \<noteq> None" if "i \<in> set (col_windows col)" for i
    using core_window_exists [OF ok mem_column_located [OF mem w]] view_values(4) [OF col] that
    by (simp add: column_has_def)
  have "\<exists>gs. tabbed_geometries s viewport x width col = Inr gs"
    using C ex first_Some_in [of "col_windows col"]
    by (fastforce simp: tabbed_geometries_def or_opt_def split: option.splits)
  then show ?thesis
    using stacked_geometries_succeeds ex by (simp add: column_geometries_def)
qed

lemma layout_succeeds:
  assumes ok: "core J s" and home: "home_view s w = Some m"
  shows "\<exists>p. recompute_workspace s w = Inr p"
proof -
  obtain ws where ws: "get_workspace s w = Some ws" "wsp_monitor_id ws = m"
    using home by (auto simp: home_view_def)
  obtain mon where mon: "get_monitor s m = Some mon" using home_monitor_exists [OF ok home] .
  let ?cols = "strip_columns (wsp_strip ws)"
  let ?vp = "padded_tiled_viewport (mon_work_area_rect mon) (config s)"
  let ?sp = "cfg_layout_spacing (config s)"
  have col: "\<exists>col. get_column s c = Some col" if "c \<in> set ?cols" for c
  proof -
    have "in_strip (strip_view s) w c" using ws(1) that by (simp add: in_strip_def strip_view_def)
    from mem_strip_column [OF coreD(1) [OF ok] this] show ?thesis by (auto simp: column_view_def)
  qed
  have "\<exists>n. content_width_of s (rect_width ?vp) (sp_column_gap ?sp) ?cols = Inr n"
    unfolding content_width_of_def
  proof (rule fold_res_succeeds)
    fix p a
    assume "p \<in> set (List.enumerate 0 ?cols)"
    then obtain col where "get_column s (snd p) = Some col" using col enumerate_member by blast
    then show "\<exists>b. content_width_step s (rect_width ?vp) (sp_column_gap ?sp) p a = Inr b"
      by (cases p) (simp add: content_width_step_def)
  qed
  moreover have "\<exists>r. fold_res (place_column s ?vp ?sp (length ?cols - 1)) (List.enumerate 0 ?cols) a = Inr r" for a
  proof (rule fold_res_succeeds)
    fix p :: "nat \<times> column_id" and a :: "int \<times> window_geometry list"
    assume "p \<in> set (List.enumerate 0 ?cols)"
    then obtain c where c: "snd p = c" "get_column s c \<noteq> None"
      using col enumerate_member by fastforce
    then obtain col where col: "get_column s c = Some col" by blast
    obtain gs where "column_geometries s ?vp ?sp (fst a) (resolve_width col (rect_width ?vp)) col = Inr gs"
      using column_geometries_succeeds [OF ok col] by blast
    then show "\<exists>b. place_column s ?vp ?sp (length ?cols - 1) p a = Inr b"
      using c col by (cases p; cases a) (simp add: place_column_def Let_def)
  qed
  moreover have "\<exists>r. fold_res (place_floating s (mon_work_area_rect mon)) (fl_windows (wsp_floating ws)) a = Inr r" for a
  proof (rule fold_res_succeeds)
    fix i a
    assume "i \<in> set (fl_windows (wsp_floating ws))"
    then have "floats (float_view s) w i" using view_values(3) [OF ws(1)] by (simp add: floats_def)
    then have "get_window s i \<noteq> None"
      using core_window_exists [OF ok mem_float_located [OF coreD(1) [OF ok]]] by blast
    then show "\<exists>b. place_floating s (mon_work_area_rect mon) i a = Inr b"
      by (auto simp: place_floating_def)
  qed
  ultimately show ?thesis
    using ws mon unfolding recompute_workspace_def by (simp add: Let_def bindE_Inr_iff) metis
qed

section \<open>Which windows a projection shows\<close>

definition shown_in_column :: "column \<Rightarrow> window_id list" where
  "shown_in_column col =
     (if col_mode col = Tabbed
      then (case or_opt (col_tab_selection col) (first (col_windows col)) of None \<Rightarrow> [] | Some i \<Rightarrow> [i])
      else col_windows col)"

definition displayed :: "wm_state \<Rightarrow> workspace \<Rightarrow> window_id list" where
  "displayed s ws =
     concat (map (\<lambda>c. case get_column s c of None \<Rightarrow> [] | Some col \<Rightarrow> shown_in_column col)
       (strip_columns (wsp_strip ws))) @ fl_windows (wsp_floating ws)"

lemma stack_fold_windows:
  assumes "fold_res (stack_window s x width gap tiled hs k) xs st = Inr st'"
  shows "map geo_window_id (st_geometries st') = map geo_window_id (st_geometries st) @ map snd xs"
  using assms
proof (induction xs arbitrary: st)
  case (Cons p xs)
  obtain n i where p: "p = (n, i)" by (cases p)
  obtain st1 where st1: "stack_window s x width gap tiled hs k p st = Inr st1"
    "fold_res (stack_window s x width gap tiled hs k) xs st1 = Inr st'"
    using Cons.prems by (auto simp: bindE_Inr_iff)
  then have "map geo_window_id (st_geometries st1) = map geo_window_id (st_geometries st) @ [i]"
    by (auto simp: p stack_window_def bindE_Inr_iff Let_def)
  then show ?case using Cons.IH [OF st1(2)] p by simp
qed simp

lemma column_geometries_windows:
  assumes "column_geometries s viewport spacing x width col = Inr gs"
  shows "map geo_window_id gs = shown_in_column col"
proof (cases "col_mode col = Tabbed")
  case True
  then show ?thesis using assms
    by (auto simp: column_geometries_def tabbed_geometries_def shown_in_column_def bindE_Inr_iff split: option.splits)
next
  case False
  then have run: "stacked_geometries s viewport spacing x width (col_windows col) = Inr gs"
    using assms by (simp add: column_geometries_def)
  show ?thesis
  proof (cases "col_windows col = []")
    case True
    then show ?thesis using False run by (simp add: stacked_geometries_def shown_in_column_def)
  next
    case ne: False
    then show ?thesis using run False
      by (auto simp: stacked_geometries_def shown_in_column_def bindE_Inr_iff Let_def dest: stack_fold_windows)
  qed
qed

lemma place_columns_windows:
  assumes "fold_res (place_column s viewport spacing k) xs a = Inr r"
  shows "map geo_window_id (snd r) = map geo_window_id (snd a) @
    concat (map (\<lambda>p. case get_column s (snd p) of None \<Rightarrow> [] | Some col \<Rightarrow> shown_in_column col) xs)"
  using assms
proof (induction xs arbitrary: a)
  case (Cons p xs)
  obtain n c where p: "p = (n, c)" by (cases p)
  obtain b where b: "place_column s viewport spacing k p a = Inr b"
    "fold_res (place_column s viewport spacing k) xs b = Inr r"
    using Cons.prems by (auto simp: bindE_Inr_iff)
  then have "map geo_window_id (snd b) = map geo_window_id (snd a) @
      (case get_column s c of None \<Rightarrow> [] | Some col \<Rightarrow> shown_in_column col)"
    by (cases a) (auto simp: p place_column_def bindE_Inr_iff Let_def column_geometries_windows)
  then show ?case using Cons.IH [OF b(2)] p by simp
qed simp

lemma place_floating_windows:
  assumes "fold_res (place_floating s area) xs a = Inr r"
  shows "map geo_window_id r = map geo_window_id a @ xs"
  using assms by (induction xs arbitrary: a) (auto simp: bindE_Inr_iff place_floating_def)

lemma place_floating_appends:
  assumes "fold_res (place_floating s area) xs a = Inr r"
  shows "\<exists>gs. r = a @ gs"
  using assms by (induction xs arbitrary: a) (force simp: bindE_Inr_iff place_floating_def)+

lemma projection_windows:
  assumes "recompute_workspace s w = Inr p"
  obtains ws where "get_workspace s w = Some ws" "map geo_window_id (proj_window_geometries p) = displayed s ws"
proof -
  obtain ws mon where ws: "get_workspace s w = Some ws" and mon: "get_monitor s (wsp_monitor_id ws) = Some mon"
    using assms by (auto simp: recompute_workspace_def bindE_Inr_iff)
  let ?vp = "padded_tiled_viewport (mon_work_area_rect mon) (config s)"
  let ?cols = "strip_columns (wsp_strip ws)"
  obtain x0 r gs where r:
      "fold_res (place_column s ?vp (cfg_layout_spacing (config s)) (length ?cols - 1)) (List.enumerate 0 ?cols) (x0, []) = Inr r"
    and gs: "fold_res (place_floating s (mon_work_area_rect mon)) (fl_windows (wsp_floating ws)) (snd r) = Inr gs"
      "proj_window_geometries p = gs"
    using assms ws mon by (auto simp: recompute_workspace_def bindE_Inr_iff Let_def split: prod.splits)
  have "concat (map (\<lambda>p. case get_column s (snd p) of None \<Rightarrow> [] | Some col \<Rightarrow> shown_in_column col) (List.enumerate 0 ?cols))
      = concat (map (\<lambda>c. case get_column s c of None \<Rightarrow> [] | Some col \<Rightarrow> shown_in_column col) ?cols)"
    by (rule arg_cong [where f = concat], rule nth_equalityI) (simp_all add: nth_enumerate_eq)
  then have "map geo_window_id (proj_window_geometries p) = displayed s ws"
    using place_columns_windows [OF r] place_floating_windows [OF gs(1)] gs(2) by (simp add: displayed_def)
  with ws that show ?thesis by blast
qed

lemma shown_in_column_of:
  assumes mem: "mem_ok (strip_view s) (float_view s) (column_view s) (window_view s) X"
    and col: "get_column s c = Some col"
  shows "set (shown_in_column col) \<subseteq> set (col_windows col)" "distinct (shown_in_column col)"
  using mem_column [OF mem view_values(4) [OF col]] first_Some_in [of "col_windows col"]
  by (auto simp: shown_in_column_def or_opt_def split: option.splits if_splits)

lemma mem_column_not_float:
  assumes ok: "mem_ok S F C N X" and col: "column_has C c i" and fl: "floats F w i"
  shows False
proof -
  obtain v where "in_strip S v c" using mem_column [OF ok] col by (metis column_has_def)
  then have "located N i v (Some c)" using mem_column_located [OF ok _ col] by blast
  then show False using mem_float_located [OF ok fl] by (auto dest: located_unique)
qed

lemma distinct_concat_map:
  assumes "distinct cs" "\<And>c. c \<in> set cs \<Longrightarrow> distinct (f c)"
    and "\<And>c d i. i \<in> set (f c) \<Longrightarrow> i \<in> set (f d) \<Longrightarrow> c = d"
  shows "distinct (concat (map f cs))"
  using assms
proof (induction cs)
  case (Cons c cs)
  have "set (f c) \<inter> set (concat (map f cs)) = {}"
  proof (rule ccontr)
    assume "set (f c) \<inter> set (concat (map f cs)) \<noteq> {}"
    then obtain i d where "i \<in> set (f c)" "d \<in> set cs" "i \<in> set (f d)" by auto
    then show False using Cons.prems(1) Cons.prems(3) [of i c d] by auto
  qed
  moreover have "distinct (concat (map f cs))"
    by (rule Cons.IH) (use Cons.prems in \<open>auto\<close>)
  ultimately show ?case using Cons.prems by (simp del: set_concat set_map)
qed simp

lemma displayed_distinct:
  assumes ok: "core J s" and ws: "get_workspace s w = Some ws"
  shows "distinct (displayed s ws)"
proof -
  note mem = coreD(1) [OF ok]
  define shown where "shown c = (case get_column s c of None \<Rightarrow> [] | Some col \<Rightarrow> shown_in_column col)" for c
  have has: "column_has (column_view s) c i" if shown: "i \<in> set (shown c)" for c i
  proof -
    obtain col where col: "get_column s c = Some col" and i: "i \<in> set (shown_in_column col)"
      using shown by (cases "get_column s c") (simp_all add: shown_def)
    then have "i \<in> set (col_windows col)" using shown_in_column_of(1) [OF mem col] by blast
    then show ?thesis using view_values(4) [OF col] by (simp add: column_has_def)
  qed
  have dist: "distinct (shown c)" for c
    using shown_in_column_of(2) [OF mem] by (simp add: shown_def split: option.splits)
  have "distinct (concat (map shown (strip_columns (wsp_strip ws))))"
    using mem_okD(1) [OF mem view_values(2) [OF ws]] dist
    by (rule distinct_concat_map) (rule mem_column_unique [OF mem has has])
  moreover have "distinct (fl_windows (wsp_floating ws))"
    using mem_okD(6) [OF mem view_values(3) [OF ws]] .
  moreover have "i \<notin> set (fl_windows (wsp_floating ws))" if "i \<in> set (shown c)" for c i
  proof
    assume "i \<in> set (fl_windows (wsp_floating ws))"
    then have "floats (float_view s) w i" using view_values(3) [OF ws] by (simp add: floats_def)
    then show False using mem_column_not_float [OF mem has [OF that]] by blast
  qed
  ultimately show ?thesis unfolding displayed_def shown_def [abs_def, symmetric] by auto
qed

end
