(* ===== verification/Store_Keeps.thy ===== *)
theory Store_Keeps
  imports Store_Dispatch Store_Invariant
begin

text \<open>
  What no handler touches, and what the shared helpers of the handlers leave alone. \<open>keeps f m\<close> says that running \<open>m\<close> never
  changes the part \<open>f\<close> of the state, on any branch; the parts here are the window table, and the
  table of columns together with the strips and floating layers.
\<close>

section \<open>The frame of an event\<close>

text \<open>
  What no handler touches, and that no handler panics. \<open>anchor\<close> collects the parts of the state
  that only the dispatcher itself writes; an action is \<open>calm\<close> when it keeps them and, on screens
  whose width fits an \<open>i32\<close>, does not panic. The rules follow the shape of the action, so a handler is
  calm by taking it apart.
\<close>

named_theorems calm_intros "rules that show an action calm by its shape"

section \<open>Readers that do not panic\<close>

definition quiet :: "failure + 'a \<Rightarrow> bool" where
  "quiet r \<longleftrightarrow> r \<noteq> Inl Panicked"

lemma quiet_results [calm_intros]:
  "quiet (Inr x)" "quiet (Inl (Failed e))" "quiet (ok_or r (Failed e))"
  by (auto simp: quiet_def ok_or_def split: option.splits)

lemma quiet_Inl [simp]: "quiet (Inl e) \<longleftrightarrow> e \<noteq> Panicked"
  by (simp add: quiet_def)

lemma quiet_bindE [calm_intros]: "quiet r \<Longrightarrow> (\<And>x. quiet (f x)) \<Longrightarrow> quiet (bindE r f)"
  by (auto simp: quiet_def bindE_Inl_iff)

lemma quiet_map_err [calm_intros]: "quiet (map_err (\<lambda>e. Failed (g e)) r)"
  by (auto simp: quiet_def)

lemma quiet_fold_res [calm_intros]: "(\<And>x a. quiet (f x a)) \<Longrightarrow> quiet (fold_res f xs a)"
  by (induction xs arbitrary: a) (auto simp: quiet_def bindE_Inl_iff)

lemma quiet_if [calm_intros]: "(b \<Longrightarrow> quiet r) \<Longrightarrow> (\<not> b \<Longrightarrow> quiet r') \<Longrightarrow> quiet (if b then r else r')"
  by simp

lemma quiet_option [calm_intros]:
  "quiet r \<Longrightarrow> (\<And>x. quiet (f x)) \<Longrightarrow> quiet (case v of None \<Rightarrow> r | Some x \<Rightarrow> f x)"
  by (cases v) simp_all

lemma quiet_prod [calm_intros]: "(\<And>x y. quiet (f x y)) \<Longrightarrow> quiet (case p of (x, y) \<Rightarrow> f x y)"
  by (cases p) simp

section \<open>The parts only the dispatcher writes\<close>

definition anchor ::
    "wm_state \<Rightarrow> (monitor_id, monitor) bmap \<times> nat \<times> runtime_mode \<times> diagnostics_summary \<times> capture_policy" where
  "anchor s = (monitors s, rs_state_version (runtime s), rs_boot_mode (runtime s), diagnostics s, capture s)"

definition screens_ok :: "wm_state \<Rightarrow> bool" where
  "screens_ok s \<longleftrightarrow> (\<forall>m mon. get_monitor s m = Some mon \<longrightarrow> rect_width (mon_work_area_rect mon) \<le> 2147483647)"

lemma screens_ok_anchor: "anchor t = anchor s \<Longrightarrow> screens_ok t = screens_ok s"
  by (simp add: anchor_def screens_ok_def)

lemma anchor_writers [simp]:
  "anchor (upd_workspace w f s) = anchor s" "anchor (upd_set i g s) = anchor s"
  "anchor (upd_window x h s) = anchor s" "anchor (upd_column c k s) = anchor s"
  "anchor (upd_focus u s) = anchor s" "anchor (put_workspace ws s) = anchor s"
  "anchor (del_workspace w s) = anchor s" "anchor (set_active_on_monitor m w s) = anchor s"
  "anchor (put_window win s) = anchor s" "anchor (del_window x s) = anchor s"
  "anchor (del_column c s) = anchor s" "anchor (set_resize_session r s) = anchor s"
  "anchor (set_scroll_offset w n s) = anchor s" "anchor (clear_window_focus m s) = anchor s"
  "anchor (drop_window_focus m origin s) = anchor s"
  by (simp_all add: anchor_def state_writer_defs put_window_def del_window_def del_column_def
      set_resize_session_def set_scroll_offset_def clear_window_focus_def drop_window_focus_def)

lemma anchor_fields [simp]:
  "anchor (s\<lparr>workspaces := a\<rparr>) = anchor s" "anchor (s\<lparr>workspace_sets := b\<rparr>) = anchor s"
  "anchor (s\<lparr>windows := c\<rparr>) = anchor s" "anchor (s\<lparr>layout := d\<rparr>) = anchor s"
  "anchor (s\<lparr>focus := e\<rparr>) = anchor s" "anchor (s\<lparr>overview := f\<rparr>) = anchor s"
  "anchor (s\<lparr>config := g\<rparr>) = anchor s"
  by (simp_all add: anchor_def)

lemma anchor_allocators [simp]:
  "anchor (snd (allocate_workspace_id s)) = anchor s" "anchor (snd (allocate_column_id s)) = anchor s"
  "anchor (snd (allocate_window_id s)) = anchor s"
  by (simp_all add: anchor_def allocate_workspace_id_def allocate_column_id_def allocate_window_id_def Let_def)

lemma anchor_allocated: "allocate_workspace_id s = (w, t) \<Longrightarrow> anchor t = anchor s"
  using anchor_allocators(1) [of s] by simp

lemma anchor_compound [simp]:
  "anchor (set_active_of_monitor m w s) = anchor s"
  "anchor (set_focus_to_window m w i c origin s) = anchor s"
  "anchor (sync_overview_selection m s) = anchor s" "anchor (close_overview s) = anchor s"
  by (simp_all add: set_active_of_monitor_def set_focus_to_window_def sync_overview_selection_def
      close_overview_def Let_def split: option.splits)

lemma anchor_rehome [simp]: "anchor (rehome_windows w c ids s) = anchor s"
  unfolding rehome_windows_def by (induction ids arbitrary: s) simp_all

lemma anchor_norm [simp]:
  "anchor (snd (norm_seed m v ids s)) = anchor s"
  "anchor (snd (norm_retain a l ids s)) = anchor s"
  "anchor (snd (norm_collapse ids s)) = anchor s"
  "anchor (snd (norm_tail m v ids s)) = anchor s"
  "anchor (norm_renumber m v l n ids s) = anchor s"
  "anchor (norm_commit i m l ids s) = anchor s"
proof -
  show "anchor (snd (norm_retain a l ids s)) = anchor s"
    by (induction a l ids s rule: norm_retain.induct) (auto split: prod.splits)
  show "anchor (snd (norm_collapse ids s)) = anchor s"
    by (induction ids s rule: norm_collapse.induct) (subst norm_collapse.simps, simp)
  show "anchor (norm_renumber m v l n ids s) = anchor s"
    by (induction m v l n ids s rule: norm_renumber.induct) simp_all
qed (auto simp: norm_seed_def norm_tail_def norm_commit_def Let_def split: prod.splits option.splits
    dest: anchor_allocated)

lemma anchor_normalize [simp]: "anchor (normalize_workspace_set i s) = anchor s"
  unfolding normalize_workspace_set_def Let_def
  by (simp split: option.splits prod.splits) (metis anchor_norm snd_conv)

lemma anchor_tail [simp]: "anchor (snd (ensure_tail_workspace m s)) = anchor s"
  by (simp add: ensure_tail_workspace_def Let_def split: option.splits)

section \<open>Calm actions\<close>

definition calm :: "bool \<Rightarrow> 'a action \<Rightarrow> bool" where
  "calm b m \<longleftrightarrow> (\<forall>s. anchor (snd (m s)) = anchor s \<and> (b \<and> screens_ok s \<longrightarrow> fst (m s) \<noteq> Inl Panicked))"

lemma calm_simple [calm_intros]:
  "calm b (ret x)" "calm b (throw (Failed e))" "calm b (gets f)"
  by (simp_all add: calm_def act_defs)

lemma calm_tryA_screens: "(\<And>s. screens_ok s \<Longrightarrow> quiet (f s)) \<Longrightarrow> calm b (tryA f)"
  by (simp add: calm_def act_defs quiet_def)

lemma calm_tryA [calm_intros]: "(\<And>s. quiet (f s)) \<Longrightarrow> calm b (tryA f)"
  by (rule calm_tryA_screens)

lemma calm_tryA_frame: "calm False (tryA f)"
  by (simp add: calm_def act_defs)

lemma calm_modify [calm_intros]: "(\<And>s. anchor (f s) = anchor s) \<Longrightarrow> calm b (modify f)"
  by (simp add: calm_def act_defs)

lemma calm_stateA [calm_intros]: "(\<And>s. anchor (snd (f s)) = anchor s) \<Longrightarrow> calm b (stateA f)"
  by (simp add: calm_def act_defs)

lemma calm_bindA [calm_intros]:
  assumes "calm b m" "\<And>x. calm b (f x)"
  shows "calm b (bindA m f)"
  unfolding calm_def
proof (intro allI)
  fix s
  obtain r t where m: "m s = (r, t)" by (cases "m s")
  have "anchor t = anchor s" using assms(1) m by (metis calm_def snd_conv)
  moreover from this have "screens_ok t = screens_ok s" by (rule screens_ok_anchor)
  ultimately show "anchor (snd (bindA m f s)) = anchor s \<and> (b \<and> screens_ok s \<longrightarrow> fst (bindA m f s) \<noteq> Inl Panicked)"
    using assms m by (cases r) (auto simp: calm_def bindA_def dest: spec [where x = s])
qed

text \<open>A reader whose value is only good on screens that fit.\<close>

lemma calm_bind_value:
  assumes "\<And>s. quiet (f s)" "\<And>s x. screens_ok s \<Longrightarrow> f s = Inr x \<Longrightarrow> P x"
    and "\<And>x. P x \<Longrightarrow> calm True (g x)" "\<And>x. calm False (g x)"
  shows "calm True (bindA (tryA f) g)"
  unfolding calm_def
proof (intro allI)
  fix s
  show "anchor (snd (bindA (tryA f) g s)) = anchor s \<and>
      (True \<and> screens_ok s \<longrightarrow> fst (bindA (tryA f) g s) \<noteq> Inl Panicked)"
    using assms(1) [of s] assms(2) [of s] assms(3,4)
    by (cases "f s") (auto simp: act_defs quiet_def calm_def)
qed

lemma calm_thenA [calm_intros]: "calm b m \<Longrightarrow> calm b k \<Longrightarrow> calm b (thenA m k)"
  by (simp add: thenA_def calm_bindA)

lemma calm_if [calm_intros]: "(c \<Longrightarrow> calm b m) \<Longrightarrow> (\<not> c \<Longrightarrow> calm b k) \<Longrightarrow> calm b (if c then m else k)"
  by simp

lemma calm_option [calm_intros]:
  "calm b m \<Longrightarrow> (\<And>x. calm b (f x)) \<Longrightarrow> calm b (case v of None \<Rightarrow> m | Some x \<Rightarrow> f x)"
  by (cases v) simp_all

lemma calm_prod [calm_intros]: "(\<And>x y. calm b (f x y)) \<Longrightarrow> calm b (case p of (x, y) \<Rightarrow> f x y)"
  by (cases p) simp

lemma calm_prodA [calm_intros]: "(\<And>x y s. quiet (f x y s)) \<Longrightarrow> quiet ((case p of (x, y) \<Rightarrow> f x y) s)"
  by (cases p) simp

section \<open>The readers\<close>

lemma quiet_lookups [calm_intros]:
  "quiet (find_workspace s w)" "quiet (find_column s c)" "quiet (find_window s i)" "quiet (find_monitor s m)"
  "quiet (workspace_monitor s w)" "quiet (layout_of s w)" "quiet (column_workspace_id s c)"
  unfolding find_workspace_def find_column_def find_window_def find_monitor_def workspace_monitor_def
    layout_of_def column_workspace_id_def
  by (intro calm_intros)+

lemma quiet_scroll_readers [calm_intros]:
  "quiet (workspace_tiled_viewport s w)" "quiet (workspace_content_width s w)" "quiet (max_scroll_offset s w)"
  "quiet (navigation_sequence_for_workspace s w)" "quiet (column_target_width_bounds s c w)"
  unfolding workspace_tiled_viewport_def workspace_content_width_def max_scroll_offset_def
    navigation_sequence_for_workspace_def column_target_width_bounds_def Let_def
  by (intro calm_intros; clarsimp; intro calm_intros)+

lemma quiet_command_readers [calm_intros]:
  "quiet (command_monitor_id s r)" "quiet (active_workspace_id_for_commands s)" "quiet (command_window_id s v)"
  "quiet (set_of_monitor s m)" "quiet (active_of_monitor s m)" "quiet (ordered_of_set s m i)"
  "quiet (index_of_workspace w ids)" "quiet (require_set s m i)" "quiet (movable_column win)"
  "quiet (check_anchor s w after)" "quiet (active_tiled_width_target s)"
  unfolding command_monitor_id_def active_workspace_id_for_commands_def command_window_id_def
    set_of_monitor_def active_of_monitor_def ordered_of_set_def index_of_workspace_def require_set_def
    movable_column_def check_anchor_def active_tiled_width_target_def Let_def
  by (intro calm_intros)+

lemma quiet_strip_target [calm_intros]: "quiet (strip_target s cs)"
  by (induction cs) (auto intro!: calm_intros split: option.splits)

lemma quiet_focus_target [calm_intros]: "quiet (workspace_focus_target s w)"
  unfolding workspace_focus_target_def by (intro calm_intros)

section \<open>The helpers\<close>

lemma calm_scroll [calm_intros]:
  "calm b (apply_scroll_delta w d)" "calm b (clamp_scroll_offset w)"
  unfolding apply_scroll_delta_def clamp_scroll_offset_def by (intro calm_intros; simp)+

lemma calm_reveal [calm_intros]: "calm b (reveal_column_in_workspace w c)" "calm b (reveal_option w r)"
  unfolding reveal_option_def reveal_column_in_workspace_def Let_def by (intro calm_intros; simp)+

lemma calm_membership [calm_intros]:
  "calm b (insert_new_column w i request)" "calm b (push_window_to_floating_layer w i)"
  "calm b (detach_window_membership i)"
  unfolding insert_new_column_def push_window_to_floating_layer_def detach_window_membership_def
  by (intro calm_intros; simp)+

lemma calm_restore [calm_intros]:
  "calm b (restore_in_new_column i target m width)" "calm b (restore_window_to_target i target m width)"
  unfolding restore_window_to_target_def restore_in_new_column_def by (intro calm_intros; simp)+

lemma calm_focus_helpers [calm_intros]:
  "calm b (try_cycle_tabbed_focus w c forward)" "calm b (retarget_focus_after_destroy w p)"
  "calm b (open_overview_for_monitor m)" "calm b (set_active_workspace_without_focus m w origin)"
  unfolding try_cycle_tabbed_focus_def retarget_focus_after_destroy_def open_overview_for_monitor_def
    set_active_workspace_without_focus_def Let_def
  by (intro calm_intros; simp)+

lemma calm_activate [calm_intros]: "calm b (activate_workspace m w origin)"
  unfolding activate_workspace_def by (intro calm_intros; simp)

lemma calm_placement [calm_intros]:
  assumes "calm b m0" "\<And>m x. calm b (f m x)" "\<And>m x. calm b (g m x)" "\<And>m x. calm b (h m x)"
  shows "calm b (case placement of AppendToFocusedColumn \<Rightarrow> m0 | NewColumnAfterFocus m x \<Rightarrow> f m x
    | NewColumnBeforeFocus m x \<Rightarrow> g m x | AppendToWorkspaceEnd m x \<Rightarrow> h m x)"
  using assms by (cases placement) simp_all

lemma calm_discovery [calm_intros]:
  "calm b (place_discovered_window w i placement f a r p)" "calm b (finish_discovery m w i c p)"
  unfolding finish_discovery_def place_discovered_window_def Let_def by (intro calm_intros; simp)+

lemma calm_target_discovered [calm_intros]: "calm b (target_discovered_window payload w i f a r p)"
  unfolding target_discovered_window_def by (intro calm_intros)

section \<open>The handlers\<close>

lemma calm_window_handlers [calm_intros]:
  "calm b (handle_window_discovered p1)" "calm b (handle_window_destroyed p2)"
  "calm b (handle_window_focus_observed p3)" "calm b (handle_focus_navigation forward p4)"
  unfolding handle_window_discovered_def handle_window_destroyed_def handle_window_focus_observed_def
    handle_focus_navigation_def navigate_strip_def Let_def
  by (intro calm_intros; simp)+

lemma calm_overview_handlers [calm_intros]:
  "calm b (handle_open_overview p1)" "calm b (handle_close_overview p2)" "calm b (handle_toggle_overview p3)"
  "calm b (handle_config_reload_succeeded p4)" "calm b (handle_rules_updated p5)"
  unfolding handle_open_overview_def handle_close_overview_def handle_toggle_overview_def
    handle_config_reload_succeeded_def handle_rules_updated_def
  by (intro calm_intros; simp)+

lemma calm_workspace_handlers [calm_intros]:
  "calm b (handle_focus_workspace forward p1)" "calm b (handle_move_workspace_within_monitor forward p2)"
  "calm b (handle_move_workspace_to_adjacent_monitor forward p3)"
  unfolding handle_focus_workspace_def handle_move_workspace_within_monitor_def
    handle_move_workspace_to_adjacent_monitor_def transfer_workspace_def Let_def
  by (intro calm_intros; simp)+

lemma calm_column_handlers [calm_intros]:
  "calm b (move_column_to_workspace_target_internal c w after)"
  "calm b (handle_move_column_to_workspace_target p2)"
  unfolding handle_move_column_to_workspace_target_def move_column_to_workspace_target_internal_def
    relocate_column_def Let_def
  by (intro calm_intros; simp)+

lemma calm_move_column [calm_intros]: "calm b (handle_move_column_to_workspace forward p1)"
  unfolding handle_move_column_to_workspace_def Let_def by (intro calm_intros; simp)

lemma calm_mode_handlers [calm_intros]:
  "calm b (handle_strip_scroll d p1)" "calm b (handle_toggle_floating p2)" "calm b (handle_toggle_fullscreen p3)"
  "calm b (handle_toggle_tabbed p4)" "calm b (handle_toggle_maximized p5)"
  unfolding handle_strip_scroll_def handle_toggle_floating_def handle_toggle_fullscreen_def
    handle_toggle_tabbed_def handle_toggle_maximized_def handle_column_toggle_def
    restore_raised_window_def raise_window_def Let_def
  by (intro calm_intros; simp)+

section \<open>Column widths\<close>

lemma width_bounds_ordered: "fst (width_bounds viewport) \<le> snd (width_bounds viewport)"
  by (auto simp: width_bounds_def Let_def)

lemma width_bounds_small:
  "rect_width viewport \<le> 2147483647 \<Longrightarrow> snd (width_bounds viewport) \<le> 2147483647"
  by (simp add: width_bounds_def Let_def)

lemma i32_sat_add_mono: "a \<le> b \<Longrightarrow> i32_sat_add x a \<le> i32_sat_add x b"
  by (simp add: i32_sat_add_def sat_i32_mono)

lemma i32_sat_sub_antimono: "a \<le> b \<Longrightarrow> i32_sat_sub x b \<le> i32_sat_sub x a"
  by (simp add: i32_sat_sub_def sat_i32_mono)

lemma i32_sat_add_above: "x \<le> i32_max \<Longrightarrow> 0 \<le> a \<Longrightarrow> x \<le> i32_sat_add x a"
  by (auto simp: i32_sat_add_def sat_i32_def)

lemma quiet_clamp: "lo \<le> hi \<Longrightarrow> quiet (ok_or (clamp lo hi x) Panicked)"
  by (simp add: clamp_def quiet_def)

lemma quiet_metrics:
  assumes "rect_width viewport \<le> 2147483647" "rect_x viewport \<le> i32_max"
  shows "quiet (compute_width_resize_metrics edge initial_rect n viewport x)"
proof -
  obtain lo hi where b: "width_bounds viewport = (lo, hi)" by (cases "width_bounds viewport")
  have le: "lo \<le> hi" "hi \<le> 2147483647"
    using width_bounds_ordered [of viewport] width_bounds_small [OF assms(1)] b by simp_all
  then have cast: "u32_as_i32 lo \<le> u32_as_i32 hi" by (simp add: u32_as_i32_id)
  have "rect_x viewport \<le> i32_sat_add (rect_x viewport) (u32_as_i32 (rect_width viewport))"
    using assms by (simp add: i32_sat_add_above u32_as_i32_id)
  then show ?thesis
    unfolding compute_width_resize_metrics_def b Let_def
    by (cases edge)
      (simp_all only: prod.case resize_edge.case, (intro quiet_bindE quiet_clamp quiet_results;
        simp add: i32_sat_add_mono i32_sat_sub_antimono cast)+)
qed

definition viewport_fits :: "rect \<Rightarrow> bool" where
  "viewport_fits v \<longleftrightarrow> rect_width v \<le> 2147483647 \<and> rect_x v \<le> i32_max"

lemma tiled_viewport_fits:
  assumes "screens_ok s" "workspace_tiled_viewport s w = Inr v"
  shows "viewport_fits v"
proof -
  obtain m mon where mon: "get_monitor s m = Some mon"
    "v = padded_tiled_viewport (mon_work_area_rect mon) (config s)"
    using assms(2) by (auto simp: workspace_tiled_viewport_def find_monitor_def bindE_Inr_iff)
  have "rect_width (mon_work_area_rect mon) \<le> 2147483647" using assms(1) mon(1) by (simp add: screens_ok_def)
  moreover have "i32_sat_add a b \<le> i32_max" for a b
    by (simp add: i32_sat_add_def sat_i32_def i32_max_def i32_min_def)
  ultimately show ?thesis
    unfolding mon(2) by (auto simp: viewport_fits_def padded_tiled_viewport_def inset_rect_def Let_def rect_new_sel)
qed

lemma quiet_session_metrics: "screens_ok s \<Longrightarrow> quiet (session_metrics s session x)"
  using tiled_viewport_fits [of s "wrs_workspace_id session"] quiet_scroll_readers(1) [of s "wrs_workspace_id session"]
  by (cases "workspace_tiled_viewport s (wrs_workspace_id session)")
    (auto simp: session_metrics_def viewport_fits_def quiet_metrics)

lemma calm_begin_resize: "calm b (handle_begin_column_width_resize p)"
proof (cases b)
  case True
  have "calm True (handle_begin_column_width_resize p)"
    unfolding handle_begin_column_width_resize_def
    apply (rule calm_bindA, rule calm_tryA, rule calm_intros)
    apply (intro calm_prod)
    apply (rule calm_bindA, rule calm_tryA, rule calm_intros)
    apply (rule calm_bindA, rule calm_tryA, rule calm_intros)
    apply (rule calm_bind_value [where P = viewport_fits])
       apply (rule calm_intros)
      apply (erule (1) tiled_viewport_fits)
     apply (intro calm_bindA calm_thenA calm_tryA calm_modify calm_simple quiet_metrics calm_intros)
        apply (simp_all add: viewport_fits_def)
    apply (intro calm_bindA calm_thenA calm_tryA_frame calm_modify calm_simple; simp)
    done
  then show ?thesis using True by simp
next
  case False
  have "calm False (handle_begin_column_width_resize p)"
    unfolding handle_begin_column_width_resize_def
    by (intro calm_bindA calm_thenA calm_prod calm_tryA_frame calm_modify calm_simple; simp)
  then show ?thesis using False by simp
qed

lemma calm_preview_resize: "calm b (handle_update_column_width_preview p)"
  unfolding handle_update_column_width_preview_def
  by (intro calm_bindA calm_option calm_thenA calm_simple calm_modify calm_tryA_screens quiet_session_metrics; simp)

lemma calm_commit_resize: "calm b (handle_commit_column_width p)"
  unfolding handle_commit_column_width_def
  by (intro calm_bindA calm_option calm_thenA calm_simple calm_modify calm_tryA_screens quiet_session_metrics
      quiet_lookups calm_scroll calm_reveal; simp)

lemma calm_cancel_resize: "calm b handle_cancel_column_width_resize"
  unfolding handle_cancel_column_width_resize_def by (intro calm_intros; simp)

lemma quiet_next_width: "lo \<le> hi \<Longrightarrow> quiet (next_cycled_column_width n lo hi)"
  by (simp add: next_cycled_column_width_def Let_def quiet_def)

lemma width_bounds_of_column:
  "column_target_width_bounds s c w = Inr b \<Longrightarrow> fst b \<le> snd b"
  by (auto simp: column_target_width_bounds_def bindE_Inr_iff width_bounds_ordered)

lemma calm_cycle_width: "calm b handle_cycle_column_width"
proof (cases b)
  case True
  have "calm True handle_cycle_column_width"
    unfolding handle_cycle_column_width_def
    apply (rule calm_bindA, rule calm_tryA, rule calm_intros)
    apply (intro calm_prod)
    apply (rule calm_bindA, rule calm_tryA, rule calm_intros)
    apply (rule calm_bind_value [where P = "\<lambda>b. fst b \<le> snd b"])
       apply (rule calm_intros)
      apply (erule width_bounds_of_column)
     apply (clarsimp, intro calm_bindA calm_thenA calm_tryA calm_modify calm_simple quiet_next_width
        quiet_lookups calm_scroll calm_reveal; simp)
    apply (intro calm_prod calm_bindA calm_thenA calm_tryA_frame calm_modify calm_simple calm_scroll calm_reveal; simp)
    done
  then show ?thesis using True by simp
next
  case False
  have "calm False handle_cycle_column_width"
    unfolding handle_cycle_column_width_def
    by (intro calm_bindA calm_thenA calm_prod calm_tryA_frame calm_modify calm_simple calm_scroll calm_reveal; simp)
  then show ?thesis using False by simp
qed

section \<open>The dispatcher\<close>

lemma calm_apply_event: "calm b (apply_event e)"
  unfolding apply_event_def
  by (cases "ev_payload e")
    (simp_all add: calm_intros calm_begin_resize calm_preview_resize calm_commit_resize calm_cancel_resize
      calm_cycle_width)

lemma apply_event_anchor: "anchor (snd (apply_event e s)) = anchor s"
  using calm_apply_event [of False e] by (simp add: calm_def)

lemma apply_event_no_panic: "screens_ok s \<Longrightarrow> fst (apply_event e s) \<noteq> Inl Panicked"
  using calm_apply_event [of True e] by (simp add: calm_def)

text \<open>A dispatch is the handler, the version bump, the layout and the diagnostics.\<close>

lemma dispatch_cases:
  obtains (handler_failed) f t where "apply_event e s = (Inl f, t)" "dispatch e s = (Inl f, t)"
  | (layout_failed) w t f where "apply_event e s = (Inr (Some w), t)"
      "layout_of (snd (bump_state_version t)) w = Inl f" "dispatch e s = (Inl f, snd (bump_state_version t))"
  | (completed) affected t projection diags where "apply_event e s = (Inr affected, t)"
      "case affected of None \<Rightarrow> projection = None
       | Some w \<Rightarrow> \<exists>p. projection = Some p \<and> layout_of (snd (bump_state_version t)) w = Inr p"
      "diags = transition_applied (rs_state_version (runtime t) + 1) (ev_correlation_id e) (event_name_as_str (ev_id e))
         # layout_diagnostics (rs_state_version (runtime t) + 1) (ev_correlation_id e) affected projection"
      "dispatch e s = (Inr \<lparr>tr_state_version = rs_state_version (runtime t) + 1,
         tr_affected_workspace_id = affected, tr_layout_projection = projection, tr_diagnostics = diags\<rparr>,
         record_transition (event_name_as_str (ev_id e)) (length diags) (rs_state_version (runtime t) + 1)
           (snd (bump_state_version t)))"
proof -
  obtain r t where run: "apply_event e s = (r, t)" by (cases "apply_event e s")
  show thesis
  proof (cases r)
    case (Inl f)
    then show thesis using run handler_failed by (simp add: dispatch_def act_defs)
  next
    case (Inr affected)
    show thesis
    proof (cases affected)
      case None
      show thesis
        by (rule completed [OF _ _ refl, of affected t None]) (use run Inr None in \<open>simp_all add: dispatch_def act_defs bump_state_version_def Let_def\<close>)
    next
      case (Some w)
      show thesis
      proof (cases "layout_of (snd (bump_state_version t)) w")
        case (Inl f)
        then show thesis
          by (intro layout_failed [of w t f]) (use run Inr Some in \<open>simp_all add: dispatch_def act_defs\<close>)
      next
        case (Inr p)
        show thesis
          by (rule completed [OF _ _ refl, of affected t "Some p"])
            (use run \<open>r = Inr affected\<close> Some Inr in \<open>simp_all add: dispatch_def act_defs bump_state_version_def Let_def\<close>)
      qed
    qed
  qed
qed

named_theorems keeps_intros "rules that show by its shape that an action keeps a part of the state"

definition keeps :: "(wm_state \<Rightarrow> 'p) \<Rightarrow> 'a action \<Rightarrow> bool" where
  "keeps f m \<longleftrightarrow> (\<forall>s. f (snd (m s)) = f s)"

lemma keepsD: "keeps f m \<Longrightarrow> m s = (r, t) \<Longrightarrow> f t = f s"
  unfolding keeps_def by (metis snd_conv)

lemma keeps_simple [keeps_intros]:
  "keeps f (ret x)" "keeps f (throw e)" "keeps f (gets g)" "keeps f (tryA h)"
  by (simp_all add: keeps_def act_defs)

lemma keeps_modify [keeps_intros]: "(\<And>s. f (g s) = f s) \<Longrightarrow> keeps f (modify g)"
  by (simp add: keeps_def act_defs)

lemma keeps_stateA [keeps_intros]: "(\<And>s. f (snd (g s)) = f s) \<Longrightarrow> keeps f (stateA g)"
  by (simp add: keeps_def act_defs)

lemma keeps_bindA [keeps_intros]: "keeps f m \<Longrightarrow> (\<And>x. keeps f (k x)) \<Longrightarrow> keeps f (bindA m k)"
  by (simp add: keeps_def bindA_def split: prod.splits sum.splits) (metis snd_conv)

lemma keeps_thenA [keeps_intros]: "keeps f m \<Longrightarrow> keeps f k \<Longrightarrow> keeps f (thenA m k)"
  by (simp add: thenA_def keeps_bindA)

lemma keeps_if [keeps_intros]: "(c \<Longrightarrow> keeps f m) \<Longrightarrow> (\<not> c \<Longrightarrow> keeps f k) \<Longrightarrow> keeps f (if c then m else k)"
  by simp

lemma keeps_option [keeps_intros]:
  "keeps f m \<Longrightarrow> (\<And>x. keeps f (k x)) \<Longrightarrow> keeps f (case v of None \<Rightarrow> m | Some x \<Rightarrow> k x)"
  by (cases v) simp_all

lemma keeps_prod [keeps_intros]: "(\<And>x y. keeps f (k x y)) \<Longrightarrow> keeps f (case p of (x, y) \<Rightarrow> k x y)"
  by (cases p) simp

lemma keeps_placement [keeps_intros]:
  assumes "keeps p m0" "\<And>m x. keeps p (f m x)" "\<And>m x. keeps p (g m x)" "\<And>m x. keeps p (h m x)"
  shows "keeps p (case placement of AppendToFocusedColumn \<Rightarrow> m0 | NewColumnAfterFocus m x \<Rightarrow> f m x
    | NewColumnBeforeFocus m x \<Rightarrow> g m x | AppendToWorkspaceEnd m x \<Rightarrow> h m x)"
  using assms by (cases placement) simp_all

section \<open>Runs that succeed\<close>

lemma bindA_Inr:
  "bindA m k s = (Inr y, t) \<longleftrightarrow> (\<exists>x u. m s = (Inr x, u) \<and> k x u = (Inr y, t))"
  by (auto simp: bindA_def split: prod.splits sum.splits)

lemma thenA_Inr: "thenA m k s = (Inr y, t) \<longleftrightarrow> (\<exists>u. m s = (Inr (), u) \<and> k u = (Inr y, t))"
  by (simp add: thenA_def bindA_Inr)

lemma simple_Inr [simp]:
  "tryA f s = (Inr x, t) \<longleftrightarrow> f s = Inr x \<and> t = s" "modify g s = (Inr z, t) \<longleftrightarrow> t = g s"
  "ret v s = (Inr x, t) \<longleftrightarrow> x = v \<and> t = s"
  by (auto simp: act_defs)

section \<open>The window table\<close>

lemma windows_writers [simp]:
  "windows (upd_workspace w f s) = windows s" "windows (upd_set i g s) = windows s"
  "windows (upd_column c k s) = windows s" "windows (upd_focus u s) = windows s"
  "windows (put_workspace ws s) = windows s" "windows (del_workspace w s) = windows s"
  "windows (set_active_on_monitor m w s) = windows s" "windows (del_column c s) = windows s"
  "windows (set_resize_session r s) = windows s" "windows (set_scroll_offset w n s) = windows s"
  "windows (clear_window_focus m s) = windows s" "windows (drop_window_focus m origin s) = windows s"
  "windows (record_transition l k2 v s) = windows s" "windows (snd (bump_state_version s)) = windows s"
  by (simp_all add: state_writer_defs del_column_def set_resize_session_def set_scroll_offset_def
      clear_window_focus_def drop_window_focus_def record_transition_def bump_state_version_def Let_def)

lemma windows_table_writers [simp]:
  "windows (upd_window i f s) = bm_adj i f (windows s)"
  "windows (put_window win s) = bm_put (win_id win) win (windows s)"
  "windows (del_window i s) = bm_del i (windows s)"
  by (simp_all add: upd_window_def put_window_def del_window_def)

lemma windows_allocators [simp]:
  "windows (snd (allocate_workspace_id s)) = windows s" "windows (snd (allocate_column_id s)) = windows s"
  "windows (snd (allocate_window_id s)) = windows s"
  by (simp_all add: allocate_workspace_id_def allocate_column_id_def allocate_window_id_def Let_def)

lemma windows_compound [simp]:
  "windows (set_active_of_monitor m w s) = windows s"
  "windows (set_focus_to_window m w i c origin s) = windows s"
  "windows (sync_overview_selection m s) = windows s" "windows (close_overview s) = windows s"
  by (simp_all add: set_active_of_monitor_def set_focus_to_window_def sync_overview_selection_def
      close_overview_def Let_def split: option.splits)

lemma windows_allocated: "allocate_workspace_id s = (w, t) \<Longrightarrow> windows t = windows s"
  using windows_allocators(1) [of s] by simp

lemma windows_norm [simp]:
  "windows (snd (norm_seed m v ids s)) = windows s" "windows (snd (norm_retain a l ids s)) = windows s"
  "windows (snd (norm_collapse ids s)) = windows s" "windows (snd (norm_tail m v ids s)) = windows s"
  "windows (norm_renumber m v l n ids s) = windows s" "windows (norm_commit i m l ids s) = windows s"
proof -
  show "windows (snd (norm_retain a l ids s)) = windows s"
    by (induction a l ids s rule: norm_retain.induct) (auto split: prod.splits)
  show "windows (snd (norm_collapse ids s)) = windows s"
    by (induction ids s rule: norm_collapse.induct) (subst norm_collapse.simps, simp)
  show "windows (norm_renumber m v l n ids s) = windows s"
    by (induction m v l n ids s rule: norm_renumber.induct) simp_all
qed (auto simp: norm_seed_def norm_tail_def norm_commit_def Let_def split: prod.splits option.splits
    dest: windows_allocated)

lemma windows_normalize [simp]: "windows (normalize_workspace_set i s) = windows s"
  unfolding normalize_workspace_set_def Let_def
  by (simp split: option.splits prod.splits) (metis windows_norm snd_conv)

lemma windows_tail [simp]: "windows (snd (ensure_tail_workspace m s)) = windows s"
  by (simp add: ensure_tail_workspace_def Let_def split: option.splits)

lemma keeps_windows [keeps_intros]:
  "keeps windows (apply_scroll_delta w d)" "keeps windows (clamp_scroll_offset w)"
  "keeps windows (detach_window_membership i)" "keeps windows (push_window_to_floating_layer w i)"
  "keeps windows (insert_new_column w i request)"
  unfolding apply_scroll_delta_def clamp_scroll_offset_def detach_window_membership_def
    push_window_to_floating_layer_def insert_new_column_def
  by (intro keeps_intros; simp)+

lemma keeps_windows_reveal [keeps_intros]:
  "keeps windows (reveal_column_in_workspace w c)" "keeps windows (reveal_option w r)"
  unfolding reveal_option_def reveal_column_in_workspace_def Let_def by (intro keeps_intros; simp)+

lemma keeps_windows_focus [keeps_intros]:
  "keeps windows (retarget_focus_after_destroy w p)" "keeps windows (set_active_workspace_without_focus m w origin)"
  "keeps windows (place_discovered_window w i placement f a r b)" "keeps windows (finish_discovery m w i c b)"
  "keeps windows (restore_in_new_column i target md width)"
  unfolding retarget_focus_after_destroy_def set_active_workspace_without_focus_def
    place_discovered_window_def finish_discovery_def restore_in_new_column_def Let_def
  by (intro keeps_intros; simp)+

lemma keeps_windows_targets [keeps_intros]:
  "keeps windows (activate_workspace m w origin)" "keeps windows (target_discovered_window payload w i f a r b)"
  "keeps windows (restore_window_to_target i target md width)"
  unfolding activate_workspace_def target_discovered_window_def restore_window_to_target_def
  by (intro keeps_intros; simp)+

section \<open>The focused window\<close>

definition focused :: "wm_state \<Rightarrow> window_id option \<times> column_id option" where
  "focused s = (focus_window (focus s), focus_column (focus s))"

lemma focused_writers [simp]:
  "focused (upd_workspace w f s) = focused s" "focused (upd_set i g s) = focused s"
  "focused (upd_column c k s) = focused s" "focused (upd_window x h s) = focused s"
  "focused (put_workspace ws s) = focused s" "focused (del_workspace w s) = focused s"
  "focused (set_active_on_monitor m w s) = focused s" "focused (set_scroll_offset w n s) = focused s"
  "focused (snd (allocate_workspace_id s)) = focused s" "focused (snd (bump_state_version s)) = focused s"
  "focused (record_transition l k2 v s) = focused s" "focused (sync_overview_selection m s) = focused s"
  by (simp_all add: focused_def state_writer_defs set_scroll_offset_def allocate_workspace_id_def
      bump_state_version_def record_transition_def sync_overview_selection_def Let_def)

lemma focused_allocated: "allocate_workspace_id s = (w, t) \<Longrightarrow> focused t = focused s"
  using focused_writers(9) [of s] by simp

lemma focused_set [simp]: "focused (set_focus_to_window m w i c origin s) = (Some i, c)"
  by (simp add: focused_def set_focus_to_window_def set_active_of_monitor_def state_writer_defs Let_def
      split: option.splits)

lemma focused_norm [simp]:
  "focused (snd (norm_seed m v ids s)) = focused s" "focused (snd (norm_retain a l ids s)) = focused s"
  "focused (snd (norm_collapse ids s)) = focused s" "focused (snd (norm_tail m v ids s)) = focused s"
  "focused (norm_renumber m v l n ids s) = focused s" "focused (norm_commit i m l ids s) = focused s"
proof -
  show "focused (snd (norm_retain a l ids s)) = focused s"
    by (induction a l ids s rule: norm_retain.induct) (auto split: prod.splits)
  show "focused (snd (norm_collapse ids s)) = focused s"
    by (induction ids s rule: norm_collapse.induct) (subst norm_collapse.simps, simp)
  show "focused (norm_renumber m v l n ids s) = focused s"
    by (induction m v l n ids s rule: norm_renumber.induct) simp_all
qed (auto simp: norm_seed_def norm_tail_def norm_commit_def Let_def split: prod.splits option.splits
    dest: focused_allocated)

lemma focused_normalize [simp]: "focused (normalize_workspace_set i s) = focused s"
  unfolding normalize_workspace_set_def Let_def
  by (simp split: option.splits prod.splits) (metis focused_norm snd_conv)

lemma focused_tail [simp]: "focused (snd (ensure_tail_workspace m s)) = focused s"
  by (simp add: ensure_tail_workspace_def Let_def split: option.splits)

lemma keeps_focused_scroll [keeps_intros]:
  "keeps focused (apply_scroll_delta w d)" "keeps focused (clamp_scroll_offset w)"
  unfolding apply_scroll_delta_def clamp_scroll_offset_def by (intro keeps_intros; simp)+

lemma keeps_focused_reveal [keeps_intros]:
  "keeps focused (reveal_column_in_workspace w c)" "keeps focused (reveal_option w r)"
  unfolding reveal_option_def reveal_column_in_workspace_def Let_def by (intro keeps_intros; simp)+

lemma finish_discovery_focus:
  "focused (snd (finish_discovery m w i c False s)) = (Some i, c)"
proof -
  let ?rest = "thenA (modify (\<lambda>s. snd (ensure_tail_workspace m s)))
     (thenA (thenA (clamp_scroll_offset w) (case c of None \<Rightarrow> ret () | Some x \<Rightarrow> reveal_column_in_workspace w x))
       (ret (Some w)))"
  have "keeps focused ?rest" by (intro keeps_intros; simp)
  then show ?thesis by (simp add: finish_discovery_def keeps_def thenA_def bindA_def modify_def)
qed

text \<open>After a completed dispatch the window table is the handler's.\<close>

lemma dispatch_windows:
  assumes "dispatch e s = (r, t)"
  shows "windows t = windows (snd (apply_event e s))"
  using assms by (cases rule: dispatch_cases [of e s]) auto

lemma dispatch_focused:
  assumes "dispatch e s = (r, t)"
  shows "focused t = focused (snd (apply_event e s))"
  using assms by (cases rule: dispatch_cases [of e s]) auto

end
