(* ===== verification/Reducer_Properties.thy ===== *)
theory Reducer_Properties
  imports Evaluation Layout_Facts Store_Keeps
begin

text \<open>
  The properties of the reducer as a whole (\<open>StateStore::dispatch\<close> and \<open>WmState::add_monitor\<close>):
  what every state the program can reach looks like, over the tables of the state themselves.
\<close>

section \<open>Where a window is\<close>

definition tiled_at :: "wm_state \<Rightarrow> window_id \<Rightarrow> workspace_id \<Rightarrow> column_id \<Rightarrow> bool" where
  "tiled_at s i w c \<longleftrightarrow>
     (case (get_workspace s w, get_column s c) of
        (Some ws, Some col) \<Rightarrow> c \<in> set (strip_columns (wsp_strip ws)) \<and> i \<in> set (col_windows col)
      | _ \<Rightarrow> False)"

definition floating_at :: "wm_state \<Rightarrow> window_id \<Rightarrow> workspace_id \<Rightarrow> bool" where
  "floating_at s i w \<longleftrightarrow>
     (case get_workspace s w of Some ws \<Rightarrow> i \<in> set (fl_windows (wsp_floating ws)) | None \<Rightarrow> False)"

lemma tiled_at_views: "tiled_at s i w c \<longleftrightarrow> in_strip (strip_view s) w c \<and> column_has (column_view s) c i"
  by (auto simp: tiled_at_def in_strip_def column_has_def view_defs split: option.splits)

lemma floating_at_views: "floating_at s i w \<longleftrightarrow> floats (float_view s) w i"
  by (auto simp: floating_at_def floats_def view_defs split: option.splits)

lemma located_window:
  "get_window s i = Some win \<Longrightarrow>
   located (window_view s) i w c \<longleftrightarrow> win_workspace_id win = w \<and> win_column_id win = c"
  by (auto simp: located_def window_view_def)

lemma located_is_window: "located (window_view s) i w c \<Longrightarrow> \<exists>win. get_window s i = Some win"
  by (auto simp: located_def window_view_def)

lemma core_tiled_iff:
  assumes ok: "core J s" and win: "get_window s i = Some win"
  shows "tiled_at s i w c \<longleftrightarrow> win_workspace_id win = w \<and> win_column_id win = Some c"
proof -
  note mem = coreD(1) [OF ok]
  have "located (window_view s) i w (Some c) \<longleftrightarrow> tiled_at s i w c"
    using mem_column_located [OF mem] mem_window_column [OF mem] mem_window_in_strip [OF mem]
    by (auto simp: tiled_at_views)
  then show ?thesis using located_window [OF win] by simp
qed

lemma core_floating_iff:
  assumes ok: "core J s" and win: "get_window s i = Some win" "win_is_managed win"
  shows "floating_at s i w \<longleftrightarrow> win_workspace_id win = w \<and> win_column_id win = None"
proof -
  note mem = coreD(1) [OF ok]
  have "located (window_view s) i w None \<longleftrightarrow> floating_at s i w"
  proof
    assume "located (window_view s) i w None"
    then have "window_view s i = Some (w, None, True)" using win by (auto simp: located_def window_view_def)
    then show "floating_at s i w" using mem_okD(9) [OF mem] by (simp add: floating_at_views)
  next
    assume "floating_at s i w"
    then show "located (window_view s) i w None" using mem_float_located [OF mem] by (simp add: floating_at_views)
  qed
  then show ?thesis using located_window [OF win(1)] by simp
qed

section \<open>The invariant\<close>

text \<open>
  C1: dispatching any event, whatever its payload and whether it succeeds or fails, keeps the
  structural invariant of the state; so does adding a monitor.
\<close>

theorem dispatch_keeps_invariant:
  assumes "wf s"
  shows "wf (dispatch_state s e) \<and> wf (snd (add_monitor work_area dpi primary s))"
  using assms by (simp add: wf_dispatch_state wf_add_monitor)

theorem dispatch_keeps_invariant_witness:
  "wf desk_one \<and> wf (dispatch_state desk_one (closed 1)) \<and>
   wf (snd (add_monitor (rect_new 1200 0 800 600) 96 False desk_one))"
  using dispatch_keeps_invariant [OF sample_wf(2), of "closed 1"] sample_wf(2)
    dispatch_keeps_invariant [OF sample_wf(2)] by blast

text \<open>
  C2: in every reachable state a managed window is in exactly one place, the one its own record
  names: on the strip of its workspace in its column, or in the floating layer of its workspace.
\<close>

theorem reachable_window_is_placed_once:
  assumes "reachable s" "get_window s i = Some win" "win_is_managed win"
  shows "(\<forall>w c. tiled_at s i w c \<longleftrightarrow> win_workspace_id win = w \<and> win_column_id win = Some c) \<and>
         (\<forall>w. floating_at s i w \<longleftrightarrow> win_workspace_id win = w \<and> win_column_id win = None)"
  using core_tiled_iff core_floating_iff wfD(1) [OF wf_reachable [OF assms(1)]] assms(2,3) by blast

lemma desk_two_window:
  "\<exists>win. get_window desk_two (WindowId 1) = Some win \<and> win_is_managed win \<and>
     win_workspace_id win = WorkspaceId 1 \<and> win_column_id win = Some (ColumnId 1)"
  by (simp add: desk_two_eq)

theorem reachable_window_is_placed_once_witness:
  "tiled_at desk_two (WindowId 1) (WorkspaceId 1) (ColumnId 1) \<and>
   \<not> tiled_at desk_two (WindowId 1) (WorkspaceId 1) (ColumnId 2) \<and>
   \<not> floating_at desk_two (WindowId 1) (WorkspaceId 1)"
  using desk_two_window reachable_window_is_placed_once [OF sample_reachable(3)]
  by (metis column_id.inject numeral_eq_one_iff option.distinct(1) option.inject semiring_norm(85))

text \<open>
  C3: in every reachable state every column holds at least one window, each once; the active
  window and the selected tab are among its windows; and it is on the strip of one workspace.
\<close>

theorem reachable_column_is_sound:
  assumes "reachable s" "get_column s c = Some col"
  shows "col_windows col \<noteq> [] \<and> distinct (col_windows col) \<and>
         set_option (col_active col) \<subseteq> set (col_windows col) \<and>
         set_option (col_tab_selection col) \<subseteq> set (col_windows col) \<and>
         (\<exists>!w. \<exists>ws. get_workspace s w = Some ws \<and> c \<in> set (strip_columns (wsp_strip ws)))"
proof -
  note mem = coreD(1) [OF wfD(1) [OF wf_reachable [OF assms(1)]]]
  note C = mem_column [OF mem view_values(4) [OF assms(2)]]
  have strip: "in_strip (strip_view s) w c \<longleftrightarrow>
      (\<exists>ws. get_workspace s w = Some ws \<and> c \<in> set (strip_columns (wsp_strip ws)))" for w
    by (auto simp: in_strip_def strip_view_def)
  show ?thesis using C mem_strip_unique [OF mem] by (auto simp flip: strip)
qed

lemma desk_two_column:
  "get_column desk_two (ColumnId 2) \<noteq> None"
  by (simp add: desk_two_eq)

theorem reachable_column_is_sound_witness:
  "\<exists>col. get_column desk_two (ColumnId 2) = Some col \<and> col_windows col \<noteq> [] \<and> distinct (col_windows col)"
  using desk_two_column reachable_column_is_sound [OF sample_reachable(3)] by blast

text \<open>
  C4: in every reachable state each monitor has one workspace set that names it back; the stack
  of the set has no duplicates and lists exactly the workspaces whose home is this monitor; and
  its active workspace is on the stack and is the one the focus state records.
\<close>

theorem reachable_monitor_stack:
  assumes "reachable s" "get_monitor s m = Some mon"
  shows "\<exists>x. get_set s (mon_workspace_set_id mon) = Some x \<and> wset_monitor_id x = m \<and>
           distinct (wset_ordered x) \<and> wset_active x \<in> set (wset_ordered x) \<and>
           bm_get (focus_active_workspaces (focus s)) m = Some (wset_active x) \<and>
           (\<forall>w. w \<in> set (wset_ordered x) \<longleftrightarrow>
              (\<exists>ws. get_workspace s w = Some ws \<and> wsp_monitor_id ws = m))"
proof -
  note top = coreD(2) [OF wfD(1) [OF wf_reachable [OF assms(1)]]]
  note V = view_values(6) [OF assms(2)]
  obtain ids a where T: "set_view s (mon_workspace_set_id mon) = Some (m, ids, a)"
    using top_monitor_set [OF top V] .
  then obtain x where x: "get_set s (mon_workspace_set_id mon) = Some x" "wset_monitor_id x = m"
    "wset_ordered x = ids" "wset_active x = a" by (auto simp: set_view_def)
  have "w \<in> set ids \<longleftrightarrow> home_view s w = Some m" for w
    using top_okD(4) [OF top T] top_okD(6) [OF top, of w m] top_set_of_monitor [OF top T] T by force
  then have "w \<in> set ids \<longleftrightarrow> (\<exists>ws. get_workspace s w = Some ws \<and> wsp_monitor_id ws = m)" for w
    by (auto simp: home_view_def)
  then show ?thesis
    using x top_okD(3,5) [OF top T] by (auto simp: active_view_def)
qed

lemma desk_two_monitor: "get_monitor desk_two (MonitorId 1) \<noteq> None"
  by (simp add: desk_two_eq)

theorem reachable_monitor_stack_witness:
  "\<exists>mon x. get_monitor desk_two (MonitorId 1) = Some mon \<and>
     get_set desk_two (mon_workspace_set_id mon) = Some x \<and> wset_active x \<in> set (wset_ordered x)"
  using desk_two_monitor reachable_monitor_stack [OF sample_reachable(3)] by blast

text \<open>
  C5: in every reachable state a focused window exists, agrees with the focused column and is on
  the active workspace of the focused monitor; when no window has the focus, no column has it.
\<close>

theorem reachable_focus_is_visible:
  assumes "reachable s"
  shows "case focus_window (focus s) of
           None \<Rightarrow> focus_column (focus s) = None
         | Some i \<Rightarrow> \<exists>win mon x.
             get_window s i = Some win \<and> win_column_id win = focus_column (focus s) \<and>
             focus_monitor (focus s) = Some mon \<and>
             active_workspace_id_for_monitor s mon = Some (win_workspace_id win) \<and>
             get_workspace s (win_workspace_id win) = Some x \<and> wsp_monitor_id x = mon"
proof (cases "focus_window (focus s)")
  case None
  then show ?thesis using focus_okD_none [OF wfD(2) [OF wf_reachable [OF assms]]] by simp
next
  case (Some i)
  note ok = wf_reachable [OF assms]
  obtain w m where f: "located (window_view s) i w (focus_column (focus s))"
    "focus_monitor (focus s) = Some m" "active_view s m = Some w" "monitor_view s m \<noteq> None"
    using focus_okD_window [OF wfD(2) [OF ok] Some] .
  obtain win where win: "get_window s i = Some win" using located_is_window [OF f(1)] by blast
  obtain j where j: "monitor_view s m = Some j" using f(4) by blast
  have "home_view s w = Some m"
    using top_active [OF coreD(2) [OF wfD(1) [OF ok]] j] f(3) by (metis empty_iff option.inject)
  then show ?thesis
    using f win Some located_window [OF win]
    by (auto simp: home_view_def active_view_def active_workspace_id_for_monitor_def)
qed

lemma desk_two_focus: "focus_window (focus desk_two) = Some (WindowId 2)"
  by (simp add: desk_two_eq)

theorem reachable_focus_is_visible_witness:
  "\<exists>win mon. get_window desk_two (WindowId 2) = Some win \<and> focus_monitor (focus desk_two) = Some mon \<and>
     active_workspace_id_for_monitor desk_two mon = Some (win_workspace_id win)"
  using reachable_focus_is_visible [OF sample_reachable(3)] by (auto simp: desk_two_focus)

section \<open>Outcomes of a dispatch\<close>




text \<open>
  A dispatch that succeeds bumps the state version by one, reports that version, and adds the
  records it returns to the diagnostics; one that fails leaves the diagnostics alone and bumps
  the version at most once; neither touches the monitors.
\<close>

theorem dispatch_accounting:
  "case dispatch e s of
     (Inr r, t) \<Rightarrow>
       rs_state_version (runtime t) = rs_state_version (runtime s) + 1 \<and>
       tr_state_version r = rs_state_version (runtime t) \<and>
       diag_total_records (diagnostics t) = diag_total_records (diagnostics s) + length (tr_diagnostics r) \<and>
       diag_last_label (diagnostics t) = Some (event_name_as_str (ev_id e)) \<and>
       diag_last_state_version (diagnostics t) = rs_state_version (runtime t) \<and>
       tr_diagnostics r \<noteq> [] \<and> monitors t = monitors s
   | (Inl f, t) \<Rightarrow>
       rs_state_version (runtime t) \<in> {rs_state_version (runtime s), rs_state_version (runtime s) + 1} \<and>
       diagnostics t = diagnostics s \<and> monitors t = monitors s"
  using apply_event_anchor [of e s]
  by (cases rule: dispatch_cases [of e s])
    (auto simp: anchor_def bump_state_version_def record_transition_def Let_def)




end
