(* ===== verification/Layout_Stacking.thy ===== *)
theory Layout_Stacking
  imports Layout_Facts
begin

text \<open>
  The geometry of a stacked column. \<open>tile_down\<close> is the reference: rectangles one below the other
  with a gap between them. The engine's loop computes it for the heights \<open>stack_heights\<close>, which
  share the height of the viewport in proportion to the desired heights, the last window taking
  what is left.
\<close>

section \<open>The reference\<close>

fun tile_down :: "int \<Rightarrow> nat \<Rightarrow> nat list \<Rightarrow> (int \<times> nat) list" where
  "tile_down y gap [] = []"
| "tile_down y gap (h # hs) = (y, h) # tile_down (y + int h + int gap) gap hs"

fun stack_heights :: "nat \<Rightarrow> nat \<Rightarrow> nat \<Rightarrow> nat list \<Rightarrow> nat list" where
  "stack_heights tiled hs remaining [] = []"
| "stack_heights tiled hs remaining [d] = [max remaining 1]"
| "stack_heights tiled hs remaining (d # d' # ds) =
     (let h = max (tiled * d div hs) 1 in h # stack_heights tiled hs (remaining - h) (d' # ds))"

definition extent :: "nat \<Rightarrow> nat list \<Rightarrow> nat" where
  "extent gap hs = sum_list hs + (length hs - 1) * gap"

lemma extent_simps [simp]:
  "extent gap [] = 0" "extent gap [h] = h" "extent gap (h # h' # hs) = h + gap + extent gap (h' # hs)"
  by (simp_all add: extent_def)

lemma length_stack_heights [simp]: "length (stack_heights tiled hs remaining ds) = length ds"
  by (induction tiled hs remaining ds rule: stack_heights.induct) (simp_all add: Let_def)

lemma stack_heights_positive: "h \<in> set (stack_heights tiled hs remaining ds) \<Longrightarrow> 1 \<le> h"
  by (induction tiled hs remaining ds rule: stack_heights.induct) (auto simp: Let_def)

lemma length_tile_down [simp]: "length (tile_down y gap hs) = length hs"
  by (induction y gap hs rule: tile_down.induct) simp_all

lemma tile_down_heights [simp]: "map snd (tile_down y gap hs) = hs"
  by (induction y gap hs rule: tile_down.induct) simp_all

lemma tile_down_first: "hs \<noteq> [] \<Longrightarrow> fst (tile_down y gap hs ! 0) = y"
  by (cases hs) simp_all

lemma tile_down_next:
  "Suc k < length hs \<Longrightarrow>
   fst (tile_down y gap hs ! Suc k) = fst (tile_down y gap hs ! k) + int (hs ! k) + int gap"
proof (induction y gap hs arbitrary: k rule: tile_down.induct)
  case (2 y gap h hs)
  then show ?case by (cases k) (auto simp: tile_down_first)
qed simp

lemma tile_down_bottom:
  "hs \<noteq> [] \<Longrightarrow> fst (last (tile_down y gap hs)) + int (last hs) = y + int (extent gap hs)"
proof (induction y gap hs rule: tile_down.induct)
  case (2 y gap h hs)
  then show ?case by (cases hs) simp_all
qed simp

section \<open>The heights fill the viewport\<close>

lemma share_less:
  fixes tiled n hs :: nat
  assumes "0 < hs" "0 < tiled" "n < hs"
  shows "tiled * n div hs < tiled"
  using assms by (intro less_mult_imp_div_less) simp

text \<open>While the remaining height covers the exact share of what is left, the heights add up to it.\<close>

lemma stack_heights_sum:
  assumes "0 < hs" "ds \<noteq> []" "\<And>d. d \<in> set ds \<Longrightarrow> hs \<le> tiled * d"
    and "tiled * sum_list (butlast ds) div hs < remaining"
  shows "sum_list (stack_heights tiled hs remaining ds) = remaining"
  using assms
proof (induction tiled hs remaining ds rule: stack_heights.induct)
  case (3 tiled hs remaining d d' ds)
  have "hs \<le> tiled * d" using 3 by simp
  then have h: "max (tiled * d div hs) 1 = tiled * d div hs"
    using \<open>0 < hs\<close> by (metis Suc_eq_plus1 add_0 div_greater_zero_iff max.absorb1 Suc_leI)
  have "tiled * d div hs + tiled * sum_list (butlast (d' # ds)) div hs
      \<le> tiled * (d + sum_list (butlast (d' # ds))) div hs"
    using div_add1_eq [of "tiled * d" "tiled * sum_list (butlast (d' # ds))" hs] by (simp add: algebra_simps)
  then have small: "tiled * sum_list (butlast (d' # ds)) div hs < remaining - tiled * d div hs"
    and room: "tiled * d div hs \<le> remaining"
    using 3(5) by simp_all
  have "sum_list (stack_heights tiled hs (remaining - tiled * d div hs) (d' # ds)) = remaining - tiled * d div hs"
    using 3(1) [OF refl] 3(2,4) small h by simp
  then show ?case using h room by (simp add: Let_def)
qed auto

section \<open>The engine computes the reference\<close>

definition stack_geometry :: "wm_state \<Rightarrow> int \<Rightarrow> nat \<Rightarrow> window_id \<Rightarrow> int \<times> nat \<Rightarrow> window_geometry" where
  "stack_geometry s x width i = (\<lambda>(y, h).
     \<lparr>geo_window_id = i, geo_rect = rect_new x y width h,
      geo_layer = (case get_window s i of None \<Rightarrow> Tiled | Some win \<Rightarrow> win_layer win)\<rparr>)"

definition window_height :: "wm_state \<Rightarrow> window_id \<Rightarrow> nat" where
  "window_height s i = (case get_window s i of None \<Rightarrow> 1 | Some win \<Rightarrow> desired_height win)"

definition fits_i32 :: "int \<Rightarrow> nat \<Rightarrow> bool" where
  "fits_i32 y e \<longleftrightarrow> i32_min \<le> y \<and> int e \<le> i32_max \<and> y + int e \<le> i32_max"

lemma stacked_height_eval:
  assumes "0 < hs" "tiled * desired_height win div hs \<le> u32_max"
  shows "stacked_height tiled hs False remaining win = max (tiled * desired_height win div hs) 1"
    "stacked_height tiled hs True remaining win = max remaining 1"
  using assms by (simp_all add: stacked_height_def wrap_u32_id is_u32_def)

lemma wrap_cursor:
  assumes "i32_min \<le> y" "int h \<le> i32_max" "y + int h \<le> i32_max"
  shows "wrap_i32 (y + u32_as_i32 h) = y + int h"
  using assms by (simp add: u32_as_i32_id i32_max_def wrap_i32_id is_i32_def)

lemma wrap_gap:
  assumes "i32_min \<le> y" "int gap \<le> i32_max" "y + int gap \<le> i32_max"
  shows "wrap_i32 (y + u32_clip_i32 gap) = y + int gap"
  using assms by (simp add: u32_clip_i32_id i32_max_def wrap_i32_id is_i32_def)

lemma stack_fold_eval:
  fixes st :: stack_state
  assumes "0 < hs" "\<And>i. i \<in> set ids \<Longrightarrow> get_window s i \<noteq> None"
    and "\<And>i. i \<in> set ids \<Longrightarrow> tiled * window_height s i div hs \<le> u32_max"
    and "n + length ids = Suc lst"
    and "fits_i32 (st_y_cursor st)
           (extent gap (stack_heights tiled hs (st_remaining_height st) (map (window_height s) ids)))"
  shows "\<exists>st'. fold_res (stack_window s x width gap tiled hs lst) (List.enumerate n ids) st = Inr st' \<and>
    st_geometries st' = st_geometries st @ map2 (stack_geometry s x width) ids
      (tile_down (st_y_cursor st) gap
        (stack_heights tiled hs (st_remaining_height st) (map (window_height s) ids)))"
  using assms
proof (induction ids arbitrary: n st)
  case (Cons i ids)
  obtain win where win: "get_window s i = Some win" using Cons.prems(2) [of i] by auto
  have wh: "window_height s i = desired_height win" by (simp add: window_height_def win)
  note eval = stacked_height_eval [OF Cons.prems(1), of tiled win] and bound = Cons.prems(3) [of i]
  show ?case
  proof (cases ids)
    case Nil
    then have "n = lst" using Cons.prems(4) by simp
    then show ?thesis using Nil win eval wh bound
      by (simp add: stack_window_def Let_def stack_geometry_def)
  next
    case more: (Cons j js)
    define h where "h = max (tiled * window_height s i div hs) 1"
    define rest where "rest = stack_heights tiled hs (st_remaining_height st - h) (map (window_height s) ids)"
    define y where "y = st_y_cursor st + int h + int gap"
    define st1 where "st1 = \<lparr>st_y_cursor = y, st_remaining_height = st_remaining_height st - h,
      st_geometries = st_geometries st @ [stack_geometry s x width i (st_y_cursor st, h)]\<rparr>"
    have n: "n \<noteq> lst" using Cons.prems(4) more by simp
    have heights: "stack_heights tiled hs (st_remaining_height st) (map (window_height s) (i # ids)) = h # rest"
      by (simp add: more rest_def h_def Let_def)
    have ext: "extent gap (h # rest) = h + gap + extent gap rest"
      by (simp add: rest_def more extent_def)
    have fit: "fits_i32 (st_y_cursor st) (h + gap + extent gap rest)" using Cons.prems(5) heights ext by simp
    have sh: "stacked_height tiled hs False remaining win = h" for remaining
      using eval(1) wh bound by (simp add: h_def)
    from fit have step: "stack_window s x width gap tiled hs lst (n, i) st = Inr st1"
      using n win
      by (simp add: stack_window_def Let_def st1_def y_def stack_geometry_def sh fits_i32_def
          wrap_cursor wrap_gap)
    have "fits_i32 (st_y_cursor st1) (extent gap rest)" using fit by (simp add: st1_def y_def fits_i32_def)
    then obtain st' where "fold_res (stack_window s x width gap tiled hs lst) (List.enumerate (Suc n) ids) st1 = Inr st'"
      "st_geometries st' = st_geometries st1 @ map2 (stack_geometry s x width) ids (tile_down y gap rest)"
      using Cons.IH [of "Suc n" st1] Cons.prems(1-4) by (auto simp: st1_def rest_def)
    then show ?thesis using step heights by (simp add: st1_def y_def)
  qed
qed simp

definition stack_total :: "wm_state \<Rightarrow> window_id list \<Rightarrow> nat" where
  "stack_total s ids = sum_list (map (window_height s) ids)"

definition stack_room :: "rect \<Rightarrow> nat \<Rightarrow> window_id list \<Rightarrow> nat" where
  "stack_room viewport gap ids = rect_height viewport - (length ids - 1) * gap"

text \<open>
  A column fits a viewport when the sums stay in range, the gaps leave room, and every window's
  share of the room is at least a pixel.
\<close>

definition stack_fits :: "wm_state \<Rightarrow> rect \<Rightarrow> nat \<Rightarrow> window_id list \<Rightarrow> bool" where
  "stack_fits s viewport gap ids \<longleftrightarrow>
     ids \<noteq> [] \<and> list_all (\<lambda>i. get_window s i \<noteq> None) ids \<and> stack_total s ids \<le> u32_max \<and>
     (length ids - 1) * gap < rect_height viewport \<and>
     list_all (\<lambda>i. stack_total s ids \<le> stack_room viewport gap ids * window_height s i) ids \<and>
     fits_i32 (rect_y viewport) (rect_height viewport)"

definition stack_shares :: "wm_state \<Rightarrow> rect \<Rightarrow> nat \<Rightarrow> window_id list \<Rightarrow> nat list" where
  "stack_shares s viewport gap ids =
     stack_heights (stack_room viewport gap ids) (stack_total s ids) (stack_room viewport gap ids)
       (map (window_height s) ids)"

lemma window_height_positive: "1 \<le> window_height s i"
  by (auto simp: window_height_def desired_height_def split: option.splits)

lemma stack_total_positive: "ids \<noteq> [] \<Longrightarrow> 0 < stack_total s ids"
  using window_height_positive [of s "hd ids"] by (cases ids) (simp_all add: stack_total_def)

lemma length_le_stack_total: "length ids \<le> stack_total s ids"
proof (induction ids)
  case (Cons i ids)
  then show ?case using window_height_positive [of s i] by (simp add: stack_total_def)
qed simp

lemma stack_total_eval:
  assumes "stack_fits s viewport gap ids"
  shows "desired_height_total s ids = stack_total s ids"
proof -
  have "map desired_height (List.map_filter (get_window s) js) = map (window_height s) js"
    if "list_all (\<lambda>i. get_window s i \<noteq> None) js" for js
    using that by (induction js) (auto simp: map_filter_simps window_height_def)
  then show ?thesis
    using assms stack_total_positive [of ids s]
    by (simp add: stack_fits_def desired_height_total_def wrap_u32_id is_u32_def flip: stack_total_def)
qed

lemma gap_total_eval:
  assumes "(n - 1) * gap < h" "int h \<le> i32_max" "n \<le> u32_max \<or> 0 < gap"
  shows "gap_total n gap = (n - 1) * gap"
proof -
  have "(n - 1) * gap \<le> u32_max" using assms(1,2) by (simp add: i32_max_def u32_max_def)
  moreover have "n - 1 \<le> u32_max"
  proof (cases "gap = 0")
    case False
    then have "n - 1 \<le> (n - 1) * gap" by simp
    then show ?thesis using \<open>(n - 1) * gap \<le> u32_max\<close> by linarith
  qed (use assms(3) in simp)
  ultimately show ?thesis by (simp add: gap_total_def u32_checked_mul_def)
qed

lemma stack_shares_sum:
  assumes "stack_fits s viewport gap ids"
  shows "sum_list (stack_shares s viewport gap ids) = stack_room viewport gap ids"
proof -
  let ?t = "stack_room viewport gap ids" and ?hs = "stack_total s ids" and ?ds = "map (window_height s) ids"
  have ids: "ids \<noteq> []" and room: "0 < ?t" using assms by (simp_all add: stack_fits_def stack_room_def)
  have "sum_list (butlast ?ds) + last ?ds = ?hs"
    using ids sum_list_append [of "butlast ?ds" "[last ?ds]"] by (simp add: stack_total_def)
  moreover have "1 \<le> last ?ds" using ids window_height_positive by (simp add: last_map)
  ultimately have "?t * sum_list (butlast ?ds) div ?hs < ?t"
    using share_less [OF stack_total_positive [OF ids] room] by simp
  then show ?thesis
    unfolding stack_shares_def using ids assms stack_total_positive [OF ids]
    by (intro stack_heights_sum) (auto simp: stack_fits_def list_all_iff)
qed

lemma stack_shares_extent:
  assumes "stack_fits s viewport gap ids"
  shows "extent gap (stack_shares s viewport gap ids) = rect_height viewport"
proof -
  have "length (stack_shares s viewport gap ids) = length ids" by (simp add: stack_shares_def)
  then show ?thesis
    using stack_shares_sum [OF assms] assms by (simp add: extent_def stack_room_def stack_fits_def)
qed

lemma stacked_geometries_eval:
  assumes fits: "stack_fits s viewport (sp_window_gap spacing) ids"
  shows "stacked_geometries s viewport spacing x width ids =
    Inr (map2 (stack_geometry s x width) ids
      (tile_down (rect_y viewport) (sp_window_gap spacing) (stack_shares s viewport (sp_window_gap spacing) ids)))"
proof -
  let ?gap = "sp_window_gap spacing"
  let ?t = "stack_room viewport ?gap ids" and ?hs = "stack_total s ids"
  have ids: "ids \<noteq> []" and room: "0 < ?t" using fits by (simp_all add: stack_fits_def stack_room_def)
  note many = length_le_stack_total [of ids s]
  then have "gap_total (length ids) ?gap = (length ids - 1) * ?gap"
    using fits by (intro gap_total_eval [where h = "rect_height viewport"]) (simp_all add: stack_fits_def fits_i32_def)
  then have tiled: "max (rect_height viewport - gap_total (length ids) ?gap) 1 = ?t"
    using room by (simp add: stack_room_def)
  have share: "?t * window_height s i div ?hs \<le> u32_max" if "i \<in> set ids" for i
  proof -
    have "window_height s i \<le> ?hs" using that by (simp add: stack_total_def member_le_sum_list)
    then have "?t * window_height s i div ?hs \<le> ?t * ?hs div ?hs" by (intro div_le_mono) simp
    also have "\<dots> \<le> rect_height viewport" using stack_total_positive [OF ids] by (simp add: stack_room_def)
    finally show ?thesis using fits by (simp add: stack_fits_def fits_i32_def i32_max_def u32_max_def)
  qed
  have "\<exists>st'. fold_res (stack_window s x width ?gap ?t ?hs (length ids - 1)) (List.enumerate 0 ids)
      \<lparr>st_y_cursor = rect_y viewport, st_remaining_height = ?t, st_geometries = []\<rparr> = Inr st' \<and>
    st_geometries st' = map2 (stack_geometry s x width) ids
      (tile_down (rect_y viewport) ?gap (stack_shares s viewport ?gap ids))"
    using stack_fold_eval [of ?hs ids s ?t 0 "length ids - 1"
        "\<lparr>st_y_cursor = rect_y viewport, st_remaining_height = ?t, st_geometries = []\<rparr>" ?gap x width]
      stack_total_positive [OF ids] fits ids share stack_shares_extent [OF fits]
    by (simp add: stack_fits_def list_all_iff flip: stack_shares_def)
  then show ?thesis
    using ids by (auto simp: stacked_geometries_def Let_def stack_total_eval [OF fits] tiled simp del: One_nat_def)
qed

section \<open>Columns side by side\<close>

text \<open>Read sideways, \<open>tile_down\<close> gives the left edges and widths of the columns.\<close>

lemma stack_fold_horizontal:
  assumes "fold_res (stack_window s x width gap tiled hs k) xs st = Inr st'"
    "\<forall>g \<in> set (st_geometries st). rect_x (geo_rect g) = x \<and> rect_width (geo_rect g) = width"
  shows "\<forall>g \<in> set (st_geometries st'). rect_x (geo_rect g) = x \<and> rect_width (geo_rect g) = width"
  using assms(1)
proof (rule fold_res_invariant)
  show "\<forall>g \<in> set (st_geometries b). rect_x (geo_rect g) = x \<and> rect_width (geo_rect g) = width"
    if "\<forall>g \<in> set (st_geometries a). rect_x (geo_rect g) = x \<and> rect_width (geo_rect g) = width"
      "stack_window s x width gap tiled hs k p a = Inr b" for p a b
    using that by (cases p) (auto simp: stack_window_def bindE_Inr_iff Let_def rect_new_sel)
qed (rule assms(2))

lemma column_geometries_horizontal:
  assumes "column_geometries s viewport spacing x width col = Inr gs" "g \<in> set gs"
  shows "rect_x (geo_rect g) = x \<and> rect_width (geo_rect g) = width"
proof (cases "col_mode col = Tabbed")
  case True
  then show ?thesis using assms
    by (auto simp: column_geometries_def tabbed_geometries_def bindE_Inr_iff rect_new_sel split: option.splits)
next
  case False
  then have run: "stacked_geometries s viewport spacing x width (col_windows col) = Inr gs"
    using assms(1) by (simp add: column_geometries_def)
  then show ?thesis using assms(2)
    by (auto simp: stacked_geometries_def bindE_Inr_iff Let_def split: if_splits dest: stack_fold_horizontal)
qed

definition column_width_in :: "wm_state \<Rightarrow> nat \<Rightarrow> column_id \<Rightarrow> nat" where
  "column_width_in s viewport_width c =
     (case get_column s c of None \<Rightarrow> 0 | Some col \<Rightarrow> resolve_width col viewport_width)"

lemma place_columns_eval:
  assumes "fold_res (place_column s viewport spacing lst) (List.enumerate n cols) a = Inr r"
    and "n + length cols = Suc lst \<or> cols = []"
    and "fits_i32 (fst a) (extent (sp_column_gap spacing) (map (column_width_in s (rect_width viewport)) cols))"
  shows "\<exists>gss. snd r = snd a @ concat gss \<and> length gss = length cols \<and>
    (\<forall>k < length cols. \<forall>g \<in> set (gss ! k).
       rect_x (geo_rect g) = fst (tile_down (fst a) (sp_column_gap spacing)
         (map (column_width_in s (rect_width viewport)) cols) ! k) \<and>
       rect_width (geo_rect g) = column_width_in s (rect_width viewport) (cols ! k))"
  using assms
proof (induction cols arbitrary: n a)
  case (Cons c cols)
  let ?gap = "sp_column_gap spacing" and ?w = "column_width_in s (rect_width viewport)"
  obtain x gs0 where a: "a = (x, gs0)" by (cases a)
  obtain b where b: "place_column s viewport spacing lst (n, c) a = Inr b"
    "fold_res (place_column s viewport spacing lst) (List.enumerate (Suc n) cols) b = Inr r"
    using Cons.prems(1) by (auto simp: bindE_Inr_iff)
  obtain col gs where col: "get_column s c = Some col"
    and gs: "column_geometries s viewport spacing x (?w c) col = Inr gs"
    and b_eq: "b = (let x1 = wrap_i32 (x + u32_as_i32 (?w c))
      in if n = lst then x1 else wrap_i32 (x1 + u32_clip_i32 ?gap), gs0 @ gs)"
    using b(1) a by (auto simp: place_column_def bindE_Inr_iff Let_def column_width_in_def)
  note horizontal = column_geometries_horizontal [OF gs]
  show ?case
  proof (cases cols)
    case Nil
    then show ?thesis using b(2) b_eq a horizontal by (intro exI [of _ "[gs]"]) auto
  next
    case (Cons c' cs)
    have n: "n \<noteq> lst" using Cons.prems(2) Cons by auto
    have fit: "fits_i32 x (?w c + ?gap + extent ?gap (map ?w cols))"
      using Cons.prems(3) a Cons by simp
    then have b': "b = (x + int (?w c) + int ?gap, gs0 @ gs)"
      using b_eq n by (simp add: Let_def fits_i32_def wrap_cursor wrap_gap)
    have "fits_i32 (fst b) (extent ?gap (map ?w cols))" using fit by (simp add: b' fits_i32_def)
    then obtain gss where gss: "snd r = snd b @ concat gss" "length gss = length cols"
      "\<forall>k < length cols. \<forall>g \<in> set (gss ! k).
         rect_x (geo_rect g) = fst (tile_down (fst b) ?gap (map ?w cols) ! k) \<and>
         rect_width (geo_rect g) = ?w (cols ! k)"
      using Cons.IH [OF b(2)] Cons.prems(2) by auto
    show ?thesis
    proof (intro exI [of _ "gs # gss"] conjI allI impI ballI)
      fix k g
      assume k: "k < length (c # cols)" and g: "g \<in> set ((gs # gss) ! k)"
      show "rect_x (geo_rect g) = fst (tile_down (fst a) ?gap (map ?w (c # cols)) ! k)"
        "rect_width (geo_rect g) = ?w ((c # cols) ! k)"
        using k g gss(3) horizontal a b' by (cases k; simp)+
    qed (use gss b' a in simp_all)
  qed
qed auto

lemma recompute_columns:
  assumes "recompute_workspace s w = Inr p" "get_workspace s w = Some ws"
    and "cols = strip_columns (wsp_strip ws)"
    and "widths = map (column_width_in s (rect_width (proj_viewport p))) cols"
    and "gap = sp_column_gap (cfg_layout_spacing (config s))"
    and "x0 = strip_origin_x (rect_x (proj_viewport p)) (rect_width (proj_viewport p)) (proj_content_width p)
           cols (focus_column (focus s)) (proj_scroll_offset p)"
    and "fits_i32 x0 (extent gap widths)"
  obtains gss fl where "proj_window_geometries p = concat gss @ fl" "length gss = length cols"
    "map geo_window_id fl = fl_windows (wsp_floating ws)"
    "\<forall>k < length cols. \<forall>g \<in> set (gss ! k).
       rect_x (geo_rect g) = fst (tile_down x0 gap widths ! k) \<and> rect_width (geo_rect g) = widths ! k"
proof -
  let ?vp = "proj_viewport p" and ?sp = "cfg_layout_spacing (config s)"
  obtain mon where mon: "get_monitor s (wsp_monitor_id ws) = Some mon"
    using assms(1,2) by (auto simp: recompute_workspace_def bindE_Inr_iff)
  obtain r where
    r: "fold_res (place_column s ?vp ?sp (length cols - 1)) (List.enumerate 0 cols) (x0, []) = Inr r" and
    gs: "fold_res (place_floating s (mon_work_area_rect mon)) (fl_windows (wsp_floating ws)) (snd r)
      = Inr (proj_window_geometries p)"
    using assms(1,2,3,6) mon by (auto simp: recompute_workspace_def bindE_Inr_iff Let_def split: prod.splits)
  have "0 + length cols = Suc (length cols - 1) \<or> cols = []" by (cases cols) simp_all
  then obtain gss where gss: "snd r = concat gss" "length gss = length cols"
    "\<forall>k < length cols. \<forall>g \<in> set (gss ! k).
       rect_x (geo_rect g) = fst (tile_down x0 gap widths ! k) \<and> rect_width (geo_rect g) = widths ! k"
    using place_columns_eval [OF r] assms(4,5,7) by auto
  obtain fl where fl: "proj_window_geometries p = snd r @ fl"
    using place_floating_appends [OF gs] by blast
  have "map geo_window_id (proj_window_geometries p) = map geo_window_id (snd r) @ fl_windows (wsp_floating ws)"
    using place_floating_windows [OF gs] .
  then have "map geo_window_id fl = fl_windows (wsp_floating ws)" using fl by simp
  then show thesis using that gss fl by simp
qed

section \<open>Strips that fit\<close>

lemma tile_down_within:
  "k < length hs \<Longrightarrow>
   y \<le> fst (tile_down y gap hs ! k) \<and> fst (tile_down y gap hs ! k) + int (hs ! k) \<le> y + int (extent gap hs)"
proof (induction y gap hs arbitrary: k rule: tile_down.induct)
  case (2 y gap h hs)
  have "int h + (if hs = [] then 0 else int gap + int (extent gap hs)) = int (extent gap (h # hs))"
    by (cases hs) simp_all
  then show ?case using 2 by (cases k; cases hs) (fastforce simp: )+
qed simp

lemma content_width_fold:
  assumes "fold_res (content_width_step s vw gap) (List.enumerate n cols) acc = Inr n'"
    and "acc + sum_list (map (column_width_in s vw) cols) + length cols * gap \<le> u32_max"
  shows "n' = acc + sum_list (map (column_width_in s vw) cols) + (length cols - (if n = 0 then 1 else 0)) * gap"
  using assms
proof (induction cols arbitrary: n acc)
  case (Cons c cols)
  obtain acc1 where acc1: "content_width_step s vw gap (n, c) acc = Inr acc1"
    "fold_res (content_width_step s vw gap) (List.enumerate (Suc n) cols) acc1 = Inr n'"
    using Cons.prems(1) by (auto simp: bindE_Inr_iff)
  have "acc1 = acc + column_width_in s vw c + (if n = 0 then 0 else gap)"
    using acc1(1) Cons.prems(2)
    by (auto simp: content_width_step_def bindE_Inr_iff column_width_in_def u32_sat_add_def split: if_splits)
  then show ?case using Cons.IH [OF acc1(2)] Cons.prems(2) by (cases cols) auto
qed simp

lemma content_width_eval:
  assumes "content_width_of s vw gap cols = Inr n'"
    and "sum_list (map (column_width_in s vw) cols) + length cols * gap \<le> u32_max"
  shows "n' = extent gap (map (column_width_in s vw) cols)"
  using content_width_fold [of s vw gap 0 cols 0] assms by (simp add: content_width_of_def extent_def)

lemma strip_origin_within:
  assumes "cw \<le> vw" "fits_i32 vx vw"
  shows "vx \<le> strip_origin_x vx vw cw cols focused 0 \<and>
         strip_origin_x vx vw cw cols focused 0 + int cw \<le> vx + int vw"
proof -
  have slack: "u32_clip_i32 (vw - cw) = int vw - int cw"
    using assms by (subst u32_clip_i32_id) (auto simp: i32_max_def fits_i32_def of_nat_diff)
  have "i32_sat_sub vx 0 = vx" "i32_sat_add vx (int vw - int cw) = vx + (int vw - int cw)"
    "i32_sat_add vx (i32_half (int vw - int cw)) = vx + (int vw - int cw) div 2"
    using assms by (auto simp: i32_sat_sub_def i32_sat_add_def i32_half_def sat_i32_def fits_i32_def)
  then show ?thesis using assms(1) slack by (auto simp: strip_origin_x_def Let_def)
qed

section \<open>The scroll range\<close>

lemma max_scroll_set [simp]: "max_scroll_offset (set_scroll_offset w x s) v = max_scroll_offset s v"
  by (cases "get_workspace s v")
    (auto simp: max_scroll_offset_def workspace_tiled_viewport_def workspace_content_width_def
      find_workspace_def find_monitor_def find_column_def set_scroll_offset_def upd_workspace_def
      Let_def cong: if_cong)

lemma desired_scroll_eval:
  assumes "rect_x v = vx" "rect_width v = vw" "fits_i32 vx vw" "left = vx - scroll + off"
    and "0 \<le> scroll" "scroll \<le> mx" "0 \<le> off" "off + int cw \<le> mx + int vw" "cw \<le> vw"
    and "is_i32 left" "is_i32 (left + int cw)" "is_i32 mx" "is_i32 (off + int cw)"
    and "is_i32 (left - vx)" "is_i32 (left + int cw - (vx + int vw))"
  shows "desired_scroll_offset v scroll mx False (left, left + int cw) =
    (if left < vx then off else if vx + int vw < left + int cw then off + int cw - int vw else scroll)"
proof -
  have "u32_clip_i32 vw = int vw" using assms(3) by (subst u32_clip_i32_id) (auto simp: i32_max_def fits_i32_def)
  moreover have "i32_sat_add vx (int vw) = vx + int vw" "i32_sat_sub left vx = left - vx"
    "i32_sat_sub (left + int cw) (vx + int vw) = left + int cw - (vx + int vw)"
    using assms(3,14,15) by (auto simp: i32_sat_add_def i32_sat_sub_def sat_i32_id sat_i32_def fits_i32_def is_i32_def)
  moreover have "i32_sat_add scroll (left - vx) = off"
    "vx + int vw < left + int cw \<Longrightarrow> i32_sat_add scroll (left + int cw - (vx + int vw)) = off + int cw - int vw"
    using assms by (auto simp: i32_sat_add_def sat_i32_def is_i32_def)
  ultimately show ?thesis using assms(1,2) by (simp add: desired_scroll_offset_def Let_def)
qed

end
