(* ===== verification/Layout_Properties.thy ===== *)
theory Layout_Properties
  imports Layout_Stacking Evaluation
begin

text \<open>
  The properties of the layout engine (\<open>crates/layout-engine/src/lib.rs\<close>) and of the scrolling
  that keeps a column in view (\<open>StateStore::reveal_column_in_workspace\<close>). The range hypotheses say
  that no intermediate value leaves the width of its machine type.
\<close>

section \<open>What is shown\<close>

text \<open>
  C9: in every reachable state the layout of every workspace succeeds, and gives exactly one
  rectangle to each window it shows: all windows of a column, only the selected tab of a tabbed
  one, and the floating windows, in this order.
\<close>

theorem reachable_layout_is_complete:
  assumes "reachable s" "get_workspace s w = Some ws"
  shows "\<exists>p. recompute_workspace s w = Inr p \<and>
           map geo_window_id (proj_window_geometries p) = displayed s ws \<and> distinct (displayed s ws)"
proof -
  have ok: "core {} s" using wfD(1) [OF wf_reachable [OF assms(1)]] .
  obtain p where p: "recompute_workspace s w = Inr p"
    using layout_succeeds [OF ok, of w] assms(2) by (auto simp: home_view_def)
  obtain ws' where "get_workspace s w = Some ws'" "map geo_window_id (proj_window_geometries p) = displayed s ws'"
    using projection_windows [OF p] .
  then show ?thesis using p assms(2) displayed_distinct [OF ok assms(2)] by simp
qed

lemma desk_two_workspace: "\<exists>ws. get_workspace desk_two (WorkspaceId 1) = Some ws"
  by (simp add: desk_two_eq)

theorem reachable_layout_is_complete_witness:
  "\<exists>p. recompute_workspace desk_two (WorkspaceId 1) = Inr p"
  using desk_two_workspace reachable_layout_is_complete [OF sample_reachable(3)] by blast

section \<open>Rectangles\<close>




lemma desk_two_projection:
  "recompute_workspace desk_two (WorkspaceId 1) = Inr
     \<lparr>proj_workspace_id = WorkspaceId 1, proj_viewport = rect_new 16 16 1168 768,
      proj_scroll_offset = 12, proj_content_width = 1180, proj_focused_window_id = Some (WindowId 2),
      proj_window_geometries =
        [\<lparr>geo_window_id = WindowId 1, geo_rect = rect_new 4 16 584 768, geo_layer = Tiled\<rparr>,
         \<lparr>geo_window_id = WindowId 2, geo_rect = rect_new 600 16 584 768, geo_layer = Tiled\<rparr>]\<rparr>"
  by (simp add: desk_two_eq evaluate cong: evaluate_congs del: One_nat_def)


text \<open>
  A strip that fits the viewport is visible as a whole: when the columns with their gaps are
  not wider than the viewport and the strip is not scrolled, every tiled window lies between the
  left and the right edge of the viewport, whichever column has the focus.
\<close>

theorem fitting_strip_is_visible:
  assumes "recompute_workspace s w = Inr p" "get_workspace s w = Some ws"
    and "cols = strip_columns (wsp_strip ws)"
    and "widths = map (column_width_in s (rect_width (proj_viewport p))) cols"
    and "gap = sp_column_gap (cfg_layout_spacing (config s))"
    and "extent gap widths \<le> rect_width (proj_viewport p)" "sum_list widths + length cols * gap \<le> u32_max"
    and "proj_scroll_offset p = 0" "fits_i32 (rect_x (proj_viewport p)) (rect_width (proj_viewport p))"
  shows "\<exists>tiled fl. proj_window_geometries p = tiled @ fl \<and>
    map geo_window_id fl = fl_windows (wsp_floating ws) \<and>
    (\<forall>g \<in> set tiled. rect_x (proj_viewport p) \<le> rect_x (geo_rect g) \<and>
       rect_x (geo_rect g) + int (rect_width (geo_rect g)) \<le>
         rect_x (proj_viewport p) + int (rect_width (proj_viewport p)))"
proof -
  let ?vx = "rect_x (proj_viewport p)" and ?vw = "rect_width (proj_viewport p)" and ?e = "extent gap widths"
  define x0 where "x0 = strip_origin_x ?vx ?vw (proj_content_width p) cols (focus_column (focus s)) (proj_scroll_offset p)"
  have "content_width_of s ?vw gap cols = Inr (proj_content_width p)"
    using assms(1,2,3,5) by (auto simp: recompute_workspace_def bindE_Inr_iff Let_def split: prod.splits)
  then have cw: "proj_content_width p = ?e" using content_width_eval assms(4,7) by simp
  have x0: "?vx \<le> x0 \<and> x0 + int ?e \<le> ?vx + int ?vw"
    unfolding x0_def cw assms(8) using assms(6,9) by (rule strip_origin_within)
  then have "fits_i32 x0 ?e" using assms(6,9) by (auto simp: fits_i32_def)
  then obtain gss fl where g: "proj_window_geometries p = concat gss @ fl" "length gss = length cols"
    "map geo_window_id fl = fl_windows (wsp_floating ws)"
    "\<forall>k < length cols. \<forall>g \<in> set (gss ! k).
       rect_x (geo_rect g) = fst (tile_down x0 gap widths ! k) \<and> rect_width (geo_rect g) = widths ! k"
    using recompute_columns [OF assms(1-5) x0_def] by blast
  have "?vx \<le> rect_x (geo_rect h) \<and> rect_x (geo_rect h) + int (rect_width (geo_rect h)) \<le> ?vx + int ?vw"
    if h: "h \<in> set (concat gss)" for h
  proof -
    obtain gs where "gs \<in> set gss" "h \<in> set gs" using h by auto
    then obtain k where "k < length cols" "h \<in> set (gss ! k)" using g(2) by (metis in_set_conv_nth)
    then show ?thesis using g(4) tile_down_within [of k widths x0 gap] x0 assms(4) by fastforce
  qed
  then show ?thesis using g(1,3) by blast
qed

lemma desk_one_projection:
  "recompute_workspace desk_one (WorkspaceId 1) = Inr
     \<lparr>proj_workspace_id = WorkspaceId 1, proj_viewport = rect_new 16 16 1168 768,
      proj_scroll_offset = 0, proj_content_width = 584, proj_focused_window_id = Some (WindowId 1),
      proj_window_geometries =
        [\<lparr>geo_window_id = WindowId 1, geo_rect = rect_new 308 16 584 768, geo_layer = Tiled\<rparr>]\<rparr>"
  by (simp add: desk_one_eq evaluate cong: evaluate_congs del: One_nat_def)

theorem fitting_strip_is_visible_witness:
  "\<exists>tiled. [\<lparr>geo_window_id = WindowId 1, geo_rect = rect_new 308 16 584 768, geo_layer = Tiled\<rparr>] = tiled \<and>
     (\<forall>g \<in> set tiled. 16 \<le> rect_x (geo_rect g) \<and> rect_x (geo_rect g) + int (rect_width (geo_rect g)) \<le> 1184)"
proof -
  obtain ws where ws: "get_workspace desk_one (WorkspaceId 1) = Some ws"
    "strip_columns (wsp_strip ws) = [ColumnId 1]" "fl_windows (wsp_floating ws) = []"
    by (simp add: desk_one_eq)
  have widths: "[584] = map (column_width_in desk_one 1168) [ColumnId 1]"
    by (simp add: column_width_in_def resolve_width_def desk_one_eq wrap_u32_id is_u32_def u32_max_def)
  have gap: "12 = sp_column_gap (cfg_layout_spacing (config desk_one))" by (simp add: desk_one_eq)
  show ?thesis
    using fitting_strip_is_visible [OF desk_one_projection ws(1) ws(2) [symmetric] _ gap, of "[584]"]
      widths ws(3) by (auto simp: rect_new_def u32_max_def fits_i32_def i32_min_def i32_max_def)
qed

section \<open>Scrolling\<close>

text \<open>
  A scroll command that succeeds leaves the offset of its workspace between zero and the
  largest useful offset of the new state, whatever the step was.
\<close>

theorem scroll_stays_in_range:
  assumes "apply_scroll_delta w d s = (Inr (), t)"
  shows "\<exists>ws mx. get_workspace t w = Some ws \<and> max_scroll_offset t w = Inr mx \<and>
           0 \<le> strip_scroll_offset (wsp_strip ws) \<and> strip_scroll_offset (wsp_strip ws) \<le> mx"
proof -
  obtain mx ws where mx: "max_scroll_offset s w = Inr mx" and ws: "get_workspace s w = Some ws"
    and t: "t = set_scroll_offset w (clamp_in 0 mx (i32_sat_add (strip_scroll_offset (wsp_strip ws)) d)) s"
    using assms by (auto simp: apply_scroll_delta_def act_defs find_workspace_def split: sum.splits prod.splits)
  have "0 \<le> mx" using mx by (auto simp: max_scroll_offset_def bindE_Inr_iff)
  moreover have "max_scroll_offset t w = max_scroll_offset s w" unfolding t by (rule max_scroll_set)
  ultimately show ?thesis
    using mx ws clamp_in_range [of 0 mx] by (simp add: t set_scroll_offset_def upd_workspace_def)
qed

lemma desk_two_scrolled:
  "apply_scroll_delta (WorkspaceId 1) 240 desk_two =
     (Inr (), set_scroll_offset (WorkspaceId 1) 12 desk_two)"
  by (simp add: desk_two_eq evaluate cong: evaluate_congs del: One_nat_def)

theorem scroll_stays_in_range_witness:
  "\<exists>ws. get_workspace (set_scroll_offset (WorkspaceId 1) 12 desk_two) (WorkspaceId 1) = Some ws \<and>
     0 \<le> strip_scroll_offset (wsp_strip ws)"
  using scroll_stays_in_range [OF desk_two_scrolled] by blast

text \<open>
  Revealing a column makes it visible. For a column as wide as the viewport or narrower that
  lies \<open>off\<close> pixels from the start of the strip's content, the new offset puts both its edges
  inside the viewport, stays in the scroll range, and is the old one when the column was visible
  already. (A lone narrower column is centred by the layout instead.)
\<close>

theorem reveal_makes_column_visible:
  assumes "recompute_workspace s w = Inr p" "get_workspace s w = Some ws" "max_scroll_offset s w = Inr mx"
    and "column_bounds s c (proj_window_geometries p) = Some (left, left + int cw)"
    and "left = rect_x (proj_viewport p) - strip_scroll_offset (wsp_strip ws) + off"
    and "0 \<le> off" "off + int cw \<le> mx + int (rect_width (proj_viewport p))"
    and "cw \<le> rect_width (proj_viewport p)" "length (strip_columns (wsp_strip ws)) \<noteq> 1"
    and "0 \<le> strip_scroll_offset (wsp_strip ws)" "strip_scroll_offset (wsp_strip ws) \<le> mx"
    and "fits_i32 (rect_x (proj_viewport p)) (rect_width (proj_viewport p))"
    and "is_i32 left" "is_i32 (left + int cw)" "is_i32 mx" "is_i32 (off + int cw)"
    and "is_i32 (left - rect_x (proj_viewport p))"
    and "is_i32 (left + int cw - (rect_x (proj_viewport p) + int (rect_width (proj_viewport p))))"
  shows "\<exists>d. reveal_column_in_workspace w c s = (Inr (), set_scroll_offset w d s) \<and> 0 \<le> d \<and> d \<le> mx \<and>
           rect_x (proj_viewport p) \<le> rect_x (proj_viewport p) - d + off \<and>
           rect_x (proj_viewport p) - d + off + int cw \<le>
             rect_x (proj_viewport p) + int (rect_width (proj_viewport p)) \<and>
           (rect_x (proj_viewport p) \<le> left \<and>
            left + int cw \<le> rect_x (proj_viewport p) + int (rect_width (proj_viewport p)) \<longrightarrow>
            d = strip_scroll_offset (wsp_strip ws))"
proof -
  let ?vx = "rect_x (proj_viewport p)" and ?vw = "rect_width (proj_viewport p)"
  let ?scroll = "strip_scroll_offset (wsp_strip ws)"
  define d where "d = desired_scroll_offset (proj_viewport p) ?scroll mx False (left, left + int cw)"
  have run: "reveal_column_in_workspace w c s =
      (Inr (), set_scroll_offset w (clamp_in 0 mx (i32_sat_add ?scroll (i32_sat_sub (clamp_in 0 mx d) ?scroll))) s)"
    using assms(1-4,9)
    by (simp add: reveal_column_in_workspace_def apply_scroll_delta_def act_defs layout_of_def find_workspace_def
        Let_def d_def)
  have d: "d = (if left < ?vx then off else if ?vx + int ?vw < left + int cw then off + int cw - int ?vw else ?scroll)"
    using desired_scroll_eval [of "proj_viewport p" ?vx ?vw left ?scroll off mx cw] assms by (simp add: d_def)
  have range: "0 \<le> d \<and> d \<le> mx" unfolding d using assms(5-8,10,11) by auto
  then have "clamp_in 0 mx (i32_sat_add ?scroll (i32_sat_sub (clamp_in 0 mx d) ?scroll)) = d"
    using assms(10,11,15) by (simp add: clamp_in_id i32_sat_sub_def i32_sat_add_def sat_i32_id is_i32_def
        i32_max_def i32_min_def)
  then show ?thesis using run range d assms(5-8) by (intro exI [of _ d]) auto
qed

theorem reveal_makes_column_visible_witness:
  "\<exists>d. reveal_column_in_workspace (WorkspaceId 1) (ColumnId 1) desk_two =
       (Inr (), set_scroll_offset (WorkspaceId 1) d desk_two) \<and> (16::int) \<le> 16 - d + 0"
proof -
  obtain ws where ws: "get_workspace desk_two (WorkspaceId 1) = Some ws"
    "strip_columns (wsp_strip ws) = [ColumnId 1, ColumnId 2]" "strip_scroll_offset (wsp_strip ws) = 12"
    by (simp add: desk_two_eq)
  have mx: "max_scroll_offset desk_two (WorkspaceId 1) = Inr 12"
    by (simp add: desk_two_eq evaluate cong: evaluate_congs del: One_nat_def)
  have bounds: "column_bounds desk_two (ColumnId 1)
      [\<lparr>geo_window_id = WindowId 1, geo_rect = rect_new 4 16 584 768, geo_layer = Tiled\<rparr>,
       \<lparr>geo_window_id = WindowId 2, geo_rect = rect_new 600 16 584 768, geo_layer = Tiled\<rparr>] = Some (4, 4 + int 584)"
    by (simp add: desk_two_eq evaluate cong: evaluate_congs del: One_nat_def)
  show ?thesis
    using reveal_makes_column_visible [OF desk_two_projection ws(1) mx, of "ColumnId 1" 4 584 0] bounds ws
    by (fastforce simp: rect_new_def fits_i32_def is_i32_def i32_max_def i32_min_def)
qed

end
