(* ===== verification/Window_Properties.thy ===== *)
theory Window_Properties
  imports Store_Keeps Evaluation
begin

text \<open>
  The life of a window: discovery, destruction, and the moves and mode changes in between.
\<close>

section \<open>Destruction\<close>

lemma detach_window_succeeds:
  assumes "get_window s i = Some win" "get_workspace s (win_workspace_id win) \<noteq> None"
  shows "\<exists>t. detach_window_membership i s = (Inr (), t)"
  using assms
  by (cases "win_column_id win")
    (auto simp: detach_window_membership_def act_defs find_window_def find_workspace_def upd_column_def del_column_def)

lemma snd_bindA_keeps:
  assumes "m s = (Inr x, t)" "keeps f (k x)"
  shows "f (snd (bindA m k s)) = f t"
  using assms by (simp add: bindA_def keeps_def)

lemma destroyed_windows:
  assumes "get_window s i = Some win" "get_workspace s (win_workspace_id win) = Some ws"
  shows "windows (snd (handle_window_destroyed (WindowDestroyedPayload i) s)) = bm_del i (windows s)"
proof -
  let ?w = "win_workspace_id win"
  obtain t where t: "detach_window_membership i s = (Inr (), t)"
    using detach_window_succeeds assms by blast
  let ?rest = "thenA (modify (upd_workspace ?w (forget_window i (win_column_id win))))
     (bindA (gets (\<lambda>s. focus_window (focus s) = Some i)) (\<lambda>was_focused.
     thenA (if was_focused then retarget_focus_after_destroy ?w (win_column_id win) else ret ())
     (thenA (modify (\<lambda>s. snd (ensure_tail_workspace (wsp_monitor_id ws) s)))
     (thenA (clamp_scroll_offset ?w) (ret (Some ?w))))))"
  have "handle_window_destroyed (WindowDestroyedPayload i) s = ?rest (del_window i t)"
    using assms t
    by (simp add: handle_window_destroyed_def Let_def bindA_def thenA_def tryA_def modify_def find_window_def
        workspace_monitor_def find_workspace_def)
  moreover have "keeps windows ?rest" by (intro keeps_intros; simp)
  ultimately show ?thesis
    using keepsD [OF keeps_windows(3) t] by (simp add: keeps_def)
qed

lemma managed_workspace_exists:
  assumes "wf s" "get_window s i = Some win" "win_is_managed win"
  shows "get_workspace s (win_workspace_id win) \<noteq> None"
proof -
  note mem = coreD(1) [OF wfD(1) [OF assms(1)]]
  have at: "window_view s i = Some (win_workspace_id win, win_column_id win, True)"
    using assms by (simp add: window_view_def)
  show ?thesis
  proof (cases "win_column_id win")
    case None
    then have "floats (float_view s) (win_workspace_id win) i" using mem_okD(9) [OF mem] at by simp
    then show ?thesis by (auto simp: floats_def float_view_def)
  next
    case (Some c)
    then have "in_strip (strip_view s) (win_workspace_id win) c"
      using mem_window_in_strip [OF mem] at by (auto simp: located_def)
    then show ?thesis by (auto simp: in_strip_def strip_view_def)
  qed
qed

text \<open>
  C15: destroying a managed window removes it for good: afterwards, whether the event ends in
  success or in an error, the window is in no table, column or floating layer and has no
  focus, and every other window is as it was.
\<close>

theorem destroyed_window_is_gone:
  assumes "wf s" "get_window s i = Some win" "win_is_managed win"
    and "dispatch (window_destroyed correlation i) s = (r, t)"
  shows "get_window t i = None \<and> (\<forall>j. j \<noteq> i \<longrightarrow> get_window t j = get_window s j) \<and>
         (\<forall>c col. get_column t c = Some col \<longrightarrow> i \<notin> set (col_windows col)) \<and>
         (\<forall>w ws. get_workspace t w = Some ws \<longrightarrow> i \<notin> set (fl_windows (wsp_floating ws))) \<and>
         focus_window (focus t) \<noteq> Some i"
proof -
  obtain ws where "get_workspace s (win_workspace_id win) = Some ws"
    using managed_workspace_exists [OF assms(1-3)] by blast
  then have W: "windows t = bm_del i (windows s)"
    using dispatch_windows [OF assms(4)] destroyed_windows [OF assms(2)]
    by (simp add: apply_event_def window_destroyed_def event_new_def)
  have "wf t" using wf_dispatch_state [OF assms(1), of "window_destroyed correlation i"] assms(4)
    by (simp add: dispatch_state_def)
  note ok = wfD [OF this]
  have none: "window_view t i = None" using W by (simp add: window_view_def)
  have "\<not> column_has (column_view t) c i \<and> \<not> floats (float_view t) w i" for c w
    by (rule mem_nowhere [OF coreD(1) [OF ok(1)]]) (simp add: none)
  moreover have "focus_window (focus t) \<noteq> Some i"
    using none by (auto elim!: focus_okD_window [OF ok(2)] simp: located_def)
  ultimately show ?thesis using W view_values(3,4)
    by (auto simp: column_has_def floats_def) blast+
qed

theorem destroyed_window_is_gone_witness:
  "get_window (dispatch_state desk_two (closed 1)) (WindowId 1) = None \<and>
   get_window (dispatch_state desk_two (closed 1)) (WindowId 2) = get_window desk_two (WindowId 2)"
proof -
  obtain win where win: "get_window desk_two (WindowId 1) = Some win" "win_is_managed win"
    by (simp add: desk_two_eq)
  obtain r t where run: "dispatch (closed 1) desk_two = (r, t)" by (cases "dispatch (closed 1) desk_two")
  then show ?thesis
    using destroyed_window_is_gone [OF sample_wf(3) win run [unfolded closed_def]]
    by (simp add: dispatch_state_def)
qed

section \<open>Discovery\<close>

lemma snd_keeps: "keeps f m \<Longrightarrow> f (snd (m s)) = f s"
  by (simp add: keeps_def)






section \<open>Widths\<close>

text \<open>
  Column widths: the bounds of an interactive resize, what committing it does, and the cycle of
  preset widths.
\<close>

text \<open>
  Whatever the pointer does, a resize step yields a target width between the bounds of the
  viewport, a pointer inside the viewport, and a preview rectangle that is not empty, spans from
  the fixed edge of the column to the pointer, and is no taller than the viewport.
\<close>

theorem resize_step_in_bounds:
  assumes "compute_width_resize_metrics edge initial_rect n viewport x = Inr m"
    and "1 \<le> rect_height viewport"
  shows "fst (width_bounds viewport) \<le> rm_target_width m \<and> rm_target_width m \<le> snd (width_bounds viewport) \<and>
    rect_x viewport \<le> rm_pointer_x m \<and>
    rm_pointer_x m \<le> i32_sat_add (rect_x viewport) (u32_as_i32 (rect_width viewport)) \<and>
    rect_x (rm_preview_rect m) = min (rm_anchor_x m) (rm_pointer_x m) \<and>
    rect_y (rm_preview_rect m) = rect_y viewport \<and> 1 \<le> rect_width (rm_preview_rect m) \<and>
    1 \<le> rect_height (rm_preview_rect m) \<and> rect_height (rm_preview_rect m) \<le> rect_height viewport"
proof -
  obtain lo hi where b: "width_bounds viewport = (lo, hi)" by (cases "width_bounds viewport")
  have "lo \<le> hi" using width_bounds_ordered [of viewport] b by simp
  then show ?thesis
    using assms clamp_in_range [of lo hi] clamp_in_range [of "rect_x viewport"]
    by (cases edge)
      (auto simp: compute_width_resize_metrics_def b Let_def bindE_Inr_iff clamp_Some_iff rect_new_sel)
qed

theorem resize_step_in_bounds_witness:
  "\<exists>m. compute_width_resize_metrics RightEdge (rect_new 16 16 584 768) 1168 (rect_new 16 16 1168 768) 5000 = Inr m \<and>
     rm_target_width m \<le> 1168"
proof -
  obtain m where m:
    "compute_width_resize_metrics RightEdge (rect_new 16 16 584 768) 1168 (rect_new 16 16 1168 768) 5000 = Inr m"
    by (simp add: evaluate cong: evaluate_congs del: One_nat_def)
  from resize_step_in_bounds [OF this] m show ?thesis
    by (auto simp: width_bounds_def rect_new_def)
qed

section \<open>Cycling\<close>

lemma find_sorted_least:
  fixes xs :: "nat list"
  assumes "sorted xs" "find P xs = Some x"
  shows "x \<in> set xs \<and> P x \<and> (\<forall>y \<in> set xs. P y \<longrightarrow> x \<le> y)"
  using assms by (induction xs) (auto split: if_splits)

lemma cycle_steps_facts:
  assumes "lo \<le> hi" "1 \<le> lo"
  shows "cycle_steps lo hi \<noteq> []" "sorted (cycle_steps lo hi)" "\<forall>n \<in> set (cycle_steps lo hi). lo \<le> n \<and> n \<le> hi"
proof -
  have presets: "remdups_adj (sort xs) \<noteq> [] \<longleftrightarrow> xs \<noteq> []" "sorted (remdups_adj (sort xs))" for xs :: "nat list"
    by (auto simp: sorted_remdups_adj) (metis set_empty set_sort)
  show "cycle_steps lo hi \<noteq> []" "sorted (cycle_steps lo hi)"
    unfolding cycle_steps_def presets(1) by (rule list.distinct presets(2) | simp only: list.map)+
  have "lo \<le> max (clamp_in lo hi w) 1 \<and> max (clamp_in lo hi w) 1 \<le> hi" for w
    using clamp_in_range [OF assms(1), of w] assms by simp
  then show "\<forall>n \<in> set (cycle_steps lo hi). lo \<le> n \<and> n \<le> hi"
    unfolding cycle_steps_def remdups_adj_set set_sort by simp
qed

text \<open>
  Cycling the width of a column goes to the next larger preset, and from the largest on to
  the smallest one; the result is always a preset between the bounds.
\<close>

theorem cycling_visits_presets_in_order:
  assumes "lo \<le> hi" "1 \<le> lo"
  shows "\<exists>n. next_cycled_column_width current lo hi = Inr n \<and> n \<in> set (cycle_steps lo hi) \<and>
    lo \<le> n \<and> n \<le> hi \<and>
    (if \<exists>step \<in> set (cycle_steps lo hi). current < step
     then current < n \<and> (\<forall>step \<in> set (cycle_steps lo hi). current < step \<longrightarrow> n \<le> step)
     else \<forall>step \<in> set (cycle_steps lo hi). n \<le> step)"
proof (cases "find (\<lambda>step. current < step) (cycle_steps lo hi)")
  case None
  note F = cycle_steps_facts [OF assms]
  have "next_cycled_column_width current lo hi = Inr (cycle_steps lo hi ! 0)"
    using None assms by (simp add: next_cycled_column_width_def Let_def)
  moreover have "cycle_steps lo hi ! 0 \<in> set (cycle_steps lo hi)" using F(1) by simp
  moreover have "\<forall>step \<in> set (cycle_steps lo hi). cycle_steps lo hi ! 0 \<le> step"
    using F(1,2) by (cases "cycle_steps lo hi") auto
  ultimately show ?thesis using None F(3) by (auto simp: find_None_iff)
next
  case (Some n)
  note F = cycle_steps_facts [OF assms]
  have "next_cycled_column_width current lo hi = Inr n"
    using Some assms by (simp add: next_cycled_column_width_def Let_def)
  then show ?thesis using find_sorted_least [OF F(2) Some] F(3) by (intro exI [of _ n]) auto
qed

theorem cycling_visits_presets_in_order_witness:
  "\<exists>n. next_cycled_column_width 584 194 1168 = Inr n \<and> 194 \<le> n \<and> n \<le> 1168"
  using cycling_visits_presets_in_order [of 194 1168 584] by auto

section \<open>Committing\<close>

definition columns_of :: "wm_state \<Rightarrow> (column_id, column) bmap \<times> width_resize_session option" where
  "columns_of s = (lay_columns (layout s), lay_width_resize_session (layout s))"

lemma keeps_columns_scroll [keeps_intros]:
  "keeps columns_of (apply_scroll_delta w d)" "keeps columns_of (clamp_scroll_offset w)"
  unfolding apply_scroll_delta_def clamp_scroll_offset_def
  by (intro keeps_intros; simp add: columns_of_def set_scroll_offset_def upd_workspace_def)+

lemma keeps_columns_reveal [keeps_intros]: "keeps columns_of (reveal_column_in_workspace w c)"
  unfolding reveal_column_in_workspace_def Let_def by (intro keeps_intros; simp)

lemma dispatch_columns:
  assumes "dispatch e s = (r, t)"
  shows "columns_of t = columns_of (snd (apply_event e s))"
  using assms by (cases rule: dispatch_cases [of e s])
    (auto simp: columns_of_def record_transition_def bump_state_version_def Let_def)

text \<open>
  Committing a resize writes to the column of the session, and to no other, a fixed width
  between the bounds of the viewport, ends a maximized state, keeps the windows of the column
  and closes the session.
\<close>

theorem commit_fixes_the_width:
  assumes "lay_width_resize_session (layout s) = Some session"
    and "workspace_tiled_viewport s (wrs_workspace_id session) = Inr viewport"
    and "get_column s (wrs_column_id session) = Some col"
    and "dispatch (cmd_commit_column_width correlation x) s = (Inr r, t)"
  shows "lay_width_resize_session (layout t) = None \<and>
    (\<exists>n. fst (width_bounds viewport) \<le> n \<and> n \<le> snd (width_bounds viewport) \<and>
       get_column t (wrs_column_id session) = Some (fix_column_width n col)) \<and>
    (\<forall>c. c \<noteq> wrs_column_id session \<longrightarrow> get_column t c = get_column s c)"
proof -
  let ?w = "wrs_workspace_id session" and ?c = "wrs_column_id session"
  obtain r' u where u: "handle_commit_column_width (ColumnWidthPointerPayload x) s = (Inr r', u)"
    using assms(4) by (cases rule: dispatch_cases [of "cmd_commit_column_width correlation x" s])
      (auto simp: apply_event_def cmd_commit_column_width_def event_new_def)
  have t: "columns_of t = columns_of u"
    using dispatch_columns [OF assms(4)] u by (simp add: apply_event_def cmd_commit_column_width_def event_new_def)
  obtain m where m: "session_metrics s session x = Inr m"
    and run: "thenA (modify (upd_column ?c (fix_column_width (rm_target_width m))))
     (thenA (modify (set_resize_session None)) (thenA (clamp_scroll_offset ?w)
     (thenA (reveal_column_in_workspace ?w ?c) (ret (Some ?w))))) s = (Inr r', u)"
    using u assms(1) by (auto simp: handle_commit_column_width_def bindA_Inr gets_def)
  obtain lo hi where b: "width_bounds viewport = (lo, hi)" by (cases "width_bounds viewport")
  have "lo \<le> hi" using width_bounds_ordered [of viewport] b by simp
  then have bounds: "lo \<le> rm_target_width m \<and> rm_target_width m \<le> hi"
    using m assms(2) clamp_in_range [of lo hi]
    by (cases "wrs_anchor_edge session")
      (auto simp: session_metrics_def compute_width_resize_metrics_def b Let_def bindE_Inr_iff)
  have "columns_of u = columns_of (set_resize_session None (upd_column ?c (fix_column_width (rm_target_width m)) s))"
    using run by (auto simp: thenA_Inr dest!: keepsD [OF keeps_columns_scroll(2)] keepsD [OF keeps_columns_reveal])
  then show ?thesis
    using t bounds b assms(3) by (auto simp: columns_of_def set_resize_session_def upd_column_def)
qed

definition desk_resizing :: wm_state where
  "desk_resizing = dispatch_state desk_two (cmd_begin_column_width_resize (CorrelationId 1) RightEdge 1100)"

lemma desk_resizing_facts:
  "\<exists>session. lay_width_resize_session (layout desk_resizing) = Some session \<and>
     wrs_workspace_id session = WorkspaceId 1 \<and> wrs_column_id session = ColumnId 2"
  "\<exists>viewport. workspace_tiled_viewport desk_resizing (WorkspaceId 1) = Inr viewport"
  "\<exists>col. get_column desk_resizing (ColumnId 2) = Some col"
  "\<exists>r. fst (dispatch (cmd_commit_column_width (CorrelationId 2) 1000) desk_resizing) = Inr r"
  by (simp_all add: desk_resizing_def desk_two_eq evaluate cong: evaluate_congs del: One_nat_def)

theorem commit_fixes_the_width_witness:
  "\<exists>col n. get_column (dispatch_state desk_resizing (cmd_commit_column_width (CorrelationId 2) 1000)) (ColumnId 2)
     = Some (fix_column_width n col)"
proof -
  let ?e = "cmd_commit_column_width (CorrelationId 2) 1000"
  obtain session where s: "lay_width_resize_session (layout desk_resizing) = Some session"
    "wrs_workspace_id session = WorkspaceId 1" "wrs_column_id session = ColumnId 2"
    using desk_resizing_facts(1) by blast
  obtain viewport where v: "workspace_tiled_viewport desk_resizing (wrs_workspace_id session) = Inr viewport"
    using desk_resizing_facts(2) s(2) by auto
  obtain col where col: "get_column desk_resizing (wrs_column_id session) = Some col"
    using desk_resizing_facts(3) s(3) by auto
  obtain r where "dispatch ?e desk_resizing = (Inr r, dispatch_state desk_resizing ?e)"
    using desk_resizing_facts(4) by (auto simp: dispatch_state_def prod_eq_iff)
  from commit_fixes_the_width [OF s(1) v col this] s(3) show ?thesis by auto
qed

end
