(* ===== verification/Workspace_Properties.thy ===== *)
theory Workspace_Properties
  imports Store_Keeps Store_Normalise Evaluation
begin

text \<open>
  The workspace stack of a monitor: what normalising it guarantees, and moving columns between
  workspaces.
\<close>

section \<open>Normalisation\<close>




section \<open>Moving a column\<close>

lemma windows_rehome [simp]:
  "windows (rehome_windows w c ids s) = fold (\<lambda>i. bm_adj i (rehome_window w c)) ids (windows s)"
  unfolding rehome_windows_def by (induction ids arbitrary: s) simp_all

lemma rehome_fold_get:
  "bm_get (fold (\<lambda>i. bm_adj i (rehome_window w c)) ids m) i =
     (if i \<in> set ids then map_option (rehome_window w c) (bm_get m i) else bm_get m i)"
proof (induction ids arbitrary: m)
  case (Cons j ids)
  have "rehome_window w c (rehome_window w c win) = rehome_window w c win" for win
    by (simp add: rehome_window_def)
  then show ?case by (auto simp: Cons.IH option.map_comp comp_def)
qed simp

lemma relocate_windows:
  assumes "relocate_column c moved i source target after s = (Inr (), t)"
  shows "windows t = windows (rehome_windows target c moved s)"
  using assms by (auto simp: relocate_column_def bindA_Inr thenA_Inr)

lemma moved_windows:
  assumes "move_column_to_workspace_target_internal c target after s = (Inr r, t)" "get_column s c = Some col"
  shows "windows t = windows (rehome_windows target c (col_windows col) s) \<or>
    (column_workspace_id s c = Inr target \<and> windows t = windows s)"
proof -
  obtain source where source: "column_workspace_id s c = Inr source"
    using assms(1) by (auto simp: move_column_to_workspace_target_internal_def Let_def bindA_Inr)
  show ?thesis
  proof (cases "source = target \<and> after = Some c")
    case True
    then show ?thesis using assms source
      by (auto simp: move_column_to_workspace_target_internal_def Let_def bindA_Inr)
  next
    case False
    obtain i source_monitor target_monitor source_set target_set u where
      run: "relocate_column c (col_windows col) i source target after s = (Inr (), u)" and
      rest: "thenA (activate_workspace target_monitor target UserCommand)
        (thenA (modify (normalize_workspace_set source_set))
          (thenA
            (if target_set \<noteq> source_set
             then thenA (modify (normalize_workspace_set target_set))
                    (modify (sync_overview_selection source_monitor))
             else ret ())
            (ret (Some target)))) u = (Inr r, t)"
      using assms source False
      by (auto simp: move_column_to_workspace_target_internal_def Let_def bindA_Inr thenA_Inr find_column_def
          split: option.splits) blast+
    have "windows t = windows u"
      using rest by (auto simp: thenA_Inr split: if_splits dest!: keepsD [OF keeps_windows_targets(1)])
    then show ?thesis using relocate_windows [OF run] by simp
  qed
qed

text \<open>
  C21: moving a column moves all of its windows: after the command each of them is in that column
  on the target workspace, in the table and on the strip alike, and no other window changes its
  record.
\<close>

theorem moved_column_takes_its_windows:
  assumes "wf s" "get_column s c = Some col"
    and "dispatch (cmd_move_column_to_workspace_target correlation c target after) s = (Inr r, t)"
  shows "(\<forall>i \<in> set (col_windows col).
            map_option (\<lambda>win. (win_workspace_id win, win_column_id win)) (get_window t i) = Some (target, Some c) \<and>
            in_strip (strip_view t) target c \<and> column_has (column_view t) c i) \<and>
         (\<forall>i. i \<notin> set (col_windows col) \<longrightarrow> get_window t i = get_window s i)"
proof -
  let ?e = "cmd_move_column_to_workspace_target correlation c target after"
  note mem = coreD(1) [OF wfD(1) [OF assms(1)]]
  obtain r' u where u: "move_column_to_workspace_target_internal c target after s = (Inr r', u)"
    using assms(3) by (cases rule: dispatch_cases [of ?e s])
      (auto simp: apply_event_def cmd_move_column_to_workspace_target_def event_new_def
        handle_move_column_to_workspace_target_def)
  have t: "windows t = windows u"
    using dispatch_windows [OF assms(3)] u
    by (simp add: apply_event_def cmd_move_column_to_workspace_target_def event_new_def
        handle_move_column_to_workspace_target_def)
  obtain w where "in_strip (strip_view s) w c" using mem_column [OF mem view_values(4) [OF assms(2)]] by blast
  then have at: "located (window_view s) i w (Some c)" if "i \<in> set (col_windows col)" for i
    using mem_column_located [OF mem] view_values(4) [OF assms(2)] that by (simp add: column_has_def)
  have moved: "map_option (\<lambda>win. (win_workspace_id win, win_column_id win)) (get_window t i) = Some (target, Some c)"
    if i: "i \<in> set (col_windows col)" for i
    using moved_windows [OF u assms(2)]
  proof
    assume "windows u = windows (rehome_windows target c (col_windows col) s)"
    then show ?thesis using at [OF i] i t by (auto simp: rehome_fold_get located_def window_view_def rehome_window_def)
  next
    assume *: "column_workspace_id s c = Inr target \<and> windows u = windows s"
    obtain j js where js: "col_windows col = j # js" using i by (cases "col_windows col") auto
    then have "w = target" using * at [of j] assms(2)
      by (auto simp: column_workspace_id_def find_column_def find_window_def bindE_Inr_iff located_def window_view_def)
    then show ?thesis using at [OF i] * t by (auto simp: located_def window_view_def)
  qed
  have "wf t" using wf_dispatch_state [OF assms(1), of ?e] assms(3) by (simp add: dispatch_state_def)
  note ok = coreD(1) [OF wfD(1) [OF this]]
  have "in_strip (strip_view t) target c \<and> column_has (column_view t) c i" if "i \<in> set (col_windows col)" for i
  proof -
    have "located (window_view t) i target (Some c)"
      using moved [OF that] by (auto simp: located_def window_view_def)
    then show ?thesis using mem_window_in_strip [OF ok] mem_window_column [OF ok] by blast
  qed
  then show ?thesis using moved moved_windows [OF u assms(2)] t by (auto simp: rehome_fold_get)
qed

lemma desk_two_move:
  "\<exists>r. fst (dispatch (cmd_move_column_to_workspace_target (CorrelationId 5) (ColumnId 1) (WorkspaceId 2) None) desk_two) = Inr r"
  "\<exists>col. get_column desk_two (ColumnId 1) = Some col \<and> col_windows col = [WindowId 1]"
  by (simp_all add: desk_two_eq cmd_move_column_to_workspace_target_def evaluate
      cong: evaluate_congs del: One_nat_def)

theorem moved_column_takes_its_windows_witness:
  "map_option win_workspace_id (get_window (dispatch_state desk_two
     (cmd_move_column_to_workspace_target (CorrelationId 5) (ColumnId 1) (WorkspaceId 2) None)) (WindowId 1))
   = Some (WorkspaceId 2)"
proof -
  let ?e = "cmd_move_column_to_workspace_target (CorrelationId 5) (ColumnId 1) (WorkspaceId 2) None"
  obtain r where r: "fst (dispatch ?e desk_two) = Inr r" using desk_two_move(1) by blast
  obtain col where col: "get_column desk_two (ColumnId 1) = Some col" "col_windows col = [WindowId 1]"
    using desk_two_move(2) by blast
  have "dispatch ?e desk_two = (Inr r, dispatch_state desk_two ?e)"
    using r by (simp add: dispatch_state_def prod_eq_iff)
  from moved_column_takes_its_windows [OF sample_wf(3) col(1) this] col(2) show ?thesis by auto
qed

section \<open>Runs that end badly\<close>

text \<open>
  Behaviours of the reducer that look unintended, each as a run of the program from a reachable
  state.
\<close>

definition go_down :: domain_event where
  "go_down = cmd_focus_workspace_down (CorrelationId 8) None"

definition go_up :: domain_event where
  "go_up = cmd_focus_workspace_up (CorrelationId 8) None"

definition float_toggle :: "nat \<Rightarrow> domain_event" where
  "float_toggle n = cmd_toggle_floating (CorrelationId 8) (Some (WindowId n))"

definition full_toggle :: "nat \<Rightarrow> domain_event" where
  "full_toggle n = cmd_toggle_fullscreen (CorrelationId 8) (Some (WindowId n))"

definition unmanaged :: "nat \<Rightarrow> domain_event" where
  "unmanaged h = event_new EvtWindowDiscovered PlatformDerived WindowsAdapter (CorrelationId h)
     (WindowDiscovered (WindowDiscoveredPayload (MonitorId 1) h Application (size_new 400 800)
       (rect_new 0 0 400 800) AppendToFocusedColumn FollowNewWindow Tiled False))"

lemmas sample_event_defs = opened_def closed_def go_down_def go_up_def float_toggle_def full_toggle_def unmanaged_def


text \<open>
  Toggling floating twice on a fullscreen window does not bring it back: it ends inside a
  column of the strip with the layer Fullscreen but the fullscreen flag off.
\<close>

theorem floating_twice_breaks_fullscreen:
  "let s = run_events desk_two [full_toggle 1];
       t = run_events s [float_toggle 1, float_toggle 1]
   in map_option (\<lambda>win. (win_layer win, win_is_fullscreen win, win_column_id win)) (get_window s (WindowId 1))
        = Some (Fullscreen, True, None) \<and>
      map_option (\<lambda>win. (win_layer win, win_is_fullscreen win, win_column_id win)) (get_window t (WindowId 1))
        = Some (Fullscreen, False, Some (ColumnId 3))"
  by (simp add: desk_two_eq sample_event_defs evaluate cong: evaluate_congs del: One_nat_def)


end
