(* ===== verification/Domain_Properties.thy ===== *)
theory Domain_Properties
  imports Evaluation
begin

text \<open>
  Properties of the shared vocabulary: events and their labels, mode names, the order of the
  monitors, the indices the commands compute, and the performance counters.
\<close>

section \<open>Indices and orders\<close>

lemma position_distinct:
  assumes "distinct xs" "k < length xs"
  shows "position (\<lambda>x. x = xs ! k) xs = Some k"
  using assms
proof (induction xs arbitrary: k)
  case (Cons x xs)
  then show ?case by (cases k) auto
qed simp

definition navigable :: "wm_state \<Rightarrow> monitor_id list" where
  "navigable s =
     (if has_explicit_managed_monitor_set s then managed_monitor_ids_in_navigation_order s
      else monitor_ids_in_navigation_order s)"

lemma navigable_distinct: "bm_ok (monitors s) \<Longrightarrow> distinct (navigable s)"
  using bm.keys_distinct [of "monitors s"]
  by (simp add: navigable_def managed_monitor_ids_in_navigation_order_def monitor_ids_in_navigation_order_def)

lemma adjacent_eval:
  assumes "bm_ok (monitors s)" "k < length (navigable s)"
  shows "adjacent_monitor_id s (navigable s ! k) forward =
    Some (navigable s ! (if forward then min (k + 1) (length (navigable s) - 1) else k - 1))"
  using position_distinct [OF navigable_distinct [OF assms(1)] assms(2)] assms(2)
  unfolding adjacent_monitor_id_def navigable_def [symmetric] by (auto simp: vec_get_def Let_def)

text \<open>
  The neighbour relation between monitors is symmetric: where the monitor table is sorted,
  going to the next monitor and back again, or the other way round, returns to the start, unless
  the move stopped at the end of the row.
\<close>

theorem adjacent_monitors_are_inverse:
  assumes "bm_ok (monitors s)" "adjacent_monitor_id s m forward = Some m'" "m' \<noteq> m"
  shows "adjacent_monitor_id s m' (\<not> forward) = Some m"
proof -
  obtain k where k: "k < length (navigable s)" "m = navigable s ! k"
    using assms(2) position_less unfolding adjacent_monitor_id_def navigable_def [symmetric]
    by (fastforce simp: Let_def position_Some_iff split: Option.bind_splits)
  let ?n = "if forward then min (k + 1) (length (navigable s) - 1) else k - 1"
  have n: "?n < length (navigable s)" "m' = navigable s ! ?n"
    using adjacent_eval [OF assms(1) k(1)] assms(2) k by auto
  have "?n \<noteq> k" using assms(3) k n by auto
  then have "(if \<not> forward then min (?n + 1) (length (navigable s) - 1) else ?n - 1) = k"
    using k(1) by (auto split: if_splits)
  then show ?thesis using adjacent_eval [OF assms(1) n(1), of "\<not> forward"] n(2) k(2) by simp
qed

definition second_screen :: monitor where
  "second_screen =
     \<lparr>mon_id = MonitorId 2, mon_platform_binding = None, mon_work_area_rect = rect_new 1200 0 800 600,
      mon_dpi = 96, mon_topology_role = Secondary, mon_workspace_set_id = WorkspaceSetId 2,
      mon_is_primary_hint = False\<rparr>"

definition two_screens :: wm_state where
  "two_screens = desk\<lparr>monitors := bm_put (MonitorId 2) second_screen (monitors desk)\<rparr>"

theorem adjacent_monitors_are_inverse_witness:
  "adjacent_monitor_id two_screens (MonitorId 2) False = Some (MonitorId 1)"
proof -
  note state = two_screens_def second_screen_def desk_eq evaluate
  have "bm_ok (monitors two_screens)"
    by (simp add: state cong: evaluate_congs del: One_nat_def)
  moreover have "adjacent_monitor_id two_screens (MonitorId 1) True = Some (MonitorId 2)"
    by (simp add: state cong: evaluate_congs del: One_nat_def)
  ultimately show ?thesis using adjacent_monitors_are_inverse [of two_screens "MonitorId 1" True "MonitorId 2"] by simp
qed

text \<open>
  Cycling through the tabs of a column stays in range, the two directions undo each other,
  and as many steps as there are tabs come back to the start.
\<close>

theorem tab_cycle_is_a_rotation:
  assumes "i < n"
  shows "cycled_tab_index forward n i < n \<and>
    cycled_tab_index (\<not> forward) n (cycled_tab_index forward n i) = i \<and>
    (cycled_tab_index forward n ^^ n) i = i"
proof -
  have up: "(cycled_tab_index True n ^^ k) i = (i + k) mod n" for k
    using assms by (induction k) (simp_all add: cycled_tab_index_def mod_simps)
  have down: "(cycled_tab_index False n ^^ k) i = (i + (n - k)) mod n" if "k \<le> n" for k
    using that
  proof (induction k)
    case (Suc k)
    then have "(cycled_tab_index False n ^^ Suc k) i = cycled_tab_index False n ((i + (n - k)) mod n)" by simp
    also have "\<dots> = (i + (n - Suc k)) mod n"
    proof (cases "i + (n - k) < n")
      case True
      then show ?thesis using Suc.prems by (simp add: cycled_tab_index_def)
    next
      case False
      then obtain j where j: "i + (n - k) = n + j" using le_Suc_ex by fastforce
      then have "j < n" "i + (n - Suc k) = n + j - 1" using assms Suc.prems by simp_all
      then show ?thesis
        using j by (cases j) (simp_all add: cycled_tab_index_def del: add_Suc_right flip: add_Suc_right)
    qed
    finally show ?case .
  qed (use assms in simp)
  have "cycled_tab_index (\<not> forward) n (cycled_tab_index forward n i) = i"
    using assms by (cases forward) (auto simp: cycled_tab_index_def mod_Suc)
  then show ?thesis using assms up [of n] down [of n] by (cases forward) (auto simp: cycled_tab_index_def)
qed

theorem tab_cycle_is_a_rotation_witness: "(cycled_tab_index True 3 ^^ 3) 2 = 2"
  using tab_cycle_is_a_rotation [of 2 3 True] by simp

section \<open>Events\<close>

definition announces :: "domain_event \<Rightarrow> bool" where
  "announces e \<longleftrightarrow> ev_id e = payload_name (ev_payload e)"

definition all_event_names :: "domain_event_name list" where
  "all_event_names =
     [EvtWindowDiscovered, EvtWindowDestroyed, EvtWindowShown, EvtWindowHidden,
      EvtWindowLocationChanged, EvtWindowFocusObserved, EvtMonitorTopologyChanged,
      EvtSystemSuspend, EvtSystemResume, EvtExplorerRestartObserved, EvtCmdFocusNext,
      EvtCmdFocusPrev, EvtCmdFocusWorkspaceUp, EvtCmdFocusWorkspaceDown, EvtCmdScrollStripLeft,
      EvtCmdScrollStripRight, EvtCmdMoveWorkspaceUp, EvtCmdMoveWorkspaceDown,
      EvtCmdMoveWorkspaceToMonitorNext, EvtCmdMoveWorkspaceToMonitorPrevious,
      EvtCmdMoveColumnToWorkspaceUp, EvtCmdMoveColumnToWorkspaceDown,
      EvtCmdMoveColumnToWorkspaceTarget, EvtCmdMoveWindow, EvtCmdToggleFloating,
      EvtCmdToggleTabbed, EvtCmdToggleMaximized, EvtCmdToggleFullscreen, EvtCmdOpenOverview,
      EvtCmdCloseOverview, EvtCmdToggleOverview, EvtCmdBeginColumnWidthResize,
      EvtCmdUpdateColumnWidthPreview, EvtCmdCommitColumnWidth, EvtCmdCancelColumnWidthResize,
      EvtCmdCycleColumnWidth, EvtCmdEmergencyUnwind, EvtConfigReloadRequested,
      EvtConfigReloadSucceeded, EvtConfigReloadFailed, EvtRulesUpdated, EvtIpcCommandReceived,
      EvtIpcSnapshotRequested, EvtIpcClientConnected, EvtIpcClientDisconnected,
      EvtReconcileRequested, EvtFullScanRequested, EvtDesyncDetected, EvtUiHostCrashed,
      EvtCaptureModuleCrashed]"

lemma all_event_names_complete: "n \<in> set all_event_names"
  by (cases n) (simp_all add: all_event_names_def)

lemma mode_labels:
  "runtime_mode_parse v = Some m \<longleftrightarrow> v = runtime_mode_as_str m"
  "bind_control_mode_parse v = Some b \<longleftrightarrow> v = bind_control_mode_as_str b"
  by (cases m; cases b; auto simp: runtime_mode_parse_def bind_control_mode_parse_def split: if_splits)+

text \<open>
  Labels identify what they label: every constructor of the event API announces its event under
  the name that belongs to its payload, the wire labels of all events are pairwise distinct, and
  parsing a mode accepts exactly the labels the modes are printed as.
\<close>

theorem labels_identify:
  "announces (window_discovered_with a0 b0 c0 d0 e0 f0 g0) \<and>
   announces (window_discovered a1 b1 c1 d1 e1) \<and>
   announces (window_destroyed a2 b2) \<and>
   announces (window_focus_observed a3 b3 c3) \<and>
   announces (cmd_focus_next a4 b4) \<and>
   announces (cmd_focus_prev a5 b5) \<and>
   announces (cmd_focus_workspace_up a6 b6) \<and>
   announces (cmd_focus_workspace_down a7 b7) \<and>
   announces (cmd_scroll_strip_left a8 b8 c8) \<and>
   announces (cmd_scroll_strip_right a9 b9 c9) \<and>
   announces (cmd_move_workspace_up a10 b10) \<and>
   announces (cmd_move_workspace_down a11 b11) \<and>
   announces (cmd_move_workspace_to_monitor_next a12 b12) \<and>
   announces (cmd_move_workspace_to_monitor_previous a13 b13) \<and>
   announces (cmd_move_column_to_workspace_up a14 b14) \<and>
   announces (cmd_move_column_to_workspace_down a15 b15) \<and>
   announces (cmd_move_column_to_workspace_target a16 b16 c16 d16) \<and>
   announces (cmd_toggle_floating a17 b17) \<and>
   announces (cmd_toggle_tabbed a18 b18) \<and>
   announces (cmd_toggle_maximized a19 b19) \<and>
   announces (cmd_toggle_fullscreen a20 b20) \<and>
   announces (cmd_open_overview a21 b21) \<and>
   announces (cmd_close_overview a22 b22) \<and>
   announces (cmd_toggle_overview a23 b23) \<and>
   announces (cmd_begin_column_width_resize a24 b24 c24) \<and>
   announces (cmd_update_column_width_preview a25 b25) \<and>
   announces (cmd_commit_column_width a26 b26) \<and>
   announces (cmd_cancel_column_width_resize a27) \<and>
   announces (cmd_cycle_column_width a28) \<and>
   announces (config_reload_requested a29 b29 c29) \<and>
   announces (config_reload_succeeded a30 b30 c30 d30) \<and>
   announces (config_reload_failed a31 b31 c31) \<and>
   announces (rules_updated a32 b32 c32 d32) \<and>
   distinct (map event_name_as_str all_event_names) \<and> n \<in> set all_event_names \<and>
   (runtime_mode_parse v = Some m \<longleftrightarrow> v = runtime_mode_as_str m) \<and>
   (bind_control_mode_parse v = Some b \<longleftrightarrow> v = bind_control_mode_as_str b)"
proof -
  have "distinct (map event_name_as_str all_event_names)"
    unfolding all_event_names_def by code_simp
  then show ?thesis
    by (simp add: announces_def event_constructor_defs all_event_names_complete mode_labels)
qed

section \<open>Performance counters\<close>

text \<open>
  After any run of durations, errors and skips that has not saturated the sample counter, the
  reported average and last duration are at most the reported maximum.
\<close>

theorem perf_average_below_maximum:
  assumes "pm_samples (foldl perf_step perf_metric_new es) < u64_max"
  shows "ps_average_duration_us (perf_snapshot name (foldl perf_step perf_metric_new es))
           \<le> ps_max_duration_us (perf_snapshot name (foldl perf_step perf_metric_new es)) \<and>
         ps_last_duration_us (perf_snapshot name (foldl perf_step perf_metric_new es))
           \<le> ps_max_duration_us (perf_snapshot name (foldl perf_step perf_metric_new es))"
proof -
  let ?p = "foldl perf_step perf_metric_new es"
  have ok: "perf_ok ?p" by (rule perf_run_ok) (rule perf_ok_new)
  then have "pm_total_duration_us ?p \<le> pm_max_duration_us ?p * pm_samples ?p"
    using assms by (simp add: perf_ok_def mult.commute)
  then have "average_duration_us (pm_total_duration_us ?p) (pm_samples ?p) \<le> pm_max_duration_us ?p"
    by (auto simp: average_duration_us_def intro: div_le_mono2 order.trans [OF div_le_mono])
  then show ?thesis using ok by (simp add: perf_snapshot_def perf_ok_def)
qed

theorem perf_average_below_maximum_witness:
  "ps_average_duration_us (perf_snapshot ''layout'' (foldl perf_step perf_metric_new [PerfDuration 4, PerfError, PerfDuration 8]))
     \<le> ps_max_duration_us (perf_snapshot ''layout'' (foldl perf_step perf_metric_new [PerfDuration 4, PerfError, PerfDuration 8]))"
proof -
  have "pm_samples (foldl perf_step perf_metric_new [PerfDuration 4, PerfError, PerfDuration 8]) < u64_max"
    by (simp add: record_duration_def record_error_def perf_metric_new_def u64_sat_add_def u64_max_def Let_def)
  then show ?thesis by (rule conjunct1 [OF perf_average_below_maximum])
qed

end
