(* ===== verification/Rust_Text.thy ===== *)
theory Rust_Text
  imports Domain_State "HOL-Library.Sublist" "HOL-Library.Char_ord" "HOL-Library.List_Lexorder"
    "HOL-Library.Product_Lexorder"
begin

text \<open>
  The string functions of the Rust standard library that the configuration, the hotkeys and the
  gestures use: splitting into lines, number parsing with its range checks, suffixes and
  case-insensitive search. A string is its UTF-8 bytes and white space is ASCII white space.
\<close>

section \<open>Lines\<close>

definition strip_cr :: "string \<Rightarrow> string" where
  "strip_cr v = (if v \<noteq> [] \<and> last v = CHR 0x0D then butlast v else v)"

text \<open>\<open>str::lines\<close>: the last segment is a line only when it is not empty.\<close>

fun str_lines_from :: "string \<Rightarrow> string \<Rightarrow> string list" where
  "str_lines_from acc [] = (if acc = [] then [] else [rev acc])"
| "str_lines_from acc (c # cs) =
     (if c = CHR 0x0A then strip_cr (rev acc) # str_lines_from [] cs else str_lines_from (c # acc) cs)"

definition str_lines :: "string \<Rightarrow> string list" where
  "str_lines v = str_lines_from [] v"

text \<open>\<open>[T]::join\<close> on strings with a line break, and \<open>str::strip_suffix\<close> with a character.\<close>

fun join_lines :: "string list \<Rightarrow> string" where
  "join_lines [] = []"
| "join_lines [l] = l"
| "join_lines (l # ls) = l @ [CHR 0x0A] @ join_lines ls"

definition strip_suffix_char :: "char \<Rightarrow> string \<Rightarrow> string option" where
  "strip_suffix_char c v = (if v \<noteq> [] \<and> last v = c then Some (butlast v) else None)"

definition to_ascii_lowercase :: "string \<Rightarrow> string" where
  "to_ascii_lowercase v = map ascii_lower v"

section \<open>Numbers\<close>

definition is_digit :: "char \<Rightarrow> bool" where
  "is_digit c \<longleftrightarrow> (let n = of_char c :: nat in 48 \<le> n \<and> n \<le> 57)"

definition digits_value :: "string \<Rightarrow> nat" where
  "digits_value v = foldl (\<lambda>n c. 10 * n + (of_char c - 48)) 0 v"

definition parse_digits :: "string \<Rightarrow> nat option" where
  "parse_digits v = (if v = [] \<or> \<not> list_all is_digit v then None else Some (digits_value v))"

text \<open>\<open>str::parse::<u32>\<close> takes a leading plus sign, \<open>str::parse::<i32>\<close> also a minus sign.\<close>

definition parse_u32 :: "string \<Rightarrow> nat option" where
  "parse_u32 v =
     filter_opt (\<lambda>n. n \<le> u32_max)
       (parse_digits (if first v = Some (CHR ''+'') then tl v else v))"

definition parse_i32 :: "string \<Rightarrow> int option" where
  "parse_i32 v =
     filter_opt is_i32
       (if first v = Some (CHR ''-'') then map_option (\<lambda>n. - int n) (parse_digits (tl v))
        else map_option int (parse_digits (if first v = Some (CHR ''+'') then tl v else v)))"

text \<open>\<open>u32::try_from\<close> and \<open>i32::try_from\<close> of a wider integer.\<close>

definition u32_try_from :: "int \<Rightarrow> nat option" where
  "u32_try_from x = (if 0 \<le> x \<and> x \<le> int u32_max then Some (nat x) else None)"

definition i32_try_from :: "int \<Rightarrow> int option" where
  "i32_try_from x = (if is_i32 x then Some x else None)"

definition i64_try_from :: "int \<Rightarrow> int option" where
  "i64_try_from x = (if - 9223372036854775808 \<le> x \<and> x \<le> 9223372036854775807 then Some x else None)"

section \<open>Facts\<close>

lemma parse_u32_bound: "parse_u32 v = Some n \<Longrightarrow> n \<le> u32_max"
  by (auto simp: parse_u32_def filter_opt_def split: option.splits if_splits)

lemma parse_i32_bound: "parse_i32 v = Some x \<Longrightarrow> is_i32 x"
  by (auto simp: parse_i32_def filter_opt_def split: option.splits if_splits)

lemma u32_try_from_bound: "u32_try_from x = Some n \<Longrightarrow> n \<le> u32_max"
  by (auto simp: u32_try_from_def split: if_splits)

lemma digits_value_snoc: "digits_value (v @ [c]) = 10 * digits_value v + (of_char c - 48)"
  by (simp add: digits_value_def)

lemma digit_chars:
  "char_of (48::nat) = CHR ''0''"
  "char_of (49::nat) = CHR ''1''"
  "char_of (50::nat) = CHR ''2''"
  "char_of (51::nat) = CHR ''3''"
  "char_of (52::nat) = CHR ''4''"
  "char_of (53::nat) = CHR ''5''"
  "char_of (54::nat) = CHR ''6''"
  "char_of (55::nat) = CHR ''7''"
  "char_of (56::nat) = CHR ''8''"
  "char_of (57::nat) = CHR ''9''"
  by (simp_all add: char_of_def bit_iff_odd)

lemma nat_to_dec_ne [simp]: "nat_to_dec n \<noteq> []"
  by (subst nat_to_dec.simps) simp

lemma nat_to_dec_digits: "list_all is_digit (nat_to_dec n)"
proof (induction n rule: nat_to_dec.induct)
  case (1 n)
  have digit: "is_digit (char_of (48 + k))" if "k < 10" for k :: nat
    using that by (simp add: is_digit_def Let_def)
  show ?case using 1 digit [of n] digit [of "n mod 10"] by (subst nat_to_dec.simps) simp
qed

lemma digits_value_nat_to_dec: "digits_value (nat_to_dec n) = n"
proof (induction n rule: nat_to_dec.induct)
  case (1 n)
  show ?case
  proof (cases "n < 10")
    case True
    then show ?thesis by (subst nat_to_dec.simps) (simp add: digits_value_def)
  next
    case False
    then show ?thesis using 1 by (subst nat_to_dec.simps) (simp add: digits_value_snoc)
  qed
qed

lemma parse_digits_nat_to_dec: "parse_digits (nat_to_dec n) = Some n"
  by (simp add: parse_digits_def nat_to_dec_digits digits_value_nat_to_dec)

lemma digit_not_sign: "is_digit c \<Longrightarrow> c \<noteq> CHR ''+'' \<and> c \<noteq> CHR ''-''"
  by (auto simp: is_digit_def)

lemma nat_to_dec_unsigned: "first (nat_to_dec n) \<noteq> Some (CHR ''+'')" "first (nat_to_dec n) \<noteq> Some (CHR ''-'')"
  using nat_to_dec_digits [of n] digit_not_sign nat_to_dec_ne [of n]
  by (cases "nat_to_dec n"; fastforce simp: first_def)+

lemma parse_u32_nat_to_dec: "n \<le> u32_max \<Longrightarrow> parse_u32 (nat_to_dec n) = Some n"
  by (simp add: parse_u32_def nat_to_dec_unsigned parse_digits_nat_to_dec filter_opt_def)

lemma str_lines_from_break:
  assumes "CHR 0x0A \<notin> set l"
  shows "str_lines_from acc (l @ CHR 0x0A # cs) = strip_cr (rev acc @ l) # str_lines_from [] cs"
  using assms by (induction l arbitrary: acc) auto

lemma str_lines_from_end:
  assumes "CHR 0x0A \<notin> set l"
  shows "str_lines_from acc l = (if acc = [] \<and> l = [] then [] else [rev acc @ l])"
  using assms by (induction l arbitrary: acc) auto

lemma strip_cr_id: "CHR 0x0D \<notin> set v \<Longrightarrow> strip_cr v = v"
  by (auto simp: strip_cr_def dest: last_in_set)

text \<open>Splitting joined lines gives the lines back, when they hold no line breaks and the last is empty.\<close>

lemma str_lines_join:
  assumes "\<forall>l \<in> set ls. CHR 0x0A \<notin> set l \<and> CHR 0x0D \<notin> set l"
  shows "str_lines (join_lines (ls @ [[]])) = ls"
  using assms
proof (induction ls rule: join_lines.induct)
  case (3 l l' ls)
  then show ?case by (simp add: str_lines_def str_lines_from_break strip_cr_id)
qed (simp_all add: str_lines_def str_lines_from_break strip_cr_id)

end
