(* ===== verification/Config_Model.thy ===== *)
theory Config_Model
  imports Rust_Text
begin

text \<open>
  \<open>crates/config-rules/src/lib.rs\<close>: the loaded configuration, its defaults, the text of the
  default file, and the classification of a window by the rules.
\<close>

section \<open>Data\<close>

record config_bootstrap =
  cb_preferred_format :: string
  cb_fallback_format :: string
  cb_default_path :: string
  cb_supports_live_reload :: bool
  cb_supports_rollback :: bool

record hotkey_binding =
  hk_trigger :: string
  hk_command :: string

record touchpad_gesture_binding =
  tg_gesture :: string
  tg_command :: string

record touchpad_config =
  tp_override_enabled :: bool
  tp_gestures :: "touchpad_gesture_binding list"

record window_rule_match =
  wm_process_name :: "string option"
  wm_class_substring :: "string option"
  wm_title_substring :: "string option"

record window_rule_actions =
  wa_layer :: "window_layer option"
  wa_column_mode :: "column_mode option"
  wa_width_semantics :: "width_semantics option"
  wa_managed :: "bool option"

record window_rule =
  rule_id :: string
  rule_priority :: int
  rule_enabled :: bool
  rule_matchers :: window_rule_match
  rule_actions :: window_rule_actions

record loaded_config =
  lc_projection :: config_projection
  lc_hotkeys :: "hotkey_binding list"
  lc_touchpad :: touchpad_config
  lc_rules :: "window_rule list"

record window_rule_input =
  wi_process_name :: "string option"
  wi_class_name :: string
  wi_title :: string

record window_rule_decision =
  wd_layer :: window_layer
  wd_managed :: bool
  wd_column_mode :: column_mode
  wd_width_semantics :: width_semantics
  wd_width_semantics_explicit :: bool
  wd_matched_rule_ids :: "string list"

text \<open>An error of the file system says whether the file was missing, and prints as its message.\<close>

datatype io_error = NotFound string | OtherIo string

datatype config_error = IoError io_error | ParseError string | ValidationError string

fun config_error_text :: "config_error \<Rightarrow> string" where
  "config_error_text (IoError (NotFound m)) = m"
| "config_error_text (IoError (OtherIo m)) = m"
| "config_error_text (ParseError m) = m"
| "config_error_text (ValidationError m) = m"

section \<open>Defaults\<close>

definition default_hotkey_bindings :: "(string \<times> string) list" where
  "default_hotkey_bindings =
     [(''Win+H'', ''focus-prev''),
      (''Win+K'', ''focus-next''),
      (''Win+U'', ''focus-workspace-up''),
      (''Win+J'', ''focus-workspace-down''),
      (''Win+Tab'', ''toggle-overview''),
      (''Win+T'', ''open-terminal''),
      (''Win+W'', ''open-wallpaper-selector''),
      (''Win+Q'', ''close-window''),
      (''Win+Ctrl+PageUp'', ''move-workspace-up''),
      (''Win+Ctrl+PageDown'', ''move-workspace-down''),
      (''Win+Ctrl+Shift+PageUp'', ''move-workspace-to-monitor-previous''),
      (''Win+Ctrl+Shift+PageDown'', ''move-workspace-to-monitor-next''),
      (''Win+Shift+PageUp'', ''move-column-to-workspace-up''),
      (''Win+Shift+PageDown'', ''move-column-to-workspace-down''),
      (''Win+R'', ''cycle-column-width''),
      (''Win+Ctrl+Shift+F'', ''toggle-floating''),
      (''Win+Ctrl+Shift+Space'', ''toggle-fullscreen''),
      (''Win+Ctrl+Shift+Backspace'', ''disable-management-and-unwind'')]"

definition default_config_path :: string where
  "default_config_path = ''config/flowtile.kdl''"

definition config_bootstrap_value :: config_bootstrap where
  "config_bootstrap_value =
     \<lparr>cb_preferred_format = ''KDL'', cb_fallback_format = ''TOML'',
      cb_default_path = default_config_path, cb_supports_live_reload = True,
      cb_supports_rollback = True\<rparr>"

definition default_hotkeys :: "hotkey_binding list" where
  "default_hotkeys =
     map (\<lambda>(trigger, command). \<lparr>hk_trigger = trigger, hk_command = command\<rparr>) default_hotkey_bindings"

definition default_touchpad_config :: touchpad_config where
  "default_touchpad_config = \<lparr>tp_override_enabled = False, tp_gestures = []\<rparr>"

definition initial_projection :: "nat \<Rightarrow> string \<Rightarrow> config_projection" where
  "initial_projection generation path =
     config_projection_default\<lparr>cfg_version := generation, cfg_source_path := path\<rparr>"

definition default_loaded_config :: "nat \<Rightarrow> string \<Rightarrow> loaded_config" where
  "default_loaded_config generation path =
     \<lparr>lc_projection = initial_projection generation path, lc_hotkeys = default_hotkeys,
      lc_touchpad = default_touchpad_config, lc_rules = []\<rparr>"

definition window_rule_new :: "string \<Rightarrow> window_rule" where
  "window_rule_new i =
     \<lparr>rule_id = i, rule_priority = 0, rule_enabled = True,
      rule_matchers = \<lparr>wm_process_name = None, wm_class_substring = None, wm_title_substring = None\<rparr>,
      rule_actions = \<lparr>wa_layer = None, wa_column_mode = None, wa_width_semantics = None,
                      wa_managed = None\<rparr>\<rparr>"

text \<open>\<open>ensure_default_config\<close> writes this text where no file exists yet.\<close>

definition quoted :: "string \<Rightarrow> string" where
  "quoted v = CHR 0x22 # v @ [CHR 0x22]"

definition default_config_lines :: "string list" where
  "default_config_lines =
     [''general {'',
      ''  mode '' @ quoted ''wm-only'',
      ''}'',
      [],
      ''monitors {'',
      ''}'',
      [],
      ''layout {'',
      ''  strip-scroll-step 240'',
      ''  default-column-mode '' @ quoted ''normal'',
      ''  default-column-width '' @ quoted ''fraction'' @ '' 1 2'',
      ''  outer-padding 16'',
      ''  column-gap 12'',
      ''  window-gap 12'',
      ''  floating-margin 16'',
      ''}'',
      [],
      ''input {'',
      ''  bind-control-mode '' @ quoted ''coexistence'',
      ''  touchpad-override false''] @
     map (\<lambda>(trigger, command). ''  hotkey '' @ quoted trigger @ '' '' @ quoted command)
       default_hotkey_bindings @
     [''}'',
      [],
      ''rules {'',
      ''  rule '' @ quoted ''float-dialogs'' @ '' {'',
      ''    priority 100'',
      ''    enabled true'',
      ''    match-class-substring '' @ quoted ''Dialog'',
      ''    actions {'',
      ''      layer '' @ quoted ''floating'',
      ''    }'',
      ''  }'',
      [],
      ''  rule '' @ quoted ''float-settings'' @ '' {'',
      ''    priority 110'',
      ''    enabled true'',
      ''    match-title-substring '' @ quoted ''Settings'',
      ''    actions {'',
      ''      layer '' @ quoted ''floating'',
      ''    }'',
      ''  }'',
      [],
      ''  rule '' @ quoted ''companion-wallpaper-selector'' @ '' {'',
      ''    priority 120'',
      ''    enabled true'',
      ''    match-process-name '' @ quoted ''FlowShellWallpaper.UI'',
      ''    actions {'',
      ''      managed false'',
      ''    }'',
      ''  }'',
      ''}'',
      []]"

definition default_config_source :: string where
  "default_config_source = join_lines default_config_lines"

section \<open>Rules\<close>

definition contains_ci :: "string \<Rightarrow> string \<Rightarrow> bool" where
  "contains_ci value needle \<longleftrightarrow> sublist (to_ascii_lowercase needle) (to_ascii_lowercase value)"

definition rule_matches :: "window_rule \<Rightarrow> window_rule_input \<Rightarrow> bool" where
  "rule_matches r w \<longleftrightarrow>
     (case wm_process_name (rule_matchers r) of
        None \<Rightarrow> True
      | Some process \<Rightarrow>
          (case wi_process_name w of None \<Rightarrow> False | Some candidate \<Rightarrow> contains_ci candidate process)) \<and>
     (case wm_class_substring (rule_matchers r) of
        None \<Rightarrow> True | Some part \<Rightarrow> contains_ci (wi_class_name w) part) \<and>
     (case wm_title_substring (rule_matchers r) of
        None \<Rightarrow> True | Some part \<Rightarrow> contains_ci (wi_title w) part)"

definition decision_from_projection :: "config_projection \<Rightarrow> window_rule_decision" where
  "decision_from_projection cfg =
     \<lparr>wd_layer = Tiled, wd_managed = True, wd_column_mode = cfg_default_column_mode cfg,
      wd_width_semantics = cfg_default_column_width cfg, wd_width_semantics_explicit = False,
      wd_matched_rule_ids = []\<rparr>"

definition classify_step :: "window_rule_input \<Rightarrow> window_rule \<Rightarrow> window_rule_decision \<Rightarrow> window_rule_decision" where
  "classify_step w r d =
     (if \<not> rule_enabled r \<or> \<not> rule_matches r w then d
      else
        let a = rule_actions r;
            d1 = d\<lparr>wd_matched_rule_ids := wd_matched_rule_ids d @ [rule_id r]\<rparr>;
            d2 = (case wa_layer a of None \<Rightarrow> d1 | Some x \<Rightarrow> d1\<lparr>wd_layer := x\<rparr>);
            d3 = (case wa_column_mode a of None \<Rightarrow> d2 | Some x \<Rightarrow> d2\<lparr>wd_column_mode := x\<rparr>);
            d4 = (case wa_width_semantics a of None \<Rightarrow> d3
                  | Some x \<Rightarrow> d3\<lparr>wd_width_semantics := x, wd_width_semantics_explicit := True\<rparr>)
        in (case wa_managed a of None \<Rightarrow> d4 | Some x \<Rightarrow> d4\<lparr>wd_managed := x\<rparr>))"

definition classify_window ::
    "window_rule list \<Rightarrow> window_rule_input \<Rightarrow> config_projection \<Rightarrow> window_rule_decision" where
  "classify_window rules w cfg = fold (classify_step w) rules (decision_from_projection cfg)"

end
