(* ===== verification/Config_Parse.thy ===== *)
theory Config_Parse
  imports Config_Model
begin

text \<open>
  The two readers of \<open>crates/config-rules/src/lib.rs\<close>: the line reader used when the KDL parser
  rejects a file, and the reader of a parsed KDL document. The KDL parser and its document type
  belong to another crate: they are the parameters gathered in \<open>kdl_api\<close>.
\<close>

abbreviation invalid :: "string \<Rightarrow> config_error + 'a" where
  "invalid message \<equiv> Inl (ValidationError message)"

section \<open>Words of the format\<close>

definition parse_column_mode :: "string \<Rightarrow> config_error + column_mode" where
  "parse_column_mode v =
     (if v = ''normal'' then Inr NormalColumn
      else if v = ''tabbed'' then Inr Tabbed
      else if v = ''maximized-column'' then Inr MaximizedColumn
      else if v = ''custom-width'' then Inr CustomWidth
      else invalid (''unsupported column mode '' @ [CHR 0x27] @ v @ [CHR 0x27]))"

definition parse_bind_control_mode :: "string \<Rightarrow> config_error + bind_control_mode" where
  "parse_bind_control_mode v =
     ok_or (bind_control_mode_parse v)
       (ValidationError (''unsupported bind control mode '' @ [CHR 0x27] @ v @ [CHR 0x27]))"

definition parse_layer :: "string \<Rightarrow> config_error + window_layer" where
  "parse_layer v =
     (if v = ''tiled'' then Inr Tiled
      else if v = ''floating'' then Inr Floating
      else if v = ''fullscreen'' then Inr Fullscreen
      else invalid (''unsupported window layer '' @ [CHR 0x27] @ v @ [CHR 0x27]))"

definition check_general_mode :: "string \<Rightarrow> config_error + unit" where
  "check_general_mode v =
     (if v = ''wm-only'' \<or> v = ''extended-shell'' \<or> v = ''safe-mode'' then Inr ()
      else invalid (''unsupported general mode '' @ [CHR 0x27] @ v @ [CHR 0x27]))"

definition append_managed_monitor_binding ::
    "string \<Rightarrow> string \<Rightarrow> string list \<Rightarrow> config_error + string list" where
  "append_managed_monitor_binding field binding bindings =
     (let normalized = str_trim binding
      in if normalized = [] then invalid (field @ '' must not be empty'')
         else if list_ex (\<lambda>candidate. eq_ignore_ascii_case candidate normalized) bindings then Inr bindings
         else Inr (bindings @ [normalized]))"

definition parse_non_negative_u32 :: "string \<Rightarrow> int \<Rightarrow> config_error + nat" where
  "parse_non_negative_u32 field v =
     ok_or (u32_try_from v) (ValidationError (field @ '' must be a non-negative integer''))"

definition parse_non_negative_u32_token :: "string \<Rightarrow> string \<Rightarrow> config_error + nat" where
  "parse_non_negative_u32_token field v =
     ok_or (parse_u32 v) (ValidationError (field @ '' must be a non-negative integer''))"

definition parse_bool_token :: "string \<Rightarrow> string \<Rightarrow> config_error + bool" where
  "parse_bool_token field v =
     (if v = ''true'' then Inr True
      else if v = ''false'' then Inr False
      else invalid (field @ '' must be true or false''))"

text \<open>The numeric settings of the layout section, each with the field it writes.\<close>

definition layout_number :: "string \<Rightarrow> (nat \<Rightarrow> layout_spacing \<Rightarrow> layout_spacing) option" where
  "layout_number name =
     (if name = ''outer-padding'' then Some (\<lambda>n sp. sp\<lparr>sp_outer_padding := edge_insets_all n\<rparr>)
      else if name = ''outer-padding-left''
      then Some (\<lambda>n sp. sp\<lparr>sp_outer_padding := (sp_outer_padding sp)\<lparr>ins_left := n\<rparr>\<rparr>)
      else if name = ''outer-padding-top''
      then Some (\<lambda>n sp. sp\<lparr>sp_outer_padding := (sp_outer_padding sp)\<lparr>ins_top := n\<rparr>\<rparr>)
      else if name = ''outer-padding-right''
      then Some (\<lambda>n sp. sp\<lparr>sp_outer_padding := (sp_outer_padding sp)\<lparr>ins_right := n\<rparr>\<rparr>)
      else if name = ''outer-padding-bottom''
      then Some (\<lambda>n sp. sp\<lparr>sp_outer_padding := (sp_outer_padding sp)\<lparr>ins_bottom := n\<rparr>\<rparr>)
      else if name = ''column-gap'' then Some (\<lambda>n sp. sp\<lparr>sp_column_gap := n\<rparr>)
      else if name = ''window-gap'' then Some (\<lambda>n sp. sp\<lparr>sp_window_gap := n\<rparr>)
      else if name = ''floating-margin'' then Some (\<lambda>n sp. sp\<lparr>sp_floating_margin := n\<rparr>)
      else None)"

definition upd_spacing :: "(layout_spacing \<Rightarrow> layout_spacing) \<Rightarrow> config_projection \<Rightarrow> config_projection" where
  "upd_spacing f cfg = cfg\<lparr>cfg_layout_spacing := f (cfg_layout_spacing cfg)\<rparr>"

definition upd_projection :: "(config_projection \<Rightarrow> config_projection) \<Rightarrow> loaded_config \<Rightarrow> loaded_config" where
  "upd_projection f lc = lc\<lparr>lc_projection := f (lc_projection lc)\<rparr>"

definition push_hotkey :: "string \<Rightarrow> string \<Rightarrow> loaded_config \<Rightarrow> loaded_config" where
  "push_hotkey trigger command lc =
     lc\<lparr>lc_hotkeys := lc_hotkeys lc @ [\<lparr>hk_trigger = trigger, hk_command = command\<rparr>]\<rparr>"

definition push_gesture :: "string \<Rightarrow> string \<Rightarrow> loaded_config \<Rightarrow> loaded_config" where
  "push_gesture gesture command lc =
     lc\<lparr>lc_touchpad := (lc_touchpad lc)
         \<lparr>tp_gestures := tp_gestures (lc_touchpad lc) @ [\<lparr>tg_gesture = gesture, tg_command = command\<rparr>]\<rparr>\<rparr>"

definition set_touchpad_override :: "bool \<Rightarrow> loaded_config \<Rightarrow> loaded_config" where
  "set_touchpad_override b lc = lc\<lparr>lc_touchpad := (lc_touchpad lc)\<lparr>tp_override_enabled := b\<rparr>\<rparr>"

definition push_rule :: "window_rule \<Rightarrow> loaded_config \<Rightarrow> loaded_config" where
  "push_rule r lc = lc\<lparr>lc_rules := lc_rules lc @ [r]\<rparr>"

definition empty_loaded :: "nat \<Rightarrow> string \<Rightarrow> loaded_config" where
  "empty_loaded generation path =
     \<lparr>lc_projection = initial_projection generation path, lc_hotkeys = [],
      lc_touchpad = default_touchpad_config, lc_rules = []\<rparr>"

text \<open>Both readers sort the rules by priority and id and count the enabled ones.\<close>

definition finish_config :: "loaded_config \<Rightarrow> loaded_config" where
  "finish_config lc =
     (let rules = sort_key (\<lambda>r. (rule_priority r, rule_id r)) (lc_rules lc)
      in lc\<lparr>lc_rules := rules,
            lc_projection := (lc_projection lc)
              \<lparr>cfg_active_rule_count := length (filter rule_enabled rules)\<rparr>\<rparr>)"

section \<open>The line reader\<close>

text \<open>\<open>tokenize_kdl_like\<close>: the tokens so far, the current one and whether a quote is open.\<close>

fun tokenize_from :: "string list \<Rightarrow> string \<Rightarrow> bool \<Rightarrow> string \<Rightarrow> config_error + string list" where
  "tokenize_from tokens current in_quotes [] =
     (if in_quotes then Inl (ParseError ''unterminated quoted string in config'')
      else Inr (if current = [] then tokens else tokens @ [current]))"
| "tokenize_from tokens current in_quotes (c # cs) =
     (if c = CHR 0x22 then
        (if in_quotes then tokenize_from (tokens @ [current]) [] False cs
         else if str_trim current \<noteq> [] then tokenize_from (tokens @ [str_trim current]) [] True cs
         else tokenize_from tokens current True cs)
      else if is_space c \<and> \<not> in_quotes then
        (if current \<noteq> [] then tokenize_from (tokens @ [current]) [] False cs
         else tokenize_from tokens current False cs)
      else tokenize_from tokens (current @ [c]) in_quotes cs)"

definition tokenize_kdl_like :: "string \<Rightarrow> config_error + string list" where
  "tokenize_kdl_like line = tokenize_from [] [] False line"

text \<open>\<open>tokens.get(n)\<close> with the error of a missing value.\<close>

definition token :: "string list \<Rightarrow> nat \<Rightarrow> string \<Rightarrow> config_error + string" where
  "token tokens n message = ok_or (vec_get tokens n) (ValidationError message)"

definition token_u32 :: "string \<Rightarrow> string \<Rightarrow> config_error + nat" where
  "token_u32 v message = ok_or (parse_u32 v) (ValidationError message)"

definition parse_width_tokens :: "string list \<Rightarrow> config_error + width_semantics" where
  "parse_width_tokens tokens =
     bindE (token tokens 0 ''width entry is missing width kind'') (\<lambda>kind.
       if kind = ''fixed'' then
         bindE (token tokens 1 ''fixed width requires a numeric value'') (\<lambda>v.
         bindE (token_u32 v ''fixed width must be a positive integer'') (\<lambda>n. Inr (Fixed n)))
       else if kind = ''fraction'' then
         bindE (token tokens 1 ''fraction width requires numerator'') (\<lambda>a.
         bindE (token tokens 2 ''fraction width requires denominator'') (\<lambda>b.
         bindE (token_u32 a ''fraction numerator must be a positive integer'') (\<lambda>n.
         bindE (token_u32 b ''fraction denominator must be a positive integer'') (\<lambda>d.
           Inr (MonitorFraction n d)))))
       else if kind = ''full'' then Inr Full
       else invalid (''unsupported width kind '' @ [CHR 0x27] @ kind @ [CHR 0x27]))"

record line_state =
  ls_loaded :: loaded_config
  ls_section :: "string option"
  ls_rule :: "window_rule option"
  ls_in_actions :: bool

definition like_general :: "string list \<Rightarrow> loaded_config \<Rightarrow> config_error + loaded_config" where
  "like_general tokens lc =
     (if tokens ! 0 = ''mode''
      then (case vec_get tokens 1 of None \<Rightarrow> Inr lc
            | Some mode \<Rightarrow> bindE (check_general_mode mode) (\<lambda>_. Inr lc))
      else Inr lc)"

definition like_monitors :: "string list \<Rightarrow> loaded_config \<Rightarrow> config_error + loaded_config" where
  "like_monitors tokens lc =
     (if tokens ! 0 = ''managed-binding''
      then bindE (token tokens 1 ''monitors managed-binding is missing value'') (\<lambda>binding.
           bindE (append_managed_monitor_binding ''monitors managed-binding'' binding
                    (cfg_managed_monitor_bindings (lc_projection lc))) (\<lambda>bindings.
             Inr (upd_projection (\<lambda>cfg. cfg\<lparr>cfg_managed_monitor_bindings := bindings\<rparr>) lc)))
      else Inr lc)"

definition like_layout :: "string list \<Rightarrow> loaded_config \<Rightarrow> config_error + loaded_config" where
  "like_layout tokens lc =
     (let name = tokens ! 0 in
      if name = ''strip-scroll-step'' then
        bindE (token tokens 1 ''layout strip-scroll-step is missing value'') (\<lambda>v.
        bindE (token_u32 v ''layout strip-scroll-step must be a positive integer'') (\<lambda>n.
          Inr (upd_projection (\<lambda>cfg. cfg\<lparr>cfg_strip_scroll_step := n\<rparr>) lc)))
      else if name = ''default-column-mode'' then
        bindE (token tokens 1 ''layout default-column-mode is missing value'') (\<lambda>v.
        bindE (parse_column_mode v) (\<lambda>mode.
          Inr (upd_projection (\<lambda>cfg. cfg\<lparr>cfg_default_column_mode := mode\<rparr>) lc)))
      else if name = ''default-column-width'' then
        bindE (parse_width_tokens (tl tokens)) (\<lambda>width.
          Inr (upd_projection (\<lambda>cfg. cfg\<lparr>cfg_default_column_width := width\<rparr>) lc))
      else (case layout_number name of
              None \<Rightarrow> Inr lc
            | Some setter \<Rightarrow>
                bindE (token tokens 1 (''layout '' @ name @ '' is missing value'')) (\<lambda>v.
                bindE (parse_non_negative_u32_token (''layout '' @ name) v) (\<lambda>n.
                  Inr (upd_projection (upd_spacing (setter n)) lc)))))"

definition like_input :: "string list \<Rightarrow> loaded_config \<Rightarrow> config_error + loaded_config" where
  "like_input tokens lc =
     (let name = tokens ! 0 in
      if name = ''bind-control-mode'' then
        bindE (token tokens 1 ''input bind-control-mode is missing value'') (\<lambda>v.
        bindE (parse_bind_control_mode v) (\<lambda>mode.
          Inr (upd_projection (\<lambda>cfg. cfg\<lparr>cfg_bind_control_mode := mode\<rparr>) lc)))
      else if name = ''hotkey'' then
        bindE (token tokens 1 ''input hotkey is missing trigger'') (\<lambda>trigger.
        bindE (token tokens 2 ''input hotkey is missing command'') (\<lambda>command.
          Inr (push_hotkey trigger command lc)))
      else if name = ''touchpad-override'' then
        bindE (token tokens 1 ''input touchpad-override is missing value'') (\<lambda>v.
        bindE (parse_bool_token ''input touchpad-override'' v) (\<lambda>b. Inr (set_touchpad_override b lc)))
      else if name = ''touchpad-gesture'' then
        bindE (token tokens 1 ''input touchpad-gesture is missing gesture'') (\<lambda>gesture.
        bindE (token tokens 2 ''input touchpad-gesture is missing command'') (\<lambda>command.
          Inr (push_gesture gesture command lc)))
      else Inr lc)"

definition upd_matchers :: "(window_rule_match \<Rightarrow> window_rule_match) \<Rightarrow> window_rule \<Rightarrow> window_rule" where
  "upd_matchers f r = r\<lparr>rule_matchers := f (rule_matchers r)\<rparr>"

definition like_rule :: "string list \<Rightarrow> window_rule \<Rightarrow> config_error + window_rule" where
  "like_rule tokens r =
     (let name = tokens ! 0 in
      if name = ''priority'' then
        bindE (token tokens 1 ''rule priority is missing value'') (\<lambda>v.
        bindE (ok_or (parse_i32 v) (ValidationError ''rule priority must be a valid integer'')) (\<lambda>x.
          Inr (r\<lparr>rule_priority := x\<rparr>)))
      else if name = ''enabled'' then
        bindE (token tokens 1 ''rule enabled flag is missing value'') (\<lambda>v.
        bindE (parse_bool_token ''rule enabled'' v) (\<lambda>b. Inr (r\<lparr>rule_enabled := b\<rparr>)))
      else if name = ''match-process-name'' then
        Inr (upd_matchers (\<lambda>m. m\<lparr>wm_process_name := vec_get tokens 1\<rparr>) r)
      else if name = ''match-class-substring'' then
        Inr (upd_matchers (\<lambda>m. m\<lparr>wm_class_substring := vec_get tokens 1\<rparr>) r)
      else if name = ''match-title-substring'' then
        Inr (upd_matchers (\<lambda>m. m\<lparr>wm_title_substring := vec_get tokens 1\<rparr>) r)
      else Inr r)"

definition like_action :: "string list \<Rightarrow> window_rule_actions \<Rightarrow> config_error + window_rule_actions" where
  "like_action tokens a =
     (let name = tokens ! 0 in
      if name = ''layer'' then
        bindE (token tokens 1 ''rule action layer is missing value'') (\<lambda>v.
        bindE (parse_layer v) (\<lambda>x. Inr (a\<lparr>wa_layer := Some x\<rparr>)))
      else if name = ''column-mode'' then
        bindE (token tokens 1 ''rule action column-mode is missing value'') (\<lambda>v.
        bindE (parse_column_mode v) (\<lambda>x. Inr (a\<lparr>wa_column_mode := Some x\<rparr>)))
      else if name = ''width'' then
        bindE (parse_width_tokens (tl tokens)) (\<lambda>x. Inr (a\<lparr>wa_width_semantics := Some x\<rparr>))
      else if name = ''managed'' then
        bindE (token tokens 1 ''rule action managed is missing value'') (\<lambda>v.
        bindE (parse_bool_token ''rule action managed'' v) (\<lambda>b. Inr (a\<lparr>wa_managed := Some b\<rparr>)))
      else Inr a)"

text \<open>A line that ends in an opening brace, a closing brace, and any other line.\<close>

definition like_open :: "string list \<Rightarrow> line_state \<Rightarrow> config_error + line_state" where
  "like_open tokens ls =
     (if ls_section ls = None then Inr (ls\<lparr>ls_section := first tokens\<rparr>)
      else if ls_section ls = Some ''rules'' \<and> ls_rule ls = None \<and> first tokens = Some ''rule'' then
        bindE (token tokens 1 ''rule id is missing'') (\<lambda>i. Inr (ls\<lparr>ls_rule := Some (window_rule_new i)\<rparr>))
      else if ls_section ls = Some ''rules'' \<and> ls_rule ls \<noteq> None \<and> first tokens = Some ''actions'' then
        Inr (ls\<lparr>ls_in_actions := True\<rparr>)
      else Inr ls)"

definition like_close :: "line_state \<Rightarrow> line_state" where
  "like_close ls =
     (if ls_in_actions ls then ls\<lparr>ls_in_actions := False\<rparr>
      else case ls_rule ls of
             Some r \<Rightarrow> ls\<lparr>ls_rule := None, ls_loaded := push_rule r (ls_loaded ls)\<rparr>
           | None \<Rightarrow> ls\<lparr>ls_section := None\<rparr>)"

definition on_loaded :: "(loaded_config \<Rightarrow> config_error + loaded_config) \<Rightarrow> line_state \<Rightarrow> config_error + line_state" where
  "on_loaded f ls = bindE (f (ls_loaded ls)) (\<lambda>lc. Inr (ls\<lparr>ls_loaded := lc\<rparr>))"

definition like_entry :: "string list \<Rightarrow> line_state \<Rightarrow> config_error + line_state" where
  "like_entry tokens ls =
     (if ls_section ls = Some ''general'' then on_loaded (like_general tokens) ls
      else if ls_section ls = Some ''monitors'' then on_loaded (like_monitors tokens) ls
      else if ls_section ls = Some ''layout'' then on_loaded (like_layout tokens) ls
      else if ls_section ls = Some ''input'' then on_loaded (like_input tokens) ls
      else if ls_section ls = Some ''rules'' then
        (case ls_rule ls of
           None \<Rightarrow> Inr ls
         | Some r \<Rightarrow>
             if ls_in_actions ls then
               bindE (like_action tokens (rule_actions r)) (\<lambda>a.
                 Inr (ls\<lparr>ls_rule := Some (r\<lparr>rule_actions := a\<rparr>)\<rparr>))
             else bindE (like_rule tokens r) (\<lambda>r'. Inr (ls\<lparr>ls_rule := Some r'\<rparr>)))
      else Inr ls)"

definition like_line :: "string \<Rightarrow> line_state \<Rightarrow> config_error + line_state" where
  "like_line raw ls =
     (let line = str_trim raw in
      if line = [] \<or> prefix ''//'' line then Inr ls
      else case strip_suffix_char (CHR 0x7B) line of
             Some opener \<Rightarrow> bindE (tokenize_kdl_like (str_trim opener)) (\<lambda>tokens. like_open tokens ls)
           | None \<Rightarrow>
               if line = [CHR 0x7D] then Inr (like_close ls)
               else bindE (tokenize_kdl_like line) (\<lambda>tokens.
                      if tokens = [] then Inr ls else like_entry tokens ls))"

definition like_end :: "line_state \<Rightarrow> loaded_config" where
  "like_end ls =
     finish_config (case ls_rule ls of Some r \<Rightarrow> push_rule r (ls_loaded ls) | None \<Rightarrow> ls_loaded ls)"

definition parse_kdl_like_source :: "string \<Rightarrow> string \<Rightarrow> nat \<Rightarrow> config_error + loaded_config" where
  "parse_kdl_like_source source path generation =
     bindE (fold_res like_line (str_lines source)
              \<lparr>ls_loaded = empty_loaded generation path, ls_section = None, ls_rule = None,
               ls_in_actions = False\<rparr>)
       (\<lambda>ls. Inr (like_end ls))"

section \<open>The document reader\<close>

text \<open>
  What the reader takes from the \<open>kdl\<close> crate: a node has a name, positional values and children,
  a value is a string, an integer, a boolean or something else, and prints in error messages.
\<close>

datatype kdl_value = KdlString string | KdlInteger int | KdlBool bool | KdlOther string

record 'n kdl_api =
  kdl_name :: "'n \<Rightarrow> string"
  kdl_values :: "'n \<Rightarrow> kdl_value list"
  kdl_children :: "'n \<Rightarrow> 'n list"
  kdl_show :: "kdl_value \<Rightarrow> string"

definition node_label :: "'n kdl_api \<Rightarrow> 'n \<Rightarrow> string" where
  "node_label api node = ''node '' @ [CHR 0x27] @ kdl_name api node @ [CHR 0x27]"

definition nth_string :: "'n kdl_api \<Rightarrow> 'n \<Rightarrow> nat \<Rightarrow> config_error + string option" where
  "nth_string api node i =
     (case vec_get (kdl_values api node) i of
        None \<Rightarrow> Inr None
      | Some (KdlString v) \<Rightarrow> Inr (Some v)
      | Some other \<Rightarrow> invalid (node_label api node @ '' expects string argument at position '' @
          nat_to_dec i @ '' but found '' @ kdl_show api other))"

definition nth_integer :: "'n kdl_api \<Rightarrow> 'n \<Rightarrow> nat \<Rightarrow> config_error + int option" where
  "nth_integer api node i =
     (case vec_get (kdl_values api node) i of
        None \<Rightarrow> Inr None
      | Some (KdlInteger x) \<Rightarrow>
          (case i64_try_from x of
             Some y \<Rightarrow> Inr (Some y)
           | None \<Rightarrow> invalid (node_label api node @ '' integer argument at position '' @
               nat_to_dec i @ '' is out of i64 range''))
      | Some other \<Rightarrow> invalid (node_label api node @ '' expects integer argument at position '' @
          nat_to_dec i @ '' but found '' @ kdl_show api other))"

definition first_string :: "'n kdl_api \<Rightarrow> 'n \<Rightarrow> config_error + string option" where
  "first_string api node = nth_string api node 0"

definition first_integer :: "'n kdl_api \<Rightarrow> 'n \<Rightarrow> config_error + int option" where
  "first_integer api node = nth_integer api node 0"

definition first_bool :: "'n kdl_api \<Rightarrow> 'n \<Rightarrow> config_error + bool option" where
  "first_bool api node =
     (case vec_get (kdl_values api node) 0 of
        None \<Rightarrow> Inr None
      | Some (KdlBool b) \<Rightarrow> Inr (Some b)
      | Some other \<Rightarrow> invalid (node_label api node @ '' expects bool argument but found '' @
          kdl_show api other))"

text \<open>\<open>required\<close> is \<open>ok_or_else\<close> on an optional argument, \<open>when_given\<close> is \<open>if let Some\<close>.\<close>

definition required :: "config_error + 'a option \<Rightarrow> string \<Rightarrow> config_error + 'a" where
  "required r message = bindE r (\<lambda>v. ok_or v (ValidationError message))"

definition when_given :: "config_error + 'a option \<Rightarrow> 'b \<Rightarrow> ('a \<Rightarrow> config_error + 'b) \<Rightarrow> config_error + 'b" where
  "when_given r x f = bindE r (\<lambda>v. case v of None \<Rightarrow> Inr x | Some y \<Rightarrow> f y)"

definition integer_u32 :: "int \<Rightarrow> string \<Rightarrow> config_error + nat" where
  "integer_u32 v message = ok_or (u32_try_from v) (ValidationError message)"

definition parse_width_node :: "'n kdl_api \<Rightarrow> 'n \<Rightarrow> config_error + width_semantics" where
  "parse_width_node api node =
     bindE (required (nth_string api node 0) ''width node is missing width kind'') (\<lambda>kind.
       if kind = ''fixed'' then
         bindE (required (nth_integer api node 1) ''fixed width requires a numeric value'') (\<lambda>v.
         bindE (integer_u32 v ''fixed width must be positive'') (\<lambda>n. Inr (Fixed n)))
       else if kind = ''fraction'' then
         bindE (required (nth_integer api node 1) ''fraction width requires numerator'') (\<lambda>a.
         bindE (required (nth_integer api node 2) ''fraction width requires denominator'') (\<lambda>b.
         bindE (integer_u32 a ''fraction numerator must be positive'') (\<lambda>n.
         bindE (integer_u32 b ''fraction denominator must be positive'') (\<lambda>d.
           Inr (MonitorFraction n d)))))
       else if kind = ''full'' then Inr Full
       else invalid (''unsupported width kind '' @ [CHR 0x27] @ kind @ [CHR 0x27]))"

definition general_child :: "'n kdl_api \<Rightarrow> 'n \<Rightarrow> loaded_config \<Rightarrow> config_error + loaded_config" where
  "general_child api child lc =
     (if kdl_name api child = ''mode''
      then when_given (first_string api child) lc (\<lambda>mode. bindE (check_general_mode mode) (\<lambda>_. Inr lc))
      else Inr lc)"

definition layout_child :: "'n kdl_api \<Rightarrow> 'n \<Rightarrow> loaded_config \<Rightarrow> config_error + loaded_config" where
  "layout_child api child lc =
     (let name = kdl_name api child in
      if name = ''strip-scroll-step'' then
        when_given (first_integer api child) lc (\<lambda>v.
        bindE (integer_u32 v ''layout strip-scroll-step must be positive'') (\<lambda>n.
          Inr (upd_projection (\<lambda>cfg. cfg\<lparr>cfg_strip_scroll_step := n\<rparr>) lc)))
      else if name = ''default-column-mode'' then
        when_given (first_string api child) lc (\<lambda>v. bindE (parse_column_mode v) (\<lambda>mode.
          Inr (upd_projection (\<lambda>cfg. cfg\<lparr>cfg_default_column_mode := mode\<rparr>) lc)))
      else if name = ''default-column-width'' then
        bindE (parse_width_node api child) (\<lambda>width.
          Inr (upd_projection (\<lambda>cfg. cfg\<lparr>cfg_default_column_width := width\<rparr>) lc))
      else (case layout_number name of
              None \<Rightarrow> Inr lc
            | Some setter \<Rightarrow>
                when_given (first_integer api child) lc (\<lambda>v.
                bindE (parse_non_negative_u32 (''layout '' @ name) v) (\<lambda>n.
                  Inr (upd_projection (upd_spacing (setter n)) lc)))))"

definition monitors_child :: "'n kdl_api \<Rightarrow> 'n \<Rightarrow> loaded_config \<Rightarrow> config_error + loaded_config" where
  "monitors_child api child lc =
     (if kdl_name api child \<noteq> ''managed-binding'' then Inr lc
      else bindE (required (first_string api child) ''monitors managed-binding is missing value'') (\<lambda>binding.
           bindE (append_managed_monitor_binding ''monitors managed-binding'' binding
                    (cfg_managed_monitor_bindings (lc_projection lc))) (\<lambda>bindings.
             Inr (upd_projection (\<lambda>cfg. cfg\<lparr>cfg_managed_monitor_bindings := bindings\<rparr>) lc))))"

definition input_child :: "'n kdl_api \<Rightarrow> 'n \<Rightarrow> loaded_config \<Rightarrow> config_error + loaded_config" where
  "input_child api child lc =
     (let name = kdl_name api child in
      if name = ''bind-control-mode'' then
        when_given (first_string api child) lc (\<lambda>v. bindE (parse_bind_control_mode v) (\<lambda>mode.
          Inr (upd_projection (\<lambda>cfg. cfg\<lparr>cfg_bind_control_mode := mode\<rparr>) lc)))
      else if name = ''hotkey'' then
        bindE (required (nth_string api child 0) ''input hotkey is missing trigger'') (\<lambda>trigger.
        bindE (required (nth_string api child 1) ''input hotkey is missing command'') (\<lambda>command.
          Inr (push_hotkey trigger command lc)))
      else if name = ''touchpad-override'' then
        bindE (required (first_bool api child) ''input touchpad-override is missing bool value'') (\<lambda>b.
          Inr (set_touchpad_override b lc))
      else if name = ''touchpad-gesture'' then
        bindE (required (nth_string api child 0) ''input touchpad-gesture is missing gesture'') (\<lambda>gesture.
        bindE (required (nth_string api child 1) ''input touchpad-gesture is missing command'') (\<lambda>command.
          Inr (push_gesture gesture command lc)))
      else Inr lc)"

definition action_child :: "'n kdl_api \<Rightarrow> 'n \<Rightarrow> window_rule_actions \<Rightarrow> config_error + window_rule_actions" where
  "action_child api child a =
     (let name = kdl_name api child in
      if name = ''layer'' then
        when_given (first_string api child) a (\<lambda>v. bindE (parse_layer v) (\<lambda>x. Inr (a\<lparr>wa_layer := Some x\<rparr>)))
      else if name = ''column-mode'' then
        when_given (first_string api child) a (\<lambda>v.
          bindE (parse_column_mode v) (\<lambda>x. Inr (a\<lparr>wa_column_mode := Some x\<rparr>)))
      else if name = ''width'' then
        bindE (parse_width_node api child) (\<lambda>x. Inr (a\<lparr>wa_width_semantics := Some x\<rparr>))
      else if name = ''managed'' then
        bindE (first_bool api child) (\<lambda>b. Inr (a\<lparr>wa_managed := b\<rparr>))
      else Inr a)"

definition parse_rule_actions :: "'n kdl_api \<Rightarrow> 'n \<Rightarrow> window_rule_actions \<Rightarrow> config_error + window_rule_actions" where
  "parse_rule_actions api node a = fold_res (action_child api) (kdl_children api node) a"

definition rule_child :: "'n kdl_api \<Rightarrow> 'n \<Rightarrow> window_rule \<Rightarrow> config_error + window_rule" where
  "rule_child api child r =
     (let name = kdl_name api child in
      if name = ''priority'' then
        when_given (first_integer api child) r (\<lambda>v.
        bindE (ok_or (i32_try_from v) (ValidationError ''rule priority is out of range'')) (\<lambda>x.
          Inr (r\<lparr>rule_priority := x\<rparr>)))
      else if name = ''enabled'' then
        when_given (first_bool api child) r (\<lambda>b. Inr (r\<lparr>rule_enabled := b\<rparr>))
      else if name = ''match-process-name'' then
        bindE (first_string api child) (\<lambda>v. Inr (upd_matchers (\<lambda>m. m\<lparr>wm_process_name := v\<rparr>) r))
      else if name = ''match-class-substring'' then
        bindE (first_string api child) (\<lambda>v. Inr (upd_matchers (\<lambda>m. m\<lparr>wm_class_substring := v\<rparr>) r))
      else if name = ''match-title-substring'' then
        bindE (first_string api child) (\<lambda>v. Inr (upd_matchers (\<lambda>m. m\<lparr>wm_title_substring := v\<rparr>) r))
      else if name = ''actions'' then
        bindE (parse_rule_actions api child (rule_actions r)) (\<lambda>a. Inr (r\<lparr>rule_actions := a\<rparr>))
      else Inr r)"

definition rules_child :: "'n kdl_api \<Rightarrow> 'n \<Rightarrow> loaded_config \<Rightarrow> config_error + loaded_config" where
  "rules_child api child lc =
     (if kdl_name api child \<noteq> ''rule'' then Inr lc
      else bindE (required (first_string api child) ''rule id is missing'') (\<lambda>i.
           bindE (fold_res (rule_child api) (kdl_children api child) (window_rule_new i)) (\<lambda>r.
             Inr (push_rule r lc))))"

definition document_node :: "'n kdl_api \<Rightarrow> 'n \<Rightarrow> loaded_config \<Rightarrow> config_error + loaded_config" where
  "document_node api node lc =
     (let name = kdl_name api node; children = kdl_children api node in
      if name = ''general'' then fold_res (general_child api) children lc
      else if name = ''monitors'' then fold_res (monitors_child api) children lc
      else if name = ''layout'' then fold_res (layout_child api) children lc
      else if name = ''input'' then fold_res (input_child api) children lc
      else if name = ''rules'' then fold_res (rules_child api) children lc
      else Inr lc)"

definition parse_kdl_document :: "'n kdl_api \<Rightarrow> 'n list \<Rightarrow> string \<Rightarrow> nat \<Rightarrow> config_error + loaded_config" where
  "parse_kdl_document api nodes path generation =
     bindE (fold_res (document_node api) nodes (empty_loaded generation path)) (\<lambda>lc. Inr (finish_config lc))"

section \<open>Loading\<close>

text \<open>
  \<open>fs::read_to_string\<close> and the KDL parser are parameters: what reading a path gives, and the
  top-level nodes of a text the crate accepts.
\<close>

definition load_from_path ::
    "'n kdl_api \<Rightarrow> (string \<Rightarrow> 'n list option) \<Rightarrow> (string \<Rightarrow> io_error + string) \<Rightarrow> string \<Rightarrow> nat \<Rightarrow>
     config_error + loaded_config" where
  "load_from_path api kdl_parse read path generation =
     bindE (map_err IoError (read path)) (\<lambda>source.
       case kdl_parse source of
         Some nodes \<Rightarrow> parse_kdl_document api nodes path generation
       | None \<Rightarrow> parse_kdl_like_source source path generation)"

definition load_or_default ::
    "'n kdl_api \<Rightarrow> (string \<Rightarrow> 'n list option) \<Rightarrow> (string \<Rightarrow> io_error + string) \<Rightarrow> string \<Rightarrow> nat \<Rightarrow>
     config_error + loaded_config" where
  "load_or_default api kdl_parse read path generation =
     (case load_from_path api kdl_parse read path generation of
        Inr lc \<Rightarrow> Inr lc
      | Inl (IoError (NotFound m)) \<Rightarrow> Inr (default_loaded_config generation path)
      | Inl e \<Rightarrow> Inl e)"

text \<open>
  \<open>ensure_default_config\<close> leaves an existing file alone. The file system is a map from paths to
  contents; \<open>prepare\<close> says whether the directory can be created and the file written.
\<close>

definition ensure_default_config ::
    "(string \<Rightarrow> io_error + unit) \<Rightarrow> string \<Rightarrow> (string \<Rightarrow> string option, config_error, string) act" where
  "ensure_default_config prepare path files =
     (if files path \<noteq> None then (Inr path, files)
      else case prepare path of
             Inl e \<Rightarrow> (Inl (IoError e), files)
           | Inr _ \<Rightarrow> (Inr path, files(path \<mapsto> default_config_source)))"

end
