(* ===== verification/Config_Properties.thy ===== *)
theory Config_Properties
  imports Config_Parse
begin

text \<open>
  What a loaded configuration always satisfies, whichever reader produced it, and what the rules
  make of a window.
\<close>

section \<open>The invariant of a loaded configuration\<close>

fun width_ok :: "width_semantics \<Rightarrow> bool" where
  "width_ok (Fixed n) = is_u32 n"
| "width_ok (MonitorFraction n d) = (is_u32 n \<and> is_u32 d)"
| "width_ok Full = True"

definition spacing_ok :: "layout_spacing \<Rightarrow> bool" where
  "spacing_ok sp \<longleftrightarrow>
     is_u32 (ins_left (sp_outer_padding sp)) \<and> is_u32 (ins_top (sp_outer_padding sp)) \<and>
     is_u32 (ins_right (sp_outer_padding sp)) \<and> is_u32 (ins_bottom (sp_outer_padding sp)) \<and>
     is_u32 (sp_column_gap sp) \<and> is_u32 (sp_window_gap sp) \<and> is_u32 (sp_floating_margin sp)"

definition bindings_ok :: "string list \<Rightarrow> bool" where
  "bindings_ok bs \<longleftrightarrow> distinct (map to_ascii_lowercase bs) \<and> (\<forall>b \<in> set bs. b \<noteq> [] \<and> str_trim b = b)"

definition rule_ok :: "window_rule \<Rightarrow> bool" where
  "rule_ok r \<longleftrightarrow> is_i32 (rule_priority r) \<and> pred_option width_ok (wa_width_semantics (rule_actions r))"

definition projection_ok :: "config_projection \<Rightarrow> bool" where
  "projection_ok cfg \<longleftrightarrow>
     is_u32 (cfg_strip_scroll_step cfg) \<and> width_ok (cfg_default_column_width cfg) \<and>
     spacing_ok (cfg_layout_spacing cfg) \<and> bindings_ok (cfg_managed_monitor_bindings cfg)"

definition loading_ok :: "loaded_config \<Rightarrow> bool" where
  "loading_ok lc \<longleftrightarrow> projection_ok (lc_projection lc) \<and> list_all rule_ok (lc_rules lc)"

definition config_ok :: "loaded_config \<Rightarrow> bool" where
  "config_ok lc \<longleftrightarrow>
     loading_ok lc \<and>
     sorted (map (\<lambda>r. (rule_priority r, rule_id r)) (lc_rules lc)) \<and>
     cfg_active_rule_count (lc_projection lc) = length (filter rule_enabled (lc_rules lc))"

lemmas ok_defs = loading_ok_def projection_ok_def spacing_ok_def rule_ok_def

lemma dropWhile_space_idem: "dropWhile is_space (dropWhile is_space v) = dropWhile is_space v"
  by (induction v) auto

lemma str_trim_idem: "str_trim (str_trim v) = str_trim v"
proof -
  let ?u = "dropWhile is_space v"
  have "dropWhile is_space (rev (dropWhile is_space (rev ?u))) = rev (dropWhile is_space (rev ?u))"
  proof (cases "rev (dropWhile is_space (rev ?u))")
    case Nil
    then show ?thesis by (simp only: dropWhile.simps)
  next
    case (Cons c cs)
    obtain pre where "rev ?u = pre @ dropWhile is_space (rev ?u)"
      by (metis takeWhile_dropWhile_id)
    then have "?u = rev (dropWhile is_space (rev ?u)) @ rev pre" by (metis rev_append rev_rev_ident)
    then have "hd ?u = c" "?u \<noteq> []" using Cons by auto
    then have "\<not> is_space c" using hd_dropWhile [of is_space v] by simp
    then show ?thesis using Cons by simp
  qed
  then show ?thesis by (simp add: str_trim_def dropWhile_space_idem)
qed

lemma append_binding_ok:
  assumes "append_managed_monitor_binding field b bs = Inr bs'" "bindings_ok bs"
  shows "bindings_ok bs'"
proof (cases "bs' = bs")
  case False
  then have "bs' = bs @ [str_trim b]" "str_trim b \<noteq> []"
    "\<forall>c \<in> set bs. to_ascii_lowercase c \<noteq> to_ascii_lowercase (str_trim b)"
    using assms(1)
    by (auto simp: append_managed_monitor_binding_def Let_def list_ex_iff to_ascii_lowercase_def
        eq_ignore_ascii_case_def split: if_splits)
  then show ?thesis using assms(2) by (auto simp: bindings_ok_def str_trim_idem dest: sym)
qed (use assms in simp)

lemma width_tokens_ok: "parse_width_tokens ts = Inr w \<Longrightarrow> width_ok w"
  by (auto simp: parse_width_tokens_def bindE_Inr_iff token_u32_def is_u32_def dest: parse_u32_bound
      split: if_splits)

lemma width_node_ok: "parse_width_node api node = Inr w \<Longrightarrow> width_ok w"
  by (auto simp: parse_width_node_def bindE_Inr_iff integer_u32_def is_u32_def dest: u32_try_from_bound
      split: if_splits)

lemma layout_number_ok:
  assumes "layout_number name = Some setter" "spacing_ok sp" "is_u32 n"
  shows "spacing_ok (setter n sp)"
  using assms by (auto simp: layout_number_def spacing_ok_def edge_insets_all_def split: if_splits)

lemma loading_ok_upd:
  "loading_ok lc \<Longrightarrow> projection_ok (f (lc_projection lc)) \<Longrightarrow> loading_ok (upd_projection f lc)"
  "loading_ok lc \<Longrightarrow> loading_ok (push_hotkey trigger command lc)"
  "loading_ok lc \<Longrightarrow> loading_ok (push_gesture gesture command lc)"
  "loading_ok lc \<Longrightarrow> loading_ok (set_touchpad_override b lc)"
  "loading_ok lc \<Longrightarrow> rule_ok r \<Longrightarrow> loading_ok (push_rule r lc)"
  by (simp_all add: loading_ok_def upd_projection_def push_hotkey_def push_gesture_def
      set_touchpad_override_def push_rule_def)

lemma projection_ok_upd:
  "projection_ok cfg \<Longrightarrow> is_u32 n \<Longrightarrow> projection_ok (cfg\<lparr>cfg_strip_scroll_step := n\<rparr>)"
  "projection_ok cfg \<Longrightarrow> projection_ok (cfg\<lparr>cfg_default_column_mode := mode\<rparr>)"
  "projection_ok cfg \<Longrightarrow> projection_ok (cfg\<lparr>cfg_bind_control_mode := control\<rparr>)"
  "projection_ok cfg \<Longrightarrow> width_ok width \<Longrightarrow> projection_ok (cfg\<lparr>cfg_default_column_width := width\<rparr>)"
  "projection_ok cfg \<Longrightarrow> bindings_ok bs \<Longrightarrow> projection_ok (cfg\<lparr>cfg_managed_monitor_bindings := bs\<rparr>)"
  "projection_ok cfg \<Longrightarrow> layout_number name = Some setter \<Longrightarrow> is_u32 n \<Longrightarrow>
     projection_ok (upd_spacing (setter n) cfg)"
  by (simp_all add: projection_ok_def upd_spacing_def layout_number_ok)

lemma loading_ok_parts:
  "loading_ok lc \<Longrightarrow> projection_ok (lc_projection lc)"
  "loading_ok lc \<Longrightarrow> bindings_ok (cfg_managed_monitor_bindings (lc_projection lc))"
  by (simp_all add: loading_ok_def projection_ok_def)

lemma loading_settings:
  "loading_ok lc \<Longrightarrow> is_u32 n \<Longrightarrow> loading_ok (upd_projection (\<lambda>cfg. cfg\<lparr>cfg_strip_scroll_step := n\<rparr>) lc)"
  "loading_ok lc \<Longrightarrow> loading_ok (upd_projection (\<lambda>cfg. cfg\<lparr>cfg_default_column_mode := mode\<rparr>) lc)"
  "loading_ok lc \<Longrightarrow> loading_ok (upd_projection (\<lambda>cfg. cfg\<lparr>cfg_bind_control_mode := control\<rparr>) lc)"
  "loading_ok lc \<Longrightarrow> width_ok width \<Longrightarrow>
     loading_ok (upd_projection (\<lambda>cfg. cfg\<lparr>cfg_default_column_width := width\<rparr>) lc)"
  "loading_ok lc \<Longrightarrow> bindings_ok bs \<Longrightarrow>
     loading_ok (upd_projection (\<lambda>cfg. cfg\<lparr>cfg_managed_monitor_bindings := bs\<rparr>) lc)"
  "loading_ok lc \<Longrightarrow> layout_number name = Some setter \<Longrightarrow> is_u32 n \<Longrightarrow>
     loading_ok (upd_projection (upd_spacing (setter n)) lc)"
  by (simp_all add: loading_ok_upd(1) loading_ok_parts projection_ok_upd)

lemma parsed_u32:
  "token_u32 v message = Inr n \<Longrightarrow> is_u32 n"
  "parse_non_negative_u32_token field v = Inr n \<Longrightarrow> is_u32 n"
  "integer_u32 x message = Inr n \<Longrightarrow> is_u32 n"
  "parse_non_negative_u32 field x = Inr n \<Longrightarrow> is_u32 n"
  by (auto simp: token_u32_def parse_non_negative_u32_token_def integer_u32_def parse_non_negative_u32_def
      is_u32_def dest: parse_u32_bound u32_try_from_bound)

lemmas reading_steps = loading_ok_upd(2-) loading_settings loading_ok_parts append_binding_ok width_tokens_ok
  width_node_ok parsed_u32

section \<open>Both readers keep it\<close>

lemma like_sections_ok:
  "like_general ts lc = Inr lc' \<Longrightarrow> loading_ok lc \<Longrightarrow> loading_ok lc'"
  "like_monitors ts lc = Inr lc' \<Longrightarrow> loading_ok lc \<Longrightarrow> loading_ok lc'"
  "like_layout ts lc = Inr lc' \<Longrightarrow> loading_ok lc \<Longrightarrow> loading_ok lc'"
  "like_input ts lc = Inr lc' \<Longrightarrow> loading_ok lc \<Longrightarrow> loading_ok lc'"
  by (auto simp: like_general_def like_monitors_def like_layout_def like_input_def Let_def bindE_Inr_iff
      intro: reading_steps split: if_splits option.splits)

lemma like_rule_ok: "like_rule ts r = Inr r' \<Longrightarrow> rule_ok r \<Longrightarrow> rule_ok r'"
  by (auto simp: like_rule_def Let_def bindE_Inr_iff rule_ok_def upd_matchers_def dest: parse_i32_bound
      split: if_splits)

lemma like_action_ok:
  "like_action ts a = Inr a' \<Longrightarrow> pred_option width_ok (wa_width_semantics a) \<Longrightarrow>
   pred_option width_ok (wa_width_semantics a')"
  by (auto simp: like_action_def Let_def bindE_Inr_iff dest: width_tokens_ok split: if_splits)

definition line_ok :: "line_state \<Rightarrow> bool" where
  "line_ok ls \<longleftrightarrow> loading_ok (ls_loaded ls) \<and> pred_option rule_ok (ls_rule ls)"

lemma rule_ok_new: "rule_ok (window_rule_new i)"
  by (simp add: rule_ok_def window_rule_new_def is_i32_def i32_min_def i32_max_def)

lemma like_entry_ok: "like_entry ts ls = Inr ls' \<Longrightarrow> line_ok ls \<Longrightarrow> line_ok ls'"
  by (auto simp: like_entry_def on_loaded_def bindE_Inr_iff line_ok_def rule_ok_def
      dest: like_sections_ok like_rule_ok [unfolded rule_ok_def] like_action_ok
      split: if_splits option.splits)

lemma like_line_ok:
  assumes "like_line raw ls = Inr ls'" "line_ok ls"
  shows "line_ok ls'"
  using assms rule_ok_new
  by (auto simp: like_line_def Let_def bindE_Inr_iff like_open_def like_close_def line_ok_def
      intro: loading_ok_upd like_entry_ok [unfolded line_ok_def, THEN conjunct1]
      like_entry_ok [unfolded line_ok_def, THEN conjunct2]
      split: if_splits option.splits)

lemma finish_config_ok: "loading_ok lc \<Longrightarrow> config_ok (finish_config lc)"
  by (simp add: config_ok_def loading_ok_def finish_config_def Let_def projection_ok_def list_all_iff)

lemma default_projection_ok: "projection_ok (initial_projection generation path)"
  by (simp add: projection_ok_def initial_projection_def config_projection_default_def bindings_ok_def
      width_semantics_default_def layout_spacing_default_def edge_insets_default_def edge_insets_all_def
      spacing_ok_def is_u32_def u32_max_def)

lemma empty_loaded_ok: "loading_ok (empty_loaded generation path)"
  by (simp add: empty_loaded_def loading_ok_def default_projection_ok)

lemma like_source_ok:
  assumes "parse_kdl_like_source source path generation = Inr lc"
  shows "config_ok lc"
proof -
  obtain ls where ls: "fold_res like_line (str_lines source)
      \<lparr>ls_loaded = empty_loaded generation path, ls_section = None, ls_rule = None, ls_in_actions = False\<rparr> = Inr ls"
    "lc = like_end ls"
    using assms by (auto simp: parse_kdl_like_source_def bindE_Inr_iff)
  have "line_ok ls"
    using ls(1) by (rule fold_res_invariant) (auto simp: line_ok_def [of "\<lparr>ls_loaded = _, ls_section = _, ls_rule = _, ls_in_actions = _\<rparr>"] empty_loaded_ok intro: like_line_ok)
  then show ?thesis
    using ls(2) by (auto simp: like_end_def line_ok_def split: option.split intro!: finish_config_ok loading_ok_upd)
qed

lemma when_given_Inr:
  "when_given r x f = Inr y \<Longrightarrow> (r = Inr None \<and> y = x) \<or> (\<exists>v. r = Inr (Some v) \<and> f v = Inr y)"
  by (auto simp: when_given_def bindE_Inr_iff split: option.splits)

lemma document_children_ok:
  "general_child api n lc = Inr lc' \<Longrightarrow> loading_ok lc \<Longrightarrow> loading_ok lc'"
  "monitors_child api n lc = Inr lc' \<Longrightarrow> loading_ok lc \<Longrightarrow> loading_ok lc'"
  "layout_child api n lc = Inr lc' \<Longrightarrow> loading_ok lc \<Longrightarrow> loading_ok lc'"
  "input_child api n lc = Inr lc' \<Longrightarrow> loading_ok lc \<Longrightarrow> loading_ok lc'"
  by (auto simp: general_child_def monitors_child_def layout_child_def input_child_def Let_def bindE_Inr_iff
      intro: reading_steps dest!: when_given_Inr parsed_u32(3,4) split: if_splits option.splits)

lemma action_child_ok:
  "action_child api n a = Inr a' \<Longrightarrow> pred_option width_ok (wa_width_semantics a) \<Longrightarrow>
   pred_option width_ok (wa_width_semantics a')"
  by (auto simp: action_child_def Let_def bindE_Inr_iff dest: width_node_ok dest!: when_given_Inr
      split: if_splits)

lemma parse_rule_actions_ok:
  "parse_rule_actions api n a = Inr a' \<Longrightarrow> pred_option width_ok (wa_width_semantics a) \<Longrightarrow>
   pred_option width_ok (wa_width_semantics a')"
  unfolding parse_rule_actions_def by (erule fold_res_invariant) (auto intro: action_child_ok)

lemma rule_child_ok: "rule_child api n r = Inr r' \<Longrightarrow> rule_ok r \<Longrightarrow> rule_ok r'"
  by (auto simp: rule_child_def Let_def bindE_Inr_iff rule_ok_def upd_matchers_def i32_try_from_def
      dest: parse_rule_actions_ok dest!: when_given_Inr split: if_splits)

lemma rules_child_ok: "rules_child api n lc = Inr lc' \<Longrightarrow> loading_ok lc \<Longrightarrow> loading_ok lc'"
  by (auto simp: rules_child_def bindE_Inr_iff intro!: loading_ok_upd
      elim: fold_res_invariant [where P = rule_ok] intro: rule_ok_new rule_child_ok split: if_splits)

lemma document_node_ok: "document_node api n lc = Inr lc' \<Longrightarrow> loading_ok lc \<Longrightarrow> loading_ok lc'"
  by (auto simp: document_node_def Let_def split: if_splits
      elim!: fold_res_invariant [where P = loading_ok] intro: document_children_ok rules_child_ok)

lemma document_ok:
  assumes "parse_kdl_document api nodes path generation = Inr lc"
  shows "config_ok lc"
  using assms
  by (auto simp: parse_kdl_document_def bindE_Inr_iff intro!: finish_config_ok
      elim!: fold_res_invariant [where P = loading_ok] intro: empty_loaded_ok document_node_ok)

lemma load_from_path_ok: "load_from_path api kdl_parse read path generation = Inr lc \<Longrightarrow> config_ok lc"
  by (auto simp: load_from_path_def bindE_Inr_iff split: option.splits intro: document_ok like_source_ok)


text \<open>
  C29: whatever a configuration is loaded from - a document the KDL parser accepts, a text only the
  line reader understands, or no file at all - the result is sound: rules in order of priority and
  id, the active count that of the enabled rules, bindings trimmed, not empty and pairwise distinct
  up to case, and every number in the range of its machine type.
\<close>

theorem loaded_config_is_sound:
  assumes "load_or_default api kdl_parse read path generation = Inr lc"
  shows "config_ok lc"
proof (cases "load_from_path api kdl_parse read path generation")
  case (Inl e)
  then have "lc = default_loaded_config generation path"
    using assms by (auto simp: load_or_default_def split: config_error.splits io_error.splits)
  then show ?thesis
    by (simp add: config_ok_def loading_ok_def default_loaded_config_def default_projection_ok)
       (simp add: initial_projection_def config_projection_default_def)
next
  case (Inr lc')
  then show ?thesis using assms load_from_path_ok by (auto simp: load_or_default_def)
qed

definition plain_api :: "(string \<times> kdl_value list) kdl_api" where
  "plain_api = \<lparr>kdl_name = fst, kdl_values = snd, kdl_children = (\<lambda>_. []), kdl_show = (\<lambda>_. [])\<rparr>"

theorem loaded_config_is_sound_witness:
  "config_ok (default_loaded_config 3 ''flowtile.kdl'')"
proof -
  have "load_or_default plain_api (\<lambda>_. None) (\<lambda>_. Inl (NotFound ''not found'')) ''flowtile.kdl'' 3 =
      Inr (default_loaded_config 3 ''flowtile.kdl'')"
    by (simp add: load_or_default_def load_from_path_def)
  then show ?thesis by (rule loaded_config_is_sound)
qed

section \<open>Classification\<close>

text \<open>
  What a decision should be, told field by field: the rules that apply are the enabled ones that
  match, and a field is what the last of them that mentions it says.
\<close>

definition applicable :: "window_rule_input \<Rightarrow> window_rule list \<Rightarrow> window_rule list" where
  "applicable w = filter (\<lambda>r. rule_enabled r \<and> rule_matches r w)"

definition settled_by :: "(window_rule_actions \<Rightarrow> 'a option) \<Rightarrow> window_rule list \<Rightarrow> 'a option" where
  "settled_by field rules = last_opt (List.map_filter (\<lambda>r. field (rule_actions r)) rules)"

definition choice :: "'a option \<Rightarrow> 'a \<Rightarrow> 'a" where
  "choice v d = (case v of None \<Rightarrow> d | Some x \<Rightarrow> x)"

definition decision_spec :: "window_rule list \<Rightarrow> window_rule_input \<Rightarrow> config_projection \<Rightarrow> window_rule_decision" where
  "decision_spec rules w cfg =
     (let rs = applicable w rules in
      \<lparr>wd_layer = choice (settled_by wa_layer rs) Tiled,
       wd_managed = choice (settled_by wa_managed rs) True,
       wd_column_mode = choice (settled_by wa_column_mode rs) (cfg_default_column_mode cfg),
       wd_width_semantics = choice (settled_by wa_width_semantics rs) (cfg_default_column_width cfg),
       wd_width_semantics_explicit = (settled_by wa_width_semantics rs \<noteq> None),
       wd_matched_rule_ids = map rule_id rs\<rparr>)"

lemma settled_snoc:
  "settled_by field (rs @ [r]) = (case field (rule_actions r) of None \<Rightarrow> settled_by field rs | Some x \<Rightarrow> Some x)"
  "settled_by field [] = None"
  by (auto simp: settled_by_def last_opt_def List.map_filter_def split: option.splits)

lemma applicable_snoc:
  "applicable w (rs @ [r]) = (if rule_enabled r \<and> rule_matches r w then applicable w rs @ [r] else applicable w rs)"
  "applicable w [] = []"
  by (simp_all add: applicable_def)

text \<open>
  C30: classifying a window gives every field the value of the last enabled rule that matches the
  window and mentions the field, the default of the configuration where there is none, and lists
  the rules that matched in their order.
\<close>

theorem classification_is_last_match:
  "classify_window rules w cfg = decision_spec rules w cfg"
proof (induction rules rule: rev_induct)
  case Nil
  show ?case
    by (simp add: classify_window_def decision_spec_def decision_from_projection_def applicable_snoc
        settled_snoc choice_def)
next
  case (snoc r rules)
  then have "fold (classify_step w) rules (decision_from_projection cfg) = decision_spec rules w cfg"
    by (simp add: classify_window_def)
  then show ?case
    by (simp add: classify_window_def classify_step_def decision_spec_def applicable_snoc settled_snoc
        choice_def Let_def split: option.split)
qed

end
