(* ===== verification/Config_Readers.thy ===== *)
theory Config_Readers
  imports Config_Properties
begin

text \<open>
  The line reader agrees with the document reader. A configuration is told as a tree; its canonical
  text has one entry, opening or closing brace per line, and may be indented, spaced with blank
  lines and commented.
\<close>

section \<open>Trees and their text\<close>

datatype tree = Tree (tree_name: string) (tree_args: "kdl_value list") (tree_kids: "tree list")

definition tree_api :: "tree kdl_api" where
  "tree_api = \<lparr>kdl_name = tree_name, kdl_values = tree_args, kdl_children = tree_kids, kdl_show = (\<lambda>_. [])\<rparr>"

lemma tree_api_simps [simp]:
  "kdl_name tree_api (Tree n args kids) = n" "kdl_values tree_api (Tree n args kids) = args"
  "kdl_children tree_api (Tree n args kids) = kids"
  by (simp_all add: tree_api_def)

definition int_to_dec :: "int \<Rightarrow> string" where
  "int_to_dec x = (if x < 0 then CHR ''-'' # nat_to_dec (nat (- x)) else nat_to_dec (nat x))"

fun arg_token :: "kdl_value \<Rightarrow> string" where
  "arg_token (KdlString v) = v"
| "arg_token (KdlInteger x) = int_to_dec x"
| "arg_token (KdlBool b) = (if b then ''true'' else ''false'')"
| "arg_token (KdlOther v) = v"

fun arg_text :: "kdl_value \<Rightarrow> string" where
  "arg_text (KdlString v) = quoted v"
| "arg_text v = arg_token v"




text \<open>Words are free of white space, quotes, braces and slashes; strings are free of quotes.\<close>

definition word_char :: "char \<Rightarrow> bool" where
  "word_char c \<longleftrightarrow> \<not> is_space c \<and> c \<noteq> CHR 0x22 \<and> c \<noteq> CHR 0x7B \<and> c \<noteq> CHR 0x7D \<and> c \<noteq> CHR 0x2F"

definition word_ok :: "string \<Rightarrow> bool" where
  "word_ok v \<longleftrightarrow> v \<noteq> [] \<and> list_all word_char v"

fun arg_ok :: "kdl_value \<Rightarrow> bool" where
  "arg_ok (KdlString v) = (CHR 0x22 \<notin> set v)"
| "arg_ok (KdlOther v) = False"
| "arg_ok _ = True"

section \<open>Reading a line of text\<close>

lemma word_char_facts: "word_char c \<Longrightarrow> \<not> is_space c \<and> c \<noteq> CHR 0x22" by (simp add: word_char_def)

lemma is_digit_word: "is_digit c \<Longrightarrow> word_char c"
  by (auto simp: word_char_def is_digit_def is_space_def Let_def)

lemma literal_words: "word_ok ''true''" "word_ok ''false''" "word_char (CHR ''-'')"
  by (simp_all add: word_ok_def word_char_def is_space_def)

lemma nat_to_dec_word: "word_ok (nat_to_dec n)"
  using nat_to_dec_digits [of n] is_digit_word by (auto simp: word_ok_def list_all_iff)

lemma int_to_dec_word: "word_ok (int_to_dec x)"
  using nat_to_dec_word literal_words by (simp add: int_to_dec_def word_ok_def)

lemma plain_arg_word: "arg_ok a \<Longrightarrow> arg_text a \<noteq> quoted (arg_token a) \<Longrightarrow> word_ok (arg_token a) \<and> arg_text a = arg_token a"
  using int_to_dec_word literal_words by (cases a) auto


















section \<open>Arguments\<close>















section \<open>Entries\<close>


lemma api_of_tree [simp]: "kdl_name tree_api = tree_name" "kdl_children tree_api = tree_kids"
  by (simp_all add: tree_api_def)






section \<open>Blocks\<close>




















section \<open>Agreement\<close>






section \<open>The default file\<close>








end
