(* ===== verification/Watch_Commands.thy ===== *)
theory Watch_Commands
  imports Rust_Text
begin

text \<open>
  \<open>apps/core-daemon/src/control.rs\<close>: the commands of the watch loop and the names they have in
  hotkeys and gestures, on standard input and in the IPC protocol.
\<close>

datatype watch_command =
    WatchFocusNext | WatchFocusPrev | WatchFocusWorkspaceUp | WatchFocusWorkspaceDown |
    WatchScrollLeft | WatchScrollRight | WatchMoveWorkspaceUp | WatchMoveWorkspaceDown |
    WatchMoveWorkspaceToMonitorNext | WatchMoveWorkspaceToMonitorPrevious |
    WatchMoveColumnToWorkspaceUp | WatchMoveColumnToWorkspaceDown | WatchCycleColumnWidth |
    WatchToggleFloating | WatchToggleTabbed | WatchToggleMaximized | WatchToggleFullscreen |
    WatchOpenOverview | WatchCloseOverview | WatchToggleOverview | WatchOpenTerminal |
    WatchOpenWallpaperSelector | WatchCloseWindow | WatchReloadConfig | WatchSnapshot |
    WatchUnwind | WatchRescan | WatchQuit

definition from_input_command :: "string \<Rightarrow> watch_command option" where
  "from_input_command v =
     (if v = ''focus-next'' then Some WatchFocusNext
      else if v = ''focus-prev'' then Some WatchFocusPrev
      else if v = ''focus-workspace-up'' then Some WatchFocusWorkspaceUp
      else if v = ''focus-workspace-down'' then Some WatchFocusWorkspaceDown
      else if v = ''scroll-strip-left'' then Some WatchScrollLeft
      else if v = ''scroll-strip-right'' then Some WatchScrollRight
      else if v = ''move-workspace-up'' then Some WatchMoveWorkspaceUp
      else if v = ''move-workspace-down'' then Some WatchMoveWorkspaceDown
      else if v = ''move-workspace-to-monitor-next'' then Some WatchMoveWorkspaceToMonitorNext
      else if v = ''move-workspace-to-monitor-previous'' then Some WatchMoveWorkspaceToMonitorPrevious
      else if v = ''move-column-to-workspace-up'' then Some WatchMoveColumnToWorkspaceUp
      else if v = ''move-column-to-workspace-down'' then Some WatchMoveColumnToWorkspaceDown
      else if v = ''cycle-column-width'' then Some WatchCycleColumnWidth
      else if v = ''toggle-floating'' then Some WatchToggleFloating
      else if v = ''toggle-tabbed'' then Some WatchToggleTabbed
      else if v = ''toggle-maximized'' then Some WatchToggleMaximized
      else if v = ''toggle-fullscreen'' then Some WatchToggleFullscreen
      else if v = ''open-overview'' then Some WatchOpenOverview
      else if v = ''close-overview'' then Some WatchCloseOverview
      else if v = ''toggle-overview'' then Some WatchToggleOverview
      else if v = ''open-terminal'' then Some WatchOpenTerminal
      else if v = ''open-wallpaper-selector'' then Some WatchOpenWallpaperSelector
      else if v = ''close-window'' then Some WatchCloseWindow
      else if v = ''reload-config'' then Some WatchReloadConfig
      else if v = ''disable-management-and-unwind'' then Some WatchUnwind
      else None)"

definition from_stdin_alias :: "string \<Rightarrow> watch_command option" where
  "from_stdin_alias v =
     (if v = ''focus-next'' \<or> v = ''next'' then Some WatchFocusNext
      else if v = ''focus-prev'' \<or> v = ''prev'' then Some WatchFocusPrev
      else if v = ''focus-workspace-up'' \<or> v = ''workspace-up'' then Some WatchFocusWorkspaceUp
      else if v = ''focus-workspace-down'' \<or> v = ''workspace-down'' then Some WatchFocusWorkspaceDown
      else if v = ''scroll-left'' \<or> v = ''left'' then Some WatchScrollLeft
      else if v = ''scroll-right'' \<or> v = ''right'' then Some WatchScrollRight
      else if v = ''move-workspace-up'' \<or> v = ''workspace-move-up'' then Some WatchMoveWorkspaceUp
      else if v = ''move-workspace-down'' \<or> v = ''workspace-move-down'' then Some WatchMoveWorkspaceDown
      else if v = ''move-workspace-to-monitor-next'' \<or> v = ''workspace-monitor-next'' then Some WatchMoveWorkspaceToMonitorNext
      else if v = ''move-workspace-to-monitor-previous'' \<or> v = ''workspace-monitor-prev'' then Some WatchMoveWorkspaceToMonitorPrevious
      else if v = ''move-column-to-workspace-up'' \<or> v = ''column-workspace-up'' then Some WatchMoveColumnToWorkspaceUp
      else if v = ''move-column-to-workspace-down'' \<or> v = ''column-workspace-down'' then Some WatchMoveColumnToWorkspaceDown
      else if v = ''cycle-column-width'' \<or> v = ''cycle-width'' \<or> v = ''width'' then Some WatchCycleColumnWidth
      else if v = ''toggle-floating'' \<or> v = ''floating'' then Some WatchToggleFloating
      else if v = ''toggle-tabbed'' \<or> v = ''tabbed'' then Some WatchToggleTabbed
      else if v = ''toggle-maximized'' \<or> v = ''maximized'' then Some WatchToggleMaximized
      else if v = ''toggle-fullscreen'' \<or> v = ''fullscreen'' then Some WatchToggleFullscreen
      else if v = ''open-overview'' \<or> v = ''overview-open'' then Some WatchOpenOverview
      else if v = ''close-overview'' \<or> v = ''overview-close'' then Some WatchCloseOverview
      else if v = ''toggle-overview'' \<or> v = ''overview'' then Some WatchToggleOverview
      else if v = ''open-terminal'' \<or> v = ''terminal'' then Some WatchOpenTerminal
      else if v = ''open-wallpaper-selector'' \<or> v = ''wallpaper'' \<or> v = ''wallpaper-selector'' then Some WatchOpenWallpaperSelector
      else if v = ''close-window'' \<or> v = ''window-close'' then Some WatchCloseWindow
      else if v = ''reload-config'' \<or> v = ''reload'' then Some WatchReloadConfig
      else if v = ''snapshot'' then Some WatchSnapshot
      else if v = ''unwind'' then Some WatchUnwind
      else if v = ''rescan'' then Some WatchRescan
      else if v = ''quit'' \<or> v = ''exit'' then Some WatchQuit
      else None)"

definition from_hotkey_command :: "string \<Rightarrow> watch_command option" where
  "from_hotkey_command v = from_input_command v"

fun as_hotkey_command_name :: "watch_command \<Rightarrow> string" where
  "as_hotkey_command_name WatchFocusNext = ''focus-next''"
| "as_hotkey_command_name WatchFocusPrev = ''focus-prev''"
| "as_hotkey_command_name WatchFocusWorkspaceUp = ''focus-workspace-up''"
| "as_hotkey_command_name WatchFocusWorkspaceDown = ''focus-workspace-down''"
| "as_hotkey_command_name WatchScrollLeft = ''scroll-strip-left''"
| "as_hotkey_command_name WatchScrollRight = ''scroll-strip-right''"
| "as_hotkey_command_name WatchMoveWorkspaceUp = ''move-workspace-up''"
| "as_hotkey_command_name WatchMoveWorkspaceDown = ''move-workspace-down''"
| "as_hotkey_command_name WatchMoveWorkspaceToMonitorNext = ''move-workspace-to-monitor-next''"
| "as_hotkey_command_name WatchMoveWorkspaceToMonitorPrevious = ''move-workspace-to-monitor-previous''"
| "as_hotkey_command_name WatchMoveColumnToWorkspaceUp = ''move-column-to-workspace-up''"
| "as_hotkey_command_name WatchMoveColumnToWorkspaceDown = ''move-column-to-workspace-down''"
| "as_hotkey_command_name WatchCycleColumnWidth = ''cycle-column-width''"
| "as_hotkey_command_name WatchToggleFloating = ''toggle-floating''"
| "as_hotkey_command_name WatchToggleTabbed = ''toggle-tabbed''"
| "as_hotkey_command_name WatchToggleMaximized = ''toggle-maximized''"
| "as_hotkey_command_name WatchToggleFullscreen = ''toggle-fullscreen''"
| "as_hotkey_command_name WatchOpenOverview = ''open-overview''"
| "as_hotkey_command_name WatchCloseOverview = ''close-overview''"
| "as_hotkey_command_name WatchToggleOverview = ''toggle-overview''"
| "as_hotkey_command_name WatchOpenTerminal = ''open-terminal''"
| "as_hotkey_command_name WatchOpenWallpaperSelector = ''open-wallpaper-selector''"
| "as_hotkey_command_name WatchCloseWindow = ''close-window''"
| "as_hotkey_command_name WatchReloadConfig = ''reload-config''"
| "as_hotkey_command_name WatchSnapshot = ''snapshot''"
| "as_hotkey_command_name WatchUnwind = ''disable-management-and-unwind''"
| "as_hotkey_command_name WatchRescan = ''rescan''"
| "as_hotkey_command_name WatchQuit = ''quit''"

fun as_ipc_command_name :: "watch_command \<Rightarrow> string option" where
  "as_ipc_command_name WatchFocusNext = Some ''focus_next''"
| "as_ipc_command_name WatchFocusPrev = Some ''focus_prev''"
| "as_ipc_command_name WatchFocusWorkspaceUp = Some ''focus_workspace_up''"
| "as_ipc_command_name WatchFocusWorkspaceDown = Some ''focus_workspace_down''"
| "as_ipc_command_name WatchScrollLeft = Some ''scroll_strip_left''"
| "as_ipc_command_name WatchScrollRight = Some ''scroll_strip_right''"
| "as_ipc_command_name WatchMoveWorkspaceUp = Some ''move_workspace_up''"
| "as_ipc_command_name WatchMoveWorkspaceDown = Some ''move_workspace_down''"
| "as_ipc_command_name WatchMoveWorkspaceToMonitorNext = Some ''move_workspace_to_monitor_next''"
| "as_ipc_command_name WatchMoveWorkspaceToMonitorPrevious = Some ''move_workspace_to_monitor_previous''"
| "as_ipc_command_name WatchMoveColumnToWorkspaceUp = Some ''move_column_to_workspace_up''"
| "as_ipc_command_name WatchMoveColumnToWorkspaceDown = Some ''move_column_to_workspace_down''"
| "as_ipc_command_name WatchCycleColumnWidth = Some ''cycle_column_width''"
| "as_ipc_command_name WatchToggleFloating = Some ''toggle_floating''"
| "as_ipc_command_name WatchToggleTabbed = Some ''toggle_tabbed''"
| "as_ipc_command_name WatchToggleMaximized = Some ''toggle_maximized''"
| "as_ipc_command_name WatchToggleFullscreen = Some ''toggle_fullscreen''"
| "as_ipc_command_name WatchOpenOverview = Some ''open_overview''"
| "as_ipc_command_name WatchCloseOverview = Some ''close_overview''"
| "as_ipc_command_name WatchToggleOverview = Some ''toggle_overview''"
| "as_ipc_command_name WatchReloadConfig = Some ''reload_config''"
| "as_ipc_command_name _ = None"

definition repeats_while_held :: "watch_command \<Rightarrow> bool" where
  "repeats_while_held c \<longleftrightarrow> c = WatchScrollLeft \<or> c = WatchScrollRight"

end
