(* ===== verification/Hotkey_Trigger.thy ===== *)
theory Hotkey_Trigger
  imports Watch_Commands Config_Model "HOL-Library.Word"
begin

unbundle bit_operations_syntax

text \<open>
  \<open>apps/core-daemon/src/hotkeys/trigger.rs\<close> and the registrations \<open>native.rs\<close> builds from the
  configured bindings. The modifier flags are those documented for \<open>RegisterHotKey\<close>.
\<close>

section \<open>Triggers\<close>

type_synonym modifiers = "32 word"

abbreviation (input) MOD_ALT :: modifiers where "MOD_ALT \<equiv> 1"
abbreviation (input) MOD_CONTROL :: modifiers where "MOD_CONTROL \<equiv> 2"
abbreviation (input) MOD_SHIFT :: modifiers where "MOD_SHIFT \<equiv> 4"
abbreviation (input) MOD_WIN :: modifiers where "MOD_WIN \<equiv> 8"
abbreviation (input) MOD_NOREPEAT :: modifiers where "MOD_NOREPEAT \<equiv> 0x4000"

record parsed_trigger =
  pt_register_modifiers :: modifiers
  pt_required_modifiers :: modifiers
  pt_key :: nat

definition ascii_upper :: "char \<Rightarrow> char" where
  "ascii_upper c = (let n = of_char c :: nat in if 97 \<le> n \<and> n \<le> 122 then char_of (n - 32) else c)"

definition to_ascii_uppercase :: "string \<Rightarrow> string" where
  "to_ascii_uppercase v = map ascii_upper v"

definition is_ascii_uppercase :: "char \<Rightarrow> bool" where
  "is_ascii_uppercase c \<longleftrightarrow> (let n = of_char c :: nat in 65 \<le> n \<and> n \<le> 90)"

text \<open>\<open>str::split\<close> with a character.\<close>

fun split_on :: "char \<Rightarrow> string \<Rightarrow> string list" where
  "split_on d [] = [[]]"
| "split_on d (c # cs) =
     (if c = d then [] # split_on d cs
      else case split_on d cs of [] \<Rightarrow> [[c]] | w # ws \<Rightarrow> (c # w) # ws)"

definition quote_token :: "string \<Rightarrow> string" where
  "quote_token v = CHR 0x27 # v @ [CHR 0x27]"

definition unsupported_key :: "string \<Rightarrow> string + nat" where
  "unsupported_key v = Inl (''unsupported hotkey key token '' @ quote_token v)"

definition named_key :: "string \<Rightarrow> nat option" where
  "named_key v =
     (if v = ''SPACE'' then Some 0x20
      else if v = ''TAB'' then Some 0x09
      else if v = ''ENTER'' then Some 0x0D
      else if v = ''ESC'' \<or> v = ''ESCAPE'' then Some 0x1B
      else if v = ''BACKSPACE'' then Some 0x08
      else if v = ''DELETE'' \<or> v = ''DEL'' then Some 0x2E
      else if v = ''HOME'' then Some 0x24
      else if v = ''END'' then Some 0x23
      else if v = ''PAGEUP'' \<or> v = ''PGUP'' then Some 0x21
      else if v = ''PAGEDOWN'' \<or> v = ''PGDN'' then Some 0x22
      else if v = ''LEFT'' then Some 0x25
      else if v = ''UP'' then Some 0x26
      else if v = ''RIGHT'' then Some 0x27
      else if v = ''DOWN'' then Some 0x28
      else None)"

definition resolve_virtual_key :: "string \<Rightarrow> string + nat" where
  "resolve_virtual_key key =
     (let normalized = to_ascii_uppercase (str_trim key) in
      if length normalized = 1 \<and> (is_ascii_uppercase (hd normalized) \<or> is_digit (hd normalized))
      then Inr (of_char (hd normalized))
      else case named_key normalized of
             Some vk \<Rightarrow> Inr vk
           | None \<Rightarrow>
               if first normalized = Some (CHR ''F'') then
                 (case parse_u32 (dropWhile (\<lambda>c. c = CHR ''F'') normalized) of
                    None \<Rightarrow> unsupported_key key
                  | Some n \<Rightarrow> if 1 \<le> n \<and> n \<le> 24 then Inr (0x70 + n - 1) else unsupported_key key)
               else unsupported_key key)"

definition trigger_step ::
    "string \<Rightarrow> string \<Rightarrow> modifiers \<times> string option \<Rightarrow> string + modifiers \<times> string option" where
  "trigger_step trigger tok = (\<lambda>(mods, key).
     let t = to_ascii_lowercase tok in
     if t = ''alt'' then Inr (mods OR MOD_ALT, key)
     else if t = ''ctrl'' \<or> t = ''control'' then Inr (mods OR MOD_CONTROL, key)
     else if t = ''shift'' then Inr (mods OR MOD_SHIFT, key)
     else if t = ''win'' \<or> t = ''windows'' then Inr (mods OR MOD_WIN, key)
     else if key \<noteq> None then
       Inl (''hotkey trigger '' @ quote_token trigger @ '' contains more than one non-modifier token'')
     else Inr (mods, Some tok))"

definition parse_trigger :: "string \<Rightarrow> string + parsed_trigger" where
  "parse_trigger trigger =
     (let tokens = filter (\<lambda>t. t \<noteq> []) (map str_trim (split_on (CHR ''+'') trigger)) in
      if tokens = [] then Inl ''empty hotkey trigger''
      else bindE (fold_res (trigger_step trigger) tokens (0, None)) (\<lambda>(mods, key).
           bindE (ok_or key (''hotkey trigger '' @ quote_token trigger @ '' does not contain a key'')) (\<lambda>k.
           bindE (resolve_virtual_key k) (\<lambda>vk.
             Inr \<lparr>pt_register_modifiers = mods OR MOD_NOREPEAT, pt_required_modifiers = mods, pt_key = vk\<rparr>))))"

section \<open>Registrations\<close>

record hotkey_registration =
  hr_trigger :: string
  hr_command :: watch_command
  hr_register_modifiers :: modifiers
  hr_required_modifiers :: modifiers
  hr_key :: nat

text \<open>\<open>spawn_native\<close> drops bindings with an unknown command or a trigger that does not parse.\<close>

definition hotkey_registrations :: "hotkey_binding list \<Rightarrow> hotkey_registration list" where
  "hotkey_registrations bindings =
     List.map_filter (\<lambda>b.
       Option.bind (from_hotkey_command (hk_command b)) (\<lambda>command.
         case parse_trigger (hk_trigger b) of
           Inl _ \<Rightarrow> None
         | Inr p \<Rightarrow> Some \<lparr>hr_trigger = hk_trigger b, hr_command = command,
                        hr_register_modifiers = pt_register_modifiers p,
                        hr_required_modifiers = pt_required_modifiers p, hr_key = pt_key p\<rparr>)) bindings"

definition should_force_low_level_hook :: "hotkey_registration \<Rightarrow> bool" where
  "should_force_low_level_hook r \<longleftrightarrow> hr_required_modifiers r = MOD_WIN"

text \<open>
  How \<open>run_hotkey_thread\<close> splits the registrations: \<open>register\<close> is \<open>RegisterHotKey\<close>, and what it
  refuses goes to the low-level hook. Hotkey ids count from one.
\<close>

definition split_registration ::
    "(nat \<Rightarrow> hotkey_registration \<Rightarrow> bool) \<Rightarrow> nat \<times> hotkey_registration \<Rightarrow>
     (nat \<times> watch_command) list \<times> hotkey_registration list \<Rightarrow>
     (nat \<times> watch_command) list \<times> hotkey_registration list" where
  "split_registration register = (\<lambda>(index, r) (by_id, fallback).
     let hotkey_id = min (index + 1) 2147483647 in
     if should_force_low_level_hook r \<or> \<not> register hotkey_id r then (by_id, fallback @ [r])
     else (by_id @ [(hotkey_id, hr_command r)], fallback))"

definition split_registrations ::
    "(nat \<Rightarrow> hotkey_registration \<Rightarrow> bool) \<Rightarrow> hotkey_registration list \<Rightarrow>
     (nat \<times> watch_command) list \<times> hotkey_registration list" where
  "split_registrations register rs = fold (split_registration register) (enumerate 0 rs) ([], [])"

definition command_of_hotkey_id :: "(nat \<times> watch_command) list \<Rightarrow> nat \<Rightarrow> watch_command option" where
  "command_of_hotkey_id by_id i = find_map (\<lambda>(j, c). if j = i then Some c else None) by_id"

definition ensure_bind_control_mode_supported :: "bind_control_mode \<Rightarrow> string + unit" where
  "ensure_bind_control_mode_supported m =
     (if m = Coexistence then Inr ()
      else Inl (''bind control mode '' @ quote_token (bind_control_mode_as_str m) @
        '' is not supported by this build yet; only '' @ quote_token ''coexistence'' @ '' is available''))"

end
