(* ===== verification/Hotkey_Hook.thy ===== *)
theory Hotkey_Hook
  imports Hotkey_Trigger
begin

text \<open>
  \<open>apps/core-daemon/src/hotkeys/low_level.rs\<close>: the state machine behind the low-level keyboard
  hook. A key event changes the state and yields a decision: the command to run, whether the
  event is kept from the system, and keys to replay. The virtual key codes, messages and flags
  are the documented Win32 values.
\<close>

section \<open>Keys and messages\<close>

definition is_key_down_message :: "nat \<Rightarrow> bool" where
  "is_key_down_message m \<longleftrightarrow> m = 0x100 \<or> m = 0x104"

definition is_key_up_message :: "nat \<Rightarrow> bool" where
  "is_key_up_message m \<longleftrightarrow> m = 0x101 \<or> m = 0x105"

definition is_keyboard_message :: "nat \<Rightarrow> bool" where
  "is_keyboard_message m \<longleftrightarrow> m = 0x100 \<or> m = 0x101 \<or> m = 0x104 \<or> m = 0x105"

definition is_control_vk :: "nat \<Rightarrow> bool" where
  "is_control_vk vk \<longleftrightarrow> vk = 0x11 \<or> vk = 0xA2 \<or> vk = 0xA3"

definition is_alt_vk :: "nat \<Rightarrow> bool" where
  "is_alt_vk vk \<longleftrightarrow> vk = 0x12 \<or> vk = 0xA4 \<or> vk = 0xA5"

definition is_shift_vk :: "nat \<Rightarrow> bool" where
  "is_shift_vk vk \<longleftrightarrow> vk = 0x10 \<or> vk = 0xA0 \<or> vk = 0xA1"

definition is_win_vk :: "nat \<Rightarrow> bool" where
  "is_win_vk vk \<longleftrightarrow> vk = 0x5B \<or> vk = 0x5C"

definition is_pending_modifier_vk :: "nat \<Rightarrow> bool" where
  "is_pending_modifier_vk vk \<longleftrightarrow> is_shift_vk vk \<or> is_control_vk vk \<or> is_alt_vk vk"

definition is_start_menu_transfer_key :: "nat \<Rightarrow> bool" where
  "is_start_menu_transfer_key vk \<longleftrightarrow> vk = of_char (CHR ''S'')"

definition is_lock_workstation_key :: "nat \<Rightarrow> bool" where
  "is_lock_workstation_key vk \<longleftrightarrow> vk = of_char (CHR ''L'')"

definition is_shell_screenshot_overlay_chord :: "nat list \<Rightarrow> nat \<Rightarrow> bool" where
  "is_shell_screenshot_overlay_chord modifier_vks key_vk \<longleftrightarrow>
     is_start_menu_transfer_key key_vk \<and> modifier_vks \<noteq> [] \<and> list_all is_shift_vk modifier_vks"

definition active_modifier_mask :: "nat set \<Rightarrow> modifiers" where
  "active_modifier_mask pressed =
     (if \<exists>k \<in> pressed. is_control_vk k then MOD_CONTROL else 0) OR
     (if \<exists>k \<in> pressed. is_alt_vk k then MOD_ALT else 0) OR
     (if \<exists>k \<in> pressed. is_shift_vk k then MOD_SHIFT else 0) OR
     (if \<exists>k \<in> pressed. is_win_vk k then MOD_WIN else 0)"

definition pending_modifier_vks :: "nat set \<Rightarrow> nat \<Rightarrow> nat list" where
  "pending_modifier_vks pressed win_vk =
     sorted_list_of_set (Set.filter (\<lambda>k. k \<noteq> win_vk \<and> is_pending_modifier_vk k) pressed)"

section \<open>State and decisions\<close>

record active_trigger =
  at_command :: watch_command
  at_primary_key :: nat
  at_required_modifiers :: modifiers
  at_repeat_while_held :: bool

datatype replay_action =
    LockWorkstation
  | WinTap nat
  | ReplayWinChord nat "nat list" nat

record hook_decision =
  hd_command :: "watch_command option"
  hd_suppress :: bool
  hd_replay :: "replay_action option"

text \<open>\<open>pending_win_prefix\<close> holds the win key; \<open>SUPER_HELD\<close> is the flag other threads read.\<close>

record hook_state =
  hs_registrations :: "hotkey_registration list"
  hs_pressed :: "nat set"
  hs_active :: "active_trigger option"
  hs_pending_win :: "nat option"
  hs_suppressed_held :: "nat set"
  hs_suppressed_releases :: "nat set"
  hs_super_held :: bool

definition hook_state_new :: "hotkey_registration list \<Rightarrow> hook_state" where
  "hook_state_new rs =
     \<lparr>hs_registrations = rs, hs_pressed = {}, hs_active = None, hs_pending_win = None,
      hs_suppressed_held = {}, hs_suppressed_releases = {}, hs_super_held = False\<rparr>"

definition pass :: hook_decision where
  "pass = \<lparr>hd_command = None, hd_suppress = False, hd_replay = None\<rparr>"

definition swallow :: hook_decision where
  "swallow = \<lparr>hd_command = None, hd_suppress = True, hd_replay = None\<rparr>"

definition replay_keys :: "replay_action \<Rightarrow> hook_decision" where
  "replay_keys action = \<lparr>hd_command = None, hd_suppress = True, hd_replay = Some action\<rparr>"

definition run_command :: "watch_command \<Rightarrow> hook_decision" where
  "run_command c = \<lparr>hd_command = Some c, hd_suppress = True, hd_replay = None\<rparr>"

definition hook_reset :: "hook_state \<Rightarrow> hook_state" where
  "hook_reset st =
     st\<lparr>hs_pressed := {}, hs_active := None, hs_pending_win := None, hs_suppressed_held := {},
        hs_suppressed_releases := {}, hs_super_held := False\<rparr>"

definition repeat_command_while_held :: "hook_state \<Rightarrow> watch_command option" where
  "repeat_command_while_held st =
     Option.bind (hs_active st) (\<lambda>a. if at_repeat_while_held a then Some (at_command a) else None)"

definition has_pure_win_bindings :: "hook_state \<Rightarrow> bool" where
  "has_pure_win_bindings st \<longleftrightarrow> list_ex (\<lambda>r. hr_required_modifiers r = MOD_WIN) (hs_registrations st)"

definition find_registration :: "hook_state \<Rightarrow> nat \<Rightarrow> modifiers \<Rightarrow> hotkey_registration option" where
  "find_registration st key mods =
     find (\<lambda>r. hr_required_modifiers r = mods \<and> hr_key r = key) (hs_registrations st)"

definition suppress_pending_modifier_releases :: "nat \<Rightarrow> hook_state \<Rightarrow> hook_state" where
  "suppress_pending_modifier_releases win_vk st =
     st\<lparr>hs_suppressed_releases :=
         insert win_vk (hs_suppressed_releases st) \<union>
         Set.filter (\<lambda>k. k \<noteq> win_vk \<and> is_pending_modifier_vk k) (hs_pressed st)\<rparr>"

definition trigger_of :: "nat \<Rightarrow> hotkey_registration \<Rightarrow> active_trigger" where
  "trigger_of vk r =
     \<lparr>at_command = hr_command r, at_primary_key = vk,
      at_required_modifiers = hr_required_modifiers r,
      at_repeat_while_held = repeats_while_held (hr_command r)\<rparr>"

section \<open>Handling an event\<close>

definition handle_pending_win_key_down ::
    "nat \<Rightarrow> bool \<Rightarrow> hook_state \<Rightarrow> hook_decision option \<times> hook_state" where
  "handle_pending_win_key_down vk inserted st =
     (case hs_pending_win st of
        Some win_vk \<Rightarrow>
          if vk = win_vk \<or> is_win_vk vk then (Some swallow, st)
          else if is_pending_modifier_vk vk then (Some swallow, st)
          else
            let mods = active_modifier_mask (hs_pressed st) in
            (case find_registration st vk mods of
               Some r \<Rightarrow>
                 (Some (run_command (hr_command r)),
                  suppress_pending_modifier_releases win_vk
                    (st\<lparr>hs_pending_win := None, hs_active := Some (trigger_of vk r)\<rparr>))
             | None \<Rightarrow>
                 if mods = MOD_WIN \<and> is_start_menu_transfer_key vk then
                   (Some (replay_keys (WinTap win_vk)),
                    st\<lparr>hs_pending_win := None,
                       hs_suppressed_held := insert vk (hs_suppressed_held st),
                       hs_suppressed_releases := insert win_vk (insert vk (hs_suppressed_releases st))\<rparr>)
                 else if mods = MOD_WIN \<and> is_lock_workstation_key vk then
                   (Some (replay_keys LockWorkstation), hook_reset st)
                 else
                   (Some (replay_keys (ReplayWinChord win_vk (pending_modifier_vks (hs_pressed st) win_vk) vk)),
                    suppress_pending_modifier_releases win_vk
                      (st\<lparr>hs_pending_win := None,
                          hs_suppressed_held := insert vk (hs_suppressed_held st),
                          hs_suppressed_releases := insert vk (hs_suppressed_releases st)\<rparr>)))
      | None \<Rightarrow>
          if inserted \<and> is_win_vk vk \<and> has_pure_win_bindings st
             \<and> active_modifier_mask (hs_pressed st) = MOD_WIN \<and> hs_active st = None
          then (Some swallow, st\<lparr>hs_pending_win := Some vk\<rparr>)
          else (None, st))"

definition handle_pending_win_key_up :: "nat \<Rightarrow> hook_state \<Rightarrow> hook_decision option \<times> hook_state" where
  "handle_pending_win_key_up vk st =
     (case hs_pending_win st of
        Some win_vk \<Rightarrow>
          if win_vk = vk then (Some swallow, st\<lparr>hs_pending_win := None\<rparr>)
          else if is_pending_modifier_vk vk then (Some swallow, st)
          else (None, st)
      | None \<Rightarrow> (None, st))"

definition key_down :: "nat \<Rightarrow> hook_state \<Rightarrow> hook_decision \<times> hook_state" where
  "key_down vk st0 =
     (let inserted = (vk \<notin> hs_pressed st0);
          st1 = st0\<lparr>hs_pressed := insert vk (hs_pressed st0)\<rparr>
      in case handle_pending_win_key_down vk inserted st1 of
           (Some d, st) \<Rightarrow> (d, st)
         | (None, st) \<Rightarrow>
             if \<not> inserted \<and> vk \<in> hs_suppressed_held st then (swallow, st)
             else if map_option at_primary_key (hs_active st) = Some vk then (swallow, st)
             else if inserted then
               (case find (\<lambda>r. hr_key r = vk \<and> hr_required_modifiers r = active_modifier_mask (hs_pressed st))
                       (hs_registrations st) of
                  Some r \<Rightarrow> (run_command (hr_command r), st\<lparr>hs_active := Some (trigger_of vk r)\<rparr>)
                | None \<Rightarrow> (pass, st))
             else (pass, st))"

text \<open>
  The key-up branch forgets a held or suppressed key through a chain of short-circuit tests: a
  set is only cleaned when the tests before it failed.
\<close>

definition suppress_release :: "nat \<Rightarrow> hook_state \<Rightarrow> bool \<times> hook_state" where
  "suppress_release vk st =
     (if map_option at_primary_key (hs_active st) = Some vk then (True, st)
      else if vk \<in> hs_suppressed_held st
      then (True, st\<lparr>hs_suppressed_held := hs_suppressed_held st - {vk}\<rparr>)
      else if vk \<in> hs_suppressed_releases st
      then (True, st\<lparr>hs_suppressed_releases := hs_suppressed_releases st - {vk}\<rparr>)
      else (False, st))"

definition trigger_released :: "nat set \<Rightarrow> active_trigger \<Rightarrow> bool" where
  "trigger_released pressed a \<longleftrightarrow>
     at_primary_key a \<notin> pressed \<or>
     active_modifier_mask pressed AND at_required_modifiers a \<noteq> at_required_modifiers a"

definition release_trigger :: "hook_state \<Rightarrow> hook_state" where
  "release_trigger st =
     (case hs_active st of
        Some a \<Rightarrow> if trigger_released (hs_pressed st) a then st\<lparr>hs_active := None\<rparr> else st
      | None \<Rightarrow> st)"

definition key_up :: "nat \<Rightarrow> hook_state \<Rightarrow> hook_decision \<times> hook_state" where
  "key_up vk st0 =
     (let (pending, st1) = handle_pending_win_key_up vk st0;
          (suppress, st2) = suppress_release vk st1;
          st3 = release_trigger (st2\<lparr>hs_pressed := hs_pressed st2 - {vk}\<rparr>)
      in case pending of
           Some d \<Rightarrow> (d\<lparr>hd_suppress := hd_suppress d \<or> suppress\<rparr>, st3)
         | None \<Rightarrow> (\<lparr>hd_command = None, hd_suppress = suppress, hd_replay = None\<rparr>, st3))"

definition note_super :: "nat \<Rightarrow> nat \<Rightarrow> hook_state \<Rightarrow> hook_state" where
  "note_super vk message st =
     (if is_win_vk vk then
        (if is_key_down_message message then st\<lparr>hs_super_held := True\<rparr>
         else if is_key_up_message message then st\<lparr>hs_super_held := False\<rparr>
         else st)
      else st)"

definition handle_key_event :: "nat \<Rightarrow> nat \<Rightarrow> bool \<Rightarrow> hook_state \<Rightarrow> hook_decision \<times> hook_state" where
  "handle_key_event vk message injected st =
     (if injected \<or> \<not> is_keyboard_message message then (pass, st)
      else
        let st1 = note_super vk message st in
        if is_key_down_message message then key_down vk st1
        else if is_key_up_message message then key_up vk st1
        else (pass, st1))"

section \<open>Replaying and repeating\<close>

text \<open>The virtual keys a replay sends, each with whether it is released.\<close>

fun replay_events :: "replay_action \<Rightarrow> (nat \<times> bool) list" where
  "replay_events LockWorkstation = []"
| "replay_events (WinTap win_vk) = [(win_vk, False), (win_vk, True)]"
| "replay_events (ReplayWinChord win_vk modifier_vks key_vk) =
     (win_vk, False) # map (\<lambda>vk. (vk, False)) modifier_vks @ [(key_vk, False), (key_vk, True)] @
     map (\<lambda>vk. (vk, True)) (rev modifier_vks) @ [(win_vk, True)]"

fun replay_action_needs_shell_screenshot_escape :: "replay_action \<Rightarrow> bool" where
  "replay_action_needs_shell_screenshot_escape LockWorkstation = False"
| "replay_action_needs_shell_screenshot_escape (WinTap _) = False"
| "replay_action_needs_shell_screenshot_escape (ReplayWinChord _ modifier_vks key_vk) =
     is_shell_screenshot_overlay_chord modifier_vks key_vk"

text \<open>\<open>sync_repeat_loop\<close>: whether the running loop is stopped, and the loop that runs afterwards.\<close>

definition sync_repeat_loop :: "watch_command option \<Rightarrow> watch_command option \<Rightarrow> bool \<times> watch_command option" where
  "sync_repeat_loop active command =
     (if active \<noteq> None \<and> active = command then (False, active) else (active \<noteq> None, command))"

text \<open>The runtime around the state machine: the decision, whether the overview is lowered, the keys sent.\<close>

record hook_runtime =
  hr_state :: hook_state
  hr_repeat_loop :: "watch_command option"

definition runtime_key_event ::
    "nat \<Rightarrow> nat \<Rightarrow> bool \<Rightarrow> hook_runtime \<Rightarrow> (hook_decision \<times> bool \<times> (nat \<times> bool) list) \<times> hook_runtime" where
  "runtime_key_event vk message injected rt =
     (let (d, st) = handle_key_event vk message injected (hr_state rt);
          (_, loop) = sync_repeat_loop (hr_repeat_loop rt) (repeat_command_while_held st)
      in (case hd_replay d of
            None \<Rightarrow> (d, False, [])
          | Some action \<Rightarrow> (d, replay_action_needs_shell_screenshot_escape action, replay_events action),
          \<lparr>hr_state = st, hr_repeat_loop = loop\<rparr>))"

end
