(* ===== verification/Hotkey_Properties.thy ===== *)
theory Hotkey_Properties
  imports Hotkey_Hook
begin

text \<open>What the keyboard hook and the command names keep.\<close>

section \<open>Modifier masks\<close>

lemma mask_of_bools:
  "active_modifier_mask p =
     (if c then MOD_CONTROL else 0) OR (if a then MOD_ALT else 0) OR (if s then MOD_SHIFT else 0) OR
     (if w then MOD_WIN else 0)"
  if "c = (\<exists>k \<in> p. is_control_vk k)" "a = (\<exists>k \<in> p. is_alt_vk k)" "s = (\<exists>k \<in> p. is_shift_vk k)"
    "w = (\<exists>k \<in> p. is_win_vk k)"
  using that by (simp add: active_modifier_mask_def)

lemma mask_mono:
  assumes "p \<subseteq> q"
  shows "active_modifier_mask p AND active_modifier_mask q = active_modifier_mask p"
proof -
  have sub: "(\<exists>k \<in> p. P k) \<Longrightarrow> (\<exists>k \<in> q. P k)" for P using assms by blast
  show ?thesis
    unfolding active_modifier_mask_def
    using sub [of is_control_vk] sub [of is_alt_vk] sub [of is_shift_vk] sub [of is_win_vk]
    by (cases "\<exists>k \<in> p. is_control_vk k"; cases "\<exists>k \<in> p. is_alt_vk k"; cases "\<exists>k \<in> p. is_shift_vk k";
        cases "\<exists>k \<in> p. is_win_vk k"; simp only: if_True if_False simp_thms; simp)
qed

lemma mask_keeps_required:
  assumes "p \<subseteq> q" "active_modifier_mask p AND r = r"
  shows "active_modifier_mask q AND r = r"
  by (metis assms mask_mono and.assoc and.commute)

section \<open>The invariant of the hook\<close>

definition held :: "hotkey_registration list \<Rightarrow> nat set \<Rightarrow> active_trigger \<Rightarrow> bool" where
  "held rs pressed a \<longleftrightarrow>
     at_primary_key a \<in> pressed \<and> active_modifier_mask pressed AND at_required_modifiers a = at_required_modifiers a \<and>
     (\<exists>r \<in> set rs. a = trigger_of (hr_key r) r)"

definition hook_ok :: "hotkey_registration list \<Rightarrow> hook_state \<Rightarrow> bool" where
  "hook_ok rs st \<longleftrightarrow>
     hs_registrations st = rs \<and>
     pred_option (\<lambda>w. w \<in> hs_pressed st \<and> is_win_vk w \<and> hs_active st = None) (hs_pending_win st) \<and>
     pred_option (held rs (hs_pressed st)) (hs_active st)"

lemma held_press: "held rs p a \<Longrightarrow> held rs (insert k p) a"
  using mask_keeps_required [of p "insert k p"] by (auto simp: held_def)

lemma hook_ok_new: "hook_ok rs (hook_state_new rs)"
  by (simp add: hook_ok_def hook_state_new_def)

lemma hook_ok_super: "hook_ok rs st \<Longrightarrow> hook_ok rs (note_super vk m st)"
  by (simp add: hook_ok_def note_super_def)

lemma hook_ok_reset: "hs_registrations st = rs \<Longrightarrow> hook_ok rs (hook_reset st)"
  by (simp add: hook_ok_def hook_reset_def)

lemma suppress_pending_fields [simp]:
  "hs_registrations (suppress_pending_modifier_releases w st) = hs_registrations st"
  "hs_pressed (suppress_pending_modifier_releases w st) = hs_pressed st"
  "hs_active (suppress_pending_modifier_releases w st) = hs_active st"
  "hs_pending_win (suppress_pending_modifier_releases w st) = hs_pending_win st"
  by (simp_all add: suppress_pending_modifier_releases_def)

lemma find_registration_held:
  assumes "find_registration st vk (active_modifier_mask (hs_pressed st)) = Some r" "vk \<in> hs_pressed st"
  shows "held (hs_registrations st) (hs_pressed st) (trigger_of vk r)"
  using assms
  by (auto simp: find_registration_def find_Some_iff held_def trigger_of_def intro!: bexI [of _ r])

lemma find_key_is_find_registration:
  "find (\<lambda>r. hr_key r = vk \<and> hr_required_modifiers r = active_modifier_mask (hs_pressed st)) (hs_registrations st) =
   find_registration st vk (active_modifier_mask (hs_pressed st))"
  by (simp add: find_registration_def conj_commute)

lemma pending_down_ok:
  assumes "hook_ok rs st" "vk \<in> hs_pressed st"
  shows "hook_ok rs (snd (handle_pending_win_key_down vk inserted st))"
proof (cases "hs_pending_win st")
  case None
  then show ?thesis using assms by (simp add: handle_pending_win_key_down_def hook_ok_def)
next
  case (Some w)
  let ?mods = "active_modifier_mask (hs_pressed st)"
  have rs: "hs_registrations st = rs" "hs_active st = None" using assms(1) Some by (simp_all add: hook_ok_def)
  show ?thesis
  proof (cases "find_registration st vk ?mods")
    case None
    then show ?thesis
      using Some assms rs by (simp add: handle_pending_win_key_down_def hook_ok_reset Let_def) (simp add: hook_ok_def)
  next
    case r: (Some r)
    show ?thesis
      using Some assms rs find_registration_held [OF r assms(2)] r
      by (simp add: handle_pending_win_key_down_def Let_def) (simp add: hook_ok_def)
  qed
qed

lemma press_ok: "hook_ok rs st \<Longrightarrow> hook_ok rs (st\<lparr>hs_pressed := insert k (hs_pressed st)\<rparr>)"
  by (auto simp: hook_ok_def held_press split: option.split intro: option.pred_mono_strong)

lemma pending_down_keeps:
  "handle_pending_win_key_down vk inserted st = (None, st') \<Longrightarrow> st' = st"
  by (auto simp: handle_pending_win_key_down_def Let_def split: option.splits if_splits)

lemma pending_down_none:
  "handle_pending_win_key_down vk inserted st = (None, st') \<Longrightarrow> hs_pending_win st = None"
  by (auto simp: handle_pending_win_key_down_def Let_def split: option.splits if_splits)

lemma key_down_ok:
  assumes "hook_ok rs st"
  shows "hook_ok rs (snd (key_down vk st))"
proof -
  let ?st = "st\<lparr>hs_pressed := insert vk (hs_pressed st)\<rparr>"
  obtain d st' where h: "handle_pending_win_key_down vk (vk \<notin> hs_pressed st) ?st = (d, st')" by fastforce
  have ok: "hook_ok rs ?st" "hook_ok rs st'"
    using press_ok [OF assms] pending_down_ok [OF press_ok [OF assms], of vk vk "vk \<notin> hs_pressed st"] h by simp_all
  show ?thesis
  proof (cases d)
    case None
    then have "st' = ?st" "hs_pending_win ?st = None" using h pending_down_keeps pending_down_none by blast+
    moreover have "held rs (hs_pressed ?st) (trigger_of vk r)"
      if "find_registration ?st vk (active_modifier_mask (hs_pressed ?st)) = Some r" for r
      using find_registration_held [OF that] ok(1) by (simp add: hook_ok_def)
    ultimately show ?thesis
      using h None ok find_key_is_find_registration [of vk ?st]
      by (auto simp: key_down_def Let_def hook_ok_def split: option.split)
  qed (use h ok in \<open>simp add: key_down_def\<close>)
qed

lemma key_up_ok:
  assumes "hook_ok rs st"
  shows "hook_ok rs (snd (key_up vk st))"
proof -
  obtain d st1 where h: "handle_pending_win_key_up vk st = (d, st1)" by fastforce
  obtain b st2 where s: "suppress_release vk st1 = (b, st2)" by fastforce
  let ?st = "st2\<lparr>hs_pressed := hs_pressed st2 - {vk}\<rparr>"
  have fields: "hs_registrations st2 = rs" "hs_active st2 = hs_active st" "hs_pressed st2 = hs_pressed st"
    "hs_pending_win st2 = (if hs_pending_win st = Some vk then None else hs_pending_win st)"
    using h s assms
    by (auto simp: handle_pending_win_key_up_def suppress_release_def hook_ok_def split: option.splits if_splits)
  have "hook_ok rs (release_trigger ?st)"
    using assms fields
    by (cases "hs_pending_win st"; cases "hs_active st")
      (auto simp: hook_ok_def release_trigger_def trigger_released_def held_def)
  then show ?thesis using h s by (simp add: key_up_def Let_def split: option.split)
qed

lemma handle_key_event_ok: "hook_ok rs st \<Longrightarrow> hook_ok rs (snd (handle_key_event vk m injected st))"
  by (simp add: handle_key_event_def Let_def key_down_ok key_up_ok hook_ok_super)

definition run_hook :: "hotkey_registration list \<Rightarrow> (nat \<times> nat \<times> bool) list \<Rightarrow> hook_state" where
  "run_hook rs es = fold (\<lambda>(vk, m, injected) st. snd (handle_key_event vk m injected st)) es (hook_state_new rs)"

lemma run_hook_snoc: "run_hook rs (es @ [(vk, m, injected)]) = snd (handle_key_event vk m injected (run_hook rs es))"
  by (simp add: run_hook_def)

text \<open>
  C33: after any sequence of key events, genuine or injected, a trigger that is still active belongs
  to a registration whose key and modifiers are all held, and a captured win key is held, is the
  only thing the hook waits for and no trigger is active beside it; with no key held nothing is
  active.
\<close>

theorem hook_tracks_held_keys:
  "hook_ok rs (run_hook rs es) \<and>
   (hs_pressed (run_hook rs es) \<noteq> {} \<or>
    hs_active (run_hook rs es) = None \<and> hs_pending_win (run_hook rs es) = None)"
proof -
  have ok: "hook_ok rs (run_hook rs es)"
  proof (induction es rule: rev_induct)
    case (snoc e es)
    then show ?case by (cases e) (simp add: run_hook_snoc handle_key_event_ok)
  qed (simp add: run_hook_def hook_ok_new)
  then show ?thesis
    by (cases "hs_active (run_hook rs es)"; cases "hs_pending_win (run_hook rs es)")
      (auto simp: hook_ok_def held_def)
qed

section \<open>When a command runs\<close>

definition fires :: "nat \<Rightarrow> nat \<Rightarrow> hook_state \<Rightarrow> watch_command option" where
  "fires vk m st = hd_command (fst (handle_key_event vk m False st))"





lemma note_super_fields [simp]:
  "hs_registrations (note_super vk m st) = hs_registrations st" "hs_pressed (note_super vk m st) = hs_pressed st"
  "hs_active (note_super vk m st) = hs_active st" "hs_pending_win (note_super vk m st) = hs_pending_win st"
  by (simp_all add: note_super_def)


definition next_key :: hotkey_registration where
  "next_key = \<lparr>hr_trigger = ''Win+K'', hr_command = WatchFocusNext, hr_register_modifiers = 0x4008,
     hr_required_modifiers = 8, hr_key = 0x4B\<rparr>"

lemmas run_keys = handle_key_event_def key_down_def key_up_def handle_pending_win_key_down_def
  handle_pending_win_key_up_def suppress_release_def release_trigger_def trigger_released_def note_super_def
  is_key_down_message_def is_key_up_message_def is_keyboard_message_def is_win_vk_def is_control_vk_def
  is_alt_vk_def is_shift_vk_def is_pending_modifier_vk_def is_start_menu_transfer_key_def
  is_lock_workstation_key_def active_modifier_mask_def find_registration_def has_pure_win_bindings_def
  suppress_pending_modifier_releases_def trigger_of_def hook_state_new_def hook_reset_def pass_def swallow_def
  replay_keys_def run_command_def pending_modifier_vks_def next_key_def run_hook_def Let_def

theorem hook_tracks_held_keys_witness:
  "hs_pressed (run_hook [next_key] [(0x5B, 0x100, False), (0x5B, 0x101, False)]) = {} \<and>
   hs_active (run_hook [next_key] [(0x5B, 0x100, False), (0x5B, 0x101, False)]) = None"
proof -
  have "hs_pressed (run_hook [next_key] [(0x5B, 0x100, False), (0x5B, 0x101, False)]) = {}"
    by (auto simp: run_keys)
  then show ?thesis
    using hook_tracks_held_keys [of "[next_key]" "[(0x5B, 0x100, False), (0x5B, 0x101, False)]"] by blast
qed



section \<open>Names of commands\<close>

text \<open>
  Every command a user can bind is read back from the name it is printed with; the default
  bindings all parse and name known commands, with pairwise different triggers.
\<close>

theorem command_names_round_trip:
  "from_hotkey_command (as_hotkey_command_name c) =
     (if c \<in> {WatchSnapshot, WatchRescan, WatchQuit} then None else Some c) \<and>
   length (hotkey_registrations default_hotkeys) = length default_hotkey_bindings \<and>
   distinct (map (\<lambda>r. (hr_required_modifiers r, hr_key r)) (hotkey_registrations default_hotkeys))"
proof (intro conjI)
  show "from_hotkey_command (as_hotkey_command_name c) =
      (if c \<in> {WatchSnapshot, WatchRescan, WatchQuit} then None else Some c)"
    by (cases c) (simp_all add: from_hotkey_command_def from_input_command_def)
  have "length (hotkey_registrations default_hotkeys) = length default_hotkey_bindings \<and>
      distinct (map (\<lambda>r. (hr_required_modifiers r, hr_key r)) (hotkey_registrations default_hotkeys))"
    by code_simp
  then show "length (hotkey_registrations default_hotkeys) = length default_hotkey_bindings"
    "distinct (map (\<lambda>r. (hr_required_modifiers r, hr_key r)) (hotkey_registrations default_hotkeys))"
    by simp_all
qed

end
