(* ===== verification/Touchpad.thy ===== *)
theory Touchpad
  imports Watch_Commands Config_Model Machine_Int Ord_Map "HOL-Library.Signed_Division"
begin

unbundle bit_operations_syntax

text \<open>
  \<open>apps/core-daemon/src/touchpad\<close>: gesture bindings (\<open>bindings.rs\<close>), the assessment of the
  configured override (\<open>assessment.rs\<close>), and the recogniser that turns raw reports into frames,
  frames into strokes and strokes into gestures (\<open>recognizer.rs\<close>).
\<close>

section \<open>Gestures and their bindings\<close>

datatype touchpad_gesture =
    ThreeFingerSwipeLeft | ThreeFingerSwipeRight | ThreeFingerSwipeUp | ThreeFingerSwipeDown
  | FourFingerSwipeLeft | FourFingerSwipeRight | FourFingerSwipeUp | FourFingerSwipeDown

fun gesture_name :: "touchpad_gesture \<Rightarrow> string" where
  "gesture_name ThreeFingerSwipeLeft = ''three-finger-swipe-left''"
| "gesture_name ThreeFingerSwipeRight = ''three-finger-swipe-right''"
| "gesture_name ThreeFingerSwipeUp = ''three-finger-swipe-up''"
| "gesture_name ThreeFingerSwipeDown = ''three-finger-swipe-down''"
| "gesture_name FourFingerSwipeLeft = ''four-finger-swipe-left''"
| "gesture_name FourFingerSwipeRight = ''four-finger-swipe-right''"
| "gesture_name FourFingerSwipeUp = ''four-finger-swipe-up''"
| "gesture_name FourFingerSwipeDown = ''four-finger-swipe-down''"

text \<open>The only error of the listener is \<open>Startup\<close> with its message.\<close>

datatype touchpad_error = TouchpadStartup string

definition in_quotes :: "string \<Rightarrow> string" where
  "in_quotes v = CHR 0x27 # v @ [CHR 0x27]"

definition gesture_parse :: "string \<Rightarrow> touchpad_error + touchpad_gesture" where
  "gesture_parse v =
     (if v = ''three-finger-swipe-left'' then Inr ThreeFingerSwipeLeft
      else if v = ''three-finger-swipe-right'' then Inr ThreeFingerSwipeRight
      else if v = ''three-finger-swipe-up'' then Inr ThreeFingerSwipeUp
      else if v = ''three-finger-swipe-down'' then Inr ThreeFingerSwipeDown
      else if v = ''four-finger-swipe-left'' then Inr FourFingerSwipeLeft
      else if v = ''four-finger-swipe-right'' then Inr FourFingerSwipeRight
      else if v = ''four-finger-swipe-up'' then Inr FourFingerSwipeUp
      else if v = ''four-finger-swipe-down'' then Inr FourFingerSwipeDown
      else Inl (TouchpadStartup (''unsupported touchpad gesture '' @ in_quotes v)))"

type_synonym touchpad_bindings = "touchpad_gesture \<Rightarrow> watch_command option"

definition normalize_binding ::
    "touchpad_gesture_binding \<Rightarrow> touchpad_error + touchpad_gesture \<times> watch_command" where
  "normalize_binding b =
     bindE (gesture_parse (tg_gesture b)) (\<lambda>gesture.
     bindE (ok_or (from_input_command (tg_command b))
              (TouchpadStartup (''touchpad gesture '' @ in_quotes (tg_gesture b) @
                '' uses unsupported command '' @ in_quotes (tg_command b)))) (\<lambda>command.
       Inr (gesture, command)))"

definition bindings_from_config :: "touchpad_config \<Rightarrow> touchpad_error + touchpad_bindings" where
  "bindings_from_config cfg =
     fold_res (\<lambda>b m. bindE (normalize_binding b) (\<lambda>(gesture, command). Inr (m(gesture \<mapsto> command))))
       (tp_gestures cfg) Map.empty"

definition all_gestures :: "touchpad_gesture list" where
  "all_gestures =
     [ThreeFingerSwipeLeft, ThreeFingerSwipeRight, ThreeFingerSwipeUp, ThreeFingerSwipeDown,
      FourFingerSwipeLeft, FourFingerSwipeRight, FourFingerSwipeUp, FourFingerSwipeDown]"

definition bindings_len :: "touchpad_bindings \<Rightarrow> nat" where
  "bindings_len m = length (filter (\<lambda>g. m g \<noteq> None) all_gestures)"

definition ipc_command_for_touchpad_gesture ::
    "touchpad_config \<Rightarrow> string \<Rightarrow> touchpad_error + string option" where
  "ipc_command_for_touchpad_gesture cfg v =
     bindE (bindings_from_config cfg) (\<lambda>bindings.
     bindE (gesture_parse v) (\<lambda>gesture.
       case bindings gesture of
         None \<Rightarrow> Inr None
       | Some command \<Rightarrow>
           (case as_ipc_command_name command of
              Some name \<Rightarrow> Inr (Some name)
            | None \<Rightarrow> Inl (TouchpadStartup (''touchpad gesture '' @ in_quotes (gesture_name gesture) @
                '' resolves to unsupported IPC command '' @ in_quotes (as_hotkey_command_name command))))))"

section \<open>Assessment of the override\<close>

datatype system_touch_setting = SettingDisabled | SettingEnabled | SettingUnknown string

record touchpad_assessment =
  ta_requested :: bool
  ta_configured_gesture_count :: nat
  ta_normalized_gesture_count :: nat
  ta_status :: string
  ta_detail :: "string option"

definition touchpad_settings_uri :: string where
  "touchpad_settings_uri = ''ms-settings:devices-touch''"

definition summary_label :: "string \<Rightarrow> string" where
  "summary_label status =
     (if status = ''disabled'' then ''disabled''
      else if status = ''ready'' then ''enabled''
      else if status = ''invalid-config'' then ''invalid-config''
      else if status = ''windows-touch-gestures-enabled'' then ''windows-setting-required''
      else if status = ''windows-touch-gesture-setting-unknown'' then ''windows-setting-unknown''
      else if status = ''touchpad-backend-unavailable'' then ''backend-unavailable''
      else status)"

definition assessed :: "nat \<Rightarrow> nat \<Rightarrow> string \<Rightarrow> string option \<Rightarrow> touchpad_assessment" where
  "assessed configured normalized status detail =
     \<lparr>ta_requested = True, ta_configured_gesture_count = configured,
      ta_normalized_gesture_count = normalized, ta_status = status, ta_detail = detail\<rparr>"

definition assess_touchpad_override_with_system_setting ::
    "touchpad_config \<Rightarrow> system_touch_setting \<Rightarrow> touchpad_assessment" where
  "assess_touchpad_override_with_system_setting cfg setting =
     (let configured = length (tp_gestures cfg) in
      if \<not> tp_override_enabled cfg then
        \<lparr>ta_requested = False, ta_configured_gesture_count = configured,
         ta_normalized_gesture_count = 0, ta_status = ''disabled'', ta_detail = None\<rparr>
      else if tp_gestures cfg = [] then
        assessed 0 0 ''invalid-config''
          (Some ''touchpad override is enabled but no touchpad gestures are configured'')
      else case bindings_from_config cfg of
             Inl (TouchpadStartup message) \<Rightarrow> assessed configured 0 ''invalid-config'' (Some message)
           | Inr bindings \<Rightarrow>
               if bindings_len bindings \<noteq> configured then
                 assessed configured (bindings_len bindings) ''invalid-config''
                   (Some ''touchpad gesture configuration contains duplicate gesture bindings'')
               else case setting of
                      SettingEnabled \<Rightarrow>
                        assessed configured (bindings_len bindings) ''windows-touch-gestures-enabled''
                          (Some (''Windows still owns three/four-finger touch gestures. Set Settings > Bluetooth & devices > Touch > Three- and four-finger touch gestures to Off and restart or reload the daemon ('' @ touchpad_settings_uri @ '')''))
                    | SettingUnknown message \<Rightarrow>
                        assessed configured (bindings_len bindings) ''windows-touch-gesture-setting-unknown''
                          (Some (''FlowtileWM could not verify the Windows touch gesture setting: '' @ message @ ''. Open '' @ touchpad_settings_uri @ '' and ensure Three- and four-finger touch gestures is Off''))
                    | SettingDisabled \<Rightarrow> assessed configured (bindings_len bindings) ''ready'' None)"

definition ensure_touchpad_override_supported ::
    "system_touch_setting \<Rightarrow> touchpad_config \<Rightarrow> touchpad_error + unit" where
  "ensure_touchpad_override_supported setting cfg =
     (let a = assess_touchpad_override_with_system_setting cfg setting in
      if ta_status a = ''invalid-config'' \<or> ta_status a = ''windows-touch-gestures-enabled''
         \<or> ta_status a = ''windows-touch-gesture-setting-unknown''
      then Inl (TouchpadStartup (case ta_detail a of
                  Some d \<Rightarrow> d | None \<Rightarrow> ''touchpad override configuration is invalid''))
      else Inr ())"

text \<open>
  \<open>read_system_touch_gesture_setting\<close>: \<open>read_dword\<close> reads a value of a key of the current user, or
  gives the Win32 error.
\<close>

definition desktop_value :: string where
  "desktop_value = ''HKCU'' @ [CHR 0x5C] @ ''Control Panel'' @ [CHR 0x5C] @ ''Desktop'' @ [CHR 0x5C] @ ''TouchGestureSetting''"

definition touchpad_key :: string where
  "touchpad_key = ''Software'' @ [CHR 0x5C] @ ''Microsoft'' @ [CHR 0x5C] @ ''Windows'' @ [CHR 0x5C] @
     ''CurrentVersion'' @ [CHR 0x5C] @ ''PrecisionTouchPad''"

definition read_slide_flags :: "nat + nat \<Rightarrow> nat + nat \<Rightarrow> system_touch_setting" where
  "read_slide_flags three four =
     (case (three, four) of
        (Inr a, Inr b) \<Rightarrow> if a = 0 \<and> b = 0 then SettingDisabled else SettingEnabled
      | (Inl a, Inl b) \<Rightarrow> SettingUnknown (''failed to read both PrecisionTouchPad slide flags (ThreeFingerSlideEnabled: Win32 error '' @
          nat_to_dec a @ '', FourFingerSlideEnabled: Win32 error '' @ nat_to_dec b @ '')'')
      | (Inl a, Inr _) \<Rightarrow> SettingUnknown (''failed to read PrecisionTouchPad ThreeFingerSlideEnabled (Win32 error '' @
          nat_to_dec a @ '')'')
      | (Inr _, Inl b) \<Rightarrow> SettingUnknown (''failed to read PrecisionTouchPad FourFingerSlideEnabled (Win32 error '' @
          nat_to_dec b @ '')''))"

definition read_system_touch_gesture_setting :: "(string \<Rightarrow> string \<Rightarrow> nat + nat) \<Rightarrow> system_touch_setting" where
  "read_system_touch_gesture_setting read_dword =
     (case read_dword (''Control Panel'' @ [CHR 0x5C] @ ''Desktop'') ''TouchGestureSetting'' of
        Inr n \<Rightarrow>
          if n = 0 then SettingDisabled
          else if n = 1 then SettingEnabled
          else SettingUnknown (''registry value '' @ desktop_value @ '' had unexpected DWORD value '' @ nat_to_dec n)
      | Inl e \<Rightarrow>
          if e = 2 then
            read_slide_flags (read_dword touchpad_key ''ThreeFingerSlideEnabled'')
              (read_dword touchpad_key ''FourFingerSlideEnabled'')
          else SettingUnknown (''failed to read '' @ desktop_value @ '' (Win32 error '' @ nat_to_dec e @ '')''))"

section \<open>Raw reports\<close>

record raw_contact =
  rc_contact_id :: nat
  rc_x :: int
  rc_y :: int

record raw_report =
  rr_scan_time :: nat
  rr_contact_count :: nat
  rr_contact :: "raw_contact option"

definition u16_le :: "8 word \<Rightarrow> 8 word \<Rightarrow> nat" where
  "u16_le lo hi = unat lo + 256 * unat hi"

definition parse_sample_touchpad_report :: "8 word list \<Rightarrow> raw_report option" where
  "parse_sample_touchpad_report report =
     Option.bind (if 10 \<le> length report then Some 1 else if 9 \<le> length report then Some 0 else None) (\<lambda>offset.
     Option.bind (vec_get report offset) (\<lambda>header.
     Option.bind (vec_get report (offset + 1)) (\<lambda>x0.
     Option.bind (vec_get report (offset + 2)) (\<lambda>x1.
     Option.bind (vec_get report (offset + 3)) (\<lambda>y0.
     Option.bind (vec_get report (offset + 4)) (\<lambda>y1.
     Option.bind (vec_get report (offset + 5)) (\<lambda>t0.
     Option.bind (vec_get report (offset + 6)) (\<lambda>t1.
     Option.bind (vec_get report (offset + 7)) (\<lambda>count.
       let tip_switch = (header AND 2 \<noteq> 0); confidence = (header AND 1 \<noteq> 0)
       in Some \<lparr>rr_scan_time = u16_le t0 t1, rr_contact_count = unat count,
                rr_contact = (if tip_switch \<and> confidence
                  then Some \<lparr>rc_contact_id = unat (drop_bit 2 header AND 3),
                             rc_x = int (u16_le x0 x1), rc_y = int (u16_le y0 y1)\<rparr>
                  else None)\<rparr>)))))))))"

section \<open>Strokes\<close>

text \<open>Arithmetic on \<open>i32\<close> wraps, sums are \<open>i64\<close>, and division truncates.\<close>

record touch_point =
  tpt_x :: int
  tpt_y :: int

record swipe_session =
  ss_finger_count :: nat
  ss_start :: touch_point
  ss_last :: touch_point

definition centroid_for_contacts :: "raw_contact list \<Rightarrow> touch_point" where
  "centroid_for_contacts contacts =
     \<lparr>tpt_x = wrap_i32 (sum_list (map rc_x contacts) sdiv int (length contacts)),
      tpt_y = wrap_i32 (sum_list (map rc_y contacts) sdiv int (length contacts))\<rparr>"

definition recognize_swipe :: "swipe_session \<Rightarrow> touchpad_gesture option" where
  "recognize_swipe session =
     (let delta_x = wrap_i32 (tpt_x (ss_last session) - tpt_x (ss_start session));
          delta_y = wrap_i32 (tpt_y (ss_last session) - tpt_y (ss_start session));
          abs_x = wrap_i32 \<bar>delta_x\<bar>; abs_y = wrap_i32 \<bar>delta_y\<bar>
      in if abs_x < 120 \<and> abs_y < 120 then None
         else
           let horizontal = (wrap_i32 (abs_y * 3) \<le> wrap_i32 (abs_x * 2));
               vertical = (wrap_i32 (abs_x * 3) \<le> wrap_i32 (abs_y * 2));
               n = ss_finger_count session
           in if n = 3 \<and> horizontal \<and> \<not> vertical \<and> 0 < delta_x then Some ThreeFingerSwipeRight
              else if n = 3 \<and> horizontal \<and> \<not> vertical \<and> delta_x < 0 then Some ThreeFingerSwipeLeft
              else if n = 3 \<and> \<not> horizontal \<and> vertical \<and> 0 < delta_y then Some ThreeFingerSwipeDown
              else if n = 3 \<and> \<not> horizontal \<and> vertical \<and> delta_y < 0 then Some ThreeFingerSwipeUp
              else if n = 4 \<and> horizontal \<and> \<not> vertical \<and> 0 < delta_x then Some FourFingerSwipeRight
              else if n = 4 \<and> horizontal \<and> \<not> vertical \<and> delta_x < 0 then Some FourFingerSwipeLeft
              else if n = 4 \<and> \<not> horizontal \<and> vertical \<and> 0 < delta_y then Some FourFingerSwipeDown
              else if n = 4 \<and> \<not> horizontal \<and> vertical \<and> delta_y < 0 then Some FourFingerSwipeUp
              else None)"

definition finish_current_session :: "swipe_session option \<Rightarrow> touchpad_gesture option \<times> swipe_session option" where
  "finish_current_session session = (Option.bind session recognize_swipe, None)"

definition process_contacts ::
    "raw_contact list \<Rightarrow> swipe_session option \<Rightarrow> touchpad_gesture option \<times> swipe_session option" where
  "process_contacts contacts session =
     (let n = length contacts in
      if \<not> (3 \<le> n \<and> n \<le> 4) then finish_current_session session
      else
        let centroid = centroid_for_contacts contacts;
            open = (case session of
                      Some s \<Rightarrow> s
                    | None \<Rightarrow> \<lparr>ss_finger_count = n, ss_start = centroid, ss_last = centroid\<rparr>)
        in (None, Some (open\<lparr>ss_finger_count := max (ss_finger_count open) n, ss_last := centroid\<rparr>)))"

section \<open>Frames\<close>

text \<open>
  The contacts of a frame are a hash map by contact id: here a map in key order. What the
  recogniser computes from them does not depend on the order they are drained in.
\<close>

record frame_assembler =
  fa_active_scan_time :: "nat option"
  fa_expected_contacts :: nat
  fa_contacts :: "(nat, raw_contact) bmap"
  fa_session :: "swipe_session option"

definition assembler_default :: frame_assembler where
  "assembler_default =
     \<lparr>fa_active_scan_time = None, fa_expected_contacts = 0, fa_contacts = [], fa_session = None\<rparr>"

definition begin_frame :: "nat \<Rightarrow> nat \<Rightarrow> frame_assembler \<Rightarrow> frame_assembler" where
  "begin_frame scan_time count a =
     a\<lparr>fa_active_scan_time := Some scan_time, fa_expected_contacts := count, fa_contacts := []\<rparr>"

definition should_flush_current_frame :: "nat \<Rightarrow> frame_assembler \<Rightarrow> bool" where
  "should_flush_current_frame reported a \<longleftrightarrow>
     reported = 0 \<or> (0 < fa_expected_contacts a \<and> fa_expected_contacts a \<le> length (fa_contacts a))"

definition flush_frame :: "frame_assembler \<Rightarrow> touchpad_gesture option \<times> frame_assembler" where
  "flush_frame a =
     (let (gesture, session) = process_contacts (bm_values (fa_contacts a)) (fa_session a)
      in (gesture, a\<lparr>fa_active_scan_time := None, fa_expected_contacts := 0, fa_contacts := [],
                     fa_session := session\<rparr>))"

definition add_contact :: "raw_contact option \<Rightarrow> frame_assembler \<Rightarrow> frame_assembler" where
  "add_contact contact a =
     (case contact of
        Some c \<Rightarrow> a\<lparr>fa_contacts := bm_put (rc_contact_id c) c (fa_contacts a)\<rparr>
      | None \<Rightarrow> a)"

definition process_report :: "raw_report \<Rightarrow> frame_assembler \<Rightarrow> touchpad_gesture option \<times> frame_assembler" where
  "process_report r a =
     (case fa_active_scan_time a of
        Some active \<Rightarrow>
          if active \<noteq> rr_scan_time r then
            let (gesture, a1) = flush_frame a;
                a2 = add_contact (rr_contact r) (begin_frame (rr_scan_time r) (rr_contact_count r) a1)
            in if should_flush_current_frame (rr_contact_count r) a2 then
                 (case gesture of Some g \<Rightarrow> (Some g, a2) | None \<Rightarrow> flush_frame a2)
               else (gesture, a2)
          else
            let a1 = add_contact (rr_contact r) a
            in if should_flush_current_frame (rr_contact_count r) a1 then flush_frame a1 else (None, a1)
      | None \<Rightarrow>
          let a1 = add_contact (rr_contact r) (begin_frame (rr_scan_time r) (rr_contact_count r) a)
          in if should_flush_current_frame (rr_contact_count r) a1 then flush_frame a1 else (None, a1))"

end
