(* ===== verification/Touchpad_Properties.thy ===== *)
theory Touchpad_Properties
  imports Touchpad "HOL-Library.Multiset"
begin

text \<open>The frame assembler refines a machine on whole frames, and what a stroke has to be to count.\<close>

section \<open>Collecting the contacts of a frame\<close>

definition collect :: "raw_contact list \<Rightarrow> (nat, raw_contact) bmap" where
  "collect cs = fold (\<lambda>c. bm_put (rc_contact_id c) c) cs []"

lemma collect_snoc: "collect (cs @ [c]) = bm_put (rc_contact_id c) c (collect cs)" "collect [] = []"
  by (simp_all add: collect_def)

lemma bm_put_new: "k \<notin> fst ` set m \<Longrightarrow> mset (bm_put k v m) = add_mset (k, v) (mset m)"
  by (induction k v m rule: bm_put.induct) auto

lemma collect_mset:
  "distinct (map rc_contact_id cs) \<Longrightarrow> mset (collect cs) = mset (map (\<lambda>c. (rc_contact_id c, c)) cs)"
proof (induction cs rule: rev_induct)
  case (snoc c cs)
  then have ih: "mset (collect cs) = mset (map (\<lambda>c. (rc_contact_id c, c)) cs)" by simp
  from mset_eq_setD [OF this] have "rc_contact_id c \<notin> fst ` set (collect cs)"
    using snoc.prems by (auto simp: image_image)
  then show ?case using ih by (simp add: collect_snoc bm_put_new)
qed (simp add: collect_snoc)

lemma collect_values:
  assumes "distinct (map rc_contact_id cs)"
  shows "length (collect cs) = length cs" "mset (bm_values (collect cs)) = mset cs"
proof -
  note m = collect_mset [OF assms]
  show "length (collect cs) = length cs" using m by (metis length_map mset_eq_length)
  have "mset (map snd (collect cs)) = image_mset snd (mset (collect cs))" by simp
  also have "\<dots> = mset cs" unfolding m by (simp add: multiset.map_comp comp_def)
  finally show "mset (bm_values (collect cs)) = mset cs" by (simp add: bm_values_def)
qed

lemma process_contacts_order:
  assumes "mset cs = mset ds"
  shows "process_contacts cs session = process_contacts ds session"
proof -
  have "length cs = length ds" using assms by (rule mset_eq_length)
  moreover have "sum_list (map f cs) = sum_list (map f ds)" for f :: "raw_contact \<Rightarrow> int"
    using assms by (metis mset_map sum_mset_sum_list)
  ultimately have "centroid_for_contacts cs = centroid_for_contacts ds" "length cs = length ds"
    by (simp_all add: centroid_for_contacts_def)
  then show ?thesis by (simp only: process_contacts_def)
qed

section \<open>Frames and their reports\<close>

definition frame_reports :: "nat \<times> raw_contact list \<Rightarrow> raw_report list" where
  "frame_reports = (\<lambda>(t, cs).
     if cs = [] then [\<lparr>rr_scan_time = t, rr_contact_count = 0, rr_contact = None\<rparr>]
     else map (\<lambda>c. \<lparr>rr_scan_time = t, rr_contact_count = length cs, rr_contact = Some c\<rparr>) cs)"

fun run_reports :: "raw_report list \<Rightarrow> frame_assembler \<Rightarrow> touchpad_gesture list \<times> frame_assembler" where
  "run_reports [] a = ([], a)"
| "run_reports (r # rs) a =
     (let (g, a1) = process_report r a; (gs, a2) = run_reports rs a1
      in ((case g of None \<Rightarrow> gs | Some x \<Rightarrow> x # gs), a2))"

fun run_frames :: "raw_contact list list \<Rightarrow> swipe_session option \<Rightarrow> touchpad_gesture list \<times> swipe_session option" where
  "run_frames [] s = ([], s)"
| "run_frames (f # fs) s =
     (let (g, s1) = process_contacts f s; (gs, s2) = run_frames fs s1
      in ((case g of None \<Rightarrow> gs | Some x \<Rightarrow> x # gs), s2))"

definition idle :: "swipe_session option \<Rightarrow> frame_assembler" where
  "idle s = assembler_default\<lparr>fa_session := s\<rparr>"

definition partial :: "nat \<Rightarrow> nat \<Rightarrow> raw_contact list \<Rightarrow> swipe_session option \<Rightarrow> frame_assembler" where
  "partial t n cs s =
     \<lparr>fa_active_scan_time = Some t, fa_expected_contacts = n, fa_contacts = collect cs, fa_session = s\<rparr>"

lemma run_reports_append:
  "run_reports (rs @ qs) a =
     (let (gs, a1) = run_reports rs a; (hs, a2) = run_reports qs a1 in (gs @ hs, a2))"
  by (induction rs arbitrary: a) (auto simp: Let_def split: prod.splits option.splits)

lemma flush_partial:
  assumes "distinct (map rc_contact_id cs)" "process_contacts cs s = (g, s')"
  shows "flush_frame (partial t n cs s) = (g, idle s')"
  using assms process_contacts_order [OF collect_values(2) [OF assms(1)], of s]
  by (simp add: flush_frame_def partial_def idle_def assembler_default_def)

lemma report_step:
  assumes "distinct (map rc_contact_id (cs @ [c]))" "length cs < n"
    and "a = (if cs = [] then idle s else partial t n cs s)"
  shows "process_report \<lparr>rr_scan_time = t, rr_contact_count = n, rr_contact = Some c\<rparr> a =
    (if Suc (length cs) = n then flush_frame (partial t n (cs @ [c]) s) else (None, partial t n (cs @ [c]) s))"
proof -
  have len: "length (bm_put (rc_contact_id c) c (collect cs)) = Suc (length cs)"
    using collect_values(1) [OF assms(1)] by (simp add: collect_snoc)
  have add: "add_contact (Some c) (if cs = [] then begin_frame t n a else a) = partial t n (cs @ [c]) s"
    using assms(3)
    by (auto simp: add_contact_def begin_frame_def partial_def idle_def assembler_default_def collect_snoc)
  have "should_flush_current_frame n (partial t n (cs @ [c]) s) \<longleftrightarrow> Suc (length cs) = n"
    using assms(2) len by (auto simp: should_flush_current_frame_def partial_def collect_snoc)
  then show ?thesis
    using add assms(3)
    by (cases "cs = []") (auto simp: process_report_def idle_def assembler_default_def partial_def [of t n cs s] Let_def)
qed

lemma frame_tail:
  assumes "distinct (map rc_contact_id (cs @ ds))" "n = length (cs @ ds)" "ds \<noteq> []"
    and "process_contacts (cs @ ds) s = (g, s')"
  shows "run_reports (map (\<lambda>c. \<lparr>rr_scan_time = t, rr_contact_count = n, rr_contact = Some c\<rparr>) ds)
      (if cs = [] then idle s else partial t n cs s) = (case g of None \<Rightarrow> [] | Some x \<Rightarrow> [x], idle s')"
  using assms
proof (induction ds arbitrary: cs)
  case (Cons d ds)
  let ?a = "if cs = [] then idle s else partial t n cs s"
  have d: "distinct (map rc_contact_id (cs @ [d]))" "length cs < n" using Cons.prems by auto
  note step = report_step [OF d refl, where s = s and t = t]
  show ?case
  proof (cases "ds = []")
    case True
    then have "Suc (length cs) = n" "process_contacts (cs @ [d]) s = (g, s')" using Cons.prems by simp_all
    then show ?thesis using step flush_partial [OF d(1), of s g s' t n] True by (simp split: option.split)
  next
    case False
    then have "Suc (length cs) \<noteq> n" using Cons.prems by simp
    then show ?thesis using step Cons.IH [of "cs @ [d]"] Cons.prems False by simp
  qed
qed simp

lemma frame_agrees:
  assumes "distinct (map rc_contact_id cs)" "process_contacts cs s = (g, s')"
  shows "run_reports (frame_reports (t, cs)) (idle s) = (case g of None \<Rightarrow> [] | Some x \<Rightarrow> [x], idle s')"
proof (cases "cs = []")
  case True
  have "process_report \<lparr>rr_scan_time = t, rr_contact_count = 0, rr_contact = None\<rparr> (idle s) =
      flush_frame (partial t 0 [] s)"
    by (simp add: process_report_def idle_def assembler_default_def add_contact_def begin_frame_def
        should_flush_current_frame_def partial_def collect_def Let_def)
  then show ?thesis
    using flush_partial [of "[]" s g s' t 0] assms(2) True by (simp add: frame_reports_def split: option.split)
next
  case False
  then show ?thesis using frame_tail [of "[]" cs "length cs" s g s' t] assms by (simp add: frame_reports_def)
qed

text \<open>
  C37: fed the reports of whole frames - one report per contact, a single empty report for a frame
  without contacts - the assembler recognises exactly the gestures of the machine that reads a
  frame at a time, whatever the scan times and the order of the contacts, and is idle in between.
\<close>

theorem assembler_refines_frames:
  assumes "\<forall>(t, cs) \<in> set frames. distinct (map rc_contact_id cs)"
  shows "run_reports (concat (map frame_reports frames)) (idle s) =
    (fst (run_frames (map snd frames) s), idle (snd (run_frames (map snd frames) s)))"
  using assms
proof (induction frames arbitrary: s)
  case (Cons f frames)
  obtain t cs where f: "f = (t, cs)" by fastforce
  obtain g s1 where p: "process_contacts cs s = (g, s1)" by fastforce
  have "run_reports (frame_reports f) (idle s) = (case g of None \<Rightarrow> [] | Some x \<Rightarrow> [x], idle s1)"
    using frame_agrees [OF _ p, of t] Cons.prems f by simp
  then show ?case
    using Cons.IH [of s1] Cons.prems f p by (auto simp: run_reports_append Let_def split: option.split prod.split)
qed simp

definition fingers :: "int \<Rightarrow> int \<Rightarrow> raw_contact list" where
  "fingers x y = map (\<lambda>i. \<lparr>rc_contact_id = i, rc_x = x + 40 * int i, rc_y = y\<rparr>) [0, 1, 2]"

theorem assembler_refines_frames_witness:
  "fst (run_reports (concat (map frame_reports [(10, fingers 100 200), (11, fingers 320 205), (12, [])])) (idle None)) =
    [ThreeFingerSwipeRight]"
proof -
  have "\<forall>(t, cs) \<in> set [(10, fingers 100 200), (11, fingers 320 205), (12 :: nat, [])]. distinct (map rc_contact_id cs)"
    by (simp add: fingers_def)
  from assembler_refines_frames [OF this, of None] show ?thesis
    by (simp add: fingers_def process_contacts_def finish_current_session_def centroid_for_contacts_def
        recognize_swipe_def Let_def signed_divide_int_def sgn_if i32_simps is_i32_def i32_min_def i32_max_def)
qed

section \<open>Strokes\<close>

fun gesture_fingers :: "touchpad_gesture \<Rightarrow> nat" where
  "gesture_fingers ThreeFingerSwipeLeft = 3"
| "gesture_fingers ThreeFingerSwipeRight = 3"
| "gesture_fingers ThreeFingerSwipeUp = 3"
| "gesture_fingers ThreeFingerSwipeDown = 3"
| "gesture_fingers _ = 4"

text \<open>How far a displacement goes in the direction of a gesture, and across it.\<close>

fun along :: "touchpad_gesture \<Rightarrow> int \<Rightarrow> int \<Rightarrow> int" where
  "along ThreeFingerSwipeLeft dx dy = - dx"
| "along FourFingerSwipeLeft dx dy = - dx"
| "along ThreeFingerSwipeRight dx dy = dx"
| "along FourFingerSwipeRight dx dy = dx"
| "along ThreeFingerSwipeUp dx dy = - dy"
| "along FourFingerSwipeUp dx dy = - dy"
| "along ThreeFingerSwipeDown dx dy = dy"
| "along FourFingerSwipeDown dx dy = dy"

definition across :: "touchpad_gesture \<Rightarrow> int \<Rightarrow> int \<Rightarrow> int" where
  "across g dx dy =
     (if g \<in> {ThreeFingerSwipeLeft, FourFingerSwipeLeft, ThreeFingerSwipeRight, FourFingerSwipeRight}
      then \<bar>dy\<bar> else \<bar>dx\<bar>)"

definition on_pad :: "touch_point \<Rightarrow> bool" where
  "on_pad p \<longleftrightarrow> 0 \<le> tpt_x p \<and> tpt_x p \<le> 65535 \<and> 0 \<le> tpt_y p \<and> tpt_y p \<le> 65535"

fun points :: "touchpad_gesture \<Rightarrow> bool \<Rightarrow> bool \<Rightarrow> bool \<Rightarrow> bool \<Rightarrow> bool \<Rightarrow> bool \<Rightarrow> bool" where
  "points ThreeFingerSwipeLeft h v px nx py ny = (h \<and> \<not> v \<and> nx)"
| "points FourFingerSwipeLeft h v px nx py ny = (h \<and> \<not> v \<and> nx)"
| "points ThreeFingerSwipeRight h v px nx py ny = (h \<and> \<not> v \<and> px)"
| "points FourFingerSwipeRight h v px nx py ny = (h \<and> \<not> v \<and> px)"
| "points ThreeFingerSwipeUp h v px nx py ny = (\<not> h \<and> v \<and> ny)"
| "points FourFingerSwipeUp h v px nx py ny = (\<not> h \<and> v \<and> ny)"
| "points ThreeFingerSwipeDown h v px nx py ny = (\<not> h \<and> v \<and> py)"
| "points FourFingerSwipeDown h v px nx py ny = (\<not> h \<and> v \<and> py)"

text \<open>The decision table of the recogniser, with its tests as truth values.\<close>

lemma swipe_table:
  assumes "\<not> (px \<and> nx)" "\<not> (py \<and> ny)"
  shows "(if small then None
      else if n = 3 \<and> h \<and> \<not> v \<and> px then Some ThreeFingerSwipeRight
      else if n = 3 \<and> h \<and> \<not> v \<and> nx then Some ThreeFingerSwipeLeft
      else if n = 3 \<and> \<not> h \<and> v \<and> py then Some ThreeFingerSwipeDown
      else if n = 3 \<and> \<not> h \<and> v \<and> ny then Some ThreeFingerSwipeUp
      else if n = 4 \<and> h \<and> \<not> v \<and> px then Some FourFingerSwipeRight
      else if n = 4 \<and> h \<and> \<not> v \<and> nx then Some FourFingerSwipeLeft
      else if n = 4 \<and> \<not> h \<and> v \<and> py then Some FourFingerSwipeDown
      else if n = 4 \<and> \<not> h \<and> v \<and> ny then Some FourFingerSwipeUp
      else None) = Some g \<longleftrightarrow> n = gesture_fingers g \<and> \<not> small \<and> points g h v px nx py ny"
  using assms
  by (cases small; cases h; cases v; cases px; cases nx; cases py; cases ny; cases g; simp)

text \<open>
  Between points a report can name, a stroke is the gesture whose fingers it used and in whose
  direction it went at least 120 units and at least one and a half times as far as across, and no
  gesture when there is none such; no arithmetic overflows on the way.
\<close>

theorem swipe_is_dominant_direction:
  assumes "on_pad (ss_start s)" "on_pad (ss_last s)"
    and "dx = tpt_x (ss_last s) - tpt_x (ss_start s)" "dy = tpt_y (ss_last s) - tpt_y (ss_start s)"
  shows "recognize_swipe s = Some g \<longleftrightarrow>
    ss_finger_count s = gesture_fingers g \<and> 120 \<le> along g dx dy \<and> 3 * across g dx dy \<le> 2 * along g dx dy"
proof -
  have b: "\<bar>dx\<bar> \<le> 65535" "\<bar>dy\<bar> \<le> 65535" using assms by (auto simp: on_pad_def)
  then have "wrap_i32 dx = dx" "wrap_i32 dy = dy" "wrap_i32 \<bar>dx\<bar> = \<bar>dx\<bar>" "wrap_i32 \<bar>dy\<bar> = \<bar>dy\<bar>"
    "wrap_i32 (\<bar>dx\<bar> * 2) = \<bar>dx\<bar> * 2" "wrap_i32 (\<bar>dx\<bar> * 3) = \<bar>dx\<bar> * 3"
    "wrap_i32 (\<bar>dy\<bar> * 2) = \<bar>dy\<bar> * 2" "wrap_i32 (\<bar>dy\<bar> * 3) = \<bar>dy\<bar> * 3"
    by (auto intro!: wrap_i32_id simp: is_i32_def i32_min_def i32_max_def)
  then have "recognize_swipe s = Some g \<longleftrightarrow> ss_finger_count s = gesture_fingers g \<and>
      \<not> (\<bar>dx\<bar> < 120 \<and> \<bar>dy\<bar> < 120) \<and>
      points g (\<bar>dy\<bar> * 3 \<le> \<bar>dx\<bar> * 2) (\<bar>dx\<bar> * 3 \<le> \<bar>dy\<bar> * 2) (0 < dx) (dx < 0) (0 < dy) (dy < 0)"
    unfolding recognize_swipe_def Let_def assms(3,4) [symmetric]
    by (simp only:, subst swipe_table) simp_all
  moreover have "(\<not> (\<bar>dx\<bar> < 120 \<and> \<bar>dy\<bar> < 120) \<and>
      points g (\<bar>dy\<bar> * 3 \<le> \<bar>dx\<bar> * 2) (\<bar>dx\<bar> * 3 \<le> \<bar>dy\<bar> * 2) (0 < dx) (dx < 0) (0 < dy) (dy < 0)) \<longleftrightarrow>
      120 \<le> along g dx dy \<and> 3 * across g dx dy \<le> 2 * along g dx dy"
    by (cases g; simp add: across_def; arith)
  ultimately show ?thesis by blast
qed

theorem swipe_is_dominant_direction_witness:
  "recognize_swipe \<lparr>ss_finger_count = 4, ss_start = \<lparr>tpt_x = 500, tpt_y = 900\<rparr>, ss_last = \<lparr>tpt_x = 520, tpt_y = 300\<rparr>\<rparr> =
    Some FourFingerSwipeUp"
  by (subst swipe_is_dominant_direction [OF _ _ refl refl]) (simp_all add: on_pad_def across_def)

end
