(* ===== verification/Overview_Engine.thy ===== *)
theory Overview_Engine
  imports Layout_Engine "HOL-Library.Signed_Division" "HOL-Library.Product_Lexorder"
begin

text \<open>
  \<open>apps/core-daemon/src/overview_engine.rs\<close>: the scene of the overview, its frames while it opens,
  closes or follows a change, and hit testing. \<open>scale_rect_to_overview\<close> computes in floating point
  and is a parameter (\<open>scale\<close>); the stack layout also does, but at the one zoom the program uses
  its results are the integers written here: halving is exact, and a tenth of a half of a height
  lies at least a twentieth away from a rounding boundary or is rounded up on it.
\<close>

section \<open>Scenes\<close>

record window_preview =
  wpv_hwnd :: nat
  wpv_live_rect :: rect
  wpv_overview_rect :: rect

record workspace_preview =
  wsv_workspace_id :: workspace_id
  wsv_live_rect :: rect
  wsv_canvas_rect :: rect
  wsv_frame_rect :: rect
  wsv_selected :: bool
  wsv_windows :: "window_preview list"

record overview_scene =
  sc_monitor_rect :: rect
  sc_workspaces :: "workspace_preview list"

record window_frame =
  wf_hwnd :: nat
  wf_rect :: rect

record workspace_frame =
  wkf_workspace_id :: workspace_id
  wkf_canvas_rect :: rect
  wkf_viewport_rect :: rect
  wkf_windows :: "window_frame list"

record render_frame =
  rf_monitor_rect :: rect
  rf_workspaces :: "workspace_frame list"

record preview_stack_layout =
  psl_frame_width :: nat
  psl_frame_height :: nat
  psl_gap :: int
  psl_active_frame_y :: int

record click_target =
  ct_hwnd :: nat
  ct_workspace_id :: workspace_id
  ct_rect :: rect

record drop_target =
  dt_workspace_id :: workspace_id
  dt_rect :: rect

datatype frame_mode = FinalFrame | OpeningFrame nat | ClosingFrame nat

section \<open>Rectangles\<close>

definition rect_right :: "rect \<Rightarrow> int" where
  "rect_right r = i32_sat_add (rect_x r) (u32_clip_i32 (rect_width r))"

definition rect_bottom :: "rect \<Rightarrow> int" where
  "rect_bottom r = i32_sat_add (rect_y r) (u32_clip_i32 (rect_height r))"

definition rects_intersect :: "rect \<Rightarrow> rect \<Rightarrow> bool" where
  "rects_intersect l r \<longleftrightarrow>
     rect_x r < rect_right l \<and> rect_x l < rect_right r \<and>
     rect_y r < rect_bottom l \<and> rect_y l < rect_bottom r"

definition intersect_rect :: "rect \<Rightarrow> rect \<Rightarrow> rect option" where
  "intersect_rect l r =
     (let x = max (rect_x l) (rect_x r); y = max (rect_y l) (rect_y r);
          right_edge = min (rect_right l) (rect_right r);
          bottom_edge = min (rect_bottom l) (rect_bottom r)
      in if right_edge \<le> x \<or> bottom_edge \<le> y then None
         else Some (rect_new x y (i32_as_u32 (wrap_i32 (right_edge - x))) (i32_as_u32 (wrap_i32 (bottom_edge - y)))))"

definition signed_axis_delta :: "int \<Rightarrow> int \<Rightarrow> int" where
  "signed_axis_delta a b = clamp_in i32_min i32_max (b - a)"

definition translate_rect :: "rect \<Rightarrow> int \<Rightarrow> int \<Rightarrow> rect" where
  "translate_rect r dx dy = rect_new (i32_sat_add (rect_x r) dx) (i32_sat_add (rect_y r) dy) (rect_width r) (rect_height r)"

definition translate_rect_between_origins :: "rect \<Rightarrow> rect \<Rightarrow> rect \<Rightarrow> rect" where
  "translate_rect_between_origins r from_origin to_origin =
     translate_rect r (signed_axis_delta (rect_x from_origin) (rect_x to_origin))
       (signed_axis_delta (rect_y from_origin) (rect_y to_origin))"

definition rect_relative_to :: "rect \<Rightarrow> rect \<Rightarrow> rect" where
  "rect_relative_to r origin =
     rect_new (i32_sat_sub (rect_x r) (rect_x origin)) (i32_sat_sub (rect_y r) (rect_y origin))
       (rect_width r) (rect_height r)"

definition interpolate_i32 :: "int \<Rightarrow> int \<Rightarrow> nat \<Rightarrow> int" where
  "interpolate_i32 a b progress =
     i32_sat_add a (clamp_in i32_min i32_max (((b - a) * int progress) sdiv 1000))"

definition interpolate_u32 :: "nat \<Rightarrow> nat \<Rightarrow> nat \<Rightarrow> nat" where
  "interpolate_u32 a b progress =
     nat (clamp_in 1 (int u32_max) (int a + ((int b - int a) * int progress) sdiv 1000))"

definition interpolate_rect :: "rect \<Rightarrow> rect \<Rightarrow> nat \<Rightarrow> rect" where
  "interpolate_rect a b progress =
     (if progress = 0 then a
      else if 1000 \<le> progress then b
      else rect_new (interpolate_i32 (rect_x a) (rect_x b) progress)
             (interpolate_i32 (rect_y a) (rect_y b) progress)
             (interpolate_u32 (max (rect_width a) 1) (max (rect_width b) 1) progress)
             (interpolate_u32 (max (rect_height a) 1) (max (rect_height b) 1) progress))"

definition rect_contains_point :: "rect \<Rightarrow> int \<Rightarrow> int \<Rightarrow> bool" where
  "rect_contains_point r x y \<longleftrightarrow> rect_x r \<le> x \<and> x < rect_right r \<and> rect_y r \<le> y \<and> y < rect_bottom r"

section \<open>Building the scene\<close>

definition build_preview_stack_layout :: "rect \<Rightarrow> preview_stack_layout" where
  "build_preview_stack_layout m =
     (let frame_height = max ((max (rect_height m) 1 + 1) div 2) 1;
          frame_width = max ((max (rect_width m) 1 + 1) div 2) 1;
          gap = max (int ((max (rect_height m) 1 + 10) div 20)) 1
      in \<lparr>psl_frame_width = frame_width, psl_frame_height = frame_height, psl_gap = gap,
          psl_active_frame_y =
            i32_sat_add (rect_y m) ((u32_clip_i32 (rect_height m) - u32_clip_i32 frame_height) sdiv 2)\<rparr>)"

definition workspace_live_rect :: "rect \<Rightarrow> int \<Rightarrow> rect" where
  "workspace_live_rect m stack_offset =
     rect_new (rect_x m)
       (i32_sat_add (rect_y m) (i32_sat_mul stack_offset (u32_clip_i32 (rect_height m))))
       (rect_width m) (rect_height m)"

definition workspace_preview_frame_rect :: "rect \<Rightarrow> preview_stack_layout \<Rightarrow> int \<Rightarrow> rect" where
  "workspace_preview_frame_rect m l stack_offset =
     rect_new
       (i32_sat_add (rect_x m) ((u32_clip_i32 (rect_width m) - u32_clip_i32 (psl_frame_width l)) sdiv 2))
       (i32_sat_add (psl_active_frame_y l)
          (i32_sat_mul stack_offset (wrap_i32 (u32_clip_i32 (psl_frame_height l) + psl_gap l))))
       (psl_frame_width l) (psl_frame_height l)"

definition workspace_preview_canvas_rect :: "rect \<Rightarrow> rect \<Rightarrow> rect" where
  "workspace_preview_canvas_rect frame m =
     rect_new (rect_x m) (rect_y frame) (rect_width m) (rect_height frame)"

text \<open>
  Both window transforms of \<open>WorkspaceOverviewGeometry\<close> map the monitor to the frame, so a window is
  scaled in the same way in every layer.
\<close>

definition window_preview_of ::
    "(rect \<Rightarrow> rect \<Rightarrow> rect \<Rightarrow> rect) \<Rightarrow> wm_state \<Rightarrow> rect \<Rightarrow> rect \<Rightarrow> rect \<Rightarrow> window_geometry \<Rightarrow> window_preview option" where
  "window_preview_of scale s m live frame g =
     Option.bind (get_window s (geo_window_id g)) (\<lambda>win.
     Option.bind (win_hwnd win) (\<lambda>hwnd.
       Some \<lparr>wpv_hwnd = hwnd, wpv_live_rect = translate_rect_between_origins (geo_rect g) m live,
             wpv_overview_rect = scale (geo_rect g) m frame\<rparr>))"

definition scene_step ::
    "(rect \<Rightarrow> rect \<Rightarrow> rect \<Rightarrow> rect) \<Rightarrow> wm_state \<Rightarrow> rect \<Rightarrow> workspace_id option \<Rightarrow> int \<Rightarrow>
     nat \<times> workspace_id \<Rightarrow> workspace_preview list \<Rightarrow> layout_error + workspace_preview list" where
  "scene_step scale s m selection active_index = (\<lambda>(index, w) previews.
     bindE (recompute_workspace s w) (\<lambda>projection.
       let stack_offset = wrap_i32 (int index - active_index);
           frame = workspace_preview_frame_rect m (build_preview_stack_layout m) stack_offset
       in if \<not> rects_intersect frame m then Inr previews
          else
            let live = workspace_live_rect m stack_offset;
                canvas = workspace_preview_canvas_rect frame m;
                shown = List.map_filter (window_preview_of scale s m live frame) (proj_window_geometries projection)
            in Inr (previews @
                 [\<lparr>wsv_workspace_id = w, wsv_live_rect = live, wsv_canvas_rect = canvas,
                   wsv_frame_rect = frame, wsv_selected = (selection = Some w),
                   wsv_windows = filter (\<lambda>v. rects_intersect (wpv_overview_rect v) canvas) shown\<rparr>])))"

definition build_overview_scene ::
    "(rect \<Rightarrow> rect \<Rightarrow> rect \<Rightarrow> rect) \<Rightarrow> wm_state \<Rightarrow> layout_error + overview_scene option" where
  "build_overview_scene scale s =
     (if \<not> ov_is_open (overview s) then Inr None
      else case Option.bind (ov_monitor_id (overview s)) (\<lambda>mon_key.
                  Option.bind (get_monitor s mon_key) (\<lambda>mon.
                  Option.bind (workspace_set_id_for_monitor s mon_key) (\<lambda>i.
                  Option.bind (get_set s i) (\<lambda>x. Some (mon_key, mon, x))))) of
             None \<Rightarrow> Inr None
           | Some (mon_key, mon, x) \<Rightarrow>
               if wset_ordered x = [] then Inr None
               else
                 let active = active_workspace_id_for_monitor s mon_key;
                     selection = or_opt (ov_selection (overview s)) active;
                     active_index = (case Option.bind active (\<lambda>w. position (\<lambda>c. c = w) (wset_ordered x)) of
                                       Some n \<Rightarrow> int n | None \<Rightarrow> 0);
                     m = mon_work_area_rect mon
                 in bindE (fold_res (scene_step scale s m selection active_index) (enumerate 0 (wset_ordered x)) [])
                      (\<lambda>previews. Inr (Some \<lparr>sc_monitor_rect = m, sc_workspaces = previews\<rparr>)))"

section \<open>Frames\<close>

definition rect_for_mode :: "rect \<Rightarrow> rect \<Rightarrow> frame_mode \<Rightarrow> rect" where
  "rect_for_mode live final mode =
     (case mode of
        FinalFrame \<Rightarrow> final
      | OpeningFrame progress \<Rightarrow> interpolate_rect live final progress
      | ClosingFrame progress \<Rightarrow> interpolate_rect final live progress)"

definition render_frame_for_scene :: "overview_scene \<Rightarrow> frame_mode \<Rightarrow> render_frame" where
  "render_frame_for_scene scene mode =
     \<lparr>rf_monitor_rect = sc_monitor_rect scene,
      rf_workspaces = map (\<lambda>w.
        \<lparr>wkf_workspace_id = wsv_workspace_id w,
         wkf_canvas_rect = rect_for_mode (wsv_live_rect w) (wsv_canvas_rect w) mode,
         wkf_viewport_rect = rect_for_mode (wsv_live_rect w) (wsv_frame_rect w) mode,
         wkf_windows = map (\<lambda>v. \<lparr>wf_hwnd = wpv_hwnd v,
           wf_rect = rect_for_mode (wpv_live_rect v) (wpv_overview_rect v) mode\<rparr>) (wsv_windows w)\<rparr>)
        (sc_workspaces scene)\<rparr>"

definition scene_workspace :: "overview_scene \<Rightarrow> workspace_id \<Rightarrow> workspace_preview option" where
  "scene_workspace scene w = find (\<lambda>p. wsv_workspace_id p = w) (sc_workspaces scene)"

definition rect_delta :: "rect \<Rightarrow> rect \<Rightarrow> int \<times> int" where
  "rect_delta a b = (signed_axis_delta (rect_x a) (rect_x b), signed_axis_delta (rect_y a) (rect_y b))"

definition transition_stack_delta :: "overview_scene \<Rightarrow> overview_scene \<Rightarrow> int \<times> int" where
  "transition_stack_delta from_scene to_scene =
     (case find_map (\<lambda>t. map_option (\<lambda>f. rect_delta (wsv_frame_rect f) (wsv_frame_rect t))
              (scene_workspace from_scene (wsv_workspace_id t))) (sc_workspaces to_scene) of
        Some d \<Rightarrow> d | None \<Rightarrow> (0, 0))"

definition push_new :: "'a \<Rightarrow> 'a list \<Rightarrow> 'a list" where
  "push_new x xs = (if x \<in> set xs then xs else xs @ [x])"

definition collect_transition_workspace_ids :: "overview_scene \<Rightarrow> overview_scene \<Rightarrow> workspace_id list" where
  "collect_transition_workspace_ids from_scene to_scene =
     fold push_new (map wsv_workspace_id (sc_workspaces from_scene)) (map wsv_workspace_id (sc_workspaces to_scene))"

definition preview_window :: "workspace_preview option \<Rightarrow> nat \<Rightarrow> rect option" where
  "preview_window p hwnd =
     Option.bind p (\<lambda>w. map_option wpv_overview_rect (find (\<lambda>v. wpv_hwnd v = hwnd) (wsv_windows w)))"

definition transition_window_delta :: "workspace_preview option \<Rightarrow> workspace_preview option \<Rightarrow> int \<times> int \<Rightarrow> int \<times> int" where
  "transition_window_delta from_workspace to_workspace fallback =
     (case (from_workspace, to_workspace) of
        (Some f, Some t) \<Rightarrow>
          (case find_map (\<lambda>v. map_option (\<lambda>r. rect_delta r (wpv_overview_rect v))
                   (preview_window (Some f) (wpv_hwnd v))) (wsv_windows t) of
             Some d \<Rightarrow> d | None \<Rightarrow> rect_delta (wsv_frame_rect f) (wsv_frame_rect t))
      | _ \<Rightarrow> fallback)"

text \<open>Where a rectangle comes from and goes to when it is missing at one end: shifted by the delta.\<close>

definition transition_ends :: "rect option \<Rightarrow> rect option \<Rightarrow> int \<times> int \<Rightarrow> (rect \<times> rect) option" where
  "transition_ends a b d =
     Option.bind (or_opt a (map_option (\<lambda>r. translate_rect r (wrap_i32 (- fst d)) (wrap_i32 (- snd d))) b)) (\<lambda>x.
     Option.bind (or_opt b (map_option (\<lambda>r. translate_rect r (fst d) (snd d)) a)) (\<lambda>y.
       Some (x, y)))"

definition render_transition_window_frames ::
    "workspace_preview option \<Rightarrow> workspace_preview option \<Rightarrow> int \<times> int \<Rightarrow> nat \<Rightarrow> window_frame list" where
  "render_transition_window_frames from_workspace to_workspace stack_delta progress =
     (let d = transition_window_delta from_workspace to_workspace stack_delta;
          hwnds_of = (\<lambda>p. case p of Some w \<Rightarrow> map wpv_hwnd (wsv_windows w) | None \<Rightarrow> []);
          hwnds = fold push_new (hwnds_of from_workspace) (hwnds_of to_workspace)
      in List.map_filter (\<lambda>hwnd.
           map_option (\<lambda>(x, y). \<lparr>wf_hwnd = hwnd, wf_rect = interpolate_rect x y progress\<rparr>)
             (transition_ends (preview_window from_workspace hwnd) (preview_window to_workspace hwnd) d)) hwnds)"

text \<open>The four \<open>expect\<close> calls of the source are the \<open>None\<close> case: a panic.\<close>

definition transition_workspace ::
    "overview_scene \<Rightarrow> overview_scene \<Rightarrow> nat \<Rightarrow> workspace_id \<Rightarrow> workspace_frame option" where
  "transition_workspace from_scene to_scene progress w =
     (let d = transition_stack_delta from_scene to_scene;
          f = scene_workspace from_scene w; t = scene_workspace to_scene w
      in Option.bind (transition_ends (map_option wsv_canvas_rect f) (map_option wsv_canvas_rect t) d) (\<lambda>(c0, c1).
         Option.bind (transition_ends (map_option wsv_frame_rect f) (map_option wsv_frame_rect t) d) (\<lambda>(v0, v1).
           Some \<lparr>wkf_workspace_id = w, wkf_canvas_rect = interpolate_rect c0 c1 progress,
                 wkf_viewport_rect = interpolate_rect v0 v1 progress,
                 wkf_windows = render_transition_window_frames f t d progress\<rparr>)))"

definition render_frame_for_transition :: "overview_scene \<Rightarrow> overview_scene \<Rightarrow> nat \<Rightarrow> render_frame option" where
  "render_frame_for_transition from_scene to_scene progress =
     (let frames = map (transition_workspace from_scene to_scene progress)
                     (collect_transition_workspace_ids from_scene to_scene)
      in if None \<in> set frames then None
         else Some \<lparr>rf_monitor_rect =
                      interpolate_rect (sc_monitor_rect from_scene) (sc_monitor_rect to_scene) progress,
                    rf_workspaces = map the frames\<rparr>)"

section \<open>Targets and hits\<close>

definition preview_center_distance :: "workspace_frame \<Rightarrow> rect \<Rightarrow> int" where
  "preview_center_distance w m =
     \<bar>(rect_y (wkf_canvas_rect w) + int (rect_height (wkf_canvas_rect w) div 2)) -
      (rect_y m + int (rect_height m div 2))\<bar>"

definition ordered_frame_workspaces :: "render_frame \<Rightarrow> workspace_frame list" where
  "ordered_frame_workspaces f =
     sort_key (\<lambda>w. (- preview_center_distance w (rf_monitor_rect f), rect_y (wkf_canvas_rect w))) (rf_workspaces f)"

text \<open>\<open>min_by_key\<close> keeps the first of the least elements.\<close>

fun min_by_key :: "('a \<Rightarrow> int) \<Rightarrow> 'a list \<Rightarrow> 'a option" where
  "min_by_key k [] = None"
| "min_by_key k (x # xs) =
     (case min_by_key k xs of None \<Rightarrow> Some x | Some y \<Rightarrow> if k x \<le> k y then Some x else Some y)"

definition overview_viewport_column_rect :: "render_frame \<Rightarrow> rect option" where
  "overview_viewport_column_rect f =
     map_option (\<lambda>(_, v). rect_new (rect_x v) (rect_y (rf_monitor_rect f)) (rect_width v) (rect_height (rf_monitor_rect f)))
       (min_by_key fst (List.map_filter (\<lambda>w.
          map_option (\<lambda>v. (preview_center_distance w (rf_monitor_rect f), v))
            (intersect_rect (wkf_viewport_rect w) (rf_monitor_rect f))) (rf_workspaces f)))"

definition preview_click_targets ::
    "workspace_frame \<Rightarrow> rect \<Rightarrow> nat set \<Rightarrow> rect \<Rightarrow> click_target list" where
  "preview_click_targets w visible_canvas visible_hwnds origin =
     List.map_filter (\<lambda>v.
       map_option (\<lambda>r. \<lparr>ct_hwnd = wf_hwnd v, ct_workspace_id = wkf_workspace_id w, ct_rect = rect_relative_to r origin\<rparr>)
         (intersect_rect (wf_rect v) visible_canvas))
       (filter (\<lambda>v. wf_hwnd v \<in> visible_hwnds) (wkf_windows w))"

definition preview_click_targets_for_frame :: "render_frame \<Rightarrow> rect \<Rightarrow> nat set \<Rightarrow> click_target list" where
  "preview_click_targets_for_frame f visible_scene visible_hwnds =
     concat (map (\<lambda>w. case intersect_rect (wkf_canvas_rect w) visible_scene of
         None \<Rightarrow> []
       | Some canvas \<Rightarrow> preview_click_targets w canvas visible_hwnds visible_scene) (ordered_frame_workspaces f))"

definition workspace_drop_targets_for_frame :: "render_frame \<Rightarrow> rect \<Rightarrow> drop_target list" where
  "workspace_drop_targets_for_frame f visible_scene =
     List.map_filter (\<lambda>w.
       map_option (\<lambda>r. \<lparr>dt_workspace_id = wkf_workspace_id w, dt_rect = rect_relative_to r visible_scene\<rparr>)
         (intersect_rect (wkf_canvas_rect w) visible_scene)) (rf_workspaces f)"

definition preview_target_at_point :: "click_target list \<Rightarrow> int \<Rightarrow> int \<Rightarrow> click_target option" where
  "preview_target_at_point ts x y = find (\<lambda>t. rect_contains_point (ct_rect t) x y) (rev ts)"

definition hit_test_preview_targets :: "click_target list \<Rightarrow> int \<Rightarrow> int \<Rightarrow> nat option" where
  "hit_test_preview_targets ts x y = map_option ct_hwnd (preview_target_at_point ts x y)"

definition hit_test_workspace_drop_targets :: "drop_target list \<Rightarrow> int \<Rightarrow> int \<Rightarrow> workspace_id option" where
  "hit_test_workspace_drop_targets ts x y =
     map_option dt_workspace_id (find (\<lambda>t. rect_contains_point (dt_rect t) x y) (rev ts))"

end
