(* ===== verification/Overview_Properties.thy ===== *)
theory Overview_Properties
  imports Overview_Engine
begin

text \<open>What a click on the overview hits, and that a transition never panics.\<close>

section \<open>Rectangles that fit\<close>

definition rect_fits :: "rect \<Rightarrow> bool" where
  "rect_fits r \<longleftrightarrow>
     i32_min \<le> rect_x r \<and> rect_x r + int (rect_width r) \<le> i32_max \<and>
     i32_min \<le> rect_y r \<and> rect_y r + int (rect_height r) \<le> i32_max \<and>
     int (rect_width r) \<le> i32_max \<and> int (rect_height r) \<le> i32_max"

definition inside :: "rect \<Rightarrow> int \<Rightarrow> int \<Rightarrow> bool" where
  "inside r x y \<longleftrightarrow>
     rect_x r \<le> x \<and> x < rect_x r + int (rect_width r) \<and> rect_y r \<le> y \<and> y < rect_y r + int (rect_height r)"

lemma rect_edges:
  assumes "rect_fits r"
  shows "rect_right r = rect_x r + int (rect_width r)" "rect_bottom r = rect_y r + int (rect_height r)"
  using assms
  by (auto simp: rect_fits_def rect_right_def rect_bottom_def u32_clip_i32_def i32_sat_add_def sat_i32_def
      i32_min_def i32_max_def)

lemma contains_is_inside: "rect_fits r \<Longrightarrow> rect_contains_point r x y \<longleftrightarrow> inside r x y"
  by (simp add: rect_contains_point_def inside_def rect_edges)

lemma intersect_None:
  assumes "rect_fits l" "rect_fits r"
  shows "intersect_rect l r = None \<longleftrightarrow> \<not> (\<exists>x y. inside l x y \<and> inside r x y)"
proof
  assume "intersect_rect l r = None"
  then show "\<not> (\<exists>x y. inside l x y \<and> inside r x y)"
    using assms by (auto simp: intersect_rect_def Let_def rect_edges inside_def split: if_splits)
next
  assume "\<not> (\<exists>x y. inside l x y \<and> inside r x y)"
  then have "\<not> (inside l (max (rect_x l) (rect_x r)) (max (rect_y l) (rect_y r)) \<and>
      inside r (max (rect_x l) (rect_x r)) (max (rect_y l) (rect_y r)))" by blast
  then show "intersect_rect l r = None"
    using assms by (auto simp: intersect_rect_def Let_def rect_edges inside_def)
qed

lemma intersect_Some:
  assumes "rect_fits l" "rect_fits r" "intersect_rect l r = Some q"
  shows "rect_fits q" "inside q x y \<longleftrightarrow> inside l x y \<and> inside r x y"
proof -
  let ?x = "max (rect_x l) (rect_x r)" and ?y = "max (rect_y l) (rect_y r)"
  let ?w = "min (rect_right l) (rect_right r) - ?x" and ?h = "min (rect_bottom l) (rect_bottom r) - ?y"
  have pos: "0 < ?w" "0 < ?h" and q: "q = rect_new ?x ?y (i32_as_u32 (wrap_i32 ?w)) (i32_as_u32 (wrap_i32 ?h))"
    using assms(3) by (auto simp: intersect_rect_def Let_def split: if_splits)
  have "?w \<le> int (rect_width l)" "?h \<le> int (rect_height l)"
    unfolding rect_edges [OF assms(1)] by (simp_all add: min_def max_def)
  then have small: "?w \<le> i32_max" "?h \<le> i32_max" using assms(1) by (simp_all add: rect_fits_def)
  have size: "i32_as_u32 (wrap_i32 z) = nat z" if "0 < z" "z \<le> i32_max" for z
  proof -
    have "wrap_i32 z = z" using that by (intro wrap_i32_id) (simp add: is_i32_def i32_min_def)
    then show ?thesis using that by (simp add: i32_as_u32_id i32_max_def)
  qed
  have parts: "rect_x q = ?x" "rect_y q = ?y" "int (rect_width q) = ?w" "int (rect_height q) = ?h"
    using size [OF pos(1) small(1)] size [OF pos(2) small(2)] pos unfolding q
    by (simp_all only: rect_new_def rect.simps nat_0_le less_imp_le)
  then have edges: "?x + int (rect_width q) = min (rect_right l) (rect_right r)"
    "?y + int (rect_height q) = min (rect_bottom l) (rect_bottom r)" by linarith+
  have "i32_min \<le> ?x" "i32_min \<le> ?y" using assms(1) by (simp_all add: rect_fits_def le_max_iff_disj)
  moreover have "min (rect_right l) (rect_right r) \<le> i32_max" "min (rect_bottom l) (rect_bottom r) \<le> i32_max"
    using assms(1) by (simp_all add: rect_fits_def rect_edges min_le_iff_disj)
  ultimately show "rect_fits q" using small unfolding rect_fits_def parts add_diff_eq add_diff_cancel_left' by blast
  show "inside q x y \<longleftrightarrow> inside l x y \<and> inside r x y"
    unfolding inside_def edges parts(1,2) rect_edges [OF assms(1)] rect_edges [OF assms(2)]
      max.bounded_iff min_less_iff_conj by blast
qed

lemma contains_relative:
  assumes "rect_fits q" "rect_fits s" "\<And>x y. inside q x y \<Longrightarrow> inside s x y" "inside q a b"
  shows "rect_contains_point (rect_relative_to q s) x y \<longleftrightarrow> inside q (x + rect_x s) (y + rect_y s)"
proof -
  have "inside q (rect_x q) (rect_y q)" using assms(4) by (auto simp: inside_def)
  then have corner: "inside s (rect_x q) (rect_y q)" by (rule assms(3))
  have "inside q (rect_x q + int (rect_width q) - 1) (rect_y q + int (rect_height q) - 1)"
    using assms(4) by (auto simp: inside_def)
  then have far: "inside s (rect_x q + int (rect_width q) - 1) (rect_y q + int (rect_height q) - 1)"
    by (rule assms(3))
  have "rect_x (rect_relative_to q s) = rect_x q - rect_x s" "rect_y (rect_relative_to q s) = rect_y q - rect_y s"
    "rect_width (rect_relative_to q s) = rect_width q" "rect_height (rect_relative_to q s) = rect_height q"
    using corner assms(2)
    by (auto simp: rect_relative_to_def rect_new_def i32_sat_sub_def sat_i32_def inside_def rect_fits_def i32_min_def
        i32_max_def)
  moreover from this have "rect_fits (rect_relative_to q s)"
    using corner far assms(1,2) by (auto simp: rect_fits_def inside_def i32_min_def)
  ultimately show ?thesis by (auto simp: contains_is_inside inside_def)
qed

section \<open>Click targets\<close>

lemma in_case_option: "x \<in> set (case r of None \<Rightarrow> [] | Some c \<Rightarrow> g c) \<longleftrightarrow> (\<exists>c. r = Some c \<and> x \<in> set (g c))"
  by (cases r) auto

lemma map_filter_set: "x \<in> set (List.map_filter f xs) \<longleftrightarrow> (\<exists>y \<in> set xs. f y = Some x)"
  by (force simp: List.map_filter_def)

lemma in_targets:
  "t \<in> set (preview_click_targets_for_frame f s vis) \<longleftrightarrow>
     (\<exists>w \<in> set (rf_workspaces f). \<exists>canvas. intersect_rect (wkf_canvas_rect w) s = Some canvas \<and>
        (\<exists>v \<in> set (wkf_windows w). wf_hwnd v \<in> vis \<and> (\<exists>q. intersect_rect (wf_rect v) canvas = Some q \<and>
           t = \<lparr>ct_hwnd = wf_hwnd v, ct_workspace_id = wkf_workspace_id w, ct_rect = rect_relative_to q s\<rparr>)))"
  unfolding preview_click_targets_for_frame_def preview_click_targets_def
  by (simp add: ordered_frame_workspaces_def in_case_option map_filter_set Bex_def conj_assoc) metis

definition frame_fits :: "render_frame \<Rightarrow> bool" where
  "frame_fits f \<longleftrightarrow>
     (\<forall>w \<in> set (rf_workspaces f). rect_fits (wkf_canvas_rect w) \<and> (\<forall>v \<in> set (wkf_windows w). rect_fits (wf_rect v)))"

text \<open>A window shows at a point of the scene when the point is in it, in its canvas and in the scene.\<close>

definition shows_at :: "render_frame \<Rightarrow> rect \<Rightarrow> nat set \<Rightarrow> int \<Rightarrow> int \<Rightarrow> nat \<Rightarrow> bool" where
  "shows_at f scene visible_hwnds x y hwnd \<longleftrightarrow>
     hwnd \<in> visible_hwnds \<and> inside scene x y \<and>
     (\<exists>w \<in> set (rf_workspaces f). inside (wkf_canvas_rect w) x y \<and>
        (\<exists>v \<in> set (wkf_windows w). wf_hwnd v = hwnd \<and> inside (wf_rect v) x y))"

lemma target_at_point:
  assumes "frame_fits f" "rect_fits s"
  shows "(\<exists>t \<in> set (preview_click_targets_for_frame f s vis). ct_hwnd t = h \<and> rect_contains_point (ct_rect t) x y) \<longleftrightarrow>
    shows_at f s vis (x + rect_x s) (y + rect_y s) h" (is "?L \<longleftrightarrow> ?R")
proof
  assume ?L
  then obtain w canvas v q where w: "w \<in> set (rf_workspaces f)" "intersect_rect (wkf_canvas_rect w) s = Some canvas"
    and v: "v \<in> set (wkf_windows w)" "wf_hwnd v \<in> vis" "wf_hwnd v = h" "intersect_rect (wf_rect v) canvas = Some q"
    and hit: "rect_contains_point (rect_relative_to q s) x y"
    by (auto simp: Bex_def in_targets)
  have fit: "rect_fits (wkf_canvas_rect w)" "rect_fits (wf_rect v)" using assms(1) w(1) v(1) by (auto simp: frame_fits_def)
  note canvas = intersect_Some [OF fit(1) assms(2) w(2)]
  note q = intersect_Some [OF fit(2) canvas(1) v(4)]
  obtain a b where "inside q a b"
    using intersect_None [OF fit(2) canvas(1)] v(4) q(2) by auto
  then have "inside q (x + rect_x s) (y + rect_y s)"
    using contains_relative [OF q(1) assms(2), of a b x y] hit canvas(2) q(2) by blast
  then show ?R using w(1) v canvas(2) q(2) by (auto simp: shows_at_def)
next
  let ?x = "x + rect_x s" and ?y = "y + rect_y s"
  assume ?R
  then obtain w v where w: "w \<in> set (rf_workspaces f)" "inside (wkf_canvas_rect w) ?x ?y"
    and v: "v \<in> set (wkf_windows w)" "wf_hwnd v = h" "inside (wf_rect v) ?x ?y" and s: "inside s ?x ?y" "h \<in> vis"
    by (auto simp: shows_at_def)
  have fit: "rect_fits (wkf_canvas_rect w)" "rect_fits (wf_rect v)" using assms(1) w(1) v(1) by (auto simp: frame_fits_def)
  obtain canvas where canvas: "intersect_rect (wkf_canvas_rect w) s = Some canvas"
    using intersect_None [OF fit(1) assms(2)] w(2) s(1) by (cases "intersect_rect (wkf_canvas_rect w) s") auto
  note c = intersect_Some [OF fit(1) assms(2) canvas]
  obtain q where q: "intersect_rect (wf_rect v) canvas = Some q"
    using intersect_None [OF fit(2) c(1)] w(2) v(3) s(1) c(2) by (cases "intersect_rect (wf_rect v) canvas") auto
  note i = intersect_Some [OF fit(2) c(1) q]
  have "inside q ?x ?y" using i(2) c(2) w(2) v(3) s(1) by simp
  then have "rect_contains_point (rect_relative_to q s) x y"
    using contains_relative [OF i(1) assms(2), of ?x ?y x y] i(2) c(2) by blast
  moreover have "\<lparr>ct_hwnd = h, ct_workspace_id = wkf_workspace_id w, ct_rect = rect_relative_to q s\<rparr>
      \<in> set (preview_click_targets_for_frame f s vis)"
    using w(1) canvas v q s(2)
    unfolding in_targets by blast
  ultimately show ?L by force
qed

text \<open>
  C39: a click on the overview hits a window exactly when one shows there: the window returned is
  visible and the point lies in its rectangle, in the canvas of its workspace and in the scene,
  and nothing is returned only where no such window exists. The coordinates of the click are
  relative to the scene, and no rectangle overflows.
\<close>

theorem click_hits_what_shows:
  assumes "frame_fits f" "rect_fits s"
  shows "case hit_test_preview_targets (preview_click_targets_for_frame f s vis) x y of
           Some h \<Rightarrow> shows_at f s vis (x + rect_x s) (y + rect_y s) h
         | None \<Rightarrow> \<not> (\<exists>h. shows_at f s vis (x + rect_x s) (y + rect_y s) h)"
proof (cases "preview_target_at_point (preview_click_targets_for_frame f s vis) x y")
  case None
  then have "\<forall>t \<in> set (preview_click_targets_for_frame f s vis). \<not> rect_contains_point (ct_rect t) x y"
    by (simp add: preview_target_at_point_def find_None_iff)
  then show ?thesis
    using target_at_point [OF assms, of vis _ x y] None by (simp add: hit_test_preview_targets_def)
next
  case (Some t)
  then have "t \<in> set (preview_click_targets_for_frame f s vis)" "rect_contains_point (ct_rect t) x y"
    unfolding preview_target_at_point_def find_Some_iff by (metis length_rev nth_mem set_rev)+
  then show ?thesis
    using target_at_point [OF assms, of vis "ct_hwnd t" x y] Some by (auto simp: hit_test_preview_targets_def)
qed

definition sample_frame :: render_frame where
  "sample_frame = \<lparr>rf_monitor_rect = rect_new 0 0 800 600, rf_workspaces =
     [\<lparr>wkf_workspace_id = WorkspaceId 1, wkf_canvas_rect = rect_new 0 150 800 300,
       wkf_viewport_rect = rect_new 200 150 400 300, wkf_windows = [\<lparr>wf_hwnd = 7, wf_rect = rect_new 200 100 100 100\<rparr>]\<rparr>]\<rparr>"

theorem click_hits_what_shows_witness:
  "hit_test_preview_targets (preview_click_targets_for_frame sample_frame (rect_new 0 0 800 600) {7}) 250 160 = Some 7"
proof -
  have fits: "frame_fits sample_frame" "rect_fits (rect_new 0 0 800 600)"
    by (simp_all add: frame_fits_def sample_frame_def rect_fits_def rect_new_def i32_min_def i32_max_def)
  have "shows_at sample_frame (rect_new 0 0 800 600) {7} 250 160 h \<longleftrightarrow> h = 7" for h
    by (auto simp: shows_at_def sample_frame_def inside_def rect_new_def)
  then show ?thesis
    using click_hits_what_shows [OF fits, of "{7}" 250 160] by (auto simp: rect_new_def split: option.splits)
qed

section \<open>Transitions\<close>

lemma in_collected:
  "w \<in> set (collect_transition_workspace_ids a b) \<longleftrightarrow>
   w \<in> wsv_workspace_id ` set (sc_workspaces a) \<or> w \<in> wsv_workspace_id ` set (sc_workspaces b)"
proof -
  have "set (fold push_new xs ys) = set xs \<union> set ys" for xs ys :: "workspace_id list"
    by (induction xs arbitrary: ys) (auto simp: push_new_def)
  then show ?thesis by (auto simp: collect_transition_workspace_ids_def)
qed

lemma scene_workspace_found: "w \<in> wsv_workspace_id ` set (sc_workspaces a) \<Longrightarrow> scene_workspace a w \<noteq> None"
  by (auto simp: scene_workspace_def find_None_iff)

lemma transition_ends_total: "a \<noteq> None \<or> b \<noteq> None \<Longrightarrow> \<exists>x y. transition_ends a b d = Some (x, y)"
  by (cases a; cases b) (auto simp: transition_ends_def or_opt_def)

text \<open>The \<open>expect\<close> calls of a transition never fail.\<close>

lemma transition_total: "render_frame_for_transition a b progress \<noteq> None"
proof -
  have "transition_workspace a b progress w \<noteq> None" if "w \<in> set (collect_transition_workspace_ids a b)" for w
  proof -
    let ?f = "scene_workspace a w" and ?t = "scene_workspace b w"
    have "?f \<noteq> None \<or> ?t \<noteq> None" using that scene_workspace_found in_collected by metis
    then have "map_option g ?f \<noteq> None \<or> map_option g ?t \<noteq> None" for g :: "workspace_preview \<Rightarrow> rect" by auto
    then have ends: "\<exists>x y. transition_ends (map_option g ?f) (map_option g ?t) (transition_stack_delta a b) = Some (x, y)"
      for g :: "workspace_preview \<Rightarrow> rect" by (rule transition_ends_total)
    show ?thesis using ends [of wsv_canvas_rect] ends [of wsv_frame_rect] by (auto simp: transition_workspace_def Let_def)
  qed
  then have "None \<notin> set (map (transition_workspace a b progress) (collect_transition_workspace_ids a b))" by force
  then show ?thesis by (simp add: render_frame_for_transition_def Let_def)
qed

end
