(* ===== verification/Platform_Model.thy ===== *)
theory Platform_Model
  imports Config_Parse Domain_Events Diagnostics
begin

text \<open>
  \<open>crates/windows-adapter/src/lib.rs\<close>: what the platform tells the runtime (snapshots of monitors
  and windows, observations), what the runtime asks of it (apply operations), and the adapter that
  stands between them. The Win32 calls behind the adapter are the parameter \<open>platform\<close>.
\<close>

section \<open>Snapshots\<close>

definition primary_discovery_api :: string where
  "primary_discovery_api = ''SetWinEventHook''"

definition fallback_discovery_path :: string where
  "fallback_discovery_path = ''full-window-scan''"

definition tiled_visual_overlap_x_px :: int where
  "tiled_visual_overlap_x_px = 0"

definition window_switch_animation_duration_ms :: nat where
  "window_switch_animation_duration_ms = 90"

definition window_switch_animation_frame_count :: nat where
  "window_switch_animation_frame_count = 6"

record adapter_bootstrap =
  ab_discovery_api :: string
  ab_fallback_path :: string
  ab_batches_geometry_operations :: bool
  ab_owns_product_policy :: bool

definition adapter_bootstrap_value :: adapter_bootstrap where
  "adapter_bootstrap_value =
     \<lparr>ab_discovery_api = primary_discovery_api, ab_fallback_path = fallback_discovery_path,
      ab_batches_geometry_operations = True, ab_owns_product_policy = False\<rparr>"

record platform_monitor =
  pmo_binding :: string
  pmo_work_area_rect :: rect
  pmo_dpi :: nat
  pmo_is_primary :: bool

record platform_window =
  pw_hwnd :: nat
  pw_title :: string
  pw_class_name :: string
  pw_process_id :: nat
  pw_process_name :: "string option"
  pw_rect :: rect
  pw_monitor_binding :: string
  pw_is_visible :: bool
  pw_is_focused :: bool
  pw_management_candidate :: bool

record platform_snapshot =
  psn_foreground_hwnd :: "nat option"
  psn_monitors :: "platform_monitor list"
  psn_windows :: "platform_window list"

text \<open>Both sorts are stable; a comparison reversed on a flag sorts by its negation.\<close>

definition sort_for_stability :: "platform_snapshot \<Rightarrow> platform_snapshot" where
  "sort_for_stability p =
     p\<lparr>psn_monitors := sort_key (\<lambda>m. (\<not> pmo_is_primary m, pmo_binding m)) (psn_monitors p),
       psn_windows :=
         sort_key (\<lambda>w. (\<not> pw_is_focused w, pw_monitor_binding w, rect_x (pw_rect w),
                        rect_y (pw_rect w), pw_hwnd w)) (psn_windows p)\<rparr>"

definition snapshot_focused_window :: "platform_snapshot \<Rightarrow> platform_window option" where
  "snapshot_focused_window p = find pw_is_focused (psn_windows p)"

definition actual_foreground_hwnd :: "platform_snapshot \<Rightarrow> nat option" where
  "actual_foreground_hwnd p =
     or_opt (psn_foreground_hwnd p) (map_option pw_hwnd (snapshot_focused_window p))"

text \<open>Collecting the windows into a map keyed by handle: the last window of a handle wins.\<close>

definition window_by_hwnd :: "platform_snapshot \<Rightarrow> nat \<Rightarrow> platform_window option" where
  "window_by_hwnd p h = find (\<lambda>w. pw_hwnd w = h) (rev (psn_windows p))"

definition snapshot_hwnds :: "platform_snapshot \<Rightarrow> nat list" where
  "snapshot_hwnds p = map pw_hwnd (psn_windows p)"

record snapshot_diff =
  sd_created_windows :: "platform_window list"
  sd_destroyed_hwnds :: "nat list"
  sd_focused_hwnd :: "nat option"
  sd_monitor_topology_changed :: bool

definition diff_initial :: "platform_snapshot \<Rightarrow> snapshot_diff" where
  "diff_initial p =
     \<lparr>sd_created_windows = psn_windows p, sd_destroyed_hwnds = [],
      sd_focused_hwnd = actual_foreground_hwnd p,
      sd_monitor_topology_changed = (psn_monitors p \<noteq> [])\<rparr>"

definition diff_snapshots :: "platform_snapshot \<Rightarrow> platform_snapshot \<Rightarrow> snapshot_diff" where
  "diff_snapshots previous current =
     \<lparr>sd_created_windows =
        filter (\<lambda>w. pw_hwnd w \<notin> set (snapshot_hwnds previous)) (psn_windows current),
      sd_destroyed_hwnds =
        map pw_hwnd (filter (\<lambda>w. pw_hwnd w \<notin> set (snapshot_hwnds current)) (psn_windows previous)),
      sd_focused_hwnd =
        (if actual_foreground_hwnd previous \<noteq> actual_foreground_hwnd current
         then actual_foreground_hwnd current else None),
      sd_monitor_topology_changed = (psn_monitors previous \<noteq> psn_monitors current)\<rparr>"

section \<open>Observations\<close>

datatype observation_kind = SnapshotSeen | WarningSeen | SuspendSeen | ResumeSeen

record observation_envelope =
  ob_kind :: observation_kind
  ob_reason :: string
  ob_snapshot :: "platform_snapshot option"
  ob_message :: "string option"

datatype adapter_error = AdapterIo io_error | RuntimeFailed string string

fun adapter_error_text :: "adapter_error \<Rightarrow> string" where
  "adapter_error_text (AdapterIo (NotFound m)) = m"
| "adapter_error_text (AdapterIo (OtherIo m)) = m"
| "adapter_error_text (RuntimeFailed component message) = component @ '' failed: '' @ message"

datatype stream_error = StreamAdapter adapter_error | ChannelClosed | StreamTimeout

fun stream_error_text :: "stream_error \<Rightarrow> string" where
  "stream_error_text (StreamAdapter e) = adapter_error_text e"
| "stream_error_text ChannelClosed = ''observation stream channel closed''"
| "stream_error_text StreamTimeout = ''timed out waiting for observation event''"

text \<open>What the channel of the observer answers, and whether the observer thread has exited.\<close>

datatype channel_answer = Received observation_envelope | NothingYet | Hung_up

definition backend_exit_error :: "bool \<Rightarrow> adapter_error option" where
  "backend_exit_error finished =
     (if finished then Some (RuntimeFailed ''native-observer'' ''observer thread exited'') else None)"

definition recv_timeout :: "bool \<Rightarrow> channel_answer \<Rightarrow> stream_error + observation_envelope" where
  "recv_timeout finished answer =
     (case answer of
        Received e \<Rightarrow> Inr e
      | NothingYet \<Rightarrow>
          (case backend_exit_error finished of Some e \<Rightarrow> Inl (StreamAdapter e) | None \<Rightarrow> Inl StreamTimeout)
      | Hung_up \<Rightarrow>
          (case backend_exit_error finished of Some e \<Rightarrow> Inl (StreamAdapter e) | None \<Rightarrow> Inl ChannelClosed))"

section \<open>Apply operations\<close>

record window_switch_animation =
  wsa_from_rect :: rect
  wsa_duration_ms :: nat
  wsa_frame_count :: nat

datatype opacity_mode = DirectLayered | BrowserSurrogate | OverlayDim

record visual_emphasis =
  ve_opacity_alpha :: "nat option"
  ve_opacity_mode :: opacity_mode
  ve_force_clear_layered_style :: bool
  ve_disable_visual_effects :: bool
  ve_border_color_rgb :: "nat option"
  ve_border_thickness_px :: nat
  ve_rounded_corners :: bool

datatype presentation_mode = NativeVisible | NativeHidden | SurrogateVisible | SurrogateClipped

fun presentation_mode_as_str :: "presentation_mode \<Rightarrow> string" where
  "presentation_mode_as_str NativeVisible = ''native-visible''"
| "presentation_mode_as_str NativeHidden = ''native-hidden''"
| "presentation_mode_as_str SurrogateVisible = ''surrogate-visible''"
| "presentation_mode_as_str SurrogateClipped = ''surrogate-clipped''"

record surrogate_clip =
  sc_destination_rect :: rect
  sc_source_rect :: rect
  sc_native_visible_rect :: rect

datatype scene_slice_kind = ForeignMonitorSurrogate

record scene_slice =
  ss_kind :: scene_slice_kind
  ss_monitor_rect :: rect
  ss_destination_rect :: rect
  ss_source_rect :: rect
  ss_native_visible_rect :: rect

record monitor_scene =
  ms_home_visible_rect :: "rect option"
  ms_slices :: "scene_slice list"

definition monitor_scene_default :: monitor_scene where
  "monitor_scene_default = \<lparr>ms_home_visible_rect = None, ms_slices = []\<rparr>"

record presentation =
  pr_mode :: presentation_mode
  pr_surrogate :: "surrogate_clip option"
  pr_monitor_scene :: monitor_scene

definition presentation_default :: presentation where
  "presentation_default =
     \<lparr>pr_mode = NativeVisible, pr_surrogate = None, pr_monitor_scene = monitor_scene_default\<rparr>"

record presentation_override =
  po_mode :: presentation_mode
  po_reason :: string

record apply_operation =
  op_hwnd :: nat
  op_rect :: rect
  op_apply_geometry :: bool
  op_activate :: bool
  op_suppress_visual_gap :: bool
  op_window_switch_animation :: "window_switch_animation option"
  op_visual_emphasis :: "visual_emphasis option"
  op_presentation :: presentation

record apply_failure =
  af_hwnd :: nat
  af_message :: string

record apply_batch_result =
  br_attempted :: nat
  br_applied :: nat
  br_failures :: "apply_failure list"

definition apply_batch_default :: apply_batch_result where
  "apply_batch_default = \<lparr>br_attempted = 0, br_applied = 0, br_failures = []\<rparr>"

text \<open>\<open>i32::abs\<close>, which maps the least value to itself in a release build.\<close>

definition i32_abs :: "int \<Rightarrow> int" where
  "i32_abs x = wrap_i32 (abs x)"

definition needs_geometry_apply :: "rect \<Rightarrow> rect \<Rightarrow> bool" where
  "needs_geometry_apply actual desired \<longleftrightarrow> actual \<noteq> desired"

definition needs_tiled_gapless_geometry_apply :: "rect \<Rightarrow> rect \<Rightarrow> bool" where
  "needs_tiled_gapless_geometry_apply actual desired \<longleftrightarrow>
     (let overlap = max tiled_visual_overlap_x_px 0;
          desired_right = i32_sat_add (rect_x desired) (u32_as_i32 (rect_width desired));
          actual_right = i32_sat_add (rect_x actual) (u32_as_i32 (rect_width actual));
          desired_left_shift = (if 0 < rect_x desired then overlap else 0);
          actual_left_shift = i32_sat_sub (rect_x desired) (rect_x actual);
          right_delta = i32_sat_sub actual_right desired_right
      in rect_y actual \<noteq> rect_y desired \<or> rect_height actual \<noteq> rect_height desired \<or>
         actual_left_shift \<noteq> desired_left_shift \<or> overlap < i32_abs right_delta)"

definition needs_activation_apply :: "nat option \<Rightarrow> nat \<Rightarrow> bool" where
  "needs_activation_apply actual desired \<longleftrightarrow> actual \<noteq> Some desired"

definition missing_monitor_bindings :: "platform_snapshot \<Rightarrow> string list \<Rightarrow> string list" where
  "missing_monitor_bindings p known = filter (\<lambda>b. b \<notin> pmo_binding ` set (psn_monitors p)) known"

section \<open>The adapter\<close>

text \<open>
  The platform: scanning, applying and clearing run against a world they may change; the clock
  (nanoseconds), the wall clock (seconds) and the files are part of that world. The KDL crate is a
  parameter too.
\<close>

record ('w, 'n) platform =
  pf_scan :: "'w \<Rightarrow> (adapter_error + platform_snapshot) \<times> 'w"
  pf_apply :: "apply_operation list \<Rightarrow> 'w \<Rightarrow> apply_batch_result \<times> 'w"
  pf_clear :: "nat list \<Rightarrow> 'w \<Rightarrow> (string + unit) \<times> 'w"
  pf_materialized :: "'w \<Rightarrow> nat set"
  pf_overrides :: "'w \<Rightarrow> nat \<Rightarrow> presentation_override option"
  pf_now :: "'w \<Rightarrow> nat \<times> 'w"
  pf_unix :: "'w \<Rightarrow> nat \<times> 'w"
  pf_read :: "'w \<Rightarrow> string \<Rightarrow> io_error + string"
  pf_kdl_api :: "'n kdl_api"
  pf_kdl_parse :: "string \<Rightarrow> 'n list option"

record adapter_perf =
  ap_scan_snapshot :: perf_metric
  ap_apply_operations :: perf_metric
  ap_observer_incremental_event :: perf_metric
  ap_observer_rescan_snapshot :: perf_metric

definition adapter_perf_new :: adapter_perf where
  "adapter_perf_new =
     \<lparr>ap_scan_snapshot = perf_metric_new, ap_apply_operations = perf_metric_new,
      ap_observer_incremental_event = perf_metric_new, ap_observer_rescan_snapshot = perf_metric_new\<rparr>"

definition adapter_perf_snapshot :: "adapter_perf \<Rightarrow> perf_metric_snapshot list" where
  "adapter_perf_snapshot p =
     [perf_snapshot ''adapter.scan-snapshot'' (ap_scan_snapshot p),
      perf_snapshot ''adapter.apply-operations'' (ap_apply_operations p),
      perf_snapshot ''adapter.observer.incremental-event'' (ap_observer_incremental_event p),
      perf_snapshot ''adapter.observer.full-rescan'' (ap_observer_rescan_snapshot p)]"

record 'w adapter =
  ad_perf :: adapter_perf
  ad_world :: 'w

definition adapter_new :: "'w \<Rightarrow> 'w adapter" where
  "adapter_new w = \<lparr>ad_perf = adapter_perf_new, ad_world = w\<rparr>"

text \<open>A call of the platform, and reading the clock.\<close>

definition on_world :: "('w \<Rightarrow> 'a \<times> 'w) \<Rightarrow> 'w adapter \<Rightarrow> 'a \<times> 'w adapter" where
  "on_world f a = (let (x, w) = f (ad_world a) in (x, a\<lparr>ad_world := w\<rparr>))"

definition elapsed_micros :: "nat \<Rightarrow> nat \<Rightarrow> nat" where
  "elapsed_micros started_at now = (now - started_at) div 1000"

definition adapter_scan_snapshot :: "('w, 'n) platform \<Rightarrow> ('w adapter, adapter_error, platform_snapshot) act" where
  "adapter_scan_snapshot pf =
     bindA (stateA (on_world (pf_now pf))) (\<lambda>started_at.
     bindA (stateA (on_world (pf_scan pf))) (\<lambda>result.
     bindA (stateA (on_world (pf_now pf))) (\<lambda>now.
     thenA (modify (\<lambda>a. a\<lparr>ad_perf := (ad_perf a)\<lparr>ap_scan_snapshot :=
       (if isl result then record_error else id)
         (record_duration (elapsed_micros started_at now) (ap_scan_snapshot (ad_perf a)))\<rparr>\<rparr>))
     (tryA (\<lambda>_. result)))))"

definition adapter_apply_operations ::
    "('w, 'n) platform \<Rightarrow> apply_operation list \<Rightarrow> ('w adapter, adapter_error, apply_batch_result) act" where
  "adapter_apply_operations pf ops =
     (if ops = [] then
        thenA (modify (\<lambda>a. a\<lparr>ad_perf := (ad_perf a)\<lparr>ap_apply_operations :=
                 record_skip (ap_apply_operations (ad_perf a))\<rparr>\<rparr>))
          (ret apply_batch_default)
      else
        bindA (stateA (on_world (pf_now pf))) (\<lambda>started_at.
        bindA (stateA (on_world (pf_apply pf ops))) (\<lambda>batch.
        bindA (stateA (on_world (pf_now pf))) (\<lambda>now.
        thenA (modify (\<lambda>a. a\<lparr>ad_perf := (ad_perf a)\<lparr>ap_apply_operations :=
          (if br_failures batch \<noteq> [] then record_error else id)
            (record_duration (elapsed_micros started_at now) (ap_apply_operations (ad_perf a)))\<rparr>\<rparr>))
        (ret batch)))))"

definition adapter_clear_window_presentations ::
    "('w, 'n) platform \<Rightarrow> nat list \<Rightarrow> ('w adapter, adapter_error, unit) act" where
  "adapter_clear_window_presentations pf hwnds =
     bindA (stateA (on_world (pf_clear pf hwnds))) (\<lambda>result.
     tryA (\<lambda>_. map_err (RuntimeFailed ''native-apply'') result))"

end
