(* ===== verification/Desktop_Materialization.thy ===== *)
theory Desktop_Materialization
  imports Platform_Model Layout_Engine
begin

text \<open>
  \<open>crates/wm-core/src/runtime/desktop_materialization.rs\<close>: where each window of the layouts goes
  on the desktop. The workspaces of a monitor are bands stacked above and below the active one; a
  window is shown natively, shown through a surrogate, clipped, or parked to the right of every monitor.
\<close>

datatype presentation_reason =
    ActiveWindowNative
  | NonTiledLayerNative
  | InactiveFullyVisibleSurrogate
  | InactiveClippedSurrogate
  | InactiveOutsideMonitorHidden

fun presentation_reason_as_str :: "presentation_reason \<Rightarrow> string" where
  "presentation_reason_as_str ActiveWindowNative = ''active-window-native''"
| "presentation_reason_as_str NonTiledLayerNative = ''non-tiled-layer-native''"
| "presentation_reason_as_str InactiveFullyVisibleSurrogate = ''inactive-fully-visible-surrogate''"
| "presentation_reason_as_str InactiveClippedSurrogate = ''inactive-clipped-surrogate''"
| "presentation_reason_as_str InactiveOutsideMonitorHidden = ''inactive-outside-monitor-hidden''"

text \<open>
  The modes are the four of the adapter: the source declares them a second time with the same
  names and converts one into the other variant by variant.
\<close>

record monitor_slice =
  sl_kind :: scene_slice_kind
  sl_monitor_work_area :: rect
  sl_destination_rect :: rect
  sl_source_rect :: rect

record workspace_band =
  wb_workspace_id :: workspace_id
  wb_monitor_id :: monitor_id
  wb_is_active :: bool
  wb_local_work_area :: rect
  wb_desktop_band_rect :: rect
  wb_vertical_offset_from_active :: int

record desktop_window =
  dw_window_id :: window_id
  dw_workspace_id :: workspace_id
  dw_monitor_id :: monitor_id
  dw_layer :: window_layer
  dw_workspace_local_rect :: rect
  dw_logical_desktop_rect :: rect
  dw_desktop_rect :: rect
  dw_owning_monitor_visible_rect :: "rect option"
  dw_presentation_mode :: presentation_mode
  dw_presentation_reason :: presentation_reason
  dw_surrogate_rect :: "rect option"
  dw_surrogate_source_rect :: "rect option"
  dw_monitor_slices :: "monitor_slice list"

record monitor_desktop =
  md_monitor_id :: monitor_id
  md_work_area :: rect
  md_padded_viewport :: rect
  md_active_workspace_id :: "workspace_id option"
  md_workspace_bands :: "workspace_band list"

record desktop_projection =
  dp_monitors :: "(monitor_id, monitor_desktop) bmap"
  dp_windows :: "(window_id, desktop_window) bmap"

record desktop_bounds =
  db_left :: int
  db_right :: int

section \<open>Rectangles\<close>

definition desk_right :: "rect \<Rightarrow> int" where
  "desk_right r = i32_sat_add (rect_x r) (u32_clip_i32 (rect_width r))"

definition desk_bottom :: "rect \<Rightarrow> int" where
  "desk_bottom r = i32_sat_add (rect_y r) (u32_clip_i32 (rect_height r))"

definition desk_intersect :: "rect \<Rightarrow> rect \<Rightarrow> rect option" where
  "desk_intersect left right =
     (let l = max (rect_x left) (rect_x right);
          t = max (rect_y left) (rect_y right);
          w = i32_sat_sub (min (desk_right left) (desk_right right)) l;
          h = i32_sat_sub (min (desk_bottom left) (desk_bottom right)) t
      in if w \<le> 0 \<or> h \<le> 0 then None else Some (rect_new l t (i32_as_u32 w) (i32_as_u32 h)))"

definition translate_rect_to_band :: "rect \<Rightarrow> rect \<Rightarrow> rect \<Rightarrow> rect" where
  "translate_rect_to_band r source_work_area band =
     rect_new (i32_sat_add (rect_x band) (i32_sat_sub (rect_x r) (rect_x source_work_area)))
       (i32_sat_add (rect_y band) (i32_sat_sub (rect_y r) (rect_y source_work_area)))
       (rect_width r) (rect_height r)"

definition park_rect_outside_desktop :: "rect \<Rightarrow> desktop_bounds \<Rightarrow> rect" where
  "park_rect_outside_desktop r bounds =
     rect_new (i32_sat_add (db_right bounds) 1) (rect_y r) (rect_width r) (rect_height r)"

definition source_rect_within_logical_desktop_rect :: "rect \<Rightarrow> rect \<Rightarrow> rect" where
  "source_rect_within_logical_desktop_rect logical visible =
     rect_new (i32_sat_sub (rect_x visible) (rect_x logical))
       (i32_sat_sub (rect_y visible) (rect_y logical)) (rect_width visible) (rect_height visible)"

definition full_source_rect_for_logical_desktop_rect :: "rect \<Rightarrow> rect" where
  "full_source_rect_for_logical_desktop_rect logical =
     rect_new 0 0 (rect_width logical) (rect_height logical)"

definition desktop_horizontal_bounds :: "wm_state \<Rightarrow> desktop_bounds" where
  "desktop_horizontal_bounds s =
     (let areas = map mon_work_area_rect (bm_values (monitors s))
      in \<lparr>db_left = (if areas = [] then 0 else Min (set (map rect_x areas))),
          db_right = (if areas = [] then 0 else Max (set (map desk_right areas)))\<rparr>)"

section \<open>One window\<close>

definition foreign_monitor_slice :: "rect \<Rightarrow> rect \<Rightarrow> monitor_slice option" where
  "foreign_monitor_slice logical work_area =
     map_option
       (\<lambda>destination.
          \<lparr>sl_kind = ForeignMonitorSurrogate, sl_monitor_work_area = work_area,
           sl_destination_rect = destination,
           sl_source_rect = source_rect_within_logical_desktop_rect logical destination\<rparr>)
       (desk_intersect logical work_area)"

definition build_foreign_monitor_slices ::
    "rect \<Rightarrow> monitor_id \<Rightarrow> (monitor_id \<times> rect) list \<Rightarrow> monitor_slice list" where
  "build_foreign_monitor_slices logical owner areas =
     List.map_filter (\<lambda>(m, area). foreign_monitor_slice logical area)
       (filter (\<lambda>(m, area). m \<noteq> owner) areas)"

definition determine_desktop_window_presentation ::
    "window_layer \<Rightarrow> bool \<Rightarrow> rect \<Rightarrow> rect option \<Rightarrow> presentation_mode \<times> presentation_reason" where
  "determine_desktop_window_presentation layer is_active logical visible =
     (if layer \<noteq> Tiled then (NativeVisible, NonTiledLayerNative)
      else case visible of
        Some v \<Rightarrow>
          if is_active then (NativeVisible, ActiveWindowNative)
          else if v = logical then (SurrogateVisible, InactiveFullyVisibleSurrogate)
          else (SurrogateClipped, InactiveClippedSurrogate)
      | None \<Rightarrow> (NativeHidden, InactiveOutsideMonitorHidden))"

text \<open>
  Where the native window goes and what the surrogate shows of it. A clipped surrogate is chosen
  only when part of the window is visible, so the \<open>expect\<close> of the source cannot fail.
\<close>

fun materialize_rects :: "presentation_mode \<Rightarrow> rect \<Rightarrow> rect \<Rightarrow> rect option \<Rightarrow> rect \<times> rect option \<times> rect option" where
  "materialize_rects NativeVisible logical parked visible = (logical, None, None)"
| "materialize_rects NativeHidden logical parked visible = (parked, None, None)"
| "materialize_rects SurrogateVisible logical parked visible =
     (parked, Some logical, Some (full_source_rect_for_logical_desktop_rect logical))"
| "materialize_rects SurrogateClipped logical parked visible =
     (parked, visible, map_option (source_rect_within_logical_desktop_rect logical) visible)"

definition desktop_window_of ::
    "wm_state \<Rightarrow> desktop_bounds \<Rightarrow> monitor_id \<Rightarrow> monitor \<Rightarrow> workspace_id \<Rightarrow> rect \<Rightarrow> window_geometry \<Rightarrow>
     desktop_window" where
  "desktop_window_of s bounds m mon w band g =
     (let logical = translate_rect_to_band (geo_rect g) (mon_work_area_rect mon) band;
          visible = desk_intersect logical (mon_work_area_rect mon);
          is_active = (focus_window (focus s) = Some (geo_window_id g));
          (mode, reason) =
            determine_desktop_window_presentation (geo_layer g) is_active logical visible;
          parked = park_rect_outside_desktop logical bounds;
          (target, surrogate, source) = materialize_rects mode logical parked visible
      in \<lparr>dw_window_id = geo_window_id g, dw_workspace_id = w, dw_monitor_id = m,
          dw_layer = geo_layer g, dw_workspace_local_rect = geo_rect g,
          dw_logical_desktop_rect = logical, dw_desktop_rect = target,
          dw_owning_monitor_visible_rect = visible, dw_presentation_mode = mode,
          dw_presentation_reason = reason, dw_surrogate_rect = surrogate,
          dw_surrogate_source_rect = source,
          dw_monitor_slices =
            build_foreign_monitor_slices logical m
              (map (\<lambda>(i, x). (i, mon_work_area_rect x)) (monitors s))\<rparr>)"

section \<open>The whole desktop\<close>

definition active_position :: "workspace_id option \<Rightarrow> workspace_set \<Rightarrow> int" where
  "active_position active wset =
     (case Option.bind active (\<lambda>w. position (\<lambda>x. x = w) (wset_ordered wset)) of
        None \<Rightarrow> 0 | Some i \<Rightarrow> u32_clip_i32 i)"

definition band_rect :: "rect \<Rightarrow> int \<Rightarrow> rect" where
  "band_rect area offset =
     rect_new (rect_x area)
       (i32_sat_add (rect_y area) (i32_sat_mul offset (u32_clip_i32 (rect_height area))))
       (rect_width area) (rect_height area)"

text \<open>The loop over the workspaces of one monitor: a workspace without a layout has no band.\<close>

definition workspace_step ::
    "wm_state \<Rightarrow> (workspace_id \<Rightarrow> workspace_projection option) \<Rightarrow> desktop_bounds \<Rightarrow> monitor_id \<Rightarrow>
     monitor \<Rightarrow> workspace_set \<Rightarrow> workspace_id option \<Rightarrow> nat \<times> workspace_id \<Rightarrow>
     workspace_band list \<times> (window_id, desktop_window) bmap \<Rightarrow>
     workspace_band list \<times> (window_id, desktop_window) bmap" where
  "workspace_step s layouts bounds m mon wset active = (\<lambda>(i, w) (bands, wins).
     case layouts w of
       None \<Rightarrow> (bands, wins)
     | Some projection \<Rightarrow>
         let area = mon_work_area_rect mon;
             offset = i32_sat_sub (u32_clip_i32 i) (active_position active wset);
             band = band_rect area offset
         in (bands @ [\<lparr>wb_workspace_id = w, wb_monitor_id = m, wb_is_active = (Some w = active),
                       wb_local_work_area = area, wb_desktop_band_rect = band,
                       wb_vertical_offset_from_active = offset\<rparr>],
             fold (\<lambda>g. bm_put (geo_window_id g) (desktop_window_of s bounds m mon w band g))
               (proj_window_geometries projection) wins))"

definition monitor_step ::
    "wm_state \<Rightarrow> (workspace_id \<Rightarrow> workspace_projection option) \<Rightarrow> desktop_bounds \<Rightarrow>
     monitor_id \<times> monitor \<Rightarrow> desktop_projection \<Rightarrow> desktop_projection" where
  "monitor_step s layouts bounds = (\<lambda>(m, mon) dp.
     if \<not> manages_monitor_binding (config s) (mon_platform_binding mon) then dp
     else case Option.bind (workspace_set_id_for_monitor s m) (get_set s) of
       None \<Rightarrow> dp
     | Some wset \<Rightarrow>
         let active = or_opt (active_workspace_id_for_monitor s m) (Some (wset_active wset));
             (bands, wins) =
               fold (workspace_step s layouts bounds m mon wset active)
                 (enumerate 0 (wset_ordered wset)) ([], dp_windows dp)
         in \<lparr>dp_monitors =
               bm_put m \<lparr>md_monitor_id = m, md_work_area = mon_work_area_rect mon,
                         md_padded_viewport = padded_tiled_viewport (mon_work_area_rect mon) (config s),
                         md_active_workspace_id = active, md_workspace_bands = bands\<rparr>
                 (dp_monitors dp),
             dp_windows = wins\<rparr>)"

definition build_monitor_local_desktop_projection ::
    "wm_state \<Rightarrow> (workspace_id \<Rightarrow> workspace_projection option) \<Rightarrow> desktop_projection" where
  "build_monitor_local_desktop_projection s layouts =
     fold (monitor_step s layouts (desktop_horizontal_bounds s)) (monitors s)
       \<lparr>dp_monitors = [], dp_windows = []\<rparr>"

end
