(* ===== verification/Desktop_Properties.thy ===== *)
theory Desktop_Properties
  imports Desktop_Materialization
begin

text \<open>
  Where the windows of the desktop go: what every window of the projection looks like on its own
  monitor and on the others, and that the windows of the inactive workspaces are off it.
\<close>

section \<open>Every window of the projection\<close>





section \<open>Parking\<close>





section \<open>Building the projection\<close>












section \<open>The bands of the inactive workspaces\<close>

text \<open>
  Without saturation a band is a whole number of work areas above or below the monitor, so a tiled
  window within the height of its work area is off its monitor unless its workspace is the active one.
\<close>

lemma inactive_band_is_hidden:
  fixes k :: int
  assumes area: "rect_width area \<le> 65535" "rect_height area \<le> 65535" "0 < rect_height area"
      "\<bar>rect_x area\<bar> \<le> 65535" "\<bar>rect_y area\<bar> \<le> 65535"
    and r: "rect_y area \<le> rect_y r" "rect_y r + int (rect_height r) \<le> rect_y area + int (rect_height area)"
    and k: "k \<noteq> 0" "\<bar>k\<bar> \<le> 1000"
  shows "desk_intersect (translate_rect_to_band r area (band_rect area k)) area = None"
proof -
  define h where "h = int (rect_height area)"
  have off: "\<bar>k * h\<bar> \<le> 65535000" "h \<le> k * h \<or> k * h \<le> - h"
  proof -
    have "\<bar>k\<bar> * \<bar>h\<bar> \<le> 1000 * 65535" using area k by (intro mult_mono) (simp_all add: h_def)
    then show "\<bar>k * h\<bar> \<le> 65535000" by (simp add: abs_mult)
    have "0 < h" using area by (simp add: h_def)
    consider "1 \<le> k" | "k \<le> -1" using k by linarith
    then show "h \<le> k * h \<or> k * h \<le> - h"
    proof cases
      case 1 then have "1 * h \<le> k * h" using \<open>0 < h\<close> by (intro mult_right_mono) simp_all
      then show ?thesis by simp
    next
      case 2 then have "k * h \<le> -1 * h" using \<open>0 < h\<close> by (intro mult_right_mono) simp_all
      then show ?thesis by simp
    qed
  qed
  have hs: "int (rect_height r) \<le> h" "h \<le> 65535" "rect_height r \<le> 65535" using r area by (simp_all add: h_def)
  have mul: "i32_sat_mul k (u32_clip_i32 (rect_height area)) = k * h"
    using off area by (simp add: i32_sat_mul_def sat_i32_def i32_max_def i32_min_def u32_clip_i32_def h_def)
  have top: "rect_y (translate_rect_to_band r area (band_rect area k)) = rect_y r + k * h"
    using off area r hs
    by (simp add: translate_rect_to_band_def band_rect_def mul i32_sat_add_def i32_sat_sub_def sat_i32_def
        i32_max_def i32_min_def h_def)
  have low: "desk_bottom (translate_rect_to_band r area (band_rect area k)) = rect_y r + k * h + int (rect_height r)"
    "desk_bottom area = rect_y area + h"
    using off area r hs top
    by (simp_all add: desk_bottom_def translate_rect_to_band_def i32_sat_add_def sat_i32_def i32_max_def
        i32_min_def u32_clip_i32_def h_def)
  have "min (desk_bottom (translate_rect_to_band r area (band_rect area k))) (desk_bottom area)
      \<le> max (rect_y (translate_rect_to_band r area (band_rect area k))) (rect_y area)"
    unfolding top low using off(2) r hs(1) by (auto simp: h_def)
  then show ?thesis
    by (auto simp: desk_intersect_def Let_def i32_sat_sub_def sat_i32_def i32_max_def i32_min_def)
qed

end
