(* ===== verification/Discovery_Assessment.thy ===== *)
theory Discovery_Assessment
  imports Platform_Model Machine_Int
begin

text \<open>
  \<open>crates/windows-adapter/src/lib.rs\<close>, the discovery assessment: which role a window of a snapshot
  plays, whether it may become a managed window now, and whether it can be presented. The
  proportions of a window to its monitor are compared in \<open>f64\<close>, as in the source.
\<close>

datatype window_role = NoiseRole | TransientRole | AuxiliaryRole | PrimaryRole

datatype window_disposition =
    RejectedNoise
  | TransientEscapeSurface
  | AuxiliaryAppSurface
  | PendingPrimaryCandidate
  | PromotablePrimaryCandidate

datatype presentation_preflight = PreflightUnknown | PreflightEligible | PreflightFallbackOnly | PreflightRejected

record discovery_assessment =
  da_role :: window_role
  da_role_reason :: string
  da_disposition :: window_disposition
  da_disposition_reason :: string
  da_family_key :: string
  da_presentation_preflight :: presentation_preflight
  da_presentation_reason :: string

section \<open>Names\<close>

definition strip_suffix :: "string \<Rightarrow> string \<Rightarrow> string option" where
  "strip_suffix ending v =
     (if suffix ending v then Some (take (length v - length ending) v) else None)"

definition normalized_process_name :: "string option \<Rightarrow> string option" where
  "normalized_process_name process =
     (case process of
        None \<Rightarrow> None
      | Some p \<Rightarrow>
          let trimmed = str_trim p
          in if trimmed = [] then None
             else let lowered = to_ascii_lowercase trimmed
                  in Some (case strip_suffix ''.exe'' lowered of None \<Rightarrow> lowered | Some v \<Rightarrow> v))"

definition platform_window_family_key :: "platform_window \<Rightarrow> string" where
  "platform_window_family_key w =
     (case normalized_process_name (pw_process_name w) of
        None \<Rightarrow> ''pid:'' @ nat_to_dec (pw_process_id w)
      | Some name \<Rightarrow> name)"

definition normalized_class :: "platform_window \<Rightarrow> string" where
  "normalized_class w = to_ascii_lowercase (str_trim (pw_class_name w))"

definition title_is_blank :: "platform_window \<Rightarrow> bool" where
  "title_is_blank w \<longleftrightarrow> str_trim (pw_title w) = []"

definition transient_classes :: "string list" where
  "transient_classes =
     [''xaml_windowedpopupclass'', ''#32768'', ''#32770'', ''tooltips_class32'', ''msctfime ui'', ''ime'']"

definition fallback_only_classes :: "string list" where
  "fallback_only_classes =
     [''chrome_widgetwin_1'', ''mozillawindowclass'', ''cascadia_hosting_window_class'']"

definition discovery_title_looks_internal_hosting_surface :: "string \<Rightarrow> bool" where
  "discovery_title_looks_internal_hosting_surface title \<longleftrightarrow>
     (let normalized = to_ascii_lowercase (str_trim title)
      in normalized \<noteq> [] \<and>
         (sublist ''xamlsource'' normalized \<or> sublist ''desktopwindow'' normalized \<or>
          suffix ''contentbridge'' normalized))"

definition is_discovery_known_internal_family_surface :: "platform_window \<Rightarrow> bool" where
  "is_discovery_known_internal_family_surface w \<longleftrightarrow>
     (let family = platform_window_family_key w; cls = normalized_class w
      in if family = ''windowsterminal'' then
           cls \<in> {''windows.ui.composition.desktopwindowcontentbridge'', ''xamlexplorerhostislandwindow''} \<or>
           discovery_title_looks_internal_hosting_surface (pw_title w)
         else if family = ''explorer'' then
           cls \<in> {''detailspanehwndhostclass'', ''microsoft.ui.content.desktopchildsitebridge'', ''ctrlnotifysink''}
         else False)"

definition is_discovery_transient_escape_surface :: "platform_window \<Rightarrow> bool" where
  "is_discovery_transient_escape_surface w \<longleftrightarrow> normalized_class w \<in> set transient_classes"

definition discovery_presentation_preflight :: "platform_window \<Rightarrow> presentation_preflight \<times> string" where
  "discovery_presentation_preflight w =
     (if is_discovery_known_internal_family_surface w then (PreflightRejected, ''internal-family-surface'')
      else if normalized_class w \<in> set transient_classes then (PreflightRejected, ''transient-escape-class'')
      else if normalized_class w \<in> set fallback_only_classes
           then (PreflightFallbackOnly, ''fallback-only-classifier'')
      else (PreflightEligible, ''eligible''))"

section \<open>Geometry\<close>

definition far_x :: "rect \<Rightarrow> int" where
  "far_x r = i32_sat_add (rect_x r) (u32_clip_i32 (rect_width r))"

definition far_y :: "rect \<Rightarrow> int" where
  "far_y r = i32_sat_add (rect_y r) (u32_clip_i32 (rect_height r))"

definition rect_contains :: "rect \<Rightarrow> rect \<Rightarrow> bool" where
  "rect_contains outer inner \<longleftrightarrow>
     rect_x outer \<le> rect_x inner \<and> rect_y outer \<le> rect_y inner \<and>
     far_x inner \<le> far_x outer \<and> far_y inner \<le> far_y outer"

definition rects_overlap :: "rect \<Rightarrow> rect \<Rightarrow> bool" where
  "rects_overlap left right \<longleftrightarrow>
     rect_x left < far_x right \<and> rect_x right < far_x left \<and>
     rect_y left < far_y right \<and> rect_y right < far_y left"

definition rects_are_proximate :: "rect \<Rightarrow> rect \<Rightarrow> int \<Rightarrow> bool" where
  "rects_are_proximate left right threshold \<longleftrightarrow>
     (let margin = u32_sat_mul (nat (max threshold 0)) 2
      in rects_overlap
           (rect_new (i32_sat_sub (rect_x left) threshold) (i32_sat_sub (rect_y left) threshold)
              (u32_sat_add (rect_width left) margin) (u32_sat_add (rect_height left) margin))
           right)"

definition rects_are_near_duplicates :: "rect \<Rightarrow> rect \<Rightarrow> bool" where
  "rects_are_near_duplicates left right \<longleftrightarrow>
     i32_abs (i32_sat_sub (rect_x left) (rect_x right)) \<le> 24 \<and>
     i32_abs (i32_sat_sub (rect_y left) (rect_y right)) \<le> 24 \<and>
     abs (int (rect_width left) - int (rect_width right)) \<le> 24 \<and>
     abs (int (rect_height left) - int (rect_height right)) \<le> 24"

definition window_area :: "rect \<Rightarrow> nat" where
  "window_area r = min u64_max (rect_width r * rect_height r)"

definition window_has_primary_like_footprint :: "platform_snapshot \<Rightarrow> platform_window \<Rightarrow> bool" where
  "window_has_primary_like_footprint p w =
     (case find (\<lambda>m. pmo_binding m = pw_monitor_binding w) (psn_monitors p) of
        None \<Rightarrow> True
      | Some m \<Rightarrow>
          let area = pmo_work_area_rect m;
              width_ratio = f64_ratio (rect_width (pw_rect w)) (max (rect_width area) 1);
              height_ratio = f64_ratio (rect_height (pw_rect w)) (max (rect_height area) 1);
              area_ratio = f64_ratio (window_area (pw_rect w)) (max (window_area area) 1)
          in fl_le (fl_round 53 22 100) area_ratio \<or>
             (fl_le (fl_round 53 30 100) width_ratio \<and> fl_le (fl_round 53 50 100) height_ratio) \<or>
             fl_le (fl_round 53 85 100) height_ratio)"

section \<open>Roles\<close>

text \<open>The window \<open>container\<close> of the same family makes \<open>candidate\<close> an auxiliary surface.\<close>

definition is_auxiliary_of :: "platform_snapshot \<Rightarrow> platform_window \<Rightarrow> platform_window \<Rightarrow> bool" where
  "is_auxiliary_of p candidate container \<longleftrightarrow>
     \<not> (pw_hwnd container = pw_hwnd candidate \<or>
        pw_monitor_binding container \<noteq> pw_monitor_binding candidate \<or>
        platform_window_family_key container \<noteq> platform_window_family_key candidate \<or>
        title_is_blank container \<or>
        \<not> window_has_primary_like_footprint p container) \<and>
     (rect_contains (pw_rect container) (pw_rect candidate) \<or>
      rects_overlap (pw_rect container) (pw_rect candidate) \<or>
      rects_are_proximate (pw_rect container) (pw_rect candidate) 96) \<and>
     (title_is_blank candidate \<or>
      rect_height (pw_rect candidate) \<le> 160 \<or> rect_width (pw_rect candidate) \<le> 220 \<or>
      rects_are_near_duplicates (pw_rect container) (pw_rect candidate) \<and>
      (discovery_title_looks_internal_hosting_surface (pw_title candidate) \<or>
       fst (discovery_presentation_preflight candidate) = PreflightFallbackOnly))"

definition is_discovery_auxiliary_app_surface :: "platform_snapshot \<Rightarrow> platform_window \<Rightarrow> bool" where
  "is_discovery_auxiliary_app_surface p candidate \<longleftrightarrow>
     \<not> pw_is_focused candidate \<and> list_ex (is_auxiliary_of p candidate) (psn_windows p)"

definition is_discovery_duplicate_titleless_family_surface :: "platform_snapshot \<Rightarrow> platform_window \<Rightarrow> bool" where
  "is_discovery_duplicate_titleless_family_surface p candidate \<longleftrightarrow>
     \<not> (pw_is_focused candidate \<or> \<not> title_is_blank candidate) \<and>
     list_ex
       (\<lambda>other. pw_hwnd other \<noteq> pw_hwnd candidate \<and>
          platform_window_family_key other = platform_window_family_key candidate \<and>
          pw_monitor_binding other = pw_monitor_binding candidate \<and>
          title_is_blank other \<and> rects_are_near_duplicates (pw_rect other) (pw_rect candidate))
       (psn_windows p)"

definition is_discovery_titleless_non_primary_footprint :: "platform_snapshot \<Rightarrow> platform_window \<Rightarrow> bool" where
  "is_discovery_titleless_non_primary_footprint p candidate \<longleftrightarrow>
     \<not> pw_is_focused candidate \<and> title_is_blank candidate \<and>
     \<not> window_has_primary_like_footprint p candidate"

definition classify_platform_window_role :: "platform_snapshot \<Rightarrow> platform_window \<Rightarrow> window_role \<times> string" where
  "classify_platform_window_role p w =
     (if \<not> pw_management_candidate w then (NoiseRole, ''platform-noise-filter'')
      else if is_discovery_transient_escape_surface w then (TransientRole, ''transient-escape-surface'')
      else if is_discovery_known_internal_family_surface w
           then (AuxiliaryRole, ''known-internal-family-surface'')
      else if is_discovery_duplicate_titleless_family_surface p w
           then (AuxiliaryRole, ''duplicate-titleless-family-surface'')
      else if is_discovery_auxiliary_app_surface p w then (AuxiliaryRole, ''family-auxiliary-surface'')
      else if is_discovery_titleless_non_primary_footprint p w
           then (AuxiliaryRole, ''titleless-non-primary-footprint'')
      else (PrimaryRole, ''primary-role''))"

definition should_hold_primary_candidate_in_pending :: "platform_snapshot \<Rightarrow> platform_window \<Rightarrow> bool" where
  "should_hold_primary_candidate_in_pending p w \<longleftrightarrow>
     title_is_blank w \<or>
     (fst (discovery_presentation_preflight w) = PreflightFallbackOnly \<and> \<not> pw_is_focused w \<and>
      \<not> window_has_primary_like_footprint p w)"

definition assess_platform_window_for_discovery ::
    "platform_snapshot \<Rightarrow> platform_window \<Rightarrow> discovery_assessment" where
  "assess_platform_window_for_discovery p w =
     (let (role, role_reason) = classify_platform_window_role p w;
          (disposition, disposition_reason, preflight, preflight_reason) =
            (case role of
               NoiseRole \<Rightarrow>
                 (RejectedNoise, ''platform-noise-filter'', PreflightRejected, ''platform-noise-filter'')
             | TransientRole \<Rightarrow>
                 (TransientEscapeSurface, ''transient-escape-surface'', PreflightRejected,
                  ''transient-escape-class'')
             | AuxiliaryRole \<Rightarrow>
                 (let (preflight, reason) = discovery_presentation_preflight w
                  in (AuxiliaryAppSurface, role_reason, preflight, reason))
             | PrimaryRole \<Rightarrow>
                 (let (preflight, reason) = discovery_presentation_preflight w
                  in if should_hold_primary_candidate_in_pending p w
                     then (PendingPrimaryCandidate, ''titleless-primary-candidate'', preflight, reason)
                     else (PromotablePrimaryCandidate, ''primary-candidate'', preflight, reason)))
      in \<lparr>da_role = role, da_role_reason = role_reason, da_disposition = disposition,
          da_disposition_reason = disposition_reason, da_family_key = platform_window_family_key w,
          da_presentation_preflight = preflight, da_presentation_reason = preflight_reason\<rparr>)"

text \<open>Collected into a map keyed by handle: the last window of a handle wins.\<close>

definition assess_platform_snapshot_for_discovery ::
    "platform_snapshot \<Rightarrow> nat \<Rightarrow> discovery_assessment option" where
  "assess_platform_snapshot_for_discovery p h =
     map_option (assess_platform_window_for_discovery p) (window_by_hwnd p h)"

end
