(* ===== verification/Apply_Policy.thy ===== *)
theory Apply_Policy
  imports Platform_Model
begin

text \<open>
  \<open>crates/wm-core/src/runtime/apply_policy.rs\<close>: the pure decisions of the runtime (which windows may
  be animated, dimmed or held to their geometry, when a divergence counts as activation only, as
  churn or as a reason to unwind) and the trace lines.
\<close>

unbundle bit_operations_syntax

section \<open>Text\<close>

definition show_bool :: "bool \<Rightarrow> string" where
  "show_bool b = (if b then ''true'' else ''false'')"

definition show_int :: "int \<Rightarrow> string" where
  "show_int x = (if x < 0 then CHR ''-'' # nat_to_dec (nat (- x)) else nat_to_dec (nat x))"

definition show_rect :: "rect \<Rightarrow> string" where
  "show_rect r =
     ''('' @ show_int (rect_x r) @ '','' @ show_int (rect_y r) @ '' '' @ nat_to_dec (rect_width r) @
     ''x'' @ nat_to_dec (rect_height r) @ '')''"

text \<open>The debug form of an \<open>Option<u64>\<close>.\<close>

definition show_some :: "nat option \<Rightarrow> string" where
  "show_some r = (case r of None \<Rightarrow> ''None'' | Some n \<Rightarrow> ''Some('' @ nat_to_dec n @ '')'')"

definition replace_char :: "char \<Rightarrow> string \<Rightarrow> string \<Rightarrow> string" where
  "replace_char c by v = concat (map (\<lambda>d. if d = c then by else [d]) v)"

definition sanitize_log_text :: "string \<Rightarrow> string" where
  "sanitize_log_text v =
     replace_char (CHR 0x22) [CHR 0x27]
       (replace_char (CHR 0x0A) [CHR 0x5C, CHR ''n'']
         (replace_char (CHR 0x0D) [CHR 0x5C, CHR ''r''] v))"

text \<open>The source maps characters: one outside ASCII becomes one dash, so its continuation bytes go.\<close>

definition is_continuation_byte :: "char \<Rightarrow> bool" where
  "is_continuation_byte c \<longleftrightarrow> (let n = of_char c :: nat in 128 \<le> n \<and> n < 192)"

definition is_ascii_alphanumeric :: "char \<Rightarrow> bool" where
  "is_ascii_alphanumeric c \<longleftrightarrow>
     (let n = of_char c :: nat in (48 \<le> n \<and> n \<le> 57) \<or> (65 \<le> n \<and> n \<le> 90) \<or> (97 \<le> n \<and> n \<le> 122))"

definition normalize_reason_token :: "string \<Rightarrow> string" where
  "normalize_reason_token v =
     map (\<lambda>c. if is_ascii_alphanumeric c \<or> c = CHR ''-'' then ascii_lower c else CHR ''-'')
       (filter (\<lambda>c. \<not> is_continuation_byte c) v)"

section \<open>Reasons\<close>

definition manual_width_reasons :: "string list" where
  "manual_width_reasons = [''manual-column-width-commit'', ''manual-cycle-column-width'']"

definition should_animate_workspace_switch :: "string \<Rightarrow> bool" where
  "should_animate_workspace_switch reason \<longleftrightarrow>
     (let token = normalize_reason_token reason
      in sublist ''focus-workspace-up'' token \<or> sublist ''focus-workspace-down'' token)"

definition should_animate_tiled_geometry :: "string \<Rightarrow> bool" where
  "should_animate_tiled_geometry reason \<longleftrightarrow>
     reason \<in> set manual_width_reasons \<or> should_animate_workspace_switch reason"

definition should_defer_post_apply_retry :: "string \<Rightarrow> bool" where
  "should_defer_post_apply_retry reason \<longleftrightarrow> reason \<in> set manual_width_reasons"

definition should_force_activation_reassert :: "string \<Rightarrow> bool" where
  "should_force_activation_reassert reason \<longleftrightarrow> reason \<in> set manual_width_reasons"

section \<open>Visual safety\<close>

datatype visual_safety = SafeFullEmphasis | BrowserOpacityOnly | SkipVisualEmphasis

definition normalize_process_name :: "string option \<Rightarrow> string option" where
  "normalize_process_name process =
     (case process of
        None \<Rightarrow> None
      | Some p \<Rightarrow>
          let trimmed = str_trim p
          in if trimmed = [] then None
             else let lowered = to_ascii_lowercase trimmed
                  in Some (if suffix ''.exe'' lowered then take (length lowered - 4) lowered else lowered))"

definition normalize_class_name :: "string \<Rightarrow> string option" where
  "normalize_class_name cls =
     (let trimmed = str_trim cls in if trimmed = [] then None else Some (to_ascii_lowercase trimmed))"

definition browser_classes :: "string list" where
  "browser_classes = [''chrome_widgetwin_0'', ''chrome_widgetwin_1'', ''mozillawindowclass'']"

definition browser_processes :: "string list" where
  "browser_processes =
     [''msedge'', ''chrome'', ''brave'', ''opera'', ''vivaldi'', ''chromium'', ''firefox'',
      ''librewolf'', ''waterfox'']"

definition classify_window_visual_safety :: "string option \<Rightarrow> string \<Rightarrow> string \<Rightarrow> visual_safety" where
  "classify_window_visual_safety process cls title =
     (let c = normalize_class_name cls; p = normalize_process_name process
      in if c = None \<and> p = None then SkipVisualEmphasis
         else if c \<in> Some ` set browser_classes then BrowserOpacityOnly
         else if c = Some ''org.wezfurlong.wezterm'' then SkipVisualEmphasis
         else case p of
           None \<Rightarrow> SafeFullEmphasis
         | Some name \<Rightarrow>
             if name \<in> set browser_processes then BrowserOpacityOnly
             else if name = ''wezterm-gui'' then SkipVisualEmphasis
             else if name = ''ayugram'' then SkipVisualEmphasis
             else SafeFullEmphasis)"

definition supports_nonessential_tiled_window_effects :: "string option \<Rightarrow> string \<Rightarrow> string \<Rightarrow> bool" where
  "supports_nonessential_tiled_window_effects process cls title \<longleftrightarrow>
     classify_window_visual_safety process cls title = SafeFullEmphasis"

definition should_suppress_visual_gap :: "window_layer \<Rightarrow> string option \<Rightarrow> string \<Rightarrow> string \<Rightarrow> bool" where
  "should_suppress_visual_gap layer process cls title \<longleftrightarrow>
     layer = Tiled \<and> supports_nonessential_tiled_window_effects process cls title"

definition supports_tiled_window_switch_animation :: "string option \<Rightarrow> string \<Rightarrow> string \<Rightarrow> bool" where
  "supports_tiled_window_switch_animation process cls title \<longleftrightarrow>
     classify_window_visual_safety process cls title \<in> {SafeFullEmphasis, BrowserOpacityOnly}"

definition should_skip_strict_geometry_revalidation :: "string option \<Rightarrow> string \<Rightarrow> string \<Rightarrow> bool" where
  "should_skip_strict_geometry_revalidation process cls title \<longleftrightarrow>
     normalize_process_name process \<in> {Some ''ayugram'', Some ''windowsterminal''} \<or>
     classify_window_visual_safety process cls title \<in> {BrowserOpacityOnly, SkipVisualEmphasis}"

definition inactive_window_opacity_alpha :: "bool \<Rightarrow> nat option" where
  "inactive_window_opacity_alpha is_active = (if is_active then None else Some 208)"

definition rgb_color :: "nat \<Rightarrow> nat \<Rightarrow> nat \<Rightarrow> nat" where
  "rgb_color red green blue = red OR push_bit 8 green OR push_bit 16 blue"

definition build_visual_emphasis :: "bool \<Rightarrow> string option \<Rightarrow> string \<Rightarrow> string \<Rightarrow> visual_emphasis" where
  "build_visual_emphasis is_active process cls title =
     (case classify_window_visual_safety process cls title of
        SafeFullEmphasis \<Rightarrow>
          \<lparr>ve_opacity_alpha = inactive_window_opacity_alpha is_active, ve_opacity_mode = DirectLayered,
           ve_force_clear_layered_style = is_active, ve_disable_visual_effects = False,
           ve_border_color_rgb = (if is_active then Some (rgb_color 0x4C 0xA8 0xFF) else None),
           ve_border_thickness_px = 3, ve_rounded_corners = True\<rparr>
      | BrowserOpacityOnly \<Rightarrow>
          \<lparr>ve_opacity_alpha = inactive_window_opacity_alpha is_active, ve_opacity_mode = OverlayDim,
           ve_force_clear_layered_style = is_active, ve_disable_visual_effects = True,
           ve_border_color_rgb = None, ve_border_thickness_px = 3, ve_rounded_corners = False\<rparr>
      | SkipVisualEmphasis \<Rightarrow>
          \<lparr>ve_opacity_alpha = None, ve_opacity_mode = DirectLayered,
           ve_force_clear_layered_style = False, ve_disable_visual_effects = True,
           ve_border_color_rgb = None, ve_border_thickness_px = 3, ve_rounded_corners = False\<rparr>)"

definition visual_emphasis_has_effect :: "visual_emphasis \<Rightarrow> bool" where
  "visual_emphasis_has_effect e \<longleftrightarrow>
     ve_opacity_alpha e \<noteq> None \<or> ve_force_clear_layered_style e \<or> ve_border_color_rgb e \<noteq> None \<or>
     \<not> ve_disable_visual_effects e"

section \<open>Divergence\<close>

definition operations_are_activation_only :: "platform_snapshot \<Rightarrow> apply_operation list \<Rightarrow> bool" where
  "operations_are_activation_only p ops \<longleftrightarrow>
     ops \<noteq> [] \<and>
     list_all
       (\<lambda>op. op_activate op \<and>
          (case window_by_hwnd p (op_hwnd op) of
             None \<Rightarrow> False
           | Some w \<Rightarrow> \<not> needs_geometry_apply (pw_rect w) (op_rect op)))
       ops"

definition should_auto_unwind_after_desync :: "apply_operation list \<Rightarrow> nat \<Rightarrow> bool" where
  "should_auto_unwind_after_desync remaining cycles \<longleftrightarrow>
     \<not> cycles < 3 \<and> 1 < length (remdups (map op_hwnd remaining))"

definition has_transient_topology_churn :: "nat \<Rightarrow> nat \<Rightarrow> nat \<Rightarrow> nat \<Rightarrow> nat \<Rightarrow> bool" where
  "has_transient_topology_churn observed validation post_retry discovered destroyed \<longleftrightarrow>
     0 < discovered \<or> 0 < destroyed \<or> validation \<noteq> observed \<or> post_retry \<noteq> validation"

section \<open>Trace lines\<close>

fun window_layer_name :: "window_layer \<Rightarrow> string" where
  "window_layer_name Tiled = ''tiled''"
| "window_layer_name Floating = ''floating''"
| "window_layer_name Fullscreen = ''fullscreen''"

record window_trace =
  wt_stage :: string
  wt_remaining_label :: "string option"
  wt_hwnd :: nat
  wt_process_id :: nat
  wt_process_name :: string
  wt_layer :: "window_layer option"
  wt_title :: string
  wt_focused :: bool
  wt_management_candidate :: bool
  wt_managed :: bool
  wt_workspace_id :: "nat option"
  wt_column_id :: "nat option"
  wt_observed_rect :: rect
  wt_operation :: "apply_operation option"

text \<open>The four differences are taken in \<open>i64\<close>.\<close>

definition show_delta :: "rect \<Rightarrow> rect \<Rightarrow> string" where
  "show_delta target observed =
     ''('' @ show_int (rect_x target - rect_x observed) @ '','' @
     show_int (rect_y target - rect_y observed) @ '' '' @
     show_int (int (rect_width target) - int (rect_width observed)) @ ''x'' @
     show_int (int (rect_height target) - int (rect_height observed)) @ '')''"

text \<open>\<open>replace(", ", ",")\<close>.\<close>

fun squeeze_commas :: "string \<Rightarrow> string" where
  "squeeze_commas (a # b # cs) =
     (if a = CHR '','' \<and> b = CHR '' '' then a # squeeze_commas cs else a # squeeze_commas (b # cs))"
| "squeeze_commas cs = cs"

definition op_holds :: "(apply_operation \<Rightarrow> bool) \<Rightarrow> apply_operation option \<Rightarrow> bool" where
  "op_holds p r = (case r of None \<Rightarrow> False | Some op \<Rightarrow> p op)"

definition format_window_trace_line :: "window_trace \<Rightarrow> string" where
  "format_window_trace_line t =
     (let target = map_option op_rect (wt_operation t);
          delta = squeeze_commas
                    (case target of None \<Rightarrow> ''none'' | Some r \<Rightarrow> show_delta r (wt_observed_rect t))
      in ''window-trace['' @ wt_stage t @ '']: hwnd='' @ nat_to_dec (wt_hwnd t) @
         '' process='' @ sanitize_log_text (wt_process_name t) @
         '' pid='' @ nat_to_dec (wt_process_id t) @
         '' layer='' @ (case wt_layer t of None \<Rightarrow> ''untracked'' | Some l \<Rightarrow> window_layer_name l) @
         '' title='' @ [CHR 0x22] @ wt_title t @ [CHR 0x22] @
         '' focused='' @ show_bool (wt_focused t) @
         '' candidate='' @ show_bool (wt_management_candidate t) @
         '' managed='' @ show_bool (wt_managed t) @
         '' workspace='' @ show_some (wt_workspace_id t) @
         '' column='' @ show_some (wt_column_id t) @
         '' observed='' @ show_rect (wt_observed_rect t) @
         '' target='' @ (case target of None \<Rightarrow> ''none'' | Some r \<Rightarrow> show_rect r) @
         '' delta='' @ delta @
         '' apply_geometry='' @ show_bool (op_holds op_apply_geometry (wt_operation t)) @
         '' activate='' @ show_bool (op_holds op_activate (wt_operation t)) @
         '' animated='' @
           show_bool (op_holds (\<lambda>op. op_window_switch_animation op \<noteq> None) (wt_operation t)) @
         '' suppress_gap='' @ show_bool (op_holds op_suppress_visual_gap (wt_operation t)) @
         '' status='' @
           (case wt_remaining_label t of
              Some label \<Rightarrow> label
            | None \<Rightarrow> if wt_operation t \<noteq> None then ''planned'' else ''steady''))"

end
