(* ===== verification/Runtime_Core.thy ===== *)
theory Runtime_Core
  imports Store_Dispatch Discovery_Assessment Apply_Policy Desktop_Materialization
begin

text \<open>
  \<open>CoreDaemonRuntime\<close> (\<open>crates/wm-core/src/lib.rs\<close> and \<open>crates/wm-core/src/runtime.rs\<close>): the state of
  the daemon, which wraps the store with the adapter, the configuration and what it waits for, and
  the focus bookkeeping. A \<open>&self\<close> method that only looks at the store is a function of the store.
\<close>

section \<open>State\<close>

datatype runtime_error =
    RuntimeAdapter adapter_error
  | RuntimeCore failure
  | RuntimeConfig string
  | NoPlatformMonitors

record runtime_perf =
  rp_command_cycle :: perf_metric
  rp_observation_sync :: perf_metric
  rp_post_apply_validation :: perf_metric
  rp_config_reload :: perf_metric

definition runtime_perf_new :: runtime_perf where
  "runtime_perf_new =
     \<lparr>rp_command_cycle = perf_metric_new, rp_observation_sync = perf_metric_new,
      rp_post_apply_validation = perf_metric_new, rp_config_reload = perf_metric_new\<rparr>"

definition runtime_perf_snapshot :: "runtime_perf \<Rightarrow> perf_metric_snapshot list" where
  "runtime_perf_snapshot p =
     [perf_snapshot ''runtime.command-cycle'' (rp_command_cycle p),
      perf_snapshot ''runtime.observation-sync'' (rp_observation_sync p),
      perf_snapshot ''runtime.post-apply-validation'' (rp_post_apply_validation p),
      perf_snapshot ''runtime.config-reload'' (rp_config_reload p)]"

record pending_focus_claim =
  pfc_desired_hwnd :: nat
  pfc_expires_at :: nat

record platform_focus_candidate =
  pfd_observed_hwnd :: nat
  pfd_stable_snapshots :: nat

record pending_discovery =
  pd_first_seen_at :: nat
  pd_last_seen_at :: nat
  pd_stable_ticks :: nat
  pd_last_rect :: rect
  pd_family_key :: string
  pd_disposition :: window_disposition
  pd_disposition_reason :: string
  pd_presentation_preflight :: presentation_preflight
  pd_presentation_reason :: string

record 'w daemon =
  cd_store :: wm_state
  cd_adapter :: "'w adapter"
  cd_perf :: runtime_perf
  cd_active_config :: loaded_config
  cd_last_valid_config :: loaded_config
  cd_last_snapshot :: "platform_snapshot option"
  cd_pending_discoveries :: "(nat, pending_discovery) bmap"
  cd_pending_focus_claim :: "pending_focus_claim option"
  cd_platform_focus_candidate :: "platform_focus_candidate option"
  cd_geometry_settle_until :: "nat option"
  cd_management_enabled :: bool
  cd_consecutive_desync_cycles :: nat
  cd_next_correlation_id :: nat
  cd_next_config_generation :: nat

type_synonym ('w, 'a) daemon_act = "('w daemon, runtime_error, 'a) act"

section \<open>Lifting the store and the adapter\<close>

definition on_store :: "'a action \<Rightarrow> ('w, 'a) daemon_act" where
  "on_store m = (\<lambda>d. let (r, s) = m (cd_store d) in (map_err RuntimeCore r, d\<lparr>cd_store := s\<rparr>))"

definition write_store :: "(wm_state \<Rightarrow> wm_state) \<Rightarrow> ('w, unit) daemon_act" where
  "write_store f = modify (\<lambda>d. d\<lparr>cd_store := f (cd_store d)\<rparr>)"

definition on_adapter :: "('w adapter, adapter_error, 'a) act \<Rightarrow> ('w, 'a) daemon_act" where
  "on_adapter m =
     (\<lambda>d. let (r, a) = m (cd_adapter d) in (map_err RuntimeAdapter r, d\<lparr>cd_adapter := a\<rparr>))"

definition instant_now :: "('w, 'n) platform \<Rightarrow> ('w, nat) daemon_act" where
  "instant_now pf = on_adapter (stateA (on_world (pf_now pf)))"

definition unix_timestamp :: "('w, 'n) platform \<Rightarrow> ('w, nat) daemon_act" where
  "unix_timestamp pf = on_adapter (stateA (on_world (pf_unix pf)))"

definition materialized_hwnds :: "('w, 'n) platform \<Rightarrow> 'w daemon \<Rightarrow> nat set" where
  "materialized_hwnds pf d = pf_materialized pf (ad_world (cd_adapter d))"

text \<open>The result of an action as a value, for a caller that goes on after an error.\<close>

definition attempt :: "('s, 'e, 'a) act \<Rightarrow> ('s, 'f, 'e + 'a) act" where
  "attempt m = (\<lambda>s. let (r, t) = m s in (Inr r, t))"

text \<open>\<open>record_perf_metric\<close> around the body of a method: the duration is taken and an error is counted.\<close>

definition record_perf :: "nat \<Rightarrow> bool \<Rightarrow> perf_metric \<Rightarrow> perf_metric" where
  "record_perf micros failed p = (if failed then record_error else id) (record_duration micros p)"

definition timed ::
    "('w, 'n) platform \<Rightarrow> ((perf_metric \<Rightarrow> perf_metric) \<Rightarrow> runtime_perf \<Rightarrow> runtime_perf) \<Rightarrow>
     ('w, 'a) daemon_act \<Rightarrow> ('w, 'a) daemon_act" where
  "timed pf upd m =
     bindA (instant_now pf) (\<lambda>started_at.
     bindA (attempt m) (\<lambda>result.
     bindA (instant_now pf) (\<lambda>now.
     thenA (modify (\<lambda>d. d\<lparr>cd_perf :=
              upd (record_perf (elapsed_micros started_at now) (isl result)) (cd_perf d)\<rparr>))
     (tryA (\<lambda>_. result)))))"

text \<open>A \<open>for\<close> loop with an accumulator whose body may leave the method with \<open>?\<close>.\<close>

fun fold_act :: "('x \<Rightarrow> 'b \<Rightarrow> ('s, 'e, 'b) act) \<Rightarrow> 'x list \<Rightarrow> 'b \<Rightarrow> ('s, 'e, 'b) act" where
  "fold_act f [] b = ret b"
| "fold_act f (x # xs) b = bindA (f x b) (fold_act f xs)"

section \<open>Readers of the store\<close>

definition find_window_id_by_hwnd :: "wm_state \<Rightarrow> nat \<Rightarrow> window_id option" where
  "find_window_id_by_hwnd s h =
     find_map (\<lambda>(i, w). if win_hwnd w = Some h then Some i else None) (windows s)"

definition monitor_id_by_binding :: "wm_state \<Rightarrow> string \<Rightarrow> monitor_id option" where
  "monitor_id_by_binding s b =
     find_map (\<lambda>(i, m). if mon_platform_binding m = Some b then Some i else None) (monitors s)"

definition focused_window_node :: "wm_state \<Rightarrow> window_node option" where
  "focused_window_node s = Option.bind (focus_window (focus s)) (get_window s)"

definition current_focused_hwnd :: "wm_state \<Rightarrow> nat option" where
  "current_focused_hwnd s = Option.bind (focused_window_node s) win_hwnd"

definition managed_tiled_focused_hwnd :: "wm_state \<Rightarrow> nat option" where
  "managed_tiled_focused_hwnd s =
     Option.bind (filter_opt (\<lambda>w. win_is_managed w \<and> win_layer w = Tiled) (focused_window_node s)) win_hwnd"

definition window_of_hwnd :: "wm_state \<Rightarrow> nat \<Rightarrow> window_node option" where
  "window_of_hwnd s h = Option.bind (find_window_id_by_hwnd s h) (get_window s)"

definition managed_tiled_window_monitor_id :: "wm_state \<Rightarrow> nat \<Rightarrow> monitor_id option" where
  "managed_tiled_window_monitor_id s h =
     (case window_of_hwnd s h of
        None \<Rightarrow> None
      | Some w \<Rightarrow>
          if \<not> win_is_managed w \<or> win_layer w \<noteq> Tiled then None
          else map_option wsp_monitor_id (get_workspace s (win_workspace_id w)))"

definition managed_window_hwnds :: "wm_state \<Rightarrow> nat list" where
  "managed_window_hwnds s = List.map_filter win_hwnd (filter win_is_managed (bm_values (windows s)))"

definition manual_width_resize_preview_rect :: "wm_state \<Rightarrow> rect option" where
  "manual_width_resize_preview_rect s =
     map_option wrs_clamped_preview_rect (lay_width_resize_session (layout s))"

record resize_target =
  rz_workspace_id :: workspace_id
  rz_column_id :: column_id
  rz_window_id :: window_id
  rz_hwnd :: "nat option"
  rz_rect :: rect
  rz_viewport :: rect

definition active_tiled_resize_target :: "wm_state \<Rightarrow> runtime_error + resize_target option" where
  "active_tiled_resize_target s =
     (case Option.bind (focus_monitor (focus s)) (active_workspace_id_for_monitor s) of
        None \<Rightarrow> Inr None
      | Some ws \<Rightarrow>
     (case focus_window (focus s) of
        None \<Rightarrow> Inr None
      | Some i \<Rightarrow>
     (case get_window s i of
        None \<Rightarrow> Inr None
      | Some w \<Rightarrow>
          if win_layer w \<noteq> Tiled \<or> win_is_floating w \<or> win_is_fullscreen w then Inr None
          else
     (case win_column_id w of
        None \<Rightarrow> Inr None
      | Some c \<Rightarrow>
          bindE (map_err RuntimeCore (layout_of s ws)) (\<lambda>p.
            Inr (map_option
                   (\<lambda>g. \<lparr>rz_workspace_id = ws, rz_column_id = c, rz_window_id = i, rz_hwnd = win_hwnd w,
                         rz_rect = geo_rect g, rz_viewport = proj_viewport p\<rparr>)
                   (find (\<lambda>g. geo_window_id g = i) (proj_window_geometries p))))))))"

text \<open>The metrics of the runtime and of the adapter, the most expensive ones first.\<close>

definition daemon_perf_snapshot :: "'w daemon \<Rightarrow> perf_metric_snapshot list" where
  "daemon_perf_snapshot d =
     sort_key (\<lambda>p. (- int (ps_total_duration_us p), - int (ps_samples p), ps_metric p))
       (runtime_perf_snapshot (cd_perf d) @ adapter_perf_snapshot (ad_perf (cd_adapter d)))"

section \<open>Small writers\<close>

definition push_flag :: "string \<Rightarrow> wm_state \<Rightarrow> wm_state" where
  "push_flag reason s =
     (if reason \<in> set (rs_degraded_flags (runtime s)) then s
      else s\<lparr>runtime := (runtime s)\<lparr>rs_degraded_flags := rs_degraded_flags (runtime s) @ [reason]\<rparr>\<rparr>)"

definition push_degraded_reason :: "string \<Rightarrow> ('w, unit) daemon_act" where
  "push_degraded_reason reason = write_store (push_flag reason)"

definition degraded_flags :: "'w daemon \<Rightarrow> string list" where
  "degraded_flags d = rs_degraded_flags (runtime (cd_store d))"

definition next_correlation_id :: "('w, correlation_id) daemon_act" where
  "next_correlation_id =
     stateA (\<lambda>d. (CorrelationId (cd_next_correlation_id d),
                  d\<lparr>cd_next_correlation_id := cd_next_correlation_id d + 1\<rparr>))"

definition store_dispatch :: "domain_event \<Rightarrow> ('w, transition_result) daemon_act" where
  "store_dispatch e = on_store (dispatch e)"

definition presentation_cleanup_hwnds :: "nat list \<Rightarrow> nat set \<Rightarrow> nat list" where
  "presentation_cleanup_hwnds managed materialized =
     sorted_list_of_set (set managed \<union> materialized)"

definition request_emergency_unwind :: "('w, 'n) platform \<Rightarrow> string \<Rightarrow> ('w, unit) daemon_act" where
  "request_emergency_unwind pf reason =
     thenA (modify (\<lambda>d. d\<lparr>cd_management_enabled := False\<rparr>))
     (bindA (gets (\<lambda>d. presentation_cleanup_hwnds (managed_window_hwnds (cd_store d)) (materialized_hwnds pf d)))
     (\<lambda>hwnds. bindA (attempt (on_adapter (adapter_clear_window_presentations pf hwnds))) (\<lambda>result.
     thenA (case result of
              Inl (RuntimeAdapter e) \<Rightarrow>
                push_degraded_reason (''presentation-cleanup-failed:'' @ adapter_error_text e)
            | _ \<Rightarrow> ret ())
     (push_degraded_reason (''emergency-unwind:'' @ reason)))))"

section \<open>Waiting for focus and geometry\<close>

definition focus_observation_grace :: nat where
  "focus_observation_grace = 250000000"

definition geometry_settle_grace :: nat where
  "geometry_settle_grace = 180000000"

definition arm_pending_focus_claim :: "('w, 'n) platform \<Rightarrow> nat option \<Rightarrow> ('w, unit) daemon_act" where
  "arm_pending_focus_claim pf previous =
     bindA (gets (\<lambda>d. current_focused_hwnd (cd_store d))) (\<lambda>current.
     case current of
       None \<Rightarrow> modify (\<lambda>d. d\<lparr>cd_pending_focus_claim := None, cd_platform_focus_candidate := None\<rparr>)
     | Some desired \<Rightarrow>
         if previous = Some desired then ret ()
         else bindA (gets (\<lambda>d. focus_origin_of (focus (cd_store d)))) (\<lambda>origin.
           if origin \<noteq> UserCommand then ret ()
           else thenA (modify (\<lambda>d. d\<lparr>cd_platform_focus_candidate := None\<rparr>))
             (bindA (instant_now pf) (\<lambda>now.
                modify (\<lambda>d. d\<lparr>cd_pending_focus_claim :=
                  Some \<lparr>pfc_desired_hwnd = desired, pfc_expires_at = now + focus_observation_grace\<rparr>\<rparr>)))))"

definition refresh_pending_focus_claim :: "('w, 'n) platform \<Rightarrow> ('w, unit) daemon_act" where
  "refresh_pending_focus_claim pf =
     bindA (gets cd_pending_focus_claim) (\<lambda>claim.
     case claim of
       None \<Rightarrow> ret ()
     | Some c \<Rightarrow> bindA (instant_now pf) (\<lambda>now.
         if pfc_expires_at c \<le> now then modify (\<lambda>d. d\<lparr>cd_pending_focus_claim := None\<rparr>) else ret ()))"

definition should_stage_platform_focus_observation :: "'w daemon \<Rightarrow> nat \<Rightarrow> bool" where
  "should_stage_platform_focus_observation d observed \<longleftrightarrow>
     (if cd_pending_focus_claim d \<noteq> None then False
      else case managed_tiled_focused_hwnd (cd_store d) of
        None \<Rightarrow> False
      | Some desired \<Rightarrow>
          if desired = observed then False
          else case managed_tiled_window_monitor_id (cd_store d) desired of
            None \<Rightarrow> False
          | Some m \<Rightarrow>
              (case managed_tiled_window_monitor_id (cd_store d) observed of
                 None \<Rightarrow> False | Some n \<Rightarrow> m \<noteq> n))"

definition stage_platform_focus_candidate :: "nat \<Rightarrow> ('w, unit) daemon_act" where
  "stage_platform_focus_candidate observed =
     modify (\<lambda>d. d\<lparr>cd_platform_focus_candidate :=
       Some \<lparr>pfd_observed_hwnd = observed, pfd_stable_snapshots = 1\<rparr>\<rparr>)"

definition refresh_candidate :: "nat option \<Rightarrow> 'w daemon \<Rightarrow> nat option \<times> 'w daemon" where
  "refresh_candidate actual d =
     (case cd_platform_focus_candidate d of
        None \<Rightarrow> (None, d)
      | Some c \<Rightarrow>
          let observed = pfd_observed_hwnd c in
          if actual \<noteq> Some observed \<or> \<not> should_stage_platform_focus_observation d observed
          then (None, d\<lparr>cd_platform_focus_candidate := None\<rparr>)
          else let n = min 255 (pfd_stable_snapshots c + 1) in
            if n < 2 then (None, d\<lparr>cd_platform_focus_candidate := Some (c\<lparr>pfd_stable_snapshots := n\<rparr>)\<rparr>)
            else (Some observed, d\<lparr>cd_platform_focus_candidate := None\<rparr>))"

definition arm_pending_geometry_settle ::
    "('w, 'n) platform \<Rightarrow> string \<Rightarrow> nat \<Rightarrow> bool \<Rightarrow> ('w, unit) daemon_act" where
  "arm_pending_geometry_settle pf reason planned dry_run =
     (if dry_run \<or> planned = 0 \<or> \<not> should_defer_post_apply_retry reason
      then modify (\<lambda>d. d\<lparr>cd_geometry_settle_until := None\<rparr>)
      else bindA (instant_now pf) (\<lambda>now.
        modify (\<lambda>d. d\<lparr>cd_geometry_settle_until := Some (now + geometry_settle_grace)\<rparr>)))"

definition should_defer_geometry_observation :: "('w, 'n) platform \<Rightarrow> string \<Rightarrow> ('w, bool) daemon_act" where
  "should_defer_geometry_observation pf reason =
     bindA (gets cd_geometry_settle_until) (\<lambda>expires.
     case expires of
       None \<Rightarrow> ret False
     | Some t \<Rightarrow> bindA (instant_now pf) (\<lambda>now.
         if t \<le> now then thenA (modify (\<lambda>d. d\<lparr>cd_geometry_settle_until := None\<rparr>)) (ret False)
         else ret (sublist ''location-change'' (normalize_reason_token reason))))"

text \<open>What happens once no claim is pending any more.\<close>

definition stage_or_forget :: "nat \<Rightarrow> ('w, bool) daemon_act" where
  "stage_or_forget observed =
     bindA (gets (\<lambda>d. should_stage_platform_focus_observation d observed)) (\<lambda>stage.
     if stage then thenA (stage_platform_focus_candidate observed) (ret True)
     else thenA (modify (\<lambda>d. d\<lparr>cd_platform_focus_candidate := None\<rparr>)) (ret False))"

definition should_defer_platform_focus_observation ::
    "('w, 'n) platform \<Rightarrow> nat \<Rightarrow> ('w, bool) daemon_act" where
  "should_defer_platform_focus_observation pf observed =
     bindA (gets cd_pending_focus_claim) (\<lambda>claim.
     case claim of
       None \<Rightarrow> stage_or_forget observed
     | Some c \<Rightarrow> bindA (instant_now pf) (\<lambda>now.
         if now < pfc_expires_at c then ret (observed \<noteq> pfc_desired_hwnd c)
         else thenA (modify (\<lambda>d. d\<lparr>cd_pending_focus_claim := None\<rparr>)) (stage_or_forget observed)))"

end
