(* ===== verification/Runtime_Plan.thy ===== *)
theory Runtime_Plan
  imports Runtime_Core
begin

text \<open>
  Planning (\<open>crates/wm-core/src/runtime.rs\<close>): which operations bring the windows of a snapshot to
  where the layouts put them, with what presentation and emphasis, and when a focus that the
  platform and the store disagree on holds the plan back. Planning only reads the daemon.
\<close>

section \<open>Presentations\<close>

definition monitor_scene_from_desktop_projection :: "desktop_window \<Rightarrow> monitor_scene" where
  "monitor_scene_from_desktop_projection w =
     \<lparr>ms_home_visible_rect = dw_owning_monitor_visible_rect w,
      ms_slices =
        map (\<lambda>sl. \<lparr>ss_kind = sl_kind sl, ss_monitor_rect = sl_monitor_work_area sl,
                   ss_destination_rect = sl_destination_rect sl, ss_source_rect = sl_source_rect sl,
                   ss_native_visible_rect = dw_logical_desktop_rect w\<rparr>)
          (dw_monitor_slices w)\<rparr>"

definition monitor_scene_requires_home_clip :: "desktop_window \<Rightarrow> bool" where
  "monitor_scene_requires_home_clip w \<longleftrightarrow>
     (case dw_owning_monitor_visible_rect w of
        None \<Rightarrow> False | Some visible \<Rightarrow> visible \<noteq> dw_logical_desktop_rect w)"

definition native_visible_presentation_requires_auxiliary_state :: "desktop_window \<Rightarrow> monitor_scene \<Rightarrow> bool" where
  "native_visible_presentation_requires_auxiliary_state w scene \<longleftrightarrow>
     monitor_scene_requires_home_clip w \<or> ms_slices scene \<noteq> []"

definition native_visible_presentation_from_desktop_projection :: "desktop_window \<Rightarrow> presentation" where
  "native_visible_presentation_from_desktop_projection w =
     (let scene = monitor_scene_from_desktop_projection w
      in if \<not> native_visible_presentation_requires_auxiliary_state w scene then presentation_default
         else presentation_default\<lparr>pr_monitor_scene := scene\<rparr>)"

text \<open>\<open>surrogate_rect.zip(surrogate_source_rect)\<close>.\<close>

definition surrogate_clip_of :: "desktop_window \<Rightarrow> surrogate_clip option" where
  "surrogate_clip_of w =
     (case (dw_surrogate_rect w, dw_surrogate_source_rect w) of
        (Some destination, Some source) \<Rightarrow>
          Some \<lparr>sc_destination_rect = destination, sc_source_rect = source,
                sc_native_visible_rect = dw_logical_desktop_rect w\<rparr>
      | _ \<Rightarrow> None)"

definition presentation_from_desktop_projection :: "desktop_window \<Rightarrow> presentation" where
  "presentation_from_desktop_projection w =
     (let scene = monitor_scene_from_desktop_projection w
      in case dw_presentation_mode w of
           NativeVisible \<Rightarrow> native_visible_presentation_from_desktop_projection w
         | NativeHidden \<Rightarrow> \<lparr>pr_mode = NativeHidden, pr_surrogate = None, pr_monitor_scene = scene\<rparr>
         | SurrogateVisible \<Rightarrow>
             \<lparr>pr_mode = SurrogateVisible, pr_surrogate = surrogate_clip_of w, pr_monitor_scene = scene\<rparr>
         | SurrogateClipped \<Rightarrow>
             \<lparr>pr_mode = SurrogateClipped, pr_surrogate = surrogate_clip_of w, pr_monitor_scene = scene\<rparr>)"

definition presentation_has_auxiliary_surfaces :: "presentation \<Rightarrow> bool" where
  "presentation_has_auxiliary_surfaces p \<longleftrightarrow>
     pr_surrogate p \<noteq> None \<or> ms_home_visible_rect (pr_monitor_scene p) \<noteq> None \<or>
     ms_slices (pr_monitor_scene p) \<noteq> []"

definition should_sync_presentation :: "bool \<Rightarrow> nat \<Rightarrow> presentation \<Rightarrow> bool \<Rightarrow> nat set \<Rightarrow> bool" where
  "should_sync_presentation overview_is_open h p non_native materialized \<longleftrightarrow>
     h \<in> materialized \<or>
     (\<not> overview_is_open \<and> (presentation_has_auxiliary_surfaces p \<or> non_native))"

definition materialized_presentation_cleanup_operations ::
    "platform_snapshot \<Rightarrow> nat set \<Rightarrow> nat set \<Rightarrow> apply_operation list" where
  "materialized_presentation_cleanup_operations p desired materialized =
     List.map_filter
       (\<lambda>h. map_option
          (\<lambda>w. \<lparr>op_hwnd = h, op_rect = pw_rect w, op_apply_geometry = False, op_activate = False,
                op_suppress_visual_gap = False, op_window_switch_animation = None,
                op_visual_emphasis = None, op_presentation = presentation_default\<rparr>)
          (window_by_hwnd p h))
       (filter (\<lambda>h. h \<notin> desired) (sorted_list_of_set materialized))"

definition stale_materialized_presentation_hwnds :: "platform_snapshot \<Rightarrow> nat set \<Rightarrow> nat list" where
  "stale_materialized_presentation_hwnds p materialized =
     filter (\<lambda>h. h \<notin> set (snapshot_hwnds p)) (sorted_list_of_set materialized)"

definition collect_workspace_layouts ::
    "wm_state \<Rightarrow> runtime_error + (workspace_id, workspace_projection) bmap" where
  "collect_workspace_layouts s =
     fold_res
       (\<lambda>ws m. bindE (map_err RuntimeCore (layout_of s (wsp_id ws))) (\<lambda>p. Inr (bm_put (wsp_id ws) p m)))
       (filter (\<lambda>ws. \<not> is_workspace_empty s (wsp_id ws)) (bm_values (workspaces s)))
       []"

definition effective_window_presentation ::
    "wm_state \<Rightarrow> window_id \<Rightarrow> presentation_mode \<Rightarrow> string \<Rightarrow> (nat \<Rightarrow> presentation_override option) \<Rightarrow>
     string \<times> string" where
  "effective_window_presentation s w mode reason overrides =
     (case (if mode \<in> {SurrogateVisible, SurrogateClipped}
            then Option.bind (Option.bind (get_window s w) win_hwnd) overrides else None) of
        Some o' \<Rightarrow> (presentation_mode_as_str (po_mode o'), po_reason o')
      | None \<Rightarrow> (presentation_mode_as_str mode, reason))"

record presentation_projection =
  pp_window_id :: window_id
  pp_mode :: string
  pp_reason :: string

definition build_window_presentation_projections ::
    "wm_state \<Rightarrow> desktop_projection \<Rightarrow> (nat \<Rightarrow> presentation_override option) \<Rightarrow>
     (window_id, presentation_projection) bmap" where
  "build_window_presentation_projections s desk overrides =
     map (\<lambda>(i, w).
       let (mode, reason) =
             effective_window_presentation s i (dw_presentation_mode w)
               (presentation_reason_as_str (dw_presentation_reason w)) overrides
       in (i, \<lparr>pp_window_id = i, pp_mode = mode, pp_reason = reason\<rparr>)) (dp_windows desk)"

definition current_window_presentations ::
    "('w, 'n) platform \<Rightarrow> 'w daemon \<Rightarrow> runtime_error + (window_id, presentation_projection) bmap" where
  "current_window_presentations pf d =
     bindE (collect_workspace_layouts (cd_store d)) (\<lambda>layouts.
       Inr (build_window_presentation_projections (cd_store d)
              (build_monitor_local_desktop_projection (cd_store d) (bm_get layouts))
              (pf_overrides pf (ad_world (cd_adapter d)))))"

section \<open>Holding back while the focus settles\<close>

record stabilization_hold =
  fh_startup_monitor_ids :: "monitor_id set"
  fh_held_hwnds :: "nat set"
  fh_suppress_activation_reassert :: bool

definition holds_window :: "stabilization_hold \<Rightarrow> nat \<Rightarrow> monitor_id \<Rightarrow> bool" where
  "holds_window hold h m \<longleftrightarrow> h \<in> fh_held_hwnds hold \<or> m \<in> fh_startup_monitor_ids hold"

definition startup_monitor_ids :: "'w daemon \<Rightarrow> platform_snapshot \<Rightarrow> monitor_id set" where
  "startup_monitor_ids d p =
     (if cd_last_snapshot d = None \<and> 1 < length (psn_monitors p)
      then case Option.bind (actual_foreground_hwnd p) (managed_tiled_window_monitor_id (cd_store d)) of
             None \<Rightarrow> {}
           | Some m \<Rightarrow>
               set (filter (\<lambda>n. n \<noteq> m)
                 (List.map_filter
                   (\<lambda>w. map_option wsp_monitor_id (get_workspace (cd_store d) (win_workspace_id w)))
                   (filter (\<lambda>w. win_is_managed w \<and> win_layer w = Tiled) (bm_values (windows (cd_store d))))))
      else {})"

definition held_pair :: "'w daemon \<Rightarrow> platform_snapshot \<Rightarrow> (nat \<times> nat) option" where
  "held_pair d p =
     (if cd_pending_focus_claim d \<noteq> None then None
      else case (managed_tiled_focused_hwnd (cd_store d), actual_foreground_hwnd p) of
        (Some desired, Some actual) \<Rightarrow>
          if desired = actual then None
          else (case (managed_tiled_window_monitor_id (cd_store d) desired,
                      managed_tiled_window_monitor_id (cd_store d) actual) of
                  (Some m, Some n) \<Rightarrow> if m \<noteq> n then Some (desired, actual) else None
                | _ \<Rightarrow> None)
      | _ \<Rightarrow> None)"

definition focus_stabilization_hold :: "'w daemon \<Rightarrow> platform_snapshot \<Rightarrow> stabilization_hold" where
  "focus_stabilization_hold d p =
     (case held_pair d p of
        None \<Rightarrow> \<lparr>fh_startup_monitor_ids = startup_monitor_ids d p, fh_held_hwnds = {},
                 fh_suppress_activation_reassert = False\<rparr>
      | Some (desired, actual) \<Rightarrow>
          \<lparr>fh_startup_monitor_ids = startup_monitor_ids d p, fh_held_hwnds = {desired, actual},
           fh_suppress_activation_reassert = True\<rparr>)"

definition should_hold_post_apply_for_focus_stabilization ::
    "'w daemon \<Rightarrow> platform_snapshot \<Rightarrow> apply_operation list \<Rightarrow> bool" where
  "should_hold_post_apply_for_focus_stabilization d p ops \<longleftrightarrow>
     (if ops = [] then False
      else let hold = focus_stabilization_hold d p in
        if \<not> fh_suppress_activation_reassert hold then False
        else list_all
          (\<lambda>op. case managed_tiled_window_monitor_id (cd_store d) (op_hwnd op) of
             None \<Rightarrow> False | Some m \<Rightarrow> holds_window hold (op_hwnd op) m) ops)"

definition should_attempt_activation_reassert :: "'w daemon \<Rightarrow> nat option \<Rightarrow> bool" where
  "should_attempt_activation_reassert d actual \<longleftrightarrow>
     (if cd_pending_focus_claim d \<noteq> None then True
      else case actual of
        None \<Rightarrow> True
      | Some h \<Rightarrow> (case window_of_hwnd (cd_store d) h of None \<Rightarrow> False | Some w \<Rightarrow> win_is_managed w))"

section \<open>The plan\<close>

record plan_context =
  pc_previous_focused_hwnd :: "nat option"
  pc_animate_window_switch :: bool
  pc_animate_tiled_geometry :: bool
  pc_force_activate_focused_window :: bool
  pc_refresh_visual_emphasis :: bool

definition plan_context_default :: plan_context where
  "plan_context_default =
     \<lparr>pc_previous_focused_hwnd = None, pc_animate_window_switch = False,
      pc_animate_tiled_geometry = False, pc_force_activate_focused_window = False,
      pc_refresh_visual_emphasis = False\<rparr>"

definition should_animate_window_switch :: "wm_state \<Rightarrow> nat option \<Rightarrow> nat option \<Rightarrow> bool" where
  "should_animate_window_switch s previous current \<longleftrightarrow>
     previous \<noteq> current \<and>
     (case Option.bind current (window_of_hwnd s) of
        None \<Rightarrow> False | Some w \<Rightarrow> win_is_managed w \<and> win_layer w = Tiled)"

definition build_apply_plan_context ::
    "wm_state \<Rightarrow> nat option \<Rightarrow> nat option \<Rightarrow> string \<Rightarrow> bool \<Rightarrow> plan_context" where
  "build_apply_plan_context s previous current reason refresh =
     \<lparr>pc_previous_focused_hwnd = previous,
      pc_animate_window_switch = should_animate_window_switch s previous current,
      pc_animate_tiled_geometry = should_animate_tiled_geometry reason,
      pc_force_activate_focused_window = should_force_activation_reassert reason,
      pc_refresh_visual_emphasis = (refresh \<or> previous \<noteq> current)\<rparr>"

text \<open>What the loop over the windows reads of the daemon, computed once before it.\<close>

record plan_facts =
  fa_context :: plan_context
  fa_desired_focused :: "nat option"
  fa_actual_focused :: "nat option"
  fa_effective_focused :: "nat option"
  fa_overview_is_open :: bool
  fa_hold :: stabilization_hold
  fa_allow_activation :: bool
  fa_materialized :: "nat set"

definition plan_facts_of :: "('w, 'n) platform \<Rightarrow> 'w daemon \<Rightarrow> platform_snapshot \<Rightarrow> plan_context \<Rightarrow> plan_facts" where
  "plan_facts_of pf d p ctx =
     (let s = cd_store d;
          desired = Option.bind (filter_opt win_is_managed (focused_window_node s)) win_hwnd;
          actual = actual_foreground_hwnd p;
          is_open = ov_is_open (overview s);
          hold = focus_stabilization_hold d p
      in \<lparr>fa_context = ctx, fa_desired_focused = desired, fa_actual_focused = actual,
          fa_effective_focused =
            (if fh_suppress_activation_reassert hold then or_opt actual desired else desired),
          fa_overview_is_open = is_open, fa_hold = hold,
          fa_allow_activation =
            (\<not> is_open \<and> \<not> fh_suppress_activation_reassert hold \<and>
             should_attempt_activation_reassert d actual),
          fa_materialized = materialized_hwnds pf d\<rparr>)"

definition plan_target :: "plan_facts \<Rightarrow> nat \<Rightarrow> window_layer \<Rightarrow> desktop_window \<Rightarrow> rect \<times> presentation" where
  "plan_target f h layer w =
     (let holds_native_visibility =
            (\<not> fa_overview_is_open f \<and> layer = Tiled \<and> holds_window (fa_hold f) h (dw_monitor_id w))
      in if fa_overview_is_open f then (dw_logical_desktop_rect w, presentation_default)
         else if holds_native_visibility then
           (dw_logical_desktop_rect w, native_visible_presentation_from_desktop_projection w)
         else (dw_desktop_rect w, presentation_from_desktop_projection w))"

definition plan_activates :: "plan_facts \<Rightarrow> nat \<Rightarrow> bool \<Rightarrow> bool" where
  "plan_activates f h needs_geometry \<longleftrightarrow>
     (case fa_desired_focused f of
        None \<Rightarrow> False
      | Some desired \<Rightarrow>
          fa_allow_activation f \<and> desired = h \<and>
          (needs_activation_apply (fa_actual_focused f) desired \<or>
           (pc_force_activate_focused_window (fa_context f) \<and> needs_geometry)))"

definition plan_emphasis ::
    "plan_facts \<Rightarrow> nat \<Rightarrow> platform_window \<Rightarrow> bool \<Rightarrow> bool \<Rightarrow> bool \<Rightarrow> visual_emphasis option" where
  "plan_emphasis f h actual non_native needs_geometry activate =
     (let previous = pc_previous_focused_hwnd (fa_context f);
          active_state_changed =
            (previous \<noteq> fa_effective_focused f \<and>
             (previous = Some h \<or> fa_effective_focused f = Some h))
      in filter_opt visual_emphasis_has_effect
           (if \<not> fa_overview_is_open f \<and> \<not> non_native \<and>
               (needs_geometry \<or> activate \<or> active_state_changed \<or>
                pc_refresh_visual_emphasis (fa_context f))
            then Some (build_visual_emphasis (fa_effective_focused f = Some h)
                         (pw_process_name actual) (pw_class_name actual) (pw_title actual))
            else None))"

definition plan_animation ::
    "plan_facts \<Rightarrow> platform_window \<Rightarrow> window_layer \<Rightarrow> bool \<Rightarrow> window_switch_animation option" where
  "plan_animation f actual layer needs_geometry =
     (if (pc_animate_window_switch (fa_context f) \<or> pc_animate_tiled_geometry (fa_context f)) \<and>
         supports_tiled_window_switch_animation (pw_process_name actual) (pw_class_name actual)
           (pw_title actual) \<and>
         layer = Tiled \<and> needs_geometry
      then Some \<lparr>wsa_from_rect = pw_rect actual, wsa_duration_ms = window_switch_animation_duration_ms,
                 wsa_frame_count = window_switch_animation_frame_count\<rparr>
      else None)"

text \<open>The operation for one window that is bound to a handle of the snapshot, if it needs one.\<close>

definition plan_window ::
    "plan_facts \<Rightarrow> window_layer \<Rightarrow> nat \<Rightarrow> platform_window \<Rightarrow> desktop_window \<Rightarrow> apply_operation option" where
  "plan_window f layer h actual w =
     (let (target, p) = plan_target f h layer w;
          non_native = (pr_mode p \<noteq> NativeVisible);
          needs_sync =
            should_sync_presentation (fa_overview_is_open f) h p non_native (fa_materialized f);
          needs_geometry =
            (if layer = Tiled then needs_tiled_gapless_geometry_apply (pw_rect actual) target
             else needs_geometry_apply (pw_rect actual) target);
          activate = plan_activates f h needs_geometry;
          emphasis = plan_emphasis f h actual non_native needs_geometry activate
      in if needs_geometry \<or> activate \<or> emphasis \<noteq> None \<or> needs_sync
         then Some \<lparr>op_hwnd = h, op_rect = target, op_apply_geometry = needs_geometry,
                    op_activate = activate,
                    op_suppress_visual_gap =
                      should_suppress_visual_gap layer (pw_process_name actual)
                        (pw_class_name actual) (pw_title actual),
                    op_window_switch_animation = plan_animation f actual layer needs_geometry,
                    op_visual_emphasis = emphasis, op_presentation = p\<rparr>
         else None)"

definition plan_geometry ::
    "plan_facts \<Rightarrow> wm_state \<Rightarrow> platform_snapshot \<Rightarrow> desktop_projection \<Rightarrow> window_geometry \<Rightarrow>
     apply_operation option" where
  "plan_geometry f s p desk g =
     (case get_window s (geo_window_id g) of
        None \<Rightarrow> None
      | Some node \<Rightarrow>
          if \<not> win_is_managed node then None
          else case win_hwnd node of
            None \<Rightarrow> None
          | Some h \<Rightarrow>
              (case window_by_hwnd p h of
                 None \<Rightarrow> None
               | Some actual \<Rightarrow>
                   (case bm_get (dp_windows desk) (geo_window_id g) of
                      None \<Rightarrow> None
                    | Some w \<Rightarrow> plan_window f (geo_layer g) h actual w)))"

text \<open>The windows in the order the loops visit them: monitors, bands, geometries.\<close>

definition planned_geometries ::
    "wm_state \<Rightarrow> (workspace_id, workspace_projection) bmap \<Rightarrow> desktop_projection \<Rightarrow> window_geometry list" where
  "planned_geometries s layouts desk =
     concat (map proj_window_geometries
       (List.map_filter (\<lambda>band. bm_get layouts (wb_workspace_id band))
         (concat (map md_workspace_bands
           (List.map_filter (bm_get (dp_monitors desk)) (monitor_ids_in_navigation_order s))))))"

definition plan_apply_operations_with_context ::
    "('w, 'n) platform \<Rightarrow> 'w daemon \<Rightarrow> platform_snapshot \<Rightarrow> plan_context \<Rightarrow>
     runtime_error + apply_operation list" where
  "plan_apply_operations_with_context pf d p ctx =
     bindE (collect_workspace_layouts (cd_store d)) (\<lambda>layouts.
       let s = cd_store d;
           desk = build_monitor_local_desktop_projection s (bm_get layouts);
           f = plan_facts_of pf d p ctx;
           ops = List.map_filter (plan_geometry f s p desk) (planned_geometries s layouts desk)
       in Inr (ops @ materialized_presentation_cleanup_operations p (set (map op_hwnd ops))
                       (fa_materialized f)))"

definition plan_apply_operations ::
    "('w, 'n) platform \<Rightarrow> 'w daemon \<Rightarrow> platform_snapshot \<Rightarrow> runtime_error + apply_operation list" where
  "plan_apply_operations pf d p = plan_apply_operations_with_context pf d p plan_context_default"

end
