(* ===== verification/Runtime_Validation.thy ===== *)
theory Runtime_Validation
  imports Runtime_Plan
begin

text \<open>
  \<open>crates/wm-core/src/runtime/validation.rs\<close> and \<open>RuntimeCycleReport\<close> of \<open>crates/wm-core/src/lib.rs\<close>:
  after the operations are applied the platform is scanned again, what still diverges is retried
  once, and a divergence of several windows over three cycles turns the management off.
\<close>

section \<open>Reports\<close>

record cycle_report =
  cy_monitor_count :: nat
  cy_observed_window_count :: nat
  cy_discovered_windows :: nat
  cy_destroyed_windows :: nat
  cy_focused_hwnd :: "nat option"
  cy_observation_reason :: "string option"
  cy_planned_operations :: nat
  cy_applied_operations :: nat
  cy_apply_failures :: nat
  cy_apply_failure_messages :: "string list"
  cy_recovery_rescans :: nat
  cy_validation_remaining_operations :: nat
  cy_recovery_actions :: "string list"
  cy_management_enabled :: bool
  cy_dry_run :: bool
  cy_degraded_reasons :: "string list"
  cy_discovery_trace_logs :: "string list"
  cy_strip_movement_logs :: "string list"
  cy_window_trace_logs :: "string list"
  cy_validation_trace_logs :: "string list"

fun join_with :: "string \<Rightarrow> string list \<Rightarrow> string" where
  "join_with sep [] = []"
| "join_with sep [l] = l"
| "join_with sep (l # ls) = l @ sep @ join_with sep ls"

definition count_line :: "string \<Rightarrow> nat \<Rightarrow> string" where
  "count_line label n = label @ '': '' @ nat_to_dec n"

definition log_lines :: "string \<Rightarrow> string list \<Rightarrow> string list" where
  "log_lines label logs = (if logs = [] then [] else count_line label (length logs) # logs)"

definition joined_line :: "string \<Rightarrow> string \<Rightarrow> string list \<Rightarrow> string list" where
  "joined_line label sep items = (if items = [] then [] else [label @ '': '' @ join_with sep items])"

definition report_summary_lines :: "cycle_report \<Rightarrow> string list" where
  "report_summary_lines r =
     [count_line ''monitors observed'' (cy_monitor_count r),
      count_line ''windows observed'' (cy_observed_window_count r),
      count_line ''windows discovered'' (cy_discovered_windows r),
      count_line ''windows destroyed'' (cy_destroyed_windows r),
      count_line ''platform operations planned'' (cy_planned_operations r),
      count_line ''platform operations applied'' (cy_applied_operations r),
      count_line ''platform apply failures'' (cy_apply_failures r),
      count_line ''recovery rescans'' (cy_recovery_rescans r),
      count_line ''validation operations remaining'' (cy_validation_remaining_operations r),
      ''management enabled: '' @ show_bool (cy_management_enabled r),
      ''dry run: '' @ show_bool (cy_dry_run r)] @
     (case cy_observation_reason r of None \<Rightarrow> [] | Some reason \<Rightarrow> [''observation reason: '' @ reason]) @
     joined_line ''apply failure messages'' '' | '' (cy_apply_failure_messages r) @
     joined_line ''recovery actions'' '', '' (cy_recovery_actions r) @
     joined_line ''degraded reasons'' '', '' (cy_degraded_reasons r) @
     log_lines ''discovery trace entries'' (cy_discovery_trace_logs r) @
     log_lines ''strip movements'' (cy_strip_movement_logs r) @
     log_lines ''window trace entries'' (cy_window_trace_logs r) @
     log_lines ''validation trace entries'' (cy_validation_trace_logs r)"

definition push_action :: "string \<Rightarrow> cycle_report \<Rightarrow> cycle_report" where
  "push_action a r = r\<lparr>cy_recovery_actions := cy_recovery_actions r @ [a]\<rparr>"

definition failure_messages :: "apply_batch_result \<Rightarrow> string list" where
  "failure_messages b =
     map (\<lambda>f. ''hwnd '' @ nat_to_dec (af_hwnd f) @ '': '' @ af_message f) (br_failures b)"

section \<open>Traces\<close>

definition describe_strip_movement :: "wm_state \<Rightarrow> platform_snapshot \<Rightarrow> apply_operation \<Rightarrow> string option" where
  "describe_strip_movement s p op =
     (case find_window_id_by_hwnd s (op_hwnd op) of
        None \<Rightarrow> None
      | Some i \<Rightarrow>
     (case get_window s i of
        None \<Rightarrow> None
      | Some w \<Rightarrow>
          if \<not> win_is_managed w \<or> win_layer w \<noteq> Tiled then None
          else let from_rect = (case window_by_hwnd p (op_hwnd op) of
                                  None \<Rightarrow> op_rect op | Some actual \<Rightarrow> pw_rect actual)
               in Some (''strip-move: hwnd='' @ nat_to_dec (op_hwnd op) @
                        '' window_id='' @ nat_to_dec (raw_window_id i) @
                        '' from='' @ show_rect from_rect @ '' to='' @ show_rect (op_rect op) @
                        '' delta='' @ show_delta (op_rect op) from_rect @
                        '' animated='' @ show_bool (op_window_switch_animation op \<noteq> None) @
                        '' activate='' @ show_bool (op_activate op))))"

definition describe_strip_movements ::
    "wm_state \<Rightarrow> platform_snapshot \<Rightarrow> apply_operation list \<Rightarrow> string list" where
  "describe_strip_movements s p ops = List.map_filter (describe_strip_movement s p) ops"

text \<open>Collecting into a map keyed by handle: the last one wins.\<close>

definition operation_of_hwnd :: "apply_operation list \<Rightarrow> nat \<Rightarrow> apply_operation option" where
  "operation_of_hwnd ops h = find (\<lambda>op. op_hwnd op = h) (rev ops)"

definition state_window_by_hwnd :: "wm_state \<Rightarrow> nat \<Rightarrow> window_node option" where
  "state_window_by_hwnd s h = find (\<lambda>w. win_hwnd w = Some h) (rev (bm_values (windows s)))"

definition trace_of_window ::
    "wm_state \<Rightarrow> string \<Rightarrow> apply_operation list \<Rightarrow> string option \<Rightarrow> platform_window \<Rightarrow> window_trace" where
  "trace_of_window s stage ops label w =
     (let tracked = state_window_by_hwnd s (pw_hwnd w)
      in \<lparr>wt_stage = stage, wt_remaining_label = label, wt_hwnd = pw_hwnd w,
          wt_process_id = pw_process_id w,
          wt_process_name = (case pw_process_name w of None \<Rightarrow> ''unknown'' | Some n \<Rightarrow> n),
          wt_layer = map_option win_layer tracked, wt_title = sanitize_log_text (pw_title w),
          wt_focused = pw_is_focused w, wt_management_candidate = pw_management_candidate w,
          wt_managed = (case tracked of None \<Rightarrow> False | Some n \<Rightarrow> win_is_managed n),
          wt_workspace_id = map_option (\<lambda>n. raw_workspace_id (win_workspace_id n)) tracked,
          wt_column_id = map_option raw_column_id (Option.bind tracked win_column_id),
          wt_observed_rect = pw_rect w, wt_operation = operation_of_hwnd ops (pw_hwnd w)\<rparr>)"

text \<open>The line of an operation whose window is not in the snapshot.\<close>

definition missing_trace_line :: "wm_state \<Rightarrow> string \<Rightarrow> string option \<Rightarrow> apply_operation \<Rightarrow> string" where
  "missing_trace_line s stage label op =
     (let tracked = window_of_hwnd s (op_hwnd op)
      in ''window-trace['' @ stage @ '']: hwnd='' @ nat_to_dec (op_hwnd op) @
         '' process=unknown pid=0 layer='' @
           (case tracked of None \<Rightarrow> ''untracked'' | Some w \<Rightarrow> window_layer_name (win_layer w)) @
         '' title='' @ [CHR 0x22] @ ''missing-from-snapshot'' @ [CHR 0x22] @
         '' focused=false candidate=false managed='' @
           show_bool (case tracked of None \<Rightarrow> False | Some w \<Rightarrow> win_is_managed w) @
         '' workspace='' @ show_some (map_option (\<lambda>w. raw_workspace_id (win_workspace_id w)) tracked) @
         '' column='' @ show_some (map_option raw_column_id (Option.bind tracked win_column_id)) @
         '' observed=missing target='' @ show_rect (op_rect op) @
         '' delta=missing apply_geometry='' @ show_bool (op_apply_geometry op) @
         '' activate='' @ show_bool (op_activate op) @
         '' animated='' @ show_bool (op_window_switch_animation op \<noteq> None) @
         '' suppress_gap='' @ show_bool (op_suppress_visual_gap op) @
         '' status='' @ (case label of None \<Rightarrow> ''planned'' | Some l \<Rightarrow> l))"

definition describe_window_trace ::
    "wm_state \<Rightarrow> string \<Rightarrow> platform_snapshot \<Rightarrow> apply_operation list \<Rightarrow> string option \<Rightarrow> string list" where
  "describe_window_trace s stage p ops label =
     map (\<lambda>w. format_window_trace_line (trace_of_window s stage ops label w)) (psn_windows p) @
     map (missing_trace_line s stage label) (filter (\<lambda>op. op_hwnd op \<notin> set (snapshot_hwnds p)) ops)"

section \<open>What can be validated\<close>

definition filter_validatable_operations :: "apply_operation list \<Rightarrow> apply_operation list" where
  "filter_validatable_operations ops = filter (\<lambda>op. op_apply_geometry op \<or> op_activate op) ops"

definition without_geometry :: "apply_operation \<Rightarrow> apply_operation" where
  "without_geometry op =
     op\<lparr>op_apply_geometry := False, op_suppress_visual_gap := False, op_window_switch_animation := None\<rparr>"

definition validatable_operation :: "platform_snapshot \<Rightarrow> apply_operation \<Rightarrow> apply_operation option" where
  "validatable_operation p op =
     (case window_by_hwnd p (op_hwnd op) of
        None \<Rightarrow> None
      | Some w \<Rightarrow>
          if should_skip_strict_geometry_revalidation (pw_process_name w) (pw_class_name w) (pw_title w)
          then (if op_activate op then Some (without_geometry op) else None)
          else if classify_window_visual_safety (pw_process_name w) (pw_class_name w) (pw_title w)
                    = SafeFullEmphasis
          then Some op
          else if op_activate op then Some (without_geometry op) else None)"

definition filter_validatable_operations_for_snapshot ::
    "platform_snapshot \<Rightarrow> apply_operation list \<Rightarrow> apply_operation list" where
  "filter_validatable_operations_for_snapshot p ops =
     List.map_filter (validatable_operation p) (filter_validatable_operations ops)"

section \<open>Windows that refuse to shrink\<close>

definition refuses_width :: "rect \<Rightarrow> rect \<Rightarrow> bool" where
  "refuses_width actual desired \<longleftrightarrow>
     \<not> rect_width actual \<le> rect_width desired \<and>
     (rect_x actual = rect_x desired \<or>
      i32_sat_add (rect_x actual) (u32_as_i32 (rect_width actual))
        = i32_sat_add (rect_x desired) (u32_as_i32 (rect_width desired)))"

text \<open>The width a column takes over from the window of an operation, with the column.\<close>

definition min_width_target :: "platform_snapshot \<Rightarrow> apply_operation \<Rightarrow> wm_state \<Rightarrow> (column_id \<times> nat) option" where
  "min_width_target p op s =
     (if \<not> op_apply_geometry op then None
      else case window_by_hwnd p (op_hwnd op) of
        None \<Rightarrow> None
      | Some actual \<Rightarrow>
          if \<not> refuses_width (pw_rect actual) (op_rect op) then None
          else case window_of_hwnd s (op_hwnd op) of
            None \<Rightarrow> None
          | Some w \<Rightarrow>
              (case win_column_id w of
                 None \<Rightarrow> None
               | Some c \<Rightarrow>
                   if \<not> win_is_managed w \<or> win_layer w \<noteq> Tiled then None
                   else (case get_column s c of
                     None \<Rightarrow> None
                   | Some col \<Rightarrow>
                       if col_width col = Fixed (rect_width (pw_rect actual)) then None
                       else Some (c, rect_width (pw_rect actual)))))"

definition min_width_step :: "platform_snapshot \<Rightarrow> apply_operation \<Rightarrow> bool \<times> wm_state \<Rightarrow> bool \<times> wm_state" where
  "min_width_step p op = (\<lambda>(adapted, s).
     case min_width_target p op s of
       None \<Rightarrow> (adapted, s)
     | Some (c, w) \<Rightarrow> (True, upd_column c (\<lambda>col. col\<lparr>col_width := Fixed w\<rparr>) s))"

definition adapt_to_platform_min_widths ::
    "platform_snapshot \<Rightarrow> apply_operation list \<Rightarrow> ('w, bool) daemon_act" where
  "adapt_to_platform_min_widths p ops =
     stateA (\<lambda>d. let (adapted, s) = fold (min_width_step p) ops (False, cd_store d)
                 in (adapted, d\<lparr>cd_store := s\<rparr>))"

section \<open>Validation\<close>

definition ops_note :: "string \<Rightarrow> apply_operation list \<Rightarrow> string \<Rightarrow> string" where
  "ops_note label ops ending = label @ '':'' @ nat_to_dec (length ops) @ ending"

definition reset_desync :: "('w, unit) daemon_act" where
  "reset_desync = modify (\<lambda>d. d\<lparr>cd_consecutive_desync_cycles := 0\<rparr>)"

definition with_flags :: "cycle_report \<Rightarrow> ('w, cycle_report) daemon_act" where
  "with_flags r = gets (\<lambda>d. r\<lparr>cy_degraded_reasons := degraded_flags d\<rparr>)"

text \<open>The outcomes that end a validation without a retry, and the report they give.\<close>

definition settled :: "string option \<Rightarrow> string \<Rightarrow> cycle_report \<Rightarrow> ('w, cycle_report) daemon_act" where
  "settled reason action r =
     thenA reset_desync
     (thenA (case reason of None \<Rightarrow> ret () | Some x \<Rightarrow> push_degraded_reason x)
     (with_flags (push_action action r)))"

definition planned_validatable ::
    "('w, 'n) platform \<Rightarrow> platform_snapshot \<Rightarrow> ('w, apply_operation list) daemon_act" where
  "planned_validatable pf p =
     bindA (tryA (\<lambda>d. plan_apply_operations pf d p)) (\<lambda>ops.
       ret (filter_validatable_operations_for_snapshot p ops))"

text \<open>A divergence that no churn explains: the third one in a row over several windows unwinds.\<close>

definition escalate_desync ::
    "('w, 'n) platform \<Rightarrow> apply_operation list \<Rightarrow> cycle_report \<Rightarrow> ('w, cycle_report) daemon_act" where
  "escalate_desync pf remaining r =
     thenA (modify (\<lambda>d. d\<lparr>cd_consecutive_desync_cycles := wrap_u32 (cd_consecutive_desync_cycles d + 1)\<rparr>))
     (thenA (push_degraded_reason (''desync:remaining-operations:'' @ nat_to_dec (length remaining)))
     (bindA (gets cd_consecutive_desync_cycles) (\<lambda>cycles.
      let r1 = push_action (ops_note ''full-scan-escalation'' remaining ''-ops-still-diverged'') r in
      if should_auto_unwind_after_desync remaining cycles
      then thenA (request_emergency_unwind pf ''desync-recovery-escalated'')
             (ret (push_action ''safe-mode-unwind'' r1))
      else ret r1)))"

definition after_retry ::
    "('w, 'n) platform \<Rightarrow> platform_snapshot \<Rightarrow> platform_snapshot \<Rightarrow> apply_operation list \<Rightarrow> cycle_report \<Rightarrow>
     ('w, cycle_report) daemon_act" where
  "after_retry pf first_scan second_scan remaining r =
     (if remaining = [] then thenA reset_desync (ret (push_action ''retry-recovered'' r))
      else if operations_are_activation_only second_scan remaining then
        thenA reset_desync
        (thenA (push_degraded_reason ''activation:foreground-refused'')
        (ret (push_action (ops_note ''activation-only-degraded'' remaining ''-ops-remain'') r)))
      else if has_transient_topology_churn (cy_observed_window_count r)
                (length (psn_windows first_scan)) (length (psn_windows second_scan))
                (cy_discovered_windows r) (cy_destroyed_windows r) then
        thenA reset_desync
        (thenA (push_degraded_reason ''desync:topology-churn'')
        (ret (push_action (ops_note ''topology-churn-hold'' remaining ''-ops-still-diverged'') r)))
      else escalate_desync pf remaining r)"

definition retry_operations ::
    "('w, 'n) platform \<Rightarrow> platform_snapshot \<Rightarrow> apply_operation list \<Rightarrow> cycle_report \<Rightarrow>
     ('w, cycle_report) daemon_act" where
  "retry_operations pf scan remaining r =
     thenA (push_degraded_reason ''desync:post-apply-diverged'')
     (let r1 = push_action (ops_note ''targeted-retry'' remaining ''-ops-remain'') r in
      bindA (on_adapter (adapter_apply_operations pf remaining)) (\<lambda>batch.
      bindA (on_adapter (adapter_scan_snapshot pf)) (\<lambda>second_scan.
      bindA (planned_validatable pf second_scan) (\<lambda>left_over.
      bindA (after_retry pf scan second_scan left_over
        (r1\<lparr>cy_applied_operations := cy_applied_operations r1 + br_applied batch,
            cy_apply_failures := cy_apply_failures r1 + length (br_failures batch),
            cy_apply_failure_messages := cy_apply_failure_messages r1 @ failure_messages batch,
            cy_recovery_rescans := cy_recovery_rescans r1 + 1,
            cy_validation_remaining_operations := length left_over\<rparr>)) (\<lambda>r2.
      bindA (gets cd_management_enabled) (\<lambda>enabled.
      with_flags (r2\<lparr>cy_management_enabled := enabled\<rparr>)))))))"

definition judge_remaining ::
    "('w, 'n) platform \<Rightarrow> platform_snapshot \<Rightarrow> bool \<Rightarrow> apply_operation list \<Rightarrow> cycle_report \<Rightarrow>
     ('w, cycle_report) daemon_act" where
  "judge_remaining pf scan adapted remaining r =
     (if remaining = [] then settled None ''post-apply-validation-clean'' r
      else if operations_are_activation_only scan remaining then
        settled (Some ''activation:foreground-refused'')
          (ops_note ''activation-only-degraded'' remaining ''-ops-remain'') r
      else if \<not> adapted \<and>
              (case cy_observation_reason r of
                 None \<Rightarrow> False | Some reason \<Rightarrow> should_defer_post_apply_retry reason) then
        settled None (ops_note ''post-apply-settling'' remaining ''-ops-remain'') r
      else bindA (gets (\<lambda>d. should_hold_post_apply_for_focus_stabilization d scan remaining)) (\<lambda>hold.
        if hold then
          settled (Some ''focus:stabilization-hold'')
            (ops_note ''focus-stabilization-hold'' remaining ''-ops-remain'') r
        else retry_operations pf scan remaining r))"

definition validate_body ::
    "('w, 'n) platform \<Rightarrow> bool \<Rightarrow> cycle_report \<Rightarrow> ('w, cycle_report) daemon_act" where
  "validate_body pf dry_run r =
     bindA (gets cd_management_enabled) (\<lambda>enabled.
     if dry_run \<or> \<not> enabled \<or> cy_planned_operations r = 0 then
       thenA (modify (\<lambda>d. d\<lparr>cd_perf := rp_post_apply_validation_update record_skip (cd_perf d)\<rparr>)) (ret r)
     else
       bindA (on_adapter (adapter_scan_snapshot pf)) (\<lambda>scan.
       let r1 = r\<lparr>cy_recovery_rescans := cy_recovery_rescans r + 1\<rparr> in
       bindA (planned_validatable pf scan) (\<lambda>planned.
       bindA (adapt_to_platform_min_widths scan planned) (\<lambda>adapted.
       bindA (if adapted then planned_validatable pf scan else ret planned) (\<lambda>remaining.
       let r2 = (if adapted then push_action ''platform-min-width-adapted'' r1 else r1) in
       bindA (gets (\<lambda>d. describe_window_trace (cd_store d) ''validation'' scan remaining (Some ''remaining'')))
       (\<lambda>trace. judge_remaining pf scan adapted remaining
          (r2\<lparr>cy_validation_trace_logs := trace,
              cy_validation_remaining_operations := length remaining\<rparr>)))))))"

definition validate_after_apply ::
    "('w, 'n) platform \<Rightarrow> bool \<Rightarrow> cycle_report \<Rightarrow> ('w, cycle_report) daemon_act" where
  "validate_after_apply pf dry_run r = timed pf rp_post_apply_validation_update (validate_body pf dry_run r)"

end
