(* ===== verification/Runtime_Observation.thy ===== *)
theory Runtime_Observation
  imports Runtime_Validation
begin

text \<open>
  \<open>crates/wm-core/src/runtime/observation.rs\<close>: a snapshot of the platform is brought into the store
  (monitors, then windows that vanished, changed policy or have been stable long enough to be taken
  over, then the focus), and the operations it calls for are planned and applied.
\<close>

section \<open>Readers\<close>

definition daemon_manages_monitor :: "'w daemon \<Rightarrow> monitor_id \<Rightarrow> bool" where
  "daemon_manages_monitor d m \<longleftrightarrow>
     (case get_monitor (cd_store d) m of
        None \<Rightarrow> False
      | Some mon \<Rightarrow>
          manages_monitor_binding (lc_projection (cd_active_config d)) (mon_platform_binding mon))"

definition daemon_first_managed_monitor_id :: "'w daemon \<Rightarrow> monitor_id option" where
  "daemon_first_managed_monitor_id d =
     find (daemon_manages_monitor d) (monitor_ids_in_navigation_order (cd_store d))"

definition active_context_monitor :: "wm_state \<Rightarrow> monitor_id option" where
  "active_context_monitor s =
     or_opt
       (Option.bind (focused_window_node s)
         (\<lambda>w. map_option wsp_monitor_id (get_workspace s (win_workspace_id w))))
       (focus_monitor (focus s))"

definition discovery_target_monitor_id :: "'w daemon \<Rightarrow> monitor_id \<Rightarrow> bool \<Rightarrow> monitor_id" where
  "discovery_target_monitor_id d actual managed =
     (if \<not> managed then actual
      else case filter_opt (daemon_manages_monitor d) (active_context_monitor (cd_store d)) of
        Some m \<Rightarrow> m
      | None \<Rightarrow>
          if daemon_manages_monitor d actual then actual
          else (case daemon_first_managed_monitor_id d of None \<Rightarrow> actual | Some m \<Rightarrow> m))"

definition active_context_has_focused_window :: "wm_state \<Rightarrow> monitor_id \<Rightarrow> bool" where
  "active_context_has_focused_window s m \<longleftrightarrow>
     (case active_workspace_id_for_monitor s m of
        None \<Rightarrow> False
      | Some ws \<Rightarrow>
          (case focused_window_node s of None \<Rightarrow> False | Some w \<Rightarrow> win_workspace_id w = ws))"

definition active_context_window_is_fullscreen :: "wm_state \<Rightarrow> monitor_id \<Rightarrow> bool" where
  "active_context_window_is_fullscreen s m \<longleftrightarrow>
     (case active_workspace_id_for_monitor s m of
        None \<Rightarrow> False
      | Some ws \<Rightarrow>
          (case focused_window_node s of
             None \<Rightarrow> False
           | Some w \<Rightarrow> win_workspace_id w = ws \<and> (win_layer w = Fullscreen \<or> win_is_fullscreen w)))"

definition discovery_placement_for_window ::
    "wm_state \<Rightarrow> monitor_id \<Rightarrow> window_rule_decision \<Rightarrow> width_semantics \<Rightarrow> bool \<Rightarrow> window_placement" where
  "discovery_placement_for_window s m decision width follow =
     (if follow \<and> wd_managed decision \<and> wd_layer decision = Tiled \<and> active_context_has_focused_window s m
      then NewColumnAfterFocus (wd_column_mode decision) width
      else AppendToWorkspaceEnd (wd_column_mode decision) width)"

definition discovery_focus_behavior_for_window ::
    "wm_state \<Rightarrow> nat \<Rightarrow> nat option \<Rightarrow> monitor_id \<Rightarrow> window_rule_decision \<Rightarrow> focus_behavior" where
  "discovery_focus_behavior_for_window s h focused m decision =
     (if Some h = focused then FollowNewWindow
      else if wd_managed decision \<and> wd_layer decision = Tiled \<and> active_context_window_is_fullscreen s m
      then FollowNewWindow
      else PreserveCurrentFocus)"

definition maximum_tiled_width_for_monitor :: "'w daemon \<Rightarrow> monitor_id \<Rightarrow> nat" where
  "maximum_tiled_width_for_monitor d m =
     (case get_monitor (cd_store d) m of
        None \<Rightarrow> 1
      | Some mon \<Rightarrow>
          max (rect_width (padded_tiled_viewport (mon_work_area_rect mon) (lc_projection (cd_active_config d)))) 1)"

definition discovered_width_semantics ::
    "'w daemon \<Rightarrow> window_rule_decision \<Rightarrow> platform_window \<Rightarrow> monitor_id \<Rightarrow> width_semantics" where
  "discovered_width_semantics d decision w m =
     (if wd_layer decision \<noteq> Tiled \<or> wd_width_semantics_explicit decision then wd_width_semantics decision
      else Fixed (min (max (rect_width (pw_rect w)) 1) (maximum_tiled_width_for_monitor d m)))"

definition decision_for :: "'w daemon \<Rightarrow> platform_window \<Rightarrow> window_rule_decision" where
  "decision_for d w =
     classify_window (lc_rules (cd_active_config d))
       \<lparr>wi_process_name = pw_process_name w, wi_class_name = pw_class_name w, wi_title = pw_title w\<rparr>
       (lc_projection (cd_active_config d))"

section \<open>Monitors\<close>

definition refresh_strip :: "monitor_id \<Rightarrow> rect \<Rightarrow> workspace \<Rightarrow> workspace" where
  "refresh_strip m area ws =
     ws\<lparr>wsp_monitor_id := m, wsp_strip := (wsp_strip ws)\<lparr>strip_visible_region := area\<rparr>\<rparr>"

definition refresh_workspace_set_monitor_projection :: "workspace_set_id \<Rightarrow> wm_state \<Rightarrow> wm_state" where
  "refresh_workspace_set_monitor_projection i s =
     (case get_set s i of
        None \<Rightarrow> s
      | Some x \<Rightarrow>
          (case get_monitor s (wset_monitor_id x) of
             None \<Rightarrow> s
           | Some mon \<Rightarrow>
               let t = normalize_workspace_set i s;
                   ids = (case get_set t i of None \<Rightarrow> [] | Some y \<Rightarrow> wset_ordered y)
               in fold (\<lambda>w. upd_workspace w (refresh_strip (wset_monitor_id x) (mon_work_area_rect mon))) ids t))"

definition upd_monitor :: "monitor_id \<Rightarrow> (monitor \<Rightarrow> monitor) \<Rightarrow> wm_state \<Rightarrow> wm_state" where
  "upd_monitor m f s = s\<lparr>monitors := bm_adj m f (monitors s)\<rparr>"

definition monitor_seen :: "platform_monitor \<Rightarrow> monitor \<Rightarrow> monitor" where
  "monitor_seen p mon =
     mon\<lparr>mon_platform_binding := Some (pmo_binding p), mon_work_area_rect := pmo_work_area_rect p,
         mon_dpi := pmo_dpi p, mon_is_primary_hint := pmo_is_primary p,
         mon_topology_role := (if pmo_is_primary p then Primary else Secondary)\<rparr>"

definition monitor_lost :: "platform_monitor \<Rightarrow> monitor \<Rightarrow> monitor" where
  "monitor_lost fallback mon =
     mon\<lparr>mon_work_area_rect := pmo_work_area_rect fallback, mon_dpi := pmo_dpi fallback,
         mon_is_primary_hint := False, mon_topology_role := Secondary\<rparr>"

text \<open>Writing one monitor and refreshing its workspaces; a monitor that is not there is only noted.\<close>

definition write_monitor :: "monitor_id \<Rightarrow> (monitor \<Rightarrow> monitor) \<Rightarrow> string \<Rightarrow> wm_state \<Rightarrow> wm_state" where
  "write_monitor m f note s =
     (case get_monitor s m of
        None \<Rightarrow> push_flag (''missing-monitor-state:'' @ note) s
      | Some mon \<Rightarrow>
          refresh_workspace_set_monitor_projection (mon_workspace_set_id mon) (upd_monitor m f s))"

definition sync_monitor :: "platform_monitor \<Rightarrow> wm_state \<Rightarrow> wm_state" where
  "sync_monitor p s =
     (case monitor_id_by_binding s (pmo_binding p) of
        Some m \<Rightarrow> write_monitor m (monitor_seen p) (pmo_binding p) s
      | None \<Rightarrow>
          let (m, t) = add_monitor (pmo_work_area_rect p) (pmo_dpi p) (pmo_is_primary p) s
          in upd_monitor m (\<lambda>mon. mon\<lparr>mon_platform_binding := Some (pmo_binding p)\<rparr>) t)"

definition lose_monitor :: "platform_monitor \<Rightarrow> string \<Rightarrow> wm_state \<Rightarrow> wm_state" where
  "lose_monitor fallback binding s =
     (let t = push_flag (''missing-monitor:'' @ binding) s
      in case monitor_id_by_binding t binding of
           None \<Rightarrow> t
         | Some m \<Rightarrow> write_monitor m (monitor_lost fallback) binding t)"

text \<open>The primary monitor of a snapshot, or else its first one.\<close>

definition leading_monitor :: "platform_monitor list \<Rightarrow> platform_monitor option" where
  "leading_monitor ms = or_opt (find pmo_is_primary ms) (first ms)"

definition focus_leading_monitor :: "platform_monitor list \<Rightarrow> wm_state \<Rightarrow> wm_state" where
  "focus_leading_monitor ms s =
     (case Option.bind (leading_monitor ms) (\<lambda>p. monitor_id_by_binding s (pmo_binding p)) of
        None \<Rightarrow> s
      | Some m \<Rightarrow>
          if focus_monitor (focus s) = None then upd_focus (\<lambda>f. f\<lparr>focus_monitor := Some m\<rparr>) s else s)"

definition sync_monitor_states :: "platform_monitor list \<Rightarrow> wm_state \<Rightarrow> wm_state" where
  "sync_monitor_states ms s =
     (let known = List.map_filter mon_platform_binding (bm_values (monitors s));
          missing = filter (\<lambda>b. b \<notin> pmo_binding ` set ms) known;
          t = fold sync_monitor ms s;
          u = (case leading_monitor ms of
                 None \<Rightarrow> fold (\<lambda>b. push_flag (''missing-monitor:'' @ b)) missing t
               | Some fallback \<Rightarrow> fold (lose_monitor fallback) missing t)
      in focus_leading_monitor ms u)"

definition sync_monitors_from_snapshot :: "platform_monitor list \<Rightarrow> ('w, unit) daemon_act" where
  "sync_monitors_from_snapshot ms =
     (if ms = [] then throw NoPlatformMonitors else write_store (sync_monitor_states ms))"

section \<open>Windows that go\<close>

definition destroy_window :: "window_id \<Rightarrow> ('w, unit) daemon_act" where
  "destroy_window w =
     bindA next_correlation_id (\<lambda>c.
     bindA (store_dispatch (window_destroyed c w)) (\<lambda>_. ret ()))"

definition destroy_windows :: "window_id list \<Rightarrow> ('w, nat) daemon_act" where
  "destroy_windows ws = fold_act (\<lambda>w n. thenA (destroy_window w) (ret (n + 1))) ws 0"

definition ingest_destroyed_windows :: "nat list \<Rightarrow> ('w, nat) daemon_act" where
  "ingest_destroyed_windows hwnds =
     fold_act (\<lambda>h n. bindA (gets (\<lambda>d. find_window_id_by_hwnd (cd_store d) h)) (\<lambda>i.
       case i of None \<Rightarrow> ret n | Some w \<Rightarrow> thenA (destroy_window w) (ret (n + 1)))) hwnds 0"

definition orphaned_window_ids :: "platform_snapshot \<Rightarrow> wm_state \<Rightarrow> window_id list" where
  "orphaned_window_ids p s =
     map win_id (filter (\<lambda>w. case win_hwnd w of None \<Rightarrow> False | Some h \<Rightarrow> h \<notin> set (snapshot_hwnds p))
       (bm_values (windows s)))"

definition prune_state_windows_missing_from_snapshot :: "platform_snapshot \<Rightarrow> ('w, nat) daemon_act" where
  "prune_state_windows_missing_from_snapshot p =
     bindA (gets (\<lambda>d. orphaned_window_ids p (cd_store d))) destroy_windows"

definition changes_policy :: "'w daemon \<Rightarrow> platform_snapshot \<Rightarrow> window_node \<Rightarrow> bool" where
  "changes_policy d p w \<longleftrightarrow>
     (case Option.bind (win_hwnd w) (window_by_hwnd p) of
        None \<Rightarrow> False
      | Some actual \<Rightarrow>
          (case monitor_id_by_binding (cd_store d) (pw_monitor_binding actual) of
             None \<Rightarrow> False
           | Some m \<Rightarrow>
               win_is_managed w \<noteq> (wd_managed (decision_for d actual) \<and> daemon_manages_monitor d m)))"

definition reclassify_state_windows_for_monitor_policy :: "platform_snapshot \<Rightarrow> ('w, nat) daemon_act" where
  "reclassify_state_windows_for_monitor_policy p =
     bindA (gets (\<lambda>d. map win_id (filter (changes_policy d p) (bm_values (windows (cd_store d))))))
       destroy_windows"

section \<open>Windows that come\<close>

definition pending_discovery_required_stable_ticks :: "discovery_assessment \<Rightarrow> platform_window \<Rightarrow> bool \<Rightarrow> nat" where
  "pending_discovery_required_stable_ticks a w had_previous =
     (let fallback_only = (da_presentation_preflight a = PreflightFallbackOnly)
      in case da_disposition a of
           PromotablePrimaryCandidate \<Rightarrow> if fallback_only \<and> \<not> pw_is_focused w then 2 else 1
         | PendingPrimaryCandidate \<Rightarrow>
             if \<not> had_previous then (if fallback_only then 3 else 2)
             else if pw_is_focused w then (if fallback_only then 3 else 2)
             else (if fallback_only then 4 else 3)
         | _ \<Rightarrow> 255)"

definition pending_discovery_rect_is_stable :: "rect \<Rightarrow> rect \<Rightarrow> bool" where
  "pending_discovery_rect_is_stable previous current \<longleftrightarrow>
     i32_abs (i32_sat_sub (rect_x previous) (rect_x current)) \<le> 24 \<and>
     i32_abs (i32_sat_sub (rect_y previous) (rect_y current)) \<le> 24 \<and>
     abs (int (rect_width previous) - int (rect_width current)) \<le> 24 \<and>
     abs (int (rect_height previous) - int (rect_height current)) \<le> 24"

definition pending_entry_new :: "nat \<Rightarrow> rect \<Rightarrow> discovery_assessment \<Rightarrow> pending_discovery" where
  "pending_entry_new now r a =
     \<lparr>pd_first_seen_at = now, pd_last_seen_at = now, pd_stable_ticks = 1, pd_last_rect = r,
      pd_family_key = da_family_key a, pd_disposition = da_disposition a,
      pd_disposition_reason = da_disposition_reason a,
      pd_presentation_preflight = da_presentation_preflight a,
      pd_presentation_reason = da_presentation_reason a\<rparr>"

definition pending_entry_seen :: "nat \<Rightarrow> rect \<Rightarrow> discovery_assessment \<Rightarrow> pending_discovery \<Rightarrow> pending_discovery" where
  "pending_entry_seen now r a e =
     (let e1 = (if pending_discovery_rect_is_stable (pd_last_rect e) r
                then e\<lparr>pd_stable_ticks := min 255 (pd_stable_ticks e + 1)\<rparr>
                else e\<lparr>pd_stable_ticks := 1, pd_first_seen_at := now\<rparr>)
      in e1\<lparr>pd_last_seen_at := now, pd_last_rect := r, pd_family_key := da_family_key a,
            pd_disposition := da_disposition a, pd_disposition_reason := da_disposition_reason a,
            pd_presentation_preflight := da_presentation_preflight a,
            pd_presentation_reason := da_presentation_reason a\<rparr>)"

fun blocked_discovery_action :: "window_disposition \<Rightarrow> string" where
  "blocked_discovery_action RejectedNoise = ''blocked-noise''"
| "blocked_discovery_action TransientEscapeSurface = ''blocked-transient''"
| "blocked_discovery_action AuxiliaryAppSurface = ''blocked-auxiliary''"
| "blocked_discovery_action PendingPrimaryCandidate = ''pending''"
| "blocked_discovery_action PromotablePrimaryCandidate = ''promoted''"

fun platform_window_role_name :: "window_role \<Rightarrow> string" where
  "platform_window_role_name NoiseRole = ''noise''"
| "platform_window_role_name TransientRole = ''transient''"
| "platform_window_role_name AuxiliaryRole = ''auxiliary''"
| "platform_window_role_name PrimaryRole = ''primary''"

fun platform_window_disposition_name :: "window_disposition \<Rightarrow> string" where
  "platform_window_disposition_name RejectedNoise = ''rejected-noise''"
| "platform_window_disposition_name TransientEscapeSurface = ''transient-escape-surface''"
| "platform_window_disposition_name AuxiliaryAppSurface = ''auxiliary-app-surface''"
| "platform_window_disposition_name PendingPrimaryCandidate = ''pending-primary-candidate''"
| "platform_window_disposition_name PromotablePrimaryCandidate = ''promotable-primary-candidate''"

fun platform_presentation_preflight_name :: "presentation_preflight \<Rightarrow> string" where
  "platform_presentation_preflight_name PreflightUnknown = ''unknown''"
| "platform_presentation_preflight_name PreflightEligible = ''eligible''"
| "platform_presentation_preflight_name PreflightFallbackOnly = ''fallback-only''"
| "platform_presentation_preflight_name PreflightRejected = ''rejected''"

definition show_ticks :: "nat option \<Rightarrow> string" where
  "show_ticks r = (case r of None \<Rightarrow> ''none'' | Some n \<Rightarrow> nat_to_dec n)"

definition format_discovery_trace_line ::
    "platform_window \<Rightarrow> discovery_assessment \<Rightarrow> nat option \<Rightarrow> nat option \<Rightarrow> string \<Rightarrow> string" where
  "format_discovery_trace_line w a ticks needed action =
     ''discovery-trace: hwnd='' @ nat_to_dec (pw_hwnd w) @
     '' process='' @ sanitize_log_text (case pw_process_name w of None \<Rightarrow> ''unknown'' | Some n \<Rightarrow> n) @
     '' pid='' @ nat_to_dec (pw_process_id w) @
     '' class='' @ sanitize_log_text (pw_class_name w) @
     '' title='' @ [CHR 0x22] @ sanitize_log_text (pw_title w) @ [CHR 0x22] @
     '' monitor='' @ sanitize_log_text (pw_monitor_binding w) @
     '' focused='' @ show_bool (pw_is_focused w) @
     '' candidate='' @ show_bool (pw_management_candidate w) @
     '' family='' @ [CHR 0x22] @ sanitize_log_text (da_family_key a) @ [CHR 0x22] @
     '' role='' @ platform_window_role_name (da_role a) @
     '' role_reason='' @ sanitize_log_text (da_role_reason a) @
     '' disposition='' @ platform_window_disposition_name (da_disposition a) @
     '' disposition_reason='' @ sanitize_log_text (da_disposition_reason a) @
     '' preflight='' @ platform_presentation_preflight_name (da_presentation_preflight a) @
     '' preflight_reason='' @ sanitize_log_text (da_presentation_reason a) @
     '' stable_ticks='' @ show_ticks ticks @
     '' required_ticks='' @ show_ticks needed @
     '' action='' @ action"

definition discovery_event ::
    "correlation_id \<Rightarrow> monitor_id \<Rightarrow> platform_window \<Rightarrow> window_rule_decision \<Rightarrow> window_placement \<Rightarrow>
     focus_behavior \<Rightarrow> domain_event" where
  "discovery_event c m w decision placement behavior =
     event_new EvtWindowDiscovered PlatformDerived WindowsAdapter c
       (WindowDiscovered (WindowDiscoveredPayload m (pw_hwnd w)
          (if wd_managed decision \<and> wd_layer decision = Tiled then Application else Utility)
          (size_new (rect_width (pw_rect w)) (rect_height (pw_rect w))) (pw_rect w) placement behavior
          (wd_layer decision) (wd_managed decision)))"

definition promotion ::
    "'w daemon \<Rightarrow> platform_window \<Rightarrow> nat option \<Rightarrow> bool \<Rightarrow> monitor_id \<Rightarrow>
     monitor_id \<times> window_rule_decision \<times> window_placement \<times> focus_behavior" where
  "promotion d w focused follow actual =
     (let classified = decision_for d w;
          decision = (if wd_managed classified \<and> \<not> daemon_manages_monitor d actual
                      then classified\<lparr>wd_managed := False\<rparr> else classified);
          m = (if follow then discovery_target_monitor_id d actual (wd_managed decision) else actual);
          width = discovered_width_semantics d decision w m
      in (m, decision, discovery_placement_for_window (cd_store d) m decision width follow,
          discovery_focus_behavior_for_window (cd_store d) (pw_hwnd w) focused m decision))"

definition promote_pending_window_discovery ::
    "platform_window \<Rightarrow> nat option \<Rightarrow> bool \<Rightarrow> monitor_id \<Rightarrow> ('w, unit) daemon_act" where
  "promote_pending_window_discovery w focused follow actual =
     bindA (gets (\<lambda>d. promotion d w focused follow actual)) (\<lambda>(m, decision, placement, behavior).
     bindA next_correlation_id (\<lambda>c.
     bindA (store_dispatch (discovery_event c m w decision placement behavior)) (\<lambda>_. ret ())))"

definition forget_pending :: "nat \<Rightarrow> ('w, unit) daemon_act" where
  "forget_pending h = modify (\<lambda>d. d\<lparr>cd_pending_discoveries := bm_del h (cd_pending_discoveries d)\<rparr>)"

text \<open>\<open>entry(..).or_insert_with(..)\<close> and the update that follows it.\<close>

definition note_pending :: "nat \<Rightarrow> platform_window \<Rightarrow> discovery_assessment \<Rightarrow> ('w, pending_discovery) daemon_act" where
  "note_pending now w a =
     stateA (\<lambda>d.
       let e = (case bm_get (cd_pending_discoveries d) (pw_hwnd w) of
                  None \<Rightarrow> pending_entry_new now (pw_rect w) a | Some e \<Rightarrow> e);
           e' = pending_entry_seen now (pw_rect w) a e
       in (e', d\<lparr>cd_pending_discoveries := bm_put (pw_hwnd w) e' (cd_pending_discoveries d)\<rparr>))"

definition reconcile_candidate ::
    "('w, 'n) platform \<Rightarrow> nat option \<Rightarrow> bool \<Rightarrow> platform_window \<Rightarrow> discovery_assessment \<Rightarrow>
     nat \<times> string list \<Rightarrow> ('w, nat \<times> string list) daemon_act" where
  "reconcile_candidate pf focused had_previous w a = (\<lambda>(n, logs).
     bindA (gets (\<lambda>d. monitor_id_by_binding (cd_store d) (pw_monitor_binding w))) (\<lambda>monitor.
     case monitor of
       None \<Rightarrow>
         thenA (push_degraded_reason (''missing-monitor-binding:'' @ pw_monitor_binding w))
           (ret (n, logs @ [format_discovery_trace_line w a None None ''blocked-missing-monitor'']))
     | Some actual \<Rightarrow>
         bindA (instant_now pf) (\<lambda>now.
         bindA (note_pending now w a) (\<lambda>e.
         let required = pending_discovery_required_stable_ticks a w had_previous;
             blocked = (da_presentation_preflight a = PreflightRejected);
             line = format_discovery_trace_line w a (Some (pd_stable_ticks e)) (Some required)
         in if \<not> (\<not> blocked \<and> required \<le> pd_stable_ticks e)
            then ret (n, logs @ [line (if blocked then ''blocked-preflight'' else ''pending'')])
            else thenA (promote_pending_window_discovery w focused had_previous actual)
                 (thenA (forget_pending (pw_hwnd w)) (ret (n + 1, logs @ [line ''promoted''])))))))"

definition reconcile_window ::
    "('w, 'n) platform \<Rightarrow> platform_snapshot \<Rightarrow> nat option \<Rightarrow> bool \<Rightarrow> platform_window \<Rightarrow>
     nat \<times> string list \<Rightarrow> ('w, nat \<times> string list) daemon_act" where
  "reconcile_window pf p focused had_previous w = (\<lambda>(n, logs).
     bindA (gets (\<lambda>d. find_window_id_by_hwnd (cd_store d) (pw_hwnd w))) (\<lambda>bound.
     if bound \<noteq> None then thenA (forget_pending (pw_hwnd w)) (ret (n, logs))
     else case assess_platform_snapshot_for_discovery p (pw_hwnd w) of
       None \<Rightarrow> ret (n, logs)
     | Some a \<Rightarrow>
         if da_disposition a \<in> {RejectedNoise, TransientEscapeSurface, AuxiliaryAppSurface}
         then thenA (forget_pending (pw_hwnd w))
                (ret (n, logs @ [format_discovery_trace_line w a None None
                                   (blocked_discovery_action (da_disposition a))]))
         else reconcile_candidate pf focused had_previous w a (n, logs)))"

definition retain_pending :: "platform_snapshot \<Rightarrow> 'w daemon \<Rightarrow> 'w daemon" where
  "retain_pending p d =
     (let bound = set (List.map_filter win_hwnd (bm_values (windows (cd_store d))))
      in d\<lparr>cd_pending_discoveries :=
             filter (\<lambda>(h, _). h \<in> set (snapshot_hwnds p) \<and> h \<notin> bound) (cd_pending_discoveries d)\<rparr>)"

definition reconcile_pending_window_discoveries ::
    "('w, 'n) platform \<Rightarrow> platform_snapshot \<Rightarrow> nat option \<Rightarrow> bool \<Rightarrow> ('w, nat \<times> string list) daemon_act" where
  "reconcile_pending_window_discoveries pf p focused had_previous =
     thenA (modify (retain_pending p))
       (fold_act (reconcile_window pf p focused had_previous) (psn_windows p) (0, []))"

section \<open>Focus\<close>

definition observed_focus_target :: "wm_state \<Rightarrow> nat \<Rightarrow> (monitor_id \<times> window_id) option" where
  "observed_focus_target s h =
     (case find_window_id_by_hwnd s h of
        None \<Rightarrow> None
      | Some i \<Rightarrow>
     (case get_window s i of
        None \<Rightarrow> None
      | Some w \<Rightarrow>
          if \<not> win_is_managed w then None
          else map_option (\<lambda>ws. (wsp_monitor_id ws, i)) (get_workspace s (win_workspace_id w))))"

definition observe_focus :: "nat \<Rightarrow> ('w, unit) daemon_act" where
  "observe_focus h =
     bindA (gets (\<lambda>d. observed_focus_target (cd_store d) h)) (\<lambda>target.
     case target of
       None \<Rightarrow> ret ()
     | Some (m, w) \<Rightarrow>
         bindA next_correlation_id (\<lambda>c.
         bindA (store_dispatch (window_focus_observed c m w)) (\<lambda>_. ret ())))"

definition focus_is_not :: "nat \<Rightarrow> 'w daemon \<Rightarrow> bool" where
  "focus_is_not h d \<longleftrightarrow> current_focused_hwnd (cd_store d) \<noteq> Some h"

definition settle_focus_candidate :: "platform_snapshot \<Rightarrow> ('w, unit) daemon_act" where
  "settle_focus_candidate p =
     bindA (stateA (refresh_candidate (actual_foreground_hwnd p))) (\<lambda>candidate.
     case candidate of
       None \<Rightarrow> ret ()
     | Some h \<Rightarrow> bindA (gets (focus_is_not h)) (\<lambda>differs. if differs then observe_focus h else ret ()))"

definition settle_diff_focus :: "('w, 'n) platform \<Rightarrow> snapshot_diff \<Rightarrow> ('w, unit) daemon_act" where
  "settle_diff_focus pf diff =
     (case sd_focused_hwnd diff of
        None \<Rightarrow> ret ()
      | Some h \<Rightarrow> bindA (gets (focus_is_not h)) (\<lambda>differs.
          if \<not> differs then ret ()
          else bindA (should_defer_platform_focus_observation pf h) (\<lambda>defer.
            if defer then ret () else observe_focus h)))"

section \<open>A whole cycle\<close>

definition note_observation_reason :: "string \<Rightarrow> ('w, unit) daemon_act" where
  "note_observation_reason reason =
     (let token = normalize_reason_token reason in
      thenA (if sublist ''resume'' token then push_degraded_reason ''resume-revalidation'' else ret ())
     (thenA (if sublist ''display'' token then push_degraded_reason ''display-settings-changed'' else ret ())
     (if sublist ''monitor'' token then push_degraded_reason ''monitor-topology-revalidation'' else ret ())))"

text \<open>Presentations whose window is gone are cleared, except in a dry run; the number cleared is reported.\<close>

definition clear_stale_presentations ::
    "('w, 'n) platform \<Rightarrow> platform_snapshot \<Rightarrow> bool \<Rightarrow> ('w, nat) daemon_act" where
  "clear_stale_presentations pf p dry_run =
     bindA (gets (\<lambda>d. stale_materialized_presentation_hwnds p (materialized_hwnds pf d))) (\<lambda>stale.
     if dry_run then ret 0
     else if stale = [] then ret 0
     else bindA (attempt (on_adapter (adapter_clear_window_presentations pf stale))) (\<lambda>result.
       case result of
         Inl (RuntimeAdapter e) \<Rightarrow>
           thenA (push_degraded_reason (''stale-presentation-cleanup-failed:'' @ adapter_error_text e)) (ret 0)
       | _ \<Rightarrow> ret (length stale)))"

definition plan_if_managed ::
    "('w, 'n) platform \<Rightarrow> platform_snapshot \<Rightarrow> plan_context \<Rightarrow> ('w, apply_operation list) daemon_act" where
  "plan_if_managed pf p ctx =
     bindA (gets cd_management_enabled) (\<lambda>enabled.
     if enabled then tryA (\<lambda>d. plan_apply_operations_with_context pf d p ctx) else ret [])"

definition apply_if_allowed ::
    "('w, 'n) platform \<Rightarrow> bool \<Rightarrow> apply_operation list \<Rightarrow> ('w, apply_batch_result) daemon_act" where
  "apply_if_allowed pf dry_run ops =
     bindA (gets cd_management_enabled) (\<lambda>enabled.
     if dry_run \<or> \<not> enabled then ret apply_batch_default
     else on_adapter (adapter_apply_operations pf ops))"

definition stamp_cycle :: "nat \<Rightarrow> bool \<Rightarrow> wm_state \<Rightarrow> wm_state" where
  "stamp_cycle now reconciled s =
     (let s1 = s\<lparr>runtime := (runtime s)\<lparr>rs_last_full_scan_at := Some now\<rparr>\<rparr>
      in if reconciled then s1\<lparr>runtime := (runtime s1)\<lparr>rs_last_reconcile_at := Some now\<rparr>\<rparr> else s1)"

definition cycle_report_of ::
    "platform_snapshot \<Rightarrow> string \<Rightarrow> apply_operation list \<Rightarrow> apply_batch_result \<Rightarrow> bool \<Rightarrow> 'w daemon \<Rightarrow>
     cycle_report" where
  "cycle_report_of p reason ops batch dry_run d =
     \<lparr>cy_monitor_count = length (psn_monitors p), cy_observed_window_count = length (psn_windows p),
      cy_discovered_windows = 0, cy_destroyed_windows = 0,
      cy_focused_hwnd = actual_foreground_hwnd p, cy_observation_reason = Some reason,
      cy_planned_operations = length ops, cy_applied_operations = br_applied batch,
      cy_apply_failures = length (br_failures batch),
      cy_apply_failure_messages = failure_messages batch, cy_recovery_rescans = 0,
      cy_validation_remaining_operations = 0, cy_recovery_actions = [],
      cy_management_enabled = cd_management_enabled d, cy_dry_run = dry_run,
      cy_degraded_reasons = degraded_flags d, cy_discovery_trace_logs = [],
      cy_strip_movement_logs = describe_strip_movements (cd_store d) p ops,
      cy_window_trace_logs = describe_window_trace (cd_store d) ''plan'' p ops None,
      cy_validation_trace_logs = []\<rparr>"

text \<open>Bringing the windows and the focus of a snapshot into the store.\<close>

definition absorb_windows ::
    "('w, 'n) platform \<Rightarrow> platform_snapshot \<Rightarrow> bool \<Rightarrow> ('w, snapshot_diff \<times> nat \<times> nat \<times> string list \<times> nat) daemon_act" where
  "absorb_windows pf p dry_run =
     bindA (gets cd_last_snapshot) (\<lambda>last.
     let diff = (case last of None \<Rightarrow> diff_initial p | Some q \<Rightarrow> diff_snapshots q p) in
     bindA (reclassify_state_windows_for_monitor_policy p) (\<lambda>reclassified.
     bindA (reconcile_pending_window_discoveries pf p (actual_foreground_hwnd p) (last \<noteq> None))
       (\<lambda>(discovered, logs).
     bindA (ingest_destroyed_windows (sd_destroyed_hwnds diff)) (\<lambda>gone.
     bindA (prune_state_windows_missing_from_snapshot p) (\<lambda>pruned.
     bindA (clear_stale_presentations pf p dry_run) (\<lambda>cleared.
     ret (diff, discovered, reclassified + gone + pruned, logs, cleared)))))))"

definition sync_body ::
    "('w, 'n) platform \<Rightarrow> platform_snapshot \<Rightarrow> bool \<Rightarrow> string \<Rightarrow> ('w, cycle_report) daemon_act" where
  "sync_body pf unsorted dry_run reason =
     (let p = sort_for_stability unsorted in
      thenA (note_observation_reason reason)
     (bindA (gets (\<lambda>d. current_focused_hwnd (cd_store d))) (\<lambda>previous_focused.
      thenA (sync_monitors_from_snapshot (psn_monitors p))
     (bindA (gets (\<lambda>d. cd_last_snapshot d \<noteq> None)) (\<lambda>had_previous.
      bindA (absorb_windows pf p dry_run) (\<lambda>(diff, discovered, destroyed, logs, cleared).
      thenA (if had_previous \<and> sd_monitor_topology_changed diff
             then push_degraded_reason ''monitor-topology-changed'' else ret ())
     (thenA (refresh_pending_focus_claim pf)
     (thenA (settle_focus_candidate p)
     (thenA (settle_diff_focus pf diff)
     (bindA (gets (\<lambda>d. build_apply_plan_context (cd_store d) previous_focused
               (current_focused_hwnd (cd_store d)) [] (\<not> had_previous \<or> 0 < discovered))) (\<lambda>ctx.
      bindA (plan_if_managed pf p ctx) (\<lambda>ops.
      bindA (apply_if_allowed pf dry_run ops) (\<lambda>batch.
      thenA (arm_pending_geometry_settle pf reason (length ops) dry_run)
     (bindA (gets (cycle_report_of p reason ops batch dry_run)) (\<lambda>report.
      bindA (unix_timestamp pf) (\<lambda>now.
      thenA (write_store (stamp_cycle now (ops \<noteq> [])))
     (thenA (modify (\<lambda>d. d\<lparr>cd_last_snapshot := Some p\<rparr>))
     (ret (report\<lparr>cy_discovered_windows := discovered, cy_destroyed_windows := destroyed,
                  cy_discovery_trace_logs := logs,
                  cy_recovery_actions :=
                    (if 0 < cleared then [''stale-presentation-cleanup:'' @ nat_to_dec cleared]
                     else [])\<rparr>)))))))))))))))))))"

definition sync_snapshot_with_reason ::
    "('w, 'n) platform \<Rightarrow> platform_snapshot \<Rightarrow> bool \<Rightarrow> string \<Rightarrow> ('w, cycle_report) daemon_act" where
  "sync_snapshot_with_reason pf p dry_run reason =
     timed pf rp_observation_sync_update (sync_body pf p dry_run reason)"

definition sync_snapshot ::
    "('w, 'n) platform \<Rightarrow> platform_snapshot \<Rightarrow> bool \<Rightarrow> ('w, cycle_report) daemon_act" where
  "sync_snapshot pf p dry_run = sync_snapshot_with_reason pf p dry_run ''external-snapshot''"

definition scan_and_sync :: "('w, 'n) platform \<Rightarrow> bool \<Rightarrow> ('w, cycle_report) daemon_act" where
  "scan_and_sync pf dry_run =
     bindA (on_adapter (adapter_scan_snapshot pf)) (\<lambda>p.
     bindA (sync_snapshot_with_reason pf p dry_run ''full-scan'') (validate_after_apply pf dry_run))"

definition apply_observation ::
    "('w, 'n) platform \<Rightarrow> observation_envelope \<Rightarrow> bool \<Rightarrow> ('w, cycle_report option) daemon_act" where
  "apply_observation pf ob dry_run =
     (case ob_kind ob of
        SnapshotSeen \<Rightarrow>
          bindA (should_defer_geometry_observation pf (ob_reason ob)) (\<lambda>defer.
          if defer then ret None
          else case ob_snapshot ob of
            None \<Rightarrow>
              thenA (push_degraded_reason (''observer-missing-snapshot:'' @ normalize_reason_token (ob_reason ob)))
                (ret None)
          | Some p \<Rightarrow>
              bindA (sync_snapshot_with_reason pf p dry_run (ob_reason ob)) (\<lambda>report.
              bindA (validate_after_apply pf dry_run report) (\<lambda>r. ret (Some r))))
      | SuspendSeen \<Rightarrow> thenA (push_degraded_reason ''system-suspend'') (ret None)
      | ResumeSeen \<Rightarrow>
          thenA (push_degraded_reason ''system-resume'')
          (bindA (scan_and_sync pf dry_run) (\<lambda>r.
           ret (Some (r\<lparr>cy_observation_reason := Some (ob_reason ob)\<rparr>))))
      | WarningSeen \<Rightarrow>
          thenA (push_degraded_reason (''observer-warning:'' @ normalize_reason_token (ob_reason ob)))
          (thenA (case ob_message ob of
                    None \<Rightarrow> ret ()
                  | Some m \<Rightarrow> push_degraded_reason (''observer-detail:'' @ normalize_reason_token m))
           (ret None)))"

end
