(* ===== verification/Runtime_Commands.thy ===== *)
theory Runtime_Commands
  imports Runtime_Observation
begin

text \<open>
  Commands (\<open>dispatch_command\<close> and the column width gestures of \<open>crates/wm-core/src/runtime.rs\<close>), the
  configuration reload of \<open>crates/wm-core/src/runtime/config.rs\<close>, and the daemon at its start.
\<close>

section \<open>Start\<close>

text \<open>
  The start finds out whether the configuration file was there, and where the file is after the
  default one has been written if it could be.
\<close>

definition startup_config ::
    "('w, 'n) platform \<Rightarrow> string \<Rightarrow> config_error + string \<Rightarrow> 'w \<Rightarrow> loaded_config" where
  "startup_config pf config_path ensured w =
     (case bindE ensured (\<lambda>path. load_or_default (pf_kdl_api pf) (pf_kdl_parse pf) (pf_read pf w) path 1) of
        Inr lc \<Rightarrow> lc
      | Inl _ \<Rightarrow> default_loaded_config 1 config_path)"

definition daemon_with_adapter ::
    "('w, 'n) platform \<Rightarrow> runtime_mode \<Rightarrow> string \<Rightarrow> bool \<Rightarrow> config_error + string \<Rightarrow> 'w \<Rightarrow> 'w daemon" where
  "daemon_with_adapter pf mode config_path had_startup_config ensured w =
     (let lc = startup_config pf config_path ensured w;
          store = (wm_state_new mode)\<lparr>config := lc_projection lc\<rparr>
      in \<lparr>cd_store = (if had_startup_config then store else push_flag ''config-bootstrap-fallback'' store),
          cd_adapter = adapter_new w, cd_perf = runtime_perf_new, cd_active_config = lc,
          cd_last_valid_config = lc, cd_last_snapshot = None, cd_pending_discoveries = [],
          cd_pending_focus_claim = None, cd_platform_focus_candidate = None,
          cd_geometry_settle_until = None, cd_management_enabled = (mode \<noteq> SafeMode),
          cd_consecutive_desync_cycles = 0, cd_next_correlation_id = 1,
          cd_next_config_generation = 2\<rparr>)"

section \<open>Commands\<close>

definition command_body ::
    "('w, 'n) platform \<Rightarrow> domain_event \<Rightarrow> bool \<Rightarrow> string \<Rightarrow> ('w, cycle_report) daemon_act" where
  "command_body pf e dry_run reason =
     bindA (on_adapter (adapter_scan_snapshot pf)) (\<lambda>p.
     bindA (sync_snapshot_with_reason pf p True ''command-pre-sync'') (\<lambda>_.
     bindA (gets (\<lambda>d. current_focused_hwnd (cd_store d))) (\<lambda>previous_focused.
     bindA (store_dispatch e) (\<lambda>transition.
     bindA (gets (\<lambda>d. build_apply_plan_context (cd_store d) previous_focused
              (current_focused_hwnd (cd_store d)) reason False)) (\<lambda>ctx.
     thenA (arm_pending_focus_claim pf previous_focused)
    (bindA (plan_if_managed pf p ctx) (\<lambda>ops.
     bindA (apply_if_allowed pf dry_run ops) (\<lambda>batch.
     thenA (arm_pending_geometry_settle pf reason (length ops) dry_run)
    (bindA (gets (cycle_report_of p reason ops batch dry_run)) (\<lambda>report.
     bindA (unix_timestamp pf) (\<lambda>now.
     thenA (write_store (stamp_cycle now (tr_affected_workspace_id transition \<noteq> None \<or> ops \<noteq> [])))
    (thenA (modify (\<lambda>d. d\<lparr>cd_last_snapshot := Some p\<rparr>))
    (validate_after_apply pf dry_run report)))))))))))))"

definition dispatch_command ::
    "('w, 'n) platform \<Rightarrow> domain_event \<Rightarrow> bool \<Rightarrow> string \<Rightarrow> ('w, cycle_report) daemon_act" where
  "dispatch_command pf e dry_run reason =
     timed pf rp_command_cycle_update (command_body pf e dry_run reason)"

text \<open>The gestures answer an event the store rejects as invalid by doing nothing.\<close>

definition tolerate_invalid :: "'a \<Rightarrow> ('w, 'a) daemon_act \<Rightarrow> domain_event \<Rightarrow> ('w, 'a) daemon_act" where
  "tolerate_invalid fallback success e =
     bindA (attempt (store_dispatch e)) (\<lambda>result.
     case result of
       Inr _ \<Rightarrow> success
     | Inl (RuntimeCore (Failed (InvalidEvent _))) \<Rightarrow> ret fallback
     | Inl err \<Rightarrow> throw err)"

definition begin_column_width_resize :: "resize_edge \<Rightarrow> int \<Rightarrow> ('w, bool) daemon_act" where
  "begin_column_width_resize edge pointer_x =
     bindA next_correlation_id (\<lambda>c.
       tolerate_invalid False
         (gets (\<lambda>d. lay_width_resize_session (layout (cd_store d)) \<noteq> None))
         (cmd_begin_column_width_resize c edge pointer_x))"

definition update_column_width_resize :: "int \<Rightarrow> ('w, unit) daemon_act" where
  "update_column_width_resize pointer_x =
     bindA next_correlation_id (\<lambda>c.
       tolerate_invalid () (ret ()) (cmd_update_column_width_preview c pointer_x))"

definition cancel_column_width_resize :: "('w, unit) daemon_act" where
  "cancel_column_width_resize =
     bindA next_correlation_id (\<lambda>c. tolerate_invalid () (ret ()) (cmd_cancel_column_width_resize c))"

definition commit_column_width_resize ::
    "('w, 'n) platform \<Rightarrow> int \<Rightarrow> bool \<Rightarrow> ('w, cycle_report) daemon_act" where
  "commit_column_width_resize pf pointer_x dry_run =
     bindA next_correlation_id (\<lambda>c.
       dispatch_command pf (cmd_commit_column_width c pointer_x) dry_run ''manual-column-width-commit'')"

section \<open>Configuration reload\<close>

definition diff_config_sections :: "loaded_config \<Rightarrow> loaded_config \<Rightarrow> string list" where
  "diff_config_sections previous current =
     (let p = lc_projection previous; c = lc_projection current;
          changed =
            (if cfg_strip_scroll_step p \<noteq> cfg_strip_scroll_step c \<or>
                cfg_default_column_mode p \<noteq> cfg_default_column_mode c \<or>
                cfg_default_column_width p \<noteq> cfg_default_column_width c \<or>
                cfg_layout_spacing p \<noteq> cfg_layout_spacing c
             then [''layout''] else []) @
            (if cfg_managed_monitor_bindings p \<noteq> cfg_managed_monitor_bindings c
             then [''monitors''] else []) @
            (if cfg_bind_control_mode p \<noteq> cfg_bind_control_mode c \<or>
                lc_hotkeys previous \<noteq> lc_hotkeys current \<or> lc_touchpad previous \<noteq> lc_touchpad current
             then [''input''] else []) @
            (if lc_rules previous \<noteq> lc_rules current then [''rules''] else [])
      in if changed = [] then [''none''] else changed)"

definition ensure_supported_bind_control_mode :: "bind_control_mode \<Rightarrow> runtime_error + unit" where
  "ensure_supported_bind_control_mode mode =
     (case mode of
        Coexistence \<Rightarrow> Inr ()
      | _ \<Rightarrow> Inl (RuntimeConfig
               (''bind control mode '' @ [CHR 0x27] @ bind_control_mode_as_str mode @ [CHR 0x27] @
                '' is not supported by the current runtime slice; only '' @
                [CHR 0x27] @ ''coexistence'' @ [CHR 0x27] @ '' is available'')))"

definition reload_succeeded ::
    "('w, 'n) platform \<Rightarrow> string \<Rightarrow> bool \<Rightarrow> loaded_config \<Rightarrow> ('w, cycle_report) daemon_act" where
  "reload_succeeded pf path dry_run lc =
     bindA (tryA (\<lambda>_. ensure_supported_bind_control_mode (cfg_bind_control_mode (lc_projection lc)))) (\<lambda>_.
     bindA (gets (\<lambda>d. diff_config_sections (cd_active_config d) lc)) (\<lambda>changed.
     thenA (modify (\<lambda>d. d\<lparr>cd_active_config := lc, cd_last_valid_config := lc,
                         cd_next_config_generation := cd_next_config_generation d + 1\<rparr>))
    (bindA next_correlation_id (\<lambda>c1.
     bindA (store_dispatch (config_reload_succeeded c1 (cfg_version (lc_projection lc)) changed
              (lc_projection lc))) (\<lambda>_.
     bindA next_correlation_id (\<lambda>c2.
     bindA (store_dispatch (rules_updated c2 (cfg_version (lc_projection lc)) (map rule_id (lc_rules lc))
              (cfg_active_rule_count (lc_projection lc)))) (\<lambda>_.
     bindA next_correlation_id (\<lambda>c3.
     dispatch_command pf (config_reload_requested c3 ConfigRules (Some path)) dry_run
       ''config-reload''))))))))"

definition reload_failed :: "config_error \<Rightarrow> ('w, cycle_report) daemon_act" where
  "reload_failed e =
     bindA next_correlation_id (\<lambda>c.
     bindA (attempt (store_dispatch
              (config_reload_failed c ''config-reload-failed'' (config_error_text e)))) (\<lambda>_.
     thenA (modify (\<lambda>d. d\<lparr>cd_active_config := cd_last_valid_config d\<rparr>))
    (thenA (push_degraded_reason ''config-reload-failed'')
    (throw (RuntimeConfig (config_error_text e))))))"

definition reload_body :: "('w, 'n) platform \<Rightarrow> bool \<Rightarrow> ('w, cycle_report) daemon_act" where
  "reload_body pf dry_run =
     bindA (gets (\<lambda>d. cfg_source_path (config (cd_store d)))) (\<lambda>path.
     bindA next_correlation_id (\<lambda>c.
     bindA (store_dispatch (config_reload_requested c InputCommand (Some path))) (\<lambda>_.
     bindA (gets (\<lambda>d. load_from_path (pf_kdl_api pf) (pf_kdl_parse pf)
              (pf_read pf (ad_world (cd_adapter d))) path (cd_next_config_generation d))) (\<lambda>loaded.
     case loaded of
       Inr lc \<Rightarrow> reload_succeeded pf path dry_run lc
     | Inl e \<Rightarrow> reload_failed e))))"

definition reload_config :: "('w, 'n) platform \<Rightarrow> bool \<Rightarrow> ('w, cycle_report) daemon_act" where
  "reload_config pf dry_run = timed pf rp_config_reload_update (reload_body pf dry_run)"

end
