(* ===== verification/Runtime_Facts.thy ===== *)
theory Runtime_Facts
  imports Runtime_Commands Store_Reachable
begin

text \<open>
  The invariant of the daemon and a calculus for it: an action preserves a predicate when no run
  of it, successful or not, leaves the predicate. Every action of the runtime is taken apart by
  the rules; what remains are the places where it writes.
\<close>

named_theorems preserve_intros "actions that preserve the invariant of the daemon"

section \<open>Preserving a predicate\<close>

definition preserves :: "('s \<Rightarrow> bool) \<Rightarrow> ('s, 'e, 'a) act \<Rightarrow> bool" where
  "preserves I m \<longleftrightarrow> (\<forall>d. I d \<longrightarrow> I (snd (m d)))"

lemma preservesD: "preserves I m \<Longrightarrow> I d \<Longrightarrow> I (snd (m d))"
  by (simp add: preserves_def)

lemma preserves_bindA [preserve_intros]:
  "preserves I m \<Longrightarrow> (\<And>x. preserves I (k x)) \<Longrightarrow> preserves I (bindA m k)"
  unfolding preserves_def bindA_def split_beta by (auto split: sum.split)

lemma preserves_thenA [preserve_intros]: "preserves I m \<Longrightarrow> preserves I k \<Longrightarrow> preserves I (thenA m k)"
  by (simp add: thenA_def preserves_bindA)

lemma preserves_simple [preserve_intros]:
  "preserves I (ret x)" "preserves I (throw e)" "preserves I (gets f)" "preserves I (tryA g)"
  by (simp_all add: preserves_def act_defs)

lemma preserves_modify: "(\<And>d. I d \<Longrightarrow> I (f d)) \<Longrightarrow> preserves I (modify f)"
  by (simp add: preserves_def act_defs)

lemma preserves_stateA: "(\<And>d. I d \<Longrightarrow> I (snd (f d))) \<Longrightarrow> preserves I (stateA f)"
  by (simp add: preserves_def act_defs)

lemma preserves_if [preserve_intros]:
  "preserves I m \<Longrightarrow> preserves I k \<Longrightarrow> preserves I (if b then m else k)"
  by simp

lemma preserves_option [preserve_intros]:
  "preserves I m \<Longrightarrow> (\<And>x. preserves I (k x)) \<Longrightarrow> preserves I (case r of None \<Rightarrow> m | Some x \<Rightarrow> k x)"
  by (cases r) simp_all

lemma preserves_prod [preserve_intros]:
  "(\<And>x y. preserves I (m x y)) \<Longrightarrow> preserves I (case p of (x, y) \<Rightarrow> m x y)"
  by (cases p) simp

lemma preserves_sum [preserve_intros]:
  "(\<And>e. preserves I (m e)) \<Longrightarrow> (\<And>x. preserves I (k x)) \<Longrightarrow>
   preserves I (case r of Inl e \<Rightarrow> m e | Inr x \<Rightarrow> k x)"
  by (cases r) simp_all

lemma preserves_attempt [preserve_intros]: "preserves I m \<Longrightarrow> preserves I (attempt m)"
  by (simp add: preserves_def attempt_def split_beta)

lemma preserves_fold_act [preserve_intros]:
  "(\<And>x b. preserves I (f x b)) \<Longrightarrow> preserves I (fold_act f xs b)"
  by (induction xs arbitrary: b) (simp_all add: preserves_bindA preserves_simple)

section \<open>Monitors\<close>

lemma bm_adj_cong: "(\<And>v. bm_get m k = Some v \<Longrightarrow> f v = g v) \<Longrightarrow> bm_adj k f m = bm_adj k g m"
  by (induction k f m rule: bm_adj.induct) (auto split: if_splits)

text \<open>A write to a monitor that leaves its workspace set alone.\<close>

lemma wf_upd_monitor:
  assumes "\<And>x. mon_workspace_set_id (f x) = mon_workspace_set_id x"
  shows "wf (upd_monitor m f s) = wf s"
proof -
  let ?t = "upd_monitor m f s"
  have V: "monitor_view ?t = monitor_view s" "set_view ?t = set_view s" "active_view ?t = active_view s"
    "home_view ?t = home_view s" "strip_view ?t = strip_view s" "float_view ?t = float_view s"
    "column_view ?t = column_view s" "window_view ?t = window_view s" "restore_view ?t = restore_view s"
    "focus_view ?t = focus_view s" "counters_ok ?t = counters_ok s" "tables_ok ?t = tables_ok s"
    using assms
    by (simp_all add: fun_eq_iff view_defs upd_monitor_def counters_ok_def tables_ok_def option.map_comp o_def)
  have "focus_ok ?t = focus_ok s" by (rule focus_ok_cong) (simp_all only: V)
  then show ?thesis by (simp add: wf_def core_def V)
qed

text \<open>The strip of a workspace of the monitor takes the monitor's area.\<close>

lemma wf_refresh_strip:
  assumes ok: "wf s" and home: "home_view s w = Some m"
  shows "wf (upd_workspace w (refresh_strip m area) s) \<and>
    home_view (upd_workspace w (refresh_strip m area) s) = home_view s"
proof -
  let ?f = "\<lambda>ws. ws\<lparr>wsp_strip := (wsp_strip ws)\<lparr>strip_visible_region := area\<rparr>\<rparr>"
  have same: "upd_workspace w (refresh_strip m area) s = upd_workspace w ?f s"
    unfolding upd_workspace_def
    using home bm_adj_cong [of "workspaces s" w "refresh_strip m area" ?f]
    by (simp add: refresh_strip_def home_view_def) fastforce
  have "core {} (upd_workspace w ?f s)"
    by (rule core_upd_workspace_same [OF wfD(1) [OF ok]]) (simp_all add: workspace_entry_ok_def)
  moreover have "home_view (upd_workspace w ?f s) = home_view s"
    by (simp add: fun_eq_iff home_view_def upd_workspace_def option.map_comp o_def)
  ultimately show ?thesis using wfD(2) [OF ok] by (simp add: same wf_def)
qed

lemma wf_refresh_strips:
  assumes "wf s" "\<forall>w \<in> set ws. home_view s w = Some m"
  shows "wf (fold (\<lambda>w. upd_workspace w (refresh_strip m area)) ws s)"
  using assms
proof (induction ws arbitrary: s)
  case (Cons w ws)
  then show ?case using wf_refresh_strip [of s w m area] by simp
qed simp

lemma wf_refresh_set: "wf s \<Longrightarrow> wf (refresh_workspace_set_monitor_projection i s)"
proof -
  assume ok: "wf s"
  note N = wf_normalize [OF ok, of i]
  have homes: "\<forall>w \<in> set (wset_ordered y). home_view (normalize_workspace_set i s) w = Some (wset_monitor_id x)"
    if x: "get_set s i = Some x" and y: "get_set (normalize_workspace_set i s) i = Some y" for x y
  proof -
    have "set_view s i = Some (wset_monitor_id x, wset_ordered x, wset_active x)"
      by (simp add: set_view_def x)
    then obtain ids a' where
      "set_view (normalize_workspace_set i s) = (set_view s)(i := Some (wset_monitor_id x, ids, a'))"
      by (rule normalize_spec [OF wfD(1) [OF ok]])
    then have "set_view (normalize_workspace_set i s) i = Some (wset_monitor_id x, wset_ordered y, a')"
      using y by (auto simp: set_view_def dest: fun_cong [of _ _ i])
    then show ?thesis using top_okD(4) [OF coreD(2) [OF wfD(1) [OF conjunct1 [OF N]]]] by blast
  qed
  show "wf (refresh_workspace_set_monitor_projection i s)"
    using ok N homes
    by (simp add: refresh_workspace_set_monitor_projection_def Let_def wf_refresh_strips split: option.split)
qed

lemma wf_push_flag [simp]: "wf (push_flag reason s) = wf s"
  unfolding push_flag_def by (simp, intro impI, rule wf_cong) simp_all

lemma wf_write_monitor:
  assumes "wf s" "\<And>x. mon_workspace_set_id (f x) = mon_workspace_set_id x"
  shows "wf (write_monitor m f note s)"
  using assms wf_upd_monitor [of f m s] wf_refresh_set
  by (auto simp: write_monitor_def split: option.split)

lemma wf_sync_monitor: "wf s \<Longrightarrow> wf (sync_monitor p s)"
  using wf_add_monitor [of s "pmo_work_area_rect p" "pmo_dpi p" "pmo_is_primary p"]
  by (auto simp: sync_monitor_def monitor_seen_def wf_upd_monitor split: option.split prod.split
      intro!: wf_write_monitor)

lemma wf_lose_monitor: "wf s \<Longrightarrow> wf (lose_monitor p b s)"
  by (auto simp: lose_monitor_def monitor_lost_def Let_def split: option.split intro!: wf_write_monitor)

lemma monitor_of_binding: "monitor_id_by_binding s b = Some m \<Longrightarrow> bm_ok (monitors s) \<Longrightarrow> get_monitor s m \<noteq> None"
proof -
  assume "monitor_id_by_binding s b = Some m"
  then obtain p where "p \<in> set (monitors s)" "fst p = m"
    unfolding monitor_id_by_binding_def by (auto dest!: find_map_Some split: if_splits)
  then have "m \<in> set (bm_keys (monitors s))" by (auto simp: bm_keys_def)
  then show ?thesis by (auto simp: bm_keys_set)
qed

lemma wf_focus_leading_monitor:
  assumes ok: "wf s"
  shows "wf (focus_leading_monitor ms s)"
proof -
  have "wf (upd_focus (\<lambda>f. f\<lparr>focus_monitor := Some m\<rparr>) s)"
    if m: "monitor_id_by_binding s b = Some m" and none: "focus_monitor (focus s) = None" for b m
  proof (rule wfI)
    have "active_view (upd_focus (\<lambda>f. f\<lparr>focus_monitor := Some m\<rparr>) s) = active_view s"
      by (simp add: active_view_def upd_focus_def)
    then show "core {} (upd_focus (\<lambda>f. f\<lparr>focus_monitor := Some m\<rparr>) s)"
      using wfD(1) [OF ok] by (simp add: core_def)
    have "bm_ok (monitors s)" using coreD(5) [OF wfD(1) [OF ok]] by (simp add: tables_ok_def)
    then have "monitor_view s m \<noteq> None" using monitor_of_binding [OF m] by (simp add: monitor_view_def)
    then show "focus_ok (upd_focus (\<lambda>f. f\<lparr>focus_monitor := Some m\<rparr>) s)"
      using wfD(2) [OF ok] none
      by (auto simp: focus_ok_def focus_view_def active_view_def upd_focus_def monitor_view_def
          window_view_def located_def split: option.splits)
  qed
  then show ?thesis
    using ok by (auto simp: focus_leading_monitor_def split: option.split simp: bind_eq_Some_conv)
qed

lemma wf_fold: "(\<And>x s. wf s \<Longrightarrow> wf (f x s)) \<Longrightarrow> wf s \<Longrightarrow> wf (fold f xs s)"
  by (induction xs arbitrary: s) auto

lemma wf_push_flags [simp]: "wf (fold (\<lambda>b. push_flag (g b)) bs s) = wf s"
  by (induction bs arbitrary: s) simp_all

lemma wf_sync_monitor_states: "wf s \<Longrightarrow> wf (sync_monitor_states ms s)"
  unfolding sync_monitor_states_def Let_def
  by (intro wf_focus_leading_monitor)
    (auto simp: wf_fold wf_lose_monitor wf_sync_monitor split: option.split)

section \<open>The invariant of the daemon\<close>

text \<open>
  The store is well formed, the two copies of the configuration agree, the pending windows are
  keyed once and have been seen between once and 255 times, and a staged focus has been seen once.
\<close>

definition pending_ok :: "pending_discovery \<Rightarrow> bool" where
  "pending_ok e \<longleftrightarrow> 1 \<le> pd_stable_ticks e \<and> pd_stable_ticks e \<le> 255"

definition daemon_ok :: "'w daemon \<Rightarrow> bool" where
  "daemon_ok d \<longleftrightarrow>
     wf (cd_store d) \<and>
     cd_active_config d = cd_last_valid_config d \<and>
     bm_ok (cd_pending_discoveries d) \<and>
     (\<forall>(h, e) \<in> set (cd_pending_discoveries d). pending_ok e) \<and>
     (\<forall>c. cd_platform_focus_candidate d = Some c \<longrightarrow> pfd_stable_snapshots c = 1)"

lemma daemon_ok_other_fields [simp]:
  "daemon_ok (d\<lparr>cd_adapter := a\<rparr>) = daemon_ok d" "daemon_ok (d\<lparr>cd_perf := p\<rparr>) = daemon_ok d"
  "daemon_ok (d\<lparr>cd_last_snapshot := l\<rparr>) = daemon_ok d"
  "daemon_ok (d\<lparr>cd_pending_focus_claim := c\<rparr>) = daemon_ok d"
  "daemon_ok (d\<lparr>cd_geometry_settle_until := g\<rparr>) = daemon_ok d"
  "daemon_ok (d\<lparr>cd_management_enabled := b\<rparr>) = daemon_ok d"
  "daemon_ok (d\<lparr>cd_consecutive_desync_cycles := n\<rparr>) = daemon_ok d"
  "daemon_ok (d\<lparr>cd_next_correlation_id := n\<rparr>) = daemon_ok d"
  by (simp_all add: daemon_ok_def)

lemma daemon_ok_store: "daemon_ok d \<Longrightarrow> wf s \<Longrightarrow> daemon_ok (d\<lparr>cd_store := s\<rparr>)"
  by (simp add: daemon_ok_def)

lemma daemon_ok_wf: "daemon_ok d \<Longrightarrow> wf (cd_store d)"
  by (simp add: daemon_ok_def)

lemma preserves_on_adapter [preserve_intros]: "preserves daemon_ok (on_adapter m)"
  by (simp add: preserves_def on_adapter_def Let_def split: prod.split)

lemma preserves_clock [preserve_intros]:
  "preserves daemon_ok (instant_now pf)" "preserves daemon_ok (unix_timestamp pf)"
  by (simp_all add: instant_now_def unix_timestamp_def preserves_on_adapter)

lemma preserves_timed [preserve_intros]: "preserves daemon_ok m \<Longrightarrow> preserves daemon_ok (timed pf upd m)"
  unfolding timed_def by (intro preserve_intros preserves_modify) simp_all

lemma preserves_write_store: "(\<And>s. wf s \<Longrightarrow> wf (f s)) \<Longrightarrow> preserves daemon_ok (write_store f)"
  unfolding write_store_def by (rule preserves_modify) (simp add: daemon_ok_store daemon_ok_wf)

lemma preserves_flag [preserve_intros]: "preserves daemon_ok (push_degraded_reason r)"
  unfolding push_degraded_reason_def by (rule preserves_write_store) simp

lemma preserves_next_id [preserve_intros]: "preserves daemon_ok next_correlation_id"
  unfolding next_correlation_id_def by (rule preserves_stateA) simp

lemma preserves_dispatch [preserve_intros]: "preserves daemon_ok (store_dispatch e)"
  using wf_dispatch [of _ e]
  by (simp add: preserves_def store_dispatch_def on_store_def ends_def split_beta daemon_ok_store daemon_ok_wf)

end
