(* ===== verification/Runtime_Preserve.thy ===== *)
theory Runtime_Preserve
  imports Runtime_Facts
begin

text \<open>
  Every operation of the daemon preserves its invariant: the focus bookkeeping, validation,
  observation, commands and reload, and with them every run of the daemon.
\<close>

named_theorems ok_writes "writers of the daemon that keep its invariant"

lemma preserves_modify_ok: "(\<And>d. daemon_ok d \<Longrightarrow> daemon_ok (f d)) \<Longrightarrow> preserves daemon_ok (modify f)"
  by (rule preserves_modify)

section \<open>Focus and geometry\<close>

lemma daemon_ok_candidate [ok_writes]:
  "daemon_ok d \<Longrightarrow> daemon_ok (d\<lparr>cd_platform_focus_candidate := None\<rparr>)"
  "daemon_ok d \<Longrightarrow> daemon_ok (d\<lparr>cd_pending_focus_claim := x, cd_platform_focus_candidate := None\<rparr>)"
  "daemon_ok d \<Longrightarrow> daemon_ok (d\<lparr>cd_platform_focus_candidate :=
     Some \<lparr>pfd_observed_hwnd = h, pfd_stable_snapshots = 1\<rparr>\<rparr>)"
  by (simp_all add: daemon_ok_def)

lemma daemon_ok_refresh_candidate [ok_writes]: "daemon_ok d \<Longrightarrow> daemon_ok (snd (refresh_candidate actual d))"
  by (simp add: refresh_candidate_def daemon_ok_def Let_def split: option.split)

lemma preserves_unwind [preserve_intros]: "preserves daemon_ok (request_emergency_unwind pf reason)"
  unfolding request_emergency_unwind_def
  by (intro preserve_intros preserves_modify)
    (auto intro: preserve_intros split: sum.split runtime_error.split)

lemma preserves_arm_claim [preserve_intros]: "preserves daemon_ok (arm_pending_focus_claim pf previous)"
  unfolding arm_pending_focus_claim_def by (intro preserve_intros preserves_modify) (simp_all add: ok_writes)

lemma preserves_refresh_claim [preserve_intros]: "preserves daemon_ok (refresh_pending_focus_claim pf)"
  unfolding refresh_pending_focus_claim_def by (intro preserve_intros preserves_modify) simp

lemma preserves_arm_settle [preserve_intros]:
  "preserves daemon_ok (arm_pending_geometry_settle pf reason n dry_run)"
  unfolding arm_pending_geometry_settle_def by (intro preserve_intros preserves_modify) simp_all

lemma preserves_defer_geometry [preserve_intros]:
  "preserves daemon_ok (should_defer_geometry_observation pf reason)"
  unfolding should_defer_geometry_observation_def by (intro preserve_intros preserves_modify) simp

lemma preserves_stage [preserve_intros]: "preserves daemon_ok (stage_or_forget h)"
  unfolding stage_or_forget_def stage_platform_focus_candidate_def
  by (intro preserve_intros preserves_modify) (simp_all add: ok_writes del: One_nat_def)

lemma preserves_defer_focus [preserve_intros]:
  "preserves daemon_ok (should_defer_platform_focus_observation pf h)"
  unfolding should_defer_platform_focus_observation_def by (intro preserve_intros preserves_modify) simp

section \<open>Validation\<close>

lemma wf_min_width_step: "wf (snd a) \<Longrightarrow> wf (snd (min_width_step p op a))"
  by (auto simp: min_width_step_def wf_upd_column_same split: prod.split option.split)

lemma preserves_adapt [preserve_intros]: "preserves daemon_ok (adapt_to_platform_min_widths p ops)"
  unfolding adapt_to_platform_min_widths_def
proof (rule preserves_stateA)
  fix d :: "'w daemon"
  assume d: "daemon_ok d"
  have "wf (snd (fold (min_width_step p) ops a))" if "wf (snd a)" for a
    using that by (induction ops arbitrary: a) (simp_all add: wf_min_width_step)
  from this [of "(False, cd_store d)"] d
  show "daemon_ok (snd (let (adapted, s) = fold (min_width_step p) ops (False, cd_store d)
      in (adapted, d\<lparr>cd_store := s\<rparr>)))"
    by (simp add: split_beta daemon_ok_store daemon_ok_wf)
qed

lemma preserves_reset [preserve_intros]: "preserves daemon_ok reset_desync"
  unfolding reset_desync_def by (rule preserves_modify) simp

lemma preserves_planned [preserve_intros]: "preserves daemon_ok (planned_validatable pf p)"
  unfolding planned_validatable_def by (intro preserve_intros)

lemma preserves_settled [preserve_intros]: "preserves daemon_ok (settled reason action r)"
  unfolding settled_def with_flags_def by (intro preserve_intros)

lemma preserves_escalate [preserve_intros]: "preserves daemon_ok (escalate_desync pf remaining r)"
  unfolding escalate_desync_def Let_def by (intro preserve_intros preserves_modify) simp

lemma preserves_after_retry [preserve_intros]: "preserves daemon_ok (after_retry pf p q remaining r)"
  unfolding after_retry_def by (intro preserve_intros)

lemma preserves_retry [preserve_intros]: "preserves daemon_ok (retry_operations pf scan remaining r)"
  unfolding retry_operations_def with_flags_def Let_def by (intro preserve_intros)

lemma preserves_judge [preserve_intros]: "preserves daemon_ok (judge_remaining pf scan adapted remaining r)"
  unfolding judge_remaining_def by (intro preserve_intros)

lemma preserves_validate [preserve_intros]: "preserves daemon_ok (validate_after_apply pf dry_run r)"
  unfolding validate_after_apply_def validate_body_def Let_def
  by (intro preserve_intros preserves_modify) simp

section \<open>Observation\<close>

lemma preserves_sync_monitors [preserve_intros]: "preserves daemon_ok (sync_monitors_from_snapshot ms)"
  unfolding sync_monitors_from_snapshot_def
  by (intro preserve_intros preserves_write_store wf_sync_monitor_states)

lemma preserves_destroy [preserve_intros]:
  "preserves daemon_ok (destroy_window w)" "preserves daemon_ok (destroy_windows ws)"
  "preserves daemon_ok (ingest_destroyed_windows hwnds)"
  "preserves daemon_ok (prune_state_windows_missing_from_snapshot p)"
  "preserves daemon_ok (reclassify_state_windows_for_monitor_policy p)"
  unfolding destroy_windows_def ingest_destroyed_windows_def
    prune_state_windows_missing_from_snapshot_def reclassify_state_windows_for_monitor_policy_def
    destroy_window_def
  by (intro preserve_intros)+

lemma bm_put_set: "set (bm_put k v m) \<subseteq> insert (k, v) (set m)"
  by (induction k v m rule: bm_put.induct) auto

lemma bm_get_in: "bm_get m k = Some v \<Longrightarrow> (k, v) \<in> set m"
  by (induction m k rule: bm_get.induct) (auto split: if_splits)

lemma pending_ok_seen: "pending_ok e \<Longrightarrow> pending_ok (pending_entry_seen now r a e)"
  by (simp add: pending_ok_def pending_entry_seen_def Let_def)

lemma pending_ok_new: "pending_ok (pending_entry_new now r a)"
  by (simp add: pending_ok_def pending_entry_new_def)

lemma daemon_ok_put_pending:
  assumes "daemon_ok d" "pending_ok e"
  shows "daemon_ok (d\<lparr>cd_pending_discoveries := bm_put h e (cd_pending_discoveries d)\<rparr>)"
  using assms bm_put_set [of h e "cd_pending_discoveries d"]
  by (auto simp: daemon_ok_def bm_ok_put)

lemma preserves_note_pending [preserve_intros]: "preserves daemon_ok (note_pending now w a)"
  unfolding note_pending_def Let_def
proof (rule preserves_stateA)
  fix d :: "'w daemon"
  assume d: "daemon_ok d"
  have "pending_ok (case bm_get (cd_pending_discoveries d) (pw_hwnd w) of
      None \<Rightarrow> pending_entry_new now (pw_rect w) a | Some e \<Rightarrow> e)"
    using d bm_get_in [of "cd_pending_discoveries d" "pw_hwnd w"]
    by (auto simp: daemon_ok_def pending_ok_new split: option.split)
  then show "daemon_ok (snd (pending_entry_seen now (pw_rect w) a
        (case bm_get (cd_pending_discoveries d) (pw_hwnd w) of
           None \<Rightarrow> pending_entry_new now (pw_rect w) a | Some e \<Rightarrow> e),
      d\<lparr>cd_pending_discoveries := bm_put (pw_hwnd w) (pending_entry_seen now (pw_rect w) a
        (case bm_get (cd_pending_discoveries d) (pw_hwnd w) of
           None \<Rightarrow> pending_entry_new now (pw_rect w) a | Some e \<Rightarrow> e)) (cd_pending_discoveries d)\<rparr>))"
    by (simp add: d daemon_ok_put_pending pending_ok_seen)
qed

lemma bm_ok_filter: "bm_ok m \<Longrightarrow> bm_ok (filter q m)"
  by (simp add: bm_ok_def bm_keys_def sorted_wrt_map sorted_wrt_filter)

lemma preserves_forget [preserve_intros]: "preserves daemon_ok (forget_pending h)"
  unfolding forget_pending_def
  by (rule preserves_modify) (auto simp: daemon_ok_def bm_ok_del, auto simp: bm_del_def)

lemma daemon_ok_retain [ok_writes]: "daemon_ok d \<Longrightarrow> daemon_ok (retain_pending p d)"
  by (auto simp: retain_pending_def daemon_ok_def bm_ok_filter)

lemma preserves_promote [preserve_intros]:
  "preserves daemon_ok (promote_pending_window_discovery w focused follow actual)"
  unfolding promote_pending_window_discovery_def by (intro preserve_intros)

lemma preserves_candidate [preserve_intros]:
  "preserves daemon_ok (reconcile_candidate pf focused had w a acc)"
  unfolding reconcile_candidate_def Let_def by (intro preserve_intros)

lemma preserves_reconcile [preserve_intros]:
  "preserves daemon_ok (reconcile_window pf p focused had w acc)"
  "preserves daemon_ok (reconcile_pending_window_discoveries pf p focused had)"
  unfolding reconcile_pending_window_discoveries_def reconcile_window_def
  by (intro preserve_intros preserves_modify, simp_all add: ok_writes)+

lemma preserves_observe_focus [preserve_intros]: "preserves daemon_ok (observe_focus h)"
  unfolding observe_focus_def by (intro preserve_intros)

lemma preserves_settle_candidate [preserve_intros]: "preserves daemon_ok (settle_focus_candidate p)"
  unfolding settle_focus_candidate_def
  by (intro preserve_intros preserves_stateA) (simp add: ok_writes)

lemma preserves_settle_diff [preserve_intros]: "preserves daemon_ok (settle_diff_focus pf diff)"
  unfolding settle_diff_focus_def by (intro preserve_intros)

lemma preserves_note_reason [preserve_intros]: "preserves daemon_ok (note_observation_reason reason)"
  unfolding note_observation_reason_def Let_def by (intro preserve_intros)

lemma preserves_clear_stale [preserve_intros]:
  "preserves daemon_ok (clear_stale_presentations pf p dry_run)"
  unfolding clear_stale_presentations_def
  by (intro preserve_intros) (auto intro: preserve_intros split: sum.split runtime_error.split)

lemma preserves_plan_apply [preserve_intros]:
  "preserves daemon_ok (plan_if_managed pf p ctx)" "preserves daemon_ok (apply_if_allowed pf dry_run ops)"
  unfolding plan_if_managed_def apply_if_allowed_def by (intro preserve_intros)+

lemma preserves_absorb [preserve_intros]: "preserves daemon_ok (absorb_windows pf p dry_run)"
  unfolding absorb_windows_def Let_def by (intro preserve_intros)

lemma wf_stamp_cycle [simp]: "wf (stamp_cycle now b s) = wf s"
  unfolding stamp_cycle_def Let_def by (simp, intro conjI impI; rule wf_cong) simp_all

lemma preserves_sync [preserve_intros]:
  "preserves daemon_ok (sync_snapshot_with_reason pf p dry_run reason)"
  unfolding sync_snapshot_with_reason_def sync_body_def Let_def
  by (intro preserve_intros preserves_write_store preserves_modify) simp_all

lemma preserves_observation [preserve_intros]:
  "preserves daemon_ok (scan_and_sync pf dry_run)" "preserves daemon_ok (apply_observation pf ob dry_run)"
proof -
  show *: "preserves daemon_ok (scan_and_sync pf dry_run)"
    unfolding scan_and_sync_def by (intro preserve_intros)
  show "preserves daemon_ok (apply_observation pf ob dry_run)"
    unfolding apply_observation_def by (cases "ob_kind ob") (simp_all, (intro preserve_intros *)+)
qed

section \<open>Commands and reload\<close>

lemma preserves_command [preserve_intros]: "preserves daemon_ok (dispatch_command pf e dry_run reason)"
  unfolding dispatch_command_def command_body_def
  by (intro preserve_intros preserves_write_store preserves_modify) simp_all

lemma preserves_tolerate [preserve_intros]:
  "preserves daemon_ok m \<Longrightarrow> preserves daemon_ok (tolerate_invalid x m e)"
  unfolding tolerate_invalid_def
  by (intro preserve_intros)
    (auto intro: preserve_intros split: sum.split runtime_error.split failure.split core_error.split)

lemma preserves_resize [preserve_intros]:
  "preserves daemon_ok (begin_column_width_resize edge x)"
  "preserves daemon_ok (update_column_width_resize x)"
  "preserves daemon_ok cancel_column_width_resize"
  "preserves daemon_ok (commit_column_width_resize pf x dry_run)"
  unfolding begin_column_width_resize_def update_column_width_resize_def
    cancel_column_width_resize_def commit_column_width_resize_def
  by (intro preserve_intros)+

lemma preserves_reload [preserve_intros]: "preserves daemon_ok (reload_config pf dry_run)"
  unfolding reload_config_def reload_body_def reload_succeeded_def reload_failed_def
  by (intro preserve_intros preserves_modify) (simp_all add: daemon_ok_def)

section \<open>Runs of the daemon\<close>

datatype daemon_input =
    ScanAndSync bool
  | SyncSnapshot platform_snapshot bool
  | ApplyObservation observation_envelope bool
  | DispatchCommand domain_event bool string
  | BeginResize resize_edge int
  | UpdateResize int
  | CancelResize
  | CommitResize int bool
  | ReloadConfig bool
  | EmergencyUnwind string

fun daemon_step :: "('w, 'n) platform \<Rightarrow> daemon_input \<Rightarrow> 'w daemon \<Rightarrow> 'w daemon" where
  "daemon_step pf (ScanAndSync dry_run) d = snd (scan_and_sync pf dry_run d)"
| "daemon_step pf (SyncSnapshot p dry_run) d = snd (sync_snapshot pf p dry_run d)"
| "daemon_step pf (ApplyObservation ob dry_run) d = snd (apply_observation pf ob dry_run d)"
| "daemon_step pf (DispatchCommand e dry_run reason) d = snd (dispatch_command pf e dry_run reason d)"
| "daemon_step pf (BeginResize edge x) d = snd (begin_column_width_resize edge x d)"
| "daemon_step pf (UpdateResize x) d = snd (update_column_width_resize x d)"
| "daemon_step pf CancelResize d = snd (cancel_column_width_resize d)"
| "daemon_step pf (CommitResize x dry_run) d = snd (commit_column_width_resize pf x dry_run d)"
| "daemon_step pf (ReloadConfig dry_run) d = snd (reload_config pf dry_run d)"
| "daemon_step pf (EmergencyUnwind reason) d = snd (request_emergency_unwind pf reason d)"

definition run_daemon :: "('w, 'n) platform \<Rightarrow> daemon_input list \<Rightarrow> 'w daemon \<Rightarrow> 'w daemon" where
  "run_daemon pf inputs d = fold (daemon_step pf) inputs d"

definition daemon_start :: "('w, 'n) platform \<Rightarrow> 'w daemon \<Rightarrow> bool" where
  "daemon_start pf d \<longleftrightarrow>
     (\<exists>mode path had ensured w. d = daemon_with_adapter pf mode path had ensured w)"

lemma daemon_ok_step: "daemon_ok d \<Longrightarrow> daemon_ok (daemon_step pf i d)"
  by (cases i) (auto simp: sync_snapshot_def intro!: preservesD [where I = daemon_ok] preserve_intros)

lemma daemon_ok_start: "daemon_start pf d \<Longrightarrow> daemon_ok d"
  by (auto simp: daemon_start_def daemon_with_adapter_def daemon_ok_def Let_def wf_start)

interpretation daemon_run: machine "daemon_start pf" "daemon_step pf" daemon_ok for pf
  by unfold_locales (simp_all add: daemon_ok_start daemon_ok_step)

lemma daemon_run_ok: "daemon_start pf d \<Longrightarrow> daemon_ok (run_daemon pf inputs d)"
  unfolding run_daemon_def by (rule daemon_run.reached_inv)

end
