(* ===== verification/Runtime_Sample.thy ===== *)
theory Runtime_Sample
  imports Runtime_Preserve Evaluation
begin

text \<open>
  A concrete platform for the witnesses of the runtime properties: two monitors side by side and
  two windows that never move, whatever is asked of them. Its world is the clock.
\<close>

definition sample_monitor :: "string \<Rightarrow> int \<Rightarrow> bool \<Rightarrow> platform_monitor" where
  "sample_monitor binding x primary =
     \<lparr>pmo_binding = binding, pmo_work_area_rect = rect_new x 0 1600 900, pmo_dpi = 96,
      pmo_is_primary = primary\<rparr>"

definition sample_window :: "nat \<Rightarrow> string \<Rightarrow> int \<Rightarrow> bool \<Rightarrow> platform_window" where
  "sample_window h title x focused =
     \<lparr>pw_hwnd = h, pw_title = title, pw_class_name = ''AppWindow'', pw_process_id = h,
      pw_process_name = Some ''editor.exe'', pw_rect = rect_new x 100 800 600,
      pw_monitor_binding = ''DISPLAY1'', pw_is_visible = True, pw_is_focused = focused,
      pw_management_candidate = True\<rparr>"

definition sample_snapshot :: platform_snapshot where
  "sample_snapshot =
     \<lparr>psn_foreground_hwnd = None,
      psn_monitors = [sample_monitor ''DISPLAY1'' 0 True, sample_monitor ''DISPLAY2'' 1600 False],
      psn_windows = [sample_window 10 ''left'' 50 True, sample_window 20 ''right'' 700 False]\<rparr>"

definition sample_kdl :: "unit kdl_api" where
  "sample_kdl =
     \<lparr>kdl_name = (\<lambda>_. []), kdl_values = (\<lambda>_. []), kdl_children = (\<lambda>_. []), kdl_show = (\<lambda>_. [])\<rparr>"

definition stubborn_platform :: "(nat, unit) platform" where
  "stubborn_platform =
     \<lparr>pf_scan = (\<lambda>w. (Inr sample_snapshot, w)),
      pf_apply = (\<lambda>ops w. (\<lparr>br_attempted = length ops, br_applied = length ops, br_failures = []\<rparr>, w)),
      pf_clear = (\<lambda>_ w. (Inr (), w)), pf_materialized = (\<lambda>_. {}), pf_overrides = (\<lambda>_ _. None),
      pf_now = (\<lambda>w. (w, w + 1000)), pf_unix = (\<lambda>w. (w, w)),
      pf_read = (\<lambda>_ _. Inl (NotFound ''missing'')), pf_kdl_api = sample_kdl,
      pf_kdl_parse = (\<lambda>_. None)\<rparr>"

definition sample_daemon :: "nat daemon" where
  "sample_daemon =
     daemon_with_adapter stubborn_platform WmOnly default_config_path True (Inr default_config_path) 0"

lemma sample_start: "daemon_start stubborn_platform sample_daemon"
  unfolding daemon_start_def sample_daemon_def by blast

section \<open>A plan\<close>

text \<open>The two windows of the sample state, seen by a daemon that has run before.\<close>

definition bare_window :: "nat \<Rightarrow> rect \<Rightarrow> platform_window" where
  "bare_window h r =
     (sample_window h [] 0 (h = 1))\<lparr>pw_class_name := [], pw_process_name := None, pw_rect := r\<rparr>"

definition plan_snapshot :: platform_snapshot where
  "plan_snapshot =
     sample_snapshot\<lparr>psn_windows := [bare_window 1 (rect_new 0 0 400 800), bare_window 2 (rect_new 0 0 400 800)]\<rparr>"

definition settled_snapshot :: platform_snapshot where
  "settled_snapshot =
     sample_snapshot\<lparr>psn_foreground_hwnd := Some 2,
       psn_windows := [bare_window 1 (rect_new 1201 16 584 768), bare_window 2 (rect_new 600 16 584 768)]\<rparr>"

definition plan_daemon :: "nat daemon" where
  "plan_daemon = sample_daemon\<lparr>cd_store := desk_two, cd_last_snapshot := Some sample_snapshot\<rparr>"

definition sample_layouts :: "(workspace_id, workspace_projection) bmap" where
  "sample_layouts =
     [(WorkspaceId 1,
       \<lparr>proj_workspace_id = WorkspaceId 1, proj_viewport = rect_new 16 16 1168 768,
        proj_scroll_offset = 12, proj_content_width = 1180,
        proj_focused_window_id = Some (WindowId 2),
        proj_window_geometries =
          [\<lparr>geo_window_id = WindowId 1, geo_rect = rect_new 4 16 584 768, geo_layer = Tiled\<rparr>,
           \<lparr>geo_window_id = WindowId 2, geo_rect = rect_new 600 16 584 768, geo_layer = Tiled\<rparr>]\<rparr>)]"

lemma sample_layouts_eq: "collect_workspace_layouts desk_two = Inr sample_layouts"
  by (simp add: sample_layouts_def collect_workspace_layouts_def desk_two_eq evaluate cong: evaluate_congs del: One_nat_def)

definition sample_plan :: "apply_operation list" where
  "sample_plan =
     [\<lparr>op_hwnd = 1, op_rect = rect_new 1201 16 584 768, op_apply_geometry = True, op_activate = False,
       op_suppress_visual_gap = False, op_window_switch_animation = None, op_visual_emphasis = None,
       op_presentation =
         \<lparr>pr_mode = SurrogateVisible,
          pr_surrogate =
            Some \<lparr>sc_destination_rect = rect_new 4 16 584 768, sc_source_rect = rect_new 0 0 584 768,
                  sc_native_visible_rect = rect_new 4 16 584 768\<rparr>,
          pr_monitor_scene =
            \<lparr>ms_home_visible_rect = Some (rect_new 4 16 584 768), ms_slices = []\<rparr>\<rparr>\<rparr>,
      \<lparr>op_hwnd = 2, op_rect = rect_new 600 16 584 768, op_apply_geometry = True, op_activate = True,
       op_suppress_visual_gap = False, op_window_switch_animation = None, op_visual_emphasis = None,
       op_presentation = presentation_default\<rparr>]"

definition sample_desktop_window :: "nat \<Rightarrow> rect \<Rightarrow> rect \<Rightarrow> desktop_window" where
  "sample_desktop_window i logical target =
     \<lparr>dw_window_id = WindowId i, dw_workspace_id = WorkspaceId 1, dw_monitor_id = MonitorId 1, dw_layer = Tiled,
      dw_workspace_local_rect = logical, dw_logical_desktop_rect = logical, dw_desktop_rect = target,
      dw_owning_monitor_visible_rect = Some logical,
      dw_presentation_mode = (if logical = target then NativeVisible else SurrogateVisible),
      dw_presentation_reason = (if logical = target then ActiveWindowNative else InactiveFullyVisibleSurrogate),
      dw_surrogate_rect = (if logical = target then None else Some logical),
      dw_surrogate_source_rect = (if logical = target then None else Some (rect_new 0 0 584 768)),
      dw_monitor_slices = []\<rparr>"

definition sample_desktop :: desktop_projection where
  "sample_desktop =
     \<lparr>dp_monitors =
        [(MonitorId 1,
          \<lparr>md_monitor_id = MonitorId 1, md_work_area = rect_new 0 0 1200 800,
           md_padded_viewport = rect_new 16 16 1168 768,
           md_active_workspace_id = Some (WorkspaceId 1),
           md_workspace_bands =
             [\<lparr>wb_workspace_id = WorkspaceId 1, wb_monitor_id = MonitorId 1, wb_is_active = True,
               wb_local_work_area = rect_new 0 0 1200 800, wb_desktop_band_rect = rect_new 0 0 1200 800,
               wb_vertical_offset_from_active = 0\<rparr>]\<rparr>)],
      dp_windows =
        [(WindowId 1, sample_desktop_window 1 (rect_new 4 16 584 768) (rect_new 1201 16 584 768)),
         (WindowId 2, sample_desktop_window 2 (rect_new 600 16 584 768) (rect_new 600 16 584 768))]\<rparr>"

lemma sample_desktop_eq: "build_monitor_local_desktop_projection desk_two (bm_get sample_layouts) = sample_desktop"
  unfolding desk_two_eq by code_simp

lemma sample_geometries:
  "planned_geometries desk_two sample_layouts sample_desktop = proj_window_geometries (snd (hd sample_layouts))"
  unfolding desk_two_eq by code_simp

definition sample_facts :: plan_facts where
  "sample_facts =
     \<lparr>fa_context = plan_context_default, fa_desired_focused = Some 2, fa_actual_focused = Some 1,
      fa_effective_focused = Some 2, fa_overview_is_open = False,
      fa_hold = \<lparr>fh_startup_monitor_ids = {}, fh_held_hwnds = {}, fh_suppress_activation_reassert = False\<rparr>,
      fa_allow_activation = True, fa_materialized = {}\<rparr>"

lemma sample_facts_eq:
  "plan_facts_of stubborn_platform plan_daemon plan_snapshot plan_context_default = sample_facts"
  by (simp add: sample_facts_def plan_facts_of_def plan_daemon_def desk_two_eq evaluate plan_snapshot_def
      sample_snapshot_def focused_window_node_def actual_foreground_hwnd_def snapshot_focused_window_def
      bare_window_def sample_window_def focus_stabilization_hold_def held_pair_def sample_daemon_def
      daemon_with_adapter_def managed_tiled_focused_hwnd_def managed_tiled_window_monitor_id_def
      window_of_hwnd_def find_window_id_by_hwnd_def startup_monitor_ids_def
      should_attempt_activation_reassert_def materialized_hwnds_def stubborn_platform_def
      cong: evaluate_congs del: One_nat_def)

lemma sample_operations:
  "List.map_filter (plan_geometry sample_facts desk_two plan_snapshot sample_desktop)
     (proj_window_geometries (snd (hd sample_layouts))) = sample_plan"
  unfolding desk_two_eq by code_simp

lemma sample_plan_eq:
  "plan_apply_operations_with_context stubborn_platform plan_daemon plan_snapshot plan_context_default =
     Inr sample_plan"
proof -
  have "cd_store plan_daemon = desk_two" by (simp add: plan_daemon_def)
  then show ?thesis
    by (simp add: plan_apply_operations_with_context_def sample_facts_eq sample_layouts_eq sample_desktop_eq
        sample_geometries sample_operations materialized_presentation_cleanup_operations_def)
      (simp add: sample_facts_def List.map_filter_simps)
qed

end
