(* ===== verification/Runtime_Properties.thy ===== *)
theory Runtime_Properties
  imports Runtime_Sample
begin

text \<open>
  The properties of the daemon: its invariant over every run, when it gives up management, and that
  a dry run asks nothing of the platform.
\<close>

section \<open>The mode of the daemon\<close>

text \<open>Whether management is on, and how many cycles in a row have diverged.\<close>

definition in_mode :: "bool \<Rightarrow> nat \<Rightarrow> 'w daemon \<Rightarrow> bool" where
  "in_mode b n d \<longleftrightarrow> cd_management_enabled d = b \<and> cd_consecutive_desync_cycles d = n"

lemma mode_on_adapter [preserve_intros]: "preserves (in_mode b n) (on_adapter m)"
  by (simp add: preserves_def on_adapter_def in_mode_def split_beta)

lemma mode_clock [preserve_intros]: "preserves (in_mode b n) (instant_now pf)"
  by (simp add: instant_now_def mode_on_adapter)

lemma mode_flag [preserve_intros]: "preserves (in_mode b n) (push_degraded_reason r)"
  by (simp add: preserves_def push_degraded_reason_def write_store_def act_defs in_mode_def)

lemma mode_planned [preserve_intros]: "preserves (in_mode b n) (planned_validatable pf p)"
  unfolding planned_validatable_def by (intro preserve_intros)

lemma mode_adapt [preserve_intros]: "preserves (in_mode b n) (adapt_to_platform_min_widths p ops)"
  by (simp add: preserves_def adapt_to_platform_min_widths_def act_defs in_mode_def split_beta)

section \<open>Giving up management\<close>

text \<open>What a validation may leave behind when management was on and \<open>n\<close> cycles had diverged.\<close>

definition judged :: "nat \<Rightarrow> cycle_report option \<Rightarrow> 'w daemon \<Rightarrow> bool" where
  "judged n res e \<longleftrightarrow>
     cd_consecutive_desync_cycles e \<le> n + 1 \<and>
     (cd_management_enabled e \<or>
      2 \<le> n \<and>
      (case res of
         None \<Rightarrow> False
       | Some r \<Rightarrow>
           1 < cy_validation_remaining_operations r \<and>
           cy_recovery_actions r \<noteq> [] \<and> last (cy_recovery_actions r) = ''safe-mode-unwind''))"

definition fine :: "nat \<Rightarrow> ('w, cycle_report) daemon_act \<Rightarrow> bool" where
  "fine n m \<longleftrightarrow> (\<forall>d. in_mode True n d \<longrightarrow> wp m (\<lambda>r. judged n (Some r)) (\<lambda>_. judged n None) d)"

lemma in_mode_judged: "in_mode True n d \<Longrightarrow> judged n r d"
  by (simp add: in_mode_def judged_def)

lemma wp_preserves:
  assumes "preserves I m" "I d" "\<And>x e. I e \<Longrightarrow> Q x e" "\<And>x e. I e \<Longrightarrow> E x e"
  shows "wp m Q E d"
  using assms preservesD [OF assms(1,2)] by (auto simp: wp_def split: prod.split sum.split)

lemma fine_bindA: "preserves (in_mode True n) m \<Longrightarrow> (\<And>x. fine n (k x)) \<Longrightarrow> fine n (bindA m k)"
  unfolding fine_def wp_bindA
proof (intro allI impI)
  fix d :: "'a daemon"
  assume m: "preserves (in_mode True n) m" and d: "in_mode True n d"
    and k: "\<And>x. \<forall>d. in_mode True n d \<longrightarrow> wp (k x) (\<lambda>r. judged n (Some r)) (\<lambda>_. judged n None) d"
  show "wp m (\<lambda>x. wp (k x) (\<lambda>r. judged n (Some r)) (\<lambda>_. judged n None)) (\<lambda>_. judged n None) d"
    by (rule wp_preserves [OF m d]) (simp_all add: k in_mode_judged)
qed

lemma fine_thenA: "preserves (in_mode True n) m \<Longrightarrow> fine n k \<Longrightarrow> fine n (thenA m k)"
  by (simp add: thenA_def fine_bindA)

lemma fine_keeps: "preserves (in_mode True n) m \<Longrightarrow> fine n m"
  unfolding fine_def by (blast intro: wp_preserves in_mode_judged)

lemma fine_if: "fine n m \<Longrightarrow> fine n k \<Longrightarrow> fine n (if b then m else k)"
  by simp

lemma fine_reset:
  assumes "preserves (in_mode True 0) k"
  shows "fine n (thenA reset_desync k)"
  unfolding fine_def wp_thenA reset_desync_def wp_modify
proof (intro allI impI)
  fix d :: "'a daemon"
  assume "in_mode True n d"
  then have "in_mode True 0 (d\<lparr>cd_consecutive_desync_cycles := 0\<rparr>)" by (simp add: in_mode_def)
  from wp_preserves [OF assms this]
  show "wp k (\<lambda>r. judged n (Some r)) (\<lambda>_. judged n None) (d\<lparr>cd_consecutive_desync_cycles := 0\<rparr>)"
    by (simp add: judged_def in_mode_def)
qed

lemma fine_settled: "fine n (settled reason action r)"
  unfolding settled_def with_flags_def by (intro fine_reset preserve_intros)

lemma wrap_u32_le: "wrap_u32 n \<le> n"
  by (simp add: wrap_u32_def unat_of_nat take_bit_eq_mod)

text \<open>The unwind itself leaves the counter alone and cannot fail.\<close>

lemma unwind_run: "\<exists>e. request_emergency_unwind pf reason d = (Inr (), e) \<and>
   \<not> cd_management_enabled e \<and> cd_consecutive_desync_cycles e = cd_consecutive_desync_cycles d"
  by (simp add: request_emergency_unwind_def act_defs attempt_def on_adapter_def split_beta
      push_degraded_reason_def write_store_def adapter_clear_window_presentations_def
      split: sum.split runtime_error.split)

lemma fine_escalate:
  assumes "cy_validation_remaining_operations r = length remaining"
  shows "fine n (escalate_desync pf remaining r)"
  unfolding fine_def escalate_desync_def
proof (intro allI impI, unfold wp_thenA wp_modify)
  fix d :: "'a daemon"
  assume "in_mode True n d"
  define d1 where "d1 = d\<lparr>cd_consecutive_desync_cycles := wrap_u32 (cd_consecutive_desync_cycles d + 1)\<rparr>"
  have le: "wrap_u32 (n + 1) \<le> n + 1" by (rule wrap_u32_le)
  have start: "in_mode True (wrap_u32 (n + 1)) d1"
    using \<open>in_mode True n d\<close> by (simp add: d1_def in_mode_def)
  have decide: "wp (bindA (gets cd_consecutive_desync_cycles) (\<lambda>cycles.
      let r1 = push_action (ops_note ''full-scan-escalation'' remaining ''-ops-still-diverged'') r in
      if should_auto_unwind_after_desync remaining cycles
      then thenA (request_emergency_unwind pf ''desync-recovery-escalated'')
             (ret (push_action ''safe-mode-unwind'' r1))
      else ret r1)) (\<lambda>r. judged n (Some r)) (\<lambda>_. judged n None) e"
    if e: "in_mode True (wrap_u32 (n + 1)) e" for e :: "'a daemon"
  proof (cases "should_auto_unwind_after_desync remaining (wrap_u32 (n + 1))")
    case True
    then have "3 \<le> wrap_u32 (n + 1)" "1 < length remaining"
      using length_remdups_leq [of "map op_hwnd remaining"]
      by (simp_all add: should_auto_unwind_after_desync_def)
    moreover obtain e' where "request_emergency_unwind pf ''desync-recovery-escalated'' e = (Inr (), e')"
      "\<not> cd_management_enabled e'" "cd_consecutive_desync_cycles e' = wrap_u32 (n + 1)"
      using unwind_run [of pf "''desync-recovery-escalated''" e] e by (auto simp: in_mode_def)
    ultimately show ?thesis
      using True e le assms
      by (simp add: wp_simps Let_def in_mode_def judged_def push_action_def wp_Inr)
  next
    case False
    then show ?thesis using e le by (simp add: wp_simps Let_def in_mode_def judged_def)
  qed
  show "wp (push_degraded_reason (''desync:remaining-operations:'' @ nat_to_dec (length remaining)))
     (\<lambda>_. wp (bindA (gets cd_consecutive_desync_cycles) (\<lambda>cycles.
      let r1 = push_action (ops_note ''full-scan-escalation'' remaining ''-ops-still-diverged'') r in
      if should_auto_unwind_after_desync remaining cycles
      then thenA (request_emergency_unwind pf ''desync-recovery-escalated'')
             (ret (push_action ''safe-mode-unwind'' r1))
      else ret r1)) (\<lambda>r. judged n (Some r)) (\<lambda>_. judged n None)) (\<lambda>_. judged n None)
     (d\<lparr>cd_consecutive_desync_cycles := wrap_u32 (cd_consecutive_desync_cycles d + 1)\<rparr>)"
    using wp_preserves [OF mode_flag start [unfolded d1_def], of _ "\<lambda>_. judged n None"] decide le
    by (simp add: in_mode_def judged_def)
qed

lemma fine_after_retry:
  assumes "cy_validation_remaining_operations r = length remaining"
  shows "fine n (after_retry pf p q remaining r)"
  unfolding after_retry_def
  by (intro fine_if fine_reset fine_escalate assms preserve_intros)

text \<open>What follows a retry only fills in fields of the report.\<close>

lemma fine_retry: "fine n (retry_operations pf scan remaining r)"
proof -
  have tail: "fine n (bindA m (\<lambda>r2. bindA (gets cd_management_enabled) (\<lambda>enabled.
      with_flags (r2\<lparr>cy_management_enabled := enabled\<rparr>))))"
    if "fine n m" for m :: "('a, cycle_report) daemon_act"
    unfolding fine_def wp_bindA [of m]
  proof (intro allI impI)
    fix d :: "'a daemon"
    assume "in_mode True n d"
    then have "wp m (\<lambda>r. judged n (Some r)) (\<lambda>_. judged n None) d" using that by (simp add: fine_def)
    then show "wp m (\<lambda>r2. wp (bindA (gets cd_management_enabled) (\<lambda>enabled.
        with_flags (r2\<lparr>cy_management_enabled := enabled\<rparr>))) (\<lambda>r. judged n (Some r)) (\<lambda>_. judged n None))
        (\<lambda>_. judged n None) d"
      by (rule wp_mono) (simp_all add: wp_simps with_flags_def judged_def)
  qed
  show ?thesis
    unfolding retry_operations_def Let_def
    by (intro fine_thenA fine_bindA [of n "on_adapter _"] fine_bindA [of n "planned_validatable _ _"]
        tail fine_after_retry preserve_intros) simp
qed

lemma fine_judge: "fine n (judge_remaining pf scan adapted remaining r)"
  unfolding judge_remaining_def
  by (intro fine_if fine_settled fine_bindA fine_retry preserve_intros)

lemma fine_validate_body: "fine n (validate_body pf dry_run r)"
  unfolding validate_body_def Let_def
  by (intro fine_bindA fine_if fine_judge fine_keeps preserve_intros preserves_modify)
    (simp_all add: in_mode_def)

lemma fine_timed:
  assumes "fine n m"
  shows "fine n (timed pf upd m)"
proof -
  have clock: "wp (instant_now pf) Q E d = (\<exists>x a. instant_now pf d = (Inr x, d\<lparr>cd_adapter := a\<rparr>) \<and>
      Q x (d\<lparr>cd_adapter := a\<rparr>))" for Q E and d :: "'a daemon"
    by (auto simp: wp_def instant_now_def on_adapter_def stateA_def)
  have attempt: "wp (attempt m) Q E d = wp m (\<lambda>x. Q (Inr x)) (\<lambda>e. Q (Inl e)) d" for Q E and d :: "'a daemon"
    by (simp add: wp_def attempt_def split: prod.split sum.split)
  have now: "\<exists>x a. instant_now pf d = (Inr x, d\<lparr>cd_adapter := a\<rparr>)" for d :: "'a daemon"
    by (simp add: instant_now_def on_adapter_def stateA_def, blast)
  show ?thesis
    unfolding fine_def
  proof (intro allI impI)
    fix d :: "'a daemon"
    assume "in_mode True n d"
    obtain t a where t: "instant_now pf d = (Inr t, d\<lparr>cd_adapter := a\<rparr>)" using now by blast
    have "in_mode True n (d\<lparr>cd_adapter := a\<rparr>)" using \<open>in_mode True n d\<close> by (simp add: in_mode_def)
    then have m: "wp m (\<lambda>r. judged n (Some r)) (\<lambda>_. judged n None) (d\<lparr>cd_adapter := a\<rparr>)"
      using assms by (simp add: fine_def)
    have rest: "wp (bindA (instant_now pf) (\<lambda>now. thenA (modify (\<lambda>d. d\<lparr>cd_perf :=
              upd (record_perf (elapsed_micros t now) (isl res)) (cd_perf d)\<rparr>)) (tryA (\<lambda>_. res))))
        (\<lambda>r. judged n (Some r)) (\<lambda>_. judged n None) e"
      if "judged n (case res of Inl _ \<Rightarrow> None | Inr r \<Rightarrow> Some r) e" for res and e :: "'a daemon"
      using that now [of e] by (auto simp: wp_simps clock judged_def split: sum.splits)
    show "wp (timed pf upd m) (\<lambda>r. judged n (Some r)) (\<lambda>_. judged n None) d"
      unfolding timed_def wp_bindA [of "instant_now pf"] wp_Inr [of "instant_now pf", OF t]
      unfolding wp_bindA [of "attempt m"] attempt
      by (rule wp_mono [OF m])
        (use rest [of "Inr _"] rest [of "Inl _"] in simp_all)
  qed
qed

text \<open>
  C40: a validation raises the number of diverged cycles by at most one, and it turns management off only
  when two cycles in a row had diverged before, more than one operation still remains after the
  retry, and the report ends with the unwind; a validation that fails never turns it off.
\<close>

theorem unwind_needs_repeated_desync:
  assumes "cd_management_enabled d"
  shows "cd_consecutive_desync_cycles (snd (validate_after_apply pf dry_run r d))
           \<le> cd_consecutive_desync_cycles d + 1 \<and>
    (cd_management_enabled (snd (validate_after_apply pf dry_run r d)) \<or>
     2 \<le> cd_consecutive_desync_cycles d \<and>
     (\<exists>r'. fst (validate_after_apply pf dry_run r d) = Inr r' \<and>
        1 < cy_validation_remaining_operations r' \<and>
        cy_recovery_actions r' \<noteq> [] \<and> last (cy_recovery_actions r') = ''safe-mode-unwind''))"
proof -
  have "in_mode True (cd_consecutive_desync_cycles d) d" using assms by (simp add: in_mode_def)
  moreover have "fine (cd_consecutive_desync_cycles d) (validate_after_apply pf dry_run r)"
    unfolding validate_after_apply_def by (intro fine_timed fine_validate_body)
  ultimately have "wp (validate_after_apply pf dry_run r) (\<lambda>r. judged (cd_consecutive_desync_cycles d) (Some r))
      (\<lambda>_. judged (cd_consecutive_desync_cycles d) None) d"
    by (simp add: fine_def)
  then show ?thesis
    by (cases "validate_after_apply pf dry_run r d") (auto simp: wp_def judged_def split: sum.splits)
qed

theorem unwind_needs_repeated_desync_witness:
  "\<forall>r. cd_management_enabled (snd (validate_after_apply stubborn_platform False r sample_daemon)) \<and>
   cd_consecutive_desync_cycles (snd (validate_after_apply stubborn_platform False r sample_daemon)) \<le> 1"
  using unwind_needs_repeated_desync [of sample_daemon stubborn_platform False]
  by (simp add: sample_daemon_def daemon_with_adapter_def Let_def)

section \<open>Every run of the daemon\<close>

text \<open>
  C23: whatever the platform answers and in whatever order scans, observations, commands, resize
  gestures, reloads and unwinds arrive, dry or not, failing or not: the store of the daemon is
  well formed, the active configuration is the last one that loaded, every discovery that waits
  has been seen between one and 255 times, and a focus candidate has been seen exactly once.
\<close>

theorem daemon_runs_are_sound:
  assumes "daemon_start pf d"
  shows "wf (cd_store (run_daemon pf inputs d)) \<and>
    cd_active_config (run_daemon pf inputs d) = cd_last_valid_config (run_daemon pf inputs d) \<and>
    (\<forall>(h, e) \<in> set (cd_pending_discoveries (run_daemon pf inputs d)).
       1 \<le> pd_stable_ticks e \<and> pd_stable_ticks e \<le> 255) \<and>
    (\<forall>c. cd_platform_focus_candidate (run_daemon pf inputs d) = Some c \<longrightarrow> pfd_stable_snapshots c = 1)"
  using daemon_run_ok [OF assms, of inputs] by (auto simp: daemon_ok_def pending_ok_def)

theorem daemon_runs_are_sound_witness:
  "wf (cd_store (run_daemon stubborn_platform
     [ScanAndSync False, DispatchCommand (cmd_focus_next (CorrelationId 1) WorkspaceStrip) False ''key'', ReloadConfig False,
      EmergencyUnwind ''hotkey''] sample_daemon))"
  using daemon_runs_are_sound [OF sample_start] by blast

section \<open>Dry runs\<close>

text \<open>Replacing what the platform does when it is asked to change a window.\<close>

definition with_effects ::
    "(apply_operation list \<Rightarrow> 'w \<Rightarrow> apply_batch_result \<times> 'w) \<Rightarrow> (nat list \<Rightarrow> 'w \<Rightarrow> (string + unit) \<times> 'w) \<Rightarrow>
     ('w, 'n) platform \<Rightarrow> ('w, 'n) platform" where
  "with_effects f g pf = pf\<lparr>pf_apply := f, pf_clear := g\<rparr>"

lemma effects_clock [simp]:
  "instant_now (with_effects f g pf) = instant_now pf"
  "unix_timestamp (with_effects f g pf) = unix_timestamp pf"
  "timed (with_effects f g pf) = timed pf"
  by (simp_all add: instant_now_def unix_timestamp_def timed_def with_effects_def fun_eq_iff)

lemma effects_scan [simp]:
  "adapter_scan_snapshot (with_effects f g pf) = adapter_scan_snapshot pf"
  by (simp add: adapter_scan_snapshot_def with_effects_def)

lemma effects_materialized [simp]: "materialized_hwnds (with_effects f g pf) = materialized_hwnds pf"
  by (simp add: materialized_hwnds_def with_effects_def fun_eq_iff)

lemma effects_plan [simp]:
  "plan_apply_operations_with_context (with_effects f g pf) = plan_apply_operations_with_context pf"
  by (simp add: fun_eq_iff plan_apply_operations_with_context_def plan_facts_of_def)

lemma effects_plan_if [simp]: "plan_if_managed (with_effects f g pf) = plan_if_managed pf"
  unfolding fun_eq_iff plan_if_managed_def effects_plan by simp

lemma effects_bookkeeping [simp]:
  "arm_pending_focus_claim (with_effects f g pf) = arm_pending_focus_claim pf"
  "refresh_pending_focus_claim (with_effects f g pf) = refresh_pending_focus_claim pf"
  "arm_pending_geometry_settle (with_effects f g pf) = arm_pending_geometry_settle pf"
  "should_defer_geometry_observation (with_effects f g pf) = should_defer_geometry_observation pf"
  "should_defer_platform_focus_observation (with_effects f g pf) = should_defer_platform_focus_observation pf"
  unfolding arm_pending_focus_claim_def refresh_pending_focus_claim_def fun_eq_iff
    arm_pending_geometry_settle_def should_defer_geometry_observation_def
    should_defer_platform_focus_observation_def effects_clock
  by simp_all

lemma effects_focus [simp]: "settle_diff_focus (with_effects f g pf) = settle_diff_focus pf"
  unfolding fun_eq_iff settle_diff_focus_def effects_bookkeeping effects_clock by simp

lemma effects_candidate [simp]: "reconcile_candidate (with_effects f g pf) = reconcile_candidate pf"
  unfolding fun_eq_iff reconcile_candidate_def effects_bookkeeping effects_clock by simp

lemma effects_window [simp]: "reconcile_window (with_effects f g pf) = reconcile_window pf"
  unfolding fun_eq_iff reconcile_window_def effects_candidate effects_bookkeeping effects_clock by simp

lemma effects_reconcile [simp]:
  "reconcile_pending_window_discoveries (with_effects f g pf) = reconcile_pending_window_discoveries pf"
  unfolding fun_eq_iff reconcile_pending_window_discoveries_def effects_window effects_bookkeeping effects_clock
  by simp

lemma effects_dry [simp]:
  "clear_stale_presentations (with_effects f g pf) p True = clear_stale_presentations pf p True"
  "apply_if_allowed (with_effects f g pf) True ops = apply_if_allowed pf True ops"
  "absorb_windows (with_effects f g pf) p True = absorb_windows pf p True"
  "validate_after_apply (with_effects f g pf) True = validate_after_apply pf True"
  by (simp_all add: clear_stale_presentations_def apply_if_allowed_def absorb_windows_def
      validate_after_apply_def validate_body_def fun_eq_iff)

lemma effects_sync [simp]:
  "sync_snapshot_with_reason (with_effects f g pf) p True reason = sync_snapshot_with_reason pf p True reason"
  by (simp add: sync_snapshot_with_reason_def sync_body_def)

text \<open>
  C36: a dry run touches nothing: whatever the platform would do when asked to change or clear
  windows, a scan, an observation or a command run dry has the same result and leaves the same
  daemon and the same world behind - so it never asks.
\<close>

theorem dry_run_touches_no_window:
  "scan_and_sync (with_effects f g pf) True d = scan_and_sync pf True d \<and>
   apply_observation (with_effects f g pf) ob True d = apply_observation pf ob True d \<and>
   dispatch_command (with_effects f g pf) e True reason d = dispatch_command pf e True reason d"
proof -
  have scan: "scan_and_sync (with_effects f g pf) True = scan_and_sync pf True" for d
    unfolding scan_and_sync_def effects_scan effects_sync effects_dry ..
  show ?thesis
    unfolding scan apply_observation_def dispatch_command_def command_body_def effects_sync effects_dry
      effects_bookkeeping effects_plan_if effects_focus effects_clock by simp
qed

end
