(* ===== verification/Runtime_Plan_Properties.thy ===== *)
theory Runtime_Plan_Properties
  imports Runtime_Sample
begin

text \<open>
  What a plan of the daemon touches, and that one apply settles it: when the platform did what the
  plan asked, the next plan has nothing left to validate.
\<close>

section \<open>What a plan touches\<close>

lemma in_map_filter: "x \<in> set (List.map_filter f xs) \<longleftrightarrow> (\<exists>y \<in> set xs. f y = Some x)"
  by (induction xs) (auto simp: List.map_filter_simps split: option.splits)

lemma window_by_hwnd_hwnd: "window_by_hwnd p h = Some w \<Longrightarrow> w \<in> set (psn_windows p) \<and> pw_hwnd w = h"
  by (auto simp: window_by_hwnd_def find_Some_iff, metis length_rev nth_mem set_rev)

lemma window_by_hwnd_in: "window_by_hwnd p h = Some w \<Longrightarrow> h \<in> set (snapshot_hwnds p)"
  using window_by_hwnd_hwnd [of p h w] by (auto simp: snapshot_hwnds_def intro: rev_image_eqI)


definition cleanup_only :: "apply_operation \<Rightarrow> bool" where
  "cleanup_only op \<longleftrightarrow>
     \<not> op_apply_geometry op \<and> \<not> op_activate op \<and> op_visual_emphasis op = None \<and>
     op_window_switch_animation op = None \<and> op_presentation op = presentation_default"

lemma plan_window_hwnd: "plan_window f layer h actual w = Some op \<Longrightarrow> op_hwnd op = h"
  by (auto simp: plan_window_def Let_def split: prod.splits if_splits)

lemma plan_window_activates:
  "plan_window f layer h actual w = Some op \<Longrightarrow> op_activate op \<Longrightarrow>
   fa_desired_focused f = Some h \<and> fa_allow_activation f"
  by (auto simp: plan_window_def plan_activates_def Let_def split: prod.splits if_splits option.splits)

lemma cleanup_operation:
  assumes "op \<in> set (materialized_presentation_cleanup_operations p desired m)"
  shows "cleanup_only op \<and> op_hwnd op \<in> m \<and> op_hwnd op \<notin> desired \<and> op_hwnd op \<in> set (snapshot_hwnds p)"
proof -
  obtain h w where "h \<in> set (sorted_list_of_set m)" "h \<notin> desired" "window_by_hwnd p h = Some w"
    and op: "op = \<lparr>op_hwnd = h, op_rect = pw_rect w, op_apply_geometry = False, op_activate = False,
                op_suppress_visual_gap = False, op_window_switch_animation = None,
                op_visual_emphasis = None, op_presentation = presentation_default\<rparr>"
    using assms by (auto simp: materialized_presentation_cleanup_operations_def in_map_filter)
  moreover have "h \<in> m" using \<open>h \<in> set (sorted_list_of_set m)\<close>
    by (metis empty_iff empty_set set_sorted_list_of_set sorted_list_of_set.fold_insort_key.infinite)
  ultimately show ?thesis
    using window_by_hwnd_hwnd [of p h w] by (auto simp: cleanup_only_def snapshot_hwnds_def)
qed

definition managed_hwnd :: "wm_state \<Rightarrow> nat \<Rightarrow> bool" where
  "managed_hwnd s h \<longleftrightarrow> (\<exists>i node. get_window s i = Some node \<and> win_is_managed node \<and> win_hwnd node = Some h)"


definition planned_operations ::
    "('w, 'n) platform \<Rightarrow> 'w daemon \<Rightarrow> platform_snapshot \<Rightarrow> plan_context \<Rightarrow>
     (workspace_id, workspace_projection) bmap \<Rightarrow> apply_operation list" where
  "planned_operations pf d p ctx layouts =
     (let desktop = build_monitor_local_desktop_projection (cd_store d) (bm_get layouts)
      in List.map_filter (plan_geometry (plan_facts_of pf d p ctx) (cd_store d) p desktop)
           (planned_geometries (cd_store d) layouts desktop))"

lemma plan_made_of:
  assumes "plan_apply_operations_with_context pf d p ctx = Inr ops"
  obtains layouts where "collect_workspace_layouts (cd_store d) = Inr layouts"
    and "ops = planned_operations pf d p ctx layouts @
      materialized_presentation_cleanup_operations p
        (set (map op_hwnd (planned_operations pf d p ctx layouts))) (materialized_hwnds pf d)"
  using assms
  by (auto simp: plan_apply_operations_with_context_def planned_operations_def bindE_Inr_iff Let_def plan_facts_of_def)

lemma plan_geometry_cases:
  assumes "plan_geometry f s p desktop g = Some op"
  obtains node actual w where "get_window s (geo_window_id g) = Some node" "win_is_managed node"
    "win_hwnd node = Some (op_hwnd op)" "window_by_hwnd p (op_hwnd op) = Some actual"
    "bm_get (dp_windows desktop) (geo_window_id g) = Some w"
    "plan_window f (geo_layer g) (op_hwnd op) actual w = Some op"
  using assms by (auto simp: plan_geometry_def dest: plan_window_hwnd split: option.splits if_splits)

lemma facts_activation:
  "fa_desired_focused (plan_facts_of pf d p ctx) = Some h \<Longrightarrow> fa_allow_activation (plan_facts_of pf d p ctx) \<Longrightarrow>
   current_focused_hwnd (cd_store d) = Some h \<and> \<not> ov_is_open (overview (cd_store d)) \<and> held_pair d p = None"
  by (auto simp: plan_facts_of_def Let_def current_focused_hwnd_def focus_stabilization_hold_def
      filter_opt_def bind_eq_Some_conv split: option.splits if_splits)

lemma planned_in_snapshot:
  assumes "op \<in> set (planned_operations pf d p ctx layouts)"
  shows "op_hwnd op \<in> set (snapshot_hwnds p) \<and> managed_hwnd (cd_store d) (op_hwnd op) \<and>
    (op_activate op \<longrightarrow>
     current_focused_hwnd (cd_store d) = Some (op_hwnd op) \<and> \<not> ov_is_open (overview (cd_store d)) \<and>
     held_pair d p = None)"
proof -
  obtain g where "plan_geometry (plan_facts_of pf d p ctx) (cd_store d) p
      (build_monitor_local_desktop_projection (cd_store d) (bm_get layouts)) g = Some op"
    using assms by (auto simp: planned_operations_def Let_def in_map_filter)
  then show ?thesis
  proof (cases rule: plan_geometry_cases)
    case (1 node actual w)
    then show ?thesis
      using window_by_hwnd_hwnd [of p "op_hwnd op" actual] plan_window_activates [OF 1(6)]
        facts_activation [of pf d p ctx "op_hwnd op"]
      by (auto simp: managed_hwnd_def snapshot_hwnds_def intro: rev_image_eqI)
  qed
qed

text \<open>
  C26: a plan touches only windows that are there: every operation names a handle of the snapshot;
  it is a window the store manages or the operation only clears a surrogate left behind; and only
  the focused window is ever activated, never while the overview is open or the focus is held.
\<close>

theorem plan_touches_only_managed_windows:
  assumes plan: "plan_apply_operations_with_context pf d p ctx = Inr ops" and op: "op \<in> set ops"
  shows "op_hwnd op \<in> set (snapshot_hwnds p) \<and>
    (managed_hwnd (cd_store d) (op_hwnd op) \<or>
     op_hwnd op \<in> materialized_hwnds pf d \<and> cleanup_only op) \<and>
    (op_activate op \<longrightarrow>
     current_focused_hwnd (cd_store d) = Some (op_hwnd op) \<and> \<not> ov_is_open (overview (cd_store d)) \<and>
     held_pair d p = None)"
proof (rule plan_made_of [OF plan])
  fix layouts
  assume "ops = planned_operations pf d p ctx layouts @
      materialized_presentation_cleanup_operations p
        (set (map op_hwnd (planned_operations pf d p ctx layouts))) (materialized_hwnds pf d)"
  with op show ?thesis
    using planned_in_snapshot [of op pf d p ctx layouts] cleanup_operation [of op p _ "materialized_hwnds pf d"]
    by (fastforce simp: cleanup_only_def)
qed

theorem plan_touches_only_managed_windows_witness:
  "list_all (\<lambda>op. op_hwnd op \<in> set (snapshot_hwnds plan_snapshot) \<and>
     (managed_hwnd desk_two (op_hwnd op) \<or> op_hwnd op \<in> materialized_hwnds stubborn_platform plan_daemon \<and>
      cleanup_only op)) sample_plan"
  using plan_touches_only_managed_windows [OF sample_plan_eq]
  by (simp add: list_all_iff plan_daemon_def)

section \<open>An obeyed plan settles\<close>

text \<open>
  The snapshot \<open>q\<close> shows the desktop after every operation on \<open>p\<close> took effect: the geometry of
  a window is the one asked for, or the one it had, and so is the foreground.
\<close>

definition moved_to :: "apply_operation list \<Rightarrow> platform_snapshot \<Rightarrow> nat \<Rightarrow> rect \<Rightarrow> bool" where
  "moved_to ops p h r \<longleftrightarrow>
     list_all (\<lambda>op. op_hwnd op = h \<and> op_apply_geometry op \<longrightarrow> r = op_rect op) ops \<and>
     (list_all (\<lambda>op. \<not> (op_hwnd op = h \<and> op_apply_geometry op)) ops \<longrightarrow>
      map_option pw_rect (window_by_hwnd p h) = Some r)"

definition obeyed :: "apply_operation list \<Rightarrow> platform_snapshot \<Rightarrow> platform_snapshot \<Rightarrow> bool" where
  "obeyed ops p q \<longleftrightarrow>
     list_all (\<lambda>h. h \<in> set (snapshot_hwnds p)) (snapshot_hwnds q) \<and>
     list_all (\<lambda>h. \<forall>w \<in> set_option (window_by_hwnd q h). moved_to ops p h (pw_rect w)) (snapshot_hwnds q) \<and>
     list_all (\<lambda>op. op_activate op \<longrightarrow> actual_foreground_hwnd q = Some (op_hwnd op)) ops \<and>
     (list_all (\<lambda>op. \<not> op_activate op) ops \<longrightarrow> actual_foreground_hwnd q = actual_foreground_hwnd p)"

text \<open>The handles of the windows a layout places.\<close>

definition handle_of_geometry :: "wm_state \<Rightarrow> window_geometry \<Rightarrow> nat option" where
  "handle_of_geometry s g = Option.bind (get_window s (geo_window_id g)) win_hwnd"

definition planned_handles :: "wm_state \<Rightarrow> nat list" where
  "planned_handles s =
     (case collect_workspace_layouts s of
        Inl _ \<Rightarrow> []
      | Inr layouts \<Rightarrow>
          List.map_filter (handle_of_geometry s)
            (planned_geometries s layouts (build_monitor_local_desktop_projection s (bm_get layouts))))"


lemma window_by_hwnd_some: "h \<in> set (snapshot_hwnds p) \<Longrightarrow> \<exists>w. window_by_hwnd p h = Some w"
  by (cases "window_by_hwnd p h") (auto simp: window_by_hwnd_def find_None_iff snapshot_hwnds_def)

lemma map_filter_distinct:
  "distinct (List.map_filter f xs) \<Longrightarrow> x \<in> set xs \<Longrightarrow> y \<in> set xs \<Longrightarrow> f x = Some h \<Longrightarrow> f y = Some h \<Longrightarrow>
   length (filter (\<lambda>z. f z = Some h) xs) = 1"
proof (induction xs)
  case (Cons z zs)
  have none: "filter (\<lambda>z. f z = Some h) zs = []" if "f z = Some h"
    using Cons.prems(1) that by (auto simp: List.map_filter_simps filter_empty_conv in_map_filter split: option.splits)
  show ?case
  proof (cases "f z = Some h")
    case True then show ?thesis using none by simp
  next
    case False
    then have "x \<in> set zs" "y \<in> set zs" "distinct (List.map_filter f zs)"
      using Cons.prems by (auto simp: List.map_filter_simps split: option.splits)
    then show ?thesis using False Cons.IH Cons.prems(4,5) by simp
  qed
qed simp

lemma map_filter_distinct_eq:
  assumes "distinct (List.map_filter f xs)" "x \<in> set xs" "y \<in> set xs" "f x = Some h" "f y = Some h"
  shows "x = y"
proof -
  obtain z where "filter (\<lambda>z. f z = Some h) xs = [z]"
    using map_filter_distinct [OF assms] by (auto simp: length_Suc_conv)
  moreover have "x \<in> set (filter (\<lambda>z. f z = Some h) xs)" "y \<in> set (filter (\<lambda>z. f z = Some h) xs)"
    using assms by simp_all
  ultimately show ?thesis by simp
qed

lemma gapless_refl: "\<not> needs_tiled_gapless_geometry_apply r r"
  by (simp add: needs_tiled_gapless_geometry_apply_def Let_def tiled_visual_overlap_x_px_def
      i32_sat_sub_def sat_i32_def i32_max_def i32_min_def i32_abs_def wrap_i32_def)

definition moves :: "window_layer \<Rightarrow> rect \<Rightarrow> rect \<Rightarrow> bool" where
  "moves layer actual target \<longleftrightarrow>
     (if layer = Tiled then needs_tiled_gapless_geometry_apply actual target
      else needs_geometry_apply actual target)"

lemma moves_refl: "\<not> moves layer r r"
  by (simp add: moves_def gapless_refl needs_geometry_apply_def)

lemma plan_window_some:
  "plan_window f layer h actual w = Some op \<Longrightarrow>
   op_rect op = fst (plan_target f h layer w) \<and>
   op_apply_geometry op = moves layer (pw_rect actual) (op_rect op) \<and>
   op_activate op = plan_activates f h (op_apply_geometry op)"
  by (auto simp: plan_window_def moves_def Let_def split: prod.splits if_splits)

lemma plan_window_needed:
  "moves layer (pw_rect actual) (fst (plan_target f h layer w)) \<or>
   plan_activates f h (moves layer (pw_rect actual) (fst (plan_target f h layer w))) \<Longrightarrow>
   \<exists>op. plan_window f layer h actual w = Some op \<and> op_hwnd op = h"
  by (auto simp: plan_window_def moves_def Let_def split: prod.splits)

text \<open>The foreground after an obeyed plan, and the hold that depends on it.\<close>

lemma obeyed_foreground:
  assumes plan: "plan_apply_operations_with_context pf d p ctx = Inr ops" and "obeyed ops p q"
  shows "(\<forall>op \<in> set ops. \<not> op_activate op) \<and> actual_foreground_hwnd q = actual_foreground_hwnd p \<or>
    actual_foreground_hwnd q = current_focused_hwnd (cd_store d) \<and> held_pair d p = None"
proof (cases "\<forall>op \<in> set ops. \<not> op_activate op")
  case True
  then show ?thesis using assms(2) by (simp add: obeyed_def list_all_iff)
next
  case False
  then obtain op where op: "op \<in> set ops" "op_activate op" by blast
  then have "current_focused_hwnd (cd_store d) = Some (op_hwnd op) \<and> held_pair d p = None"
  proof (rule_tac plan_made_of [OF plan])
    fix layouts
    assume "ops = planned_operations pf d p ctx layouts @
        materialized_presentation_cleanup_operations p
          (set (map op_hwnd (planned_operations pf d p ctx layouts))) (materialized_hwnds pf d)"
    then show ?thesis
      using op planned_in_snapshot [of op pf d p ctx layouts] cleanup_operation [of op p _ "materialized_hwnds pf d"]
      by (fastforce simp: cleanup_only_def)
  qed
  then show ?thesis using op assms(2) by (simp add: obeyed_def list_all_iff)
qed

lemma held_pair_focused:
  "actual_foreground_hwnd q = current_focused_hwnd (cd_store d) \<Longrightarrow> held_pair d q = None"
  by (auto simp: held_pair_def managed_tiled_focused_hwnd_def current_focused_hwnd_def filter_opt_def
      bind_eq_Some_conv split: option.splits if_splits)

lemma held_pair_same:
  "actual_foreground_hwnd q = actual_foreground_hwnd p \<Longrightarrow> held_pair d q = held_pair d p"
  by (simp add: held_pair_def)

lemma cd_store_adapter: "cd_store (d\<lparr>cd_adapter := a\<rparr>) = cd_store d"
  by simp

lemma held_pair_adapter: "held_pair (d\<lparr>cd_adapter := a\<rparr>) q = held_pair d q"
  unfolding held_pair_def cd_store_adapter by simp

lemma reassert_adapter:
  "should_attempt_activation_reassert (d\<lparr>cd_adapter := a\<rparr>) h = should_attempt_activation_reassert d h"
  unfolding should_attempt_activation_reassert_def cd_store_adapter by simp

lemma startup_seen: "cd_last_snapshot d \<noteq> None \<Longrightarrow> startup_monitor_ids d p = {}"
  by (cases "cd_last_snapshot d") (simp_all add: startup_monitor_ids_def)

lemma hold_of_foreground:
  assumes "cd_last_snapshot d \<noteq> None" "held_pair d q = held_pair d p"
  shows "focus_stabilization_hold (d\<lparr>cd_adapter := a\<rparr>) q = focus_stabilization_hold d p"
proof -
  have none: "startup_monitor_ids (d\<lparr>cd_adapter := a\<rparr>) q = {}" "startup_monitor_ids d p = {}"
    using assms(1) by (simp_all add: startup_seen)
  show ?thesis unfolding focus_stabilization_hold_def held_pair_adapter assms(2) none ..
qed

lemma obeyed_hold:
  assumes plan: "plan_apply_operations_with_context pf d p ctx = Inr ops" and ob: "obeyed ops p q"
    and "cd_last_snapshot d \<noteq> None"
  shows "focus_stabilization_hold (d\<lparr>cd_adapter := a\<rparr>) q = focus_stabilization_hold d p"
  by (rule hold_of_foreground [OF assms(3)])
    (use obeyed_foreground [OF plan ob] held_pair_focused [of q d] held_pair_same [of q p d] in auto)

text \<open>The geometry of one window after its plan took effect.\<close>

lemma rect_settles:
  assumes from_plan: "\<And>op. op \<in> set ops \<Longrightarrow> op_hwnd op = h \<Longrightarrow> op_apply_geometry op \<Longrightarrow>
      plan_window f layer h was w = Some op"
    and in_plan: "\<And>op. plan_window f layer h was w = Some op \<Longrightarrow> op \<in> set ops"
    and was: "window_by_hwnd p h = Some was" and moved: "moved_to ops p h r"
  shows "\<not> moves layer r (fst (plan_target f h layer w))"
proof (cases "moves layer (pw_rect was) (fst (plan_target f h layer w))")
  case True
  then obtain op where op: "plan_window f layer h was w = Some op" "op_hwnd op = h"
    using plan_window_needed by blast
  then have "r = fst (plan_target f h layer w)"
    using True moved in_plan plan_window_some [OF op(1)] by (simp add: moved_to_def list_all_iff)
  then show ?thesis by (simp add: moves_refl)
next
  case False
  then have "\<not> op_apply_geometry op" if "op \<in> set ops" "op_hwnd op = h" for op
    using from_plan [OF that] plan_window_some [of f layer h was w op] by auto
  then have "r = pw_rect was" using moved was by (auto simp: moved_to_def list_all_iff)
  then show ?thesis using False by simp
qed

text \<open>The operations of a plan for one handle all come from its window.\<close>

lemma planned_source:
  assumes layouts: "collect_workspace_layouts (cd_store d) = Inr layouts"
    and desktop: "desktop = build_monitor_local_desktop_projection (cd_store d) (bm_get layouts)"
    and distinct: "distinct (planned_handles (cd_store d))"
    and g: "g \<in> set (planned_geometries (cd_store d) layouts desktop)"
    and node: "get_window (cd_store d) (geo_window_id g) = Some node" "win_is_managed node" "win_hwnd node = Some h"
    and was: "window_by_hwnd p h = Some was" and w: "bm_get (dp_windows desktop) (geo_window_id g) = Some w"
  shows "op \<in> set (planned_operations pf d p ctx layouts) \<and> op_hwnd op = h \<longleftrightarrow>
    plan_window (plan_facts_of pf d p ctx) (geo_layer g) h was w = Some op"
proof
  assume op: "op \<in> set (planned_operations pf d p ctx layouts) \<and> op_hwnd op = h"
  then obtain g1 where g1: "g1 \<in> set (planned_geometries (cd_store d) layouts desktop)"
    and "plan_geometry (plan_facts_of pf d p ctx) (cd_store d) p desktop g1 = Some op"
    by (auto simp: planned_operations_def Let_def in_map_filter desktop)
  from this(2) obtain node1 was1 w1 where 1: "get_window (cd_store d) (geo_window_id g1) = Some node1"
    "win_hwnd node1 = Some h" "window_by_hwnd p h = Some was1"
    "bm_get (dp_windows desktop) (geo_window_id g1) = Some w1"
    "plan_window (plan_facts_of pf d p ctx) (geo_layer g1) h was1 w1 = Some op"
    by (rule plan_geometry_cases) (simp add: op)
  have "g1 = g"
    using distinct g1 g 1(1,2) node(1,3)
    by (intro map_filter_distinct_eq [of "handle_of_geometry (cd_store d)" "planned_geometries (cd_store d) layouts desktop"])
      (simp_all add: planned_handles_def layouts desktop handle_of_geometry_def)
  then show "plan_window (plan_facts_of pf d p ctx) (geo_layer g) h was w = Some op" using 1 w was by simp
next
  assume op: "plan_window (plan_facts_of pf d p ctx) (geo_layer g) h was w = Some op"
  then have "plan_geometry (plan_facts_of pf d p ctx) (cd_store d) p desktop g = Some op"
    using node was w by (simp add: plan_geometry_def)
  then show "op \<in> set (planned_operations pf d p ctx layouts) \<and> op_hwnd op = h"
    using g plan_window_hwnd [OF op] by (auto simp: planned_operations_def Let_def in_map_filter desktop)
qed

text \<open>What the second plan reads of the daemon, and when it would still activate.\<close>

lemma facts_after:
  assumes "focus_stabilization_hold (d\<lparr>cd_adapter := a\<rparr>) q = focus_stabilization_hold d p"
  shows "plan_target (plan_facts_of pf (d\<lparr>cd_adapter := a\<rparr>) q ctx') = plan_target (plan_facts_of pf d p ctx)"
  unfolding fun_eq_iff using assms by (simp add: plan_target_def plan_facts_of_def Let_def)

lemma activates_after:
  assumes plan: "plan_apply_operations_with_context pf d p ctx = Inr ops" and ob: "obeyed ops p q"
    and hold: "focus_stabilization_hold (d\<lparr>cd_adapter := a\<rparr>) q = focus_stabilization_hold d p"
    and active: "plan_activates (plan_facts_of pf (d\<lparr>cd_adapter := a\<rparr>) q ctx') h b"
    and b: "\<not> b"
  shows "(\<forall>op \<in> set ops. \<not> op_activate op) \<and> plan_activates (plan_facts_of pf d p ctx) h b'"
proof -
  have focused: "current_focused_hwnd (cd_store d) = Some h" "actual_foreground_hwnd q \<noteq> Some h"
    "fa_allow_activation (plan_facts_of pf (d\<lparr>cd_adapter := a\<rparr>) q ctx')"
    "fa_desired_focused (plan_facts_of pf d p ctx) = Some h"
    using active b facts_activation [of pf "d\<lparr>cd_adapter := a\<rparr>" q ctx' h]
    by (auto simp: plan_activates_def needs_activation_apply_def plan_facts_of_def Let_def split: option.splits)
  then have "\<forall>op \<in> set ops. \<not> op_activate op" "actual_foreground_hwnd q = actual_foreground_hwnd p"
    using obeyed_foreground [OF plan ob] by auto
  then show ?thesis
    using focused hold
    by (simp add: plan_activates_def needs_activation_apply_def plan_facts_of_def Let_def reassert_adapter)
qed

lemma window_settles:
  assumes plan: "plan_apply_operations_with_context pf d p ctx = Inr ops" and ob: "obeyed ops p q"
    and distinct: "distinct (planned_handles (cd_store d))" and seen: "cd_last_snapshot d \<noteq> None"
    and layouts: "collect_workspace_layouts (cd_store d) = Inr layouts"
    and op': "op' \<in> set (planned_operations pf (d\<lparr>cd_adapter := a\<rparr>) q ctx' layouts)"
  shows "\<not> op_apply_geometry op' \<and> \<not> op_activate op'"
proof -
  let ?d = "d\<lparr>cd_adapter := a\<rparr>" and ?s = "cd_store d" and ?h = "op_hwnd op'"
  let ?f = "plan_facts_of pf d p ctx" and ?f' = "plan_facts_of pf ?d q ctx'"
  note hold = obeyed_hold [OF plan ob seen, of a]
  have ops: "op \<in> set ops \<longleftrightarrow> op \<in> set (planned_operations pf d p ctx layouts)"
    if "op_apply_geometry op \<or> op_activate op" for op
    using plan_made_of [OF plan] cleanup_operation [of op p _ "materialized_hwnds pf d"] that layouts
    by (metis (no_types, lifting) Un_iff cleanup_only_def set_append sum.inject(2))
  define desktop where "desktop = build_monitor_local_desktop_projection ?s (bm_get layouts)"
  obtain g where g: "g \<in> set (planned_geometries ?s layouts desktop)" and "plan_geometry ?f' ?s q desktop g = Some op'"
    using op' by (auto simp: planned_operations_def Let_def in_map_filter desktop_def)
  from this(2) obtain node now w where node: "get_window ?s (geo_window_id g) = Some node" "win_is_managed node"
    "win_hwnd node = Some ?h" and now: "window_by_hwnd q ?h = Some now"
    and w: "bm_get (dp_windows desktop) (geo_window_id g) = Some w"
    and shape: "plan_window ?f' (geo_layer g) ?h now w = Some op'"
    by (rule plan_geometry_cases)
  obtain was where was: "window_by_hwnd p ?h = Some was"
    using ob window_by_hwnd_in [OF now] window_by_hwnd_some by (fastforce simp: obeyed_def list_all_iff)
  note source = planned_source [OF layouts desktop_def distinct g node was w, of _ pf ctx]
  have "moved_to ops p ?h (pw_rect now)"
    using ob window_by_hwnd_in [OF now] now by (simp add: obeyed_def list_all_iff)
  have in_ops: "op \<in> set ops" if "plan_window ?f (geo_layer g) ?h was w = Some op" for op
    using plan_made_of [OF plan] source that layouts by (metis Un_iff set_append sum.inject(2))
  then have still: "\<not> moves (geo_layer g) (pw_rect now) (fst (plan_target ?f ?h (geo_layer g) w))"
    using source ops by (intro rect_settles [OF _ _ was \<open>moved_to ops p ?h (pw_rect now)\<close>]) auto
  then have quiet: "\<not> op_apply_geometry op'" "op_activate op' = plan_activates ?f' ?h False"
    using plan_window_some [OF shape] by (simp_all add: facts_after [OF hold, where pf = pf and ctx = ctx and ctx' = ctx'])
  have "\<not> plan_activates ?f' ?h False"
  proof
    assume active: "plan_activates ?f' ?h False"
    obtain op where op: "plan_window ?f (geo_layer g) ?h was w = Some op"
      using plan_window_needed activates_after [OF plan ob hold active, of "moves (geo_layer g) (pw_rect was) (fst (plan_target ?f ?h (geo_layer g) w))"] by blast
    then show False
      using activates_after [OF plan ob hold active] plan_window_some [OF op] in_ops [OF op] by blast
  qed
  then show ?thesis using quiet by simp
qed

text \<open>
  C27: one apply settles the desktop. When the operations of a plan took effect as asked, every
  window a layout places has a handle of its own and the daemon has seen a snapshot before, then no
  plan for the resulting snapshot moves or activates a window again: there is nothing left to
  validate, and the loop of applying and validating ends after the first pass.
\<close>

theorem obeyed_plan_settles:
  assumes plan: "plan_apply_operations_with_context pf d p ctx = Inr ops" and ob: "obeyed ops p q"
    and distinct: "distinct (planned_handles (cd_store d))" and seen: "cd_last_snapshot d \<noteq> None"
    and again: "plan_apply_operations_with_context pf (d\<lparr>cd_adapter := a\<rparr>) q ctx' = Inr ops'"
  shows "filter_validatable_operations ops' = []"
proof (rule plan_made_of [OF again])
  fix layouts
  assume "collect_workspace_layouts (cd_store (d\<lparr>cd_adapter := a\<rparr>)) = Inr layouts"
    and ops': "ops' = planned_operations pf (d\<lparr>cd_adapter := a\<rparr>) q ctx' layouts @
      materialized_presentation_cleanup_operations q
        (set (map op_hwnd (planned_operations pf (d\<lparr>cd_adapter := a\<rparr>) q ctx' layouts)))
        (materialized_hwnds pf (d\<lparr>cd_adapter := a\<rparr>))"
  then have "collect_workspace_layouts (cd_store d) = Inr layouts" by simp
  from window_settles [OF plan ob distinct seen this] show ?thesis
    using cleanup_operation [of _ q]
    by (fastforce simp: ops' filter_validatable_operations_def filter_empty_conv cleanup_only_def)
qed

lemma sample_handles: "planned_handles desk_two = [1, 2]"
  by (simp add: planned_handles_def sample_layouts_eq sample_desktop_eq sample_geometries, simp add: sample_layouts_def
      handle_of_geometry_def List.map_filter_simps desk_two_eq evaluate)

lemma sample_obeyed: "obeyed sample_plan plan_snapshot settled_snapshot"
  by (simp add: obeyed_def moved_to_def sample_plan_def plan_snapshot_def settled_snapshot_def sample_snapshot_def
     snapshot_hwnds_def window_by_hwnd_def bare_window_def sample_window_def actual_foreground_hwnd_def or_opt_def)


theorem obeyed_plan_settles_witness:
  "\<exists>ops. plan_apply_operations_with_context stubborn_platform plan_daemon settled_snapshot plan_context_default =
     Inr ops \<and> filter_validatable_operations ops = []"
proof -
  have store: "cd_store plan_daemon = desk_two" by (simp add: plan_daemon_def)
  then obtain ops where again: "plan_apply_operations_with_context stubborn_platform plan_daemon settled_snapshot
      plan_context_default = Inr ops"
    by (simp add: plan_apply_operations_with_context_def sample_layouts_eq Let_def)
  have "plan_daemon\<lparr>cd_adapter := cd_adapter plan_daemon\<rparr> = plan_daemon" by simp
  then have "filter_validatable_operations ops = []"
    using obeyed_plan_settles [OF sample_plan_eq sample_obeyed, of "cd_adapter plan_daemon" plan_context_default ops]
      again store sample_handles by (simp add: plan_daemon_def)
  then show ?thesis using again by blast
qed
end
