(* ===== verification/Window_Filter.thy ===== *)
theory Window_Filter
  imports Discovery_Assessment
begin

text \<open>
  \<open>crates/windows-adapter/src/native_snapshot/window_filtering.rs\<close>: which top-level windows the scan
  reports, and which of them are taken out again because they are popups or panels of another window
  of the same application. What Windows answers about a window is the record \<open>window_queries\<close>;
  the proportions are compared in \<open>f32\<close>. \<open>normalized_process_name\<close> and the rectangle tests of this
  file repeat those of the discovery assessment word for word and are shared with it here.
\<close>

unbundle bit_operations_syntax

record win32_rect =
  w_left :: int
  w_top :: int
  w_right :: int
  w_bottom :: int

text \<open>
  The answers of \<open>IsWindowVisible\<close>, \<open>IsIconic\<close>, \<open>DwmGetWindowAttribute\<close> (result code and value),
  \<open>GetWindow\<close> with \<open>GW_OWNER\<close> (0 is null), \<open>GetWindowLongPtrW\<close>, \<open>GetWindowRect\<close>,
  \<open>GetWindowTextLengthW\<close>, \<open>GetWindowTextW\<close>, \<open>GetClassNameW\<close>, \<open>GetWindowThreadProcessId\<close> and
  \<open>MonitorFromWindow\<close>.
\<close>

record window_queries =
  wq_visible :: bool
  wq_iconic :: bool
  wq_cloaked :: "int \<times> nat"
  wq_owner :: nat
  wq_ex_style :: nat
  wq_style :: nat
  wq_outer_rect :: "win32_rect option"
  wq_frame_rect :: "int \<times> win32_rect"
  wq_title_length :: int
  wq_title :: string
  wq_class :: string
  wq_process_id :: nat
  wq_monitor :: nat

section \<open>Constants\<close>

definition transient_popup_max_width_px :: nat where "transient_popup_max_width_px = 480"

definition transient_popup_max_height_px :: nat where "transient_popup_max_height_px = 360"

definition anchored_transient_edge_proximity_px :: int where "anchored_transient_edge_proximity_px = 96"

definition transient_surface_max_width_px :: nat where "transient_surface_max_width_px = 720"

definition transient_surface_max_height_px :: nat where "transient_surface_max_height_px = 180"

definition transient_surface_max_area_px :: nat where "transient_surface_max_area_px = 120000"

definition shell_overlay_processes :: "string list" where
  "shell_overlay_processes =
     [''screenclippinghost'', ''shellexperiencehost'', ''startmenuexperiencehost'', ''searchhost'',
      ''searchapp'', ''textinputhost'', ''lockapp'', ''snippingtool'']"

text \<open>The two Russian titles of the capture tools, as UTF-8.\<close>

definition recording_toolbar_title :: string where
  "recording_toolbar_title =
     map char_of
       [208, 191, 208, 176, 208, 189, 208, 181, 208, 187, 209, 140, 32, 208, 184, 208, 189, 209, 129, 209,
        130, 209, 128, 209, 131, 208, 188, 208, 181, 208, 189, 209, 130, 208, 190, 208, 178, 32, 208, 183,
        208, 176, 208, 191, 208, 184, 209, 129, 208, (184::nat)]"

definition scissors_title :: string where
  "scissors_title =
     map char_of [208, 189, 208, 190, 208, 182, 208, 189, 208, 184, 209, 134, 209, (139::nat)]"

section \<open>One window\<close>

text \<open>\<open>WS_POPUP\<close>, \<open>WS_CAPTION\<close>, \<open>WS_THICKFRAME\<close> and \<open>WS_EX_TOOLWINDOW\<close>.\<close>

definition looks_like_transient_popup_window :: "nat \<Rightarrow> bool" where
  "looks_like_transient_popup_window style \<longleftrightarrow>
     style AND 0x80000000 \<noteq> 0 \<and> \<not> style AND 0x00C00000 \<noteq> 0 \<and> \<not> style AND 0x00040000 \<noteq> 0"

definition is_window_cloaked :: "window_queries \<Rightarrow> bool" where
  "is_window_cloaked q \<longleftrightarrow> 0 \<le> fst (wq_cloaked q) \<and> snd (wq_cloaked q) \<noteq> 0"

definition is_real_user_window :: "window_queries \<Rightarrow> bool" where
  "is_real_user_window q \<longleftrightarrow>
     wq_visible q \<and> \<not> (wq_iconic q \<or> is_window_cloaked q) \<and> wq_owner q = 0 \<and>
     wq_ex_style q AND 0x80 = 0 \<and> \<not> looks_like_transient_popup_window (wq_style q)"

definition is_small_popup_candidate :: "window_queries \<Rightarrow> rect \<Rightarrow> bool" where
  "is_small_popup_candidate q r \<longleftrightarrow>
     looks_like_transient_popup_window (wq_style q) \<and>
     rect_width r \<le> transient_popup_max_width_px \<and> rect_height r \<le> transient_popup_max_height_px"

definition rect_is_non_empty :: "win32_rect \<Rightarrow> bool" where
  "rect_is_non_empty r \<longleftrightarrow> w_left r < w_right r \<and> w_top r < w_bottom r"

definition visible_frame_is_compatible :: "win32_rect \<Rightarrow> win32_rect \<Rightarrow> bool" where
  "visible_frame_is_compatible outer visible \<longleftrightarrow>
     rect_is_non_empty outer \<and> rect_is_non_empty visible \<and>
     w_left outer \<le> w_left visible \<and> w_top outer \<le> w_top visible \<and>
     w_right visible \<le> w_right outer \<and> w_bottom visible \<le> w_bottom outer"

definition domain_rect_from_win32 :: "win32_rect \<Rightarrow> rect" where
  "domain_rect_from_win32 r =
     rect_new (w_left r) (w_top r) (nat (max (wrap_i32 (w_right r - w_left r)) 0))
       (nat (max (wrap_i32 (w_bottom r - w_top r)) 0))"

definition query_extended_frame_rect :: "window_queries \<Rightarrow> win32_rect option" where
  "query_extended_frame_rect q = (if fst (wq_frame_rect q) < 0 then None else Some (snd (wq_frame_rect q)))"

definition query_window_rect :: "window_queries \<Rightarrow> rect option" where
  "query_window_rect q =
     map_option
       (\<lambda>outer. domain_rect_from_win32
          (case filter_opt (visible_frame_is_compatible outer) (query_extended_frame_rect q) of
             None \<Rightarrow> outer | Some visible \<Rightarrow> visible))
       (wq_outer_rect q)"

definition query_window_title :: "window_queries \<Rightarrow> string" where
  "query_window_title q = (if wq_title_length q \<le> 0 then [] else wq_title q)"

definition is_transient_shell_overlay :: "string \<Rightarrow> string \<Rightarrow> string option \<Rightarrow> bool" where
  "is_transient_shell_overlay cls title process \<longleftrightarrow>
     to_ascii_lowercase cls \<in> {''multitaskingviewframe'', ''taskswitcherwnd''} \<or>
     (case normalized_process_name process of None \<Rightarrow> [] | Some v \<Rightarrow> v) \<in> set shell_overlay_processes \<or>
     (let lowered = to_ascii_lowercase title
      in sublist ''task switching'' lowered \<or> sublist ''task view'' lowered \<or>
         sublist recording_toolbar_title lowered \<or> sublist scissors_title lowered)"

text \<open>
  The snapshot of one window. The monitor of the window and the name of its process are looked up by
  the caller: the binding of the monitor, if it can be described, and the file stem of the image.
\<close>

definition capture_window_snapshot ::
    "nat \<Rightarrow> nat \<Rightarrow> window_queries \<Rightarrow> string option \<Rightarrow> string option \<Rightarrow> platform_window option" where
  "capture_window_snapshot h foreground q binding process =
     (if \<not> is_real_user_window q then None
      else case query_window_rect q of
        None \<Rightarrow> None
      | Some r \<Rightarrow>
          if rect_width r = 0 \<or> rect_height r = 0 then None
          else if is_small_popup_candidate q r then None
          else case binding of
            None \<Rightarrow> None
          | Some b \<Rightarrow>
              if wq_class q = ''Windows.UI.Core.CoreWindow'' then None
              else Some \<lparr>pw_hwnd = h, pw_title = query_window_title q, pw_class_name = wq_class q,
                         pw_process_id = wq_process_id q, pw_process_name = process, pw_rect = r,
                         pw_monitor_binding = b, pw_is_visible = True, pw_is_focused = (h = foreground),
                         pw_management_candidate =
                           (\<not> is_transient_shell_overlay (wq_class q) (query_window_title q) process)\<rparr>)"

section \<open>Windows of the same application\<close>

definition same_application_family :: "platform_window \<Rightarrow> platform_window \<Rightarrow> bool" where
  "same_application_family container candidate \<longleftrightarrow>
     pw_process_id container = pw_process_id candidate \<or>
     (case normalized_process_name (pw_process_name container) of
        None \<Rightarrow> False
      | Some a \<Rightarrow> normalized_process_name (pw_process_name candidate) = Some a)"

definition f32_product :: "nat \<Rightarrow> nat \<Rightarrow> float" where
  "f32_product a b = fl_mul 24 (fl_of_nat 24 a) (fl_of_nat 24 b)"

text \<open>The three ratios stay below the tenths and hundredths given.\<close>

definition ratios_ok :: "nat \<times> nat \<Rightarrow> nat \<times> nat \<Rightarrow> nat \<times> nat \<Rightarrow> rect \<Rightarrow> rect \<Rightarrow> bool" where
  "ratios_ok max_width max_height max_area container candidate \<longleftrightarrow>
     fl_le (f32_ratio (rect_width candidate) (max (rect_width container) 1))
       (fl_round 24 (fst max_width) (snd max_width)) \<and>
     fl_le (f32_ratio (rect_height candidate) (max (rect_height container) 1))
       (fl_round 24 (fst max_height) (snd max_height)) \<and>
     fl_le
       (fl_div 24 (f32_product (rect_width candidate) (rect_height candidate))
         (f32_product (max (rect_width container) 1) (max (rect_height container) 1)))
       (fl_round 24 (fst max_area) (snd max_area))"

definition anchored_transient_ratio_ok :: "rect \<Rightarrow> rect \<Rightarrow> bool" where
  "anchored_transient_ratio_ok = ratios_ok (6, 10) (4, 10) (25, 100)"

definition embedded_panel_ratio_ok :: "rect \<Rightarrow> rect \<Rightarrow> bool" where
  "embedded_panel_ratio_ok = ratios_ok (8, 10) (9, 10) (5, 10)"

definition has_transient_surface_signature :: "platform_window \<Rightarrow> bool" where
  "has_transient_surface_signature w \<longleftrightarrow>
     (let r = pw_rect w
      in (rect_height r \<le> transient_surface_max_height_px \<and> rect_width r \<le> transient_surface_max_width_px \<and>
          u32_sat_mul (rect_width r) (rect_height r) \<le> transient_surface_max_area_px) \<and>
         (title_is_blank w \<or> rect_height r \<le> 96))"

definition engine_processes :: "string list" where
  "engine_processes = [''msedge'', ''chrome'', ''brave'', ''opera'', ''vivaldi'', ''chromium'', ''firefox'']"

definition has_engine_internal_surface_signature :: "platform_window \<Rightarrow> bool" where
  "has_engine_internal_surface_signature w \<longleftrightarrow>
     (case normalized_process_name (pw_process_name w) of
        None \<Rightarrow> False
      | Some name \<Rightarrow>
          name \<in> set engine_processes \<and>
          to_ascii_lowercase (str_trim (pw_title w)) = ''chrome legacy window'')"

text \<open>The conditions the three searches for a container share.\<close>

definition is_larger_family_window :: "platform_window \<Rightarrow> platform_window \<Rightarrow> bool" where
  "is_larger_family_window candidate container \<longleftrightarrow>
     \<not> (pw_hwnd container = pw_hwnd candidate \<or>
        pw_monitor_binding container \<noteq> pw_monitor_binding candidate \<or>
        \<not> same_application_family container candidate \<or>
        rect_width (pw_rect container) < rect_width (pw_rect candidate) \<or>
        rect_height (pw_rect container) < rect_height (pw_rect candidate))"

definition touches :: "platform_window \<Rightarrow> platform_window \<Rightarrow> bool" where
  "touches candidate container \<longleftrightarrow>
     rect_contains (pw_rect container) (pw_rect candidate) \<or>
     rects_overlap (pw_rect container) (pw_rect candidate)"

definition is_process_anchored_transient_candidate :: "platform_snapshot \<Rightarrow> platform_window \<Rightarrow> bool" where
  "is_process_anchored_transient_candidate p candidate \<longleftrightarrow>
     (if pw_is_focused candidate then False
      else if title_is_blank candidate then
        list_ex
          (\<lambda>container. is_larger_family_window candidate container \<and>
             embedded_panel_ratio_ok (pw_rect container) (pw_rect candidate) \<and> touches candidate container)
          (psn_windows p)
      else if has_engine_internal_surface_signature candidate then
        list_ex (\<lambda>container. is_larger_family_window candidate container \<and> touches candidate container)
          (psn_windows p)
      else if \<not> has_transient_surface_signature candidate then False
      else list_ex
        (\<lambda>container. is_larger_family_window candidate container \<and>
           anchored_transient_ratio_ok (pw_rect container) (pw_rect candidate) \<and>
           (touches candidate container \<or>
            rects_are_proximate (pw_rect container) (pw_rect candidate) anchored_transient_edge_proximity_px))
        (psn_windows p))"

definition transient_hwnds :: "platform_snapshot \<Rightarrow> nat list" where
  "transient_hwnds p = map pw_hwnd (filter (is_process_anchored_transient_candidate p) (psn_windows p))"

definition filter_embedded_transient_windows :: "platform_snapshot \<Rightarrow> platform_snapshot" where
  "filter_embedded_transient_windows p =
     (if transient_hwnds p = [] then p
      else p\<lparr>psn_windows := filter (\<lambda>w. pw_hwnd w \<notin> set (transient_hwnds p)) (psn_windows p)\<rparr>)"

end
