(* ===== verification/Native_Scan.thy ===== *)
theory Native_Scan
  imports Window_Filter
begin

text \<open>
  \<open>crates/windows-adapter/src/native_snapshot.rs\<close>: enumerating monitors and windows into a snapshot,
  and refreshing one window or the focus of a snapshot. What Windows and the environment answer is the
  record \<open>desktop\<close>, which does not change while one of these functions runs; a window handle is its
  address, 0 being null.
\<close>

unbundle bit_operations_syntax

definition default_dpi :: nat where "default_dpi = 96"

record shell_layout =
  sh_use_monitor_bounds :: bool
  sh_reserved_top_px :: nat
  sh_reserved_right_px :: nat
  sh_reserved_bottom_px :: nat
  sh_reserved_left_px :: nat

text \<open>\<open>GetMonitorInfoW\<close> and \<open>GetDpiForMonitor\<close> (result code and the two values).\<close>

record monitor_info =
  mi_monitor_rect :: win32_rect
  mi_work_rect :: win32_rect
  mi_device :: string
  mi_flags :: nat

record desktop =
  dk_ensure_dpi :: "string \<Rightarrow> string + unit"
  dk_monitors :: "nat list option"
  dk_monitor_info :: "nat \<Rightarrow> monitor_info option"
  dk_monitor_dpi :: "nat \<Rightarrow> int \<times> nat \<times> nat"
  dk_shell_hwnd :: nat
  dk_foreground_hwnd :: nat
  dk_windows :: "nat list option"
  dk_window :: "nat \<Rightarrow> window_queries"
  dk_process_name :: "nat \<Rightarrow> string option"
  dk_env :: "string \<Rightarrow> string option"
  dk_last_error :: nat

section \<open>Monitors\<close>

definition env_flag :: "desktop \<Rightarrow> string \<Rightarrow> bool" where
  "env_flag k name \<longleftrightarrow> dk_env k name \<in> Some ` {''1'', ''true'', ''TRUE'', ''True''}"

definition env_u32 :: "desktop \<Rightarrow> string \<Rightarrow> nat" where
  "env_u32 k name = (case Option.bind (dk_env k name) parse_u32 of None \<Rightarrow> 0 | Some n \<Rightarrow> n)"

definition shell_layout_overrides :: "desktop \<Rightarrow> shell_layout" where
  "shell_layout_overrides k =
     \<lparr>sh_use_monitor_bounds = env_flag k ''FLOWSHELL_USE_MONITOR_BOUNDS'',
      sh_reserved_top_px = env_u32 k ''FLOWSHELL_RESERVED_TOP_PX'',
      sh_reserved_right_px = env_u32 k ''FLOWSHELL_RESERVED_RIGHT_PX'',
      sh_reserved_bottom_px = env_u32 k ''FLOWSHELL_RESERVED_BOTTOM_PX'',
      sh_reserved_left_px = env_u32 k ''FLOWSHELL_RESERVED_LEFT_PX''\<rparr>"

definition inset_domain_rect :: "rect \<Rightarrow> nat \<Rightarrow> nat \<Rightarrow> nat \<Rightarrow> nat \<Rightarrow> rect" where
  "inset_domain_rect r l t rt b =
     rect_new (i32_sat_add (rect_x r) (u32_clip_i32 l)) (i32_sat_add (rect_y r) (u32_clip_i32 t))
       (rect_width r - u32_sat_add l rt) (rect_height r - u32_sat_add t b)"

definition describe_monitor :: "desktop \<Rightarrow> nat \<Rightarrow> platform_monitor option" where
  "describe_monitor k m =
     (if m = 0 then None
      else case dk_monitor_info k m of
        None \<Rightarrow> None
      | Some info \<Rightarrow>
          let (code, x, y) = dk_monitor_dpi k m;
              (dpi_x, dpi_y) = (if code < 0 then (default_dpi, default_dpi) else (x, y));
              s = shell_layout_overrides k;
              base = domain_rect_from_win32
                (if sh_use_monitor_bounds s then mi_monitor_rect info else mi_work_rect info)
          in Some \<lparr>pmo_binding = mi_device info,
                   pmo_work_area_rect =
                     inset_domain_rect base (sh_reserved_left_px s) (sh_reserved_top_px s)
                       (sh_reserved_right_px s) (sh_reserved_bottom_px s),
                   pmo_dpi = max dpi_x dpi_y, pmo_is_primary = (mi_flags info AND 1 \<noteq> 0)\<rparr>)"

text \<open>The callback of the enumeration keeps the first monitor of a binding.\<close>

definition enum_monitor :: "desktop \<Rightarrow> nat \<Rightarrow> platform_monitor list \<Rightarrow> platform_monitor list" where
  "enum_monitor k m ms =
     (case describe_monitor k m of
        None \<Rightarrow> ms
      | Some x \<Rightarrow> if pmo_binding x \<in> pmo_binding ` set ms then ms else ms @ [x])"

definition enum_monitors :: "desktop \<Rightarrow> platform_monitor list option" where
  "enum_monitors k = map_option (\<lambda>hs. fold (enum_monitor k) hs []) (dk_monitors k)"

definition describe_monitor_for_window :: "desktop \<Rightarrow> nat \<Rightarrow> platform_monitor option" where
  "describe_monitor_for_window k h = describe_monitor k (wq_monitor (dk_window k h))"

section \<open>Windows\<close>

definition capture_window :: "desktop \<Rightarrow> nat \<Rightarrow> platform_window option" where
  "capture_window k h =
     capture_window_snapshot h (dk_foreground_hwnd k) (dk_window k h)
       (map_option pmo_binding (describe_monitor_for_window k h))
       (if wq_process_id (dk_window k h) = 0 then None else dk_process_name k (wq_process_id (dk_window k h)))"

definition enum_window :: "desktop \<Rightarrow> nat \<Rightarrow> platform_window option" where
  "enum_window k h = (if h = 0 \<or> h = dk_shell_hwnd k then None else capture_window k h)"

definition win32_error_message :: "desktop \<Rightarrow> string \<Rightarrow> string" where
  "win32_error_message k api = api @ '' failed with Win32 error '' @ nat_to_dec (dk_last_error k)"

definition native_scan_failed :: "string \<Rightarrow> adapter_error" where
  "native_scan_failed message = RuntimeFailed ''native-scan'' message"

definition scan_desktop :: "desktop \<Rightarrow> adapter_error + platform_snapshot" where
  "scan_desktop k =
     bindE (map_err native_scan_failed (dk_ensure_dpi k ''native-scan'')) (\<lambda>_.
     bindE (ok_or (enum_monitors k) (native_scan_failed (win32_error_message k ''EnumDisplayMonitors''))) (\<lambda>ms.
     bindE (ok_or (dk_windows k) (native_scan_failed (win32_error_message k ''EnumWindows''))) (\<lambda>hs.
     Inr (sort_for_stability (filter_embedded_transient_windows
       \<lparr>psn_foreground_hwnd = Some (dk_foreground_hwnd k), psn_monitors = ms,
        psn_windows = List.map_filter (enum_window k) hs\<rparr>)))))"

section \<open>Refreshing a snapshot\<close>

definition remove_window :: "nat \<Rightarrow> platform_snapshot \<Rightarrow> platform_snapshot" where
  "remove_window h p = p\<lparr>psn_windows := filter (\<lambda>w. pw_hwnd w \<noteq> h) (psn_windows p)\<rparr>"

definition refresh_focus :: "desktop \<Rightarrow> platform_snapshot \<Rightarrow> string + platform_snapshot" where
  "refresh_focus k p =
     bindE (dk_ensure_dpi k ''native-refresh-focus'') (\<lambda>_.
     Inr (p\<lparr>psn_foreground_hwnd := Some (dk_foreground_hwnd k),
            psn_windows := map (\<lambda>w. w\<lparr>pw_is_focused := (pw_hwnd w = dk_foreground_hwnd k)\<rparr>) (psn_windows p)\<rparr>))"

text \<open>Replacing the first element that matches, or adding one at the end.\<close>

fun upsert :: "('a \<Rightarrow> bool) \<Rightarrow> 'a \<Rightarrow> 'a list \<Rightarrow> 'a list" where
  "upsert f x [] = [x]"
| "upsert f x (y # ys) = (if f y then x # ys else y # upsert f x ys)"

definition upsert_window :: "platform_window \<Rightarrow> platform_snapshot \<Rightarrow> platform_snapshot" where
  "upsert_window w p = p\<lparr>psn_windows := upsert (\<lambda>v. pw_hwnd v = pw_hwnd w) w (psn_windows p)\<rparr>"

definition snapshot_monitor :: "desktop \<Rightarrow> string \<Rightarrow> platform_monitor option" where
  "snapshot_monitor k binding =
     Option.bind (enum_monitors k) (find (\<lambda>m. eq_ignore_ascii_case (pmo_binding m) binding))"

definition upsert_monitor :: "desktop \<Rightarrow> string \<Rightarrow> platform_snapshot \<Rightarrow> platform_snapshot" where
  "upsert_monitor k binding p =
     (case snapshot_monitor k binding of
        None \<Rightarrow> p
      | Some m \<Rightarrow>
          p\<lparr>psn_monitors := upsert (\<lambda>x. eq_ignore_ascii_case (pmo_binding x) binding) m (psn_monitors p)\<rparr>)"

text \<open>
  The change to the snapshot is made before the refresh of the focus can fail, and stays: the result is
  the snapshot left behind with an error or nothing.
\<close>

definition with_focus :: "desktop \<Rightarrow> platform_snapshot \<Rightarrow> (string + unit) \<times> platform_snapshot" where
  "with_focus k p =
     (case refresh_focus k p of Inl e \<Rightarrow> (Inl e, p) | Inr q \<Rightarrow> (Inr (), q))"

text \<open>\<open>isize::try_from\<close> of the handle on a 64-bit system.\<close>

definition hwnd_from_raw :: "nat \<Rightarrow> string + nat" where
  "hwnd_from_raw h =
     (if h < 2 ^ 63 then Inr h else Inl ''window handle does not fit pointer width'')"

definition refresh_window :: "desktop \<Rightarrow> nat \<Rightarrow> platform_snapshot \<Rightarrow> (string + unit) \<times> platform_snapshot" where
  "refresh_window k h p =
     (case bindE (dk_ensure_dpi k ''native-refresh-window'') (\<lambda>_. hwnd_from_raw h) of
        Inl e \<Rightarrow> (Inl e, p)
      | Inr _ \<Rightarrow>
          let p1 = (case capture_window k h of
                None \<Rightarrow> remove_window h p
              | Some w \<Rightarrow>
                  filter_embedded_transient_windows
                    (upsert_window w (upsert_monitor k (pw_monitor_binding w) p)))
          in case with_focus k p1 of
               (Inl e, q) \<Rightarrow> (Inl e, q)
             | (Inr _, q) \<Rightarrow> (Inr (), sort_for_stability q))"

end
