(* ===== verification/Observer_Loop.thy ===== *)
theory Observer_Loop
  imports Native_Scan
begin

text \<open>
  The observer thread (\<open>crates/windows-adapter/src/native_observer.rs\<close>, \<open>native_observer/event_processing.rs\<close>
  and the signal of \<open>native_observer/hooks.rs\<close>): window events land in a slot that holds the last one; the
  loop folds it into its snapshot, scans again after a long sleep and periodically with a growing
  interval, and sends every change to the daemon. Instants and durations are nanoseconds; a duration
  saturates at its greatest value.
\<close>

section \<open>Events\<close>

definition event_system_foreground :: nat where "event_system_foreground = 0x0003"

definition event_object_create :: nat where "event_object_create = 0x8000"

definition event_object_destroy :: nat where "event_object_destroy = 0x8001"

definition event_object_show :: nat where "event_object_show = 0x8002"

definition event_object_hide :: nat where "event_object_hide = 0x8003"

definition event_object_locationchange :: nat where "event_object_locationchange = 0x800B"

lemmas event_codes = event_system_foreground_def event_object_create_def event_object_destroy_def
  event_object_show_def event_object_hide_def event_object_locationchange_def

definition event_reason :: "nat \<Rightarrow> string" where
  "event_reason e =
     (if e = event_system_foreground then ''win-event-foreground''
      else if e = event_object_create then ''win-event-create''
      else if e = event_object_destroy then ''win-event-destroy''
      else if e = event_object_show then ''win-event-show''
      else if e = event_object_hide then ''win-event-hide''
      else if e = event_object_locationchange then ''win-event-location-change''
      else ''win-event-update'')"

definition should_rescan_after_incremental_event :: "nat \<Rightarrow> bool \<Rightarrow> bool \<Rightarrow> bool" where
  "should_rescan_after_incremental_event e known_before known_after \<longleftrightarrow>
     (if e = event_object_show \<or> e = event_object_hide then \<not> (known_before \<and> known_after)
      else if e = event_object_create \<or> e = event_object_destroy \<or> e = event_system_foreground
      then \<not> known_after \<and> \<not> known_before
      else False)"

definition snapshot_contains_hwnd :: "platform_snapshot \<Rightarrow> nat \<Rightarrow> bool" where
  "snapshot_contains_hwnd p h \<longleftrightarrow> list_ex (\<lambda>w. pw_hwnd w = h) (psn_windows p)"

definition snapshot_envelope :: "string \<Rightarrow> platform_snapshot \<Rightarrow> observation_envelope" where
  "snapshot_envelope reason p =
     \<lparr>ob_kind = SnapshotSeen, ob_reason = reason, ob_snapshot = Some p, ob_message = None\<rparr>"

definition warning_envelope :: "string \<Rightarrow> string \<Rightarrow> observation_envelope" where
  "warning_envelope reason message =
     \<lparr>ob_kind = WarningSeen, ob_reason = reason, ob_snapshot = None, ob_message = Some message\<rparr>"

section \<open>Options and the signal\<close>

record observation_options =
  oo_fallback_scan_interval_ms :: nat
  oo_debounce_ms :: nat

definition observation_options_default :: observation_options where
  "observation_options_default = \<lparr>oo_fallback_scan_interval_ms = 2000, oo_debounce_ms = 150\<rparr>"

record observer_signal =
  sg_pending :: bool
  sg_last_event_type :: nat
  sg_last_hwnd :: nat

definition clear_pending :: "observer_signal \<Rightarrow> observer_signal" where
  "clear_pending g = g\<lparr>sg_pending := False, sg_last_event_type := 0, sg_last_hwnd := 0\<rparr>"

text \<open>The hook: only events of whole windows, except that any foreground change counts.\<close>

definition win_event_callback :: "nat \<Rightarrow> nat \<Rightarrow> int \<Rightarrow> observer_signal \<Rightarrow> observer_signal" where
  "win_event_callback e h object_id g =
     (if h = 0 then g
      else if e \<noteq> event_system_foreground \<and> object_id \<noteq> 0 then g
      else g\<lparr>sg_last_event_type := e, sg_last_hwnd := h, sg_pending := True\<rparr>)"

definition duration_max :: nat where
  "duration_max = u64_max * 1000000000 + 999999999"

definition duration_mul :: "nat \<Rightarrow> nat \<Rightarrow> nat" where
  "duration_mul d n = min duration_max (d * n)"

definition millis :: "nat \<Rightarrow> nat" where
  "millis n = n * 1000000"

definition next_periodic_scan_interval :: "nat \<Rightarrow> nat \<Rightarrow> nat \<Rightarrow> nat" where
  "next_periodic_scan_interval current minimum maximum =
     min (duration_mul (max current minimum) 2) (max maximum minimum)"

definition fallback_interval :: "observation_options \<Rightarrow> nat" where
  "fallback_interval opts = millis (max (oo_fallback_scan_interval_ms opts) 1000)"

definition max_periodic_scan_interval :: "observation_options \<Rightarrow> nat" where
  "max_periodic_scan_interval opts = duration_mul (fallback_interval opts) 8"

definition debounce :: "observation_options \<Rightarrow> nat" where
  "debounce opts = millis (max (oo_debounce_ms opts) 1)"

section \<open>The observer\<close>

text \<open>
  The state of the loop. The channel is the list of envelopes sent so far, newest first, and whether
  its receiver is still there.
\<close>

record observer =
  os_snapshot :: platform_snapshot
  os_perf :: adapter_perf
  os_signal :: observer_signal
  os_interval :: nat
  os_last_emit_at :: nat
  os_last_periodic_scan_at :: nat
  os_last_loop_at :: nat
  os_sent :: "observation_envelope list"
  os_receiver_alive :: bool

definition send :: "observation_envelope \<Rightarrow> observer \<Rightarrow> bool \<times> observer" where
  "send m s = (if os_receiver_alive s then (True, s\<lparr>os_sent := m # os_sent s\<rparr>) else (False, s))"

definition upd_rescan_perf :: "(perf_metric \<Rightarrow> perf_metric) \<Rightarrow> observer \<Rightarrow> observer" where
  "upd_rescan_perf f s =
     s\<lparr>os_perf := (os_perf s)\<lparr>ap_observer_rescan_snapshot := f (ap_observer_rescan_snapshot (os_perf s))\<rparr>\<rparr>"

definition upd_event_perf :: "(perf_metric \<Rightarrow> perf_metric) \<Rightarrow> observer \<Rightarrow> observer" where
  "upd_event_perf f s =
     s\<lparr>os_perf := (os_perf s)\<lparr>ap_observer_incremental_event := f (ap_observer_incremental_event (os_perf s))\<rparr>\<rparr>"

datatype rescan_result = RescanChanged | RescanUnchanged | RescanWarning | RescanStop

datatype incremental_result = IncrementalContinue | IncrementalRescanned | IncrementalStop

text \<open>A scan takes the given time and counts the way it ends.\<close>

definition rescan_outcome :: "desktop \<Rightarrow> string \<Rightarrow> observer \<Rightarrow> rescan_result \<times> observer" where
  "rescan_outcome k reason s =
     (case scan_desktop k of
        Inr p \<Rightarrow>
          if os_snapshot s = p then (RescanUnchanged, upd_rescan_perf record_skip s)
          else let (ok, t) = send (snapshot_envelope reason p) (s\<lparr>os_snapshot := p\<rparr>)
               in (if ok then RescanChanged else RescanStop, t)
      | Inl e \<Rightarrow>
          let (ok, t) = send (warning_envelope reason (adapter_error_text e)) s
          in (if ok then RescanWarning else RescanStop, t))"

definition rescan_snapshot :: "desktop \<Rightarrow> nat \<Rightarrow> string \<Rightarrow> observer \<Rightarrow> rescan_result \<times> observer" where
  "rescan_snapshot k micros reason s =
     (let (result, t) = rescan_outcome k reason s
      in (result,
          upd_rescan_perf
            (\<lambda>m. (if result = RescanWarning then record_error else id) (record_duration micros m)) t))"

definition recover :: "desktop \<Rightarrow> nat \<Rightarrow> observer \<Rightarrow> incremental_result \<times> observer" where
  "recover k micros s =
     (let (result, t) = rescan_snapshot k micros ''event-recovery-full-scan'' s
      in (if result = RescanStop then IncrementalStop else IncrementalRescanned, t))"

text \<open>The change a window event makes to the snapshot, and the error it may end in.\<close>

definition fold_event :: "desktop \<Rightarrow> nat \<Rightarrow> nat \<Rightarrow> platform_snapshot \<Rightarrow> (string + unit) \<times> platform_snapshot" where
  "fold_event k e h p =
     (if e = event_object_destroy \<or> e = event_object_hide then with_focus k (remove_window h p)
      else refresh_window k h p)"

definition apply_incremental_event :: "desktop \<Rightarrow> nat \<Rightarrow> nat \<Rightarrow> nat \<Rightarrow> observer \<Rightarrow> incremental_result \<times> observer" where
  "apply_incremental_event k micros e h s =
     (let reason = event_reason e;
          known_before = snapshot_contains_hwnd (os_snapshot s) h;
          (updated, p) = fold_event k e h (os_snapshot s);
          s1 = s\<lparr>os_snapshot := p\<rparr>
      in case updated of
           Inr _ \<Rightarrow>
             let (result, t) =
                   (if should_rescan_after_incremental_event e known_before (snapshot_contains_hwnd p h)
                    then recover k micros s1
                    else let (ok, t) = send (snapshot_envelope reason p) s1
                         in (if ok then IncrementalContinue else IncrementalStop, t))
             in (result, upd_event_perf (record_duration micros) t)
         | Inl message \<Rightarrow>
             let (ok, t) = send (warning_envelope reason message) s1
             in if \<not> ok then (IncrementalStop, t)
                else let (result, u) = recover k micros t
                     in (result, upd_event_perf (\<lambda>m. record_error (record_duration micros m)) u))"

section \<open>The loop\<close>

definition observer_start :: "observation_options \<Rightarrow> desktop \<Rightarrow> adapter_perf \<Rightarrow> nat \<Rightarrow> string + observer" where
  "observer_start opts k perf now =
     (case dk_ensure_dpi k ''native-observer'' of
        Inl message \<Rightarrow> Inl message
      | Inr _ \<Rightarrow>
          (case scan_desktop k of
             Inl e \<Rightarrow> Inl (adapter_error_text e)
           | Inr p \<Rightarrow>
               Inr \<lparr>os_snapshot = p, os_perf = perf,
                    os_signal = \<lparr>sg_pending = False, sg_last_event_type = 0, sg_last_hwnd = 0\<rparr>,
                    os_interval = fallback_interval opts, os_last_emit_at = now,
                    os_last_periodic_scan_at = now, os_last_loop_at = now,
                    os_sent = [snapshot_envelope ''initial-full-scan'' p], os_receiver_alive = True\<rparr>))"

text \<open>One turn of the loop at \<open>now\<close>; the first component tells whether the loop goes on.\<close>

definition resume_turn :: "observation_options \<Rightarrow> desktop \<Rightarrow> nat \<Rightarrow> nat \<Rightarrow> observer \<Rightarrow> bool \<times> observer" where
  "resume_turn opts k micros now s =
     (let (result, t) = rescan_snapshot k micros ''resume-revalidation'' s
      in if result = RescanStop then (False, t)
         else (True, (if result = RescanUnchanged then t else t\<lparr>os_last_emit_at := now\<rparr>)
                 \<lparr>os_last_periodic_scan_at := now, os_interval := fallback_interval opts,
                  os_signal := clear_pending (os_signal s), os_last_loop_at := now\<rparr>))"

definition event_turn :: "observation_options \<Rightarrow> desktop \<Rightarrow> nat \<Rightarrow> nat \<Rightarrow> observer \<Rightarrow> bool \<times> observer" where
  "event_turn opts k micros now s =
     (let (result, t) =
            apply_incremental_event k micros (sg_last_event_type (os_signal s)) (sg_last_hwnd (os_signal s))
              (s\<lparr>os_signal := clear_pending (os_signal s)\<rparr>)
      in if result = IncrementalStop then (False, t)
         else (True, (if result = IncrementalRescanned then t\<lparr>os_last_periodic_scan_at := now\<rparr> else t)
                 \<lparr>os_interval := fallback_interval opts, os_last_emit_at := now, os_last_loop_at := now\<rparr>))"

definition periodic_turn :: "observation_options \<Rightarrow> desktop \<Rightarrow> nat \<Rightarrow> nat \<Rightarrow> observer \<Rightarrow> bool \<times> observer" where
  "periodic_turn opts k micros now s =
     (let (result, t) = rescan_snapshot k micros ''periodic-full-scan'' s
      in if result = RescanStop then (False, t)
         else (True,
           (if result = RescanUnchanged
            then t\<lparr>os_interval := next_periodic_scan_interval (os_interval t) (fallback_interval opts)
                                   (max_periodic_scan_interval opts)\<rparr>
            else t\<lparr>os_last_emit_at := now, os_interval := fallback_interval opts\<rparr>)
           \<lparr>os_last_periodic_scan_at := now, os_last_loop_at := now\<rparr>))"

definition observer_turn :: "observation_options \<Rightarrow> desktop \<Rightarrow> nat \<Rightarrow> nat \<Rightarrow> observer \<Rightarrow> bool \<times> observer" where
  "observer_turn opts k micros now s =
     (if duration_mul (fallback_interval opts) 3 \<le> now - os_last_loop_at s
      then resume_turn opts k micros now s
      else if sg_pending (os_signal s) \<and> debounce opts \<le> now - os_last_emit_at s
      then event_turn opts k micros now s
      else if os_interval s \<le> now - os_last_periodic_scan_at s
      then periodic_turn opts k micros now s
      else (True, s\<lparr>os_last_loop_at := now\<rparr>))"

end
