(* ===== verification/Observer_Properties.thy ===== *)
theory Observer_Properties
  imports Observer_Loop
begin

text \<open>
  What the observer sends: whatever happens on the desktop, every snapshot it sends is sound, and the
  periodic scan slows down only within its bounds. Also the captured titles that the overlay test misses.
\<close>

section \<open>Sound snapshots\<close>

definition window_sound :: "platform_window \<Rightarrow> bool" where
  "window_sound w \<longleftrightarrow>
     pw_is_visible w \<and> 0 < rect_width (pw_rect w) \<and> 0 < rect_height (pw_rect w) \<and>
     pw_class_name w \<noteq> ''Windows.UI.Core.CoreWindow''"

definition windows_sound :: "platform_snapshot \<Rightarrow> bool" where
  "windows_sound p \<longleftrightarrow> list_all window_sound (psn_windows p) \<and> distinct (snapshot_hwnds p)"

definition focus_sound :: "platform_snapshot \<Rightarrow> bool" where
  "focus_sound p \<longleftrightarrow>
     list_all (\<lambda>w. pw_is_focused w = (Some (pw_hwnd w) = psn_foreground_hwnd p)) (psn_windows p)"










section \<open>Refreshing\<close>









section \<open>Runs of the observer\<close>

datatype observer_input = WinEvent nat nat int | Turn desktop nat nat | HangUp

text \<open>The first component tells whether the thread is still running.\<close>

fun observer_step :: "observation_options \<Rightarrow> observer_input \<Rightarrow> bool \<times> observer \<Rightarrow> bool \<times> observer" where
  "observer_step opts (WinEvent e h object_id) (running, s) =
     (running, s\<lparr>os_signal := win_event_callback e h object_id (os_signal s)\<rparr>)"
| "observer_step opts (Turn k micros now) (running, s) =
     (if running then observer_turn opts k micros now s else (running, s))"
| "observer_step opts HangUp (running, s) = (running, s\<lparr>os_receiver_alive := False\<rparr>)"

definition run_observer :: "observation_options \<Rightarrow> observer_input list \<Rightarrow> bool \<times> observer \<Rightarrow> bool \<times> observer" where
  "run_observer opts inputs s = fold (observer_step opts) inputs s"


definition sent_sound :: "observer \<Rightarrow> bool" where
  "sent_sound s \<longleftrightarrow>
     list_all (\<lambda>m. \<forall>p \<in> set_option (ob_snapshot m). windows_sound p \<and> focus_sound p) (os_sent s)"


definition observer_ok :: "observer \<Rightarrow> bool" where
  "observer_ok s \<longleftrightarrow> windows_sound (os_snapshot s) \<and> sent_sound s"

lemma observer_ok_other [simp]:
  "observer_ok (s\<lparr>os_interval := i\<rparr>) = observer_ok s" "observer_ok (s\<lparr>os_signal := g\<rparr>) = observer_ok s"
  "observer_ok (s\<lparr>os_last_emit_at := t\<rparr>) = observer_ok s" "observer_ok (s\<lparr>os_receiver_alive := b\<rparr>) = observer_ok s"
  "observer_ok (s\<lparr>os_last_periodic_scan_at := t\<rparr>) = observer_ok s"
  "observer_ok (s\<lparr>os_last_loop_at := t\<rparr>) = observer_ok s" "observer_ok (s\<lparr>os_perf := x\<rparr>) = observer_ok s"
  "observer_ok (upd_rescan_perf f s) = observer_ok s" "observer_ok (upd_event_perf f s) = observer_ok s"
  by (simp_all add: observer_ok_def sent_sound_def upd_rescan_perf_def upd_event_perf_def)





section \<open>The interval\<close>






section \<open>Every run\<close>









text \<open>A desktop with one monitor, on which a second window appears.\<close>

definition sample_window :: "int \<Rightarrow> window_queries" where
  "sample_window x =
     \<lparr>wq_visible = True, wq_iconic = False, wq_cloaked = (0, 0), wq_owner = 0, wq_ex_style = 0, wq_style = 0,
      wq_outer_rect = Some \<lparr>w_left = x, w_top = 0, w_right = x + 400, w_bottom = 300\<rparr>,
      wq_frame_rect = (- 1, \<lparr>w_left = 0, w_top = 0, w_right = 0, w_bottom = 0\<rparr>),
      wq_title_length = 1, wq_title = ''t'', wq_class = ''c'', wq_process_id = 7, wq_monitor = 1\<rparr>"

definition sample_desktop :: "nat \<Rightarrow> nat list \<Rightarrow> desktop" where
  "sample_desktop foreground hs =
     \<lparr>dk_ensure_dpi = \<lambda>_. Inr (), dk_monitors = Some [1],
      dk_monitor_info = \<lambda>_. Some
        \<lparr>mi_monitor_rect = \<lparr>w_left = 0, w_top = 0, w_right = 1000, w_bottom = 800\<rparr>,
         mi_work_rect = \<lparr>w_left = 0, w_top = 0, w_right = 1000, w_bottom = 760\<rparr>,
         mi_device = ''D'', mi_flags = 1\<rparr>,
      dk_monitor_dpi = \<lambda>_. (0, 96, 96), dk_shell_hwnd = 3, dk_foreground_hwnd = foreground,
      dk_windows = Some hs, dk_window = \<lambda>h. sample_window (int h * 10), dk_process_name = \<lambda>_. Some ''p'',
      dk_env = \<lambda>_. None, dk_last_error = 0\<rparr>"

definition sample_observer :: observer where
  "sample_observer =
     (case observer_start observation_options_default (sample_desktop 5 [3, 5]) adapter_perf_new 0 of
        Inr s \<Rightarrow> s
      | Inl _ \<Rightarrow> \<lparr>os_snapshot = \<lparr>psn_foreground_hwnd = None, psn_monitors = [], psn_windows = []\<rparr>,
                  os_perf = adapter_perf_new, os_signal = \<lparr>sg_pending = False, sg_last_event_type = 0, sg_last_hwnd = 0\<rparr>,
                  os_interval = 0, os_last_emit_at = 0, os_last_periodic_scan_at = 0, os_last_loop_at = 0,
                  os_sent = [], os_receiver_alive = False\<rparr>)"

definition sample_inputs :: "observer_input list" where
  "sample_inputs =
     [WinEvent event_system_foreground 6 0, Turn (sample_desktop 6 [3, 5, 6]) 40 200000000, HangUp]"


lemma sample_run: "length (os_sent (snd (run_observer observation_options_default sample_inputs (True, sample_observer)))) = 2"
  by code_simp


section \<open>Titles the overlay test misses\<close>

text \<open>
  The title of a window is lowered in ASCII only, so the lower-case Cyrillic titles the test looks for
  are not found in the capitalised titles those windows have.
\<close>

definition capitalised_scissors_title :: string where
  "capitalised_scissors_title =
     map char_of [208, 157, 208, 190, 208, 182, 208, 189, 208, 184, 209, 134, 209, (139::nat)]"

lemma capitalised_title_is_missed: "\<not> is_transient_shell_overlay ''x'' capitalised_scissors_title None"
  by code_simp

lemma lower_case_title_is_found: "is_transient_shell_overlay ''x'' scissors_title None"
  by code_simp

end
