(* ===== verification/Snapshot_Projection.thy ===== *)
theory Snapshot_Projection
  imports Runtime_Plan Touchpad "HOL-Library.Option_ord"
begin

text \<open>
  \<open>apps/core-daemon/src/projection.rs\<close> and the projections of \<open>crates/ipc/src/lib.rs\<close>: what the daemon
  tells its clients about its state. Ids become the numbers they wrap. The surrogate diagnostics come
  from the native code and are an argument.
\<close>

section \<open>Projections\<close>

record rect_projection =
  rp_x :: int
  rp_y :: int
  rp_width :: nat
  rp_height :: nat

record output_projection =
  op_monitor_id :: nat
  op_binding :: "string option"
  op_dpi :: nat
  op_is_primary :: bool
  op_work_area :: rect_projection
  op_workspace_count :: nat
  op_active_workspace_id :: "nat option"

record workspace_entry =
  we_workspace_id :: nat
  we_monitor_id :: nat
  we_vertical_index :: nat
  we_name :: "string option"
  we_is_active :: bool
  we_is_empty :: bool
  we_is_tail :: bool
  we_scroll_offset :: int
  we_column_count :: nat
  we_tiled_window_count :: nat
  we_floating_window_count :: nat

record window_entry =
  wn_window_id :: nat
  wn_monitor_id :: nat
  wn_workspace_id :: nat
  wn_column_id :: "nat option"
  wn_hwnd :: "nat option"
  wn_title :: string
  wn_class_name :: string
  wn_process_name :: "string option"
  wn_layer :: string
  wn_classification :: string
  wn_is_managed :: bool
  wn_is_focused :: bool
  wn_presentation_mode :: "string option"
  wn_presentation_reason :: "string option"

record focus_entry =
  fe_monitor_id :: "nat option"
  fe_workspace_id :: "nat option"
  fe_column_id :: "nat option"
  fe_window_id :: "nat option"
  fe_origin :: string

record overview_entry =
  oe_is_open :: bool
  oe_monitor_id :: "nat option"
  oe_selection_workspace_id :: "nat option"
  oe_projection_version :: nat

record surrogate_diagnostics =
  sd_active_hosts :: nat
  sd_show_requests :: nat
  sd_hide_requests :: nat
  sd_foreign_scene_active_hosts :: nat
  sd_foreign_scene_show_requests :: nat
  sd_foreign_scene_hide_requests :: nat
  sd_foreign_scene_pruned_hosts :: nat
  sd_classifier_rejections :: nat
  sd_native_fallbacks :: nat
  sd_transient_escapes :: nat
  sd_handoff_promotions :: nat
  sd_pointer_replay_attempts :: nat
  sd_pointer_replay_successes :: nat
  sd_pointer_replay_failures :: nat
  sd_dwm_thumbnail_backend_uses :: nat
  sd_last_event :: "string option"

record diagnostics_entry =
  de_total_records :: nat
  de_last_transition_label :: "string option"
  de_degraded_flags :: "string list"
  de_management_enabled :: bool
  de_touchpad_override_status :: string
  de_touchpad_override_detail :: "string option"
  de_perf :: "perf_metric_snapshot list"
  de_surrogate_presentation :: surrogate_diagnostics

record config_entry =
  ce_config_version :: nat
  ce_source_path :: string
  ce_bind_control_mode :: string
  ce_touchpad_override_enabled :: bool
  ce_touchpad_gesture_count :: nat
  ce_active_rule_count :: nat
  ce_strip_scroll_step :: nat
  ce_default_column_mode :: string
  ce_outer_padding :: edge_insets
  ce_column_gap :: nat
  ce_window_gap :: nat
  ce_floating_margin :: nat

record snapshot_projection =
  sp_version_line :: string
  sp_runtime_mode :: string
  sp_state_version :: nat
  sp_outputs :: "output_projection list"
  sp_workspaces :: "workspace_entry list"
  sp_windows :: "window_entry list"
  sp_focus :: focus_entry
  sp_overview :: overview_entry
  sp_diagnostics :: diagnostics_entry
  sp_config :: config_entry

section \<open>Names\<close>

fun focus_origin_name :: "focus_origin \<Rightarrow> string" where
  "focus_origin_name ReducerDefault = ''reducer-default''"
| "focus_origin_name UserCommand = ''user-command''"
| "focus_origin_name PlatformObservation = ''platform-observation''"

fun window_layer_name :: "window_layer \<Rightarrow> string" where
  "window_layer_name Tiled = ''tiled''"
| "window_layer_name Floating = ''floating''"
| "window_layer_name Fullscreen = ''fullscreen''"

fun window_classification_name :: "window_classification \<Rightarrow> string" where
  "window_classification_name Application = ''application''"
| "window_classification_name Utility = ''utility''"
| "window_classification_name Overlay = ''overlay''"

definition fallback_window_title :: "nat option \<Rightarrow> string" where
  "fallback_window_title hwnd =
     (case hwnd of None \<Rightarrow> ''window'' | Some h \<Rightarrow> ''HWND '' @ nat_to_dec h)"

definition map_rect :: "rect \<Rightarrow> rect_projection" where
  "map_rect r = \<lparr>rp_x = rect_x r, rp_y = rect_y r, rp_width = rect_width r, rp_height = rect_height r\<rparr>"

section \<open>The projection of a state\<close>

definition project_output :: "wm_state \<Rightarrow> monitor \<Rightarrow> output_projection" where
  "project_output s m =
     \<lparr>op_monitor_id = raw_monitor_id (mon_id m), op_binding = mon_platform_binding m, op_dpi = mon_dpi m,
      op_is_primary = mon_is_primary_hint m, op_work_area = map_rect (mon_work_area_rect m),
      op_workspace_count =
        (case bm_get (workspace_sets s) (mon_workspace_set_id m) of None \<Rightarrow> 0 | Some ws \<Rightarrow> length (wset_ordered ws)),
      op_active_workspace_id = map_option raw_workspace_id (active_workspace_id_for_monitor s (mon_id m))\<rparr>"

definition project_workspace :: "wm_state \<Rightarrow> workspace \<Rightarrow> workspace_entry" where
  "project_workspace s w =
     \<lparr>we_workspace_id = raw_workspace_id (wsp_id w), we_monitor_id = raw_monitor_id (wsp_monitor_id w),
      we_vertical_index = wsp_vertical_index w, we_name = wsp_name w,
      we_is_active = (active_workspace_id_for_monitor s (wsp_monitor_id w) = Some (wsp_id w)),
      we_is_empty = is_workspace_empty s (wsp_id w), we_is_tail = wsp_is_ephemeral_empty_tail w,
      we_scroll_offset = strip_scroll_offset (wsp_strip w), we_column_count = length (strip_columns (wsp_strip w)),
      we_tiled_window_count =
        sum_list (map (\<lambda>c. length (col_windows c)) (List.map_filter (get_column s) (strip_columns (wsp_strip w)))),
      we_floating_window_count = length (fl_windows (wsp_floating w))\<rparr>"

definition project_workspaces :: "wm_state \<Rightarrow> workspace_entry list" where
  "project_workspaces s =
     sort_key (\<lambda>e. (we_monitor_id e, we_vertical_index e, we_workspace_id e))
       (map (project_workspace s) (bm_values (workspaces s)))"

text \<open>A window whose workspace is missing is left out. The last window of a handle gives the metadata.\<close>

definition project_window ::
    "wm_state \<Rightarrow> platform_window list \<Rightarrow> (window_id, presentation_projection) bmap \<Rightarrow>
     window_node \<Rightarrow> window_entry option" where
  "project_window s seen presentations w =
     (case get_workspace s (win_workspace_id w) of
        None \<Rightarrow> None
      | Some ws \<Rightarrow>
          let metadata = Option.bind (win_hwnd w) (\<lambda>h. find (\<lambda>p. pw_hwnd p = h) (rev seen));
              shown = bm_get presentations (win_id w)
          in Some \<lparr>wn_window_id = raw_window_id (win_id w), wn_monitor_id = raw_monitor_id (wsp_monitor_id ws),
                   wn_workspace_id = raw_workspace_id (win_workspace_id w),
                   wn_column_id = map_option raw_column_id (win_column_id w), wn_hwnd = win_hwnd w,
                   wn_title = (case metadata of None \<Rightarrow> fallback_window_title (win_hwnd w) | Some p \<Rightarrow> pw_title p),
                   wn_class_name = (case metadata of None \<Rightarrow> ''unknown'' | Some p \<Rightarrow> pw_class_name p),
                   wn_process_name = Option.bind metadata pw_process_name,
                   wn_layer = window_layer_name (win_layer w),
                   wn_classification = window_classification_name (win_classification w),
                   wn_is_managed = win_is_managed w,
                   wn_is_focused = (focus_window (focus s) = Some (win_id w)),
                   wn_presentation_mode = map_option pp_mode shown,
                   wn_presentation_reason = map_option pp_reason shown\<rparr>)"

definition project_windows ::
    "wm_state \<Rightarrow> platform_window list \<Rightarrow> (window_id, presentation_projection) bmap \<Rightarrow> window_entry list" where
  "project_windows s seen presentations =
     sort_key (\<lambda>e. (wn_monitor_id e, wn_workspace_id e, wn_column_id e, wn_window_id e))
       (List.map_filter (project_window s seen presentations) (bm_values (windows s)))"

definition project_focus :: "wm_state \<Rightarrow> focus_entry" where
  "project_focus s =
     \<lparr>fe_monitor_id = map_option raw_monitor_id (focus_monitor (focus s)),
      fe_workspace_id = map_option raw_workspace_id
        (or_opt (map_option win_workspace_id (Option.bind (focus_window (focus s)) (get_window s)))
          (Option.bind (focus_monitor (focus s)) (active_workspace_id_for_monitor s))),
      fe_column_id = map_option raw_column_id (focus_column (focus s)),
      fe_window_id = map_option raw_window_id (focus_window (focus s)),
      fe_origin = focus_origin_name (focus_origin_of (focus s))\<rparr>"

definition project_overview :: "wm_state \<Rightarrow> overview_entry" where
  "project_overview s =
     \<lparr>oe_is_open = ov_is_open (overview s), oe_monitor_id = map_option raw_monitor_id (ov_monitor_id (overview s)),
      oe_selection_workspace_id = map_option raw_workspace_id (ov_selection (overview s)),
      oe_projection_version = ov_projection_version (overview s)\<rparr>"

definition project_diagnostics :: "'w daemon \<Rightarrow> touchpad_assessment \<Rightarrow> surrogate_diagnostics \<Rightarrow> diagnostics_entry" where
  "project_diagnostics d touchpad surrogate =
     (let s = cd_store d
      in \<lparr>de_total_records = diag_total_records (diagnostics s),
          de_last_transition_label = diag_last_label (diagnostics s),
          de_degraded_flags = rs_degraded_flags (runtime s), de_management_enabled = cd_management_enabled d,
          de_touchpad_override_status = summary_label (ta_status touchpad),
          de_touchpad_override_detail = ta_detail touchpad, de_perf = daemon_perf_snapshot d,
          de_surrogate_presentation = surrogate\<rparr>)"

definition project_config :: "config_projection \<Rightarrow> touchpad_assessment \<Rightarrow> config_entry" where
  "project_config c touchpad =
     \<lparr>ce_config_version = cfg_version c, ce_source_path = cfg_source_path c,
      ce_bind_control_mode = bind_control_mode_as_str (cfg_bind_control_mode c),
      ce_touchpad_override_enabled = ta_requested touchpad,
      ce_touchpad_gesture_count = ta_configured_gesture_count touchpad,
      ce_active_rule_count = cfg_active_rule_count c, ce_strip_scroll_step = cfg_strip_scroll_step c,
      ce_default_column_mode = column_mode_as_str (cfg_default_column_mode c),
      ce_outer_padding = sp_outer_padding (cfg_layout_spacing c),
      ce_column_gap = sp_column_gap (cfg_layout_spacing c), ce_window_gap = sp_window_gap (cfg_layout_spacing c),
      ce_floating_margin = sp_floating_margin (cfg_layout_spacing c)\<rparr>"

definition build_snapshot_projection ::
    "('w, 'n) platform \<Rightarrow> system_touch_setting \<Rightarrow> surrogate_diagnostics \<Rightarrow> 'w daemon \<Rightarrow> snapshot_projection" where
  "build_snapshot_projection pf setting surrogate d =
     (let s = cd_store d;
          touchpad = assess_touchpad_override_with_system_setting (lc_touchpad (cd_active_config d)) setting;
          presentations = (case current_window_presentations pf d of Inl _ \<Rightarrow> [] | Inr m \<Rightarrow> m);
          seen = (case cd_last_snapshot d of None \<Rightarrow> [] | Some p \<Rightarrow> psn_windows p)
      in \<lparr>sp_version_line = version_line, sp_runtime_mode = runtime_mode_as_str (rs_boot_mode (runtime s)),
          sp_state_version = rs_state_version (runtime s),
          sp_outputs = map (project_output s) (bm_values (monitors s)),
          sp_workspaces = project_workspaces s, sp_windows = project_windows s seen presentations,
          sp_focus = project_focus s, sp_overview = project_overview s,
          sp_diagnostics = project_diagnostics d touchpad surrogate,
          sp_config = project_config (config s) touchpad\<rparr>)"

end
