(* ===== verification/Ipc_Requests.thy ===== *)
theory Ipc_Requests
  imports Snapshot_Projection Runtime_Commands
begin

text \<open>
  \<open>crates/ipc/src/lib.rs\<close> and \<open>apps/core-daemon/src/ipc.rs\<close>: the requests the daemon answers and the
  stream of events it sends to its subscribers. JSON values belong to \<open>serde_json\<close>: a payload is a value
  of any type with the three readers the source uses, and a message is the structure that is serialised.
  The derived \<open>Debug\<close> text of an error is an argument. The pipes are not modelled.
\<close>

section \<open>The protocol\<close>

definition protocol_version :: nat where "protocol_version = 1"

definition ipc_transport :: string where "ipc_transport = ''local-named-pipe''"

definition command_pipe_name :: string where "command_pipe_name = ''flowtilewm-ipc-v1''"

definition event_stream_pipe_name :: string where "event_stream_pipe_name = ''flowtilewm-event-stream-v1''"

definition ipc_commands :: "string list" where
  "ipc_commands =
     [''get_outputs'', ''get_workspaces'', ''get_windows'', ''get_focus'', ''focus_next'', ''focus_prev'',
      ''focus_workspace_up'', ''focus_workspace_down'', ''scroll_strip_left'', ''scroll_strip_right'',
      ''move_workspace_up'', ''move_workspace_down'', ''move_workspace_to_monitor_next'',
      ''move_workspace_to_monitor_previous'', ''move_column_to_workspace_up'',
      ''move_column_to_workspace_down'', ''cycle_column_width'', ''move_window'', ''consume_window'',
      ''expel_window'', ''toggle_floating'', ''toggle_tabbed'', ''toggle_maximized'', ''toggle_fullscreen'',
      ''open_overview'', ''close_overview'', ''toggle_overview'', ''touchpad_gesture'', ''capture_action'',
      ''reload_config'', ''dump_diagnostics'']"

record ipc_bootstrap =
  ib_transport :: string
  ib_protocol_version :: nat
  ib_commands :: "string list"
  ib_command_pipe_name :: string
  ib_event_stream_pipe_name :: string

definition ipc_bootstrap_value :: ipc_bootstrap where
  "ipc_bootstrap_value =
     \<lparr>ib_transport = ipc_transport, ib_protocol_version = protocol_version, ib_commands = ipc_commands,
      ib_command_pipe_name = command_pipe_name, ib_event_stream_pipe_name = event_stream_pipe_name\<rparr>"

record 'v json_api =
  js_get :: "'v \<Rightarrow> string \<Rightarrow> 'v option"
  js_as_str :: "'v \<Rightarrow> string option"
  js_as_u64 :: "'v \<Rightarrow> nat option"
  js_gesture :: "string \<Rightarrow> 'v"

record 'v ipc_request =
  iq_protocol_version :: nat
  iq_request_id :: string
  iq_command :: string
  iq_payload :: 'v

definition ipc_request_new :: "string \<Rightarrow> string \<Rightarrow> 'v \<Rightarrow> 'v ipc_request" where
  "ipc_request_new i c payload =
     \<lparr>iq_protocol_version = protocol_version, iq_request_id = i, iq_command = c, iq_payload = payload\<rparr>"

record ipc_error =
  ie_code :: string
  ie_message :: string
  ie_category :: string
  ie_retryable :: bool

record report_value =
  rv_state_version :: nat
  rv_management_enabled :: bool
  rv_observation_reason :: "string option"
  rv_planned_operations :: nat
  rv_applied_operations :: nat
  rv_apply_failures :: nat
  rv_degraded_reasons :: "string list"

text \<open>The objects a response may carry, by their fields.\<close>

datatype ipc_result =
    OutputsResult nat "output_projection list"
  | WorkspacesResult nat "workspace_entry list"
  | WindowsResult nat "window_entry list"
  | FocusResult nat focus_entry overview_entry diagnostics_entry
  | DiagnosticsResult nat diagnostics_entry config_entry
  | AcceptedResult report_value

record ipc_response =
  ir_protocol_version :: nat
  ir_request_id :: string
  ir_ok :: bool
  ir_result :: "ipc_result option"
  ir_error :: "ipc_error option"

definition response_ok :: "string \<Rightarrow> ipc_result \<Rightarrow> ipc_response" where
  "response_ok i v =
     \<lparr>ir_protocol_version = protocol_version, ir_request_id = i, ir_ok = True, ir_result = Some v,
      ir_error = None\<rparr>"

definition response_error :: "string \<Rightarrow> ipc_error \<Rightarrow> ipc_response" where
  "response_error i e =
     \<lparr>ir_protocol_version = protocol_version, ir_request_id = i, ir_ok = False, ir_result = None,
      ir_error = Some e\<rparr>"

definition ipc_error_new :: "string \<Rightarrow> string \<Rightarrow> string \<Rightarrow> bool \<Rightarrow> ipc_error" where
  "ipc_error_new code message category retryable =
     \<lparr>ie_code = code, ie_message = message, ie_category = category, ie_retryable = retryable\<rparr>"

section \<open>Answering a request\<close>

record ('w, 'n, 'v) ipc_env =
  ev_platform :: "('w, 'n) platform"
  ev_touch_setting :: "'w \<Rightarrow> system_touch_setting"
  ev_surrogate :: "'w \<Rightarrow> surrogate_diagnostics"
  ev_json :: "'v json_api"
  ev_debug :: "runtime_error \<Rightarrow> string"

definition project_snapshot :: "('w, 'n, 'v) ipc_env \<Rightarrow> 'w daemon \<Rightarrow> snapshot_projection" where
  "project_snapshot env d =
     (let w = ad_world (cd_adapter d)
      in build_snapshot_projection (ev_platform env) (ev_touch_setting env w) (ev_surrogate env w) d)"

definition query_result :: "string \<Rightarrow> snapshot_projection \<Rightarrow> ipc_result option" where
  "query_result c p =
     (if c = ''get_outputs'' then Some (OutputsResult (sp_state_version p) (sp_outputs p))
      else if c = ''get_workspaces'' then Some (WorkspacesResult (sp_state_version p) (sp_workspaces p))
      else if c = ''get_windows'' then Some (WindowsResult (sp_state_version p) (sp_windows p))
      else if c = ''get_focus''
      then Some (FocusResult (sp_state_version p) (sp_focus p) (sp_overview p) (sp_diagnostics p))
      else if c = ''dump_diagnostics''
      then Some (DiagnosticsResult (sp_state_version p) (sp_diagnostics p) (sp_config p))
      else None)"

definition optional_window_id :: "'v json_api \<Rightarrow> 'v \<Rightarrow> window_id option" where
  "optional_window_id js v = map_option WindowId (Option.bind (js_get js v ''window_id'') (js_as_u64 js))"

definition optional_monitor_id :: "'v json_api \<Rightarrow> 'v \<Rightarrow> monitor_id option" where
  "optional_monitor_id js v = map_option MonitorId (Option.bind (js_get js v ''monitor_id'') (js_as_u64 js))"

text \<open>The commands that become one domain event, with the reason they are dispatched under.\<close>

definition ipc_domain_event ::
    "string \<Rightarrow> correlation_id \<Rightarrow> monitor_id option \<Rightarrow> window_id option \<Rightarrow> (domain_event \<times> string) option" where
  "ipc_domain_event c i m w =
     (if c = ''focus_next'' then Some (cmd_focus_next i WorkspaceStrip, ''ipc-focus-next'')
      else if c = ''focus_prev'' then Some (cmd_focus_prev i WorkspaceStrip, ''ipc-focus-prev'')
      else if c = ''focus_workspace_up'' then Some (cmd_focus_workspace_up i m, ''ipc-focus-workspace-up'')
      else if c = ''focus_workspace_down'' then Some (cmd_focus_workspace_down i m, ''ipc-focus-workspace-down'')
      else if c = ''scroll_strip_left'' then Some (cmd_scroll_strip_left i WorkspaceStrip 0, ''ipc-scroll-strip-left'')
      else if c = ''scroll_strip_right''
      then Some (cmd_scroll_strip_right i WorkspaceStrip 0, ''ipc-scroll-strip-right'')
      else if c = ''move_workspace_up'' then Some (cmd_move_workspace_up i m, ''ipc-move-workspace-up'')
      else if c = ''move_workspace_down'' then Some (cmd_move_workspace_down i m, ''ipc-move-workspace-down'')
      else if c = ''move_workspace_to_monitor_next''
      then Some (cmd_move_workspace_to_monitor_next i m, ''ipc-move-workspace-to-monitor-next'')
      else if c = ''move_workspace_to_monitor_previous''
      then Some (cmd_move_workspace_to_monitor_previous i m, ''ipc-move-workspace-to-monitor-previous'')
      else if c = ''move_column_to_workspace_up''
      then Some (cmd_move_column_to_workspace_up i m, ''ipc-move-column-to-workspace-up'')
      else if c = ''move_column_to_workspace_down''
      then Some (cmd_move_column_to_workspace_down i m, ''ipc-move-column-to-workspace-down'')
      else if c = ''cycle_column_width'' then Some (cmd_cycle_column_width i, ''ipc-cycle-column-width'')
      else if c = ''toggle_floating'' then Some (cmd_toggle_floating i w, ''ipc-toggle-floating'')
      else if c = ''toggle_tabbed'' then Some (cmd_toggle_tabbed i w, ''ipc-toggle-tabbed'')
      else if c = ''toggle_maximized'' then Some (cmd_toggle_maximized i w, ''ipc-toggle-maximized'')
      else if c = ''toggle_fullscreen'' then Some (cmd_toggle_fullscreen i w, ''ipc-toggle-fullscreen'')
      else if c = ''open_overview'' then Some (cmd_open_overview i m, ''ipc-open-overview'')
      else if c = ''close_overview'' then Some (cmd_close_overview i m, ''ipc-close-overview'')
      else if c = ''toggle_overview'' then Some (cmd_toggle_overview i m, ''ipc-toggle-overview'')
      else None)"

definition runtime_report_value :: "'w daemon \<Rightarrow> cycle_report \<Rightarrow> ipc_result" where
  "runtime_report_value d report =
     AcceptedResult
       \<lparr>rv_state_version = rs_state_version (runtime (cd_store d)),
        rv_management_enabled = cd_management_enabled d,
        rv_observation_reason = cy_observation_reason report,
        rv_planned_operations = cy_planned_operations report,
        rv_applied_operations = cy_applied_operations report, rv_apply_failures = cy_apply_failures report,
        rv_degraded_reasons = cy_degraded_reasons report\<rparr>"

definition runtime_error_response :: "(runtime_error \<Rightarrow> string) \<Rightarrow> string \<Rightarrow> runtime_error \<Rightarrow> ipc_response" where
  "runtime_error_response debug i e =
     response_error i (ipc_error_new ''runtime_error'' (debug e) ''runtime'' True)"

text \<open>A command of the daemon, answered with its report; whether the state should be broadcast.\<close>

definition respond_to_runtime ::
    "(runtime_error \<Rightarrow> string) \<Rightarrow> string \<Rightarrow> ('w, cycle_report) daemon_act \<Rightarrow> 'w daemon \<Rightarrow>
     (ipc_response \<times> bool) \<times> 'w daemon" where
  "respond_to_runtime debug i m d =
     (case m d of
        (Inr report, d') \<Rightarrow> ((response_ok i (runtime_report_value d' report), True), d')
      | (Inl e, d') \<Rightarrow> ((runtime_error_response debug i e, False), d'))"

definition ipc_refusal :: "string \<Rightarrow> string \<Rightarrow> string \<Rightarrow> string \<Rightarrow> ipc_response \<times> bool" where
  "ipc_refusal i code message category = (response_error i (ipc_error_new code message category False), False)"

text \<open>
  The request is answered against the daemon and the counter of correlation ids. A gesture is answered
  as the command it is bound to.
\<close>

lemma ipc_name_is_no_gesture: "as_ipc_command_name c \<noteq> Some ''touchpad_gesture''"
  by (cases c) simp_all

lemma gesture_command_is_no_gesture:
  "ipc_command_for_touchpad_gesture cfg g = Inr (Some c) \<Longrightarrow> c \<noteq> ''touchpad_gesture''"
  by (auto simp: ipc_command_for_touchpad_gesture_def bindE_Inr_iff ipc_name_is_no_gesture split: option.splits)

function handle_ipc_request ::
    "('w, 'n, 'v) ipc_env \<Rightarrow> bool \<Rightarrow> 'v ipc_request \<Rightarrow> 'w daemon \<times> nat \<Rightarrow>
     (ipc_response \<times> bool) \<times> 'w daemon \<times> nat" where
  "handle_ipc_request env dry_run q (d, n) =
     (let i = iq_request_id q; c = iq_command q; js = ev_json env
      in if iq_protocol_version q \<noteq> protocol_version
         then (ipc_refusal i ''unsupported_protocol_version''
                 (''protocol version '' @ nat_to_dec (iq_protocol_version q) @ '' is not supported'') ''contract'',
               d, n)
         else case query_result c (project_snapshot env d) of
           Some v \<Rightarrow> ((response_ok i v, False), d, n)
         | None \<Rightarrow>
        (case ipc_domain_event c (CorrelationId n) (optional_monitor_id js (iq_payload q))
                (optional_window_id js (iq_payload q)) of
           Some (e, reason) \<Rightarrow>
             (let (r, d') = respond_to_runtime (ev_debug env) i (dispatch_command (ev_platform env) e dry_run reason) d
              in (r, d', n + 1))
         | None \<Rightarrow>
             if c = ''touchpad_gesture'' then
               (case Option.bind (js_get js (iq_payload q) ''gesture'') (js_as_str js) of
                  None \<Rightarrow>
                    (ipc_refusal i ''invalid_payload'' ''touchpad_gesture requires payload.gesture'' ''contract'', d, n)
                | Some g \<Rightarrow>
                    (case ipc_command_for_touchpad_gesture (lc_touchpad (cd_active_config d)) g of
                       Inr (Some mapped) \<Rightarrow>
                         handle_ipc_request env dry_run (ipc_request_new i mapped (js_gesture js g)) (d, n)
                     | Inr None \<Rightarrow>
                         (ipc_refusal i ''unbound_touchpad_gesture''
                            (''touchpad gesture '' @ in_quotes g @
                             '' is not bound in the current daemon configuration'') ''input'', d, n)
                     | Inl (TouchpadStartup message) \<Rightarrow>
                         (ipc_refusal i ''invalid_touchpad_gesture'' message ''input'', d, n)))
             else if c = ''reload_config'' then
               (let (r, d') = respond_to_runtime (ev_debug env) i (reload_config (ev_platform env) dry_run) d
                in (r, d', n))
             else if c \<in> {''move_window'', ''consume_window'', ''expel_window'', ''capture_action''} then
               (ipc_refusal i ''unsupported_command'' (''command '' @ in_quotes c @ '' is not implemented yet'')
                  ''feature-gap'', d, n)
             else (ipc_refusal i ''unknown_command'' (''unknown command '' @ in_quotes c) ''contract'', d, n)))"
  by pat_completeness auto

termination
  by (relation "measure (\<lambda>(env, dry_run, q, s). if iq_command q = ''touchpad_gesture'' then 1 else 0)")
    (auto simp: ipc_request_new_def dest: gesture_command_is_no_gesture)

declare handle_ipc_request.simps [simp del]

section \<open>The event stream\<close>

datatype event_payload =
    NoPayload
  | SnapshotPayload snapshot_projection
  | OutputsPayload "output_projection list"
  | WorkspacesPayload "workspace_entry list"
  | WindowsPayload "window_entry list"
  | FocusPayload focus_entry
  | OverviewPayload overview_entry
  | ConfigPayload config_entry
  | DiagnosticsPayload diagnostics_entry

record ipc_event =
  ip_protocol_version :: nat
  ip_stream_version :: nat
  ip_event_id :: string
  ip_event_kind :: string
  ip_state_version :: nat
  ip_payload :: event_payload
  ip_timestamp :: nat

text \<open>A subscriber: the lines it was sent, newest first, while its receiver lives.\<close>

record subscriber =
  sb_alive :: bool
  sb_lines :: "ipc_event list"

text \<open>One line: it takes the next stream version and reads the wall clock.\<close>

definition event_line ::
    "('w, 'n) platform \<Rightarrow> nat \<Rightarrow> string \<times> event_payload \<Rightarrow> 'w daemon \<times> nat \<Rightarrow> ipc_event \<times> 'w daemon \<times> nat" where
  "event_line pf state_version = (\<lambda>(kind, payload) (d, v).
     let (now, a) = on_world (pf_unix pf) (cd_adapter d)
     in (\<lparr>ip_protocol_version = protocol_version, ip_stream_version = v, ip_event_id = ''evt-'' @ nat_to_dec v,
          ip_event_kind = kind, ip_state_version = state_version, ip_payload = payload, ip_timestamp = now\<rparr>,
         d\<lparr>cd_adapter := a\<rparr>, u64_sat_add v 1))"

fun event_lines ::
    "('w, 'n) platform \<Rightarrow> nat \<Rightarrow> (string \<times> event_payload) list \<Rightarrow> 'w daemon \<times> nat \<Rightarrow>
     ipc_event list \<times> 'w daemon \<times> nat" where
  "event_lines pf state_version [] s = ([], s)"
| "event_lines pf state_version (k # ks) s =
     (let (l, t) = event_line pf state_version k s; (ls, u) = event_lines pf state_version ks t
      in (l # ls, u))"

text \<open>Sending lines in order; a receiver that is gone takes none of them.\<close>

definition send_lines :: "ipc_event list \<Rightarrow> subscriber \<Rightarrow> bool \<times> subscriber" where
  "send_lines ls b =
     (if sb_alive b then (True, b\<lparr>sb_lines := rev ls @ sb_lines b\<rparr>) else (False, b))"

definition send_initial_snapshot ::
    "('w, 'n, 'v) ipc_env \<Rightarrow> subscriber \<Rightarrow> 'w daemon \<times> nat \<Rightarrow> (bool \<times> subscriber) \<times> 'w daemon \<times> nat" where
  "send_initial_snapshot env b = (\<lambda>(d, v).
     let p = project_snapshot env d;
         (ls, s) = event_lines (ev_platform env) (sp_state_version p)
           [(''snapshot_begin'', NoPayload), (''snapshot_state'', SnapshotPayload p), (''snapshot_end'', NoPayload)]
           (d, v)
     in (send_lines ls b, s))"

definition delta_payloads :: "snapshot_projection \<Rightarrow> (string \<times> event_payload) list" where
  "delta_payloads p =
     [(''monitor_changed'', OutputsPayload (sp_outputs p)),
      (''workspace_changed'', WorkspacesPayload (sp_workspaces p)),
      (''window_changed'', WindowsPayload (sp_windows p)), (''focus_changed'', FocusPayload (sp_focus p)),
      (''overview_changed'', OverviewPayload (sp_overview p)), (''config_changed'', ConfigPayload (sp_config p)),
      (''diagnostic_notice'', DiagnosticsPayload (sp_diagnostics p))]"

text \<open>Every subscriber gets the change, or is dropped.\<close>

definition broadcast_runtime_delta ::
    "('w, 'n, 'v) ipc_env \<Rightarrow> subscriber list \<Rightarrow> 'w daemon \<times> nat \<Rightarrow> subscriber list \<times> 'w daemon \<times> nat" where
  "broadcast_runtime_delta env subs = (\<lambda>(d, v).
     let p = project_snapshot env d;
         (ls, s) = event_lines (ev_platform env) (sp_state_version p) (delta_payloads p) (d, v)
     in (map snd (filter fst (map (send_lines ls) subs)), s))"

end
