(* ===== verification/Tab_Indicator.thy ===== *)
theory Tab_Indicator
  imports Runtime_Core "HOL-Library.Signed_Division"
begin

text \<open>
  \<open>apps/core-daemon/src/tab_indicator.rs\<close>: the strip of segments drawn beside a tabbed column, one
  segment per tab. Drawing them is the overlay thread's, a parameter of the controller.
\<close>

definition indicator_width_px :: nat where "indicator_width_px = 6"

definition indicator_side_inset_px :: int where "indicator_side_inset_px = 10"

definition indicator_gap_px :: int where "indicator_gap_px = 4"

definition min_segment_height_px :: int where "min_segment_height_px = 6"

record tab_indicator_key =
  tik_state_version :: nat
  tik_management_enabled :: bool

datatype indicator_kind = IndicatorActive | IndicatorInactive

record tab_segment =
  seg_rect :: rect
  seg_kind :: indicator_kind

definition i32_checked_div :: "int \<Rightarrow> int \<Rightarrow> int option" where
  "i32_checked_div a b = (if b = 0 \<or> a = i32_min \<and> b = - 1 then None else Some (a sdiv b))"

text \<open>A count of windows as an \<open>i32\<close> is \<open>u32_as_i32\<close> of it: it stays far below the sign bit.\<close>

definition compute_gap :: "int \<Rightarrow> nat \<Rightarrow> int" where
  "compute_gap total_height count =
     (if count \<le> 1 then 0
      else
        let remaining = i32_sat_sub total_height (i32_sat_mul min_segment_height_px (u32_as_i32 count))
        in if remaining \<le> 0 then 1
           else min (max indicator_gap_px 1) (remaining sdiv max (u32_as_i32 (count - 1)) 1))"

text \<open>The loop over the windows, with the index and the top of the next segment.\<close>

fun place_segments :: "int \<Rightarrow> int \<Rightarrow> int \<Rightarrow> int \<Rightarrow> window_id \<Rightarrow> window_id list \<Rightarrow> nat \<Rightarrow> int \<Rightarrow> tab_segment list" where
  "place_segments x base gap remainder selected [] index y = []"
| "place_segments x base gap remainder selected (i # is) index y =
     (let height = (if u32_as_i32 index < remainder then i32_sat_add base 1 else base)
      in \<lparr>seg_rect = rect_new x y (max indicator_width_px 1) (i32_as_u32 (max height 1)),
          seg_kind = (if i = selected then IndicatorActive else IndicatorInactive)\<rparr>
         # place_segments x base gap remainder selected is (index + 1) (i32_sat_add (i32_sat_add y height) gap))"

definition build_column_segments :: "rect \<Rightarrow> window_id list \<Rightarrow> window_id \<Rightarrow> tab_segment list" where
  "build_column_segments column_rect ids selected =
     (let count = length ids
      in if count < 2 then []
         else
           let total_height = u32_clip_i32 (rect_height column_rect);
               gap = compute_gap total_height count;
               available = i32_sat_sub total_height (i32_sat_mul gap (u32_as_i32 (count - 1)));
               base = max (case i32_checked_div available (u32_as_i32 count) of
                           None \<Rightarrow> min_segment_height_px | Some h \<Rightarrow> h) min_segment_height_px;
               remainder = i32_sat_sub available (i32_sat_mul base (u32_as_i32 count));
               x = i32_sat_sub
                     (i32_sat_sub (i32_sat_add (rect_x column_rect) (u32_clip_i32 (rect_width column_rect)))
                       indicator_side_inset_px)
                     (u32_clip_i32 (max indicator_width_px 1))
           in place_segments x base gap remainder selected ids 0 (rect_y column_rect))"

text \<open>The column of a workspace: nothing unless it is tabbed, has two tabs and is in the layout.\<close>

definition column_segments :: "wm_state \<Rightarrow> workspace_projection \<Rightarrow> column_id \<Rightarrow> tab_segment list" where
  "column_segments s p c =
     (case get_column s c of
        None \<Rightarrow> []
      | Some col \<Rightarrow>
          if col_mode col \<noteq> Tabbed \<or> length (col_windows col) < 2 then []
          else case or_opt (or_opt (col_tab_selection col) (col_active col)) (first (col_windows col)) of
                 None \<Rightarrow> []
               | Some selected \<Rightarrow>
                   (case find (\<lambda>g. geo_window_id g = selected) (rev (proj_window_geometries p)) of
                      None \<Rightarrow> []
                    | Some g \<Rightarrow> build_column_segments (geo_rect g) (col_windows col) selected))"

definition monitor_segments :: "wm_state \<Rightarrow> monitor \<Rightarrow> tab_segment list \<Rightarrow> layout_error + tab_segment list" where
  "monitor_segments s m acc =
     (case active_workspace_id_for_monitor s (mon_id m) of
        None \<Rightarrow> Inr acc
      | Some w \<Rightarrow>
     (case get_workspace s w of
        None \<Rightarrow> Inr acc
      | Some ws \<Rightarrow>
          bindE (recompute_workspace s w) (\<lambda>p.
            Inr (acc @ concat (map (column_segments s p) (strip_columns (wsp_strip ws)))))))"

definition build_tab_indicator_segments :: "wm_state \<Rightarrow> layout_error + tab_segment list" where
  "build_tab_indicator_segments s =
     (if ov_is_open (overview s) then Inr [] else fold_res (monitor_segments s) (bm_values (monitors s)) [])"

section \<open>The controller\<close>

datatype tab_indicator_error = TabLayout layout_error | TabPlatform string

text \<open>
  The overlay is asked to show the segments and answers whether it did; without an answer the key
  stays, so the next round tries again.
\<close>

definition tab_indicator_sync ::
    "(tab_segment list \<Rightarrow> 'w \<Rightarrow> (string + unit) \<times> 'w) \<Rightarrow> 'd daemon \<Rightarrow>
     tab_indicator_key option \<times> 'w \<Rightarrow> (tab_indicator_error + unit) \<times> tab_indicator_key option \<times> 'w" where
  "tab_indicator_sync overlay d = (\<lambda>(last_key, w).
     let key = \<lparr>tik_state_version = rs_state_version (runtime (cd_store d)), tik_management_enabled = cd_management_enabled d\<rparr>
     in if last_key = Some key then (Inr (), last_key, w)
        else case (if cd_management_enabled d
                   then map_err TabLayout (build_tab_indicator_segments (cd_store d)) else Inr []) of
          Inl e \<Rightarrow> (Inl e, last_key, w)
        | Inr segments \<Rightarrow>
            (case overlay segments w of
               (Inl e, w') \<Rightarrow> (Inl (TabPlatform e), last_key, w')
             | (Inr _, w') \<Rightarrow> (Inr (), Some key, w')))"

end
