(* ===== verification/Manual_Resize.thy ===== *)
theory Manual_Resize
  imports Runtime_Commands Native_Scan
begin

text \<open>
  \<open>apps/core-daemon/src/manual_resize.rs\<close>: dragging the edge of a tiled window with the mouse. The
  mouse hook swallows a click on an edge and queues events; the controller, once a round of the watch
  loop, turns them into a resize gesture of the daemon and keeps the preview overlay in step. The
  threads, the preview window and the queries of the pointer and the window are parameters.
\<close>

section \<open>The edge of a window\<close>

definition edge_grab_tolerance_px :: int where "edge_grab_tolerance_px = 20"

definition preview_alpha :: nat where "preview_alpha = 96"

record pointer_position =
  pp_x :: int
  pp_y :: int

definition detect_resize_edge :: "rect \<Rightarrow> pointer_position \<Rightarrow> resize_edge option" where
  "detect_resize_edge r p =
     (let top = rect_y r; bottom = i32_sat_add (rect_y r) (u32_as_i32 (rect_height r))
      in if pp_y p < top \<or> bottom < pp_y p then None
         else
           let left_distance = i32_abs (i32_sat_sub (pp_x p) (rect_x r));
               right_x = i32_sat_add (rect_x r) (u32_as_i32 (rect_width r));
               right_distance = i32_abs (i32_sat_sub (pp_x p) right_x);
               near_left = (left_distance \<le> edge_grab_tolerance_px);
               near_right = (right_distance \<le> edge_grab_tolerance_px)
           in if near_left \<and> near_right
              then Some (if left_distance \<le> right_distance then LeftEdge else RightEdge)
              else if near_left then Some LeftEdge
              else if near_right then Some RightEdge
              else None)"

text \<open>\<open>GetWindowRect\<close> of a handle, if the handle fits a pointer and the rectangle is not empty.\<close>

definition query_outer_window_rect :: "(nat \<Rightarrow> win32_rect option) \<Rightarrow> nat \<Rightarrow> rect option" where
  "query_outer_window_rect rect_of h =
     (if \<not> h < 2 ^ 63 then None
      else case rect_of h of
        None \<Rightarrow> None
      | Some r \<Rightarrow>
          if w_right r \<le> w_left r \<or> w_bottom r \<le> w_top r then None
          else Some (rect_new (w_left r) (w_top r) (i32_as_u32 (wrap_i32 (w_right r - w_left r)))
                      (i32_as_u32 (wrap_i32 (w_bottom r - w_top r)))))"

definition resolve_resize_hit_rect :: "(nat \<Rightarrow> win32_rect option) \<Rightarrow> resize_target \<Rightarrow> rect" where
  "resolve_resize_hit_rect rect_of t =
     (case Option.bind (rz_hwnd t) (query_outer_window_rect rect_of) of None \<Rightarrow> rz_rect t | Some r \<Rightarrow> r)"

section \<open>The mouse hook\<close>

datatype mouse_event = BeginDrag resize_edge int | ReleaseDrag int

datatype mouse_message = LeftDown | NonClientLeftDown | LeftUp | NonClientLeftUp | OtherMouse

text \<open>The queue holds the events in the order they were sent.\<close>

record mouse_hook =
  mh_target_rect :: "rect option"
  mh_drag_intercepted :: bool
  mh_events :: "mouse_event list"
  mh_receiver_alive :: bool

definition mouse_hook_new :: mouse_hook where
  "mouse_hook_new =
     \<lparr>mh_target_rect = None, mh_drag_intercepted = False, mh_events = [], mh_receiver_alive = True\<rparr>"

definition hook_send :: "mouse_event \<Rightarrow> mouse_hook \<Rightarrow> mouse_hook" where
  "hook_send e st = (if mh_receiver_alive st then st\<lparr>mh_events := mh_events st @ [e]\<rparr> else st)"

text \<open>
  The hook procedure: with the super key down or not, on a message with its pointer (absent for a null
  parameter). The first component tells whether the message is swallowed.
\<close>

definition low_level_mouse_proc ::
    "bool \<Rightarrow> int \<Rightarrow> mouse_message \<Rightarrow> pointer_position option \<Rightarrow> mouse_hook \<Rightarrow> bool \<times> mouse_hook" where
  "low_level_mouse_proc super_down code message pointer st =
     (case pointer of
        None \<Rightarrow> (False, st)
      | Some p \<Rightarrow>
          if code < 0 then (False, st)
          else case message of
            OtherMouse \<Rightarrow> (False, st)
          | _ \<Rightarrow>
              if message \<in> {LeftDown, NonClientLeftDown} then
                (if \<not> super_down then (False, st)
                 else case Option.bind (mh_target_rect st) (\<lambda>r. detect_resize_edge r p) of
                   None \<Rightarrow> (False, st)
                 | Some edge \<Rightarrow>
                     if mh_receiver_alive st
                     then (True, (hook_send (BeginDrag edge (pp_x p)) st)\<lparr>mh_drag_intercepted := True\<rparr>)
                     else (False, st))
              else if mh_drag_intercepted st
              then (True, hook_send (ReleaseDrag (pp_x p)) (st\<lparr>mh_drag_intercepted := False\<rparr>))
              else (False, st))"

section \<open>The controller\<close>

datatype manual_resize_error = ResizeRuntime runtime_error | ResizePlatform string

datatype overlay_command = OverlayShow rect | OverlayHide

text \<open>The commands sent to the preview overlay, newest first, while its thread lives.\<close>

record manual_resize =
  mr_overlay_alive :: bool
  mr_overlay_commands :: "overlay_command list"
  mr_mouse_hook :: mouse_hook
  mr_active :: bool

definition manual_resize_new :: manual_resize where
  "manual_resize_new =
     \<lparr>mr_overlay_alive = True, mr_overlay_commands = [], mr_mouse_hook = mouse_hook_new, mr_active = False\<rparr>"

text \<open>Mouse messages reach the hook between two ticks, each with the super key at that moment.\<close>

type_synonym mouse_input = "bool \<times> int \<times> mouse_message \<times> pointer_position option"

definition hook_messages :: "mouse_input list \<Rightarrow> manual_resize \<Rightarrow> manual_resize" where
  "hook_messages ms r =
     r\<lparr>mr_mouse_hook :=
         fold (\<lambda>(super_down, code, message, pointer) st. snd (low_level_mouse_proc super_down code message pointer st))
           ms (mr_mouse_hook r)\<rparr>"

text \<open>The super key, the pointer and the rectangles of the windows at the moment of a tick.\<close>

record resize_input =
  ri_super_down :: bool
  ri_pointer :: "string + pointer_position"
  ri_rect_of :: "nat \<Rightarrow> win32_rect option"

type_synonym ('w, 'a) resize_act = "('w daemon \<times> manual_resize, manual_resize_error, 'a) act"

definition on_daemon :: "('w, 'a) daemon_act \<Rightarrow> ('w, 'a) resize_act" where
  "on_daemon m = (\<lambda>(d, r). let (x, d') = m d in (map_err ResizeRuntime x, d', r))"

definition upd_controller :: "(manual_resize \<Rightarrow> manual_resize) \<Rightarrow> ('w, unit) resize_act" where
  "upd_controller f = modify (\<lambda>(d, r). (d, f r))"

definition overlay_send :: "overlay_command \<Rightarrow> ('w, unit) resize_act" where
  "overlay_send c =
     (\<lambda>(d, r). if mr_overlay_alive r
        then (Inr (), d, r\<lparr>mr_overlay_commands := c # mr_overlay_commands r\<rparr>)
        else (Inl (ResizePlatform ''column-width preview overlay is no longer available''), d, r))"

definition set_target_rect :: "rect option \<Rightarrow> ('w, unit) resize_act" where
  "set_target_rect t =
     upd_controller (\<lambda>r. r\<lparr>mr_mouse_hook := (mr_mouse_hook r)\<lparr>mh_target_rect := t\<rparr>\<rparr>)"

definition refresh_target :: "resize_input \<Rightarrow> ('w, unit) resize_act" where
  "refresh_target inp =
     bindA (on_daemon (tryA (\<lambda>d. active_tiled_resize_target (cd_store d)))) (\<lambda>t.
       set_target_rect (map_option (resolve_resize_hit_rect (ri_rect_of inp)) t))"

definition sync_preview :: "('w, unit) resize_act" where
  "sync_preview =
     bindA (gets (\<lambda>(d, r). manual_width_resize_preview_rect (cd_store d))) (\<lambda>p.
       overlay_send (case p of None \<Rightarrow> OverlayHide | Some r \<Rightarrow> OverlayShow r))"

definition set_active :: "bool \<Rightarrow> ('w, unit) resize_act" where
  "set_active b = upd_controller (\<lambda>r. r\<lparr>mr_active := b\<rparr>)"

definition pop_event :: "('w, unit) resize_act" where
  "pop_event = upd_controller (\<lambda>r. r\<lparr>mr_mouse_hook := (mr_mouse_hook r)\<lparr>mh_events := tl (mh_events (mr_mouse_hook r))\<rparr>\<rparr>)"

text \<open>The gesture is over: inactive, no preview, and the hook knows the target again.\<close>

definition end_gesture :: "resize_input \<Rightarrow> ('w, unit) resize_act" where
  "end_gesture inp = thenA (set_active False) (thenA (overlay_send OverlayHide) (refresh_target inp))"

text \<open>
  Draining the queue. The events in it when the tick starts are handled; one that arrives meanwhile is
  as one that arrives just after. A committed gesture ends the tick with its report.
\<close>

fun drain_events ::
    "('w, 'n) platform \<Rightarrow> resize_input \<Rightarrow> bool \<Rightarrow> mouse_event list \<Rightarrow> ('w, cycle_report option) resize_act" where
  "drain_events pf inp dry_run [] = ret None"
| "drain_events pf inp dry_run (BeginDrag edge x # es) =
     thenA pop_event
     (bindA (gets (\<lambda>(d, r). mr_active r)) (\<lambda>active.
       if active then drain_events pf inp dry_run es
       else bindA (on_daemon (begin_column_width_resize edge x)) (\<lambda>started.
         if started
         then thenA (set_active True) (thenA sync_preview (drain_events pf inp dry_run es))
         else drain_events pf inp dry_run es)))"
| "drain_events pf inp dry_run (ReleaseDrag x # es) =
     thenA pop_event
     (bindA (gets (\<lambda>(d, r). mr_active r)) (\<lambda>active.
       if active
       then bindA (on_daemon (commit_column_width_resize pf x dry_run)) (\<lambda>report.
         thenA (end_gesture inp) (ret (Some report)))
       else drain_events pf inp dry_run es))"

definition follow_pointer :: "resize_input \<Rightarrow> ('w, unit) resize_act" where
  "follow_pointer inp =
     bindA (gets (\<lambda>(d, r). mr_active r)) (\<lambda>active.
       if \<not> active then overlay_send OverlayHide
       else if \<not> ri_super_down inp
       then thenA (on_daemon cancel_column_width_resize) (end_gesture inp)
       else bindA (tryA (\<lambda>_. map_err ResizePlatform (ri_pointer inp))) (\<lambda>p.
         thenA (on_daemon (update_column_width_resize (pp_x p))) sync_preview))"

definition tick ::
    "('w, 'n) platform \<Rightarrow> resize_input \<Rightarrow> bool \<Rightarrow> ('w, cycle_report option) resize_act" where
  "tick pf inp dry_run =
     bindA (gets (\<lambda>(d, r). mr_active r)) (\<lambda>active.
     thenA (if active then ret () else refresh_target inp)
     (bindA (gets (\<lambda>(d, r). mh_events (mr_mouse_hook r))) (\<lambda>es.
      bindA (drain_events pf inp dry_run es) (\<lambda>report.
        case report of
          Some rep \<Rightarrow> ret (Some rep)
        | None \<Rightarrow> thenA (follow_pointer inp) (ret None)))))"

end
