(* ===== verification/Watch_Control.thy ===== *)
theory Watch_Control
  imports Ipc_Requests Tab_Indicator Manual_Resize Overview_Engine Hotkey_Trigger
begin

text \<open>
  The control plane of the watch loop: \<open>watch/support.rs\<close>, \<open>watch/commands.rs\<close>,
  \<open>watch/control_plane.rs\<close> and \<open>overview_controller.rs\<close> of \<open>apps/core-daemon/src\<close>. Every message a
  hotkey, a gesture, the overview, a client or standard input sends ends here and changes the daemon.
  Printing and logging are left out; the windows, surfaces and listeners it drives are calls on the world.
\<close>

section \<open>State\<close>

datatype 'v control_message =
    WatchMessage watch_command
  | OverviewActivateWindow nat
  | OverviewMoveColumn nat workspace_id "nat option"
  | OverviewDismiss
  | IpcRequestMessage "'v ipc_request"
  | EventSubscribe bool

datatype watch_flow = FlowContinue | FlowQuit | FlowExit nat

text \<open>
  The calls of the control plane on the world: opening the terminal and the wallpaper selector (and
  closing it, which tells whether there was one), closing and activating a window, showing segments and
  scenes (no scene hides the overview), starting the surface of the overview and the native listeners.
\<close>

record ('w, 'n, 'v) watch_env =
  wv_ipc :: "('w, 'n, 'v) ipc_env"
  wv_open_terminal :: "'w \<Rightarrow> (string + unit) \<times> 'w"
  wv_close_wallpaper_selector :: "'w \<Rightarrow> (string + bool) \<times> 'w"
  wv_open_wallpaper_selector :: "'w \<Rightarrow> (string + unit) \<times> 'w"
  wv_close_window :: "nat \<Rightarrow> 'w \<Rightarrow> (string + unit) \<times> 'w"
  wv_activate_window :: "nat \<Rightarrow> 'w \<Rightarrow> (string + unit) \<times> 'w"
  wv_tab_overlay :: "tab_segment list \<Rightarrow> 'w \<Rightarrow> (string + unit) \<times> 'w"
  wv_overview_overlay :: "overview_scene option \<Rightarrow> 'w \<Rightarrow> (string + unit) \<times> 'w"
  wv_overview_spawn :: "'w \<Rightarrow> (string + unit) \<times> 'w"
  wv_scale_rect :: "rect \<Rightarrow> rect \<Rightarrow> rect \<Rightarrow> rect"
  wv_spawn_hotkeys :: "hotkey_binding list \<Rightarrow> 'w \<Rightarrow> (string + bool) \<times> 'w"
  wv_spawn_touchpad :: "touchpad_bindings \<Rightarrow> 'w \<Rightarrow> (string + unit) \<times> 'w"

definition wv_platform :: "('w, 'n, 'v) watch_env \<Rightarrow> ('w, 'n) platform" where
  "wv_platform env = ev_platform (wv_ipc env)"

text \<open>
  What the loop keeps. A surface that failed is gone (\<open>None\<close>); the listeners tell whether they run; the
  responses sent to clients are kept, newest first.
\<close>

record 'w watch =
  wt_daemon :: "'w daemon"
  wt_completed_iterations :: nat
  wt_manual_correlation_id :: nat
  wt_event_subscribers :: "subscriber list"
  wt_stream_version :: nat
  wt_last_streamed_state_version :: nat
  wt_responses :: "ipc_response list"
  wt_hotkey_listener :: bool
  wt_touchpad_listener :: bool
  wt_tab_indicator :: "tab_indicator_key option option"
  wt_overview_surface :: "overview_scene option option"
  wt_manual_resize :: manual_resize
  wt_observer :: bool
  wt_next_poll_deadline :: nat

definition run_daemon_act :: "('w, 'a) daemon_act \<Rightarrow> 'w watch \<Rightarrow> (runtime_error + 'a) \<times> 'w watch" where
  "run_daemon_act m t = (let (r, d) = m (wt_daemon t) in (r, t\<lparr>wt_daemon := d\<rparr>))"

definition world_call :: "('w \<Rightarrow> 'a \<times> 'w) \<Rightarrow> 'w watch \<Rightarrow> 'a \<times> 'w watch" where
  "world_call f t =
     (let (x, a) = on_world f (cd_adapter (wt_daemon t))
      in (x, t\<lparr>wt_daemon := (wt_daemon t)\<lparr>cd_adapter := a\<rparr>\<rparr>))"

definition take_manual_correlation_id :: "'w watch \<Rightarrow> correlation_id \<times> 'w watch" where
  "take_manual_correlation_id t =
     (CorrelationId (wt_manual_correlation_id t),
      t\<lparr>wt_manual_correlation_id := wt_manual_correlation_id t + 1\<rparr>)"

section \<open>Support\<close>

definition maybe_broadcast_state :: "('w, 'n, 'v) watch_env \<Rightarrow> 'w watch \<Rightarrow> 'w watch" where
  "maybe_broadcast_state env t =
     (let current = rs_state_version (runtime (cd_store (wt_daemon t)))
      in if current = wt_last_streamed_state_version t then t
         else let (subs, d, v) =
                    broadcast_runtime_delta (wv_ipc env) (wt_event_subscribers t) (wt_daemon t, wt_stream_version t)
              in t\<lparr>wt_event_subscribers := subs, wt_daemon := d, wt_stream_version := v,
                   wt_last_streamed_state_version := current\<rparr>)"

definition record_runtime_report :: "('w, 'n, 'v) watch_env \<Rightarrow> 'w watch \<Rightarrow> 'w watch" where
  "record_runtime_report env t =
     maybe_broadcast_state env (t\<lparr>wt_completed_iterations := wt_completed_iterations t + 1\<rparr>)"

definition focused_managed_hwnd :: "wm_state \<Rightarrow> nat option" where
  "focused_managed_hwnd s =
     Option.bind (filter_opt win_is_managed (Option.bind (focus_window (focus s)) (get_window s))) win_hwnd"

text \<open>The first managed window bound to a handle on the monitor of the overview.\<close>

definition on_overview_monitor :: "wm_state \<Rightarrow> monitor_id \<Rightarrow> nat \<Rightarrow> window_node \<Rightarrow> bool" where
  "on_overview_monitor s m h w \<longleftrightarrow>
     win_is_managed w \<and> win_hwnd w = Some h \<and>
     (case get_workspace s (win_workspace_id w) of None \<Rightarrow> False | Some ws \<Rightarrow> wsp_monitor_id ws = m)"

definition overview_managed_window_for_hwnd :: "wm_state \<Rightarrow> nat \<Rightarrow> window_node option" where
  "overview_managed_window_for_hwnd s h =
     Option.bind (ov_monitor_id (overview s)) (\<lambda>m. find (on_overview_monitor s m h) (bm_values (windows s)))"

definition overview_activation_target_is_valid :: "wm_state \<Rightarrow> nat \<Rightarrow> bool" where
  "overview_activation_target_is_valid s h \<longleftrightarrow>
     h \<noteq> 0 \<and> ov_is_open (overview s) \<and>
     (case ov_monitor_id (overview s) of
        None \<Rightarrow> False
      | Some m \<Rightarrow> list_ex (on_overview_monitor s m h) (bm_values (windows s)))"

definition overview_workspace_target_is_valid :: "wm_state \<Rightarrow> workspace_id \<Rightarrow> bool" where
  "overview_workspace_target_is_valid s w \<longleftrightarrow>
     ov_is_open (overview s) \<and>
     (case ov_monitor_id (overview s) of
        None \<Rightarrow> False
      | Some m \<Rightarrow> (case get_workspace s w of None \<Rightarrow> False | Some ws \<Rightarrow> wsp_monitor_id ws = m))"

definition is_tiled_window :: "window_node \<Rightarrow> bool" where
  "is_tiled_window w \<longleftrightarrow> win_layer w = Tiled \<and> \<not> win_is_floating w \<and> \<not> win_is_fullscreen w"

definition overview_drag_source_column_id :: "wm_state \<Rightarrow> nat \<Rightarrow> column_id option" where
  "overview_drag_source_column_id s h =
     Option.bind (overview_managed_window_for_hwnd s h) (\<lambda>w.
       if is_tiled_window w then win_column_id w else None)"

definition overview_drop_anchor_column_id ::
    "wm_state \<Rightarrow> workspace_id \<Rightarrow> nat option \<Rightarrow> column_id option option" where
  "overview_drop_anchor_column_id s target h =
     (case h of
        None \<Rightarrow> Some None
      | Some raw \<Rightarrow>
          Option.bind (overview_managed_window_for_hwnd s raw) (\<lambda>w.
            if win_workspace_id w \<noteq> target \<or> \<not> is_tiled_window w then None
            else map_option Some (win_column_id w)))"

section \<open>Listeners\<close>

definition start_hotkey_listener :: "('w, 'n, 'v) watch_env \<Rightarrow> 'w watch \<Rightarrow> (string + bool) \<times> 'w watch" where
  "start_hotkey_listener env t =
     (let cfg = cd_active_config (wt_daemon t)
      in case ensure_bind_control_mode_supported (cfg_bind_control_mode (lc_projection cfg)) of
           Inl e \<Rightarrow> (Inl e, t)
         | Inr _ \<Rightarrow> world_call (wv_spawn_hotkeys env (lc_hotkeys cfg)) t)"

definition start_touchpad_listener :: "('w, 'n, 'v) watch_env \<Rightarrow> 'w watch \<Rightarrow> (string + bool) \<times> 'w watch" where
  "start_touchpad_listener env t =
     (let cfg = lc_touchpad (cd_active_config (wt_daemon t));
          setting = ev_touch_setting (wv_ipc env) (ad_world (cd_adapter (wt_daemon t)))
      in case bindE (ensure_touchpad_override_supported setting cfg) (\<lambda>_.
                if tp_override_enabled cfg then map_sum id Some (bindings_from_config cfg) else Inr None) of
           Inl (TouchpadStartup e) \<Rightarrow> (Inl e, t)
         | Inr None \<Rightarrow> (Inr False, t)
         | Inr (Some bindings) \<Rightarrow>
             (case world_call (wv_spawn_touchpad env bindings) t of
                (Inl e, u) \<Rightarrow> (Inl e, u)
              | (Inr _, u) \<Rightarrow> (Inr True, u)))"

definition touchpad_watch_status :: "touchpad_assessment \<Rightarrow> bool \<Rightarrow> string" where
  "touchpad_watch_status a running = (if running then ''enabled'' else summary_label (ta_status a))"

text \<open>Restarting both after a reload; an error ends the daemon.\<close>

definition restart_input_listeners :: "('w, 'n, 'v) watch_env \<Rightarrow> 'w watch \<Rightarrow> watch_flow \<times> 'w watch" where
  "restart_input_listeners env t =
     (case start_hotkey_listener env t of
        (Inl _, u) \<Rightarrow> (FlowExit 1, u)
      | (Inr hotkeys, u) \<Rightarrow>
          (case start_touchpad_listener env u of
             (Inl _, v) \<Rightarrow> (FlowExit 1, v)
           | (Inr touchpad, v) \<Rightarrow>
               (FlowContinue, v\<lparr>wt_hotkey_listener := hotkeys, wt_touchpad_listener := touchpad\<rparr>)))"

section \<open>Visual surfaces\<close>

text \<open>Showing or hiding the overview; the call is made only when the scene has changed.\<close>

definition overview_surface_sync ::
    "('w, 'n, 'v) watch_env \<Rightarrow> overview_scene option \<Rightarrow> 'w watch \<Rightarrow>
     ((string + unit) \<times> overview_scene option) \<times> 'w watch" where
  "overview_surface_sync env last_scene t =
     (let d = wt_daemon t
      in if \<not> cd_management_enabled d \<or> rs_boot_mode (runtime (cd_store d)) = SafeMode then
           (case last_scene of
              None \<Rightarrow> ((Inr (), None), t)
            | Some _ \<Rightarrow> (let (r, u) = world_call (wv_overview_overlay env None) t in ((r, None), u)))
         else case build_overview_scene (wv_scale_rect env) (cd_store d) of
           Inl e \<Rightarrow> ((Inl ''overview layout failed'', last_scene), t)
         | Inr scene \<Rightarrow>
             if last_scene = scene then ((Inr (), last_scene), t)
             else (case world_call (wv_overview_overlay env scene) t of
                     (Inl e, u) \<Rightarrow> ((Inl e, last_scene), u)
                   | (Inr _, u) \<Rightarrow> ((Inr (), scene), u)))"

definition ensure_overview_surface :: "('w, 'n, 'v) watch_env \<Rightarrow> 'w watch \<Rightarrow> 'w watch" where
  "ensure_overview_surface env t =
     (let d = wt_daemon t
      in if wt_overview_surface t \<noteq> None \<or> \<not> cd_management_enabled d
            \<or> rs_boot_mode (runtime (cd_store d)) = SafeMode \<or> \<not> ov_is_open (overview (cd_store d))
         then t
         else case world_call (wv_overview_spawn env) t of
           (Inl _, u) \<Rightarrow> u
         | (Inr _, u) \<Rightarrow> u\<lparr>wt_overview_surface := Some None\<rparr>)"

definition sync_tab_indicator :: "('w, 'n, 'v) watch_env \<Rightarrow> 'w watch \<Rightarrow> 'w watch" where
  "sync_tab_indicator env t =
     (case wt_tab_indicator t of
        None \<Rightarrow> t
      | Some last_key \<Rightarrow>
          (let (r, key, a) = tab_indicator_sync (\<lambda>segments. on_world (wv_tab_overlay env segments))
                 (wt_daemon t) (last_key, cd_adapter (wt_daemon t))
           in t\<lparr>wt_daemon := (wt_daemon t)\<lparr>cd_adapter := a\<rparr>,
                wt_tab_indicator := (if isl r then None else Some key)\<rparr>))"

definition sync_overview_surface :: "('w, 'n, 'v) watch_env \<Rightarrow> 'w watch \<Rightarrow> 'w watch" where
  "sync_overview_surface env t =
     (case wt_overview_surface t of
        None \<Rightarrow> t
      | Some last_scene \<Rightarrow>
          (let ((r, scene), u) = overview_surface_sync env last_scene t
           in u\<lparr>wt_overview_surface := (if isl r then None else Some scene)\<rparr>))"

definition sync_visual_surfaces :: "('w, 'n, 'v) watch_env \<Rightarrow> 'w watch \<Rightarrow> 'w watch" where
  "sync_visual_surfaces env t =
     sync_overview_surface env (ensure_overview_surface env (sync_tab_indicator env t))"

section \<open>Commands\<close>

definition manual_domain_dispatch_spec :: "watch_command \<Rightarrow> correlation_id \<Rightarrow> (domain_event \<times> string) option" where
  "manual_domain_dispatch_spec c i =
     (case c of
        WatchFocusNext \<Rightarrow> Some (cmd_focus_next i WorkspaceStrip, ''manual-focus-next'')
      | WatchFocusPrev \<Rightarrow> Some (cmd_focus_prev i WorkspaceStrip, ''manual-focus-prev'')
      | WatchFocusWorkspaceUp \<Rightarrow> Some (cmd_focus_workspace_up i None, ''manual-focus-workspace-up'')
      | WatchFocusWorkspaceDown \<Rightarrow> Some (cmd_focus_workspace_down i None, ''manual-focus-workspace-down'')
      | WatchScrollLeft \<Rightarrow> Some (cmd_scroll_strip_left i WorkspaceStrip 0, ''manual-scroll-left'')
      | WatchScrollRight \<Rightarrow> Some (cmd_scroll_strip_right i WorkspaceStrip 0, ''manual-scroll-right'')
      | WatchMoveWorkspaceUp \<Rightarrow> Some (cmd_move_workspace_up i None, ''manual-move-workspace-up'')
      | WatchMoveWorkspaceDown \<Rightarrow> Some (cmd_move_workspace_down i None, ''manual-move-workspace-down'')
      | WatchMoveWorkspaceToMonitorNext \<Rightarrow>
          Some (cmd_move_workspace_to_monitor_next i None, ''manual-move-workspace-to-monitor-next'')
      | WatchMoveWorkspaceToMonitorPrevious \<Rightarrow>
          Some (cmd_move_workspace_to_monitor_previous i None, ''manual-move-workspace-to-monitor-previous'')
      | WatchMoveColumnToWorkspaceUp \<Rightarrow>
          Some (cmd_move_column_to_workspace_up i None, ''manual-move-column-to-workspace-up'')
      | WatchMoveColumnToWorkspaceDown \<Rightarrow>
          Some (cmd_move_column_to_workspace_down i None, ''manual-move-column-to-workspace-down'')
      | WatchCycleColumnWidth \<Rightarrow> Some (cmd_cycle_column_width i, ''manual-cycle-column-width'')
      | WatchToggleFloating \<Rightarrow> Some (cmd_toggle_floating i None, ''manual-toggle-floating'')
      | WatchToggleTabbed \<Rightarrow> Some (cmd_toggle_tabbed i None, ''manual-toggle-tabbed'')
      | WatchToggleMaximized \<Rightarrow> Some (cmd_toggle_maximized i None, ''manual-toggle-maximized'')
      | WatchToggleFullscreen \<Rightarrow> Some (cmd_toggle_fullscreen i None, ''manual-toggle-fullscreen'')
      | WatchOpenOverview \<Rightarrow> Some (cmd_open_overview i None, ''manual-open-overview'')
      | WatchCloseOverview \<Rightarrow> Some (cmd_close_overview i None, ''manual-close-overview'')
      | WatchToggleOverview \<Rightarrow> Some (cmd_toggle_overview i None, ''manual-toggle-overview'')
      | WatchOpenTerminal \<Rightarrow> None
      | WatchOpenWallpaperSelector \<Rightarrow> None
      | WatchCloseWindow \<Rightarrow> None
      | WatchReloadConfig \<Rightarrow> None
      | WatchSnapshot \<Rightarrow> None
      | WatchUnwind \<Rightarrow> None
      | WatchRescan \<Rightarrow> None
      | WatchQuit \<Rightarrow> None)"

text \<open>A cycle of the daemon that is reported when it succeeds and ends the watch when it fails.\<close>

definition reported_cycle ::
    "('w, 'n, 'v) watch_env \<Rightarrow> ('w, cycle_report) daemon_act \<Rightarrow> 'w watch \<Rightarrow> watch_flow \<times> 'w watch" where
  "reported_cycle env m t =
     (case run_daemon_act m t of
        (Inr _, u) \<Rightarrow> (FlowContinue, record_runtime_report env u)
      | (Inl _, u) \<Rightarrow> (FlowExit 1, u))"

definition dispatch_manual_domain_event ::
    "('w, 'n, 'v) watch_env \<Rightarrow> bool \<Rightarrow> domain_event \<Rightarrow> string \<Rightarrow> 'w watch \<Rightarrow> watch_flow \<times> 'w watch" where
  "dispatch_manual_domain_event env dry_run e label =
     reported_cycle env (dispatch_command (wv_platform env) e dry_run label)"

text \<open>A side effect whose failure is only logged.\<close>

definition run_manual_side_effect :: "('w \<Rightarrow> (string + unit) \<times> 'w) \<Rightarrow> 'w watch \<Rightarrow> watch_flow \<times> 'w watch" where
  "run_manual_side_effect f t = (FlowContinue, snd (world_call f t))"

definition open_or_close_wallpaper_selector :: "('w, 'n, 'v) watch_env \<Rightarrow> 'w watch \<Rightarrow> watch_flow \<times> 'w watch" where
  "open_or_close_wallpaper_selector env t =
     (case world_call (wv_close_wallpaper_selector env) t of
        (Inr True, u) \<Rightarrow> (FlowContinue, u)
      | (Inr False, u) \<Rightarrow> run_manual_side_effect (wv_open_wallpaper_selector env) u
      | (Inl _, u) \<Rightarrow> (FlowContinue, u))"

definition close_focused_window :: "('w, 'n, 'v) watch_env \<Rightarrow> 'w watch \<Rightarrow> watch_flow \<times> 'w watch" where
  "close_focused_window env t =
     (case focused_managed_hwnd (cd_store (wt_daemon t)) of
        None \<Rightarrow> (FlowContinue, t)
      | Some h \<Rightarrow> run_manual_side_effect (wv_close_window env h) t)"

definition reload_and_restart :: "('w, 'n, 'v) watch_env \<Rightarrow> bool \<Rightarrow> 'w watch \<Rightarrow> watch_flow \<times> 'w watch" where
  "reload_and_restart env dry_run t =
     (case run_daemon_act (reload_config (wv_platform env) dry_run) t of
        (Inl _, u) \<Rightarrow> (FlowExit 1, u)
      | (Inr _, u) \<Rightarrow>
          (case restart_input_listeners env u of
             (FlowContinue, v) \<Rightarrow> (FlowContinue, record_runtime_report env v)
           | (flow, v) \<Rightarrow> (flow, v)))"

text \<open>
  A correlation id is taken for every command, also for those that dispatch no event. The commands that
  dispatch one cannot get past the first case: the source says \<open>unreachable!\<close>, a panic, which ends the
  process with 101.
\<close>

definition handle_watch_command ::
    "('w, 'n, 'v) watch_env \<Rightarrow> bool \<Rightarrow> watch_command \<Rightarrow> 'w watch \<Rightarrow> watch_flow \<times> 'w watch" where
  "handle_watch_command env dry_run c t =
     (let (i, u) = take_manual_correlation_id t
      in case manual_domain_dispatch_spec c i of
           Some (e, label) \<Rightarrow> dispatch_manual_domain_event env dry_run e label u
         | None \<Rightarrow>
             if c = WatchOpenTerminal then run_manual_side_effect (wv_open_terminal env) u
             else if c = WatchOpenWallpaperSelector then open_or_close_wallpaper_selector env u
             else if c = WatchCloseWindow then close_focused_window env u
             else if c = WatchReloadConfig then reload_and_restart env dry_run u
             else if c = WatchSnapshot then (FlowContinue, u)
             else if c = WatchUnwind then
               (FlowContinue, snd (run_daemon_act (request_emergency_unwind (wv_platform env) ''manual-command'') u))
             else if c = WatchRescan then reported_cycle env (scan_and_sync (wv_platform env) dry_run) u
             else if c = WatchQuit then (FlowQuit, u)
             else (FlowExit 101, u))"

section \<open>The overview\<close>

definition and_sync_surfaces :: "('w, 'n, 'v) watch_env \<Rightarrow> watch_flow \<times> 'w watch \<Rightarrow> watch_flow \<times> 'w watch" where
  "and_sync_surfaces env = (\<lambda>(flow, t). if flow = FlowContinue then (flow, sync_visual_surfaces env t) else (flow, t))"

definition close_overview_reported ::
    "('w, 'n, 'v) watch_env \<Rightarrow> bool \<Rightarrow> string \<Rightarrow> 'w watch \<Rightarrow> watch_flow \<times> 'w watch" where
  "close_overview_reported env dry_run label t =
     (let (i, u) = take_manual_correlation_id t
      in and_sync_surfaces env
           (reported_cycle env (dispatch_command (wv_platform env) (cmd_close_overview i None) dry_run label) u))"

definition handle_overview_activate_window ::
    "('w, 'n, 'v) watch_env \<Rightarrow> bool \<Rightarrow> nat \<Rightarrow> 'w watch \<Rightarrow> watch_flow \<times> 'w watch" where
  "handle_overview_activate_window env dry_run h t =
     (if \<not> overview_activation_target_is_valid (cd_store (wt_daemon t)) h then (FlowContinue, t)
      else case close_overview_reported env dry_run ''overview-click-close-overview'' t of
        (FlowContinue, u) \<Rightarrow>
          if dry_run then (FlowContinue, u) else run_manual_side_effect (wv_activate_window env h) u
      | (flow, u) \<Rightarrow> (flow, u))"

definition handle_overview_dismiss ::
    "('w, 'n, 'v) watch_env \<Rightarrow> bool \<Rightarrow> 'w watch \<Rightarrow> watch_flow \<times> 'w watch" where
  "handle_overview_dismiss env dry_run t =
     (if \<not> ov_is_open (overview (cd_store (wt_daemon t))) then (FlowContinue, t)
      else close_overview_reported env dry_run ''overview-dismiss-close-overview'' t)"

definition handle_overview_move_column ::
    "('w, 'n, 'v) watch_env \<Rightarrow> bool \<Rightarrow> nat \<Rightarrow> workspace_id \<Rightarrow> nat option \<Rightarrow> 'w watch \<Rightarrow> watch_flow \<times> 'w watch" where
  "handle_overview_move_column env dry_run dragged target anchor t =
     (let s = cd_store (wt_daemon t)
      in if \<not> overview_workspace_target_is_valid s target then (FlowContinue, t)
         else case overview_drag_source_column_id s dragged of
           None \<Rightarrow> (FlowContinue, t)
         | Some source \<Rightarrow>
        (case overview_drop_anchor_column_id s target anchor of
           None \<Rightarrow> (FlowContinue, t)
         | Some after \<Rightarrow>
             (let (i, u) = take_manual_correlation_id t
              in and_sync_surfaces env
                   (reported_cycle env
                     (dispatch_command (wv_platform env) (cmd_move_column_to_workspace_target i source target after)
                       dry_run ''overview-drag-drop-column'') u))))"

section \<open>Requests and messages\<close>

text \<open>A successful reload restarts the listeners before the response is sent.\<close>

definition answer_ipc_request ::
    "('w, 'n, 'v) watch_env \<Rightarrow> bool \<Rightarrow> 'v ipc_request \<Rightarrow> 'w watch \<Rightarrow> watch_flow \<times> 'w watch" where
  "answer_ipc_request env dry_run q t =
     (let ((response, should_broadcast), d, n) =
            handle_ipc_request (wv_ipc env) dry_run q (wt_daemon t, wt_manual_correlation_id t);
          t1 = t\<lparr>wt_daemon := d, wt_manual_correlation_id := n\<rparr>
      in case (if iq_command q = ''reload_config'' \<and> ir_ok response
               then restart_input_listeners env t1 else (FlowContinue, t1)) of
           (FlowContinue, t2) \<Rightarrow>
             (let t3 = t2\<lparr>wt_responses := response # wt_responses t2\<rparr>
              in (FlowContinue, if should_broadcast then maybe_broadcast_state env t3 else t3))
         | (flow, t2) \<Rightarrow> (flow, t2))"

text \<open>A new subscriber, whose receiver may be gone already.\<close>

definition subscribe_events :: "('w, 'n, 'v) watch_env \<Rightarrow> bool \<Rightarrow> 'w watch \<Rightarrow> watch_flow \<times> 'w watch" where
  "subscribe_events env alive t =
     (let ((ok, b), d, v) =
            send_initial_snapshot (wv_ipc env) \<lparr>sb_alive = alive, sb_lines = []\<rparr> (wt_daemon t, wt_stream_version t);
          u = t\<lparr>wt_daemon := d, wt_stream_version := v\<rparr>
      in (FlowContinue, if ok then u\<lparr>wt_event_subscribers := wt_event_subscribers u @ [b]\<rparr> else u))"

fun handle_control_message ::
    "('w, 'n, 'v) watch_env \<Rightarrow> bool \<Rightarrow> 'v control_message \<Rightarrow> 'w watch \<Rightarrow> watch_flow \<times> 'w watch" where
  "handle_control_message env dry_run (WatchMessage c) t = handle_watch_command env dry_run c t"
| "handle_control_message env dry_run (OverviewActivateWindow h) t = handle_overview_activate_window env dry_run h t"
| "handle_control_message env dry_run OverviewDismiss t = handle_overview_dismiss env dry_run t"
| "handle_control_message env dry_run (OverviewMoveColumn h w a) t =
     handle_overview_move_column env dry_run h w a t"
| "handle_control_message env dry_run (IpcRequestMessage q) t = answer_ipc_request env dry_run q t"
| "handle_control_message env dry_run (EventSubscribe alive) t = subscribe_events env alive t"

end
