(* ===== verification/Command_Line.thy ===== *)
theory Command_Line
  imports Rust_Text Domain_Model Machine_Int
begin

text \<open>
  The command lines of the daemon (\<open>apps/core-daemon/src/cli.rs\<close>) and of the client
  (\<open>apps/cli/src/main.rs\<close>).
\<close>

section \<open>The daemon\<close>

datatype daemon_command =
    CmdBootstrap runtime_mode
  | CmdRunOnce runtime_mode bool
  | CmdWatch runtime_mode bool nat "nat option" bool

record runtime_flags =
  rf_mode :: runtime_mode
  rf_dry_run :: bool
  rf_interval_ms :: nat
  rf_iterations :: "nat option"
  rf_poll_only :: bool

definition runtime_flags_default :: runtime_flags where
  "runtime_flags_default =
     \<lparr>rf_mode = WmOnly, rf_dry_run = False, rf_interval_ms = 750, rf_iterations = None, rf_poll_only = False\<rparr>"

definition parse_u64 :: "string \<Rightarrow> nat option" where
  "parse_u64 v =
     filter_opt (\<lambda>n. n \<le> u64_max)
       (parse_digits (if first v = Some (CHR ''+'') then tl v else v))"

definition quoted_argument :: "string \<Rightarrow> string" where
  "quoted_argument v = [CHR 0x27] @ v @ [CHR 0x27]"

fun parse_runtime_flags_from :: "string list \<Rightarrow> runtime_flags \<Rightarrow> string + runtime_flags" where
  "parse_runtime_flags_from [] f = Inr f"
| "parse_runtime_flags_from (a # as) f =
     (if a = ''--dry-run'' then parse_runtime_flags_from as (f\<lparr>rf_dry_run := True\<rparr>)
      else if a = ''--poll-only'' then parse_runtime_flags_from as (f\<lparr>rf_poll_only := True\<rparr>)
      else if a = ''--interval-ms'' then
        (case as of
           [] \<Rightarrow> Inl ''--interval-ms expects a value''
         | v # rest \<Rightarrow>
             (case parse_u64 v of
                None \<Rightarrow> Inl (''invalid --interval-ms value '' @ quoted_argument v)
              | Some n \<Rightarrow> parse_runtime_flags_from rest (f\<lparr>rf_interval_ms := n\<rparr>)))
      else if a = ''--iterations'' then
        (case as of
           [] \<Rightarrow> Inl ''--iterations expects a value''
         | v # rest \<Rightarrow>
             (case parse_u64 v of
                None \<Rightarrow> Inl (''invalid --iterations value '' @ quoted_argument v)
              | Some n \<Rightarrow> parse_runtime_flags_from rest (f\<lparr>rf_iterations := Some n\<rparr>)))
      else case runtime_mode_parse a of
             None \<Rightarrow> Inl (''unsupported runtime mode '' @ quoted_argument a)
           | Some m \<Rightarrow> parse_runtime_flags_from as (f\<lparr>rf_mode := m\<rparr>))"

definition parse_runtime_flags :: "string list \<Rightarrow> string + runtime_flags" where
  "parse_runtime_flags as = parse_runtime_flags_from as runtime_flags_default"

definition parse_runtime_mode_flags :: "string list \<Rightarrow> string + runtime_mode" where
  "parse_runtime_mode_flags as = bindE (parse_runtime_flags as) (\<lambda>f. Inr (rf_mode f))"

definition watch_command_of :: "runtime_flags \<Rightarrow> daemon_command" where
  "watch_command_of f =
     CmdWatch (rf_mode f) (rf_dry_run f) (rf_interval_ms f) (rf_iterations f) (rf_poll_only f)"

definition default_watch_command :: "string list \<Rightarrow> string + daemon_command" where
  "default_watch_command as = bindE (parse_runtime_flags as) (\<lambda>f. Inr (watch_command_of f))"

definition parse_daemon_command :: "string list \<Rightarrow> string + daemon_command" where
  "parse_daemon_command as =
     (case as of
        [] \<Rightarrow> default_watch_command []
      | a # rest \<Rightarrow>
          if a = ''bootstrap'' then bindE (parse_runtime_mode_flags rest) (\<lambda>m. Inr (CmdBootstrap m))
          else if a = ''run-once'' then
            bindE (parse_runtime_flags rest) (\<lambda>f. Inr (CmdRunOnce (rf_mode f) (rf_dry_run f)))
          else if a = ''watch'' then bindE (parse_runtime_flags rest) (\<lambda>f. Inr (watch_command_of f))
          else if prefix ''-'' a \<or> runtime_mode_parse a \<noteq> None then default_watch_command as
          else Inl (''unsupported command '' @ quoted_argument a))"

section \<open>The client\<close>

datatype cli_command = CliHelp | CliStatus | CliSnapshot | CliPerf | CliEvents | CliCommand string

text \<open>The commands that go to the daemon as they are, with an empty payload.\<close>

definition simple_commands :: "(string \<times> string) list" where
  "simple_commands =
     [(''focus-next'', ''focus_next''), (''focus-prev'', ''focus_prev''),
      (''focus-workspace-up'', ''focus_workspace_up''), (''focus-workspace-down'', ''focus_workspace_down''),
      (''scroll-left'', ''scroll_strip_left''), (''scroll-right'', ''scroll_strip_right''),
      (''move-workspace-up'', ''move_workspace_up''), (''move-workspace-down'', ''move_workspace_down''),
      (''move-workspace-to-monitor-next'', ''move_workspace_to_monitor_next''),
      (''move-workspace-to-monitor-previous'', ''move_workspace_to_monitor_previous''),
      (''move-column-to-workspace-up'', ''move_column_to_workspace_up''),
      (''move-column-to-workspace-down'', ''move_column_to_workspace_down''),
      (''cycle-column-width'', ''cycle_column_width''), (''toggle-floating'', ''toggle_floating''),
      (''toggle-tabbed'', ''toggle_tabbed''), (''toggle-maximized'', ''toggle_maximized''),
      (''toggle-fullscreen'', ''toggle_fullscreen''), (''open-overview'', ''open_overview''),
      (''close-overview'', ''close_overview''), (''toggle-overview'', ''toggle_overview''),
      (''reload-config'', ''reload_config''), (''dump-diagnostics'', ''dump_diagnostics'')]"

definition parse_cli_command :: "string list \<Rightarrow> string + cli_command" where
  "parse_cli_command as =
     (case as of
        [] \<Rightarrow> Inr CliHelp
      | a # _ \<Rightarrow>
          if a = ''help'' \<or> a = ''--help'' then Inr CliHelp
          else if a = ''status'' then Inr CliStatus
          else if a = ''snapshot'' then Inr CliSnapshot
          else if a = ''perf'' then Inr CliPerf
          else if a = ''events'' then Inr CliEvents
          else (case map_of simple_commands a of
                  Some c \<Rightarrow> Inr (CliCommand c)
                | None \<Rightarrow> Inl (''unsupported command '' @ quoted_argument a)))"

end
