(* ===== verification/Watch_Loop.thy ===== *)
theory Watch_Loop
  imports Watch_Control Command_Line Observer_Loop
begin

text \<open>
  The watch loop of the daemon: \<open>watch.rs\<close>, \<open>watch/startup.rs\<close>, \<open>watch/runtime_cycle.rs\<close> and the start
  in \<open>main.rs\<close> of \<open>apps/core-daemon/src\<close>. One round drains the messages, lets the resize gesture tick
  and runs a cycle of the daemon on an observation or a poll. The messages, the answer of the observer's
  channel and the queries of the gesture at each round are its input.
\<close>

section \<open>Start\<close>

text \<open>The calls of the start: whether the observer, the gesture and the surfaces could be started.\<close>

record 'w startup_env =
  su_spawn_observer :: "observation_options \<Rightarrow> 'w \<Rightarrow> (adapter_error + unit) \<times> 'w"
  su_spawn_manual_resize :: "'w \<Rightarrow> (string + unit) \<times> 'w"
  su_spawn_tab_indicator :: "'w \<Rightarrow> (string + unit) \<times> 'w"

definition start_observer :: "'w startup_env \<Rightarrow> bool \<Rightarrow> nat \<Rightarrow> 'w watch \<Rightarrow> bool \<times> 'w watch" where
  "start_observer su poll_only interval_ms t =
     (if poll_only then (False, t)
      else let (r, u) = world_call (su_spawn_observer su
                 (observation_options_default\<lparr>oo_fallback_scan_interval_ms := max interval_ms 1000\<rparr>)) t
           in (\<not> isl r, u))"

definition initialize_watch_startup ::
    "('w, 'n, 'v) watch_env \<Rightarrow> 'w startup_env \<Rightarrow> bool \<Rightarrow> nat \<Rightarrow> 'w watch \<Rightarrow> nat option \<times> 'w watch" where
  "initialize_watch_startup env su poll_only interval_ms t =
     (let (live, t0) = start_observer su poll_only interval_ms t;
          t1 = t0\<lparr>wt_observer := live\<rparr>
      in case start_hotkey_listener env t1 of
           (Inl _, t2) \<Rightarrow> (Some 1, t2)
         | (Inr hotkeys, t2) \<Rightarrow>
        (case start_touchpad_listener env t2 of
           (Inl _, t3) \<Rightarrow> (Some 1, t3)
         | (Inr touchpad, t3) \<Rightarrow>
        (case world_call (su_spawn_manual_resize su) t3 of
           (Inl _, t4) \<Rightarrow> (Some 1, t4)
         | (Inr _, t4) \<Rightarrow>
             let (tab, t5) = world_call (su_spawn_tab_indicator su) t4;
                 (surface, t6) = world_call (wv_overview_spawn env) t5
             in (None, t6\<lparr>wt_hotkey_listener := hotkeys, wt_touchpad_listener := touchpad,
                          wt_manual_resize := manual_resize_new,
                          wt_tab_indicator := (if isl tab then None else Some None),
                          wt_overview_surface := (if isl surface then None else Some None)\<rparr>))))"

definition watch_of :: "'w daemon \<Rightarrow> 'w watch" where
  "watch_of d =
     \<lparr>wt_daemon = d, wt_completed_iterations = 0, wt_manual_correlation_id = 1, wt_event_subscribers = [],
      wt_stream_version = 1, wt_last_streamed_state_version = rs_state_version (runtime (cd_store d)),
      wt_responses = [], wt_hotkey_listener = False, wt_touchpad_listener = False, wt_tab_indicator = None,
      wt_overview_surface = None, wt_manual_resize = manual_resize_new, wt_observer = False,
      wt_next_poll_deadline = 0\<rparr>"

section \<open>A cycle of the daemon\<close>

datatype runtime_cycle_flow = NoWork | IterationRecorded

definition watch_now :: "('w, 'n, 'v) watch_env \<Rightarrow> 'w watch \<Rightarrow> nat \<times> 'w watch" where
  "watch_now env = world_call (pf_now (wv_platform env))"

text \<open>The first observation: its failure falls back to polling, an error of the daemon ends the watch.\<close>

definition process_initial_live_snapshot ::
    "('w, 'n, 'v) watch_env \<Rightarrow> bool \<Rightarrow> bool \<times> channel_answer \<Rightarrow> 'w watch \<Rightarrow> nat option \<times> 'w watch" where
  "process_initial_live_snapshot env dry_run = (\<lambda>(finished, answer) t.
     if \<not> wt_observer t then (None, t)
     else case recv_timeout finished answer of
       Inl _ \<Rightarrow> (None, t\<lparr>wt_observer := False\<rparr>)
     | Inr ob \<Rightarrow>
         (case run_daemon_act (apply_observation (wv_platform env) ob dry_run) t of
            (Inr (Some _), u) \<Rightarrow> (None, record_runtime_report env u)
          | (Inr None, u) \<Rightarrow> (None, u)
          | (Inl _, u) \<Rightarrow> (Some 1, u)))"

text \<open>The end of a cycle: what it reported, whether it polled, and the next deadline then.\<close>

definition finish_cycle ::
    "('w, 'n, 'v) watch_env \<Rightarrow> nat \<Rightarrow> bool \<Rightarrow> (runtime_error + cycle_report option) \<times> 'w watch \<Rightarrow>
     (nat + runtime_cycle_flow) \<times> 'w watch" where
  "finish_cycle env poll_interval advanced = (\<lambda>(result, t).
     case result of
       Inl _ \<Rightarrow> (Inl 1, t)
     | Inr None \<Rightarrow> (Inr NoWork, t)
     | Inr (Some _) \<Rightarrow>
         (let u = record_runtime_report env t
          in if \<not> wt_observer u \<and> advanced
             then (let (now, v) = watch_now env u
                   in (Inr IterationRecorded, v\<lparr>wt_next_poll_deadline := now + poll_interval\<rparr>))
             else (Inr IterationRecorded, u)))"

definition poll_cycle ::
    "('w, 'n, 'v) watch_env \<Rightarrow> bool \<Rightarrow> 'w watch \<Rightarrow> (runtime_error + cycle_report option) \<times> 'w watch" where
  "poll_cycle env dry_run t = run_daemon_act (bindA (scan_and_sync (wv_platform env) dry_run) (\<lambda>r. ret (Some r))) t"

definition run_runtime_cycle ::
    "('w, 'n, 'v) watch_env \<Rightarrow> bool \<Rightarrow> nat \<Rightarrow> bool \<times> channel_answer \<Rightarrow> 'w watch \<Rightarrow>
     (nat + runtime_cycle_flow) \<times> 'w watch" where
  "run_runtime_cycle env dry_run poll_interval = (\<lambda>(finished, answer) t.
     if wt_observer t then
       (case recv_timeout finished answer of
          Inr ob \<Rightarrow> finish_cycle env poll_interval False (run_daemon_act (apply_observation (wv_platform env) ob dry_run) t)
        | Inl StreamTimeout \<Rightarrow> (Inr NoWork, t)
        | Inl _ \<Rightarrow>
            (let (result, u) = poll_cycle env dry_run t
             in finish_cycle env poll_interval True (result, u\<lparr>wt_observer := False\<rparr>)))
     else
       let (now, u) = watch_now env t
       in if now < wt_next_poll_deadline u then (Inr NoWork, u)
          else finish_cycle env poll_interval True (poll_cycle env dry_run u))"

section \<open>The loop\<close>

record 'v round_input =
  rn_messages :: "'v control_message list"
  rn_mouse :: "mouse_input list"
  rn_resize :: resize_input
  rn_stream :: "bool \<times> channel_answer"

text \<open>The arguments of the watch: dry run, the poll interval in nanoseconds and the iteration limit.\<close>

record watch_options =
  wo_dry_run :: bool
  wo_poll_interval :: nat
  wo_iterations :: "nat option"

definition limit_reached :: "watch_options \<Rightarrow> 'w watch \<Rightarrow> bool" where
  "limit_reached opts t \<longleftrightarrow>
     (case wo_iterations opts of None \<Rightarrow> False | Some limit \<Rightarrow> limit \<le> wt_completed_iterations t)"

text \<open>The result of a part of a round: the exit code, or none to go on.\<close>

fun drain_messages ::
    "('w, 'n, 'v) watch_env \<Rightarrow> watch_options \<Rightarrow> 'v control_message list \<Rightarrow> 'w watch \<Rightarrow> nat option \<times> 'w watch" where
  "drain_messages env opts [] t = (None, t)"
| "drain_messages env opts (m # ms) t =
     (case handle_control_message env (wo_dry_run opts) m t of
        (FlowContinue, u) \<Rightarrow> if limit_reached opts u then (Some 0, u) else drain_messages env opts ms u
      | (FlowQuit, u) \<Rightarrow> (Some 0, u)
      | (FlowExit code, u) \<Rightarrow> (Some code, u))"

definition resize_round ::
    "('w, 'n, 'v) watch_env \<Rightarrow> watch_options \<Rightarrow> mouse_input list \<Rightarrow> resize_input \<Rightarrow> 'w watch \<Rightarrow> nat option \<times> 'w watch" where
  "resize_round env opts ms inp t =
     (let (r, d, m) = tick (wv_platform env) inp (wo_dry_run opts) (wt_daemon t, hook_messages ms (wt_manual_resize t));
          u = t\<lparr>wt_daemon := d, wt_manual_resize := m\<rparr>
      in case r of
           Inr (Some _) \<Rightarrow>
             (let v = record_runtime_report env u in (if limit_reached opts v then Some 0 else None, v))
         | Inr None \<Rightarrow> (None, u)
         | Inl _ \<Rightarrow> (Some 1, u))"

definition cycle_round ::
    "('w, 'n, 'v) watch_env \<Rightarrow> watch_options \<Rightarrow> bool \<times> channel_answer \<Rightarrow> 'w watch \<Rightarrow> nat option \<times> 'w watch" where
  "cycle_round env opts stream t =
     (case run_runtime_cycle env (wo_dry_run opts) (wo_poll_interval opts) stream t of
        (Inr NoWork, u) \<Rightarrow> (None, u)
      | (Inr IterationRecorded, u) \<Rightarrow> (if limit_reached opts u then Some 0 else None, u)
      | (Inl code, u) \<Rightarrow> (Some code, u))"

definition and_then :: "nat option \<times> 't \<Rightarrow> ('t \<Rightarrow> nat option \<times> 't) \<Rightarrow> nat option \<times> 't" where
  "and_then r f = (case r of (None, t) \<Rightarrow> f t | (Some code, t) \<Rightarrow> (Some code, t))"

definition watch_round ::
    "('w, 'n, 'v) watch_env \<Rightarrow> watch_options \<Rightarrow> 'v round_input \<Rightarrow> 'w watch \<Rightarrow> nat option \<times> 'w watch" where
  "watch_round env opts inp t =
     and_then (drain_messages env opts (rn_messages inp) (sync_visual_surfaces env t)) (\<lambda>u.
     and_then (resize_round env opts (rn_mouse inp) (rn_resize inp) u)
       (cycle_round env opts (rn_stream inp)))"

fun watch_rounds ::
    "('w, 'n, 'v) watch_env \<Rightarrow> watch_options \<Rightarrow> 'v round_input list \<Rightarrow> 'w watch \<Rightarrow> nat option \<times> 'w watch" where
  "watch_rounds env opts [] t = (None, t)"
| "watch_rounds env opts (inp # inps) t = and_then (watch_round env opts inp t) (watch_rounds env opts inps)"

definition watch_prelude ::
    "('w, 'n, 'v) watch_env \<Rightarrow> watch_options \<Rightarrow> bool \<times> channel_answer \<Rightarrow> 'w watch \<Rightarrow> nat option \<times> 'w watch" where
  "watch_prelude env opts first_answer t =
     and_then (process_initial_live_snapshot env (wo_dry_run opts) first_answer (sync_visual_surfaces env t)) (\<lambda>u.
       (if limit_reached opts u then Some 0 else None, u))"

definition run_watch ::
    "('w, 'n, 'v) watch_env \<Rightarrow> 'w startup_env \<Rightarrow> bool \<Rightarrow> nat \<Rightarrow> nat option \<Rightarrow> bool \<Rightarrow> 'w daemon \<Rightarrow>
     bool \<times> channel_answer \<Rightarrow> 'v round_input list \<Rightarrow> nat option \<times> 'w watch" where
  "run_watch env su dry_run interval_ms iterations poll_only d first_answer inps =
     (let t = watch_of d;
          cfg = cd_active_config d;
          setting = ev_touch_setting (wv_ipc env) (ad_world (cd_adapter d));
          opts = \<lparr>wo_dry_run = dry_run, wo_poll_interval = millis (max interval_ms 1), wo_iterations = iterations\<rparr>
      in if isl (ensure_bind_control_mode_supported (cfg_bind_control_mode (lc_projection cfg))) then (Some 1, t)
         else if isl (ensure_touchpad_override_supported setting (lc_touchpad cfg)) then (Some 1, t)
         else and_then (initialize_watch_startup env su poll_only interval_ms t) (\<lambda>t1.
           let (now, t2) = watch_now env t1
           in and_then (watch_prelude env opts first_answer (t2\<lparr>wt_next_poll_deadline := now\<rparr>))
                (watch_rounds env opts inps)))"

section \<open>The process\<close>

text \<open>\<open>main.rs\<close> after its DPI check: a command line that does not parse ends it with 2.\<close>

definition run_once :: "('w, 'n, 'v) watch_env \<Rightarrow> bool \<Rightarrow> 'w daemon \<Rightarrow> nat \<times> 'w daemon" where
  "run_once env dry_run d =
     (let cfg = cd_active_config d;
          setting = ev_touch_setting (wv_ipc env) (ad_world (cd_adapter d))
      in if isl (ensure_bind_control_mode_supported (cfg_bind_control_mode (lc_projection cfg))) then (1, d)
         else if isl (ensure_touchpad_override_supported setting (lc_touchpad cfg)) then (1, d)
         else case scan_and_sync (wv_platform env) dry_run d of
           (Inr _, d') \<Rightarrow> (0, d')
         | (Inl _, d') \<Rightarrow> (1, d'))"

end
