(* ===== verification/Watch_Properties.thy ===== *)
theory Watch_Properties
  imports Watch_Loop Runtime_Preserve
begin

text \<open>
  The watch loop as a whole: whatever messages, observations and mouse events arrive, the daemon stays
  sound, no message panics, and every subscriber sees the event stream in order.
\<close>

section \<open>The daemon\<close>

named_theorems watch_simps "parts of the watch loop that only touch the world or the bookkeeping"

lemma world_call_fields [watch_simps]:
  assumes "world_call f t = (x, u)"
  shows "daemon_ok (wt_daemon u) = daemon_ok (wt_daemon t)" "cd_store (wt_daemon u) = cd_store (wt_daemon t)"
    "wt_event_subscribers u = wt_event_subscribers t" "wt_stream_version u = wt_stream_version t"
  using assms by (auto simp: world_call_def on_world_def split: prod.splits)

section \<open>The event stream\<close>

lemma event_lines_run:
  assumes "event_lines pf sv ks (d, v) = (ls, d', v')"
  shows "daemon_ok d' = daemon_ok d \<and> cd_store d' = cd_store d \<and>
    map ip_event_kind ls = map fst ks \<and> (\<forall>l \<in> set ls. ip_state_version l = sv) \<and>
    (v' < u64_max \<longrightarrow> v \<le> v' \<and> map ip_stream_version ls = [v..<v'])"
  using assms
proof (induction ks arbitrary: d v ls)
  case (Cons k ks)
  obtain l d1 v1 where one: "event_line pf sv k (d, v) = (l, d1, v1)" by (cases "event_line pf sv k (d, v)")
  obtain ls1 where rest: "event_lines pf sv ks (d1, v1) = (ls1, d', v')" and ls: "ls = l # ls1"
    using Cons.prems one by (auto split: prod.splits)
  have l: "ip_stream_version l = v" "ip_event_kind l = fst k" "ip_state_version l = sv"
    "daemon_ok d1 = daemon_ok d" "cd_store d1 = cd_store d" "v1 = u64_sat_add v 1"
    using one by (auto simp: event_line_def split: prod.splits)
  note tail = Cons.IH [OF rest]
  have "v \<le> v' \<and> map ip_stream_version ls = [v..<v']" if top: "v' < u64_max"
  proof -
    have "v1 \<le> v'" using tail top by simp
    then have "v1 = Suc v" using top by (simp add: l(6) u64_sat_add_def min_def split: if_splits)
    then show ?thesis using tail top \<open>v1 \<le> v'\<close> by (simp add: ls l upt_conv_Cons)
  qed
  then show ?case using tail by (simp add: ls l)
qed simp

text \<open>The lines of a subscriber, newest first, all below the next stream version.\<close>

definition stream_ok :: "nat \<Rightarrow> subscriber \<Rightarrow> bool" where
  "stream_ok v b \<longleftrightarrow>
     sorted_wrt (>) (map ip_stream_version (sb_lines b)) \<and> (\<forall>l \<in> set (sb_lines b). ip_stream_version l < v) \<and>
     map ip_event_kind (take 3 (rev (sb_lines b))) = [''snapshot_begin'', ''snapshot_state'', ''snapshot_end'']"

lemma stream_ok_mono: "stream_ok v b \<Longrightarrow> v \<le> v' \<Longrightarrow> stream_ok v' b"
  by (fastforce simp: stream_ok_def)

lemma sorted_down: "sorted_wrt (>) (rev [a..<b])"
  by (simp add: sorted_wrt_rev)

lemma stream_ok_sent:
  assumes "stream_ok v b" "map ip_stream_version ls = [v..<v']" "v \<le> v'"
  shows "stream_ok v' (b\<lparr>sb_lines := rev ls @ sb_lines b\<rparr>)"
proof -
  have range: "v \<le> ip_stream_version l \<and> ip_stream_version l < v'" if "l \<in> set ls" for l
  proof -
    have "ip_stream_version l \<in> set [v..<v']" using that assms(2) by (metis image_eqI list.set_map)
    then show ?thesis by simp
  qed
  have "map ip_stream_version (rev ls) = rev [v..<v']" using assms(2) by (simp flip: rev_map)
  moreover have "\<forall>l \<in> set (sb_lines b). \<forall>k \<in> set ls. ip_stream_version l < ip_stream_version k"
    using range assms(1) by (fastforce simp: stream_ok_def)
  moreover have "3 \<le> length (sb_lines b)"
  proof -
    have "length (take 3 (rev (sb_lines b))) = 3"
      using arg_cong [where f = length, OF assms(1) [unfolded stream_ok_def, THEN conjunct2, THEN conjunct2]] by simp
    then show ?thesis by simp
  qed
  ultimately show ?thesis
    using assms range by (fastforce simp: stream_ok_def sorted_wrt_append sorted_down)
qed

lemma stream_ok_start:
  assumes "map ip_stream_version ls = [v..<v']" "v \<le> v'"
    and "map ip_event_kind ls = [''snapshot_begin'', ''snapshot_state'', ''snapshot_end'']"
  shows "stream_ok v' \<lparr>sb_alive = a, sb_lines = rev ls\<rparr>"
proof -
  have "length ls = 3" using arg_cong [where f = length, OF assms(3)] by simp
  moreover have "ip_stream_version l < v'" if "l \<in> set ls" for l
  proof -
    have "ip_stream_version l \<in> set [v..<v']" using that assms(1) by (metis image_eqI list.set_map)
    then show ?thesis by simp
  qed
  moreover have "map ip_stream_version (rev ls) = rev [v..<v']" using assms(1) by (simp flip: rev_map)
  ultimately show ?thesis using assms by (simp add: stream_ok_def sorted_down)
qed

definition streams_ok :: "nat \<Rightarrow> subscriber list \<Rightarrow> bool" where
  "streams_ok v subs \<longleftrightarrow> (v < u64_max \<longrightarrow> list_all (stream_ok v) subs)"

lemma broadcast_run:
  assumes "broadcast_runtime_delta env subs (d, v) = (subs', d', v')" "streams_ok v subs"
  shows "daemon_ok d' = daemon_ok d \<and> cd_store d' = cd_store d \<and> streams_ok v' subs'"
proof -
  obtain ls where lines: "event_lines (ev_platform env) (sp_state_version (project_snapshot env d))
      (delta_payloads (project_snapshot env d)) (d, v) = (ls, d', v')"
    and subs': "subs' = map snd (filter fst (map (send_lines ls) subs))"
    using assms(1) by (auto simp: broadcast_runtime_delta_def Let_def split: prod.splits)
  note run = event_lines_run [OF lines]
  have "list_all (stream_ok v') subs'" if top: "v' < u64_max"
  proof -
    have "v < u64_max" using run top by simp
    then have "stream_ok v b" if "b \<in> set subs" for b using assms(2) that by (simp add: streams_ok_def list_all_iff)
    then have "stream_ok v' (b\<lparr>sb_lines := rev ls @ sb_lines b\<rparr>)" if "b \<in> set subs" for b
      using run top that stream_ok_sent by blast
    then show ?thesis by (auto simp: subs' list_all_iff send_lines_def split: if_splits)
  qed
  then show ?thesis using run by (simp add: streams_ok_def)
qed

lemma subscribed_run:
  assumes "send_initial_snapshot env \<lparr>sb_alive = a, sb_lines = []\<rparr> (d, v) = ((ok, b), d', v')"
    and "streams_ok v subs"
  shows "daemon_ok d' = daemon_ok d \<and> cd_store d' = cd_store d \<and> streams_ok v' subs \<and>
    (ok \<longrightarrow> streams_ok v' (subs @ [b]))"
proof -
  obtain ls where lines: "event_lines (ev_platform env) (sp_state_version (project_snapshot env d))
      [(''snapshot_begin'', NoPayload), (''snapshot_state'', SnapshotPayload (project_snapshot env d)),
       (''snapshot_end'', NoPayload)] (d, v) = (ls, d', v')"
    and sent: "send_lines ls \<lparr>sb_alive = a, sb_lines = []\<rparr> = (ok, b)"
    using assms(1) by (auto simp: send_initial_snapshot_def Let_def split: prod.splits)
  note run = event_lines_run [OF lines]
  have old: "list_all (stream_ok v') subs" if "v' < u64_max"
    using run that assms(2) stream_ok_mono by (fastforce simp: streams_ok_def list_all_iff)
  moreover have "stream_ok v' b" if "v' < u64_max" ok
    using run that sent stream_ok_start [of ls v v' a] by (auto simp: send_lines_def split: if_splits)
  ultimately show ?thesis using run by (simp add: streams_ok_def)
qed

section \<open>Parts of the loop\<close>

definition watch_ok :: "'w watch \<Rightarrow> bool" where
  "watch_ok t \<longleftrightarrow> daemon_ok (wt_daemon t) \<and> streams_ok (wt_stream_version t) (wt_event_subscribers t)"

definition keeps :: "('w watch \<Rightarrow> 'a \<times> 'w watch) \<Rightarrow> bool" where
  "keeps f \<longleftrightarrow> (\<forall>t. watch_ok t \<longrightarrow> watch_ok (snd (f t)))"

lemma keeps_rule: "keeps f \<Longrightarrow> f t = (x, u) \<Longrightarrow> watch_ok t \<Longrightarrow> watch_ok u"
  by (auto simp: keeps_def dest!: spec [of _ t])

lemma watch_ok_other [simp]:
  "watch_ok (t\<lparr>wt_completed_iterations := n\<rparr>) = watch_ok t"
  "watch_ok (t\<lparr>wt_manual_correlation_id := n\<rparr>) = watch_ok t"
  "watch_ok (t\<lparr>wt_last_streamed_state_version := n\<rparr>) = watch_ok t"
  "watch_ok (t\<lparr>wt_responses := rs\<rparr>) = watch_ok t" "watch_ok (t\<lparr>wt_hotkey_listener := b\<rparr>) = watch_ok t"
  "watch_ok (t\<lparr>wt_touchpad_listener := b\<rparr>) = watch_ok t" "watch_ok (t\<lparr>wt_tab_indicator := k\<rparr>) = watch_ok t"
  "watch_ok (t\<lparr>wt_overview_surface := o'\<rparr>) = watch_ok t" "watch_ok (t\<lparr>wt_manual_resize := m\<rparr>) = watch_ok t"
  "watch_ok (t\<lparr>wt_observer := b\<rparr>) = watch_ok t" "watch_ok (t\<lparr>wt_next_poll_deadline := n\<rparr>) = watch_ok t"
  by (simp_all add: watch_ok_def)

lemma watch_ok_daemon: "watch_ok t \<Longrightarrow> daemon_ok d \<Longrightarrow> watch_ok (t\<lparr>wt_daemon := d\<rparr>)"
  by (simp add: watch_ok_def)

lemma keeps_world: "keeps (world_call f)"
  by (auto simp: keeps_def watch_ok_def world_call_def on_world_def split: prod.splits)

lemma keeps_daemon_act: "preserves daemon_ok m \<Longrightarrow> keeps (run_daemon_act m)"
  by (auto simp: keeps_def watch_ok_def run_daemon_act_def dest: preservesD split: prod.splits)

lemma broadcast_ok:
  assumes "watch_ok t"
  shows "watch_ok (maybe_broadcast_state env t)"
proof -
  obtain subs d v where b:
    "broadcast_runtime_delta (wv_ipc env) (wt_event_subscribers t) (wt_daemon t, wt_stream_version t) = (subs, d, v)"
    using prod_cases3 by blast
  then show ?thesis
    using assms broadcast_run [OF b] by (auto simp: maybe_broadcast_state_def Let_def watch_ok_def)
qed

lemma report_ok: "watch_ok t \<Longrightarrow> watch_ok (record_runtime_report env t)"
  by (simp add: record_runtime_report_def broadcast_ok)

lemma keeps_hotkeys: "keeps (start_hotkey_listener env)"
  unfolding start_hotkey_listener_def keeps_def Let_def
  using keeps_world by (auto simp: keeps_def split: sum.split)

lemma keeps_touchpad: "keeps (start_touchpad_listener env)"
  unfolding start_touchpad_listener_def keeps_def Let_def
  by (auto split: sum.split touchpad_error.split option.split prod.split dest: keeps_rule [OF keeps_world])

lemma keeps_restart: "keeps (restart_input_listeners env)"
  unfolding restart_input_listeners_def keeps_def
  by (auto split: sum.split prod.split dest: keeps_rule [OF keeps_hotkeys] keeps_rule [OF keeps_touchpad])

lemma keeps_tab: "watch_ok t \<Longrightarrow> watch_ok (sync_tab_indicator env t)"
  by (auto simp: sync_tab_indicator_def watch_ok_def split: option.split prod.split)

lemma keeps_overview: "keeps (overview_surface_sync env scene)"
  unfolding overview_surface_sync_def keeps_def Let_def
  by (auto split: option.split sum.split prod.split dest: keeps_rule [OF keeps_world])

lemma surfaces_ok: "watch_ok t \<Longrightarrow> watch_ok (sync_visual_surfaces env t)"
proof -
  assume "watch_ok t"
  then have "watch_ok (ensure_overview_surface env (sync_tab_indicator env t))"
    unfolding ensure_overview_surface_def Let_def
    by (auto simp: keeps_tab split: sum.split prod.split dest: keeps_rule [OF keeps_world])
  then show ?thesis
    unfolding sync_visual_surfaces_def sync_overview_surface_def Let_def
    by (auto split: option.split prod.split dest: keeps_rule [OF keeps_overview])
qed

lemma keeps_side_effect: "keeps (run_manual_side_effect f)"
  using keeps_world by (auto simp: run_manual_side_effect_def keeps_def)

lemma keeps_reported: "preserves daemon_ok m \<Longrightarrow> keeps (reported_cycle env m)"
  unfolding reported_cycle_def keeps_def
  by (auto split: sum.split prod.split dest: keeps_rule [OF keeps_daemon_act] intro: report_ok)

lemma keeps_command: "keeps (dispatch_manual_domain_event env dry_run e label)"
  unfolding dispatch_manual_domain_event_def by (intro keeps_reported preserves_command)

lemma taken_id: "take_manual_correlation_id t = (i, u) \<Longrightarrow> watch_ok u = watch_ok t"
  by (auto simp: take_manual_correlation_id_def)

lemma keeps_reload: "keeps (reload_and_restart env dry_run)"
  unfolding reload_and_restart_def keeps_def
  by (auto split: sum.split prod.split watch_flow.split
      dest: keeps_rule [OF keeps_daemon_act [OF preserves_reload]] keeps_rule [OF keeps_restart] intro: report_ok)

lemma keeps_wallpaper: "keeps (open_or_close_wallpaper_selector env)"
  unfolding open_or_close_wallpaper_selector_def keeps_def
  by (auto split: sum.split prod.split bool.split dest: keeps_rule [OF keeps_world]
      intro: keeps_side_effect [unfolded keeps_def, rule_format])

lemma keeps_close: "keeps (close_focused_window env)"
  unfolding close_focused_window_def keeps_def
  by (auto split: option.split intro: keeps_side_effect [unfolded keeps_def, rule_format])

lemma keeps_run: "keeps f \<Longrightarrow> watch_ok t \<Longrightarrow> watch_ok (snd (f t))"
  by (simp add: keeps_def)

lemma ok_if: "watch_ok (snd x) \<Longrightarrow> watch_ok (snd y) \<Longrightarrow> watch_ok (snd (if b then x else y))"
  by simp

lemma keeps_watch_command: "keeps (handle_watch_command env dry_run c)"
  unfolding keeps_def
proof (intro allI impI)
  fix t :: "'a watch"
  assume t: "watch_ok t"
  obtain i u where id: "take_manual_correlation_id t = (i, u)" by (cases "take_manual_correlation_id t")
  then have u: "watch_ok u" using t by (simp add: taken_id)
  show "watch_ok (snd (handle_watch_command env dry_run c t))"
  proof (cases "manual_domain_dispatch_spec c i")
    case None
    show ?thesis
      unfolding handle_watch_command_def id Let_def prod.case None option.case
      by (intro ok_if keeps_run [OF keeps_side_effect u] keeps_run [OF keeps_wallpaper u]
          keeps_run [OF keeps_close u] keeps_run [OF keeps_reload u] keeps_run [OF keeps_reported u]
          preserves_observation) (simp_all add: u keeps_run [OF keeps_daemon_act [OF preserves_unwind] u])
  next
    case (Some e)
    then show ?thesis using keeps_run [OF keeps_command u] by (cases e) (simp add: handle_watch_command_def id)
  qed
qed

lemma keeps_close_overview: "keeps (close_overview_reported env dry_run label)"
  unfolding close_overview_reported_def keeps_def and_sync_surfaces_def Let_def
  by (auto split: prod.split dest: keeps_rule [OF keeps_reported [OF preserves_command]] taken_id intro: surfaces_ok)

section \<open>Messages\<close>

lemma keeps_overview_messages:
  "keeps (handle_overview_activate_window env dry_run h)" "keeps (handle_overview_dismiss env dry_run)"
  "keeps (handle_overview_move_column env dry_run h w a)"
proof -
  show "keeps (handle_overview_activate_window env dry_run h)"
    unfolding handle_overview_activate_window_def keeps_def
    by (auto split: prod.split watch_flow.split dest: keeps_rule [OF keeps_close_overview]
        intro: keeps_run [OF keeps_side_effect])
  show "keeps (handle_overview_dismiss env dry_run)"
    unfolding handle_overview_dismiss_def keeps_def by (auto intro: keeps_run [OF keeps_close_overview])
  show "keeps (handle_overview_move_column env dry_run h w a)"
    unfolding handle_overview_move_column_def keeps_def and_sync_surfaces_def Let_def
    by (auto split: option.split prod.split dest: keeps_rule [OF keeps_reported [OF preserves_command]] taken_id
        intro: surfaces_ok)
qed

lemma responded_ok:
  assumes "respond_to_runtime debug i m d = (r, d')" "preserves daemon_ok m" "daemon_ok d"
  shows "daemon_ok d'"
  using assms preservesD [OF assms(2,3)] by (auto simp: respond_to_runtime_def split: prod.splits sum.splits)

definition query_names :: "string list" where
  "query_names = [''get_outputs'', ''get_workspaces'', ''get_windows'', ''get_focus'', ''dump_diagnostics'']"

definition event_names :: "string list" where
  "event_names =
     [''focus_next'', ''focus_prev'', ''focus_workspace_up'', ''focus_workspace_down'', ''scroll_strip_left'',
      ''scroll_strip_right'', ''move_workspace_up'', ''move_workspace_down'', ''move_workspace_to_monitor_next'',
      ''move_workspace_to_monitor_previous'', ''move_column_to_workspace_up'',
      ''move_column_to_workspace_down'', ''cycle_column_width'', ''toggle_floating'', ''toggle_tabbed'',
      ''toggle_maximized'', ''toggle_fullscreen'', ''open_overview'', ''close_overview'', ''toggle_overview'']"

definition unsupported_names :: "string list" where
  "unsupported_names = [''move_window'', ''consume_window'', ''expel_window'', ''capture_action'']"

lemma query_known: "query_result c p = None \<longleftrightarrow> c \<notin> set query_names"
  by (simp add: query_result_def query_names_def)

lemma event_known: "ipc_domain_event c i m w = None \<longleftrightarrow> c \<notin> set event_names"
  by (simp add: ipc_domain_event_def event_names_def)

lemma commands_are: "set ipc_commands =
    set query_names \<union> set event_names \<union> {''touchpad_gesture'', ''reload_config''} \<union> set unsupported_names"
  by (auto simp: ipc_commands_def query_names_def event_names_def unsupported_names_def)

lemma ipc_name_is_known: "as_ipc_command_name c = Some v \<Longrightarrow> v \<in> set ipc_commands"
  by (cases c) (auto simp: ipc_commands_def)

lemma gesture_command_is_known:
  "ipc_command_for_touchpad_gesture cfg g = Inr (Some c) \<Longrightarrow> c \<in> set ipc_commands"
  by (auto simp: ipc_command_for_touchpad_gesture_def bindE_Inr_iff ipc_name_is_known split: option.splits)

text \<open>
  What a request can lead to, as a rule: a refusal that leaves everything alone, a result read off the
  state, an event or a reload, or, for a gesture, what the command it is bound to leads to.
\<close>

lemma handle_ipc_request_rule [case_names refused read event reload gesture]:
  assumes refused: "\<And>q code message category.
      code \<noteq> ''runtime_error'' \<Longrightarrow>
      (iq_protocol_version q = protocol_version \<longrightarrow>
         (code = ''unknown_command'' \<longleftrightarrow> iq_command q \<notin> set ipc_commands)) \<Longrightarrow>
      (iq_protocol_version q \<noteq> protocol_version \<longrightarrow> code = ''unsupported_protocol_version'') \<Longrightarrow>
      P q (ipc_refusal (iq_request_id q) code message category, d, n)"
    and read: "\<And>q v. iq_protocol_version q = protocol_version \<Longrightarrow> iq_command q \<in> set ipc_commands \<Longrightarrow>
      P q ((response_ok (iq_request_id q) v, False), d, n)"
    and event: "\<And>q e reason r d'. iq_protocol_version q = protocol_version \<Longrightarrow> iq_command q \<in> set ipc_commands \<Longrightarrow>
      respond_to_runtime (ev_debug env) (iq_request_id q) (dispatch_command (ev_platform env) e dry_run reason) d
        = (r, d') \<Longrightarrow> P q (r, d', n + 1)"
    and reload: "\<And>q r d'. iq_protocol_version q = protocol_version \<Longrightarrow> iq_command q \<in> set ipc_commands \<Longrightarrow>
      respond_to_runtime (ev_debug env) (iq_request_id q) (reload_config (ev_platform env) dry_run) d
        = (r, d') \<Longrightarrow> P q (r, d', n)"
    and gesture: "\<And>q c v x. iq_protocol_version q = protocol_version \<Longrightarrow> iq_command q = ''touchpad_gesture'' \<Longrightarrow>
      c \<in> set ipc_commands \<Longrightarrow> P (ipc_request_new (iq_request_id q) c v) x \<Longrightarrow> P q x"
  shows "P q (handle_ipc_request env dry_run q (d, n))"
proof -
  note step = handle_ipc_request.simps [of env dry_run _ d n] Let_def
  have plain: "P q (handle_ipc_request env dry_run q (d, n))" if plain: "iq_command q \<noteq> ''touchpad_gesture''" for q
  proof (cases "iq_protocol_version q = protocol_version")
    case False
    then show ?thesis by (simp add: step refused)
  next
    case version: True
    show ?thesis
    proof (cases "query_result (iq_command q) (project_snapshot env d)")
      case (Some v)
      then have "iq_command q \<in> set ipc_commands"
        using query_known [of "iq_command q" "project_snapshot env d"] by (auto simp: commands_are)
      then show ?thesis using version Some read by (simp add: step)
    next
      case query: None
      let ?m = "optional_monitor_id (ev_json env) (iq_payload q)" and ?w = "optional_window_id (ev_json env) (iq_payload q)"
      show ?thesis
      proof (cases "ipc_domain_event (iq_command q) (CorrelationId n) ?m ?w")
        case (Some e)
        then have "iq_command q \<in> set ipc_commands"
          using event_known [of "iq_command q" "CorrelationId n" ?m ?w] by (auto simp: commands_are)
        then show ?thesis
          using version query Some event by (cases e) (simp add: step split: prod.split)
      next
        case ev: None
        note known = query [unfolded query_known] ev [unfolded event_known]
        consider "iq_command q = ''reload_config''" | "iq_command q \<in> set unsupported_names"
          | "iq_command q \<notin> set ipc_commands"
          using known plain by (auto simp: commands_are)
        then show ?thesis
        proof cases
          case 1
          then show ?thesis using version query ev reload by (simp add: step commands_are split: prod.split)
        next
          case 2
          then have "iq_command q \<noteq> ''reload_config''" "iq_command q \<in> set ipc_commands"
            by (auto simp: unsupported_names_def commands_are)
          then show ?thesis
            using version query ev plain 2 refused [of "''unsupported_command''" q]
            by (simp add: step unsupported_names_def)
        next
          case 3
          then have "iq_command q \<noteq> ''reload_config'' \<and> iq_command q \<notin> set unsupported_names"
            by (auto simp: commands_are)
          then show ?thesis
            using version query ev plain 3 refused [of "''unknown_command''" q]
            by (simp add: step unsupported_names_def)
        qed
      qed
    qed
  qed
  show ?thesis
  proof (cases "iq_command q = ''touchpad_gesture''")
    case False
    then show ?thesis by (rule plain)
  next
    case gesture_command: True
    have unknown: "''touchpad_gesture'' \<in> set ipc_commands" by (simp add: commands_are)
    have no_query: "query_result (iq_command q) (project_snapshot env d) = None"
      by (simp add: gesture_command query_known query_names_def)
    have no_event: "ipc_domain_event (iq_command q) (CorrelationId n) m w = None" for m w
      by (simp add: gesture_command event_known event_names_def)
    show ?thesis
    proof (cases "iq_protocol_version q = protocol_version")
      case False
      then show ?thesis by (simp add: step refused)
    next
      case version: True
      note refusal = refused [of _ q, unfolded gesture_command, simplified unknown]
      show ?thesis
      proof (cases "Option.bind (js_get (ev_json env) (iq_payload q) ''gesture'') (js_as_str (ev_json env))")
        case None
        then show ?thesis
          using version no_query no_event refusal [of "''invalid_payload''"] by (simp add: step gesture_command)
      next
        case (Some g)
        show ?thesis
        proof (cases "ipc_command_for_touchpad_gesture (lc_touchpad (cd_active_config d)) g")
          case (Inl e)
          then show ?thesis
            using version no_query no_event Some refusal [of "''invalid_touchpad_gesture''"]
            by (cases e) (simp add: step gesture_command)
        next
          case (Inr mapped)
          show ?thesis
          proof (cases mapped)
            case None
            then show ?thesis
              using version no_query no_event Some Inr refusal [of "''unbound_touchpad_gesture''"]
              by (simp add: step gesture_command)
          next
            case (Some c)
            then have c: "c \<noteq> ''touchpad_gesture''" "c \<in> set ipc_commands"
              using Inr gesture_command_is_no_gesture gesture_command_is_known by blast+
            then have "P (ipc_request_new (iq_request_id q) c (js_gesture (ev_json env) g))
                (handle_ipc_request env dry_run
                  (ipc_request_new (iq_request_id q) c (js_gesture (ev_json env) g)) (d, n))"
              by (intro plain) (simp add: ipc_request_new_def)
            then show ?thesis
              using gesture [OF version gesture_command c(2)] version no_query no_event
                \<open>Option.bind _ _ = Some g\<close> Inr Some
              by (simp add: step gesture_command)
          qed
        qed
      qed
    qed
  qed
qed

lemma request_ok:
  assumes "daemon_ok d" "handle_ipc_request env dry_run q (d, n) = (r, d', n')"
  shows "daemon_ok d'"
proof -
  have "daemon_ok (fst (snd (handle_ipc_request env dry_run q (d, n))))"
    by (rule handle_ipc_request_rule [where P = "\<lambda>q x. daemon_ok (fst (snd x))"])
      (auto simp: assms(1) intro: responded_ok [OF _ preserves_command] responded_ok [OF _ preserves_reload])
  then show ?thesis by (simp add: assms(2))
qed

lemma keeps_answer: "keeps (answer_ipc_request env dry_run q)"
  unfolding keeps_def
proof (intro allI impI)
  fix t :: "'a watch"
  assume t: "watch_ok t"
  obtain response b d n where
    run: "handle_ipc_request (wv_ipc env) dry_run q (wt_daemon t, wt_manual_correlation_id t) = ((response, b), d, n)"
    by (cases "handle_ipc_request (wv_ipc env) dry_run q (wt_daemon t, wt_manual_correlation_id t)") auto
  then have "daemon_ok d" using t request_ok by (auto simp: watch_ok_def)
  then have t1: "watch_ok (t\<lparr>wt_daemon := d, wt_manual_correlation_id := n\<rparr>)" using t by (simp add: watch_ok_def)
  obtain flow t2 where r: "(if iq_command q = ''reload_config'' \<and> ir_ok response
      then restart_input_listeners env (t\<lparr>wt_daemon := d, wt_manual_correlation_id := n\<rparr>)
      else (FlowContinue, t\<lparr>wt_daemon := d, wt_manual_correlation_id := n\<rparr>)) = (flow, t2)"
    by (cases "(if iq_command q = ''reload_config'' \<and> ir_ok response
      then restart_input_listeners env (t\<lparr>wt_daemon := d, wt_manual_correlation_id := n\<rparr>)
      else (FlowContinue, t\<lparr>wt_daemon := d, wt_manual_correlation_id := n\<rparr>))")
  have t2: "watch_ok t2" using r t1 keeps_rule [OF keeps_restart _ t1] by (auto split: if_splits)
  show "watch_ok (snd (answer_ipc_request env dry_run q t))"
    by (simp add: answer_ipc_request_def run r Let_def t2 broadcast_ok split: watch_flow.split)
qed

lemma keeps_subscribe: "keeps (subscribe_events env alive)"
  unfolding keeps_def
proof (intro allI impI)
  fix t :: "'a watch"
  assume t: "watch_ok t"
  obtain ok b d v where
    run: "send_initial_snapshot (wv_ipc env) \<lparr>sb_alive = alive, sb_lines = []\<rparr> (wt_daemon t, wt_stream_version t)
      = ((ok, b), d, v)"
    by (cases "send_initial_snapshot (wv_ipc env) \<lparr>sb_alive = alive, sb_lines = []\<rparr>
      (wt_daemon t, wt_stream_version t)") auto
  then show "watch_ok (snd (subscribe_events env alive t))"
    using t subscribed_run [OF run, of "wt_event_subscribers t"]
    by (auto simp: subscribe_events_def Let_def watch_ok_def)
qed

lemma keeps_message: "keeps (handle_control_message env dry_run m)"
proof (cases m)
  case (WatchMessage c)
  then show ?thesis using keeps_watch_command by (simp add: keeps_def)
next
  case (OverviewActivateWindow h)
  then show ?thesis using keeps_overview_messages by (simp add: keeps_def)
next
  case (OverviewMoveColumn h w a)
  then show ?thesis using keeps_overview_messages by (simp add: keeps_def)
next
  case OverviewDismiss
  then show ?thesis using keeps_overview_messages by (simp add: keeps_def)
next
  case (IpcRequestMessage q)
  then show ?thesis using keeps_answer by (simp add: keeps_def)
next
  case (EventSubscribe alive)
  then show ?thesis using keeps_subscribe by (simp add: keeps_def)
qed

section \<open>The resize gesture\<close>

abbreviation resize_ok :: "'w daemon \<times> manual_resize \<Rightarrow> bool" where
  "resize_ok s \<equiv> daemon_ok (fst s)"

lemma resize_parts [preserve_intros]:
  "preserves daemon_ok m \<Longrightarrow> preserves resize_ok (on_daemon m)"
  "preserves resize_ok (upd_controller f)" "preserves resize_ok (overlay_send c)"
  by (auto simp: preserves_def on_daemon_def upd_controller_def overlay_send_def modify_def split: prod.splits)

lemma resize_whole [preserve_intros]:
  "preserves resize_ok (refresh_target inp)" "preserves resize_ok sync_preview"
  "preserves resize_ok (set_active b)" "preserves resize_ok pop_event"
  unfolding refresh_target_def set_target_rect_def sync_preview_def set_active_def pop_event_def
  by (intro preserve_intros)+

lemma resize_end [preserve_intros]: "preserves resize_ok (end_gesture inp)"
  unfolding end_gesture_def by (intro preserve_intros)

lemma resize_follow [preserve_intros]: "preserves resize_ok (follow_pointer inp)"
  unfolding follow_pointer_def by (intro preserve_intros)

lemma resize_drain [preserve_intros]: "preserves resize_ok (drain_events pf inp dry_run es)"
proof (induction es)
  case (Cons e es)
  show ?case
    by (cases e) (simp_all only: drain_events.simps, (intro preserve_intros Cons.IH)+)
qed (simp add: preserves_simple)

lemma resize_tick: "preserves resize_ok (tick pf inp dry_run)"
  unfolding tick_def by (intro preserve_intros)

section \<open>Cycles and rounds\<close>

lemma keeps_poll: "keeps (poll_cycle env dry_run)"
  unfolding poll_cycle_def by (intro keeps_daemon_act preserve_intros)

lemma keeps_observed: "keeps (run_daemon_act (apply_observation pf ob dry_run))"
  by (intro keeps_daemon_act preserves_observation)

lemma keeps_now: "keeps (watch_now env)"
  unfolding watch_now_def by (rule keeps_world)

lemma finished_ok: "watch_ok (snd r) \<Longrightarrow> watch_ok (snd (finish_cycle env interval advanced r))"
  unfolding finish_cycle_def Let_def
  by (auto split: sum.split option.split prod.split dest: keeps_rule [OF keeps_now _ report_ok] intro: report_ok)

lemma keeps_cycle: "keeps (run_runtime_cycle env dry_run interval answer)"
  unfolding run_runtime_cycle_def keeps_def Let_def
  by (auto split: prod.split sum.split stream_error.split
      intro!: finished_ok keeps_run [OF keeps_observed] keeps_run [OF keeps_poll]
      dest: keeps_rule [OF keeps_now] keeps_rule [OF keeps_poll])

lemma keeps_initial: "keeps (process_initial_live_snapshot env dry_run answer)"
  unfolding process_initial_live_snapshot_def keeps_def
  by (auto split: prod.split sum.split option.split dest: keeps_rule [OF keeps_observed] intro: report_ok)

lemma keeps_drain: "keeps (drain_messages env opts ms)"
  unfolding keeps_def
proof (induction ms)
  case (Cons m ms)
  then show ?case by (auto split: prod.split watch_flow.split dest: keeps_rule [OF keeps_message])
qed simp

lemma keeps_resize: "keeps (resize_round env opts ms inp)"
  unfolding keeps_def
proof (intro allI impI)
  fix t :: "'a watch"
  assume t: "watch_ok t"
  obtain r d m where
    run: "tick (wv_platform env) inp (wo_dry_run opts) (wt_daemon t, hook_messages ms (wt_manual_resize t)) = (r, d, m)"
    using prod_cases3 by blast
  have "daemon_ok d"
    using preservesD [OF resize_tick [of "wv_platform env" inp "wo_dry_run opts"],
        of "(wt_daemon t, hook_messages ms (wt_manual_resize t))"] t run by (simp add: watch_ok_def)
  then have "watch_ok (t\<lparr>wt_daemon := d, wt_manual_resize := m\<rparr>)" using t by (simp add: watch_ok_def)
  then show "watch_ok (snd (resize_round env opts ms inp t))"
    by (auto simp: resize_round_def run Let_def report_ok split: sum.split option.split)
qed

lemma keeps_cycle_round: "keeps (cycle_round env opts stream)"
  unfolding cycle_round_def keeps_def
  by (auto split: prod.split sum.split runtime_cycle_flow.split dest: keeps_rule [OF keeps_cycle])

lemma and_then_ok: "watch_ok (snd r) \<Longrightarrow> keeps f \<Longrightarrow> watch_ok (snd (and_then r f))"
  by (auto simp: and_then_def keeps_def split: prod.split option.split)

lemma keeps_rest: "keeps (\<lambda>u. and_then (resize_round env opts ms inp u) (cycle_round env opts stream))"
  unfolding keeps_def by (simp add: and_then_ok keeps_run [OF keeps_resize] keeps_cycle_round)

lemma keeps_round: "keeps (watch_round env opts inp)"
  unfolding keeps_def watch_round_def
  by (auto intro!: and_then_ok keeps_run [OF keeps_drain] keeps_rest surfaces_ok)

lemma keeps_rounds: "keeps (watch_rounds env opts inps)"
proof (induction inps)
  case (Cons inp inps)
  then show ?case unfolding keeps_def [where f = "watch_rounds env opts (inp # inps)"]
    by (auto intro!: and_then_ok keeps_run [OF keeps_round])
qed (simp add: keeps_def)

lemma keeps_prelude: "keeps (watch_prelude env opts answer)"
  unfolding keeps_def watch_prelude_def
  by (auto intro!: and_then_ok keeps_run [OF keeps_initial] surfaces_ok simp: keeps_def [where f = "\<lambda>u. (_ u, u)"])

lemma keeps_observer: "keeps (start_observer su poll_only interval)"
  unfolding start_observer_def keeps_def Let_def by (auto split: prod.split dest: keeps_rule [OF keeps_world])

lemma keeps_startup: "keeps (initialize_watch_startup env su poll_only interval)"
  unfolding keeps_def
proof (intro allI impI)
  fix t :: "'a watch"
  assume t: "watch_ok t"
  obtain live t0 where observer: "start_observer su poll_only interval t = (live, t0)"
    by (cases "start_observer su poll_only interval t")
  have t1: "watch_ok (t0\<lparr>wt_observer := live\<rparr>)" using keeps_rule [OF keeps_observer observer t] by simp
  obtain hotkeys t2 where t2: "start_hotkey_listener env (t0\<lparr>wt_observer := live\<rparr>) = (hotkeys, t2)"
    by (cases "start_hotkey_listener env (t0\<lparr>wt_observer := live\<rparr>)")
  obtain touchpad t3 where t3: "start_touchpad_listener env t2 = (touchpad, t3)"
    by (cases "start_touchpad_listener env t2")
  obtain resize t4 where t4: "world_call (su_spawn_manual_resize su) t3 = (resize, t4)"
    by (cases "world_call (su_spawn_manual_resize su) t3")
  obtain tab t5 where t5: "world_call (su_spawn_tab_indicator su) t4 = (tab, t5)"
    by (cases "world_call (su_spawn_tab_indicator su) t4")
  obtain surface t6 where t6: "world_call (wv_overview_spawn env) t5 = (surface, t6)"
    by (cases "world_call (wv_overview_spawn env) t5")
  have ok2: "watch_ok t2" by (rule keeps_rule [OF keeps_hotkeys t2 t1])
  have ok3: "watch_ok t3" by (rule keeps_rule [OF keeps_touchpad t3 ok2])
  have ok4: "watch_ok t4" by (rule keeps_rule [OF keeps_world t4 ok3])
  have ok6: "watch_ok t6" by (rule keeps_rule [OF keeps_world t6 keeps_rule [OF keeps_world t5 ok4]])
  show "watch_ok (snd (initialize_watch_startup env su poll_only interval t))"
    by (simp add: initialize_watch_startup_def observer t2 t3 t4 t5 t6 ok2 ok3 ok4 ok6 split: sum.split)
qed

section \<open>Exit codes\<close>

text \<open>A message goes on or ends the watch with 1; only one quits, and none reaches the panic.\<close>

definition orderly :: "('t \<Rightarrow> watch_flow \<times> 't) \<Rightarrow> bool" where
  "orderly f \<longleftrightarrow> (\<forall>t. fst (f t) \<in> {FlowContinue, FlowExit 1})"

lemma orderlyD: "orderly f \<Longrightarrow> f t = (flow, u) \<Longrightarrow> flow \<in> {FlowContinue, FlowExit 1}"
  unfolding orderly_def by (metis fst_conv)

lemma orderly_run: "orderly f \<Longrightarrow> fst (f t) \<in> {FlowContinue, FlowExit 1}"
  by (simp add: orderly_def)

lemma orderly_parts:
  "orderly (run_manual_side_effect f)" "orderly (reported_cycle env m)" "orderly (restart_input_listeners env)"
  by (auto simp: orderly_def run_manual_side_effect_def reported_cycle_def restart_input_listeners_def
      split: prod.split sum.split)

lemma orderly_reload: "orderly (reload_and_restart env dry_run)"
  unfolding orderly_def reload_and_restart_def
  by (auto split: prod.split sum.split watch_flow.split dest: orderlyD [OF orderly_parts(3)])

lemma orderly_calls: "orderly (open_or_close_wallpaper_selector env)" "orderly (close_focused_window env)"
  using orderly_parts(1)
  by (auto simp: orderly_def open_or_close_wallpaper_selector_def close_focused_window_def
      split: prod.split sum.split option.split bool.split)

lemma quit_command: "fst (handle_watch_command env dry_run WatchQuit t) = FlowQuit"
  by (simp add: handle_watch_command_def manual_domain_dispatch_spec_def split_beta Let_def)

lemma orderly_command:
  assumes "c \<noteq> WatchQuit"
  shows "orderly (handle_watch_command env dry_run c)"
proof -
  have "fst (handle_watch_command env dry_run c t) \<in> {FlowContinue, FlowExit 1}" for t
  proof (cases "manual_domain_dispatch_spec c (fst (take_manual_correlation_id t))")
    case None
    then have c: "c \<in> {WatchOpenTerminal, WatchOpenWallpaperSelector, WatchCloseWindow, WatchReloadConfig,
        WatchSnapshot, WatchUnwind, WatchRescan}"
      using assms by (cases c) (simp_all add: manual_domain_dispatch_spec_def)
    have parts: "fst (run_manual_side_effect f u) \<in> {FlowContinue, FlowExit 1}"
      "fst (reported_cycle env m u) \<in> {FlowContinue, FlowExit 1}"
      "fst (reload_and_restart env dry_run u) \<in> {FlowContinue, FlowExit 1}"
      "fst (open_or_close_wallpaper_selector env u) \<in> {FlowContinue, FlowExit 1}"
      "fst (close_focused_window env u) \<in> {FlowContinue, FlowExit 1}" for f m u
      by (rule orderly_run [OF orderly_parts(1)] orderly_run [OF orderly_parts(2)] orderly_run [OF orderly_reload]
          orderly_run [OF orderly_calls(1)] orderly_run [OF orderly_calls(2)])+
    show ?thesis
      using c None parts by (elim insertE) (simp_all add: handle_watch_command_def split_beta Let_def)
  next
    case (Some e)
    obtain ev label where e: "e = (ev, label)" by (cases e)
    have "handle_watch_command env dry_run c t =
        reported_cycle env (dispatch_command (wv_platform env) ev dry_run label) (snd (take_manual_correlation_id t))"
      using Some by (simp add: e handle_watch_command_def split_beta Let_def dispatch_manual_domain_event_def)
    then show ?thesis by (simp only: orderly_run [OF orderly_parts(2)])
  qed
  then show ?thesis by (simp add: orderly_def)
qed

lemma orderly_close: "orderly (close_overview_reported env dry_run label)"
  unfolding orderly_def close_overview_reported_def and_sync_surfaces_def Let_def
  by (auto split: prod.split dest: orderlyD [OF orderly_parts(2)])

lemma orderly_overview:
  "orderly (handle_overview_activate_window env dry_run h)" "orderly (handle_overview_dismiss env dry_run)"
  "orderly (handle_overview_move_column env dry_run h w a)"
proof -
  show "orderly (handle_overview_activate_window env dry_run h)"
    unfolding orderly_def handle_overview_activate_window_def
    by (auto split: prod.split watch_flow.split simp: run_manual_side_effect_def dest: orderlyD [OF orderly_close])
  show "orderly (handle_overview_dismiss env dry_run)"
    using orderly_close unfolding orderly_def handle_overview_dismiss_def by auto
  show "orderly (handle_overview_move_column env dry_run h w a)"
    unfolding orderly_def handle_overview_move_column_def and_sync_surfaces_def Let_def
    by (auto split: option.split prod.split dest: orderlyD [OF orderly_parts(2)])
qed

lemma orderly_ipc: "orderly (answer_ipc_request env dry_run q)" "orderly (subscribe_events env alive)"
proof -
  show "orderly (answer_ipc_request env dry_run q)"
    unfolding orderly_def answer_ipc_request_def Let_def
    by (auto split: prod.split watch_flow.split dest: orderlyD [OF orderly_parts(3)])
  show "orderly (subscribe_events env alive)"
    unfolding orderly_def subscribe_events_def Let_def by (auto split: prod.split)
qed

lemma orderly_message: "m \<noteq> WatchMessage WatchQuit \<Longrightarrow> orderly (handle_control_message env dry_run m)"
  using orderly_command orderly_overview orderly_ipc unfolding orderly_def by (cases m) simp_all

lemma message_flow:
  assumes "handle_control_message env dry_run m t = (flow, u)"
  shows "flow \<in> {FlowContinue, FlowExit 1} \<or> m = WatchMessage WatchQuit \<and> flow = FlowQuit"
proof (cases "m = WatchMessage WatchQuit")
  case True
  then show ?thesis using assms quit_command [of env dry_run t] by simp
next
  case False
  then show ?thesis using orderlyD [OF orderly_message assms] by blast
qed

text \<open>A part of the watch goes on, ends it with 1, or, where it may, with 0.\<close>

definition exits :: "bool \<Rightarrow> ('t \<Rightarrow> nat option \<times> 't) \<Rightarrow> bool" where
  "exits may_end f \<longleftrightarrow> (\<forall>t. fst (f t) \<in> {None, Some 1} \<or> may_end \<and> fst (f t) = Some 0)"

lemma exits_mono: "exits b f \<Longrightarrow> (b \<Longrightarrow> c) \<Longrightarrow> exits c f"
  unfolding exits_def by blast

lemma exits_then: "exits b f \<Longrightarrow> exits b g \<Longrightarrow> exits b (\<lambda>t. and_then (f t) g)"
  unfolding exits_def and_then_def by (auto split: prod.split option.split) (metis fst_conv option.distinct(1) option.inject)+

lemma exits_before: "exits b f \<Longrightarrow> exits b (\<lambda>t. f (g t))"
  by (simp add: exits_def)

abbreviation limited :: "watch_options \<Rightarrow> bool" where
  "limited opts \<equiv> wo_iterations opts \<noteq> None"

lemma limit_reached_limited: "limit_reached opts t \<Longrightarrow> limited opts"
  by (auto simp: limit_reached_def split: option.splits)

lemma exits_drain: "exits (limited opts \<or> WatchMessage WatchQuit \<in> set ms) (drain_messages env opts ms)"
proof (induction ms)
  case (Cons m ms)
  then have rest: "exits (limited opts \<or> WatchMessage WatchQuit \<in> set (m # ms)) (drain_messages env opts ms)"
    by (rule exits_mono) auto
  show ?case
    unfolding exits_def
  proof
    fix t
    show "fst (drain_messages env opts (m # ms) t) \<in> {None, Some 1} \<or>
        (limited opts \<or> WatchMessage WatchQuit \<in> set (m # ms)) \<and> fst (drain_messages env opts (m # ms) t) = Some 0"
      using rest [unfolded exits_def] message_flow [of env "wo_dry_run opts" m t]
      by (auto split: prod.split watch_flow.split dest: limit_reached_limited)
  qed
qed (simp add: exits_def)

lemma exits_resize: "exits (limited opts) (resize_round env opts ms inp)"
  by (auto simp: exits_def resize_round_def Let_def split: prod.split sum.split option.split
      dest: limit_reached_limited)

lemma cycle_code: "run_runtime_cycle env dry_run interval answer t = (Inl code, u) \<Longrightarrow> code = 1"
  by (auto simp: run_runtime_cycle_def finish_cycle_def Let_def
      split: prod.splits if_splits sum.splits option.splits stream_error.splits)

lemma exits_cycle: "exits (limited opts) (cycle_round env opts stream)"
  by (auto simp: exits_def cycle_round_def split: prod.split sum.split runtime_cycle_flow.split
      dest: cycle_code limit_reached_limited)

text \<open>The watch may end with 0 when it has an iteration limit or is told to quit.\<close>

definition may_end :: "watch_options \<Rightarrow> 'v round_input list \<Rightarrow> bool" where
  "may_end opts inps \<longleftrightarrow> limited opts \<or> (\<exists>inp \<in> set inps. WatchMessage WatchQuit \<in> set (rn_messages inp))"

lemma exits_round: "exits (may_end opts [inp]) (watch_round env opts inp)"
  unfolding watch_round_def
  by (intro exits_then exits_before [OF exits_mono [OF exits_drain]] exits_mono [OF exits_resize]
      exits_mono [OF exits_cycle]) (auto simp: may_end_def)

lemma exits_rounds: "exits (may_end opts inps) (watch_rounds env opts inps)"
proof (induction inps)
  case (Cons inp inps)
  have "exits (may_end opts (inp # inps)) (\<lambda>t. and_then (watch_round env opts inp t) (watch_rounds env opts inps))"
    by (intro exits_then exits_mono [OF exits_round] exits_mono [OF Cons.IH]) (auto simp: may_end_def)
  then show ?case by (simp add: exits_def)
qed (simp add: exits_def)

lemma exits_initial: "exits b (process_initial_live_snapshot env dry_run answer)"
  by (auto simp: exits_def process_initial_live_snapshot_def split: prod.split sum.split option.split)

lemma exits_prelude: "exits (limited opts) (watch_prelude env opts answer)"
  unfolding watch_prelude_def
  by (intro exits_then exits_before [OF exits_initial]) (auto simp: exits_def dest: limit_reached_limited)

lemma exits_startup: "exits b (initialize_watch_startup env su poll_only interval)"
  unfolding exits_def initialize_watch_startup_def Let_def by (auto split: prod.split sum.split)

lemma run_watch_ok:
  fixes inps :: "'v round_input list"
  assumes "daemon_ok d"
  shows "watch_ok (snd (run_watch env su dry_run interval iterations poll_only d answer inps))"
    and "fst (run_watch env su dry_run interval iterations poll_only d answer inps) \<in> {None, Some 1} \<or>
      (iterations \<noteq> None \<or> (\<exists>inp \<in> set inps. WatchMessage WatchQuit \<in> set (rn_messages inp))) \<and>
      fst (run_watch env su dry_run interval iterations poll_only d answer inps) = Some 0"
proof -
  let ?opts = "\<lparr>wo_dry_run = dry_run, wo_poll_interval = millis (max interval 1), wo_iterations = iterations\<rparr>"
  let ?run = "\<lambda>t1. let (now, t2) = watch_now env t1
     in and_then (watch_prelude env ?opts answer (t2\<lparr>wt_next_poll_deadline := now\<rparr>)) (watch_rounds env ?opts inps)"
  have start: "watch_ok (watch_of d)" using assms by (simp add: watch_of_def watch_ok_def streams_ok_def)
  have "keeps ?run"
    unfolding keeps_def
    by (auto split: prod.split intro!: and_then_ok keeps_rounds keeps_run [OF keeps_prelude]
        dest: keeps_rule [OF keeps_now])
  then show "watch_ok (snd (run_watch env su dry_run interval iterations poll_only d answer inps))"
    unfolding run_watch_def Let_def
    by (auto simp: start intro!: and_then_ok keeps_run [OF keeps_startup] simp del: split_paired_All)
  have "exits (may_end ?opts inps) (\<lambda>t2. and_then (watch_prelude env ?opts answer t2) (watch_rounds env ?opts inps))"
    by (intro exits_then exits_rounds exits_mono [OF exits_prelude]) (simp add: may_end_def)
  then have "exits (may_end ?opts inps) ?run"
    by (simp add: exits_def split_beta)
  then have "exits (may_end ?opts inps) (\<lambda>t. and_then (initialize_watch_startup env su poll_only interval t) ?run)"
    by (intro exits_then exits_startup)
  then show "fst (run_watch env su dry_run interval iterations poll_only d answer inps) \<in> {None, Some 1} \<or>
      (iterations \<noteq> None \<or> (\<exists>inp \<in> set inps. WatchMessage WatchQuit \<in> set (rn_messages inp))) \<and>
      fst (run_watch env su dry_run interval iterations poll_only d answer inps) = Some 0"
    by (auto simp: run_watch_def Let_def exits_def may_end_def)
qed

end
