(* ===== verification/Control_Properties.thy ===== *)
theory Control_Properties
  imports Watch_Properties Runtime_Sample Store_Keeps
begin

text \<open>
  What the watch loop and the front ends promise: a run of the daemon process as a whole, the answers
  to requests, and that keys, standard input, clients and gestures mean the same by the same command.
\<close>

section \<open>A desktop without windows\<close>

text \<open>
  Synchronising with a desktop without windows finds none, and focuses none.
\<close>

definition quiet :: "'w daemon \<Rightarrow> bool" where
  "quiet d \<longleftrightarrow> windows (cd_store d) = [] \<and> focused (cd_store d) = (None, None)"

lemma quiet_focus: "quiet d \<Longrightarrow> focus_window (focus (cd_store d)) = None"
  by (simp add: quiet_def focused_def)

lemma quiet_other [simp]:
  "quiet (d\<lparr>cd_adapter := a\<rparr>) = quiet d" "quiet (d\<lparr>cd_perf := q\<rparr>) = quiet d"
  "quiet (d\<lparr>cd_last_snapshot := p\<rparr>) = quiet d" "quiet (d\<lparr>cd_pending_discoveries := es\<rparr>) = quiet d"
  "quiet (d\<lparr>cd_pending_focus_claim := c\<rparr>) = quiet d" "quiet (d\<lparr>cd_platform_focus_candidate := k\<rparr>) = quiet d"
  "quiet (d\<lparr>cd_geometry_settle_until := u\<rparr>) = quiet d" "quiet (d\<lparr>cd_next_correlation_id := n\<rparr>) = quiet d"
  by (simp_all add: quiet_def)

named_theorems quiet_intros "actions that leave a desktop without windows quiet"

lemma quiet_write:
  assumes "\<And>s. windows (f s) = windows s" "\<And>s. focused (f s) = focused s"
  shows "preserves quiet (write_store f)"
  using assms by (simp add: preserves_def write_store_def modify_def quiet_def)

lemma quiet_adapter [quiet_intros]: "preserves quiet (on_adapter m)"
  by (simp add: preserves_def on_adapter_def Let_def split: prod.split)

lemma quiet_clock [quiet_intros]: "preserves quiet (instant_now pf)" "preserves quiet (unix_timestamp pf)"
  by (simp_all add: instant_now_def unix_timestamp_def quiet_adapter)

lemma quiet_flag [quiet_intros]: "preserves quiet (push_degraded_reason r)"
  unfolding push_degraded_reason_def
  by (rule quiet_write) (simp_all add: push_flag_def focused_def Let_def)

lemma quiet_timed [quiet_intros]: "preserves quiet m \<Longrightarrow> preserves quiet (timed pf upd m)"
  unfolding timed_def by (intro preserve_intros quiet_intros preserves_modify) simp_all

section \<open>Monitors\<close>

text \<open>Bringing the monitors into the store leaves its windows and its focus alone.\<close>

lemma fold_same: "(\<And>x s. f (g x s) = f s) \<Longrightarrow> f (fold g xs s) = f s"
  by (induction xs arbitrary: s) simp_all

lemma monitor_writers [simp]:
  "windows (push_flag r s) = windows s" "focused (push_flag r s) = focused s"
  "windows (upd_monitor m f s) = windows s" "focused (upd_monitor m f s) = focused s"
  by (simp_all add: push_flag_def upd_monitor_def focused_def Let_def)

lemma projection_same [simp]:
  "windows (refresh_workspace_set_monitor_projection i s) = windows s"
  "focused (refresh_workspace_set_monitor_projection i s) = focused s"
  by (simp_all add: refresh_workspace_set_monitor_projection_def Let_def fold_same [where f = windows]
      fold_same [where f = focused] split: option.split)

lemma write_monitor_same [simp]:
  "windows (write_monitor m f note s) = windows s" "focused (write_monitor m f note s) = focused s"
  by (simp_all add: write_monitor_def split: option.split)

lemma allocated_same:
  "allocate_monitor_id s = (m, t) \<Longrightarrow> windows t = windows s \<and> focused t = focused s"
  "allocate_workspace_set_id s = (i, t) \<Longrightarrow> windows t = windows s \<and> focused t = focused s"
  "allocate_workspace_id s = (w, t) \<Longrightarrow> windows t = windows s \<and> focused t = focused s"
  by (auto simp: allocate_monitor_id_def allocate_workspace_set_id_def allocate_workspace_id_def focused_def Let_def)

lemma focus_monitor_same [simp]: "focused (upd_focus (\<lambda>f. f\<lparr>focus_monitor := x\<rparr>) s) = focused s"
  by (simp add: focused_def upd_focus_def)

lemma added_same:
  assumes "add_monitor area dpi primary s = (m, t)"
  shows "windows t = windows s" "focused t = focused s"
proof -
  have tables: "windows (s\<lparr>monitors := ms\<rparr>) = windows s" "focused (s\<lparr>monitors := ms\<rparr>) = focused s"
    "windows (s\<lparr>workspace_sets := ss\<rparr>) = windows s" "focused (s\<lparr>workspace_sets := ss\<rparr>) = focused s" for s ms ss
    by (simp_all add: focused_def)
  show "windows t = windows s" "focused t = focused s"
    using assms by (auto simp: add_monitor_def Let_def tables split: prod.splits if_splits dest!: allocated_same)
qed

lemma sync_monitor_same: "windows (sync_monitor p s) = windows s" "focused (sync_monitor p s) = focused s"
  by (auto simp: sync_monitor_def added_same split: option.split prod.split)

lemma lose_monitor_same: "windows (lose_monitor q b s) = windows s" "focused (lose_monitor q b s) = focused s"
  by (simp_all add: lose_monitor_def Let_def split: option.split)

lemma sync_monitor_states_same:
  "windows (sync_monitor_states ms s) = windows s" "focused (sync_monitor_states ms s) = focused s"
  by (simp_all add: sync_monitor_states_def focus_leading_monitor_def Let_def sync_monitor_same lose_monitor_same
      fold_same [where f = windows] fold_same [where f = focused] split: option.split)

lemma quiet_monitors [quiet_intros]: "preserves quiet (sync_monitors_from_snapshot ms)"
  unfolding sync_monitors_from_snapshot_def
  by (intro preserve_intros quiet_write sync_monitor_states_same)

section \<open>Windows and focus\<close>

lemma quiet_gets:
  assumes "\<And>d. quiet d \<Longrightarrow> f d = x" "preserves quiet (k x)"
  shows "preserves quiet (bindA (gets f) k)"
  using assms by (simp add: preserves_def bindA_def gets_def)

lemma no_window_is_bound: "quiet d \<Longrightarrow> find_window_id_by_hwnd (cd_store d) h = None"
  by (simp add: quiet_def find_window_id_by_hwnd_def bm_values_def)

lemma quiet_destroyed [quiet_intros]: "preserves quiet (ingest_destroyed_windows hs)"
  unfolding ingest_destroyed_windows_def
  by (intro preserves_fold_act quiet_gets [where x = None] no_window_is_bound) (simp_all add: preserve_intros)

lemma quiet_orphaned [quiet_intros]: "preserves quiet (prune_state_windows_missing_from_snapshot p)"
  unfolding prune_state_windows_missing_from_snapshot_def
  by (rule quiet_gets [where x = "[]"])
    (simp_all add: quiet_def orphaned_window_ids_def bm_values_def destroy_windows_def preserve_intros)

lemma quiet_reclassified [quiet_intros]: "preserves quiet (reclassify_state_windows_for_monitor_policy p)"
  unfolding reclassify_state_windows_for_monitor_policy_def
  by (rule quiet_gets [where x = "[]"])
    (simp_all add: quiet_def bm_values_def destroy_windows_def preserve_intros)

lemma quiet_discoveries [quiet_intros]:
  "psn_windows p = [] \<Longrightarrow> preserves quiet (reconcile_pending_window_discoveries pf p foreground had)"
  unfolding reconcile_pending_window_discoveries_def
  by (auto intro!: preserve_intros preserves_modify simp: retain_pending_def Let_def)

lemma quiet_observed [quiet_intros]: "preserves quiet (observe_focus h)"
  unfolding observe_focus_def
  by (rule quiet_gets [where x = None]) (simp_all add: observed_focus_target_def no_window_is_bound preserve_intros)

lemma quiet_candidate [quiet_intros]: "preserves quiet (settle_focus_candidate p)"
  unfolding settle_focus_candidate_def
  by (intro preserve_intros quiet_intros preserves_stateA)
    (auto simp: refresh_candidate_def Let_def split: option.split)

lemma quiet_claims [quiet_intros]:
  "preserves quiet (refresh_pending_focus_claim pf)" "preserves quiet (stage_or_forget h)"
  "preserves quiet (arm_pending_geometry_settle pf reason n dry_run)"
  unfolding refresh_pending_focus_claim_def stage_or_forget_def stage_platform_focus_candidate_def
    arm_pending_geometry_settle_def
  by (intro preserve_intros quiet_intros preserves_modify; simp)+

lemma quiet_deferred [quiet_intros]: "preserves quiet (should_defer_platform_focus_observation pf h)"
  unfolding should_defer_platform_focus_observation_def
  by (intro preserve_intros quiet_intros preserves_modify) simp

lemma quiet_focus_change [quiet_intros]: "preserves quiet (settle_diff_focus pf diff)"
  unfolding settle_diff_focus_def by (intro preserve_intros quiet_intros)

section \<open>A synchronisation\<close>

lemma quiet_cleared [quiet_intros]: "preserves quiet (clear_stale_presentations pf p True)"
  unfolding clear_stale_presentations_def by (simp add: preserve_intros)

lemma quiet_absorbed [quiet_intros]: "psn_windows p = [] \<Longrightarrow> preserves quiet (absorb_windows pf p True)"
  unfolding absorb_windows_def Let_def by (intro preserve_intros quiet_intros)

lemma sort_keeps_empty: "psn_windows p = [] \<Longrightarrow> psn_windows (sort_for_stability p) = []"
  by (simp add: sort_for_stability_def)

lemma quiet_synchronised:
  assumes "psn_windows p = []"
  shows "preserves quiet (sync_snapshot_with_reason pf p True reason)"
proof -
  have stamp: "preserves quiet (write_store (stamp_cycle now b))" for now b
    by (rule quiet_write) (simp_all add: stamp_cycle_def focused_def Let_def)
  show ?thesis
    unfolding sync_snapshot_with_reason_def sync_body_def note_observation_reason_def plan_if_managed_def
      apply_if_allowed_def Let_def
    by (intro preserve_intros quiet_intros preserves_modify stamp sort_keeps_empty assms) simp_all
qed


section \<open>A concrete process\<close>

definition sample_surrogate :: surrogate_diagnostics where
  "sample_surrogate =
     \<lparr>sd_active_hosts = 0, sd_show_requests = 0, sd_hide_requests = 0, sd_foreign_scene_active_hosts = 0,
      sd_foreign_scene_show_requests = 0, sd_foreign_scene_hide_requests = 0, sd_foreign_scene_pruned_hosts = 0,
      sd_classifier_rejections = 0, sd_native_fallbacks = 0, sd_transient_escapes = 0,
      sd_handoff_promotions = 0, sd_pointer_replay_attempts = 0, sd_pointer_replay_successes = 0,
      sd_pointer_replay_failures = 0, sd_dwm_thumbnail_backend_uses = 0, sd_last_event = None\<rparr>"

definition sample_ipc_env :: "(nat, unit) platform \<Rightarrow> (nat, unit, string) ipc_env" where
  "sample_ipc_env pf =
     \<lparr>ev_platform = pf, ev_touch_setting = (\<lambda>_. SettingDisabled), ev_surrogate = (\<lambda>_. sample_surrogate),
      ev_json = \<lparr>js_get = (\<lambda>_ _. None), js_as_str = Some, js_as_u64 = (\<lambda>_. None), js_gesture = id\<rparr>,
      ev_debug = (\<lambda>_. ''error'')\<rparr>"

definition sample_watch_env :: "(nat, unit) platform \<Rightarrow> (nat, unit, string) watch_env" where
  "sample_watch_env pf =
     \<lparr>wv_ipc = sample_ipc_env pf, wv_open_terminal = Pair (Inr ()), wv_close_wallpaper_selector = Pair (Inr False),
      wv_open_wallpaper_selector = Pair (Inr ()), wv_close_window = (\<lambda>_. Pair (Inr ())),
      wv_activate_window = (\<lambda>_. Pair (Inr ())), wv_tab_overlay = (\<lambda>_. Pair (Inr ())),
      wv_overview_overlay = (\<lambda>_. Pair (Inr ())), wv_overview_spawn = Pair (Inr ()),
      wv_scale_rect = (\<lambda>_ _ r. r), wv_spawn_hotkeys = (\<lambda>_. Pair (Inr True)),
      wv_spawn_touchpad = (\<lambda>_. Pair (Inr ()))\<rparr>"

definition sample_startup :: "nat startup_env" where
  "sample_startup =
     \<lparr>su_spawn_observer = (\<lambda>_. Pair (Inr ())), su_spawn_manual_resize = Pair (Inr ()),
      su_spawn_tab_indicator = Pair (Inr ())\<rparr>"

definition sample_round :: "string control_message list \<Rightarrow> string round_input" where
  "sample_round ms =
     \<lparr>rn_messages = ms, rn_mouse = [],
      rn_resize = \<lparr>ri_super_down = False, ri_pointer = Inl ''no pointer'', ri_rect_of = (\<lambda>_. None)\<rparr>,
      rn_stream = (False, NothingYet)\<rparr>"

section \<open>The process\<close>

lemma in_order: "sorted_wrt (<) (map f (rev xs)) \<longleftrightarrow> sorted_wrt (\<lambda>x y :: nat. y < x) (map f xs)"
  by (simp add: sorted_wrt_rev flip: rev_map)

text \<open>
  C12: a run of the watch is sound whatever arrives in whatever order - hotkeys, gestures, clicks on the
  overview, requests and subscriptions of clients, mouse events of a resize, observations, their
  failures, polls - and whatever the desktop, the files and the surfaces answer. The store stays well
  formed; the process goes on, ends with 1, or ends with 0, the latter only when it was told to quit or
  had an iteration limit, so no command reaches the panic; and every subscriber was first sent a
  whole snapshot and then events under ever growing stream versions, as long as their counter
  is below its maximum.
\<close>

theorem watch_runs_are_sound:
  fixes inps :: "'v round_input list"
  assumes "daemon_start (wv_platform env) d"
    and "run_watch env su dry_run interval iterations poll_only d answer inps = (code, t)"
  shows "wf (cd_store (wt_daemon t)) \<and>
    cd_active_config (wt_daemon t) = cd_last_valid_config (wt_daemon t) \<and>
    (code = None \<or> code = Some 1 \<or>
     code = Some 0 \<and>
       (iterations \<noteq> None \<or> (\<exists>inp \<in> set inps. WatchMessage WatchQuit \<in> set (rn_messages inp)))) \<and>
    (wt_stream_version t < u64_max \<longrightarrow>
      (\<forall>b \<in> set (wt_event_subscribers t).
         map ip_event_kind (take 3 (rev (sb_lines b))) = [''snapshot_begin'', ''snapshot_state'', ''snapshot_end''] \<and>
         sorted_wrt (<) (map ip_stream_version (rev (sb_lines b))) \<and>
         (\<forall>l \<in> set (sb_lines b). ip_stream_version l < wt_stream_version t)))"
proof -
  have ok: "daemon_ok d" by (rule daemon_ok_start [OF assms(1)])
  have "watch_ok t"
    using run_watch_ok(1) [OF ok, of env su dry_run interval iterations poll_only answer inps] assms(2) by simp
  moreover have "code \<in> {None, Some 1} \<or>
      (iterations \<noteq> None \<or> (\<exists>inp \<in> set inps. WatchMessage WatchQuit \<in> set (rn_messages inp))) \<and> code = Some 0"
    using run_watch_ok(2) [OF ok, of env su dry_run interval iterations poll_only answer inps] assms(2) by simp
  ultimately show ?thesis
    by (auto simp: watch_ok_def daemon_ok_def streams_ok_def stream_ok_def list_all_iff in_order)
qed

theorem watch_runs_are_sound_witness:
  "wf (cd_store (wt_daemon (snd (run_watch (sample_watch_env stubborn_platform) sample_startup False 750 None False
     sample_daemon (False, NothingYet)
     [sample_round [EventSubscribe True, WatchMessage WatchFocusNext], sample_round [WatchMessage WatchQuit]]))))"
proof -
  have "daemon_start (wv_platform (sample_watch_env stubborn_platform)) sample_daemon"
    using sample_start by (simp add: wv_platform_def sample_watch_env_def sample_ipc_env_def)
  from watch_runs_are_sound [OF this prod.collapse [symmetric]] show ?thesis by blast
qed

section \<open>Requests\<close>

text \<open>What an answer owes the request, for a daemon and a counter before it and after it.\<close>

definition answers ::
    "'w daemon \<Rightarrow> nat \<Rightarrow> 'v ipc_request \<Rightarrow> (ipc_response \<times> bool) \<times> 'w daemon \<times> nat \<Rightarrow> bool" where
  "answers d n q = (\<lambda>((r, broadcast), d', n').
     ir_request_id r = iq_request_id q \<and> ir_protocol_version r = protocol_version \<and>
     (ir_ok r \<longleftrightarrow> ir_result r \<noteq> None) \<and> (ir_ok r \<longleftrightarrow> ir_error r = None) \<and> (broadcast \<longrightarrow> ir_ok r) \<and>
     (iq_protocol_version q \<noteq> protocol_version \<longrightarrow>
        map_option ie_code (ir_error r) = Some ''unsupported_protocol_version'') \<and>
     (iq_protocol_version q = protocol_version \<longrightarrow>
        (map_option ie_code (ir_error r) = Some ''unknown_command'' \<longleftrightarrow> iq_command q \<notin> set ipc_commands)) \<and>
     (\<forall>e. ir_error r = Some e \<longrightarrow> ie_code e = ''runtime_error'' \<or> d' = d \<and> n' = n))"

lemma runtime_answers:
  assumes "respond_to_runtime debug (iq_request_id q) m d = (r, d')"
    and "iq_protocol_version q = protocol_version" "iq_command q \<in> set ipc_commands"
  shows "answers d n q (r, d', n')"
  using assms by (auto simp: answers_def respond_to_runtime_def response_ok_def runtime_error_response_def
      response_error_def ipc_error_new_def split: prod.splits sum.splits)

lemma request_answers: "answers d n q (handle_ipc_request env dry_run q (d, n))"
proof (rule handle_ipc_request_rule [where P = "answers d n"], goal_cases)
  case (1 q code message category)
  then show ?case by (simp add: answers_def ipc_refusal_def response_error_def ipc_error_new_def)
next
  case (2 q v)
  then show ?case by (simp add: answers_def response_ok_def)
next
  case (3 q e reason r d')
  then show ?case by (intro runtime_answers)
next
  case (4 q r d')
  then show ?case by (intro runtime_answers)
next
  case (5 q c v x)
  moreover have "''touchpad_gesture'' \<in> set ipc_commands" by (simp add: ipc_commands_def)
  ultimately show ?case by (simp add: answers_def ipc_request_new_def split: prod.splits)
qed

lemma query_changes_nothing:
  assumes "iq_command q \<in> set query_names"
  shows "snd (handle_ipc_request env dry_run q (d, n)) = (d, n)"
proof -
  obtain v where "query_result (iq_command q) (project_snapshot env d) = Some v"
    using assms query_known by (metis not_None_eq)
  then show ?thesis by (simp add: handle_ipc_request.simps Let_def)
qed

text \<open>
  C38: every request gets one answer, under its own id and the version of the protocol, with a result
  exactly when it succeeded and an error exactly when it did not. Another protocol version is refused
  as such; with the right one, a command is called unknown exactly when it is not among the commands the
  daemon announces. A refusal - any error but one of the daemon itself - changes nothing, and neither
  does a query; the state is broadcast only after a success.
\<close>

theorem every_request_is_answered:
  assumes "handle_ipc_request env dry_run q (d, n) = ((r, broadcast), d', n')"
  shows "ir_request_id r = iq_request_id q \<and> ir_protocol_version r = protocol_version \<and>
    (ir_ok r \<longleftrightarrow> ir_result r \<noteq> None) \<and> (ir_ok r \<longleftrightarrow> ir_error r = None) \<and> (broadcast \<longrightarrow> ir_ok r) \<and>
    (iq_protocol_version q \<noteq> protocol_version \<longrightarrow>
       map_option ie_code (ir_error r) = Some ''unsupported_protocol_version'') \<and>
    (iq_protocol_version q = protocol_version \<longrightarrow>
       (map_option ie_code (ir_error r) = Some ''unknown_command'' \<longleftrightarrow> iq_command q \<notin> set ipc_commands)) \<and>
    (\<forall>e. ir_error r = Some e \<longrightarrow> ie_code e = ''runtime_error'' \<or> d' = d \<and> n' = n) \<and>
    (iq_command q \<in> {''get_outputs'', ''get_workspaces'', ''get_windows'', ''get_focus'', ''dump_diagnostics''} \<longrightarrow>
       d' = d \<and> n' = n)"
  using request_answers [of d n q env dry_run] query_changes_nothing [of q env dry_run d n]
  unfolding assms answers_def query_names_def prod.case list.set snd_conv prod.inject by blast

theorem every_request_is_answered_witness:
  "\<exists>r. handle_ipc_request (sample_ipc_env stubborn_platform) False (ipc_request_new ''7'' ''launch'' []) (sample_daemon, 3) =
     ((r, False), sample_daemon, 3) \<and> ir_request_id r = ''7'' \<and>
     map_option ie_code (ir_error r) = Some ''unknown_command''"
proof -
  let ?q = "ipc_request_new ''7'' ''launch'' []"
  obtain r b d n where run: "handle_ipc_request (sample_ipc_env stubborn_platform) False ?q (sample_daemon, 3) = ((r, b), d, n)"
    by (metis prod.collapse)
  note answered = every_request_is_answered [OF run]
  have code: "map_option ie_code (ir_error r) = Some ''unknown_command''" "ir_request_id r = ''7''"
    using answered by (simp_all add: ipc_request_new_def ipc_commands_def)
  moreover have "d = sample_daemon \<and> n = 3 \<and> \<not> b" using answered code(1) by auto
  ultimately show ?thesis using run by auto
qed

section \<open>Front ends\<close>

text \<open>
  C22: the front ends mean the same. A command of the watch with a name in the protocol becomes, sent
  by a client without a target, the event it becomes when a key or a line of standard input asks for
  it, and the daemon announces that name. The name a configuration binds a command by reads back as
  that command, if it can be bound at all; and an argument of the command line client is sent under the
  name of the command that standard input reads it as.
\<close>

theorem front_ends_agree:
  "(case as_ipc_command_name c of
      None \<Rightarrow> manual_domain_dispatch_spec c i = None
    | Some name \<Rightarrow> name \<in> set ipc_commands \<and>
        map_option fst (ipc_domain_event name i None None) = map_option fst (manual_domain_dispatch_spec c i)) \<and>
   from_hotkey_command (as_hotkey_command_name c) =
     (if c \<in> {WatchSnapshot, WatchRescan, WatchQuit} then None else Some c) \<and>
   list_all (\<lambda>(argument, name). name \<in> set ipc_commands \<and>
      (case from_stdin_alias argument of
         None \<Rightarrow> name = ''dump_diagnostics''
       | Some c \<Rightarrow> as_ipc_command_name c = Some name)) simple_commands"
proof -
  have names: "case as_ipc_command_name c of
      None \<Rightarrow> manual_domain_dispatch_spec c i = None
    | Some name \<Rightarrow> name \<in> set ipc_commands \<and>
        map_option fst (ipc_domain_event name i None None) = map_option fst (manual_domain_dispatch_spec c i)"
    by (cases c) (simp_all add: manual_domain_dispatch_spec_def ipc_domain_event_def ipc_commands_def)
  have keys: "from_hotkey_command (as_hotkey_command_name c) =
     (if c \<in> {WatchSnapshot, WatchRescan, WatchQuit} then None else Some c)"
    by (cases c) (simp_all add: from_hotkey_command_def from_input_command_def)
  have client: "list_all (\<lambda>(argument, name). name \<in> set ipc_commands \<and>
      (case from_stdin_alias argument of
         None \<Rightarrow> name = ''dump_diagnostics''
       | Some c \<Rightarrow> as_ipc_command_name c = Some name)) simple_commands"
    by (simp add: simple_commands_def from_stdin_alias_def ipc_commands_def)
  show ?thesis using names keys client by blast
qed

section \<open>Commands without a target\<close>

text \<open>A command starts by scanning the desktop and synchronising the store with it.\<close>

definition pre_sync :: "('w, 'n) platform \<Rightarrow> ('w, cycle_report) daemon_act" where
  "pre_sync pf =
     bindA (instant_now pf) (\<lambda>_.
     bindA (on_adapter (adapter_scan_snapshot pf)) (\<lambda>p. sync_snapshot_with_reason pf p True ''command-pre-sync''))"

lemma clock_answers: "\<exists>x e. instant_now pf d = (Inr x, e)"
  by (simp add: instant_now_def on_adapter_def stateA_def)

lemma timed_answer:
  assumes "timed pf upd m d = (Inr x, d')"
  shows "\<exists>y. bindA (instant_now pf) (\<lambda>_. m) d = (Inr x, y)"
proof -
  obtain t e where t: "instant_now pf d = (Inr t, e)" using clock_answers by blast
  obtain t' e' where t': "instant_now pf (snd (m e)) = (Inr t', e')" using clock_answers by blast
  show ?thesis
    using assms t t'
    by (auto simp: timed_def bindA_def thenA_def attempt_def modify_def tryA_def split: prod.splits sum.splits)
qed

lemma accepted_command:
  assumes "dispatch_command pf e dry_run reason d = (Inr report, d')"
  shows "\<exists>r v result u. pre_sync pf d = (Inr r, v) \<and> store_dispatch e v = (Inr result, u)"
proof -
  obtain t u where t: "instant_now pf d = (Inr t, u)" using clock_answers by blast
  then obtain y where "command_body pf e dry_run reason u = (Inr report, y)"
    using timed_answer [OF assms [unfolded dispatch_command_def]] by (auto simp: bindA_def)
  then show ?thesis
    unfolding pre_sync_def command_body_def
    by (auto simp: bindA_def gets_def t split: prod.splits sum.splits)
qed

lemma targetless_toggle:
  assumes "focus_window (focus s) = None"
    and "e \<in> {cmd_toggle_floating i None, cmd_toggle_tabbed i None, cmd_toggle_maximized i None, cmd_toggle_fullscreen i None}"
  shows "isl (fst (dispatch e s))"
  using assms by (auto simp: dispatch_def apply_event_def cmd_toggle_floating_def cmd_toggle_tabbed_def
      cmd_toggle_maximized_def cmd_toggle_fullscreen_def event_new_def handle_toggle_floating_def
      handle_toggle_tabbed_def handle_toggle_maximized_def handle_toggle_fullscreen_def
      handle_column_toggle_def command_window_id_def bindA_def tryA_def or_opt_def)

definition window_toggles :: "watch_command list" where
  "window_toggles = [WatchToggleFloating, WatchToggleTabbed, WatchToggleMaximized, WatchToggleFullscreen]"

lemma toggle_event:
  assumes "c \<in> set window_toggles"
  shows "\<exists>e label reason name. manual_domain_dispatch_spec c i = Some (e, label) \<and>
    as_ipc_command_name c = Some name \<and> ipc_domain_event name i None None = Some (e, reason) \<and>
    name \<noteq> ''reload_config'' \<and> name \<notin> set query_names \<and>
    (\<forall>s. focus_window (focus s) = None \<longrightarrow> isl (fst (dispatch e s)))"
proof -
  have names: "manual_domain_dispatch_spec WatchToggleFloating i = Some (cmd_toggle_floating i None, ''manual-toggle-floating'')"
    "manual_domain_dispatch_spec WatchToggleTabbed i = Some (cmd_toggle_tabbed i None, ''manual-toggle-tabbed'')"
    "manual_domain_dispatch_spec WatchToggleMaximized i = Some (cmd_toggle_maximized i None, ''manual-toggle-maximized'')"
    "manual_domain_dispatch_spec WatchToggleFullscreen i = Some (cmd_toggle_fullscreen i None, ''manual-toggle-fullscreen'')"
    "ipc_domain_event ''toggle_floating'' i None None = Some (cmd_toggle_floating i None, ''ipc-toggle-floating'')"
    "ipc_domain_event ''toggle_tabbed'' i None None = Some (cmd_toggle_tabbed i None, ''ipc-toggle-tabbed'')"
    "ipc_domain_event ''toggle_maximized'' i None None = Some (cmd_toggle_maximized i None, ''ipc-toggle-maximized'')"
    "ipc_domain_event ''toggle_fullscreen'' i None None = Some (cmd_toggle_fullscreen i None, ''ipc-toggle-fullscreen'')"
    by (simp_all add: manual_domain_dispatch_spec_def ipc_domain_event_def)
  have fails: "\<forall>s. focus_window (focus s) = None \<longrightarrow> isl (fst (dispatch e s))"
    if "e \<in> {cmd_toggle_floating i None, cmd_toggle_tabbed i None, cmd_toggle_maximized i None, cmd_toggle_fullscreen i None}" for e
    using that targetless_toggle by blast
  show ?thesis
    using assms unfolding window_toggles_def list.set
    by (elim insertE emptyE) (simp_all add: names query_names_def, simp_all add: fails)
qed

text \<open>The desktop has no window: neither the store nor any scan knows one.\<close>

definition no_windows :: "('w, 'n) platform \<Rightarrow> 'w daemon \<Rightarrow> bool" where
  "no_windows pf d \<longleftrightarrow>
     windows (cd_store d) = [] \<and> focus_window (focus (cd_store d)) = None \<and> focus_column (focus (cd_store d)) = None \<and>
     (\<forall>w p. fst (pf_scan pf w) = Inr p \<longrightarrow> psn_windows p = [])"

lemma scanned_desktop:
  assumes "on_adapter (adapter_scan_snapshot pf) d = (Inr p, e)"
  shows "\<exists>w. fst (pf_scan pf w) = Inr p"
  using assms by (auto simp: on_adapter_def adapter_scan_snapshot_def bindA_def thenA_def stateA_def modify_def
      tryA_def on_world_def Let_def split: prod.splits) (metis fst_conv)

lemma no_windows_no_focus:
  assumes "no_windows pf d"
  shows "focus_window (focus (cd_store (snd (pre_sync pf d)))) = None"
proof -
  have "quiet d" using assms by (simp add: no_windows_def quiet_def focused_def)
  obtain n e where clock: "instant_now pf d = (Inr n, e)" using clock_answers by blast
  have e: "quiet e" using preservesD [OF quiet_clock(1) [of pf] \<open>quiet d\<close>] by (simp add: clock)
  obtain r u where scan: "on_adapter (adapter_scan_snapshot pf) e = (r, u)"
    by (cases "on_adapter (adapter_scan_snapshot pf) e")
  have u: "quiet u" using preservesD [OF quiet_adapter e] by (metis scan snd_conv)
  show ?thesis
  proof (cases r)
    case (Inl err)
    then show ?thesis using u by (simp add: pre_sync_def bindA_def clock scan quiet_focus)
  next
    case (Inr p)
    then have "psn_windows p = []" using assms scanned_desktop scan by (fastforce simp: no_windows_def)
    then have "quiet (snd (sync_snapshot_with_reason pf p True ''command-pre-sync'' u))"
      by (rule preservesD [OF quiet_synchronised u])
    then show ?thesis using Inr by (simp add: pre_sync_def bindA_def clock scan quiet_focus)
  qed
qed

lemma targetless_command_fails:
  assumes "no_windows pf d"
    and "\<And>s. focus_window (focus s) = None \<Longrightarrow> isl (fst (dispatch e s))"
  shows "\<exists>err. fst (dispatch_command pf e dry_run label d) = Inl err"
proof (rule ccontr)
  assume "\<nexists>err. fst (dispatch_command pf e dry_run label d) = Inl err"
  then obtain report d' where "dispatch_command pf e dry_run label d = (Inr report, d')"
    by (metis prod.collapse sum.exhaust)
  then obtain r v result u where "pre_sync pf d = (Inr r, v)" "store_dispatch e v = (Inr result, u)"
    using accepted_command by blast
  then show False
    using no_windows_no_focus [OF assms(1)] assms(2) [of "cd_store v"]
    by (auto simp: store_dispatch_def on_store_def split: prod.splits)
qed

text \<open>
  C18: on a desktop without windows, a hotkey or a line of standard input that toggles the focused
  window ends the whole process with 1, whatever else the state is. The same command from a client
  is answered with an error and the watch goes on.
\<close>

theorem targetless_toggle_ends_the_watch:
  assumes "c \<in> {WatchToggleFloating, WatchToggleTabbed, WatchToggleMaximized, WatchToggleFullscreen}"
    and "as_ipc_command_name c = Some name"
    and "no_windows (wv_platform env) (wt_daemon t)"
    and "js_get (ev_json (wv_ipc env)) payload = (\<lambda>_. None)"
  shows "fst (handle_control_message env dry_run (WatchMessage c) t) = FlowExit 1 \<and>
    (\<exists>r u. handle_control_message env dry_run (IpcRequestMessage (ipc_request_new i name payload)) t = (FlowContinue, u) \<and>
       wt_responses u = r # wt_responses t \<and> map_option ie_code (ir_error r) = Some ''runtime_error'')"
proof -
  let ?pf = "wv_platform env" and ?n = "CorrelationId (wt_manual_correlation_id t)"
  obtain e label reason where e: "manual_domain_dispatch_spec c ?n = Some (e, label)"
      "ipc_domain_event name ?n None None = Some (e, reason)" "name \<noteq> ''reload_config''" "name \<notin> set query_names"
      "\<And>s. focus_window (focus s) = None \<Longrightarrow> isl (fst (dispatch e s))"
    using toggle_event [of c ?n] assms(1,2) by (auto simp: window_toggles_def)
  have fails: "\<exists>err. fst (dispatch_command ?pf e dry_run label (wt_daemon t)) = Inl err" for label
    by (rule targetless_command_fails [OF assms(3) e(5)])
  obtain err d where key: "dispatch_command ?pf e dry_run label (wt_daemon t) = (Inl err, d)"
    using fails [of label] by (metis prod.collapse)
  obtain err' d' where client: "dispatch_command ?pf e dry_run reason (wt_daemon t) = (Inl err', d')"
    using fails [of reason] by (metis prod.collapse)
  have "query_result name (project_snapshot (wv_ipc env) (wt_daemon t)) = None" using e(4) by (simp add: query_known)
  then have "handle_ipc_request (wv_ipc env) dry_run (ipc_request_new i name payload) (wt_daemon t, wt_manual_correlation_id t) =
      ((runtime_error_response (ev_debug (wv_ipc env)) i err', False), d', wt_manual_correlation_id t + 1)"
    using client e(2) assms(4)
    by (simp add: handle_ipc_request.simps ipc_request_new_def Let_def optional_monitor_id_def optional_window_id_def
        respond_to_runtime_def wv_platform_def)
  moreover have "handle_watch_command env dry_run c t = (FlowExit 1, t\<lparr>wt_daemon := d, wt_manual_correlation_id := wt_manual_correlation_id t + 1\<rparr>)"
    using key e(1) by (simp add: handle_watch_command_def take_manual_correlation_id_def
        dispatch_manual_domain_event_def reported_cycle_def run_daemon_act_def)
  ultimately show ?thesis
    using e(3) by (simp add: answer_ipc_request_def ipc_request_new_def runtime_error_response_def response_error_def
        ipc_error_new_def Let_def)
qed

text \<open>A desktop with two monitors and no window.\<close>

definition empty_platform :: "(nat, unit) platform" where
  "empty_platform = stubborn_platform\<lparr>pf_scan := (\<lambda>w. (Inr (sample_snapshot\<lparr>psn_windows := []\<rparr>), w))\<rparr>"

lemma start_without_windows: "no_windows empty_platform sample_daemon"
  by (simp add: no_windows_def empty_platform_def sample_daemon_def daemon_with_adapter_def wm_state_new_def
      focus_state_default_def push_flag_def Let_def)

theorem targetless_toggle_ends_the_watch_witness:
  "fst (handle_control_message (sample_watch_env empty_platform) False (WatchMessage WatchToggleFullscreen)
     (watch_of sample_daemon)) = FlowExit 1"
  using targetless_toggle_ends_the_watch [of WatchToggleFullscreen "''toggle_fullscreen''" "sample_watch_env empty_platform"
      "watch_of sample_daemon" "[]" False "''1''"] start_without_windows
  by (simp add: sample_watch_env_def sample_ipc_env_def wv_platform_def watch_of_def)

end
