(* ===== verification/Native_Window.thy ===== *)
theory Native_Window
  imports Native_Scan Snapshot_Projection
begin

text \<open>
  \<open>crates/windows-adapter/src/native_apply/window_geometry.rs\<close>, \<open>visual_effects.rs\<close>, \<open>activation.rs\<close>,
  the helpers at the end of \<open>native_apply.rs\<close> and \<open>dpi.rs\<close>: what the adapter does to one native window.
  Windows is a record of calls on a world, in which a handle is its address and 0 is null; a call that
  answers by a flag, a code or a handle does so here. The process-wide registries are fields of the state.
  The frame tests repeat those of the window filter word for word and are shared with it.
\<close>

unbundle bit_operations_syntax

section \<open>Windows\<close>

text \<open>The fields of a DWM thumbnail that are set: flags, where on the host, from where, how opaque.\<close>

record thumbnail_properties =
  tp_flags :: nat
  tp_destination :: win32_rect
  tp_source :: win32_rect
  tp_opacity :: nat

record 'w win32 =
  wc_thread_dpi :: "'w \<Rightarrow> int \<times> 'w"
  wc_set_thread_dpi :: "int \<Rightarrow> 'w \<Rightarrow> 'w"
  wc_contexts_equal :: "int \<Rightarrow> int \<Rightarrow> bool"
  wc_last_error :: "'w \<Rightarrow> nat \<times> 'w"
  wc_now :: "'w \<Rightarrow> nat \<times> 'w"
  wc_sleep :: "nat \<Rightarrow> 'w \<Rightarrow> 'w"
  wc_is_window :: "nat \<Rightarrow> 'w \<Rightarrow> bool \<times> 'w"
  wc_window_rect :: "nat \<Rightarrow> 'w \<Rightarrow> win32_rect option \<times> 'w"
  wc_frame_bounds :: "nat \<Rightarrow> 'w \<Rightarrow> (int \<times> win32_rect) \<times> 'w"
  wc_set_window_pos :: "nat \<Rightarrow> int \<Rightarrow> int \<times> int \<times> int \<times> int \<Rightarrow> nat \<Rightarrow> 'w \<Rightarrow> bool \<times> 'w"
  wc_begin_defer :: "int \<Rightarrow> 'w \<Rightarrow> nat \<times> 'w"
  wc_defer :: "nat \<Rightarrow> nat \<Rightarrow> int \<times> int \<times> int \<times> int \<Rightarrow> nat \<Rightarrow> 'w \<Rightarrow> nat \<times> 'w"
  wc_end_defer :: "nat \<Rightarrow> 'w \<Rightarrow> bool \<times> 'w"
  wc_get_long :: "nat \<Rightarrow> int \<Rightarrow> 'w \<Rightarrow> int \<times> 'w"
  wc_set_long :: "nat \<Rightarrow> int \<Rightarrow> int \<Rightarrow> 'w \<Rightarrow> 'w"
  wc_set_layered :: "nat \<Rightarrow> nat \<Rightarrow> 'w \<Rightarrow> bool \<times> 'w"
  wc_create_region :: "win32_rect \<Rightarrow> 'w \<Rightarrow> nat \<times> 'w"
  wc_set_region :: "nat \<Rightarrow> nat \<Rightarrow> 'w \<Rightarrow> bool \<times> 'w"
  wc_delete_object :: "nat \<Rightarrow> 'w \<Rightarrow> 'w"
  wc_set_dwm :: "nat \<Rightarrow> nat \<Rightarrow> nat \<Rightarrow> 'w \<Rightarrow> 'w"
  wc_current_thread :: "'w \<Rightarrow> nat \<times> 'w"
  wc_foreground :: "'w \<Rightarrow> nat \<times> 'w"
  wc_window_thread :: "nat \<Rightarrow> 'w \<Rightarrow> nat \<times> 'w"
  wc_attach :: "nat \<Rightarrow> nat \<Rightarrow> bool \<Rightarrow> 'w \<Rightarrow> bool \<times> 'w"
  wc_is_iconic :: "nat \<Rightarrow> 'w \<Rightarrow> bool \<times> 'w"
  wc_show_window :: "nat \<Rightarrow> nat \<Rightarrow> 'w \<Rightarrow> 'w"
  wc_bring_to_top :: "nat \<Rightarrow> 'w \<Rightarrow> 'w"
  wc_set_active :: "nat \<Rightarrow> 'w \<Rightarrow> 'w"
  wc_set_focus :: "nat \<Rightarrow> 'w \<Rightarrow> 'w"
  wc_set_foreground :: "nat \<Rightarrow> 'w \<Rightarrow> 'w"
  wc_send_keys :: "(nat \<times> bool) list \<Rightarrow> 'w \<Rightarrow> 'w"
  wc_send_mouse :: "nat list \<Rightarrow> 'w \<Rightarrow> nat \<times> 'w"
  wc_class :: "nat \<Rightarrow> 'w \<Rightarrow> string option \<times> 'w"
  wc_related :: "nat \<Rightarrow> nat \<Rightarrow> 'w \<Rightarrow> nat \<times> 'w"
  wc_is_visible :: "nat \<Rightarrow> 'w \<Rightarrow> bool \<times> 'w"
  wc_process :: "nat \<Rightarrow> 'w \<Rightarrow> nat \<times> 'w"
  wc_destroy :: "nat \<Rightarrow> 'w \<Rightarrow> 'w"
  wc_create :: "string \<Rightarrow> nat \<Rightarrow> 'w \<Rightarrow> nat \<times> 'w"
  wc_register_thumbnail :: "nat \<Rightarrow> nat \<Rightarrow> 'w \<Rightarrow> (int \<times> int) \<times> 'w"
  wc_update_thumbnail :: "int \<Rightarrow> thumbnail_properties \<Rightarrow> 'w \<Rightarrow> int \<times> 'w"
  wc_unregister_thumbnail :: "int \<Rightarrow> 'w \<Rightarrow> int \<times> 'w"
  wc_shell_window :: "'w \<Rightarrow> nat \<times> 'w"
  wc_log :: "string \<Rightarrow> 'w \<Rightarrow> 'w"

record applied_visual_state =
  av_opacity_alpha :: "nat option"
  av_opacity_mode :: opacity_mode
  av_disable_visual_effects :: bool
  av_border_color_rgb :: "nat option"
  av_rounded_corners :: bool

text \<open>
  The registries of layered windows, visual states and clip masks, and those of the surrogates:
  their diagnostics, the presentations they overrule and the windows that have one; then those of the
  monitor scenes, of the browser surrogates and of the dim overlays.
\<close>

record scene_diagnostics =
  sn_active_hosts :: nat
  sn_show_requests :: nat
  sn_hide_requests :: nat
  sn_pruned_hosts :: nat
  sn_dwm_thumbnail_backend_uses :: nat
  sn_last_event :: "string option"

record 'w native =
  nt_world :: 'w
  nt_layered :: "nat set"
  nt_visual :: "nat \<rightharpoonup> applied_visual_state"
  nt_masked :: "nat set"
  nt_diagnostics :: surrogate_diagnostics
  nt_overrides :: "nat \<rightharpoonup> presentation_override"
  nt_owners :: "nat set"
  nt_scene :: scene_diagnostics
  nt_scene_owners :: "nat set"
  nt_browser_owners :: "nat set"
  nt_dim_owners :: "nat set"

text \<open>A call that answers, one that does not, and a loop that may leave the function.\<close>

definition sys :: "('w \<Rightarrow> 'a \<times> 'w) \<Rightarrow> ('w native, 'e, 'a) act" where
  "sys f = (\<lambda>s. let (x, w) = f (nt_world s) in (Inr x, s\<lparr>nt_world := w\<rparr>))"

definition sys_do :: "('w \<Rightarrow> 'w) \<Rightarrow> ('w native, 'e, unit) act" where
  "sys_do f = modify (\<lambda>s. s\<lparr>nt_world := f (nt_world s)\<rparr>)"

primrec each :: "('a \<Rightarrow> ('s, 'e, unit) act) \<Rightarrow> 'a list \<Rightarrow> ('s, 'e, unit) act" where
  "each f [] = ret ()"
| "each f (x # xs) = thenA (f x) (each f xs)"

definition when_do :: "bool \<Rightarrow> ('s, 'e, unit) act \<Rightarrow> ('s, 'e, unit) act" where
  "when_do b m = (if b then m else ret ())"

definition ignore :: "('s, 'e, 'a) act \<Rightarrow> ('s, 'e, unit) act" where
  "ignore m = bindA m (\<lambda>_. ret ())"

record api_error =
  ae_code :: nat
  ae_message :: string

definition last_error :: "'w win32 \<Rightarrow> string \<Rightarrow> ('w native, 'e, api_error) act" where
  "last_error wc api =
     bindA (sys (wc_last_error wc)) (\<lambda>code.
     ret \<lparr>ae_code = code, ae_message = api @ '' failed with Win32 error '' @ nat_to_dec code\<rparr>)"

definition last_error_message :: "'w win32 \<Rightarrow> string \<Rightarrow> ('w native, 'e, string) act" where
  "last_error_message wc api = bindA (last_error wc api) (\<lambda>e. ret (ae_message e))"

definition native_hwnd_from_raw :: "nat \<Rightarrow> string + nat" where
  "native_hwnd_from_raw h =
     (if h < 2 ^ 63 then Inr h
      else Inl (''window handle '' @ nat_to_dec h @ '' does not fit pointer width''))"

definition is_valid_window :: "'w win32 \<Rightarrow> nat \<Rightarrow> ('w native, 'e, bool) act" where
  "is_valid_window wc h = (if h = 0 then ret False else sys (wc_is_window wc h))"

section \<open>DPI awareness\<close>

text \<open>The contexts are the pseudo handles of the Windows headers.\<close>

definition dpi_unaware :: int where "dpi_unaware = -1"

definition dpi_system_aware :: int where "dpi_system_aware = -2"

definition dpi_per_monitor :: int where "dpi_per_monitor = -3"

definition dpi_per_monitor_v2 :: int where "dpi_per_monitor_v2 = -4"

definition dpi_unaware_gdi :: int where "dpi_unaware_gdi = -5"

definition current_thread_is_per_monitor_v2 :: "'w win32 \<Rightarrow> ('w native, 'e, bool) act" where
  "current_thread_is_per_monitor_v2 wc =
     bindA (sys (wc_thread_dpi wc)) (\<lambda>current. ret (wc_contexts_equal wc current dpi_per_monitor_v2))"

definition current_thread_awareness_label :: "'w win32 \<Rightarrow> ('w native, 'e, string) act" where
  "current_thread_awareness_label wc =
     bindA (sys (wc_thread_dpi wc)) (\<lambda>current. ret
       (if wc_contexts_equal wc current dpi_per_monitor_v2 then ''per-monitor-v2''
        else if wc_contexts_equal wc current dpi_per_monitor then ''per-monitor-v1''
        else if wc_contexts_equal wc current dpi_system_aware then ''system-aware''
        else if wc_contexts_equal wc current dpi_unaware_gdi then ''unaware-gdi-scaled''
        else if wc_contexts_equal wc current dpi_unaware then ''unaware''
        else ''unknown''))"

definition ensure_current_thread_per_monitor_v2 :: "'w win32 \<Rightarrow> string \<Rightarrow> ('w native, string, unit) act" where
  "ensure_current_thread_per_monitor_v2 wc component =
     bindA (current_thread_is_per_monitor_v2 wc) (\<lambda>already.
     if already then ret ()
     else thenA (sys_do (wc_set_thread_dpi wc dpi_per_monitor_v2))
       (bindA (current_thread_is_per_monitor_v2 wc) (\<lambda>now.
        if now then ret ()
        else bindA (current_thread_awareness_label wc) (\<lambda>label.
          throw (component @
            '' requires Per Monitor DPI Aware v2 thread context; current thread awareness is '' @ label)))))"

section \<open>Geometry\<close>

text \<open>\<open>SWP_NOZORDER | SWP_NOACTIVATE | SWP_NOOWNERZORDER | SWP_SHOWWINDOW\<close>.\<close>

definition geometry_apply_flags :: nat where
  "geometry_apply_flags = 0x4 OR 0x10 OR 0x200 OR 0x40"

record frame_inset =
  fi_left :: int
  fi_top :: int
  fi_right :: int
  fi_bottom :: int

record translated_rect =
  tr_x :: int
  tr_y :: int
  tr_width :: int
  tr_height :: int

definition query_outer_rect :: "'w win32 \<Rightarrow> nat \<Rightarrow> ('w native, string, win32_rect) act" where
  "query_outer_rect wc h =
     bindA (sys (wc_window_rect wc h)) (\<lambda>answer.
     case answer of
       None \<Rightarrow> bindA (last_error_message wc ''GetWindowRect'') throw
     | Some r \<Rightarrow> ret r)"

definition query_visible_frame_rect :: "'w win32 \<Rightarrow> nat \<Rightarrow> ('w native, 'e, win32_rect option) act" where
  "query_visible_frame_rect wc h =
     bindA (sys (wc_frame_bounds wc h)) (\<lambda>(code, r). ret (if 0 \<le> code then Some r else None))"

definition frame_insets :: "win32_rect \<Rightarrow> win32_rect \<Rightarrow> frame_inset" where
  "frame_insets outer visible =
     \<lparr>fi_left = max (wrap_i32 (w_left visible - w_left outer)) 0,
      fi_top = max (wrap_i32 (w_top visible - w_top outer)) 0,
      fi_right = max (wrap_i32 (w_right outer - w_right visible)) 0,
      fi_bottom = max (wrap_i32 (w_bottom outer - w_bottom visible)) 0\<rparr>"

definition usable_frame :: "win32_rect \<Rightarrow> win32_rect option \<Rightarrow> win32_rect" where
  "usable_frame outer frame =
     (case filter_opt (visible_frame_is_compatible outer) frame of None \<Rightarrow> outer | Some r \<Rightarrow> r)"

definition compensated_visible_rect :: "apply_operation \<Rightarrow> string + rect" where
  "compensated_visible_rect op =
     (if \<not> op_suppress_visual_gap op then Inr (op_rect op)
      else let r = op_rect op;
               x = (if 0 < rect_x r then i32_sat_sub (rect_x r) (max tiled_visual_overlap_x_px 0) else rect_x r)
           in Inr (rect_new x (rect_y r) (rect_width r) (rect_height r)))"

definition u32_try_i32 :: "nat \<Rightarrow> string \<Rightarrow> string + int" where
  "u32_try_i32 n message = (if int n \<le> i32_max then Inr (int n) else Inl message)"

definition i32_checked_add :: "int \<Rightarrow> int \<Rightarrow> int option" where
  "i32_checked_add a b = (if is_i32 (a + b) then Some (a + b) else None)"

definition translated_window_rect ::
    "'w win32 \<Rightarrow> nat \<Rightarrow> apply_operation \<Rightarrow> ('w native, string, translated_rect) act" where
  "translated_window_rect wc h op =
     (let name = ''window '' @ nat_to_dec (op_hwnd op) in
      bindA (tryA (\<lambda>_. compensated_visible_rect op)) (\<lambda>target.
      bindA (tryA (\<lambda>_. u32_try_i32 (rect_width target) (name @ '' width exceeded Win32 limits''))) (\<lambda>vw.
      bindA (tryA (\<lambda>_. u32_try_i32 (rect_height target) (name @ '' height exceeded Win32 limits''))) (\<lambda>vh.
      bindA (query_outer_rect wc h) (\<lambda>outer.
      bindA (query_visible_frame_rect wc h) (\<lambda>frame.
      let insets = frame_insets outer (usable_frame outer frame) in
      bindA (tryA (\<lambda>_. ok_or
               (Option.bind (i32_checked_add vw (fi_left insets)) (\<lambda>v. i32_checked_add v (fi_right insets)))
               (name @ '' translated width overflowed''))) (\<lambda>width.
      bindA (tryA (\<lambda>_. ok_or
               (Option.bind (i32_checked_add vh (fi_top insets)) (\<lambda>v. i32_checked_add v (fi_bottom insets)))
               (name @ '' translated height overflowed''))) (\<lambda>height.
      ret \<lparr>tr_x = i32_sat_sub (rect_x target) (fi_left insets),
           tr_y = i32_sat_sub (rect_y target) (fi_top insets),
           tr_width = width, tr_height = height\<rparr>))))))))"

section \<open>Visual effects\<close>

definition gwl_exstyle :: int where "gwl_exstyle = -20"

definition ws_ex_layered :: nat where "ws_ex_layered = 0x80000"

text \<open>The style refresh keeps order, place and size and asks for a new frame.\<close>

definition visual_style_refresh_flags :: nat where
  "visual_style_refresh_flags = 0x4 OR 0x10 OR 0x200 OR 0x2 OR 0x1 OR 0x20"

definition visual_state_of :: "visual_emphasis \<Rightarrow> applied_visual_state" where
  "visual_state_of e =
     \<lparr>av_opacity_alpha = ve_opacity_alpha e, av_opacity_mode = ve_opacity_mode e,
      av_disable_visual_effects = ve_disable_visual_effects e,
      av_border_color_rgb = ve_border_color_rgb e, av_rounded_corners = ve_rounded_corners e\<rparr>"

definition normalized_visual_emphasis :: "visual_emphasis \<Rightarrow> visual_emphasis" where
  "normalized_visual_emphasis e =
     (if ve_opacity_mode e \<noteq> BrowserSurrogate then e else e\<lparr>ve_opacity_mode := OverlayDim\<rparr>)"

definition direct_layered_opacity_alpha :: "visual_emphasis \<Rightarrow> nat option" where
  "direct_layered_opacity_alpha e = (case ve_opacity_mode e of DirectLayered \<Rightarrow> ve_opacity_alpha e | _ \<Rightarrow> None)"

definition browser_surrogate_alpha :: "visual_emphasis \<Rightarrow> nat option" where
  "browser_surrogate_alpha e = (case ve_opacity_mode e of BrowserSurrogate \<Rightarrow> ve_opacity_alpha e | _ \<Rightarrow> None)"

definition overlay_dim_alpha_from_window_opacity :: "nat \<Rightarrow> nat" where
  "overlay_dim_alpha_from_window_opacity alpha = 255 - alpha"

definition overlay_dim_alpha :: "visual_emphasis \<Rightarrow> nat option" where
  "overlay_dim_alpha e =
     (case ve_opacity_mode e of
        OverlayDim \<Rightarrow> map_option overlay_dim_alpha_from_window_opacity (ve_opacity_alpha e)
      | _ \<Rightarrow> None)"

definition style_has_layered :: "nat \<Rightarrow> bool" where
  "style_has_layered ex_style \<longleftrightarrow> ex_style AND ws_ex_layered \<noteq> 0"

definition should_refresh_after_layered_enable :: "bool \<Rightarrow> bool" where
  "should_refresh_after_layered_enable currently_layered \<longleftrightarrow> \<not> currently_layered"

definition should_clear_layered_style :: "bool \<Rightarrow> bool \<Rightarrow> bool" where
  "should_clear_layered_style tracked currently_layered \<longleftrightarrow> tracked \<and> currently_layered"

definition should_skip_visual_write ::
    "applied_visual_state \<Rightarrow> applied_visual_state \<Rightarrow> bool \<Rightarrow> bool \<Rightarrow> bool \<Rightarrow> bool" where
  "should_skip_visual_write previous desired force tracked currently_layered \<longleftrightarrow>
     previous = desired \<and> (\<not> force \<or> \<not> tracked \<or> \<not> currently_layered)"

definition query_window_ex_style :: "'w win32 \<Rightarrow> nat \<Rightarrow> ('w native, string, nat) act" where
  "query_window_ex_style wc h =
     bindA (sys (wc_get_long wc h gwl_exstyle)) (\<lambda>ex_style.
     if ex_style = 0 then
       bindA (sys (wc_last_error wc)) (\<lambda>code.
       if code \<noteq> 0 then throw (''GetWindowLongPtrW failed with Win32 error '' @ nat_to_dec code)
       else ret 0)
     else ret (i32_as_u32 ex_style))"

definition refresh_window_frame :: "'w win32 \<Rightarrow> nat \<Rightarrow> ('w native, 'e, unit) act" where
  "refresh_window_frame wc h =
     ignore (sys (wc_set_window_pos wc h 0 (0, 0, 0, 0) visual_style_refresh_flags))"

definition clear_layered_bit :: "nat \<Rightarrow> nat" where
  "clear_layered_bit ex_style = unat ((word_of_nat ex_style :: 32 word) AND NOT (word_of_nat ws_ex_layered))"

definition apply_window_opacity ::
    "'w win32 \<Rightarrow> nat \<Rightarrow> nat \<Rightarrow> nat option \<Rightarrow> bool \<Rightarrow> ('w native, string, unit) act" where
  "apply_window_opacity wc h ex_style opacity force =
     (let currently_layered = style_has_layered ex_style in
      case opacity of
        Some alpha \<Rightarrow>
          thenA (sys_do (wc_set_long wc h gwl_exstyle (int (ex_style OR ws_ex_layered))))
            (bindA (sys (wc_set_layered wc h alpha)) (\<lambda>layered_applied.
             if \<not> layered_applied then bindA (last_error_message wc ''SetLayeredWindowAttributes'') throw
             else thenA (modify (\<lambda>s. s\<lparr>nt_layered := insert h (nt_layered s)\<rparr>))
               (when_do (should_refresh_after_layered_enable currently_layered) (refresh_window_frame wc h))))
      | None \<Rightarrow>
          bindA (gets (\<lambda>s. h \<in> nt_layered s)) (\<lambda>tracked.
          thenA (modify (\<lambda>s. s\<lparr>nt_layered := nt_layered s - {h}\<rparr>))
            (if should_clear_layered_style tracked currently_layered then
               thenA (when_do currently_layered (ignore (sys (wc_set_layered wc h 255))))
                 (thenA (sys_do (wc_set_long wc h gwl_exstyle (int (clear_layered_bit ex_style))))
                   (when_do currently_layered (refresh_window_frame wc h)))
             else when_do (force \<and> tracked) (ignore (sys (wc_set_layered wc h 255))))))"

text \<open>Border colour (34) and corner preference (33) of the desktop window manager.\<close>

definition dwm_color_none :: nat where "dwm_color_none = 0xFFFFFFFE"

definition apply_gapless_visual_policy :: "'w win32 \<Rightarrow> nat \<Rightarrow> ('w native, 'e, unit) act" where
  "apply_gapless_visual_policy wc h = sys_do (wc_set_dwm wc h 34 dwm_color_none)"

definition apply_window_border :: "'w win32 \<Rightarrow> nat \<Rightarrow> visual_emphasis \<Rightarrow> ('w native, 'e, unit) act" where
  "apply_window_border wc h e =
     sys_do (wc_set_dwm wc h 34 (case ve_border_color_rgb e of None \<Rightarrow> dwm_color_none | Some c \<Rightarrow> c))"

definition apply_window_corners :: "'w win32 \<Rightarrow> nat \<Rightarrow> visual_emphasis \<Rightarrow> ('w native, 'e, unit) act" where
  "apply_window_corners wc h e = sys_do (wc_set_dwm wc h 33 (if ve_rounded_corners e then 2 else 1))"

section \<open>The clip mask\<close>

text \<open>The right and bottom edges of a rectangle, which saturate.\<close>

definition right_edge :: "rect \<Rightarrow> int" where
  "right_edge r = i32_sat_add (rect_x r) (u32_clip_i32 (rect_width r))"

definition bottom_edge :: "rect \<Rightarrow> int" where
  "bottom_edge r = i32_sat_add (rect_y r) (u32_clip_i32 (rect_height r))"

definition native_clip_region_bounds :: "rect \<Rightarrow> rect \<Rightarrow> frame_inset \<Rightarrow> win32_rect option" where
  "native_clip_region_bounds full clip insets =
     (let left = max (rect_x full) (rect_x clip); top = max (rect_y full) (rect_y clip);
          right = min (right_edge full) (right_edge clip);
          bottom = min (bottom_edge full) (bottom_edge clip);
          width = i32_sat_sub right left; height = i32_sat_sub bottom top
      in if width \<le> 0 \<or> height \<le> 0 then None
         else if left = rect_x full \<and> top = rect_y full \<and> right = right_edge full \<and> bottom = bottom_edge full
         then None
         else
           let l = i32_sat_add (fi_left insets) (i32_sat_sub left (rect_x full));
               t = i32_sat_add (fi_top insets) (i32_sat_sub top (rect_y full))
           in Some \<lparr>w_left = l, w_top = t, w_right = i32_sat_add l width, w_bottom = i32_sat_add t height\<rparr>)"

definition clear_window_native_clip_mask :: "'w win32 \<Rightarrow> nat \<Rightarrow> ('w native, 'e, unit) act" where
  "clear_window_native_clip_mask wc h =
     bindA (gets (\<lambda>s. h \<in> nt_masked s)) (\<lambda>was_masked.
     thenA (modify (\<lambda>s. s\<lparr>nt_masked := nt_masked s - {h}\<rparr>))
       (when_do was_masked (ignore (sys (wc_set_region wc h 0)))))"

definition sync_window_native_clip_mask ::
    "'w win32 \<Rightarrow> nat \<Rightarrow> rect option \<Rightarrow> rect option \<Rightarrow> ('w native, string, unit) act" where
  "sync_window_native_clip_mask wc h full_visible clip =
     (case (full_visible, clip) of
        (Some full, Some c) \<Rightarrow>
          bindA (query_outer_rect wc h) (\<lambda>outer.
          bindA (query_visible_frame_rect wc h) (\<lambda>frame.
          case native_clip_region_bounds full c (frame_insets outer (usable_frame outer frame)) of
            None \<Rightarrow> clear_window_native_clip_mask wc h
          | Some bounds \<Rightarrow>
              bindA (sys (wc_create_region wc bounds)) (\<lambda>region.
              if region = 0 then bindA (last_error_message wc ''CreateRectRgn'') throw
              else bindA (sys (wc_set_region wc h region)) (\<lambda>applied.
                if \<not> applied
                then thenA (sys_do (wc_delete_object wc region))
                       (bindA (last_error_message wc ''SetWindowRgn'') throw)
                else modify (\<lambda>s. s\<lparr>nt_masked := insert h (nt_masked s)\<rparr>)))))
      | _ \<Rightarrow> clear_window_native_clip_mask wc h)"

definition native_clip_masked_hwnds_snapshot :: "'w native \<Rightarrow> nat set" where
  "native_clip_masked_hwnds_snapshot s = {h \<in> nt_masked s. 0 < h}"

section \<open>Activation\<close>

text \<open>The pairs of threads whose input queues are attached, in the order they were.\<close>

definition attach_thread_pair ::
    "'w win32 \<Rightarrow> nat \<Rightarrow> nat \<Rightarrow> (nat \<times> nat) list \<Rightarrow> ('w native, 'e, (nat \<times> nat) list) act" where
  "attach_thread_pair wc left right pairs =
     (if left = 0 \<or> right = 0 \<or> left = right then ret pairs
      else bindA (sys (wc_attach wc left right True)) (\<lambda>attached.
        ret (if attached then pairs @ [(left, right)] else pairs)))"

text \<open>The menu key (18), pressed and released.\<close>

definition unlock_foreground_with_alt :: "'w win32 \<Rightarrow> ('w native, 'e, unit) act" where
  "unlock_foreground_with_alt wc = sys_do (wc_send_keys wc [(18, False), (18, True)])"

definition bring_forward :: "'w win32 \<Rightarrow> nat \<Rightarrow> ('w native, 'e, bool) act" where
  "bring_forward wc h =
     bindA (sys (wc_is_iconic wc h)) (\<lambda>iconic.
     thenA (sys_do (wc_show_window wc h (if iconic then 9 else 5)))
     (thenA (sys_do (wc_bring_to_top wc h))
     (thenA (sys_do (wc_set_active wc h))
     (thenA (sys_do (wc_set_focus wc h))
     (thenA (sys_do (wc_set_foreground wc h))
     (thenA (sys_do (wc_bring_to_top wc h))
     (thenA (sys_do (wc_set_foreground wc h))
     (bindA (sys (wc_foreground wc)) (\<lambda>front.
      if front = h then ret True
      else thenA (unlock_foreground_with_alt wc)
        (thenA (sys_do (wc_bring_to_top wc h))
        (thenA (sys_do (wc_set_foreground wc h))
        (bindA (sys (wc_foreground wc)) (\<lambda>again. ret (again = h))))))))))))))"

definition activate_window :: "'w win32 \<Rightarrow> nat \<Rightarrow> ('w native, string, unit) act" where
  "activate_window wc raw =
     bindA (tryA (\<lambda>_. native_hwnd_from_raw raw)) (\<lambda>h.
     bindA (sys (wc_current_thread wc)) (\<lambda>current.
     bindA (sys (wc_foreground wc)) (\<lambda>front.
     bindA (sys (wc_window_thread wc h)) (\<lambda>target.
     bindA (if front = 0 then ret 0 else sys (wc_window_thread wc front)) (\<lambda>foreground.
     bindA (attach_thread_pair wc current target []) (\<lambda>p1.
     bindA (attach_thread_pair wc current foreground p1) (\<lambda>p2.
     bindA (attach_thread_pair wc target foreground p2) (\<lambda>pairs.
     bindA (bring_forward wc h) (\<lambda>succeeded.
     thenA (each (\<lambda>(left, right). ignore (sys (wc_attach wc left right False))) (rev pairs))
       (if succeeded then ret ()
        else throw (''platform activation path failed to foreground hwnd '' @ nat_to_dec raw)))))))))))"

section \<open>The animation of a window switch\<close>

text \<open>
  An \<open>f32\<close> is an integer mantissa and a binary exponent; every operation rounds to 24 bits. The
  coordinates, their differences and the progress are far from the subnormal numbers.
\<close>

type_synonym f32 = "int \<times> int"

definition sf_round :: "int \<Rightarrow> int \<Rightarrow> f32" where
  "sf_round m e =
     (let (n, x) = fl_round 24 (nat (abs m) * 2 ^ nat e) (2 ^ nat (- e)) in (sgn m * int n, x))"

definition sf_of_int :: "int \<Rightarrow> f32" where
  "sf_of_int n = sf_round n 0"

definition sf_add :: "f32 \<Rightarrow> f32 \<Rightarrow> f32" where
  "sf_add x y =
     (let e = min (snd x) (snd y)
      in sf_round (fst x * 2 ^ nat (snd x - e) + fst y * 2 ^ nat (snd y - e)) e)"

definition sf_sub :: "f32 \<Rightarrow> f32 \<Rightarrow> f32" where
  "sf_sub x y = sf_add x (- fst y, snd y)"

definition sf_mul :: "f32 \<Rightarrow> f32 \<Rightarrow> f32" where
  "sf_mul x y = sf_round (fst x * fst y) (snd x + snd y)"

text \<open>\<open>round\<close> takes halves away from zero; \<open>as i32\<close> saturates.\<close>

definition sf_round_to_i32 :: "f32 \<Rightarrow> int" where
  "sf_round_to_i32 x =
     (let a = abs (fst x) * 2 ^ nat (snd x); b = 2 ^ nat (- snd x)
      in sat_i32 (sgn (fst x) * ((2 * a + b) div (2 * b))))"

definition sf_one :: f32 where "sf_one = (1, 0)"

definition sf_clamp_unit :: "f32 \<Rightarrow> f32" where
  "sf_clamp_unit x = (if fst x < 0 then (0, 0) else if fst (sf_sub sf_one x) < 0 then sf_one else x)"

definition ease_out_cubic :: "f32 \<Rightarrow> f32" where
  "ease_out_cubic progress =
     (let one_minus = sf_sub sf_one (sf_clamp_unit progress)
      in sf_sub sf_one (sf_mul (sf_mul one_minus one_minus) one_minus))"

definition frame_progress :: "nat \<Rightarrow> nat \<Rightarrow> f32" where
  "frame_progress i n = (let (m, e) = f32_ratio i n in (int m, e))"

definition interpolate_f32 :: "int \<Rightarrow> int \<Rightarrow> f32 \<Rightarrow> int" where
  "interpolate_f32 from_value to_value progress =
     (let delta = sf_sub (sf_of_int to_value) (sf_of_int from_value)
      in sf_round_to_i32 (sf_add (sf_of_int from_value) (sf_mul delta progress)))"

definition interpolate_switch_rect :: "window_switch_animation \<Rightarrow> rect \<Rightarrow> f32 \<Rightarrow> rect" where
  "interpolate_switch_rect a target progress =
     rect_new
       (interpolate_f32 (rect_x (wsa_from_rect a)) (rect_x target) progress)
       (interpolate_f32 (rect_y (wsa_from_rect a)) (rect_y target) progress)
       (nat (max (interpolate_f32 (u32_as_i32 (rect_width (wsa_from_rect a)))
                    (u32_as_i32 (rect_width target)) progress) 0))
       (nat (max (interpolate_f32 (u32_as_i32 (rect_height (wsa_from_rect a)))
                    (u32_as_i32 (rect_height target)) progress) 0))"

definition uses_window_switch_animation :: "apply_operation \<Rightarrow> bool" where
  "uses_window_switch_animation op \<longleftrightarrow>
     (case op_window_switch_animation op of
        None \<Rightarrow> False
      | Some a \<Rightarrow>
          op_apply_geometry op \<and> wsa_from_rect a \<noteq> op_rect op \<and> 1 < wsa_frame_count a \<and>
          0 < wsa_duration_ms a)"

definition animated_frame_operation :: "apply_operation \<Rightarrow> f32 \<Rightarrow> apply_operation" where
  "animated_frame_operation op progress =
     (case op_window_switch_animation op of
        None \<Rightarrow> op
      | Some a \<Rightarrow>
          op\<lparr>op_rect := interpolate_switch_rect a (op_rect op) progress,
             op_window_switch_animation := None\<rparr>)"

end
