(* ===== verification/Surface_Workers.thy ===== *)
theory Surface_Workers
  imports Native_Window "HOL-Library.AList"
begin

text \<open>
  \<open>crates/windows-adapter/src/native_apply/clipped_window_surrogate.rs\<close> and
  \<open>window_monitor_scene.rs\<close>: which windows may have a surrogate, and the two threads that keep host
  windows with DWM thumbnails for the windows that stand behind a surrogate or reach onto another
  monitor. A turn of a worker handles the window messages it finds, prunes its hosts and takes one
  command. A \<open>HashMap\<close> is an association list: where the source iterates over one, in no fixed order,
  the list is gone through from the front. Starting the threads, their channels with the timeouts and
  the registration of the window classes are not modelled.
\<close>

unbundle bit_operations_syntax

section \<open>Which windows may have a surrogate\<close>

definition is_transient_escape_class :: "string \<Rightarrow> bool" where
  "is_transient_escape_class cls \<longleftrightarrow>
     to_ascii_lowercase (str_trim cls)
       \<in> {''xaml_windowedpopupclass'', ''#32768'', ''#32770'', ''tooltips_class32'', ''msctfime ui'', ''ime''}"

definition is_problematic_clipped_window_class :: "string \<Rightarrow> bool" where
  "is_problematic_clipped_window_class cls \<longleftrightarrow>
     to_ascii_lowercase (str_trim cls)
       \<in> {''chrome_widgetwin_1'', ''mozillawindowclass'', ''cascadia_hosting_window_class''}"

definition is_transient_escape_window :: "string option \<Rightarrow> nat \<Rightarrow> nat \<Rightarrow> bool" where
  "is_transient_escape_window cls style ex_style \<longleftrightarrow>
     ex_style AND 0x80 \<noteq> 0 \<or> looks_like_transient_popup_window style \<or>
     (case cls of None \<Rightarrow> False | Some c \<Rightarrow> is_transient_escape_class c)"

definition clipped_window_surrogate_candidate_reason ::
    "string option \<Rightarrow> nat \<Rightarrow> nat \<Rightarrow> bool \<Rightarrow> string" where
  "clipped_window_surrogate_candidate_reason cls style ex_style has_owner =
     (if has_owner then ''owned-window''
      else if ex_style AND 0x80 \<noteq> 0 then ''tool-window''
      else if looks_like_transient_popup_window style then ''transient-popup-style''
      else if is_transient_escape_window cls style ex_style then ''transient-escape-class''
      else if (case cls of None \<Rightarrow> False | Some c \<Rightarrow> is_problematic_clipped_window_class c)
      then ''problematic-class''
      else ''eligible'')"

text \<open>The queries answer nothing for a null handle. The relations are \<open>GW_OWNER\<close> and \<open>GW_ENABLEDPOPUP\<close>.\<close>

definition query_style :: "'w win32 \<Rightarrow> int \<Rightarrow> nat \<Rightarrow> ('w native, 'e, nat) act" where
  "query_style wc index h =
     (if h = 0 then ret 0 else bindA (sys (wc_get_long wc h index)) (\<lambda>v. ret (i32_as_u32 v)))"

definition gwl_style :: int where "gwl_style = -16"

definition query_window_owner :: "'w win32 \<Rightarrow> nat \<Rightarrow> ('w native, 'e, nat option) act" where
  "query_window_owner wc h =
     (if h = 0 then ret None else bindA (sys (wc_related wc h 4)) (\<lambda>owner. ret (Some owner)))"

definition query_window_process_id :: "'w win32 \<Rightarrow> nat \<Rightarrow> ('w native, 'e, nat option) act" where
  "query_window_process_id wc h =
     (if h = 0 then ret None
      else bindA (is_valid_window wc h) (\<lambda>valid.
        if \<not> valid then ret None else bindA (sys (wc_process wc h)) (\<lambda>p. ret (Some p))))"

definition clipped_window_surrogate_classifier_reason :: "'w win32 \<Rightarrow> nat \<Rightarrow> ('w native, 'e, string) act" where
  "clipped_window_surrogate_classifier_reason wc raw =
     (case native_hwnd_from_raw raw of
        Inl e \<Rightarrow> ret ''invalid-hwnd''
      | Inr h \<Rightarrow>
          bindA (is_valid_window wc h) (\<lambda>valid.
          if \<not> valid then ret ''invalid-window''
          else
            bindA (sys (wc_class wc h)) (\<lambda>cls.
            bindA (query_style wc gwl_style h) (\<lambda>style.
            bindA (query_style wc gwl_exstyle h) (\<lambda>ex_style.
            bindA (query_window_owner wc h) (\<lambda>answer.
            bindA (case answer of
                     None \<Rightarrow> ret False
                   | Some owner \<Rightarrow> if owner = 0 \<or> owner = h then ret False else is_valid_window wc owner)
              (\<lambda>has_owner.
            ret (clipped_window_surrogate_candidate_reason cls style ex_style has_owner))))))))"

definition should_use_clipped_window_surrogate :: "'w win32 \<Rightarrow> nat \<Rightarrow> ('w native, 'e, bool) act" where
  "should_use_clipped_window_surrogate wc raw =
     bindA (clipped_window_surrogate_classifier_reason wc raw) (\<lambda>reason. ret (reason = ''eligible''))"

section \<open>Diagnostics and overruled presentations\<close>

definition set_presentation_override :: "nat \<Rightarrow> presentation_mode \<Rightarrow> string \<Rightarrow> ('w native, 'e, unit) act" where
  "set_presentation_override raw mode reason =
     modify (\<lambda>s. s\<lparr>nt_overrides := (nt_overrides s)(raw \<mapsto> \<lparr>po_mode = mode, po_reason = reason\<rparr>)\<rparr>)"

definition clear_presentation_override :: "nat \<Rightarrow> ('w native, 'e, unit) act" where
  "clear_presentation_override raw = modify (\<lambda>s. s\<lparr>nt_overrides := (nt_overrides s)(raw := None)\<rparr>)"

definition update_diagnostics :: "(surrogate_diagnostics \<Rightarrow> surrogate_diagnostics) \<Rightarrow> ('w native, 'e, unit) act" where
  "update_diagnostics f = modify (\<lambda>s. s\<lparr>nt_diagnostics := f (nt_diagnostics s)\<rparr>)"

definition surrogate_event_text :: "string \<Rightarrow> string \<Rightarrow> nat \<Rightarrow> string \<Rightarrow> string" where
  "surrogate_event_text kind event raw details =
     ''adapter: '' @ kind @ '' event='' @ event @ '' hwnd='' @ nat_to_dec raw @
     (if details = [] then [] else '' '' @ details)"

definition log_clip_event :: "'w win32 \<Rightarrow> string \<Rightarrow> nat \<Rightarrow> string \<Rightarrow> ('w native, 'e, unit) act" where
  "log_clip_event wc event raw details =
     (let message = surrogate_event_text ''clipped-window-surrogate'' event raw details
      in thenA (update_diagnostics (\<lambda>d. d\<lparr>sd_last_event := Some message\<rparr>)) (sys_do (wc_log wc message)))"

definition record_native_fallback :: "'w win32 \<Rightarrow> nat \<Rightarrow> string \<Rightarrow> ('w native, 'e, unit) act" where
  "record_native_fallback wc raw reason =
     thenA (update_diagnostics (\<lambda>d. d\<lparr>sd_classifier_rejections := u64_sat_add (sd_classifier_rejections d) 1,
                                      sd_native_fallbacks := u64_sat_add (sd_native_fallbacks d) 1\<rparr>))
     (thenA (set_presentation_override raw NativeVisible (''native-fallback:'' @ reason))
       (log_clip_event wc ''native-fallback'' raw (''reason='' @ reason)))"

definition surrogate_presentation_diagnostics_snapshot :: "'w native \<Rightarrow> surrogate_diagnostics" where
  "surrogate_presentation_diagnostics_snapshot s =
     (let d = nt_diagnostics s; c = nt_scene s
      in d\<lparr>sd_foreign_scene_active_hosts := sn_active_hosts c,
           sd_foreign_scene_show_requests := sn_show_requests c,
           sd_foreign_scene_hide_requests := sn_hide_requests c,
           sd_foreign_scene_pruned_hosts := sn_pruned_hosts c,
           sd_dwm_thumbnail_backend_uses :=
             u64_sat_add (sd_dwm_thumbnail_backend_uses d) (sn_dwm_thumbnail_backend_uses c),
           sd_last_event := (if sn_last_event c = None then sd_last_event d else sn_last_event c)\<rparr>)"

section \<open>Host windows\<close>

record host =
  ho_window :: nat
  ho_thumbnail :: "int option"

text \<open>\<open>{result:#x}\<close> of a negative \<open>HRESULT\<close>.\<close>

fun hex_digits :: "nat \<Rightarrow> string" where
  "hex_digits n =
     (let d = n mod 16; c = char_of (if d < 10 then 48 + d else 87 + d)
      in if n < 16 then [c] else hex_digits (n div 16) @ [c])"

declare hex_digits.simps [simp del]

definition hresult_text :: "string \<Rightarrow> int \<Rightarrow> string" where
  "hresult_text api code = api @ '' failed with HRESULT 0x'' @ hex_digits (i32_as_u32 code)"

definition create_host :: "'w win32 \<Rightarrow> string \<Rightarrow> nat \<Rightarrow> ('w native, string, host) act" where
  "create_host wc cls owner =
     bindA (sys (wc_create wc cls owner)) (\<lambda>window.
     if window = 0 then bindA (last_error_message wc ''CreateWindowExW'') throw
     else ret \<lparr>ho_window = window, ho_thumbnail = None\<rparr>)"

definition register_thumbnail :: "'w win32 \<Rightarrow> nat \<Rightarrow> nat \<Rightarrow> ('w native, string, int) act" where
  "register_thumbnail wc destination source =
     bindA (sys (wc_register_thumbnail wc destination source)) (\<lambda>(code, thumbnail).
     if code < 0 then throw (hresult_text ''DwmRegisterThumbnail'' code) else ret thumbnail)"

definition owner_requires_topmost :: "nat \<Rightarrow> bool" where
  "owner_requires_topmost ex_style \<longleftrightarrow> ex_style AND 0x8 \<noteq> 0"

text \<open>\<open>HWND_TOPMOST\<close> is -1, \<open>HWND_NOTOPMOST\<close> -2; a style that cannot be read counts as none.\<close>

definition insert_after :: "'w win32 \<Rightarrow> nat \<Rightarrow> ('w native, 'e, int) act" where
  "insert_after wc owner =
     bindA (query_style wc gwl_exstyle owner) (\<lambda>ex_style.
     ret (if owner_requires_topmost ex_style then -1 else -2))"

text \<open>\<open>SWP_NOACTIVATE | SWP_NOOWNERZORDER | SWP_SHOWWINDOW\<close>.\<close>

definition surface_apply_flags :: nat where "surface_apply_flags = 0x10 OR 0x200 OR 0x40"

text \<open>Destination, source, opacity, visibility and the whole window of the source.\<close>

definition surface_thumbnail_flags :: nat where "surface_thumbnail_flags = 0x1 OR 0x2 OR 0x8 OR 0x4 OR 0x10"

definition source_edge :: "int \<Rightarrow> nat \<Rightarrow> string \<Rightarrow> string \<Rightarrow> string + int" where
  "source_edge start extent too_large overflowed =
     bindE (u32_try_i32 (max extent 1) too_large) (\<lambda>e. ok_or (i32_checked_add start e) overflowed)"

definition show_host_window ::
    "'w win32 \<Rightarrow> string \<Rightarrow> nat \<Rightarrow> host \<Rightarrow> rect \<Rightarrow> rect \<Rightarrow> ('w native, string, unit) act" where
  "show_host_window wc label owner h destination source =
     bindA (tryA (\<lambda>_. u32_try_i32 (max (rect_width destination) 1) (label @ '' width exceeds Win32 limits'')))
       (\<lambda>width.
     bindA (tryA (\<lambda>_. u32_try_i32 (max (rect_height destination) 1) (label @ '' height exceeds Win32 limits'')))
       (\<lambda>height.
     bindA (tryA (\<lambda>_. source_edge (rect_x source) (rect_width source)
       (label @ '' source width exceeds Win32 limits'') (label @ '' source right edge overflowed'')))
       (\<lambda>right.
     bindA (tryA (\<lambda>_. source_edge (rect_y source) (rect_height source)
       (label @ '' source height exceeds Win32 limits'') (label @ '' source bottom edge overflowed'')))
       (\<lambda>bottom.
     bindA (insert_after wc owner) (\<lambda>after.
     bindA (sys (wc_set_window_pos wc (ho_window h) after
              (rect_x destination, rect_y destination, width, height) surface_apply_flags)) (\<lambda>applied.
     if \<not> applied then bindA (last_error_message wc ''SetWindowPos'') throw
     else bindA (tryA (\<lambda>_. ok_or (ho_thumbnail h) (label @ '' thumbnail was not initialized''))) (\<lambda>thumbnail.
       bindA (sys (wc_update_thumbnail wc thumbnail
         \<lparr>tp_flags = surface_thumbnail_flags,
          tp_destination = \<lparr>w_left = 0, w_top = 0, w_right = width, w_bottom = height\<rparr>,
          tp_source = \<lparr>w_left = rect_x source, w_top = rect_y source, w_right = right, w_bottom = bottom\<rparr>,
          tp_opacity = 255\<rparr>)) (\<lambda>code.
       if code < 0 then throw (hresult_text ''DwmUpdateThumbnailProperties'' code)
       else sys_do (wc_show_window wc (ho_window h) 8)))))))))"

section \<open>The worker of the clipped surrogates\<close>

text \<open>
  A host window carries its owner and rectangles until it is destroyed: \<open>GWLP_USERDATA\<close> points to a
  box, which \<open>WM_NCDESTROY\<close>, sent by \<open>DestroyWindow\<close>, frees.
\<close>

record host_state =
  hs_owner :: nat
  hs_native_visible_rect :: rect
  hs_native_clip_rect :: rect

record 'w clip_worker =
  ck_native :: "'w native"
  ck_hosts :: "(nat \<times> host) list"
  ck_states :: "nat \<rightharpoonup> host_state"

definition nat_act :: "('w native, 'e, 'a) act \<Rightarrow> ('w clip_worker, 'e, 'a) act" where
  "nat_act m = (\<lambda>k. case m (ck_native k) of (r, s) \<Rightarrow> (r, k\<lparr>ck_native := s\<rparr>))"

definition catch :: "('s, 'e, 'a) act \<Rightarrow> ('s, 'f, 'e + 'a) act" where
  "catch m = (\<lambda>s. case m s of (r, t) \<Rightarrow> (Inr r, t))"

definition destroy_host_window :: "'w win32 \<Rightarrow> nat \<Rightarrow> ('w clip_worker, 'e, unit) act" where
  "destroy_host_window wc window =
     thenA (nat_act (sys_do (wc_destroy wc window)))
       (modify (\<lambda>k. k\<lparr>ck_states := (ck_states k)(window := None)\<rparr>))"

definition destroy_clipped_window_surrogate_window :: "'w win32 \<Rightarrow> nat \<Rightarrow> ('w clip_worker, 'e, unit) act" where
  "destroy_clipped_window_surrogate_window wc window =
     bindA (nat_act (is_valid_window wc window)) (\<lambda>valid.
     when_do valid
       (thenA (nat_act (sys_do (wc_show_window wc window 0))) (destroy_host_window wc window)))"

definition destroy_clipped_window_surrogate :: "'w win32 \<Rightarrow> host \<Rightarrow> ('w clip_worker, string, unit) act" where
  "destroy_clipped_window_surrogate wc h =
     bindA (case ho_thumbnail h of
              None \<Rightarrow> ret None
            | Some thumbnail \<Rightarrow>
                bindA (nat_act (sys (wc_unregister_thumbnail wc thumbnail))) (\<lambda>code.
                ret (if code < 0 then Some (hresult_text ''DwmUnregisterThumbnail'' code) else None)))
       (\<lambda>first_error.
     thenA (destroy_clipped_window_surrogate_window wc (ho_window h))
       (case first_error of None \<Rightarrow> ret () | Some e \<Rightarrow> throw e))"

definition hide_clipped_window_surrogate :: "'w win32 \<Rightarrow> nat \<Rightarrow> ('w clip_worker, string, unit) act" where
  "hide_clipped_window_surrogate wc owner =
     thenA (nat_act (update_diagnostics (\<lambda>d. d\<lparr>sd_hide_requests := u64_sat_add (sd_hide_requests d) 1\<rparr>)))
     (bindA (gets (\<lambda>k. map_of (ck_hosts k) owner)) (\<lambda>found.
      case found of
        None \<Rightarrow> ret ()
      | Some h \<Rightarrow>
          thenA (modify (\<lambda>k. k\<lparr>ck_hosts := filter (\<lambda>e. fst e \<noteq> owner) (ck_hosts k)\<rparr>))
          (thenA (nat_act (update_diagnostics (\<lambda>d. d\<lparr>sd_active_hosts := sd_active_hosts d - 1\<rparr>)))
          (thenA (nat_act (modify (\<lambda>s. s\<lparr>nt_owners := nt_owners s - {owner}\<rparr>)))
          (thenA (nat_act (log_clip_event wc ''hide'' owner []))
            (destroy_clipped_window_surrogate wc h))))))"

definition put_host :: "nat \<Rightarrow> host \<Rightarrow> ('w clip_worker, 'e, unit) act" where
  "put_host owner h = modify (\<lambda>k. k\<lparr>ck_hosts := AList.update owner h (ck_hosts k)\<rparr>)"

definition clip_window_class :: string where "clip_window_class = ''FlowTileClippedWindowSurrogate''"

definition fresh_host :: "'w win32 \<Rightarrow> nat \<Rightarrow> nat \<Rightarrow> ('w clip_worker, string, host) act" where
  "fresh_host wc owner_hwnd owner =
     bindA (nat_act (create_host wc clip_window_class owner)) (\<lambda>h.
     thenA (put_host owner_hwnd h) (ret h))"

text \<open>The host of an owner, shown over its place; the result tells whether the owner had none before.\<close>

definition display_surrogate ::
    "'w win32 \<Rightarrow> nat \<Rightarrow> nat \<Rightarrow> rect \<Rightarrow> rect \<Rightarrow> rect \<Rightarrow> ('w clip_worker, string, bool) act" where
  "display_surrogate wc owner_hwnd owner destination source native_visible =
     bindA (gets (\<lambda>k. map_of (ck_hosts k) owner_hwnd)) (\<lambda>found.
     bindA (case found of
              None \<Rightarrow> fresh_host wc owner_hwnd owner
            | Some existing \<Rightarrow>
                bindA (nat_act (is_valid_window wc (ho_window existing))) (\<lambda>alive.
                if alive then ret existing
                else thenA (ignore (catch (destroy_clipped_window_surrogate wc existing)))
                       (fresh_host wc owner_hwnd owner)))
       (\<lambda>old.
     bindA (if ho_thumbnail old \<noteq> None then ret old
            else bindA (nat_act (register_thumbnail wc (ho_window old) owner)) (\<lambda>thumbnail.
              thenA (nat_act (update_diagnostics (\<lambda>d. d\<lparr>sd_dwm_thumbnail_backend_uses :=
                       u64_sat_add (sd_dwm_thumbnail_backend_uses d) 1\<rparr>)))
                (ret (old\<lparr>ho_thumbnail := Some thumbnail\<rparr>))))
       (\<lambda>h.
     thenA (modify (\<lambda>k. k\<lparr>ck_states := (ck_states k)(ho_window h \<mapsto>
              \<lparr>hs_owner = owner_hwnd, hs_native_visible_rect = native_visible,
               hs_native_clip_rect = destination\<rparr>)\<rparr>))
     (thenA (nat_act (show_host_window wc ''clipped window surrogate'' owner h destination source))
     (thenA (nat_act (clear_presentation_override owner_hwnd))
     (thenA (put_host owner_hwnd h) (ret (found = None))))))))"

definition announce_surrogate :: "'w win32 \<Rightarrow> nat \<Rightarrow> rect \<Rightarrow> rect \<Rightarrow> ('w native, 'e, unit) act" where
  "announce_surrogate wc owner destination source =
     thenA (update_diagnostics (\<lambda>d. d\<lparr>sd_active_hosts := u64_sat_add (sd_active_hosts d) 1\<rparr>))
     (thenA (modify (\<lambda>s. s\<lparr>nt_owners := insert owner (nt_owners s)\<rparr>))
       (log_clip_event wc ''show'' owner
         (''destination='' @ show_rect destination @ '' source='' @ show_rect source @
          '' backend=dwm-thumbnail'')))"

definition show_clipped_window_surrogate ::
    "'w win32 \<Rightarrow> nat \<Rightarrow> rect \<Rightarrow> rect \<Rightarrow> rect \<Rightarrow> ('w clip_worker, string, unit) act" where
  "show_clipped_window_surrogate wc owner_hwnd destination source native_visible =
     (if rect_width destination = 0 \<or> rect_height destination = 0
      then hide_clipped_window_surrogate wc owner_hwnd
      else
        thenA (nat_act (update_diagnostics (\<lambda>d. d\<lparr>sd_show_requests := u64_sat_add (sd_show_requests d) 1\<rparr>)))
        (bindA (tryA (\<lambda>_. native_hwnd_from_raw owner_hwnd)) (\<lambda>owner.
         bindA (nat_act (is_valid_window wc owner)) (\<lambda>valid.
         if \<not> valid then hide_clipped_window_surrogate wc owner_hwnd
         else
           bindA (display_surrogate wc owner_hwnd owner destination source native_visible) (\<lambda>created.
           when_do created (nat_act (announce_surrogate wc owner_hwnd destination source)))))))"

section \<open>When a surrogate gives way to its window\<close>

record escape_facts =
  ef_owner_is_foreground :: bool
  ef_has_enabled_popup :: bool
  ef_foreground_is_owned_popup :: bool
  ef_foreground_is_same_process_transient :: bool

definition should_escape_from_facts :: "escape_facts \<Rightarrow> bool" where
  "should_escape_from_facts f \<longleftrightarrow>
     ef_owner_is_foreground f \<or> ef_has_enabled_popup f \<or> ef_foreground_is_owned_popup f \<or>
     ef_foreground_is_same_process_transient f"

definition has_visible_owned_popup :: "'w win32 \<Rightarrow> nat \<Rightarrow> ('w native, 'e, bool) act" where
  "has_visible_owned_popup wc owner =
     bindA (sys (wc_related wc owner 6)) (\<lambda>popup.
     if popup = 0 \<or> popup = owner then ret False
     else bindA (is_valid_window wc popup) (\<lambda>valid.
       if \<not> valid then ret False else sys (wc_is_visible wc popup)))"

definition is_visible_owned_popup_window :: "'w win32 \<Rightarrow> nat \<Rightarrow> nat \<Rightarrow> ('w native, 'e, bool) act" where
  "is_visible_owned_popup_window wc owner candidate =
     (if candidate = 0 \<or> candidate = owner then ret False
      else bindA (is_valid_window wc candidate) (\<lambda>valid.
        if \<not> valid then ret False
        else bindA (query_window_owner wc candidate) (\<lambda>answer.
          if (case answer of None \<Rightarrow> 0 | Some x \<Rightarrow> x) \<noteq> owner then ret False
          else sys (wc_is_visible wc candidate))))"

definition is_same_process_transient_escape_window ::
    "'w win32 \<Rightarrow> nat \<Rightarrow> nat \<Rightarrow> nat \<Rightarrow> ('w native, 'e, bool) act" where
  "is_same_process_transient_escape_window wc process owner candidate =
     (if candidate = 0 \<or> candidate = owner then ret False
      else bindA (is_valid_window wc candidate) (\<lambda>valid.
        if \<not> valid then ret False
        else bindA (query_window_process_id wc candidate) (\<lambda>other.
          if other = None \<or> other = Some 0 \<or> other \<noteq> Some process then ret False
          else
            bindA (sys (wc_class wc candidate)) (\<lambda>cls.
            bindA (query_style wc gwl_style candidate) (\<lambda>style.
            bindA (query_style wc gwl_exstyle candidate) (\<lambda>ex_style.
            ret (is_transient_escape_window cls style ex_style)))))))"

definition should_escape_clipped_window_surrogate :: "'w win32 \<Rightarrow> nat \<Rightarrow> nat \<Rightarrow> ('w native, 'e, bool) act" where
  "should_escape_clipped_window_surrogate wc owner foreground =
     bindA (query_window_process_id wc owner) (\<lambda>process.
     bindA (has_visible_owned_popup wc owner) (\<lambda>popup.
     bindA (is_visible_owned_popup_window wc owner foreground) (\<lambda>owned.
     bindA (case filter_opt (\<lambda>p. p \<noteq> 0) process of
              None \<Rightarrow> ret False
            | Some p \<Rightarrow> is_same_process_transient_escape_window wc p owner foreground) (\<lambda>transient.
     ret (should_escape_from_facts
       \<lparr>ef_owner_is_foreground = (owner = foreground), ef_has_enabled_popup = popup,
        ef_foreground_is_owned_popup = owned,
        ef_foreground_is_same_process_transient = transient\<rparr>)))))"

text \<open>The owner is put on top (\<open>HWND_TOP\<close> is 0) with \<open>SWP_NOOWNERZORDER | SWP_SHOWWINDOW\<close>.\<close>

definition promote_owner_to_native :: "'w win32 \<Rightarrow> nat \<Rightarrow> rect \<Rightarrow> rect \<Rightarrow> ('w native, string, unit) act" where
  "promote_owner_to_native wc raw visible clip =
     bindA (tryA (\<lambda>_. native_hwnd_from_raw raw)) (\<lambda>owner.
     bindA (is_valid_window wc owner) (\<lambda>valid.
     if \<not> valid
     then throw (''clipped window surrogate owner hwnd '' @ nat_to_dec raw @ '' is no longer valid'')
     else
       bindA (tryA (\<lambda>_. u32_try_i32 (max (rect_width visible) 1) ''native visible width exceeds Win32 limits''))
         (\<lambda>width.
       bindA (tryA (\<lambda>_. u32_try_i32 (max (rect_height visible) 1) ''native visible height exceeds Win32 limits''))
         (\<lambda>height.
       bindA (sys (wc_set_window_pos wc owner 0 (rect_x visible, rect_y visible, width, height)
                (0x200 OR 0x40))) (\<lambda>positioned.
       if \<not> positioned then bindA (last_error_message wc ''SetWindowPos'') throw
       else
         thenA (sync_window_native_clip_mask wc owner (Some visible) (Some clip))
         (thenA (activate_window wc raw)
         (thenA (update_diagnostics (\<lambda>d. d\<lparr>sd_handoff_promotions := u64_sat_add (sd_handoff_promotions d) 1\<rparr>))
           (log_clip_event wc ''handoff-to-native'' raw (''target='' @ show_rect visible)))))))))"

text \<open>One owner when stale hosts are looked for: whether its host is to go.\<close>

definition forget_owner :: "nat \<Rightarrow> ('w native, 'e, unit) act" where
  "forget_owner owner =
     thenA (clear_presentation_override owner)
       (modify (\<lambda>s. s\<lparr>nt_owners := nt_owners s - {owner}\<rparr>))"

definition stale_clip_host :: "'w win32 \<Rightarrow> nat \<Rightarrow> nat \<Rightarrow> host \<Rightarrow> ('w clip_worker, 'e, bool) act" where
  "stale_clip_host wc foreground raw h =
     bindA (case native_hwnd_from_raw raw of
              Inl _ \<Rightarrow> ret None
            | Inr owner \<Rightarrow>
                bindA (nat_act (is_valid_window wc owner)) (\<lambda>valid. ret (if valid then Some owner else None)))
       (\<lambda>answer.
     case answer of
       None \<Rightarrow> thenA (nat_act (forget_owner raw)) (ret True)
     | Some owner \<Rightarrow>
         bindA (nat_act (is_valid_window wc (ho_window h))) (\<lambda>alive.
         if \<not> alive then thenA (nat_act (forget_owner raw)) (ret True)
         else
           bindA (nat_act (should_escape_clipped_window_surrogate wc owner foreground)) (\<lambda>escape.
           if \<not> escape then ret False
           else
             bindA (gets (\<lambda>k. ck_states k (ho_window h))) (\<lambda>state.
             thenA
               (case state of
                  None \<Rightarrow> ret ()
                | Some st \<Rightarrow>
                    thenA (nat_act (update_diagnostics (\<lambda>d. d\<lparr>sd_transient_escapes :=
                             u64_sat_add (sd_transient_escapes d) 1\<rparr>)))
                    (thenA (nat_act (log_clip_event wc ''transient-escape'' (hs_owner st)
                             ''reason=foreground-or-transient-surface''))
                    (thenA (nat_act (set_presentation_override (hs_owner st) NativeVisible ''transient-escape''))
                      (ignore (catch (nat_act (promote_owner_to_native wc (hs_owner st)
                        (hs_native_visible_rect st) (hs_native_clip_rect st))))))))
               (ret True)))))"

primrec stale_clip_hosts :: "'w win32 \<Rightarrow> nat \<Rightarrow> (nat \<times> host) list \<Rightarrow> ('w clip_worker, 'e, nat list) act" where
  "stale_clip_hosts wc foreground [] = ret []"
| "stale_clip_hosts wc foreground (e # es) =
     bindA (stale_clip_host wc foreground (fst e) (snd e)) (\<lambda>stale.
     bindA (stale_clip_hosts wc foreground es) (\<lambda>rest. ret (if stale then fst e # rest else rest)))"

definition prune_stale_clipped_window_surrogates :: "'w win32 \<Rightarrow> ('w clip_worker, 'e, unit) act" where
  "prune_stale_clipped_window_surrogates wc =
     bindA (nat_act (sys (wc_foreground wc))) (\<lambda>foreground.
     bindA (gets ck_hosts) (\<lambda>hosts.
     bindA (stale_clip_hosts wc foreground hosts) (\<lambda>stale.
     each (\<lambda>owner. ignore (catch (hide_clipped_window_surrogate wc owner))) stale)))"

definition destroy_all_clipped_window_surrogates :: "'w win32 \<Rightarrow> ('w clip_worker, 'e, unit) act" where
  "destroy_all_clipped_window_surrogates wc =
     bindA (gets (\<lambda>k. map fst (ck_hosts k))) (\<lambda>owners.
     each (\<lambda>owner. thenA (ignore (catch (hide_clipped_window_surrogate wc owner)))
                     (nat_act (clear_presentation_override owner))) owners)"

section \<open>A click on a surrogate\<close>

datatype pointer_replay_action = LeftClick | RightClick | MiddleClick

text \<open>The messages of the mouse buttons, and of a click on the frame.\<close>

definition wm_lbuttondown :: nat where "wm_lbuttondown = 0x0201"

definition wm_rbuttondown :: nat where "wm_rbuttondown = 0x0204"

definition wm_mbuttondown :: nat where "wm_mbuttondown = 0x0207"

definition wm_nclbuttondown :: nat where "wm_nclbuttondown = 0x00A1"

definition pointer_replay_action_for_message :: "nat \<Rightarrow> pointer_replay_action option" where
  "pointer_replay_action_for_message message =
     (if message = wm_lbuttondown \<or> message = wm_nclbuttondown then Some LeftClick
      else if message = wm_rbuttondown then Some RightClick
      else if message = wm_mbuttondown then Some MiddleClick
      else None)"

fun pointer_replay_action_name :: "pointer_replay_action \<Rightarrow> string" where
  "pointer_replay_action_name LeftClick = ''left-click''"
| "pointer_replay_action_name RightClick = ''right-click''"
| "pointer_replay_action_name MiddleClick = ''middle-click''"

text \<open>The flags of \<open>SendInput\<close> for pressing and releasing the button.\<close>

fun replay_flags :: "pointer_replay_action \<Rightarrow> nat list" where
  "replay_flags LeftClick = [0x2, 0x4]"
| "replay_flags RightClick = [0x8, 0x10]"
| "replay_flags MiddleClick = [0x20, 0x40]"

definition best_effort_replay_pointer_action ::
    "'w win32 \<Rightarrow> pointer_replay_action \<Rightarrow> ('w native, string, unit) act" where
  "best_effort_replay_pointer_action wc action =
     bindA (sys (wc_send_mouse wc (replay_flags action))) (\<lambda>sent.
     if sent \<noteq> length (replay_flags action) then bindA (last_error_message wc ''SendInput'') throw
     else ret ())"

definition replay_pointer_handoff_action ::
    "'w win32 \<Rightarrow> nat \<Rightarrow> pointer_replay_action \<Rightarrow> ('w native, 'e, unit) act" where
  "replay_pointer_handoff_action wc owner action =
     thenA (update_diagnostics (\<lambda>d. d\<lparr>sd_pointer_replay_attempts :=
              u64_sat_add (sd_pointer_replay_attempts d) 1\<rparr>))
     (bindA (catch (best_effort_replay_pointer_action wc action)) (\<lambda>outcome.
      case outcome of
        Inr _ \<Rightarrow>
          thenA (update_diagnostics (\<lambda>d. d\<lparr>sd_pointer_replay_successes :=
                   u64_sat_add (sd_pointer_replay_successes d) 1\<rparr>))
            (log_clip_event wc ''pointer-replay-ok'' owner (''action='' @ pointer_replay_action_name action))
      | Inl e \<Rightarrow>
          thenA (update_diagnostics (\<lambda>d. d\<lparr>sd_pointer_replay_failures :=
                   u64_sat_add (sd_pointer_replay_failures d) 1\<rparr>))
            (log_clip_event wc ''pointer-replay-error'' owner
              (''action='' @ pointer_replay_action_name action @ '' error='' @ e))))"

definition surrogate_window_proc :: "'w win32 \<Rightarrow> nat \<times> nat \<Rightarrow> ('w clip_worker, 'e, unit) act" where
  "surrogate_window_proc wc = (\<lambda>(window, message).
     if message \<in> {wm_lbuttondown, wm_rbuttondown, wm_mbuttondown, wm_nclbuttondown} then
       bindA (gets (\<lambda>k. ck_states k window)) (\<lambda>state.
       bindA (case state of
                None \<Rightarrow> ret False
              | Some st \<Rightarrow>
                  bindA (catch (nat_act (promote_owner_to_native wc (hs_owner st)
                           (hs_native_visible_rect st) (hs_native_clip_rect st)))) (\<lambda>outcome.
                  thenA (when_do (\<not> isl outcome)
                           (nat_act (set_presentation_override (hs_owner st) NativeVisible ''pointer-handoff'')))
                    (ret (\<not> isl outcome)))) (\<lambda>completed.
       thenA (nat_act (sys_do (wc_show_window wc window 0)))
       (thenA (destroy_host_window wc window)
         (if completed then
            (case (state, pointer_replay_action_for_message message) of
               (Some st, Some action) \<Rightarrow> nat_act (replay_pointer_handoff_action wc (hs_owner st) action)
             | _ \<Rightarrow> ret ())
          else
            (case state of
               Some st \<Rightarrow> nat_act (log_clip_event wc ''pointer-replay-skipped'' (hs_owner st) ''reason=handoff-failed'')
             | None \<Rightarrow> ret ())))))
     else ret ())"

section \<open>Turns of the worker\<close>

datatype clip_command = ClipShow nat rect rect rect | ClipHide nat

definition clip_command_run :: "'w win32 \<Rightarrow> clip_command \<Rightarrow> ('w clip_worker, string, unit) act" where
  "clip_command_run wc c =
     (case c of
        ClipShow owner d s n \<Rightarrow> show_clipped_window_surrogate wc owner d s n
      | ClipHide owner \<Rightarrow> hide_clipped_window_surrogate wc owner)"

text \<open>What a turn answers to the sender of its command, if it took one.\<close>

definition clip_turn ::
    "'w win32 \<Rightarrow> (nat \<times> nat) list \<Rightarrow> clip_command option \<Rightarrow> 'w clip_worker \<Rightarrow>
       (string + unit) option \<times> 'w clip_worker" where
  "clip_turn wc messages command k =
     (let k1 = snd (each (surrogate_window_proc wc) messages k :: (unit + unit) \<times> 'w clip_worker);
          k2 = snd (prune_stale_clipped_window_surrogates wc k1 :: (unit + unit) \<times> 'w clip_worker)
      in case command of
           None \<Rightarrow> (None, k2)
         | Some c \<Rightarrow> (case clip_command_run wc c k2 of (r, k3) \<Rightarrow> (Some r, k3)))"

section \<open>The worker of the monitor scenes\<close>

record 'w scene_worker =
  sk_native :: "'w native"
  sk_hosts :: "(nat \<times> host list) list"

definition scn_act :: "('w native, 'e, 'a) act \<Rightarrow> ('w scene_worker, 'e, 'a) act" where
  "scn_act m = (\<lambda>k. case m (sk_native k) of (r, s) \<Rightarrow> (r, k\<lparr>sk_native := s\<rparr>))"

definition update_scene_diagnostics ::
    "(scene_diagnostics \<Rightarrow> scene_diagnostics) \<Rightarrow> ('w native, 'e, unit) act" where
  "update_scene_diagnostics f = modify (\<lambda>s. s\<lparr>nt_scene := f (nt_scene s)\<rparr>)"

definition log_scene_event :: "string \<Rightarrow> nat \<Rightarrow> string \<Rightarrow> ('w native, 'e, unit) act" where
  "log_scene_event event raw details =
     update_scene_diagnostics (\<lambda>d. d\<lparr>sn_last_event :=
       Some (surrogate_event_text ''window-monitor-scene'' event raw details)\<rparr>)"

definition destroy_scene_host :: "'w win32 \<Rightarrow> host \<Rightarrow> ('w native, 'e, unit) act" where
  "destroy_scene_host wc h =
     thenA (case ho_thumbnail h of
              None \<Rightarrow> ret ()
            | Some thumbnail \<Rightarrow> ignore (sys (wc_unregister_thumbnail wc thumbnail)))
     (bindA (is_valid_window wc (ho_window h)) (\<lambda>valid.
      when_do valid
        (thenA (sys_do (wc_show_window wc (ho_window h) 0)) (sys_do (wc_destroy wc (ho_window h))))))"

definition scene_hosts_of :: "'w scene_worker \<Rightarrow> nat \<Rightarrow> host list" where
  "scene_hosts_of k owner = (case map_of (sk_hosts k) owner of None \<Rightarrow> [] | Some hs \<Rightarrow> hs)"

definition put_scene_hosts :: "nat \<Rightarrow> host list \<Rightarrow> ('w scene_worker, 'e, unit) act" where
  "put_scene_hosts owner hs = modify (\<lambda>k. k\<lparr>sk_hosts := AList.update owner hs (sk_hosts k)\<rparr>)"

definition count_scene_hosts :: "('w scene_worker, 'e, unit) act" where
  "count_scene_hosts =
     bindA (gets (\<lambda>k. sum_list (map (length \<circ> snd) (sk_hosts k)))) (\<lambda>n.
     scn_act (update_scene_diagnostics (\<lambda>d. d\<lparr>sn_active_hosts := n\<rparr>)))"

definition hide_window_monitor_scene :: "'w win32 \<Rightarrow> nat \<Rightarrow> ('w scene_worker, 'e, unit) act" where
  "hide_window_monitor_scene wc owner =
     thenA (scn_act (update_scene_diagnostics (\<lambda>d. d\<lparr>sn_hide_requests := u64_sat_add (sn_hide_requests d) 1\<rparr>)))
     (bindA (gets (\<lambda>k. map_of (sk_hosts k) owner)) (\<lambda>found.
      case found of
        None \<Rightarrow> ret ()
      | Some hs \<Rightarrow>
          thenA (modify (\<lambda>k. k\<lparr>sk_hosts := filter (\<lambda>e. fst e \<noteq> owner) (sk_hosts k)\<rparr>))
          (thenA (each (\<lambda>h. scn_act (destroy_scene_host wc h)) hs)
          (thenA count_scene_hosts
          (thenA (scn_act (modify (\<lambda>s. s\<lparr>nt_scene_owners := nt_scene_owners s - {owner}\<rparr>)))
            (scn_act (log_scene_event ''hide'' owner [])))))))"

primrec any_dead_host :: "'w win32 \<Rightarrow> host list \<Rightarrow> ('w native, 'e, bool) act" where
  "any_dead_host wc [] = ret False"
| "any_dead_host wc (h # hs) =
     bindA (is_valid_window wc (ho_window h)) (\<lambda>valid. if \<not> valid then ret True else any_dead_host wc hs)"

definition scene_window_class :: string where "scene_window_class = ''FlowTileWindowMonitorScene''"

definition create_window_monitor_scene_host :: "'w win32 \<Rightarrow> nat \<Rightarrow> ('w native, string, host) act" where
  "create_window_monitor_scene_host wc owner = create_host wc scene_window_class owner"

text \<open>Hosts are taken from the end, and pushed one by one, so those created before an error stay.\<close>

primrec grow_scene_hosts :: "'w win32 \<Rightarrow> nat \<Rightarrow> nat \<Rightarrow> nat \<Rightarrow> ('w scene_worker, string, unit) act" where
  "grow_scene_hosts wc raw owner 0 = ret ()"
| "grow_scene_hosts wc raw owner (Suc n) =
     bindA (scn_act (create_window_monitor_scene_host wc owner)) (\<lambda>h.
     bindA (gets (\<lambda>k. scene_hosts_of k raw)) (\<lambda>hs.
     thenA (put_scene_hosts raw (hs @ [h])) (grow_scene_hosts wc raw owner n)))"

definition sync_scene_host_count :: "'w win32 \<Rightarrow> nat \<Rightarrow> nat \<Rightarrow> nat \<Rightarrow> ('w scene_worker, string, unit) act" where
  "sync_scene_host_count wc raw owner target =
     bindA (gets (\<lambda>k. scene_hosts_of k raw)) (\<lambda>hs.
     thenA (each (\<lambda>h. scn_act (destroy_scene_host wc h)) (rev (drop target hs)))
     (thenA (put_scene_hosts raw (take target hs))
       (grow_scene_hosts wc raw owner (target - length hs))))"

definition show_window_monitor_scene_host ::
    "'w win32 \<Rightarrow> nat \<Rightarrow> host \<Rightarrow> scene_slice \<Rightarrow> ('w native, string, unit) act" where
  "show_window_monitor_scene_host wc owner h part =
     show_host_window wc ''window monitor scene'' owner h (ss_destination_rect part) (ss_source_rect part)"

definition show_scene_slice ::
    "'w win32 \<Rightarrow> nat \<Rightarrow> nat \<Rightarrow> nat \<times> scene_slice \<Rightarrow> ('w scene_worker, string, unit) act" where
  "show_scene_slice wc raw owner = (\<lambda>(i, part).
     bindA (gets (\<lambda>k. scene_hosts_of k raw)) (\<lambda>hs.
     let h = hs ! i in
     bindA (if ho_thumbnail h \<noteq> None then ret h
            else bindA (scn_act (register_thumbnail wc (ho_window h) owner)) (\<lambda>thumbnail.
              let g = h\<lparr>ho_thumbnail := Some thumbnail\<rparr> in
              thenA (put_scene_hosts raw (hs[i := g]))
              (thenA (scn_act (update_scene_diagnostics (\<lambda>d. d\<lparr>sn_dwm_thumbnail_backend_uses :=
                        u64_sat_add (sn_dwm_thumbnail_backend_uses d) 1\<rparr>)))
                (ret g)))) (\<lambda>g.
     scn_act (show_window_monitor_scene_host wc owner g part))))"

definition show_window_monitor_scene ::
    "'w win32 \<Rightarrow> nat \<Rightarrow> scene_slice list \<Rightarrow> ('w scene_worker, string, unit) act" where
  "show_window_monitor_scene wc raw slices =
     thenA (scn_act (update_scene_diagnostics (\<lambda>d. d\<lparr>sn_show_requests := u64_sat_add (sn_show_requests d) 1\<rparr>)))
       (case native_hwnd_from_raw raw of
          Inl _ \<Rightarrow> hide_window_monitor_scene wc raw
        | Inr owner \<Rightarrow>
            bindA (scn_act (is_valid_window wc owner)) (\<lambda>valid.
            if \<not> valid then hide_window_monitor_scene wc raw
            else
              bindA (gets (\<lambda>k. scene_hosts_of k raw)) (\<lambda>hs.
              thenA (put_scene_hosts raw hs)
              (bindA (scn_act (any_dead_host wc hs)) (\<lambda>dead.
              thenA (when_do dead (thenA (each (\<lambda>h. scn_act (destroy_scene_host wc h)) hs)
                                     (put_scene_hosts raw [])))
              (thenA (sync_scene_host_count wc raw owner (length slices))
              (thenA (each (show_scene_slice wc raw owner) (enumerate 0 slices))
              (thenA count_scene_hosts
              (thenA (scn_act (modify (\<lambda>s. s\<lparr>nt_scene_owners := insert raw (nt_scene_owners s)\<rparr>)))
                (scn_act (log_scene_event ''show'' raw (''slice-count='' @ nat_to_dec (length slices))))))))))))) "

primrec stale_scene_owners ::
    "'w win32 \<Rightarrow> (nat \<times> host list) list \<Rightarrow> ('w native, 'e, nat list) act" where
  "stale_scene_owners wc [] = ret []"
| "stale_scene_owners wc (e # es) =
     bindA (case native_hwnd_from_raw (fst e) of
              Inl _ \<Rightarrow> ret True
            | Inr owner \<Rightarrow>
                bindA (is_valid_window wc owner) (\<lambda>valid.
                if \<not> valid then ret True else any_dead_host wc (snd e))) (\<lambda>stale.
     bindA (stale_scene_owners wc es) (\<lambda>rest. ret (if stale then fst e # rest else rest)))"

definition prune_stale_window_monitor_scene_hosts :: "'w win32 \<Rightarrow> ('w scene_worker, 'e, unit) act" where
  "prune_stale_window_monitor_scene_hosts wc =
     bindA (gets sk_hosts) (\<lambda>hosts.
     bindA (scn_act (stale_scene_owners wc hosts)) (\<lambda>stale.
     each (\<lambda>owner.
       thenA (scn_act (update_scene_diagnostics (\<lambda>d. d\<lparr>sn_pruned_hosts := u64_sat_add (sn_pruned_hosts d) 1\<rparr>)))
       (thenA (scn_act (log_scene_event ''prune-stale'' owner []))
         (hide_window_monitor_scene wc owner))) stale))"

definition destroy_all_window_monitor_scene_hosts :: "'w win32 \<Rightarrow> ('w scene_worker, 'e, unit) act" where
  "destroy_all_window_monitor_scene_hosts wc =
     bindA (gets sk_hosts) (\<lambda>hosts.
     thenA (modify (\<lambda>k. k\<lparr>sk_hosts := []\<rparr>))
       (each (\<lambda>h. scn_act (destroy_scene_host wc h)) (concat (map snd hosts))))"

datatype scene_command = SceneShow nat "scene_slice list" | SceneHide nat

definition scene_turn ::
    "'w win32 \<Rightarrow> scene_command option \<Rightarrow> 'w scene_worker \<Rightarrow> (string + unit) option \<times> 'w scene_worker" where
  "scene_turn wc command k =
     (let k1 = snd (prune_stale_window_monitor_scene_hosts wc k :: (unit + unit) \<times> 'w scene_worker)
      in case command of
           None \<Rightarrow> (None, k1)
         | Some (SceneShow raw slices) \<Rightarrow>
             (case show_window_monitor_scene wc raw slices k1 of (r, k2) \<Rightarrow> (Some r, k2))
         | Some (SceneHide raw) \<Rightarrow>
             (case hide_window_monitor_scene wc raw k1 of (r, k2) \<Rightarrow> (Some r, k2)))"

end
