(* ===== verification/Browser_Surfaces.thy ===== *)
theory Browser_Surfaces
  imports Surface_Workers
begin

text \<open>
  \<open>crates/windows-adapter/src/native_apply/browser_dim_overlay.rs\<close> and
  \<open>browser_visual_surrogate.rs\<close>: the two threads that dim browser windows, which cannot be made
  translucent themselves, by an overlay or by thumbnails of the desktop and the window. As for the other
  surfaces, the threads, their channels and the window classes are not modelled.
\<close>

unbundle bit_operations_syntax

text \<open>\<open>SWP_NOZORDER | SWP_NOACTIVATE | SWP_NOOWNERZORDER | SWP_SHOWWINDOW\<close>, above all other windows.\<close>

definition browser_apply_flags :: nat where "browser_apply_flags = 0x4 OR 0x10 OR 0x200 OR 0x40"

definition hwnd_topmost :: int where "hwnd_topmost = -1"

definition destroy_surface_window :: "'w win32 \<Rightarrow> nat \<Rightarrow> ('w native, 'e, unit) act" where
  "destroy_surface_window wc window =
     bindA (is_valid_window wc window) (\<lambda>valid.
     when_do valid (thenA (sys_do (wc_show_window wc window 0)) (sys_do (wc_destroy wc window))))"

definition place_surface ::
    "'w win32 \<Rightarrow> string \<Rightarrow> nat \<Rightarrow> rect \<Rightarrow> ('w native, string, int \<times> int) act" where
  "place_surface wc label window r =
     bindA (tryA (\<lambda>_. u32_try_i32 (max (rect_width r) 1) (label @ '' width exceeds Win32 limits''))) (\<lambda>width.
     bindA (tryA (\<lambda>_. u32_try_i32 (max (rect_height r) 1) (label @ '' height exceeds Win32 limits''))) (\<lambda>height.
     bindA (sys (wc_set_window_pos wc window hwnd_topmost (rect_x r, rect_y r, width, height)
              browser_apply_flags)) (\<lambda>applied.
     if \<not> applied then bindA (last_error_message wc ''SetWindowPos'') throw else ret (width, height))))"

section \<open>Dim overlays\<close>

record 'w dim_worker =
  dw_native :: "'w native"
  dw_overlays :: "(nat \<times> nat) list"

definition dim_act :: "('w native, 'e, 'a) act \<Rightarrow> ('w dim_worker, 'e, 'a) act" where
  "dim_act m = (\<lambda>k. case m (dw_native k) of (r, s) \<Rightarrow> (r, k\<lparr>dw_native := s\<rparr>))"

definition hide_browser_dim_overlay :: "'w win32 \<Rightarrow> nat \<Rightarrow> ('w dim_worker, 'e, unit) act" where
  "hide_browser_dim_overlay wc owner =
     bindA (gets (\<lambda>k. map_of (dw_overlays k) owner)) (\<lambda>found.
     case found of
       None \<Rightarrow> ret ()
     | Some overlay \<Rightarrow>
         thenA (modify (\<lambda>k. k\<lparr>dw_overlays := filter (\<lambda>e. fst e \<noteq> owner) (dw_overlays k)\<rparr>))
         (thenA (dim_act (modify (\<lambda>s. s\<lparr>nt_dim_owners := nt_dim_owners s - {owner}\<rparr>)))
           (dim_act (destroy_surface_window wc overlay))))"

definition create_browser_dim_overlay_window :: "'w win32 \<Rightarrow> nat \<Rightarrow> ('w native, string, nat) act" where
  "create_browser_dim_overlay_window wc owner =
     bindA (sys (wc_create wc ''FlowTileBrowserDimOverlay'' owner)) (\<lambda>window.
     if window = 0 then bindA (last_error_message wc ''CreateWindowExW'') throw else ret window)"

definition fresh_dim_overlay :: "'w win32 \<Rightarrow> nat \<Rightarrow> nat \<Rightarrow> ('w dim_worker, string, nat) act" where
  "fresh_dim_overlay wc raw owner =
     bindA (dim_act (create_browser_dim_overlay_window wc owner)) (\<lambda>overlay.
     thenA (modify (\<lambda>k. k\<lparr>dw_overlays := AList.update raw overlay (dw_overlays k)\<rparr>)) (ret overlay))"

definition show_browser_dim_overlay_window ::
    "'w win32 \<Rightarrow> nat \<Rightarrow> rect \<Rightarrow> nat \<Rightarrow> ('w native, string, unit) act" where
  "show_browser_dim_overlay_window wc window r alpha =
     bindA (sys (wc_set_layered wc window alpha)) (\<lambda>layered.
     if \<not> layered then bindA (last_error_message wc ''SetLayeredWindowAttributes'') throw
     else ignore (place_surface wc ''browser dim overlay'' window r))"

definition show_browser_dim_overlay ::
    "'w win32 \<Rightarrow> nat \<Rightarrow> rect \<Rightarrow> nat \<Rightarrow> ('w dim_worker, string, unit) act" where
  "show_browser_dim_overlay wc raw r alpha =
     (case native_hwnd_from_raw raw of
        Inl _ \<Rightarrow> hide_browser_dim_overlay wc raw
      | Inr owner \<Rightarrow>
          bindA (dim_act (is_valid_window wc owner)) (\<lambda>valid.
          if \<not> valid then hide_browser_dim_overlay wc raw
          else
            bindA (gets (\<lambda>k. map_of (dw_overlays k) raw)) (\<lambda>found.
            bindA (case found of
                     None \<Rightarrow> fresh_dim_overlay wc raw owner
                   | Some existing \<Rightarrow>
                       bindA (dim_act (is_valid_window wc existing)) (\<lambda>alive.
                       if alive then ret existing
                       else thenA (dim_act (destroy_surface_window wc existing))
                              (fresh_dim_overlay wc raw owner))) (\<lambda>overlay.
            thenA (dim_act (show_browser_dim_overlay_window wc overlay r alpha))
              (dim_act (modify (\<lambda>s. s\<lparr>nt_dim_owners := insert raw (nt_dim_owners s)\<rparr>)))))))"

definition stale_surface :: "'w win32 \<Rightarrow> nat \<Rightarrow> nat \<Rightarrow> ('w native, 'e, bool) act" where
  "stale_surface wc raw window =
     (case native_hwnd_from_raw raw of
        Inl _ \<Rightarrow> ret True
      | Inr owner \<Rightarrow>
          bindA (is_valid_window wc owner) (\<lambda>valid.
          if \<not> valid then ret True
          else bindA (is_valid_window wc window) (\<lambda>alive. ret (\<not> alive))))"

primrec stale_surfaces :: "'w win32 \<Rightarrow> (nat \<times> nat) list \<Rightarrow> ('w native, 'e, nat list) act" where
  "stale_surfaces wc [] = ret []"
| "stale_surfaces wc (e # es) =
     bindA (stale_surface wc (fst e) (snd e)) (\<lambda>stale.
     bindA (stale_surfaces wc es) (\<lambda>rest. ret (if stale then fst e # rest else rest)))"

definition prune_stale_browser_dim_overlays :: "'w win32 \<Rightarrow> ('w dim_worker, 'e, unit) act" where
  "prune_stale_browser_dim_overlays wc =
     bindA (gets dw_overlays) (\<lambda>overlays.
     bindA (dim_act (stale_surfaces wc overlays)) (\<lambda>stale. each (hide_browser_dim_overlay wc) stale))"

definition destroy_all_browser_dim_overlays :: "'w win32 \<Rightarrow> ('w dim_worker, 'e, unit) act" where
  "destroy_all_browser_dim_overlays wc =
     bindA (gets dw_overlays) (\<lambda>overlays.
     thenA (modify (\<lambda>k. k\<lparr>dw_overlays := []\<rparr>))
       (each (\<lambda>e. dim_act (destroy_surface_window wc (snd e))) overlays))"

datatype dim_command = DimShow nat rect nat | DimHide nat

definition dim_turn ::
    "'w win32 \<Rightarrow> dim_command option \<Rightarrow> 'w dim_worker \<Rightarrow> (string + unit) option \<times> 'w dim_worker" where
  "dim_turn wc command k =
     (let k1 = snd (prune_stale_browser_dim_overlays wc k :: (unit + unit) \<times> 'w dim_worker)
      in case command of
           None \<Rightarrow> (None, k1)
         | Some (DimShow raw r alpha) \<Rightarrow>
             (case show_browser_dim_overlay wc raw r alpha k1 of (a, k2) \<Rightarrow> (Some a, k2))
         | Some (DimHide raw) \<Rightarrow> (case hide_browser_dim_overlay wc raw k1 of (a, k2) \<Rightarrow> (Some a, k2)))"

section \<open>Browser surrogates\<close>

record browser_host =
  bh_window :: nat
  bh_backdrop_thumbnail :: "int option"
  bh_browser_thumbnail :: "int option"

record 'w browser_worker =
  bw_native :: "'w native"
  bw_hosts :: "(nat \<times> browser_host) list"

definition brw_act :: "('w native, 'e, 'a) act \<Rightarrow> ('w browser_worker, 'e, 'a) act" where
  "brw_act m = (\<lambda>k. case m (bw_native k) of (r, s) \<Rightarrow> (r, k\<lparr>bw_native := s\<rparr>))"

text \<open>The error of an unregistration, named by what is being unregistered.\<close>

definition unregister_thumbnail :: "'w win32 \<Rightarrow> string \<Rightarrow> int option \<Rightarrow> ('w native, 'e, string option) act" where
  "unregister_thumbnail wc api thumbnail =
     (case thumbnail of
        None \<Rightarrow> ret None
      | Some n \<Rightarrow>
          bindA (sys (wc_unregister_thumbnail wc n)) (\<lambda>code.
          ret (if code < 0 then Some (hresult_text api code) else None)))"

definition destroy_browser_visual_surrogate :: "'w win32 \<Rightarrow> browser_host \<Rightarrow> ('w native, string, unit) act" where
  "destroy_browser_visual_surrogate wc h =
     bindA (unregister_thumbnail wc ''DwmUnregisterThumbnail'' (bh_backdrop_thumbnail h)) (\<lambda>e1.
     bindA (unregister_thumbnail wc ''DwmUnregisterThumbnail(browser)'' (bh_browser_thumbnail h)) (\<lambda>e2.
     thenA (destroy_surface_window wc (bh_window h))
       (case or_opt e1 e2 of None \<Rightarrow> ret () | Some e \<Rightarrow> throw e)))"

definition hide_browser_visual_surrogate :: "'w win32 \<Rightarrow> nat \<Rightarrow> ('w browser_worker, string, unit) act" where
  "hide_browser_visual_surrogate wc owner =
     bindA (gets (\<lambda>k. map_of (bw_hosts k) owner)) (\<lambda>found.
     case found of
       None \<Rightarrow> ret ()
     | Some h \<Rightarrow>
         thenA (modify (\<lambda>k. k\<lparr>bw_hosts := filter (\<lambda>e. fst e \<noteq> owner) (bw_hosts k)\<rparr>))
         (thenA (brw_act (modify (\<lambda>s. s\<lparr>nt_browser_owners := nt_browser_owners s - {owner}\<rparr>)))
           (brw_act (destroy_browser_visual_surrogate wc h))))"

text \<open>The host keeps its owner in \<open>GWLP_USERDATA\<close>.\<close>

definition gwlp_userdata :: int where "gwlp_userdata = -21"

definition create_browser_visual_surrogate :: "'w win32 \<Rightarrow> nat \<Rightarrow> ('w native, string, browser_host) act" where
  "create_browser_visual_surrogate wc owner =
     bindA (sys (wc_create wc ''FlowTileBrowserVisualSurrogate'' owner)) (\<lambda>window.
     if window = 0 then bindA (last_error_message wc ''CreateWindowExW'') throw
     else thenA (sys_do (wc_set_long wc window gwlp_userdata (int owner)))
       (ret \<lparr>bh_window = window, bh_backdrop_thumbnail = None, bh_browser_thumbnail = None\<rparr>))"

definition put_browser_host :: "nat \<Rightarrow> browser_host \<Rightarrow> ('w browser_worker, 'e, unit) act" where
  "put_browser_host owner h = modify (\<lambda>k. k\<lparr>bw_hosts := AList.update owner h (bw_hosts k)\<rparr>)"

definition fresh_browser_host :: "'w win32 \<Rightarrow> nat \<Rightarrow> nat \<Rightarrow> ('w browser_worker, string, browser_host) act" where
  "fresh_browser_host wc raw owner =
     bindA (brw_act (create_browser_visual_surrogate wc owner)) (\<lambda>h.
     thenA (put_browser_host raw h) (ret h))"

definition browser_visual_surrogate_backdrop_source :: "'w win32 \<Rightarrow> ('w native, string, nat) act" where
  "browser_visual_surrogate_backdrop_source wc =
     bindA (sys (wc_shell_window wc)) (\<lambda>shell.
     bindA (is_valid_window wc shell) (\<lambda>valid.
     if \<not> valid then throw ''GetShellWindow returned no valid shell backdrop source'' else ret shell))"

definition prepare_browser_visual_surrogate ::
    "'w win32 \<Rightarrow> browser_host \<Rightarrow> nat \<Rightarrow> ('w native, string, browser_host) act" where
  "prepare_browser_visual_surrogate wc h owner =
     bindA (if bh_backdrop_thumbnail h \<noteq> None then ret h
            else bindA (browser_visual_surrogate_backdrop_source wc) (\<lambda>source.
              bindA (register_thumbnail wc (bh_window h) source) (\<lambda>n.
              ret (h\<lparr>bh_backdrop_thumbnail := Some n\<rparr>)))) (\<lambda>g.
     if bh_browser_thumbnail g \<noteq> None then ret g
     else bindA (register_thumbnail wc (bh_window g) owner) (\<lambda>n.
       ret (g\<lparr>bh_browser_thumbnail := Some n\<rparr>)))"

definition source_relative_rect :: "win32_rect \<Rightarrow> rect \<Rightarrow> string \<Rightarrow> string + win32_rect" where
  "source_relative_rect bounds r label =
     (let name = ''browser visual surrogate '' @ label in
      bindE (u32_try_i32 (max (rect_width r) 1) (name @ '' width exceeds Win32 limits'')) (\<lambda>width.
      bindE (u32_try_i32 (max (rect_height r) 1) (name @ '' height exceeds Win32 limits'')) (\<lambda>height.
      bindE (ok_or (i32_checked_add (rect_x r) width) (name @ '' right edge overflowed'')) (\<lambda>right.
      bindE (ok_or (i32_checked_add (rect_y r) height) (name @ '' bottom edge overflowed'')) (\<lambda>bottom.
      Inr \<lparr>w_left = wrap_i32 (rect_x r - w_left bounds), w_top = wrap_i32 (rect_y r - w_top bounds),
           w_right = wrap_i32 (right - w_left bounds), w_bottom = wrap_i32 (bottom - w_top bounds)\<rparr>)))))"

definition browser_visual_surrogate_backdrop_source_rect ::
    "'w win32 \<Rightarrow> rect \<Rightarrow> ('w native, string, win32_rect) act" where
  "browser_visual_surrogate_backdrop_source_rect wc r =
     bindA (browser_visual_surrogate_backdrop_source wc) (\<lambda>source.
     bindA (query_outer_rect wc source) (\<lambda>bounds.
     tryA (\<lambda>_. source_relative_rect bounds r ''backdrop'')))"

definition show_browser_visual_surrogate_window ::
    "'w win32 \<Rightarrow> browser_host \<Rightarrow> rect \<Rightarrow> nat \<Rightarrow> ('w native, string, unit) act" where
  "show_browser_visual_surrogate_window wc h r alpha =
     bindA (place_surface wc ''browser visual surrogate'' (bh_window h) r) (\<lambda>(width, height).
     let whole = \<lparr>w_left = 0, w_top = 0, w_right = width, w_bottom = height\<rparr> in
     bindA (tryA (\<lambda>_. ok_or (bh_backdrop_thumbnail h)
              ''browser visual surrogate backdrop thumbnail was not initialized'')) (\<lambda>backdrop.
     bindA (browser_visual_surrogate_backdrop_source_rect wc r) (\<lambda>source.
     bindA (sys (wc_update_thumbnail wc backdrop
       \<lparr>tp_flags = 0x1 OR 0x2 OR 0x8 OR 0x4, tp_destination = whole, tp_source = source,
        tp_opacity = 255\<rparr>)) (\<lambda>code.
     if code < 0 then throw (hresult_text ''DwmUpdateThumbnailProperties(backdrop)'' code)
     else
       bindA (tryA (\<lambda>_. ok_or (bh_browser_thumbnail h)
                ''browser visual surrogate browser thumbnail was not initialized'')) (\<lambda>browser.
       bindA (sys (wc_update_thumbnail wc browser
         \<lparr>tp_flags = 0x1 OR 0x8 OR 0x4 OR 0x10, tp_destination = whole,
          tp_source = \<lparr>w_left = 0, w_top = 0, w_right = 0, w_bottom = 0\<rparr>, tp_opacity = alpha\<rparr>)) (\<lambda>code.
       if code < 0 then throw (hresult_text ''DwmUpdateThumbnailProperties'' code)
       else sys_do (wc_show_window wc (bh_window h) 8)))))))"

text \<open>Unlike the other workers, this one takes a surrogate away again that cannot be prepared or shown.\<close>

definition or_hide :: "'w win32 \<Rightarrow> nat \<Rightarrow> ('w browser_worker, string, 'a) act \<Rightarrow> ('w browser_worker, string, 'a) act" where
  "or_hide wc raw m =
     bindA (catch m) (\<lambda>outcome.
     case outcome of
       Inr x \<Rightarrow> ret x
     | Inl e \<Rightarrow> thenA (ignore (catch (hide_browser_visual_surrogate wc raw))) (throw e))"

definition show_browser_visual_surrogate ::
    "'w win32 \<Rightarrow> nat \<Rightarrow> rect \<Rightarrow> nat \<Rightarrow> ('w browser_worker, string, unit) act" where
  "show_browser_visual_surrogate wc raw r alpha =
     (case native_hwnd_from_raw raw of
        Inl _ \<Rightarrow> hide_browser_visual_surrogate wc raw
      | Inr owner \<Rightarrow>
          bindA (brw_act (is_valid_window wc owner)) (\<lambda>valid.
          if \<not> valid then hide_browser_visual_surrogate wc raw
          else
            bindA (gets (\<lambda>k. map_of (bw_hosts k) raw)) (\<lambda>found.
            bindA (case found of
                     None \<Rightarrow> fresh_browser_host wc raw owner
                   | Some existing \<Rightarrow>
                       bindA (brw_act (is_valid_window wc (bh_window existing))) (\<lambda>alive.
                       if alive then ret existing
                       else thenA (ignore (catch (brw_act (destroy_browser_visual_surrogate wc existing))))
                              (fresh_browser_host wc raw owner))) (\<lambda>old.
            bindA (or_hide wc raw (brw_act (prepare_browser_visual_surrogate wc old owner))) (\<lambda>h.
            thenA (or_hide wc raw (brw_act (show_browser_visual_surrogate_window wc h r alpha)))
            (thenA (put_browser_host raw h)
              (brw_act (modify (\<lambda>s. s\<lparr>nt_browser_owners := insert raw (nt_browser_owners s)\<rparr>)))))))))"

definition prune_stale_browser_visual_surrogates :: "'w win32 \<Rightarrow> ('w browser_worker, 'e, unit) act" where
  "prune_stale_browser_visual_surrogates wc =
     bindA (gets (\<lambda>k. map (\<lambda>e. (fst e, bh_window (snd e))) (bw_hosts k))) (\<lambda>hosts.
     bindA (brw_act (stale_surfaces wc hosts)) (\<lambda>stale.
     each (\<lambda>owner. ignore (catch (hide_browser_visual_surrogate wc owner))) stale))"

definition destroy_all_browser_visual_surrogates :: "'w win32 \<Rightarrow> ('w browser_worker, 'e, unit) act" where
  "destroy_all_browser_visual_surrogates wc =
     bindA (gets (\<lambda>k. map fst (bw_hosts k))) (\<lambda>owners.
     each (\<lambda>owner. ignore (catch (hide_browser_visual_surrogate wc owner))) owners)"

text \<open>A click on a host makes way for the browser.\<close>

definition browser_window_proc :: "'w win32 \<Rightarrow> nat \<times> nat \<Rightarrow> ('w native, 'e, unit) act" where
  "browser_window_proc wc = (\<lambda>(window, message).
     if message \<in> {wm_lbuttondown, wm_rbuttondown, wm_mbuttondown, wm_nclbuttondown} then
       bindA (sys (wc_get_long wc window gwlp_userdata)) (\<lambda>user.
       let owner = nat user in
       bindA (is_valid_window wc owner) (\<lambda>valid.
       when_do valid
         (thenA (sys_do (wc_show_window wc window 0))
         (thenA (sys_do (wc_destroy wc window)) (ignore (catch (activate_window wc owner)))))))
     else ret ())"

datatype browser_command = BrowserShow nat rect nat | BrowserHide nat

definition browser_turn ::
    "'w win32 \<Rightarrow> (nat \<times> nat) list \<Rightarrow> browser_command option \<Rightarrow> 'w browser_worker \<Rightarrow>
       (string + unit) option \<times> 'w browser_worker" where
  "browser_turn wc messages command k =
     (let k1 = snd (each (\<lambda>m. brw_act (browser_window_proc wc m)) messages k :: (unit + unit) \<times> 'w browser_worker);
          k2 = snd (prune_stale_browser_visual_surrogates wc k1 :: (unit + unit) \<times> 'w browser_worker)
      in case command of
           None \<Rightarrow> (None, k2)
         | Some (BrowserShow raw r alpha) \<Rightarrow>
             (case show_browser_visual_surrogate wc raw r alpha k2 of (a, k3) \<Rightarrow> (Some a, k3))
         | Some (BrowserHide raw) \<Rightarrow>
             (case hide_browser_visual_surrogate wc raw k2 of (a, k3) \<Rightarrow> (Some a, k3)))"

end
