(* ===== verification/Native_Apply.thy ===== *)
theory Native_Apply
  imports Browser_Surfaces
begin

text \<open>
  \<open>crates/windows-adapter/src/native_apply.rs\<close>: applying a batch of operations - normalising what
  cannot have a surrogate, animating window switches frame by frame, moving windows together or one by
  one, then syncing what stands before or on top of each window, its emphasis and its activation - and
  taking the presentations away again. The surfaces answer through the channels of their threads: what
  they answer, and what they do to the registries meanwhile, is the record \<open>surfaces\<close>.
\<close>

record 'w surfaces =
  sf_show_clip :: "nat \<Rightarrow> rect \<Rightarrow> rect \<Rightarrow> rect \<Rightarrow> ('w native, string, unit) act"
  sf_hide_clip :: "nat \<Rightarrow> ('w native, string, unit) act"
  sf_show_scene :: "nat \<Rightarrow> scene_slice list \<Rightarrow> ('w native, string, unit) act"
  sf_hide_scene :: "nat \<Rightarrow> ('w native, string, unit) act"
  sf_show_browser :: "nat \<Rightarrow> rect \<Rightarrow> nat \<Rightarrow> ('w native, string, unit) act"
  sf_hide_browser :: "nat \<Rightarrow> ('w native, string, unit) act"
  sf_show_dim :: "nat \<Rightarrow> rect \<Rightarrow> nat \<Rightarrow> ('w native, string, unit) act"
  sf_hide_dim :: "nat \<Rightarrow> ('w native, string, unit) act"

section \<open>Spill masks\<close>

text \<open>Spill masks are gone from the program: there are none, and hiding one does nothing.\<close>

definition active_spill_mask_overlay_owner_hwnds_snapshot :: "nat set" where
  "active_spill_mask_overlay_owner_hwnds_snapshot = {}"

definition hide_spill_mask_overlay :: "nat \<Rightarrow> ('w native, string, unit) act" where
  "hide_spill_mask_overlay owner = ret ()"

section \<open>Normalising\<close>

definition is_surrogate_presentation_mode :: "presentation_mode \<Rightarrow> bool" where
  "is_surrogate_presentation_mode m \<longleftrightarrow> m \<in> {SurrogateVisible, SurrogateClipped}"

definition native_visible_surrogate_fallback :: "apply_operation \<Rightarrow> apply_operation option" where
  "native_visible_surrogate_fallback op =
     map_option
       (\<lambda>c. op\<lparr>op_rect := sc_native_visible_rect c,
               op_presentation := \<lparr>pr_mode = NativeVisible, pr_surrogate = Some c,
                                   pr_monitor_scene = pr_monitor_scene (op_presentation op)\<rparr>\<rparr>)
       (pr_surrogate (op_presentation op))"

definition normalize_surrogate_presentation_operation ::
    "'w win32 \<Rightarrow> apply_operation \<Rightarrow> ('w native, 'e, apply_operation) act" where
  "normalize_surrogate_presentation_operation wc op =
     (let fallback = (case native_visible_surrogate_fallback op of None \<Rightarrow> op | Some o' \<Rightarrow> o') in
      if \<not> is_surrogate_presentation_mode (pr_mode (op_presentation op)) then ret op
      else if op_activate op then ret fallback
      else
        bindA (should_use_clipped_window_surrogate wc (op_hwnd op)) (\<lambda>eligible.
        if eligible then ret op
        else bindA (clipped_window_surrogate_classifier_reason wc (op_hwnd op)) (\<lambda>reason.
          thenA (record_native_fallback wc (op_hwnd op) reason) (ret fallback))))"

section \<open>What stands before or on top of a window\<close>

definition should_show_window_monitor_scene :: "presentation \<Rightarrow> bool" where
  "should_show_window_monitor_scene p \<longleftrightarrow>
     pr_mode p \<noteq> NativeHidden \<and> ms_slices (pr_monitor_scene p) \<noteq> []"

definition native_visible_clip_rect :: "apply_operation \<Rightarrow> rect option" where
  "native_visible_clip_rect op =
     (let p = op_presentation op in
      if pr_mode p \<noteq> NativeVisible then None
      else filter_opt (\<lambda>clip. clip \<noteq> op_rect op)
        (or_opt (map_option sc_destination_rect (pr_surrogate p)) (ms_home_visible_rect (pr_monitor_scene p))))"

definition sync_scene :: "'w surfaces \<Rightarrow> apply_operation \<Rightarrow> ('w native, string, unit) act" where
  "sync_scene sf op =
     (if should_show_window_monitor_scene (op_presentation op)
      then sf_show_scene sf (op_hwnd op) (ms_slices (pr_monitor_scene (op_presentation op)))
      else sf_hide_scene sf (op_hwnd op))"

definition sync_window_presentation ::
    "'w win32 \<Rightarrow> 'w surfaces \<Rightarrow> apply_operation \<Rightarrow> ('w native, string, unit) act" where
  "sync_window_presentation wc sf op =
     (let p = op_presentation op; raw = op_hwnd op in
      if \<not> is_surrogate_presentation_mode (pr_mode p) then
        thenA (sf_hide_clip sf raw)
        (bindA (tryA (\<lambda>_. native_hwnd_from_raw raw)) (\<lambda>h.
         thenA (case native_visible_clip_rect op of
                  Some clip \<Rightarrow>
                    thenA (sync_window_native_clip_mask wc h (Some (op_rect op)) (Some clip))
                      (hide_spill_mask_overlay raw)
                | None \<Rightarrow>
                    thenA (sync_window_native_clip_mask wc h None None) (hide_spill_mask_overlay raw))
         (thenA (sync_scene sf op)
           (when_do (pr_surrogate p = None \<or> pr_mode p = NativeHidden) (clear_presentation_override raw)))))
      else
        bindA (tryA (\<lambda>_. native_hwnd_from_raw raw)) (\<lambda>h.
        thenA (sync_window_native_clip_mask wc h None None)
        (thenA (hide_spill_mask_overlay raw)
        (bindA (tryA (\<lambda>_. ok_or (pr_surrogate p)
                 (''surrogate presentation for hwnd '' @ nat_to_dec raw @ '' is missing metadata''))) (\<lambda>c.
         thenA (sf_show_clip sf raw (sc_destination_rect c) (sc_source_rect c) (sc_native_visible_rect c))
           (sync_scene sf op))))))"

section \<open>Emphasis\<close>

definition apply_window_browser_visual_surface ::
    "'w surfaces \<Rightarrow> nat \<Rightarrow> rect \<Rightarrow> visual_emphasis \<Rightarrow> ('w native, string, unit) act" where
  "apply_window_browser_visual_surface sf raw r e =
     (case ve_opacity_mode e of
        DirectLayered \<Rightarrow> thenA (sf_hide_browser sf raw) (sf_hide_dim sf raw)
      | OverlayDim \<Rightarrow>
          thenA (sf_hide_browser sf raw)
            (case overlay_dim_alpha e of
               None \<Rightarrow> sf_hide_dim sf raw
             | Some alpha \<Rightarrow> sf_show_dim sf raw r alpha)
      | BrowserSurrogate \<Rightarrow>
          (case browser_surrogate_alpha e of
             None \<Rightarrow> thenA (sf_hide_browser sf raw) (sf_hide_dim sf raw)
           | Some alpha \<Rightarrow>
               bindA (catch (sf_show_browser sf raw r alpha)) (\<lambda>outcome.
               if isl outcome then sf_show_dim sf raw r (overlay_dim_alpha_from_window_opacity alpha)
               else sf_hide_dim sf raw)))"

definition remember_visual_state :: "nat \<Rightarrow> applied_visual_state \<Rightarrow> ('w native, 'e, unit) act" where
  "remember_visual_state h v = modify (\<lambda>s. s\<lparr>nt_visual := (nt_visual s)(h \<mapsto> v)\<rparr>)"

definition apply_visual_emphasis_for_operation ::
    "'w win32 \<Rightarrow> 'w surfaces \<Rightarrow> apply_operation \<Rightarrow> ('w native, string, unit) act" where
  "apply_visual_emphasis_for_operation wc sf op =
     (case op_visual_emphasis op of
        None \<Rightarrow> ret ()
      | Some requested \<Rightarrow>
          let e = normalized_visual_emphasis requested; desired = visual_state_of e in
          bindA (tryA (\<lambda>_. native_hwnd_from_raw (op_hwnd op))) (\<lambda>h.
          thenA (apply_window_browser_visual_surface sf (op_hwnd op) (op_rect op) e)
          (bindA (query_window_ex_style wc h) (\<lambda>ex_style.
           bindA (gets (\<lambda>s. case nt_visual s h of
                              None \<Rightarrow> False
                            | Some previous \<Rightarrow>
                                should_skip_visual_write previous desired (ve_force_clear_layered_style e)
                                  (h \<in> nt_layered s) (style_has_layered ex_style))) (\<lambda>skip.
           if skip then ret ()
           else
             thenA (apply_window_opacity wc h ex_style (direct_layered_opacity_alpha e)
                      (ve_force_clear_layered_style e))
             (if ve_disable_visual_effects e then remember_visual_state h desired
              else
                thenA (apply_window_corners wc h e)
                (thenA (apply_window_border wc h e) (remember_visual_state h desired))))))))"

section \<open>Moving windows\<close>

definition error_access_denied :: nat where "error_access_denied = 5"

definition rect_of_translated :: "translated_rect \<Rightarrow> int \<times> int \<times> int \<times> int" where
  "rect_of_translated t = (tr_x t, tr_y t, tr_width t, tr_height t)"

text \<open>An action whose errors get another type.\<close>

definition err_act :: "('e \<Rightarrow> 'f) \<Rightarrow> ('s, 'e, 'a) act \<Rightarrow> ('s, 'f, 'a) act" where
  "err_act f m = (\<lambda>s. case m s of (r, t) \<Rightarrow> (map_err f r, t))"

definition no_code :: "string \<Rightarrow> api_error" where
  "no_code message = \<lparr>ae_code = 0, ae_message = message\<rparr>"

definition apply_geometry :: "'w win32 \<Rightarrow> apply_operation \<Rightarrow> ('w native, api_error, unit) act" where
  "apply_geometry wc op =
     bindA (tryA (\<lambda>_. map_err no_code (native_hwnd_from_raw (op_hwnd op)))) (\<lambda>h.
     thenA (when_do (op_suppress_visual_gap op) (apply_gapless_visual_policy wc h))
     (bindA (err_act no_code (translated_window_rect wc h op)) (\<lambda>t.
      bindA (sys (wc_set_window_pos wc h 0 (rect_of_translated t) geometry_apply_flags)) (\<lambda>applied.
      if \<not> applied then bindA (last_error wc ''SetWindowPos'') throw else ret ()))))"

definition apply_one_operation ::
    "'w win32 \<Rightarrow> 'w surfaces \<Rightarrow> apply_operation \<Rightarrow> ('w native, string, unit) act" where
  "apply_one_operation wc sf op =
     (let finish = thenA (sync_window_presentation wc sf op) (apply_visual_emphasis_for_operation wc sf op);
          rest = thenA finish (when_do (op_activate op) (activate_window wc (op_hwnd op))) in
      if \<not> op_apply_geometry op then rest
      else
        bindA (catch (apply_geometry wc op)) (\<lambda>outcome.
        case outcome of
          Inr _ \<Rightarrow> rest
        | Inl e \<Rightarrow>
            if op_activate op \<and> pr_mode (op_presentation op) = NativeVisible \<and> ae_code e = error_access_denied
            then thenA finish
                   (err_act (\<lambda>a. ae_message e @ ''; activation fallback failed: '' @ a)
                     (activate_window wc (op_hwnd op)))
            else throw (ae_message e)))"

text \<open>Windows that are shown come first, those to be activated before the others.\<close>

definition presentation_apply_priority :: "apply_operation \<Rightarrow> nat" where
  "presentation_apply_priority op =
     (case pr_mode (op_presentation op) of
        NativeVisible \<Rightarrow> if op_activate op then 0 else 1
      | SurrogateVisible \<Rightarrow> 2
      | SurrogateClipped \<Rightarrow> 2
      | NativeHidden \<Rightarrow> 3)"

definition ordered_operations_for_presentation :: "apply_operation list \<Rightarrow> apply_operation list" where
  "ordered_operations_for_presentation ops = sort_key presentation_apply_priority ops"

section \<open>Batches\<close>

definition merge_apply_result :: "apply_batch_result \<Rightarrow> apply_batch_result \<Rightarrow> apply_batch_result" where
  "merge_apply_result target source =
     \<lparr>br_attempted = br_attempted target + br_attempted source,
      br_applied = br_applied target + br_applied source,
      br_failures = br_failures target @ br_failures source\<rparr>"

text \<open>Every operation in turn: how many were applied, and those that failed with the reason.\<close>

primrec outcomes ::
    "(apply_operation \<Rightarrow> ('w native, string, unit) act) \<Rightarrow> apply_operation list \<Rightarrow> 'w native \<Rightarrow>
       (nat \<times> apply_failure list) \<times> 'w native" where
  "outcomes f [] s = ((0, []), s)"
| "outcomes f (op # ops) s =
     (case f op s of
        (Inr _, t) \<Rightarrow> (case outcomes f ops t of ((n, fs), u) \<Rightarrow> ((n + 1, fs), u))
      | (Inl message, t) \<Rightarrow>
          (case outcomes f ops t of
             ((n, fs), u) \<Rightarrow> ((n, \<lparr>af_hwnd = op_hwnd op, af_message = message\<rparr> # fs), u)))"

definition apply_operations_individually ::
    "'w win32 \<Rightarrow> 'w surfaces \<Rightarrow> apply_operation list \<Rightarrow> 'w native \<Rightarrow> apply_batch_result \<times> 'w native" where
  "apply_operations_individually wc sf ops s =
     (case outcomes (apply_one_operation wc sf) (ordered_operations_for_presentation ops) s of
        ((n, fs), t) \<Rightarrow> (\<lparr>br_attempted = length ops, br_applied = n, br_failures = fs\<rparr>, t))"

text \<open>What is left of an operation whose geometry has been applied.\<close>

definition finalize_operation ::
    "'w win32 \<Rightarrow> 'w surfaces \<Rightarrow> apply_operation \<Rightarrow> ('w native, string, unit) act" where
  "finalize_operation wc sf op =
     thenA (sync_window_presentation wc sf op)
     (thenA (apply_visual_emphasis_for_operation wc sf op)
       (when_do (op_activate op) (activate_window wc (op_hwnd op))))"

definition finalize_apply_without_animation ::
    "'w win32 \<Rightarrow> 'w surfaces \<Rightarrow> apply_operation list \<Rightarrow> 'w native \<Rightarrow> apply_batch_result \<times> 'w native" where
  "finalize_apply_without_animation wc sf ops s =
     (case outcomes (finalize_operation wc sf) (ordered_operations_for_presentation ops) s of
        ((_, fs), t) \<Rightarrow>
          (\<lparr>br_attempted = length ops, br_applied = length ops - length fs, br_failures = fs\<rparr>, t))"

text \<open>
  All windows in one deferred batch. The batch is committed once at the end, or given up where a window
  cannot be added; an operation whose handle or rectangle fails leaves the function with the batch open.
\<close>

primrec defer_all ::
    "'w win32 \<Rightarrow> apply_operation list \<Rightarrow> nat \<Rightarrow> ('w native, string, nat) act" where
  "defer_all wc [] batch = ret batch"
| "defer_all wc (op # ops) batch =
     bindA (tryA (\<lambda>_. native_hwnd_from_raw (op_hwnd op))) (\<lambda>h.
     thenA (when_do (op_suppress_visual_gap op) (apply_gapless_visual_policy wc h))
     (bindA (translated_window_rect wc h op) (\<lambda>t.
      bindA (sys (wc_defer wc batch h (rect_of_translated t) geometry_apply_flags)) (\<lambda>next_batch.
      if next_batch = 0
      then thenA (ignore (sys (wc_end_defer wc batch))) (bindA (last_error_message wc ''DeferWindowPos'') throw)
      else defer_all wc ops next_batch))))"

definition try_apply_operations_batched ::
    "'w win32 \<Rightarrow> apply_operation list \<Rightarrow> ('w native, string, unit) act" where
  "try_apply_operations_batched wc ops =
     (if i32_max < int (length ops)
      then throw ''operation batch is larger than supported Win32 defer capacity''
      else
        bindA (sys (wc_begin_defer wc (int (length ops)))) (\<lambda>batch.
        if batch = 0 then bindA (last_error_message wc ''BeginDeferWindowPos'') throw
        else
          bindA (defer_all wc ops batch) (\<lambda>final.
          bindA (sys (wc_end_defer wc final)) (\<lambda>committed.
          if \<not> committed then bindA (last_error_message wc ''EndDeferWindowPos'') throw else ret ()))))"

definition also_apply ::
    "apply_batch_result \<times> 'w native \<Rightarrow> ('w native \<Rightarrow> apply_batch_result \<times> 'w native) \<Rightarrow>
       apply_batch_result \<times> 'w native" where
  "also_apply r f = (case f (snd r) of (b, t) \<Rightarrow> (merge_apply_result (fst r) b, t))"

definition apply_operations_direct ::
    "'w win32 \<Rightarrow> 'w surfaces \<Rightarrow> apply_operation list \<Rightarrow> 'w native \<Rightarrow> apply_batch_result \<times> 'w native" where
  "apply_operations_direct wc sf ops s =
     (if ops = [] then (apply_batch_default, s)
      else
        let moving = filter op_apply_geometry ops; visual = filter (\<lambda>op. \<not> op_apply_geometry op) ops in
        if moving = [] then also_apply (apply_batch_default, s) (apply_operations_individually wc sf visual)
        else
          let (batched, s1) =
                (if 1 < length moving
                 then (case try_apply_operations_batched wc moving s of (r, t) \<Rightarrow> (\<not> isl r, t))
                 else (False, s));
              first = also_apply (apply_batch_default, s1)
                (if batched then finalize_apply_without_animation wc sf moving
                 else apply_operations_individually wc sf moving)
          in also_apply first (apply_operations_individually wc sf visual))"

section \<open>Window switches\<close>

definition sync_window_presentations ::
    "'w win32 \<Rightarrow> 'w surfaces \<Rightarrow> apply_operation list \<Rightarrow> ('w native, string, unit) act" where
  "sync_window_presentations wc sf ops =
     each (sync_window_presentation wc sf) (ordered_operations_for_presentation ops)"

definition sync_browser_visual_surfaces_for_animation_frame ::
    "'w surfaces \<Rightarrow> apply_operation list \<Rightarrow> apply_operation list \<Rightarrow> ('w native, string, unit) act" where
  "sync_browser_visual_surfaces_for_animation_frame sf ops frames =
     each (\<lambda>(op, frame).
       case op_visual_emphasis op of
         None \<Rightarrow> ret ()
       | Some e \<Rightarrow> apply_window_browser_visual_surface sf (op_hwnd frame) (op_rect frame) e)
       (zip ops frames)"

text \<open>Times are nanoseconds. A frame that is early sleeps until it is due, except the last.\<close>

definition wait_for_frame ::
    "'w win32 \<Rightarrow> nat \<Rightarrow> nat \<Rightarrow> nat \<Rightarrow> nat \<Rightarrow> ('w native, string, unit) act" where
  "wait_for_frame wc start duration_ms n i =
     (let target = (duration_ms * i div n) * 1000000 in
      bindA (sys (wc_now wc)) (\<lambda>now.
      when_do (now - start \<le> target) (sys_do (wc_sleep wc (target - (now - start))))))"

definition animation_frame ::
    "'w win32 \<Rightarrow> 'w surfaces \<Rightarrow> apply_operation list \<Rightarrow> nat \<Rightarrow> nat \<Rightarrow> nat \<Rightarrow> nat \<Rightarrow>
       ('w native, string, unit) act" where
  "animation_frame wc sf ops start duration_ms n i =
     (let frames = map (\<lambda>op. animated_frame_operation op (ease_out_cubic (frame_progress i n))) ops in
      thenA (try_apply_operations_batched wc frames)
      (thenA (sync_window_presentations wc sf frames)
      (thenA (sync_browser_visual_surfaces_for_animation_frame sf ops frames)
        (when_do (i < n) (wait_for_frame wc start duration_ms n i)))))"

definition try_apply_window_switch_animations ::
    "'w win32 \<Rightarrow> 'w surfaces \<Rightarrow> apply_operation list \<Rightarrow> ('w native, string, unit) act" where
  "try_apply_window_switch_animations wc sf ops =
     (case find_map op_window_switch_animation ops of
        None \<Rightarrow> ret ()
      | Some a \<Rightarrow>
          if wsa_frame_count a \<le> 1 then ret ()
          else
            bindA (sys (wc_now wc)) (\<lambda>start.
            each (animation_frame wc sf ops start (max (wsa_duration_ms a) 1) (wsa_frame_count a))
              [1..<Suc (wsa_frame_count a)]))"

definition apply_window_switch_animations ::
    "'w win32 \<Rightarrow> 'w surfaces \<Rightarrow> apply_operation list \<Rightarrow> 'w native \<Rightarrow> apply_batch_result \<times> 'w native" where
  "apply_window_switch_animations wc sf ops s =
     (if ops = [] then (apply_batch_default, s)
      else case try_apply_window_switch_animations wc sf ops s of
        (Inr _, t) \<Rightarrow> finalize_apply_without_animation wc sf ops t
      | (Inl _, t) \<Rightarrow> apply_operations_direct wc sf ops t)"

section \<open>The entry points\<close>

primrec normalize_all ::
    "'w win32 \<Rightarrow> apply_operation list \<Rightarrow> 'w native \<Rightarrow> apply_operation list \<times> 'w native" where
  "normalize_all wc [] s = ([], s)"
| "normalize_all wc (op # ops) s =
     (case normalize_surrogate_presentation_operation wc op s :: (unit + apply_operation) \<times> 'w native of
        (Inr op1, t) \<Rightarrow> (case normalize_all wc ops t of (rest, u) \<Rightarrow> (op1 # rest, u))
      | (Inl _, t) \<Rightarrow> (case normalize_all wc ops t of (rest, u) \<Rightarrow> (op # rest, u)))"

definition apply_operations ::
    "'w win32 \<Rightarrow> 'w surfaces \<Rightarrow> apply_operation list \<Rightarrow> 'w native \<Rightarrow> apply_batch_result \<times> 'w native" where
  "apply_operations wc sf ops s =
     (case ensure_current_thread_per_monitor_v2 wc ''native-apply'' s of
        (Inl message, t) \<Rightarrow>
          (\<lparr>br_attempted = length ops, br_applied = 0,
            br_failures = map (\<lambda>op. \<lparr>af_hwnd = op_hwnd op, af_message = message\<rparr>) ops\<rparr>, t)
      | (Inr _, t) \<Rightarrow>
          (case normalize_all wc ops t of
             (normalized, u) \<Rightarrow>
               also_apply
                 (also_apply (apply_batch_default, u)
                   (apply_operations_direct wc sf
                     (filter (\<lambda>op. \<not> uses_window_switch_animation op) normalized)))
                 (apply_window_switch_animations wc sf (filter uses_window_switch_animation normalized))))"

definition clear_window_presentation :: "'w win32 \<Rightarrow> 'w surfaces \<Rightarrow> nat \<Rightarrow> ('w native, string, unit) act" where
  "clear_window_presentation wc sf raw =
     thenA (sf_hide_clip sf raw)
     (thenA (hide_spill_mask_overlay raw)
     (thenA (sf_hide_scene sf raw)
     (thenA (sf_hide_browser sf raw)
     (thenA (sf_hide_dim sf raw)
     (thenA (clear_presentation_override raw)
       (case native_hwnd_from_raw raw of
          Inl _ \<Rightarrow> ret ()
        | Inr h \<Rightarrow>
            bindA (is_valid_window wc h) (\<lambda>valid.
            when_do valid (sync_window_native_clip_mask wc h None None))))))))"

definition clear_window_presentations :: "'w win32 \<Rightarrow> 'w surfaces \<Rightarrow> nat list \<Rightarrow> ('w native, string, unit) act" where
  "clear_window_presentations wc sf = each (clear_window_presentation wc sf)"

definition materialized_presentation_hwnds_snapshot :: "'w native \<Rightarrow> nat set" where
  "materialized_presentation_hwnds_snapshot s =
     nt_owners s \<union> active_spill_mask_overlay_owner_hwnds_snapshot \<union> nt_scene_owners s \<union>
     nt_browser_owners s \<union> nt_dim_owners s \<union> native_clip_masked_hwnds_snapshot s"

text \<open>
  The adapter's platform, with the calls that reach the windows taken from here: \<open>apply_operations\<close>,
  \<open>clear_window_presentations\<close> and what tells which windows are presented otherwise than plainly.
\<close>

definition native_platform ::
    "'w win32 \<Rightarrow> 'w surfaces \<Rightarrow> ('w native, 'n) platform \<Rightarrow> ('w native, 'n) platform" where
  "native_platform wc sf pf =
     pf\<lparr>pf_apply := apply_operations wc sf, pf_clear := clear_window_presentations wc sf,
        pf_materialized := materialized_presentation_hwnds_snapshot, pf_overrides := nt_overrides\<rparr>"

end
