(* ===== verification/Native_Properties.thy ===== *)
theory Native_Properties
  imports Native_Apply "HOL-Library.Multiset"
begin

text \<open>
  What applying promises: every operation is accounted for, a window's visible frame lands where it was
  asked to be, the clip mask shows what it should, and what the surrogate worker announces.
\<close>

section \<open>Accounting\<close>

definition accounted :: "apply_operation list \<Rightarrow> apply_batch_result \<Rightarrow> bool" where
  "accounted ops r \<longleftrightarrow>
     br_attempted r = length ops \<and> br_applied r + length (br_failures r) = length ops \<and>
     image_mset af_hwnd (mset (br_failures r)) \<subseteq># image_mset op_hwnd (mset ops)"

lemma accounted_cong:
  assumes "image_mset op_hwnd (mset xs) = image_mset op_hwnd (mset ys)" "accounted xs r"
  shows "accounted ys r"
proof -
  have "length xs = length ys" using arg_cong [OF assms(1), of size] by simp
  then show ?thesis using assms by (simp add: accounted_def)
qed

lemma accounted_nothing: "accounted [] apply_batch_default"
  by (simp add: accounted_def apply_batch_default_def)

lemma accounted_merge: "accounted xs a \<Longrightarrow> accounted ys b \<Longrightarrow> accounted (xs @ ys) (merge_apply_result a b)"
  by (auto simp: accounted_def merge_apply_result_def intro: subset_mset.add_mono)

lemma accounted_also:
  assumes "accounted xs (fst p)" "\<And>s. accounted ys (fst (f s))"
  shows "accounted (xs @ ys) (fst (also_apply p f))"
  using assms(1) assms(2) [of "snd p"]
  by (auto simp: also_apply_def split: prod.split intro: accounted_merge)

lemma outcomes_count:
  "outcomes f ops s = ((n, fs), t) \<Longrightarrow>
     n + length fs = length ops \<and> image_mset af_hwnd (mset fs) \<subseteq># image_mset op_hwnd (mset ops)"
proof (induction ops arbitrary: s n fs t)
  case (Cons op ops)
  obtain r u where r: "f op s = (r, u)" by (cases "f op s")
  obtain m gs v where rest: "outcomes f ops u = ((m, gs), v)" by (metis prod.exhaust)
  note ih = Cons.IH [OF rest]
  show ?case
  proof (cases r)
    case (Inl message)
    then show ?thesis using Cons.prems r rest ih by auto
  next
    case (Inr x)
    then show ?thesis using Cons.prems r rest ih by (auto intro: subset_mset.order_trans)
  qed
qed simp

lemma ordered_hwnds:
  "image_mset op_hwnd (mset (ordered_operations_for_presentation ops)) = image_mset op_hwnd (mset ops)"
  "length (ordered_operations_for_presentation ops) = length ops"
  by (simp_all add: ordered_operations_for_presentation_def)

lemma accounted_individually: "accounted ops (fst (apply_operations_individually wc sf ops s))"
  using outcomes_count [of "apply_one_operation wc sf" "ordered_operations_for_presentation ops" s]
  by (auto simp: apply_operations_individually_def accounted_def ordered_hwnds split: prod.split)

lemma accounted_finalize: "accounted ops (fst (finalize_apply_without_animation wc sf ops s))"
  using outcomes_count [of "finalize_operation wc sf" "ordered_operations_for_presentation ops" s]
  by (auto simp: finalize_apply_without_animation_def accounted_def ordered_hwnds split: prod.split)

lemma split_hwnds:
  "image_mset g (mset (filter P xs @ filter (\<lambda>x. \<not> P x) xs)) = image_mset g (mset xs)"
  by (simp add: multiset_partition [symmetric] flip: image_mset_union)

lemma accounted_direct: "accounted ops (fst (apply_operations_direct wc sf ops s))"
proof (cases "ops = []")
  case False
  let ?m = "filter op_apply_geometry ops" and ?v = "filter (\<lambda>op. \<not> op_apply_geometry op) ops"
  have one: "accounted ([] @ ?v) (fst (also_apply (apply_batch_default, s) (apply_operations_individually wc sf ?v)))"
    by (intro accounted_also) (simp_all add: accounted_nothing accounted_individually)
  have two: "accounted (([] @ ?m) @ ?v)
      (fst (also_apply (also_apply (apply_batch_default, u)
         (if b then finalize_apply_without_animation wc sf ?m else apply_operations_individually wc sf ?m))
       (apply_operations_individually wc sf ?v)))" for b u
    by (intro accounted_also)
      (simp_all add: accounted_nothing accounted_individually accounted_finalize)
  have "accounted (?m @ ?v) (fst (apply_operations_direct wc sf ops s))"
  proof (cases "?m = []")
    case True
    then show ?thesis using False one by (simp add: apply_operations_direct_def)
  next
    case moving: False
    obtain r t where r: "try_apply_operations_batched wc ?m s = (r, t)"
      by (cases "try_apply_operations_batched wc ?m s")
    show ?thesis
      using False moving r two [of t "\<not> isl r"] two [of s False]
      by (cases "1 < length ?m") (simp_all add: apply_operations_direct_def Let_def)
  qed
  then show ?thesis by (rule accounted_cong [rotated]) (rule split_hwnds)
qed (simp add: apply_operations_direct_def accounted_nothing)

lemma accounted_animations: "accounted ops (fst (apply_window_switch_animations wc sf ops s))"
  by (auto simp: apply_window_switch_animations_def accounted_nothing accounted_finalize accounted_direct
      split: prod.split sum.split)

lemma normalized_hwnd:
  "normalize_surrogate_presentation_operation wc op s = (Inr o', t) \<Longrightarrow> op_hwnd o' = op_hwnd op"
  by (auto simp: normalize_surrogate_presentation_operation_def native_visible_surrogate_fallback_def Let_def
      act_defs split: if_splits prod.splits sum.splits option.splits)

lemma normalize_all_hwnds: "map op_hwnd (fst (normalize_all wc ops s)) = map op_hwnd ops"
proof (induction ops arbitrary: s)
  case (Cons op ops)
  obtain r t where r: "(normalize_surrogate_presentation_operation wc op s :: (unit + _) \<times> _) = (r, t)"
    by (cases "normalize_surrogate_presentation_operation wc op s :: (unit + apply_operation) \<times> _")
  obtain xs u where "normalize_all wc ops t = (xs, u)" by (cases "normalize_all wc ops t")
  then show ?case using r Cons.IH [of t] by (cases r) (auto dest: normalized_hwnd)
qed simp

text \<open>
  C24: every operation of a batch is accounted for, whatever Windows and the surfaces answer, with or
  without surrogates and animations, in one deferred batch or one by one: as many are attempted as were
  asked for, each of them is counted as applied or has one failure, and the failures name windows of the
  batch, a window no more often than the batch did.
\<close>

theorem every_operation_is_accounted_for:
  "let r = fst (apply_operations wc sf ops s)
   in br_attempted r = length ops \<and> br_applied r + length (br_failures r) = length ops \<and>
      image_mset af_hwnd (mset (br_failures r)) \<subseteq># image_mset op_hwnd (mset ops)"
proof -
  obtain r t where dpi: "ensure_current_thread_per_monitor_v2 wc ''native-apply'' s = (r, t)"
    by (cases "ensure_current_thread_per_monitor_v2 wc ''native-apply'' s")
  obtain xs u where norm: "normalize_all wc ops t = (xs, u)" by (cases "normalize_all wc ops t")
  let ?a = "filter uses_window_switch_animation xs" and ?d = "filter (\<lambda>op. \<not> uses_window_switch_animation op) xs"
  have "accounted (([] @ ?d) @ ?a)
      (fst (also_apply (also_apply (apply_batch_default, u) (apply_operations_direct wc sf ?d))
        (apply_window_switch_animations wc sf ?a)))"
    by (intro accounted_also) (simp_all add: accounted_nothing accounted_direct accounted_animations)
  moreover have "image_mset op_hwnd (mset (([] @ ?d) @ ?a)) = image_mset op_hwnd (mset ops)"
    using split_hwnds [of op_hwnd uses_window_switch_animation xs]
      arg_cong [OF normalize_all_hwnds [of wc ops t], of mset] norm
    by (simp add: union_commute)
  ultimately have whole: "accounted ops
      (fst (also_apply (also_apply (apply_batch_default, u) (apply_operations_direct wc sf ?d))
        (apply_window_switch_animations wc sf ?a)))"
    by (rule accounted_cong [rotated])
  have "accounted ops (fst (apply_operations wc sf ops s))"
  proof (cases r)
    case (Inl message)
    then show ?thesis
      using dpi by (simp add: apply_operations_def accounted_def image_mset.compositionality comp_def)
  next
    case (Inr x)
    then show ?thesis using dpi norm whole by (simp add: apply_operations_def)
  qed
  then show ?thesis by (simp add: accounted_def Let_def)
qed

section \<open>Geometry\<close>

text \<open>A rectangle of Windows on a desktop no larger than a quarter of what coordinates can express.\<close>

definition on_desktop :: "win32_rect \<Rightarrow> bool" where
  "on_desktop r \<longleftrightarrow>
     abs (w_left r) \<le> 2 ^ 29 \<and> abs (w_top r) \<le> 2 ^ 29 \<and> abs (w_right r) \<le> 2 ^ 29 \<and> abs (w_bottom r) \<le> 2 ^ 29"

definition small_rect :: "rect \<Rightarrow> bool" where
  "small_rect r \<longleftrightarrow>
     abs (rect_x r) \<le> 2 ^ 29 \<and> abs (rect_y r) \<le> 2 ^ 29 \<and> rect_width r \<le> 2 ^ 29 \<and> rect_height r \<le> 2 ^ 29"

lemma on_desktop_bounds:
  assumes "on_desktop r"
  shows "- 536870912 \<le> w_left r" "w_left r \<le> 536870912" "- 536870912 \<le> w_top r" "w_top r \<le> 536870912"
    "- 536870912 \<le> w_right r" "w_right r \<le> 536870912" "- 536870912 \<le> w_bottom r" "w_bottom r \<le> 536870912"
  using assms unfolding on_desktop_def abs_le_iff by simp_all

lemma usable_frame_cases:
  "usable_frame outer f = outer \<or> visible_frame_is_compatible outer (usable_frame outer f) \<and> f = Some (usable_frame outer f)"
  by (cases f) (auto simp: usable_frame_def filter_opt_def)

text \<open>The insets are what the frame leaves free on each side.\<close>

lemma frame_insets_exact:
  assumes "on_desktop outer" "\<And>f. frame = Some f \<Longrightarrow> on_desktop f" and v: "v = usable_frame outer frame"
  shows "frame_insets outer v =
     \<lparr>fi_left = w_left v - w_left outer, fi_top = w_top v - w_top outer,
      fi_right = w_right outer - w_right v, fi_bottom = w_bottom outer - w_bottom v\<rparr>"
    and "0 \<le> w_left v - w_left outer" "w_left v - w_left outer \<le> 2 ^ 30"
    and "0 \<le> w_top v - w_top outer" "w_top v - w_top outer \<le> 2 ^ 30"
    and "0 \<le> w_right outer - w_right v" "w_right outer - w_right v \<le> 2 ^ 30"
    and "0 \<le> w_bottom outer - w_bottom v" "w_bottom outer - w_bottom v \<le> 2 ^ 30"
    and "(w_left v - w_left outer) + (w_right outer - w_right v) \<le> 2 ^ 30"
    and "(w_top v - w_top outer) + (w_bottom outer - w_bottom v) \<le> 2 ^ 30"
proof -
  have v_on: "on_desktop v" using assms usable_frame_cases [of outer frame] by metis
  note box = on_desktop_bounds [OF assms(1)] on_desktop_bounds [OF v_on]
  have inside: "w_left outer \<le> w_left v" "w_top outer \<le> w_top v" "w_right v \<le> w_right outer"
    "w_bottom v \<le> w_bottom outer"
    using usable_frame_cases [of outer frame] v by (auto simp: visible_frame_is_compatible_def)
  show b: "0 \<le> w_left v - w_left outer" "w_left v - w_left outer \<le> 2 ^ 30"
    "0 \<le> w_top v - w_top outer" "w_top v - w_top outer \<le> 2 ^ 30"
    "0 \<le> w_right outer - w_right v" "w_right outer - w_right v \<le> 2 ^ 30"
    "0 \<le> w_bottom outer - w_bottom v" "w_bottom outer - w_bottom v \<le> 2 ^ 30"
    using box inside by simp_all
  have "v = outer \<or> w_left v < w_right v \<and> w_top v < w_bottom v"
    using v usable_frame_cases [of outer frame]
    by (auto simp: visible_frame_is_compatible_def rect_is_non_empty_def)
  then show "(w_left v - w_left outer) + (w_right outer - w_right v) \<le> 2 ^ 30"
    "(w_top v - w_top outer) + (w_bottom outer - w_bottom v) \<le> 2 ^ 30"
  proof (atomize (full), elim disjE conjE)
    assume "w_left v < w_right v" "w_top v < w_bottom v"
    then show "(w_left v - w_left outer) + (w_right outer - w_right v) \<le> 2 ^ 30 \<and>
        (w_top v - w_top outer) + (w_bottom outer - w_bottom v) \<le> 2 ^ 30"
      using box by simp
  qed simp
  show "frame_insets outer v =
     \<lparr>fi_left = w_left v - w_left outer, fi_top = w_top v - w_top outer,
      fi_right = w_right outer - w_right v, fi_bottom = w_bottom outer - w_bottom v\<rparr>"
    using b by (simp add: frame_insets_def wrap_i32_id is_i32_def i32_min_def i32_max_def max_def)
qed

lemma sat_small: "abs x \<le> 2 ^ 31 - 1 \<Longrightarrow> sat_i32 x = x"
  by (auto simp: sat_i32_def i32_min_def i32_max_def)

lemma compensated_is_requested:
  assumes "small_rect (op_rect op)"
  shows "compensated_visible_rect op = Inr (op_rect op)"
  using assms
  by (cases "op_rect op") (auto simp: compensated_visible_rect_def Let_def tiled_visual_overlap_x_px_def rect_new_def
      i32_sat_sub_def sat_i32_def i32_min_def i32_max_def small_rect_def)

lemma translated_rect:
  assumes outer: "wc_window_rect wc h (nt_world s) = (Some outer, w1)" "on_desktop outer"
    and frame: "wc_frame_bounds wc h w1 = ((code, f), w2)" "on_desktop f"
    and asked: "small_rect (op_rect op)"
    and v: "v = usable_frame outer (if 0 \<le> code then Some f else None)"
  shows "translated_window_rect wc h op s =
     (Inr \<lparr>tr_x = rect_x (op_rect op) - (w_left v - w_left outer),
           tr_y = rect_y (op_rect op) - (w_top v - w_top outer),
           tr_width = int (rect_width (op_rect op)) + (w_left v - w_left outer) + (w_right outer - w_right v),
           tr_height = int (rect_height (op_rect op)) + (w_top v - w_top outer) + (w_bottom outer - w_bottom v)\<rparr>,
      s\<lparr>nt_world := w2\<rparr>)"
proof -
  define frame_seen where "frame_seen = (if 0 \<le> code then Some f else None)"
  define l where "l = w_left v - w_left outer"
  define t where "t = w_top v - w_top outer"
  define r where "r = w_right outer - w_right v"
  define b where "b = w_bottom outer - w_bottom v"
  have on: "\<And>g. frame_seen = Some g \<Longrightarrow> on_desktop g"
    using frame(2) by (auto simp: frame_seen_def split: if_splits)
  note i = frame_insets_exact [OF outer(2) on v [folded frame_seen_def], folded l_def t_def r_def b_def]
  let ?w = "int (rect_width (op_rect op))" and ?h = "int (rect_height (op_rect op))"
  have sums: "i32_checked_add ?w l = Some (?w + l)" "i32_checked_add (?w + l) r = Some (?w + l + r)"
    "i32_checked_add ?h t = Some (?h + t)" "i32_checked_add (?h + t) b = Some (?h + t + b)"
    "u32_try_i32 (rect_width (op_rect op)) x = Inr ?w" "u32_try_i32 (rect_height (op_rect op)) x = Inr ?h" for x
    using asked i by (auto simp: i32_checked_add_def u32_try_i32_def is_i32_def i32_min_def i32_max_def small_rect_def)
  have place: "i32_sat_sub (rect_x (op_rect op)) l = rect_x (op_rect op) - l"
    "i32_sat_sub (rect_y (op_rect op)) t = rect_y (op_rect op) - t"
    using asked i by (auto simp: i32_sat_sub_def small_rect_def intro!: sat_small)
  show ?thesis
    unfolding l_def [symmetric] t_def [symmetric] r_def [symmetric] b_def [symmetric]
    by (simp add: translated_window_rect_def Let_def query_outer_rect_def query_visible_frame_rect_def sys_def
        act_defs outer(1) frame(1) compensated_is_requested [OF asked] sums place i(1)
        flip: frame_seen_def v [folded frame_seen_def])
qed

text \<open>
  C14: a window is put where its visible part was asked to be. Windows has an outer rectangle for it and a
  frame inside that shows; the operation asks for the frame. On a desktop of ordinary size the translation
  succeeds, and moving the outer rectangle there, with the same margins around the frame, puts the four
  edges of the frame exactly on the requested rectangle. A frame that is empty or sticks out, or that Windows
  does not tell, counts as the whole window.
\<close>

theorem frame_lands_where_asked:
  assumes outer: "wc_window_rect wc h (nt_world s) = (Some outer, w1)" "on_desktop outer"
    and frame: "wc_frame_bounds wc h w1 = ((code, f), w2)" "on_desktop f"
    and asked: "small_rect (op_rect op)"
  shows "\<exists>t. translated_window_rect wc h op s = (Inr t, s\<lparr>nt_world := w2\<rparr>) \<and>
     (let v = usable_frame outer (if 0 \<le> code then Some f else None); r = op_rect op
      in tr_x t + (w_left v - w_left outer) = rect_x r \<and>
         tr_y t + (w_top v - w_top outer) = rect_y r \<and>
         tr_x t + tr_width t - (w_right outer - w_right v) = rect_x r + int (rect_width r) \<and>
         tr_y t + tr_height t - (w_bottom outer - w_bottom v) = rect_y r + int (rect_height r))"
  using translated_rect [OF assms refl] by (simp add: Let_def)

section \<open>The clip mask\<close>

definition in_rect :: "rect \<Rightarrow> int \<Rightarrow> int \<Rightarrow> bool" where
  "in_rect r px py \<longleftrightarrow>
     rect_x r \<le> px \<and> px < rect_x r + int (rect_width r) \<and> rect_y r \<le> py \<and> py < rect_y r + int (rect_height r)"

definition in_region :: "win32_rect \<Rightarrow> int \<Rightarrow> int \<Rightarrow> bool" where
  "in_region r px py \<longleftrightarrow> w_left r \<le> px \<and> px < w_right r \<and> w_top r \<le> py \<and> py < w_bottom r"

lemma edges_exact:
  assumes "small_rect r"
  shows "right_edge r = rect_x r + int (rect_width r)" "bottom_edge r = rect_y r + int (rect_height r)"
  using assms
  by (auto simp: right_edge_def bottom_edge_def small_rect_def u32_clip_i32_def i32_sat_add_def sat_i32_def
      i32_min_def i32_max_def)

text \<open>
  C13: the clip mask shows exactly the clip. Where a region is set, a point of the window's visible frame is
  inside it - in the coordinates of the window, which start at the outer corner, the insets away - exactly when
  the point is in the clip; where none is set, the clip holds the whole frame or none of it. In the last case
  the window stays visible in full, although the clip would show nothing of it.
\<close>

theorem clip_mask_shows_the_clip:
  assumes "small_rect full" "small_rect clip"
    and "0 \<le> fi_left insets" "fi_left insets \<le> 2 ^ 29" "0 \<le> fi_top insets" "fi_top insets \<le> 2 ^ 29"
  shows "case native_clip_region_bounds full clip insets of
      Some r \<Rightarrow> \<forall>px py. in_rect full px py \<longrightarrow>
        in_region r (px - rect_x full + fi_left insets) (py - rect_y full + fi_top insets) = in_rect clip px py
    | None \<Rightarrow> (\<forall>px py. in_rect full px py \<longrightarrow> in_rect clip px py) \<or>
              (\<forall>px py. in_rect full px py \<longrightarrow> \<not> in_rect clip px py)"
proof -
  let ?l = "max (rect_x full) (rect_x clip)" and ?t = "max (rect_y full) (rect_y clip)"
  let ?r = "min (right_edge full) (right_edge clip)" and ?b = "min (bottom_edge full) (bottom_edge clip)"
  note e = edges_exact [OF assms(1)] edges_exact [OF assms(2)]
  have sat: "i32_sat_sub ?r ?l = ?r - ?l" "i32_sat_sub ?b ?t = ?b - ?t"
    "i32_sat_sub ?l (rect_x full) = ?l - rect_x full" "i32_sat_sub ?t (rect_y full) = ?t - rect_y full"
    using assms(1,2) unfolding i32_sat_sub_def e small_rect_def by (auto intro!: sat_small)
  have meet: "in_rect full px py \<and> in_rect clip px py \<longleftrightarrow> ?l \<le> px \<and> px < ?r \<and> ?t \<le> py \<and> py < ?b" for px py
    by (auto simp: in_rect_def e)
  show ?thesis
  proof (cases "?r - ?l \<le> 0 \<or> ?b - ?t \<le> 0")
    case True
    then have none: "native_clip_region_bounds full clip insets = None"
      by (simp add: native_clip_region_bounds_def Let_def sat)
    have "\<not> (in_rect full px py \<and> in_rect clip px py)" for px py unfolding meet using True by auto
    then show ?thesis unfolding none by auto
  next
    case False
    show ?thesis
    proof (cases "?l = rect_x full \<and> ?t = rect_y full \<and> ?r = right_edge full \<and> ?b = bottom_edge full")
      case True
      then have none: "native_clip_region_bounds full clip insets = None"
        by (simp add: native_clip_region_bounds_def Let_def)
      have "in_rect full px py \<longrightarrow> in_rect clip px py" for px py
        using meet [of px py] True by (auto simp: in_rect_def e)
      then show ?thesis unfolding none by simp
    next
      case part: False
      let ?L = "fi_left insets + (?l - rect_x full)" and ?T = "fi_top insets + (?t - rect_y full)"
      have "i32_sat_add (fi_left insets) (?l - rect_x full) = ?L" "i32_sat_add (fi_top insets) (?t - rect_y full) = ?T"
        "i32_sat_add ?L (?r - ?l) = ?L + (?r - ?l)" "i32_sat_add ?T (?b - ?t) = ?T + (?b - ?t)"
        using assms unfolding i32_sat_add_def e small_rect_def by (auto intro!: sat_small)
      then have some: "native_clip_region_bounds full clip insets =
          Some \<lparr>w_left = ?L, w_top = ?T, w_right = ?L + (?r - ?l), w_bottom = ?T + (?b - ?t)\<rparr>"
        using False part by (simp add: native_clip_region_bounds_def Let_def sat)
      have "in_region \<lparr>w_left = ?L, w_top = ?T, w_right = ?L + (?r - ?l), w_bottom = ?T + (?b - ?t)\<rparr>
          (px - rect_x full + fi_left insets) (py - rect_y full + fi_top insets) \<longleftrightarrow>
          ?l \<le> px \<and> px < ?r \<and> ?t \<le> py \<and> py < ?b" for px py
        by (auto simp: in_region_def)
      then show ?thesis unfolding some using meet by (simp only: option.case) blast
    qed
  qed
qed

section \<open>The surrogate worker\<close>

text \<open>An action after which a set of announced windows is not larger.\<close>

definition shrinks :: "('s \<Rightarrow> 'a set) \<Rightarrow> ('s, 'e, 'b) act \<Rightarrow> bool" where
  "shrinks g m \<longleftrightarrow> (\<forall>s. g (snd (m s)) \<subseteq> g s)"

named_theorems shrink_intros "actions that announce no window"

lemma shrinks_run: "shrinks g m \<Longrightarrow> m s = (r, t) \<Longrightarrow> g t \<subseteq> g s"
  by (metis shrinks_def snd_conv)

lemma shrinks_bind [shrink_intros]:
  assumes "shrinks g m" "\<And>x. shrinks g (f x)"
  shows "shrinks g (bindA m f)"
  unfolding shrinks_def
proof
  fix s
  obtain r t where m: "m s = (r, t)" by (cases "m s")
  have "g t \<subseteq> g s" by (rule shrinks_run [OF assms(1) m])
  moreover have "g (snd (f x t)) \<subseteq> g t" for x using assms(2) by (simp add: shrinks_def)
  ultimately show "g (snd (bindA m f s)) \<subseteq> g s"
    by (cases r) (auto simp: bindA_def m)
qed

lemma shrinks_then [shrink_intros]: "shrinks g m \<Longrightarrow> shrinks g k \<Longrightarrow> shrinks g (thenA m k)"
  unfolding thenA_def by (rule shrinks_bind)

lemma shrinks_pure [shrink_intros]:
  "shrinks g (ret x)" "shrinks g (throw e)" "shrinks g (gets f)" "shrinks g (tryA h)"
  by (simp_all add: shrinks_def act_defs)

lemma shrinks_branch [shrink_intros]:
  "(c \<Longrightarrow> shrinks g m) \<Longrightarrow> (\<not> c \<Longrightarrow> shrinks g k) \<Longrightarrow> shrinks g (if c then m else k)"
  "(r = None \<Longrightarrow> shrinks g m) \<Longrightarrow> (\<And>x. r = Some x \<Longrightarrow> shrinks g (f x)) \<Longrightarrow>
     shrinks g (case r of None \<Rightarrow> m | Some x \<Rightarrow> f x)"
  "(\<And>x y. p = (x, y) \<Longrightarrow> shrinks g (q x y)) \<Longrightarrow> shrinks g (case p of (x, y) \<Rightarrow> q x y)"
  by (simp_all split: option.split prod.split)

lemma shrinks_when [shrink_intros]: "shrinks g m \<Longrightarrow> shrinks g (when_do c m)"
  by (simp add: when_do_def shrinks_pure)

lemma shrinks_ignore [shrink_intros]: "shrinks g m \<Longrightarrow> shrinks g (ignore m)"
  unfolding ignore_def by (intro shrink_intros)

lemma shrinks_catch [shrink_intros]: "shrinks g m \<Longrightarrow> shrinks g (catch m)"
  by (simp add: shrinks_def catch_def split: prod.split) (metis snd_conv)

lemma shrinks_sys [shrink_intros]: "shrinks nt_owners (sys f)" "shrinks nt_owners (sys_do f')"
  by (simp_all add: shrinks_def sys_def sys_do_def modify_def split: prod.split)

lemma shrinks_native_writes [shrink_intros]:
  "shrinks nt_owners (update_diagnostics u)" "shrinks nt_owners (clear_presentation_override raw)"
  "shrinks nt_owners (modify (\<lambda>s. s\<lparr>nt_owners := nt_owners s - {raw}\<rparr>))"
  by (auto simp: shrinks_def update_diagnostics_def clear_presentation_override_def modify_def)

abbreviation announced :: "'w clip_worker \<Rightarrow> nat set" where
  "announced k \<equiv> nt_owners (ck_native k)"

lemma shrinks_nat_act [shrink_intros]: "shrinks nt_owners m \<Longrightarrow> shrinks announced (nat_act m)"
  by (simp add: shrinks_def nat_act_def split: prod.split) (metis snd_conv)

lemma shrinks_worker_writes [shrink_intros]:
  "shrinks announced (put_host raw h)" "shrinks announced (modify (\<lambda>k. k\<lparr>ck_states := st k\<rparr>))"
  "shrinks announced (modify (\<lambda>k. k\<lparr>ck_hosts := hs k\<rparr>))"
  by (simp_all add: shrinks_def put_host_def modify_def)

lemma shrinks_parts [shrink_intros]:
  "shrinks nt_owners (last_error_message wc api)"
  "shrinks nt_owners (is_valid_window wc h)"
  "shrinks nt_owners (create_host wc cls owner)"
  "shrinks nt_owners (register_thumbnail wc a b)"
  "shrinks nt_owners (insert_after wc owner)"
  "shrinks nt_owners (log_clip_event wc event raw details)"
  unfolding last_error_message_def last_error_def is_valid_window_def create_host_def register_thumbnail_def
    insert_after_def query_style_def log_clip_event_def Let_def
  by (intro shrink_intros)+

lemma shrinks_show_host [shrink_intros]: "shrinks nt_owners (show_host_window wc label owner h d s)"
  unfolding show_host_window_def by (intro shrink_intros)

lemma shrinks_destroy [shrink_intros]:
  "shrinks announced (destroy_host_window wc w)"
  "shrinks announced (destroy_clipped_window_surrogate wc h)"
  unfolding destroy_host_window_def destroy_clipped_window_surrogate_def
    destroy_clipped_window_surrogate_window_def
  by (intro shrink_intros)+

lemma shrinks_hide: "shrinks announced (hide_clipped_window_surrogate wc raw)"
  unfolding hide_clipped_window_surrogate_def by (intro shrink_intros)

lemma shrinks_display: "shrinks announced (display_surrogate wc raw owner d s n)"
  unfolding display_surrogate_def fresh_host_def by (intro shrink_intros)

text \<open>Displaying a surrogate reports a new one only where the owner had none.\<close>

lemma display_created:
  "display_surrogate wc raw owner d s n k = (Inr True, k') \<Longrightarrow> map_of (ck_hosts k) raw = None"
  by (auto simp: display_surrogate_def act_defs split: prod.splits sum.splits option.splits if_splits)

lemma announce_succeeds: "\<exists>u. announce_surrogate wc raw d s t = (Inr (), u)"
  by (simp add: announce_surrogate_def log_clip_event_def update_diagnostics_def sys_do_def act_defs Let_def)

text \<open>A show announces its owner only when it succeeds and the owner had no host.\<close>

lemma show_announces:
  assumes run: "show_clipped_window_surrogate wc raw d s n k = (r, k')" and new: "raw \<in> announced k'"
  shows "raw \<in> announced k \<or> (map_of (ck_hosts k) raw = None \<and> \<not> isl r)"
proof (cases "raw \<in> announced k")
  case False
  let ?first = "nat_act (update_diagnostics (\<lambda>d. d\<lparr>sd_show_requests := u64_sat_add (sd_show_requests d) 1\<rparr>))
    :: ('w clip_worker, string, unit) act"
  have not_hidden: "raw \<notin> announced (snd (hide_clipped_window_surrogate wc raw j))" if "raw \<notin> announced j" for j
    using shrinks_hide that unfolding shrinks_def by blast
  have "rect_width d \<noteq> 0 \<and> rect_height d \<noteq> 0"
    using run new not_hidden [OF False] by (auto simp: show_clipped_window_surrogate_def split: if_splits)
  then obtain k1 where k1: "k1 = snd (?first k)" and
    run1: "bindA (tryA (\<lambda>_. native_hwnd_from_raw raw)) (\<lambda>owner.
         bindA (nat_act (is_valid_window wc owner)) (\<lambda>valid.
         if \<not> valid then hide_clipped_window_surrogate wc raw
         else bindA (display_surrogate wc raw owner d s n) (\<lambda>created.
           when_do created (nat_act (announce_surrogate wc raw d s))))) k1 = (r, k')"
    using run
    by (simp add: show_clipped_window_surrogate_def thenA_def bindA_def nat_act_def update_diagnostics_def modify_def)
  have k1_same: "announced k1 = announced k" "ck_hosts k1 = ck_hosts k"
    by (simp_all add: k1 nat_act_def update_diagnostics_def modify_def)
  obtain owner where owner: "native_hwnd_from_raw raw = Inr owner"
    using run1 new False k1_same by (cases "native_hwnd_from_raw raw") (auto simp: bindA_def tryA_def)
  obtain v k2 where valid: "(nat_act (is_valid_window wc owner) k1 :: (string + bool) \<times> _) = (v, k2)"
    by (cases "nat_act (is_valid_window wc owner) k1 :: (string + bool) \<times> _")
  have k2: "announced k2 \<subseteq> announced k1" "ck_hosts k2 = ck_hosts k1"
    using shrinks_run [OF shrinks_nat_act [OF shrinks_parts(2)] valid] valid
    by (auto simp: nat_act_def split: prod.splits)
  obtain c k3 where display: "display_surrogate wc raw owner d s n k2 = (c, k3)"
    by (cases "display_surrogate wc raw owner d s n k2")
  have k3: "raw \<notin> announced k3" "raw \<notin> announced k2"
    using shrinks_run [OF shrinks_display display] k2(1) k1_same(1) False by blast+
  have "v = Inr True"
    using run1 new k3 not_hidden [of k2] owner valid
    by (cases v) (auto simp: bindA_def tryA_def split: if_splits)
  then have run2: "bindA (display_surrogate wc raw owner d s n) (\<lambda>created.
      when_do created (nat_act (announce_surrogate wc raw d s))) k2 = (r, k')"
    using run1 owner valid by (simp add: bindA_def tryA_def)
  have c: "c = Inr True"
    using run2 display new k3 by (cases c) (auto simp: bindA_def when_do_def ret_def split: if_splits)
  obtain u where "announce_surrogate wc raw d s (ck_native k3) = ((Inr () :: string + unit), u)"
    using announce_succeeds by blast
  then have "r = Inr ()" using run2 display c by (auto simp: bindA_def when_do_def nat_act_def)
  moreover have "map_of (ck_hosts k2) raw = None" using display_created display c by metis
  ultimately show ?thesis using k2(2) k1_same(2) by simp
qed simp

text \<open>
  C7: a surrogate whose first showing fails is never announced. When the host of a window could be created
  but not shown - its thumbnail was refused, say - the worker keeps the host and reports the error, as it
  should. But the next show takes that host for one already announced: whatever it answers, and even when the
  surrogate then stands on the screen, its window is not among the owners that the adapter reports.
\<close>

theorem failed_first_show_is_never_announced:
  assumes "map_of (ck_hosts k) raw = None" "raw \<notin> nt_owners (ck_native k)"
    and "show_clipped_window_surrogate wc raw d s n k = (Inl e, k1)" "map_of (ck_hosts k1) raw \<noteq> None"
    and "show_clipped_window_surrogate wc raw d' s' n' k1 = (r, k2)"
  shows "raw \<notin> nt_owners (ck_native k2)"
  using show_announces [OF assms(3)] show_announces [OF assms(5)] assms(2,4) by auto

section \<open>A concrete desktop\<close>

text \<open>Every window stands at the same place; the world counts thumbnails, and the first one is refused.\<close>

definition sample_win32 :: "nat win32" where
  "sample_win32 =
     \<lparr>wc_thread_dpi = Pair (-4), wc_set_thread_dpi = (\<lambda>_. id), wc_contexts_equal = (=),
      wc_last_error = Pair 0, wc_now = Pair 0, wc_sleep = (\<lambda>_. id), wc_is_window = (\<lambda>_. Pair True),
      wc_window_rect = (\<lambda>_. Pair (Some \<lparr>w_left = 100, w_top = 100, w_right = 916, w_bottom = 739\<rparr>)),
      wc_frame_bounds = (\<lambda>_. Pair (0, \<lparr>w_left = 108, w_top = 100, w_right = 908, w_bottom = 731\<rparr>)),
      wc_set_window_pos = (\<lambda>_ _ _ _. Pair True), wc_begin_defer = (\<lambda>_. Pair 1),
      wc_defer = (\<lambda>_ _ _ _. Pair 1), wc_end_defer = (\<lambda>_. Pair True), wc_get_long = (\<lambda>_ _. Pair 0),
      wc_set_long = (\<lambda>_ _ _. id), wc_set_layered = (\<lambda>_ _. Pair True), wc_create_region = (\<lambda>_. Pair 1),
      wc_set_region = (\<lambda>_ _. Pair True), wc_delete_object = (\<lambda>_. id), wc_set_dwm = (\<lambda>_ _ _. id),
      wc_current_thread = Pair 1, wc_foreground = Pair 0, wc_window_thread = (\<lambda>_. Pair 2),
      wc_attach = (\<lambda>_ _ _. Pair True), wc_is_iconic = (\<lambda>_. Pair False), wc_show_window = (\<lambda>_ _. id),
      wc_bring_to_top = (\<lambda>_. id), wc_set_active = (\<lambda>_. id), wc_set_focus = (\<lambda>_. id),
      wc_set_foreground = (\<lambda>_. id), wc_send_keys = (\<lambda>_. id), wc_send_mouse = (\<lambda>_. Pair 2),
      wc_class = (\<lambda>_. Pair None), wc_related = (\<lambda>_ _. Pair 0), wc_is_visible = (\<lambda>_. Pair True),
      wc_process = (\<lambda>_. Pair 4), wc_destroy = (\<lambda>_. id), wc_create = (\<lambda>_ _. Pair 50),
      wc_register_thumbnail = (\<lambda>_ _ n. ((if n = 0 then (-1, 0) else (0, 9)), n + 1)),
      wc_update_thumbnail = (\<lambda>_ _. Pair 0), wc_unregister_thumbnail = (\<lambda>_. Pair 0),
      wc_shell_window = Pair 0, wc_log = (\<lambda>_. id)\<rparr>"

definition no_surrogates :: surrogate_diagnostics where
  "no_surrogates =
     \<lparr>sd_active_hosts = 0, sd_show_requests = 0, sd_hide_requests = 0, sd_foreign_scene_active_hosts = 0,
      sd_foreign_scene_show_requests = 0, sd_foreign_scene_hide_requests = 0, sd_foreign_scene_pruned_hosts = 0,
      sd_classifier_rejections = 0, sd_native_fallbacks = 0, sd_transient_escapes = 0,
      sd_handoff_promotions = 0, sd_pointer_replay_attempts = 0, sd_pointer_replay_successes = 0,
      sd_pointer_replay_failures = 0, sd_dwm_thumbnail_backend_uses = 0, sd_last_event = None\<rparr>"

definition sample_native :: "nat native" where
  "sample_native =
     \<lparr>nt_world = 0, nt_layered = {}, nt_visual = Map.empty, nt_masked = {}, nt_diagnostics = no_surrogates,
      nt_overrides = Map.empty, nt_owners = {},
      nt_scene = \<lparr>sn_active_hosts = 0, sn_show_requests = 0, sn_hide_requests = 0, sn_pruned_hosts = 0,
                  sn_dwm_thumbnail_backend_uses = 0, sn_last_event = None\<rparr>,
      nt_scene_owners = {}, nt_browser_owners = {}, nt_dim_owners = {}\<rparr>"

definition sample_worker :: "nat clip_worker" where
  "sample_worker = \<lparr>ck_native = sample_native, ck_hosts = [], ck_states = Map.empty\<rparr>"

definition sample_place :: rect where "sample_place = rect_new 40 60 800 631"

definition sample_move :: "nat \<Rightarrow> apply_operation" where
  "sample_move h =
     \<lparr>op_hwnd = h, op_rect = sample_place, op_apply_geometry = True, op_activate = False,
      op_suppress_visual_gap = False, op_window_switch_animation = None, op_visual_emphasis = None,
      op_presentation = presentation_default\<rparr>"

lemmas sample_defs = sample_win32_def sample_native_def sample_worker_def sample_place_def sample_move_def
  no_surrogates_def

theorem frame_lands_where_asked_witness:
  "\<exists>t. translated_window_rect sample_win32 7 (sample_move 7) sample_native = (Inr t, sample_native) \<and>
     tr_x t + 8 = 40 \<and> tr_y t = 60 \<and> tr_x t + tr_width t - 8 = 840 \<and> tr_y t + tr_height t - 8 = 691"
  using frame_lands_where_asked [of sample_win32 7 sample_native
      "\<lparr>w_left = 100, w_top = 100, w_right = 916, w_bottom = 739\<rparr>" 0 0
      "\<lparr>w_left = 108, w_top = 100, w_right = 908, w_bottom = 731\<rparr>" 0 "sample_move 7"]
  by (simp add: sample_defs on_desktop_def small_rect_def rect_new_def usable_frame_def filter_opt_def
      visible_frame_is_compatible_def rect_is_non_empty_def Let_def)

text \<open>A frame of 100 by 50 whose right part is clipped: one point inside the clip, one outside.\<close>

definition clipped_frame :: rect where "clipped_frame = rect_new 0 0 100 50"

definition right_part :: rect where "right_part = rect_new 60 0 100 50"

definition border :: frame_inset where
  "border = \<lparr>fi_left = 8, fi_top = 0, fi_right = 8, fi_bottom = 8\<rparr>"

theorem clip_mask_shows_the_clip_witness:
  "\<exists>r. native_clip_region_bounds clipped_frame right_part border = Some r \<and>
     in_region r 78 10 \<and> in_rect right_part 70 10 \<and> \<not> in_region r 18 10 \<and> \<not> in_rect right_part 10 10"
proof -
  let ?r = "\<lparr>w_left = 68, w_top = 0, w_right = 108, w_bottom = 50\<rparr>"
  have region: "native_clip_region_bounds clipped_frame right_part border = Some ?r"
    by (simp add: native_clip_region_bounds_def Let_def rect_new_def right_edge_def bottom_edge_def
        i32_sat_add_def i32_sat_sub_def sat_i32_def i32_min_def i32_max_def u32_clip_i32_def
        clipped_frame_def right_part_def border_def)
  have small: "small_rect clipped_frame" "small_rect right_part"
    by (simp_all add: small_rect_def rect_new_def clipped_frame_def right_part_def)
  have inset: "0 \<le> fi_left border" "fi_left border \<le> 2 ^ 29" "0 \<le> fi_top border" "fi_top border \<le> 2 ^ 29"
    by (simp_all add: border_def)
  have points: "in_rect clipped_frame px py \<Longrightarrow>
      in_region ?r (px - rect_x clipped_frame + fi_left border) (py - rect_y clipped_frame + fi_top border)
        = in_rect right_part px py" for px py
    using clip_mask_shows_the_clip [OF small inset] unfolding region by simp
  have "in_region ?r 78 10 = in_rect right_part 70 10" "in_region ?r 18 10 = in_rect right_part 10 10"
    using points [of 70 10] points [of 10 10]
    by (simp_all add: in_rect_def clipped_frame_def border_def rect_new_def)
  moreover have "in_rect right_part 70 10" "\<not> in_rect right_part 10 10"
    by (simp_all add: in_rect_def right_part_def rect_new_def)
  ultimately show ?thesis using region by blast
qed

lemma sample_answers [simp]:
  "wc_is_window sample_win32 h w = (True, w)" "wc_create sample_win32 c h w = (50, w)"
  "wc_register_thumbnail sample_win32 a b w = ((if w = 0 then (-1, 0) else (0, 9)), w + 1)"
  "wc_get_long sample_win32 h i w = (0, w)" "wc_set_window_pos sample_win32 h z p f w = (True, w)"
  "wc_update_thumbnail sample_win32 n q w = (0, w)" "wc_show_window sample_win32 h v w = w"
  "wc_log sample_win32 m w = w"
  by (simp_all add: sample_win32_def)

lemmas worker_steps = show_clipped_window_surrogate_def display_surrogate_def fresh_host_def put_host_def
  nat_act_def is_valid_window_def sys_def sys_do_def update_diagnostics_def create_host_def
  register_thumbnail_def native_hwnd_from_raw_def act_defs when_do_def u64_sat_add_def u64_max_def

theorem failed_first_show_is_never_announced_witness:
  "\<exists>e k1 k2. show_clipped_window_surrogate sample_win32 7 sample_place sample_place sample_place sample_worker
         = (Inl e, k1) \<and>
       show_clipped_window_surrogate sample_win32 7 sample_place sample_place sample_place k1 = (Inr (), k2) \<and>
       ck_hosts k2 = [(7, \<lparr>ho_window = 50, ho_thumbnail = Some 9\<rparr>)] \<and> 7 \<notin> nt_owners (ck_native k2)"
proof -
  let ?show = "show_clipped_window_surrogate sample_win32 7 sample_place sample_place sample_place"
  define k1 where "k1 = sample_worker
    \<lparr>ck_native := sample_native\<lparr>nt_world := 1, nt_diagnostics := no_surrogates\<lparr>sd_show_requests := 1\<rparr>\<rparr>,
     ck_hosts := [(7, \<lparr>ho_window = 50, ho_thumbnail = None\<rparr>)]\<rparr>"
  have first: "?show sample_worker = (Inl (hresult_text ''DwmRegisterThumbnail'' (-1)), k1)"
    by (simp add: worker_steps k1_def sample_worker_def sample_native_def no_surrogates_def sample_place_def
        rect_new_def)
  obtain r k2 where second: "?show k1 = (r, k2)" by (metis prod.exhaust)
  have "r = Inr () \<and> ck_hosts k2 = [(7, \<lparr>ho_window = 50, ho_thumbnail = Some 9\<rparr>)]"
    using second
    by (auto simp: worker_steps k1_def sample_worker_def sample_native_def no_surrogates_def sample_place_def
        rect_new_def show_host_window_def u32_try_i32_def i32_max_def source_edge_def i32_checked_add_def
        is_i32_def i32_min_def insert_after_def query_style_def clear_presentation_override_def)
  moreover have "7 \<notin> nt_owners (ck_native k2)"
    by (rule failed_first_show_is_never_announced [OF _ _ first _ second])
      (simp_all add: sample_worker_def sample_native_def k1_def)
  ultimately show ?thesis using first second by blast
qed

text \<open>
  A window that is gone when a batch is built - its rectangle cannot be read any more - makes the batch
  fail with the deferred positions still open: on a desktop that counts open batches one is left, although
  the operations are then applied one by one.
\<close>

definition counting_win32 :: "nat win32" where
  "counting_win32 = sample_win32
     \<lparr>wc_begin_defer := (\<lambda>_ n. (1, n + 1)), wc_end_defer := (\<lambda>_ n. (True, n - 1)),
      wc_window_rect := (\<lambda>h n.
        (if h = 8 then None else Some \<lparr>w_left = 100, w_top = 100, w_right = 916, w_bottom = 739\<rparr>, n))\<rparr>"

lemma counting_answers [simp]:
  "wc_begin_defer counting_win32 m n = (1, n + 1)" "wc_end_defer counting_win32 b n = (True, n - 1)"
  "wc_window_rect counting_win32 h n =
     (if h = 8 then None else Some \<lparr>w_left = 100, w_top = 100, w_right = 916, w_bottom = 739\<rparr>, n)"
  "wc_frame_bounds counting_win32 h n = ((0, \<lparr>w_left = 108, w_top = 100, w_right = 908, w_bottom = 731\<rparr>), n)"
  "wc_defer counting_win32 b h q f n = (1, n)" "wc_last_error counting_win32 n = (0, n)"
  by (simp_all add: counting_win32_def sample_win32_def)

theorem vanished_window_leaves_the_batch_open:
  "\<exists>e. try_apply_operations_batched counting_win32 [sample_move 7, sample_move 8] sample_native =
     (Inl e, sample_native\<lparr>nt_world := 1\<rparr>)"
proof -
  have moved: "\<exists>t. translated_window_rect counting_win32 7 (sample_move 7) (sample_native\<lparr>nt_world := 1\<rparr>) =
      (Inr t, sample_native\<lparr>nt_world := 1\<rparr>)"
    using translated_rect [of counting_win32 7 "sample_native\<lparr>nt_world := 1\<rparr>"
        "\<lparr>w_left = 100, w_top = 100, w_right = 916, w_bottom = 739\<rparr>" 1 0
        "\<lparr>w_left = 108, w_top = 100, w_right = 908, w_bottom = 731\<rparr>" 1 "sample_move 7"]
    by (simp add: on_desktop_def small_rect_def sample_move_def sample_place_def rect_new_def)
  have gone: "\<exists>e. translated_window_rect counting_win32 8 (sample_move 8) (sample_native\<lparr>nt_world := 1\<rparr>) =
      (Inl e, sample_native\<lparr>nt_world := 1\<rparr>)"
    by (simp add: translated_window_rect_def query_outer_rect_def last_error_message_def last_error_def sys_def
        act_defs Let_def u32_try_i32_def i32_max_def compensated_visible_rect_def sample_move_def
        sample_place_def rect_new_def)
  show ?thesis
    using moved gone
    by (auto simp: try_apply_operations_batched_def i32_max_def act_defs sys_def native_hwnd_from_raw_def
        when_do_def sample_move_def sample_native_def)
qed

end
