(* ===== verification/Spec2Isabelle.thy ===== *)
theory Spec2Isabelle
  imports Reducer_Properties Layout_Properties Window_Properties Workspace_Properties
    Domain_Properties Config_Readers Hotkey_Properties Touchpad_Properties Overview_Properties
    Desktop_Properties Runtime_Properties Runtime_Plan_Properties Observer_Properties
    Control_Properties Native_Properties
begin

text \<open>
  A model of FlowtileWM, a scrolling tiling window manager for Windows written in Rust, and the
  proofs of what it does.

  \<^bold>\<open>The program.\<close> The daemon (\<open>crates/wm-core/src/runtime.rs\<close> and \<open>runtime/*.rs\<close>) scans the
  desktop through the Windows adapter (\<open>crates/windows-adapter\<close>), turns what it sees and what the
  user asks for into domain events (\<open>crates/domain/src/events.rs\<close>) and dispatches them to the
  reducer \<open>StateStore::dispatch\<close> (\<open>crates/wm-core/src/state_store.rs\<close> and \<open>state_store/*.rs\<close>). The
  reducer changes the state \<open>WmState\<close> (\<open>crates/domain/src/model.rs\<close>): monitors own workspace sets,
  a set stacks workspaces, a workspace has a strip of columns and a floating layer, a column holds
  windows. The layout engine (\<open>crates/layout-engine\<close>) turns a workspace into rectangles; the daemon
  plans from them which operations bring the windows of the desktop in line, has the adapter apply
  them, scans again and retries or gives up. Configuration and window rules come from
  \<open>crates/config-rules\<close>; the process \<open>apps/core-daemon\<close> runs the watch loop: it turns
  keys, touchpad strokes, clicks on the overview and requests of clients (\<open>crates/ipc\<close>, \<open>apps/cli\<close>) into
  commands, feeds observations to the daemon, streams its state to subscribers and keeps the overview, the
  tab indicator and the resize preview in step; \<open>crates/diagnostics\<close> records what happened.

  \<^bold>\<open>The model.\<close> Structs are records, enums datatypes, \<open>BTreeMap\<close> tables sorted binding lists
  behind the interface \<open>ordered_map\<close> (Ord_Map), \<open>Result\<close> a sum, and a method that takes
  \<open>&mut self\<close> and may fail an action from a state to a result and the state left behind (Prelude):
  an error keeps the writes made before it, as in Rust. A panic is the error \<open>Panicked\<close>. A
  \<open>HashMap\<close> collected from a list and only looked up is the list, its last entry winning.
  \<^item> Domain_Ids, Domain_Model, Domain_State, Domain_Events: \<open>crates/domain\<close>.
  \<^item> Diagnostics: \<open>crates/diagnostics\<close>. Layout_Engine: \<open>crates/layout-engine\<close>.
  \<^item> Store_Core (lookups, scrolling, membership, focus), Store_Windows (window events, focus
    navigation), Store_Workspaces (\<open>workspace.rs\<close>, \<open>overview.rs\<close>), Store_Width
    (\<open>width_resize.rs\<close>), Store_Modes (\<open>window_modes.rs\<close>), Store_Dispatch (the dispatcher).
  \<^item> Rust_Text, Config_Model, Config_Parse: \<open>crates/config-rules/src/lib.rs\<close>.
  \<^item> Platform_Model (snapshots, operations, the adapter) and Discovery_Assessment (which windows are
    worth managing): \<open>crates/windows-adapter/src/lib.rs\<close>; Machine_Int has the exact rounding of
    the floating point ratios the latter compares.
  \<^item> Window_Filter (\<open>native_snapshot/window_filtering.rs\<close>), Native_Scan (\<open>native_snapshot.rs\<close>),
    Observer_Loop (\<open>native_observer.rs\<close>, \<open>native_observer/event_processing.rs\<close> and the signal of
    \<open>hooks.rs\<close>): scanning the desktop and the thread that watches it, on the answers of Win32.
  \<^item> Native_Window (\<open>window_geometry.rs\<close>, \<open>visual_effects.rs\<close>, \<open>activation.rs\<close>,
    \<open>window_switch_animation.rs\<close>, \<open>dpi.rs\<close>: what is done to one window), Surface_Workers
    (\<open>clipped_window_surrogate.rs\<close>, \<open>window_monitor_scene.rs\<close>) and Browser_Surfaces
    (\<open>browser_dim_overlay.rs\<close>, \<open>browser_visual_surrogate.rs\<close>): the turns of the threads that keep
    surfaces before or over windows; Native_Apply (\<open>native_apply.rs\<close>): batches of operations. Its
    \<open>native_platform\<close> puts them behind the interface the daemon drives.
  \<^item> Runtime_Core (the daemon, its focus claim and waits), Runtime_Plan, Runtime_Commands (start,
    commands, resize gestures, reload): \<open>runtime.rs\<close> and \<open>runtime/config.rs\<close>; Apply_Policy,
    Desktop_Materialization, Runtime_Validation, Runtime_Observation: the files of \<open>runtime/\<close> of the
    same name.
  \<^item> Watch_Commands (\<open>control.rs\<close>), Hotkey_Trigger, Hotkey_Hook (\<open>hotkeys/*.rs\<close>), Touchpad
    (\<open>touchpad/*.rs\<close>), Overview_Engine (\<open>overview_engine.rs\<close>), Tab_Indicator (\<open>tab_indicator.rs\<close>),
    Manual_Resize (\<open>manual_resize.rs\<close>): the inputs and surfaces of \<open>apps/core-daemon/src\<close>.
  \<^item> Snapshot_Projection (\<open>projection.rs\<close>), Ipc_Requests (\<open>ipc.rs\<close>, with the structs of \<open>crates/ipc\<close>),
    Watch_Control (\<open>watch/support.rs\<close>, \<open>commands.rs\<close>, \<open>control_plane.rs\<close>, \<open>overview_controller.rs\<close>),
    Watch_Loop (\<open>watch.rs\<close>, \<open>watch/startup.rs\<close>, \<open>watch/runtime_cycle.rs\<close>, \<open>main.rs\<close>): the process.
    Command_Line: the arguments of the daemon (\<open>cli.rs\<close>) and of the client (\<open>apps/cli/src/main.rs\<close>).

  \<^bold>\<open>Parameters.\<close> What is not under the repository is an argument of the definitions that use it: the
  \<open>kdl\<close> crate (\<open>kdl_api\<close>: names, values, children and text of a node), the file system, the registry
  and \<open>RegisterHotKey\<close>, the Win32 queries of a scan (\<open>desktop\<close>), and the desktop as the daemon
  drives it (\<open>platform\<close>: scanning, applying and clearing run against
  a world they may change in any way, as do the clocks and the files), the Win32 and DWM calls of applying
  (\<open>win32\<close>) and what the surfaces answer to it (\<open>surfaces\<close>), JSON values (\<open>json_api\<close>), and
  the listeners, surfaces and side effects of the process (\<open>watch_env\<close>, \<open>startup_env\<close>: calls on the same
  world that may fail). Nothing is assumed of them. A run of the watch loop takes the rounds of input as a
  list - messages, mouse messages, the pointer, the answer of the observer - so it is finite and every
  prefix of the endless loop is such a run; no fuel is needed anywhere.

  \<^bold>\<open>Machine integers.\<close> A \<open>u32\<close> is a \<open>nat\<close> and an \<open>i32\<close> an \<open>int\<close>, with saturation, casts and
  wrap-around written out (Machine_Int). Counters and versions (\<open>u64\<close>) are unbounded naturals:
  an event every nanosecond would need centuries to overflow them. Instants are nanoseconds.

  \<^bold>\<open>Strings\<close> are lists of bytes of UTF-8; trimming removes the ASCII white space, and lowering a
  string is ASCII lowering, as in the source wherever it says \<open>to_ascii_lowercase\<close>.

  \<^bold>\<open>The proofs.\<close> Store_Views reduces the state to the maps its structure lives in; Membership
  states what windows, columns and workspaces, and monitors and their stacks agree on, with
  one lemma per edit; Store_Invariant puts them together as \<open>wf\<close>. Store_Normalise, Store_Moves and
  the Store_Preserve theories show that every step of every handler keeps it on every branch,
  errors included, and Store_Reachable concludes for every reachable state through the locale
  \<open>machine\<close>. Layout_Facts and Layout_Stacking are about the layout engine, Store_Keeps
  about what a handler leaves alone. Evaluation runs the model on concrete states.
  Runtime_Facts and Runtime_Preserve carry the invariant of the store through every operation of
  the daemon and interpret \<open>machine\<close> a second time, for runs of the daemon; Runtime_Sample has a
  concrete platform and plan. Watch_Properties carries it through the watch loop, with the order of the
  event stream and the ways a part of the loop can end the process, and has the case rule for requests;
  Control_Properties first follows a synchronisation on a desktop without windows.

  \<^bold>\<open>The properties.\<close> Reducer_Properties: the invariants of every reachable state, no panic, clean
  errors. Layout_Properties: completeness and geometry of layouts, scrolling, revealing.
  Window_Properties, Workspace_Properties, Domain_Properties: what single events do, and inputs on
  which the reducer does not do what it means to.
  Config_Properties, Config_Readers: loaded configurations, rules, the two readers. Hotkey_Properties,
  Touchpad_Properties, Overview_Properties: the input machines and the hit test. Desktop_Properties:
  where every window of the desktop goes. Runtime_Properties: every run of the daemon is sound, when it
  gives up, dry runs. Runtime_Plan_Properties: what a plan may touch, and that an obeyed plan settles.
  Observer_Properties: what the observer thread sends. Control_Properties: every run of the process is
  sound and ends in an orderly way, every request is answered, the front ends agree on what a command
  means, and a toggle without a window ends the process. Native_Properties: every operation of a batch
  is accounted for, a window's visible frame lands where it was asked to be, the clip mask shows what it
  should, and which surrogates are never announced; on a concrete desktop, also a batch left open.

  \<^bold>\<open>Not modelled.\<close> Drawing: the surface of the overview, the tab indicator and the resize preview;
  the threads, channels, timeouts and message loops around the modelled workers; the
  registration of hooks, hotkeys and window classes, the named pipes and the JSON text on them, starting and closing other
  programs, and what is only printed or logged: input and output around the modelled core. The scaling
  of the overview computes in floating point and is a parameter of Overview_Engine. The report of a cycle that ends in an error is
  dropped by its callers and is not kept. Where the source looks for its workspace directory, the model
  takes the path it found.
\<close>

end
